(* ===== verification/Prelude.thy ===== *)
theory Prelude
  imports
    Main
    "HOL-Library.List_Lexorder"
    "HOL-Library.Char_ord"
    "HOL-Library.Product_Lexorder"
begin

section \<open>Prelude: results, transactions and generic lemmas\<close>

text \<open>
  Shared vocabulary of the development. A Python function that can raise is a function
  into \<open>'e + 'a\<close>, with \<open>Inl\<close> for the exception and \<open>Inr\<close> for the returned value;
  \<open>res_bind\<close> runs one such function after another and \<open>require\<close> is the
  \<open>if not ...: raise\<close> guard. A body of \<open>with store.transaction()\<close> is a function from
  the database to an exception or a new database with a value; \<open>transaction\<close> is the
  context manager itself, which commits on success and rolls back on any exception.
  The collections \<open>res_simps\<close> and \<open>row_simps\<close> are filled here and by the components.
\<close>

named_theorems res_simps \<open>how a result that is known to be a success came about\<close>
named_theorems row_simps \<open>what a row operation leaves in a table\<close>

subsection \<open>Results\<close>

definition res_bind :: "'e + 'a \<Rightarrow> ('a \<Rightarrow> 'e + 'b) \<Rightarrow> 'e + 'b" where
  "res_bind m f = (case m of Inl e \<Rightarrow> Inl e | Inr x \<Rightarrow> f x)"

definition require :: "bool \<Rightarrow> 'e \<Rightarrow> 'e + unit" where
  "require b e = (if b then Inr () else Inl e)"

definition from_option :: "'e \<Rightarrow> 'a option \<Rightarrow> 'e + 'a" where
  "from_option e x = (case x of None \<Rightarrow> Inl e | Some y \<Rightarrow> Inr y)"

lemma res_bind_simps [simp]:
  "res_bind (Inl e) f = Inl e"
  "res_bind (Inr x) f = f x"
  by (simp_all add: res_bind_def)

lemma require_simps [simp]:
  "require True e = Inr ()"
  "require False e = Inl e"
  by (simp_all add: require_def)

lemma from_option_simps [simp]:
  "from_option e None = Inl e"
  "from_option e (Some x) = Inr x"
  by (simp_all add: from_option_def)

lemma res_bind_Inr [res_simps]:
  "res_bind m f = Inr y \<longleftrightarrow> (\<exists>x. m = Inr x \<and> f x = Inr y)"
  by (cases m) auto

lemma require_Inr [res_simps]: "require b e = Inr u \<longleftrightarrow> b"
  by (simp add: require_def)

lemma require_Inl [res_simps]: "require b e = Inl e' \<longleftrightarrow> \<not> b \<and> e' = e"
  by (auto simp: require_def)

lemma from_option_Inr [res_simps]: "from_option e x = Inr y \<longleftrightarrow> x = Some y"
  by (cases x) auto

lemma res_bind_Inl:
  "res_bind m f = Inl e \<longleftrightarrow> m = Inl e \<or> (\<exists>x. m = Inr x \<and> f x = Inl e)"
  by (cases m) auto

lemma res_bind_require:
  "res_bind (require b e) f = (if b then f () else Inl e)"
  by (simp add: require_def)

lemma res_bind_cong [fundef_cong]:
  "m = m' \<Longrightarrow> (\<And>x. m' = Inr x \<Longrightarrow> f x = f' x) \<Longrightarrow> res_bind m f = res_bind m' f'"
  by (cases m') auto

subsection \<open>Transactions\<close>

text \<open>
  \<open>SqliteStore.transaction\<close>: \<open>BEGIN IMMEDIATE\<close>, run the body, commit; on any exception
  roll back and raise again. \<open>BEGIN IMMEDIATE\<close> takes the write lock first, so the bodies
  of concurrent processes run one after another and each is a single step of the model.
\<close>

definition transaction :: "('db \<Rightarrow> 'e + 'db \<times> 'a) \<Rightarrow> 'db \<Rightarrow> 'db \<times> ('e + 'a)" where
  "transaction body db =
     (case body db of Inl e \<Rightarrow> (db, Inl e) | Inr (db', x) \<Rightarrow> (db', Inr x))"

lemma transaction_rollback: "snd (transaction body db) = Inl e \<Longrightarrow> fst (transaction body db) = db"
  by (auto simp: transaction_def split: sum.splits)

lemma transaction_commit:
  "snd (transaction body db) = Inr x \<longleftrightarrow> body db = Inr (fst (transaction body db), x)"
  by (auto simp: transaction_def split: sum.splits)

lemma transaction_Inr [simp]: "body db = Inr (db', x) \<Longrightarrow> transaction body db = (db', Inr x)"
  by (simp add: transaction_def)

lemma transaction_Inl [simp]: "body db = Inl e \<Longrightarrow> transaction body db = (db, Inl e)"
  by (simp add: transaction_def)

subsection \<open>Python's \<open>or\<close> on optional strings\<close>

text \<open>\<open>value or uuid.uuid4().hex\<close>: both \<open>None\<close> and the empty string take the fresh value.\<close>

definition str_or :: "string option \<Rightarrow> string \<Rightarrow> string" where
  "str_or v fresh = (case v of None \<Rightarrow> fresh | Some s \<Rightarrow> if s = [] then fresh else s)"

lemma str_or_simps [simp]:
  "str_or None f = f"
  "str_or (Some []) f = f"
  "s \<noteq> [] \<Longrightarrow> str_or (Some s) f = s"
  by (simp_all add: str_or_def)

subsection \<open>Reflexive transitive closure\<close>

lemma rtranclp_invariant:
  assumes "step\<^sup>*\<^sup>* s t" and "P s" and "\<And>x y. P x \<Longrightarrow> step x y \<Longrightarrow> P y"
  shows "P t"
  using assms(1,2) by (induction rule: rtranclp_induct) (auto intro: assms(3))

subsection \<open>Lists\<close>

lemma find_Some_iff_unique:
  "find P xs = Some x \<Longrightarrow> x \<in> set xs \<and> P x"
  by (auto simp: find_Some_iff)

lemma find_append:
  "find P (xs @ ys) = (case find P xs of None \<Rightarrow> find P ys | Some x \<Rightarrow> Some x)"
  by (induction xs) auto

lemma find_map_same:
  assumes "\<And>x. P (f x) = P x"
  shows "find P (map f xs) = map_option f (find P xs)"
  by (induction xs) (auto simp: assms)

lemma find_key_None: "find (\<lambda>r. key r = k) t = None \<longleftrightarrow> k \<notin> key ` set t"
  by (induction t) auto

lemma filter_key_Nil: "k \<notin> key ` set t \<Longrightarrow> filter (\<lambda>r. key r = k \<and> p r) t = []"
  by (induction t) auto

lemma Max_insert_le: "finite A \<Longrightarrow> x \<in> A \<Longrightarrow> (x::nat) \<le> Max (insert y A)"
  by (simp add: Max_ge)

lemma distinct_map_filter_append:
  "distinct (map f (xs @ [x])) \<longleftrightarrow> distinct (map f xs) \<and> f x \<notin> f ` set xs"
  by auto

lemma insort_key_append:
  "k y \<le> k x \<Longrightarrow> insort_key k y (zs @ [x]) = insort_key k y zs @ [x]"
  by (induction zs) auto

lemma sort_key_append_last:
  "(\<And>y. y \<in> set xs \<Longrightarrow> k y \<le> k x) \<Longrightarrow> sort_key k (xs @ [x]) = sort_key k xs @ [x]"
  by (induction xs) (simp_all add: insort_key_append)

end
