(* ===== verification/Sql_Table.thy ===== *)
theory Sql_Table
  imports Prelude
begin

section \<open>Tables of rows\<close>

text \<open>
  A SQL table is the list of its rows in storage order. The five statement shapes the
  stores use are the five operations below; uniqueness constraints (\<open>PRIMARY KEY\<close>,
  \<open>UNIQUE\<close>) are a \<open>clash\<close> relation between an inserted row and a stored one, and
  an \<open>INSERT\<close> that clashes is the \<open>sqlite3.IntegrityError\<close> (\<open>None\<close> here).
  The locale \<open>keyed_table\<close> states once what a table with a primary key promises to
  the stores; every table of the model interprets it.
\<close>

definition sql_insert :: "('r \<Rightarrow> 'r \<Rightarrow> bool) \<Rightarrow> 'r \<Rightarrow> 'r list \<Rightarrow> 'r list option" where
  "sql_insert clash r t = (if list_ex (clash r) t then None else Some (t @ [r]))"

definition sql_update :: "('r \<Rightarrow> bool) \<Rightarrow> ('r \<Rightarrow> 'r) \<Rightarrow> 'r list \<Rightarrow> 'r list \<times> nat" where
  "sql_update p f t = (map (\<lambda>r. if p r then f r else r) t, length (filter p t))"

definition sql_delete :: "('r \<Rightarrow> bool) \<Rightarrow> 'r list \<Rightarrow> 'r list \<times> nat" where
  "sql_delete p t = (filter (\<lambda>r. \<not> p r) t, length (filter p t))"

definition sql_select :: "('r \<Rightarrow> bool) \<Rightarrow> ('r \<Rightarrow> 'k::linorder) \<Rightarrow> 'r list \<Rightarrow> 'r list" where
  "sql_select p k t = sort_key k (filter p t)"

text \<open>\<open>ORDER BY k DESC LIMIT 1\<close>: the last row of the ascending order (the key is unique).\<close>

definition sql_latest :: "('r \<Rightarrow> bool) \<Rightarrow> ('r \<Rightarrow> 'k::linorder) \<Rightarrow> 'r list \<Rightarrow> 'r option" where
  "sql_latest p k t = (case sql_select p k t of [] \<Rightarrow> None | x # xs \<Rightarrow> Some (last (x # xs)))"

subsection \<open>What the operations do\<close>

lemma sql_insert_Some [res_simps]:
  "sql_insert clash r t = Some t' \<longleftrightarrow> (\<forall>x \<in> set t. \<not> clash r x) \<and> t' = t @ [r]"
  by (auto simp: sql_insert_def list_ex_iff)

lemma sql_insert_None [res_simps]:
  "sql_insert clash r t = None \<longleftrightarrow> (\<exists>x \<in> set t. clash r x)"
  by (auto simp: sql_insert_def list_ex_iff)

lemma fst_sql_update [row_simps]:
  "fst (sql_update p f t) = map (\<lambda>r. if p r then f r else r) t"
  by (simp add: sql_update_def)

lemma fst_sql_delete [row_simps]: "fst (sql_delete p t) = filter (\<lambda>r. \<not> p r) t"
  by (simp add: sql_delete_def)

lemma set_sql_select [simp]: "set (sql_select p k t) = {r \<in> set t. p r}"
  by (auto simp: sql_select_def)

lemma sorted_sql_select: "sorted (map k (sql_select p k t))"
  by (simp add: sql_select_def)

lemma sql_latest_None: "sql_latest p k t = None \<longleftrightarrow> (\<forall>r \<in> set t. \<not> p r)"
proof -
  have "sql_latest p k t = None \<longleftrightarrow> sql_select p k t = []"
    by (simp add: sql_latest_def split: list.splits)
  also have "\<dots> \<longleftrightarrow> set (sql_select p k t) = {}" by (simp only: set_empty)
  also have "\<dots> \<longleftrightarrow> (\<forall>r \<in> set t. \<not> p r)" by auto
  finally show ?thesis .
qed

lemma sql_latest_Some:
  assumes "sql_latest p k t = Some r"
  shows "r \<in> set t" "p r" "\<And>x. x \<in> set t \<Longrightarrow> p x \<Longrightarrow> k x \<le> k r"
proof -
  let ?s = "sql_select p k t"
  from assms have ne: "?s \<noteq> []" and r: "r = last ?s"
    by (auto simp: sql_latest_def split: list.splits)
  have "r \<in> set ?s" unfolding r using ne by (rule last_in_set)
  then show "r \<in> set t" "p r" by simp_all
  fix x assume x: "x \<in> set t" "p x"
  obtain ys where ys: "?s = ys @ [r]"
    using ne r by (metis append_butlast_last_id)
  have "sorted (map k (ys @ [r]))"
    using sorted_sql_select [of k p t] ys by simp
  moreover have "x \<in> set (ys @ [r])" using x ys [symmetric] by simp
  ultimately show "k x \<le> k r" by (auto simp: sorted_append)
qed

lemma sql_latest_append_other:
  "\<not> p r \<Longrightarrow> sql_latest p k (t @ [r]) = sql_latest p k t"
  by (simp add: sql_latest_def sql_select_def)

lemma sql_latest_append_newest:
  assumes "p r" and "\<And>x. x \<in> set t \<Longrightarrow> p x \<Longrightarrow> k x \<le> k r"
  shows "sql_latest p k (t @ [r]) = Some r"
proof -
  have "sort_key k (filter p t @ [r]) = sort_key k (filter p t) @ [r]"
    by (rule sort_key_append_last) (use assms in auto)
  then have "sql_select p k (t @ [r]) = sql_select p k t @ [r]"
    using assms(1) by (simp add: sql_select_def)
  then show ?thesis by (cases "sql_select p k t") (simp_all add: sql_latest_def)
qed

lemma sql_select_append_newest:
  assumes "p r" and "\<And>x. x \<in> set t \<Longrightarrow> p x \<Longrightarrow> k x \<le> k r"
  shows "sql_select p k (t @ [r]) = sql_select p k t @ [r]"
proof -
  have "sort_key k (filter p t @ [r]) = sort_key k (filter p t) @ [r]"
    by (rule sort_key_append_last) (use assms in auto)
  then show ?thesis using assms(1) by (simp add: sql_select_def)
qed

lemma sql_select_append_other: "\<not> p r \<Longrightarrow> sql_select p k (t @ [r]) = sql_select p k t"
  by (simp add: sql_select_def)

subsection \<open>Tables with a primary key\<close>

text \<open>
  The contract of a table whose rows have a primary key: a lookup function that finds the
  only row of a key, and a clash relation that refuses at least a second row of a key.
\<close>

definition unique_key :: "('r \<Rightarrow> 'k) \<Rightarrow> 'r list \<Rightarrow> bool" where
  "unique_key key t \<longleftrightarrow> distinct (map key t)"

lemma unique_key_Nil [simp]: "unique_key key []"
  by (simp add: unique_key_def)

locale keyed_table =
  fixes key :: "'r \<Rightarrow> 'k"
    and clash :: "'r \<Rightarrow> 'r \<Rightarrow> bool"
    and get_row :: "'k \<Rightarrow> 'r list \<Rightarrow> 'r option"
  assumes get_row: "get_row k t = find (\<lambda>r. key r = k) t"
    and clash_key: "key r = key x \<Longrightarrow> clash r x"
begin

lemma get_row_Some: "get_row k t = Some r \<Longrightarrow> r \<in> set t \<and> key r = k"
  by (auto simp: get_row find_Some_iff)

lemma get_row_key: "get_row k t = Some r \<Longrightarrow> key r = k"
  by (simp add: get_row_Some)

lemma get_row_None: "get_row k t = None \<longleftrightarrow> k \<notin> key ` set t"
  by (auto simp: get_row find_None_iff)

lemma get_row_unique: "unique_key key t \<Longrightarrow> r \<in> set t \<Longrightarrow> get_row (key r) t = Some r"
  by (induction t) (auto simp: get_row unique_key_def image_iff)

lemma unique_same_row: "unique_key key t \<Longrightarrow> r \<in> set t \<Longrightarrow> x \<in> set t \<Longrightarrow> key r = key x \<Longrightarrow> r = x"
  by (metis get_row_unique option.inject)

lemma unique_insert: "unique_key key t \<Longrightarrow> sql_insert clash r t = Some t' \<Longrightarrow> unique_key key t'"
  by (auto simp: unique_key_def sql_insert_Some dest: clash_key)

lemma unique_delete: "unique_key key t \<Longrightarrow> unique_key key (fst (sql_delete p t))"
  by (simp add: unique_key_def sql_delete_def distinct_map_filter)

lemma unique_update: "unique_key key t \<Longrightarrow> (\<And>r. p r \<Longrightarrow> key (f r) = key r) \<Longrightarrow> unique_key key (fst (sql_update p f t))"
  by (simp add: unique_key_def sql_update_def comp_def if_distrib [of key] cong: if_cong)

lemma get_row_insert:
  assumes "sql_insert clash r t = Some t'"
  shows "get_row (key r) t' = Some r"
proof -
  from assms have "key r \<notin> key ` set t" and "t' = t @ [r]"
    by (auto simp: sql_insert_Some dest: clash_key)
  moreover from this have "find (\<lambda>x. key x = key r) t = None"
    by (simp add: find_key_None)
  ultimately show ?thesis by (simp add: get_row find_append)
qed

lemma get_row_insert_other:
  "sql_insert clash r t = Some t' \<Longrightarrow> k \<noteq> key r \<Longrightarrow> get_row k t' = get_row k t"
  by (auto simp: sql_insert_Some get_row find_append split: option.splits)

lemma get_row_append_other: "k \<noteq> key r \<Longrightarrow> get_row k (t @ [r]) = get_row k t"
  by (auto simp: get_row find_append split: option.splits)

lemma get_row_append_kept: "get_row k t = Some x \<Longrightarrow> get_row k (t @ ys) = Some x"
  by (simp add: get_row find_append)

lemma get_row_append_new: "get_row (key r) t = None \<Longrightarrow> get_row (key r) (t @ [r]) = Some r"
  by (simp add: get_row find_append)

lemma get_row_update:
  assumes "\<And>r. key (f r) = key r"
  shows "get_row k (fst (sql_update p f t)) = map_option (\<lambda>r. if p r then f r else r) (get_row k t)"
proof -
  have "find (\<lambda>r. key r = k) (map (\<lambda>r. if p r then f r else r) t)
        = map_option (\<lambda>r. if p r then f r else r) (find (\<lambda>r. key r = k) t)"
    by (rule find_map_same) (simp add: assms)
  then show ?thesis by (simp add: get_row sql_update_def)
qed

lemma get_row_delete:
  assumes "unique_key key t"
  shows "get_row k (fst (sql_delete p t)) =
    (case get_row k t of None \<Rightarrow> None | Some r \<Rightarrow> if p r then None else Some r)"
proof (cases "get_row k t")
  case None
  then have "get_row k (filter (\<lambda>r. \<not> p r) t) = None" by (auto simp: get_row_None)
  with None show ?thesis by (simp add: sql_delete_def)
next
  case (Some r)
  then have r: "r \<in> set t" "key r = k" by (simp_all add: get_row_Some)
  show ?thesis
  proof (cases "p r")
    case True
    then have "k \<notin> key ` set (filter (\<lambda>r. \<not> p r) t)"
      using unique_same_row [OF assms] r by auto
    with True Some show ?thesis by (simp add: get_row_None sql_delete_def)
  next
    case False
    then have "r \<in> set (filter (\<lambda>r. \<not> p r) t)" using r by simp
    moreover have "unique_key key (filter (\<lambda>r. \<not> p r) t)"
      using unique_delete [OF assms, of p] by (simp add: sql_delete_def)
    ultimately show ?thesis using False Some r(2) get_row_unique
      by (fastforce simp: sql_delete_def)
  qed
qed

text \<open>A statement whose condition contains the whole key touches at most one row.\<close>

lemma rows_of_key:
  assumes "unique_key key t"
  shows "length (filter (\<lambda>r. key r = k \<and> p r) t) =
    (case get_row k t of None \<Rightarrow> 0 | Some r \<Rightarrow> if p r then 1 else 0)"
  using assms
proof (induction t)
  case Nil
  then show ?case by (simp add: get_row)
next
  case (Cons x t)
  then have u: "unique_key key t" and x: "key x \<notin> key ` set t" by (auto simp: unique_key_def)
  show ?case
  proof (cases "key x = k")
    case True
    then have "filter (\<lambda>r. key r = k \<and> p r) t = []"
      using x by (simp add: filter_key_Nil)
    with True show ?thesis by (simp add: get_row)
  next
    case False
    with Cons.IH [OF u] show ?thesis by (simp add: get_row)
  qed
qed

end

end
