(* ===== verification/Models.thy ===== *)
theory Models
  imports Sql_Table
begin

section \<open>Records and exceptions of the state stores\<close>

text \<open>
  \<open>workspace_state/models.py\<close>, the rows of \<open>workspace_leases\<close> and
  \<open>workspace_resource_claims\<close>, and the exceptions of \<open>leases.py\<close>, \<open>claims.py\<close>,
  \<open>journal_errors.py\<close>, \<open>filesystem_support.py\<close> and of the file
  operations. An exception keeps its class and, where the code reads it back,
  its attribute; the message text is dropped. An instant is the number of microseconds
  since an epoch (a \<open>datetime\<close> in UTC), so \<open>timedelta\<close> addition is integer addition.
\<close>

type_synonym time = int

text \<open>\<open>hashlib.sha256(token.encode("utf-8")).hexdigest()\<close> is a parameter of the model.\<close>

type_synonym digest = "string \<Rightarrow> string"

record lease_record =
  lease_name :: string
  lease_owner :: string
  lease_token :: string
  lease_fencing_token :: int
  lease_acquired_at :: time
  lease_heartbeat_at :: time
  lease_expires_at :: time
  lease_acquired :: bool

record claim_record =
  claim_resource_key :: string
  claim_owner :: string
  claim_scope :: "string option"
  claim_details :: "string option"
  claim_created_at :: time
  claim_updated_at :: time

text \<open>A row of the lease table has the columns of \<open>LeaseRow\<close>.\<close>

record lease_row =
  row_name :: string
  row_owner :: string
  row_token :: string
  row_fencing_token :: int
  row_acquired_at :: time
  row_heartbeat_at :: time
  row_expires_at :: time

datatype error =
    ValueError
  | RuntimeError
  | IntegrityError
  | LeaseLostError
  | ClaimConflictError claim_record
  | BatchNotFoundError
  | InvalidBatchPhaseTransitionError
  | JournalLeaseMismatchError
  | BatchIdempotencyMismatchError
  | RecoveryAttemptMismatchError
  | RecoveryContextError
  | BatchStartConflictError
  | TypeError
  | NotImplementedError
  | OSError
  | FileNotFoundError
  | FileExistsError
  | UnsafePathError
  | RestoreConflictError
  | BackupContentMismatchError
  | UnsupportedFilesystemMutationError
  | UnsupportedFilesystemBackendError
  | MissingResourceClaimError
  | ResourceClaimAuthorityError claim_record
  | ResourceKeyMismatchError
  | SafeWorkspaceError
  | SafeWorkspaceBusyError
  | ClaimReleaseError
  | ResourceNotClaimedError
  | KeyError
  | IdentityRemoveUnavailableError

text \<open>\<open>_validate_required(name, value)\<close>.\<close>

definition validate_required :: "string \<Rightarrow> error + unit" where
  "validate_required value = (if value = [] then Inl ValueError else Inr ())"

lemma validate_required_Inr [res_simps]: "validate_required v = Inr u \<longleftrightarrow> v \<noteq> []"
  by (simp add: validate_required_def)

lemma validate_required_Cons [simp]: "validate_required (c # cs) = Inr ()"
  by (simp add: validate_required_def)

lemma validate_required_Nil [simp]: "validate_required [] = Inl ValueError"
  by (simp add: validate_required_def)

text \<open>\<open>_lease_token_digest(lease)\<close>.\<close>

definition lease_token_digest :: "digest \<Rightarrow> lease_record \<Rightarrow> string" where
  "lease_token_digest H lease = H (lease_token lease)"

end
