(* ===== verification/Authority.thy ===== *)
theory Authority
  imports Models
begin

section \<open>The interface between leases and the stores they protect\<close>

text \<open>
  What the claim store and the journal rely on when they call \<open>require_current_lease\<close>:
  the holder of a name is unique, and the counter of a name (its fencing token) never goes
  back, so that an authority that has been overtaken is never current again.
  \<open>Leases\<close> interprets the locale for the lease table alone, \<open>Journal_Machine\<close> for the
  whole database.
\<close>

locale fencing_authority =
  fixes invar :: "'db \<Rightarrow> bool"
    and step :: "'db \<Rightarrow> 'db \<Rightarrow> bool"
    and current :: "'db \<Rightarrow> 'l \<Rightarrow> time \<Rightarrow> bool"
    and level :: "'db \<Rightarrow> 'n \<Rightarrow> int"
    and scope_of :: "'l \<Rightarrow> 'n"
    and fence_of :: "'l \<Rightarrow> int"
    and identity :: "'l \<Rightarrow> 'i"
  assumes step_invar: "invar db \<Longrightarrow> step db db' \<Longrightarrow> invar db'"
    and step_level: "invar db \<Longrightarrow> step db db' \<Longrightarrow> level db n \<le> level db' n"
    and current_level: "invar db \<Longrightarrow> current db l t \<Longrightarrow> fence_of l = level db (scope_of l)"
    and current_identity:
      "invar db \<Longrightarrow> current db l t \<Longrightarrow> current db l' t' \<Longrightarrow> scope_of l = scope_of l'
        \<Longrightarrow> identity l = identity l'"
begin

lemma run_invar: "step\<^sup>*\<^sup>* db db' \<Longrightarrow> invar db \<Longrightarrow> invar db'"
  by (erule rtranclp_invariant) (auto intro: step_invar)

lemma run_level: "step\<^sup>*\<^sup>* db db' \<Longrightarrow> invar db \<Longrightarrow> level db n \<le> level db' n"
proof (induction rule: rtranclp_induct)
  case base
  then show ?case by simp
next
  case (step x y)
  then show ?case
    using step_level [of x y n] run_invar [of db x] by (auto intro: order_trans)
qed

lemma superseded:
  assumes "invar db" and "step\<^sup>*\<^sup>* db db'" and "fence_of l < level db (scope_of l)"
  shows "\<not> current db' l t"
proof
  assume "current db' l t"
  with assms(1,2) have "fence_of l = level db' (scope_of l)"
    by (auto intro: current_level run_invar)
  with run_level [OF assms(2,1), of "scope_of l"] assms(3) show False by simp
qed

text \<open>A later holder with a larger counter shuts the earlier one out for good.\<close>

lemma handover:
  assumes "invar db" and "current db l' t'" and "scope_of l' = scope_of l"
    and "fence_of l < fence_of l'" and "step\<^sup>*\<^sup>* db db'"
  shows "\<not> current db' l t"
  using superseded [OF assms(1,5)] current_level [OF assms(1,2)] assms(3,4) by simp

lemma one_holder:
  "invar db \<Longrightarrow> current db l t \<Longrightarrow> current db l' t' \<Longrightarrow> scope_of l = scope_of l'
    \<Longrightarrow> identity l = identity l' \<and> fence_of l = fence_of l'"
  by (metis current_identity current_level)

end

end
