(* ===== verification/Leases.thy ===== *)
theory Leases
  imports Authority
begin

section \<open>Leases\<close>

text \<open>
  \<open>workspace_state/leases.py\<close>: the \<open>LeaseStore\<close> methods over the table
  \<open>workspace_leases\<close>. The SQLAlchemy branch and the \<open>sqlite3\<close> branch of each method
  run the same statements and are one definition here. \<open>secrets.token_hex(16)\<close> is the
  argument \<open>fresh\<close>. The record \<open>lease_db\<close> is extended by the claim store and the
  journal, which live in the same database file.
\<close>

record lease_db =
  lease_table :: "lease_row list"

definition lease_clash :: "lease_row \<Rightarrow> lease_row \<Rightarrow> bool" where
  "lease_clash r x \<longleftrightarrow> row_name r = row_name x"

definition get_lease_row :: "string \<Rightarrow> lease_row list \<Rightarrow> lease_row option" where
  "get_lease_row name t = find (\<lambda>r. row_name r = name) t"

interpretation leases: keyed_table row_name lease_clash get_lease_row
  by unfold_locales (simp_all add: get_lease_row_def lease_clash_def)

definition lease_from_row :: "lease_row \<Rightarrow> bool \<Rightarrow> bool \<Rightarrow> lease_record" where
  "lease_from_row row acquired expose_authority =
     \<lparr>lease_name = row_name row,
      lease_owner = row_owner row,
      lease_token = (if expose_authority then row_token row else []),
      lease_fencing_token = (if expose_authority then row_fencing_token row else 0),
      lease_acquired_at = row_acquired_at row,
      lease_heartbeat_at = row_heartbeat_at row,
      lease_expires_at = row_expires_at row,
      lease_acquired = acquired\<rparr>"

text \<open>The condition shared by \<open>heartbeat\<close>, \<open>release\<close> and \<open>_lease_is_current\<close>.\<close>

definition holds_row :: "lease_record \<Rightarrow> time \<Rightarrow> lease_row \<Rightarrow> bool" where
  "holds_row lease now r \<longleftrightarrow>
     row_name r = lease_name lease \<and>
     row_owner r = lease_owner lease \<and>
     row_token r = lease_token lease \<and>
     row_fencing_token r = lease_fencing_token lease \<and>
     row_expires_at r > now"

definition lease_is_current :: "'a lease_db_scheme \<Rightarrow> lease_record \<Rightarrow> time \<Rightarrow> bool" where
  "lease_is_current db lease now = list_ex (holds_row lease now) (lease_table db)"

definition require_current_lease :: "'a lease_db_scheme \<Rightarrow> lease_record \<Rightarrow> time \<Rightarrow> error + unit" where
  "require_current_lease db lease now = require (lease_is_current db lease now) LeaseLostError"

definition acquire ::
  "string \<Rightarrow> string \<Rightarrow> int \<Rightarrow> string option \<Rightarrow> string \<Rightarrow> time \<Rightarrow> 'a lease_db_scheme
    \<Rightarrow> error + 'a lease_db_scheme \<times> lease_record" where
  "acquire name owner ttl token fresh now db =
    (if ttl \<le> 0 then Inl ValueError
     else
       let expires_at = now + ttl;
           new_token = str_or token fresh
       in case get_lease_row name (lease_table db) of
         Some row \<Rightarrow>
           if row_expires_at row > now then Inr (db, lease_from_row row False False)
           else
             let (t, rowcount) =
                   sql_update (\<lambda>r. row_name r = name \<and> row_expires_at r \<le> now)
                     (\<lambda>r. r\<lparr>row_owner := owner,
                             row_token := new_token,
                             row_fencing_token := row_fencing_token r + 1,
                             row_acquired_at := now,
                             row_heartbeat_at := now,
                             row_expires_at := expires_at\<rparr>) (lease_table db)
             in if rowcount \<noteq> 1
                then (case get_lease_row name t of
                        None \<Rightarrow> Inl RuntimeError
                      | Some current \<Rightarrow> Inr (db\<lparr>lease_table := t\<rparr>, lease_from_row current False False))
                else (case get_lease_row name t of
                        None \<Rightarrow> Inl RuntimeError
                      | Some acquired \<Rightarrow> Inr (db\<lparr>lease_table := t\<rparr>, lease_from_row acquired True True))
       | None \<Rightarrow>
           (case sql_insert lease_clash
                   \<lparr>row_name = name, row_owner = owner, row_token = new_token,
                    row_fencing_token = 1, row_acquired_at = now,
                    row_heartbeat_at = now, row_expires_at = expires_at\<rparr> (lease_table db) of
              None \<Rightarrow>
                (case get_lease_row name (lease_table db) of
                   None \<Rightarrow> Inl IntegrityError
                 | Some current \<Rightarrow> Inr (db, lease_from_row current False False))
            | Some t \<Rightarrow>
                (case get_lease_row name t of
                   None \<Rightarrow> Inl RuntimeError
                 | Some acquired \<Rightarrow> Inr (db\<lparr>lease_table := t\<rparr>, lease_from_row acquired True True))))"

definition active :: "string \<Rightarrow> time \<Rightarrow> 'a lease_db_scheme \<Rightarrow> lease_record option" where
  "active name now db =
    (case get_lease_row name (lease_table db) of
       None \<Rightarrow> None
     | Some row \<Rightarrow>
         let rec = lease_from_row row False False
         in if lease_expires_at rec > now then Some rec else None)"

definition heartbeat ::
  "lease_record \<Rightarrow> int \<Rightarrow> time \<Rightarrow> 'a lease_db_scheme
    \<Rightarrow> error + 'a lease_db_scheme \<times> lease_record option" where
  "heartbeat lease ttl now db =
    (if ttl \<le> 0 then Inl ValueError
     else
       let (t, rowcount) =
             sql_update (holds_row lease now)
               (\<lambda>r. r\<lparr>row_heartbeat_at := now, row_expires_at := now + ttl\<rparr>) (lease_table db)
       in if rowcount \<noteq> 1 then Inr (db\<lparr>lease_table := t\<rparr>, None)
          else case get_lease_row (lease_name lease) t of
                 None \<Rightarrow> Inl RuntimeError
               | Some row \<Rightarrow> Inr (db\<lparr>lease_table := t\<rparr>, Some (lease_from_row row False True)))"

text \<open>The released row keeps its name and fencing token; its token is replaced.\<close>

definition release ::
  "lease_record \<Rightarrow> string \<Rightarrow> time \<Rightarrow> 'a lease_db_scheme \<Rightarrow> error + 'a lease_db_scheme \<times> bool" where
  "release lease fresh now db =
    (let (t, rowcount) =
           sql_update (holds_row lease now)
             (\<lambda>r. r\<lparr>row_heartbeat_at := now, row_expires_at := now, row_token := fresh\<rparr>)
             (lease_table db)
     in Inr (db\<lparr>lease_table := t\<rparr>, rowcount = 1))"

text \<open>\<open>LeaseHeartbeat._heartbeat_once\<close> of \<open>lease_heartbeat.py\<close>: a lost lease is an exception.\<close>

definition heartbeat_once ::
  "lease_record \<Rightarrow> int \<Rightarrow> time \<Rightarrow> 'a lease_db_scheme \<Rightarrow> error + 'a lease_db_scheme \<times> unit" where
  "heartbeat_once lease ttl now db =
    res_bind (heartbeat lease ttl now db) (\<lambda>(db', refreshed).
      case refreshed of None \<Rightarrow> Inl LeaseLostError | Some _ \<Rightarrow> Inr (db', ()))"


subsection \<open>The abstract lease table\<close>

text \<open>
  What the store promises, with a finite map from names to rows in place of a table and
  without the code's defensive branches.
\<close>

type_synonym lease_view = "string \<Rightarrow> lease_row option"

definition lease_view :: "'a lease_db_scheme \<Rightarrow> lease_view" where
  "lease_view db = (\<lambda>n. get_lease_row n (lease_table db))"

definition lease_wf :: "'a lease_db_scheme \<Rightarrow> bool" where
  "lease_wf db \<longleftrightarrow> unique_key row_name (lease_table db)
     \<and> (\<forall>r \<in> set (lease_table db). 1 \<le> row_fencing_token r)"

definition granted_row :: "string \<Rightarrow> string \<Rightarrow> string \<Rightarrow> int \<Rightarrow> time \<Rightarrow> int \<Rightarrow> lease_row" where
  "granted_row name owner token fence now ttl =
     \<lparr>row_name = name, row_owner = owner, row_token = token, row_fencing_token = fence,
      row_acquired_at = now, row_heartbeat_at = now, row_expires_at = now + ttl\<rparr>"

definition spec_acquire ::
  "string \<Rightarrow> string \<Rightarrow> int \<Rightarrow> string \<Rightarrow> time \<Rightarrow> lease_view \<Rightarrow> lease_view \<times> lease_record" where
  "spec_acquire name owner ttl token now m =
    (case m name of
       None \<Rightarrow> (m(name \<mapsto> granted_row name owner token 1 now ttl),
                lease_from_row (granted_row name owner token 1 now ttl) True True)
     | Some row \<Rightarrow>
         if row_expires_at row > now then (m, lease_from_row row False False)
         else (m(name \<mapsto> granted_row name owner token (row_fencing_token row + 1) now ttl),
               lease_from_row
                 (granted_row name owner token (row_fencing_token row + 1) now ttl) True True))"

definition spec_current :: "lease_view \<Rightarrow> lease_record \<Rightarrow> time \<Rightarrow> bool" where
  "spec_current m lease now =
    (case m (lease_name lease) of None \<Rightarrow> False | Some row \<Rightarrow> holds_row lease now row)"

definition spec_heartbeat ::
  "lease_record \<Rightarrow> int \<Rightarrow> time \<Rightarrow> lease_view \<Rightarrow> lease_view \<times> lease_record option" where
  "spec_heartbeat lease ttl now m =
    (case m (lease_name lease) of
       None \<Rightarrow> (m, None)
     | Some row \<Rightarrow>
         if holds_row lease now row
         then let r = row\<lparr>row_heartbeat_at := now, row_expires_at := now + ttl\<rparr>
              in (m(lease_name lease \<mapsto> r), Some (lease_from_row r False True))
         else (m, None))"

definition spec_release :: "lease_record \<Rightarrow> string \<Rightarrow> time \<Rightarrow> lease_view \<Rightarrow> lease_view \<times> bool" where
  "spec_release lease fresh now m =
    (case m (lease_name lease) of
       None \<Rightarrow> (m, False)
     | Some row \<Rightarrow>
         if holds_row lease now row
         then (m(lease_name lease \<mapsto>
                  row\<lparr>row_heartbeat_at := now, row_expires_at := now, row_token := fresh\<rparr>), True)
         else (m, False))"

lemma lease_wf_unique: "lease_wf db \<Longrightarrow> unique_key row_name (lease_table db)"
  by (simp add: lease_wf_def)

lemma lease_wf_fence: "lease_wf db \<Longrightarrow> lease_view db n = Some r \<Longrightarrow> 1 \<le> row_fencing_token r"
  using leases.get_row_Some by (auto simp: lease_wf_def lease_view_def)

lemma lease_view_name: "lease_view db n = Some r \<Longrightarrow> row_name r = n"
  by (simp add: lease_view_def leases.get_row_Some)

lemma lease_view_more [simp]: "lease_view (lease_db.more_update f db) = lease_view db"
  by (simp add: lease_view_def)

lemma lease_wf_view:
  "lease_wf db \<longleftrightarrow> unique_key row_name (lease_table db)
     \<and> (\<forall>n r. lease_view db n = Some r \<longrightarrow> 1 \<le> row_fencing_token r)"
  using leases.get_row_Some leases.get_row_unique
  by (fastforce simp: lease_wf_def lease_view_def)

lemma holds_row_name: "holds_row lease now r \<Longrightarrow> row_name r = lease_name lease"
  by (simp add: holds_row_def)

lemma holds_row_count:
  assumes "lease_wf db"
  shows "length (filter (holds_row lease now) (lease_table db)) =
    (case lease_view db (lease_name lease) of None \<Rightarrow> 0
     | Some r \<Rightarrow> if holds_row lease now r then 1 else 0)"
proof -
  have eq: "(\<lambda>r. row_name r = lease_name lease \<and> holds_row lease now r) = holds_row lease now"
    by (auto simp: holds_row_def)
  show ?thesis
    using leases.rows_of_key [OF lease_wf_unique [OF assms],
        of "lease_name lease" "holds_row lease now"]
    by (simp add: eq lease_view_def)
qed

subsection \<open>Refinement\<close>

lemma is_current_refines:
  assumes "lease_wf db"
  shows "lease_is_current db lease now = spec_current (lease_view db) lease now"
proof
  assume "lease_is_current db lease now"
  then obtain r where r: "r \<in> set (lease_table db)" "holds_row lease now r"
    by (auto simp: lease_is_current_def list_ex_iff)
  then have "get_lease_row (lease_name lease) (lease_table db) = Some r"
    using leases.get_row_unique [OF lease_wf_unique [OF assms], of r] by (simp add: holds_row_def)
  with r show "spec_current (lease_view db) lease now"
    by (simp add: spec_current_def lease_view_def)
next
  assume "spec_current (lease_view db) lease now"
  then show "lease_is_current db lease now"
    by (auto simp: spec_current_def lease_view_def lease_is_current_def list_ex_iff
        dest: leases.get_row_Some split: option.splits)
qed


lemma acquire_new:
  assumes "0 < ttl" and "lease_view db name = None"
  shows "acquire name owner ttl token fresh now db =
    (let r = granted_row name owner (str_or token fresh) 1 now ttl
     in Inr (db\<lparr>lease_table := lease_table db @ [r]\<rparr>, lease_from_row r True True))"
proof -
  let ?r = "granted_row name owner (str_or token fresh) 1 now ttl"
  have none: "get_lease_row name (lease_table db) = None"
    using assms(2) by (simp add: lease_view_def)
  have ins: "sql_insert lease_clash ?r (lease_table db) = Some (lease_table db @ [?r])"
    using none by (auto simp: sql_insert_Some lease_clash_def granted_row_def leases.get_row_None)
  have got: "get_lease_row name (lease_table db @ [?r]) = Some ?r"
    using leases.get_row_append_new [of ?r] none by (simp add: granted_row_def)
  show ?thesis
    using assms(1) none ins got by (simp add: acquire_def granted_row_def Let_def)
qed

lemma acquire_held:
  assumes "0 < ttl" and "lease_view db name = Some row" and "now < row_expires_at row"
  shows "acquire name owner ttl token fresh now db = Inr (db, lease_from_row row False False)"
  using assms by (simp add: acquire_def lease_view_def Let_def)

lemma acquire_expired:
  assumes "lease_wf db" and "0 < ttl" and "lease_view db name = Some row"
    and "row_expires_at row \<le> now"
  obtains t where
    "acquire name owner ttl token fresh now db =
       (let r = granted_row name owner (str_or token fresh) (row_fencing_token row + 1) now ttl
        in Inr (db\<lparr>lease_table := t\<rparr>, lease_from_row r True True))"
    "(\<lambda>n. get_lease_row n t) =
       (lease_view db)(name \<mapsto> granted_row name owner (str_or token fresh) (row_fencing_token row + 1) now ttl)"
    "unique_key row_name t"
proof -
  let ?p = "\<lambda>r. row_name r = name \<and> row_expires_at r \<le> now"
  let ?f = "\<lambda>r. r\<lparr>row_owner := owner, row_token := str_or token fresh,
              row_fencing_token := row_fencing_token r + 1, row_acquired_at := now,
              row_heartbeat_at := now, row_expires_at := now + ttl\<rparr>"
  let ?t = "fst (sql_update ?p ?f (lease_table db))"
  let ?r = "granted_row name owner (str_or token fresh) (row_fencing_token row + 1) now ttl"
  have row: "get_lease_row name (lease_table db) = Some row"
    using assms(3) by (simp add: lease_view_def)
  have cnt: "snd (sql_update ?p ?f (lease_table db)) = 1"
    using leases.rows_of_key [OF lease_wf_unique [OF assms(1)], of name "\<lambda>r. row_expires_at r \<le> now"]
    by (simp add: sql_update_def row assms(4))
  have fr: "?f row = ?r"
    using leases.get_row_Some [OF row] by (cases row) (simp add: granted_row_def)
  have got: "get_lease_row n ?t = map_option (\<lambda>r. if ?p r then ?f r else r) (get_lease_row n (lease_table db))" for n
    by (rule leases.get_row_update) simp
  have got_name: "get_lease_row name ?t = Some ?r"
    using got [of name] fr leases.get_row_Some [OF row] assms(4) by (simp add: row)
  have "get_lease_row n ?t = get_lease_row n (lease_table db)" if "n \<noteq> name" for n
    using got [of n] that
    by (cases "get_lease_row n (lease_table db)") (auto dest: leases.get_row_Some)
  with got_name have view: "(\<lambda>n. get_lease_row n ?t) = (lease_view db)(name \<mapsto> ?r)"
    by (auto simp: fun_eq_iff lease_view_def)
  have uniq: "unique_key row_name ?t"
    by (rule leases.unique_update [OF lease_wf_unique [OF assms(1)]]) simp
  obtain t where upd: "sql_update ?p ?f (lease_table db) = (t, 1)" and t: "?t = t"
    using cnt by (cases "sql_update ?p ?f (lease_table db)") simp
  have "acquire name owner ttl token fresh now db =
      Inr (db\<lparr>lease_table := t\<rparr>, lease_from_row ?r True True)"
    unfolding acquire_def using assms(2,4) row got_name [unfolded t] by (simp add: Let_def upd)
  with view uniq show ?thesis unfolding t by (intro that [of t]) (simp_all add: Let_def)
qed

lemma lease_wf_updI:
  assumes "lease_wf db" and "unique_key row_name t"
    and "(\<lambda>n. get_lease_row n t) = (lease_view db)(name \<mapsto> r)" and "1 \<le> row_fencing_token r"
  shows "lease_wf (db\<lparr>lease_table := t\<rparr>)"
  using assms lease_wf_fence [OF assms(1)]
  by (auto simp: lease_wf_view lease_view_def fun_eq_iff fun_upd_def split: if_splits)

text \<open>
  \<open>acquire\<close> with a positive time to live never raises on a well-formed table: the
  exceptions of its defensive branches are unreachable, and its effect is the abstract one.
\<close>

lemma acquire_refines:
  assumes "lease_wf db" and "0 < ttl"
  shows "\<exists>t rec. acquire name owner ttl token fresh now db = Inr (db\<lparr>lease_table := t\<rparr>, rec)
    \<and> lease_wf (db\<lparr>lease_table := t\<rparr>)
    \<and> (lease_view (db\<lparr>lease_table := t\<rparr>), rec)
       = spec_acquire name owner ttl (str_or token fresh) now (lease_view db)"
proof (cases "lease_view db name")
  case None
  let ?r = "granted_row name owner (str_or token fresh) 1 now ttl"
  let ?t = "lease_table db @ [?r]"
  have view: "(\<lambda>n. get_lease_row n ?t) = (lease_view db)(name \<mapsto> ?r)"
    using leases.get_row_append_new [of ?r] leases.get_row_append_other [of _ ?r] None
    by (auto simp: fun_eq_iff lease_view_def granted_row_def)
  have ins: "sql_insert lease_clash ?r (lease_table db) = Some ?t"
    using None by (auto simp: sql_insert_Some lease_clash_def granted_row_def leases.get_row_None lease_view_def)
  have "lease_wf (db\<lparr>lease_table := ?t\<rparr>)"
    by (rule lease_wf_updI [OF assms(1) leases.unique_insert [OF lease_wf_unique [OF assms(1)] ins] view])
      (simp add: granted_row_def)
  moreover have "lease_view (db\<lparr>lease_table := ?t\<rparr>) = (lease_view db)(name \<mapsto> ?r)"
    using view by (simp add: lease_view_def)
  ultimately show ?thesis
    by (intro exI [of _ ?t]) (simp add: acquire_new [OF assms(2) None] spec_acquire_def None Let_def)
next
  case (Some row)
  show ?thesis
  proof (cases "now < row_expires_at row")
    case True
    then show ?thesis
      using acquire_held [OF assms(2) Some True] assms(1) Some
      by (intro exI [of _ "lease_table db"]) (simp add: spec_acquire_def)
  next
    case False
    then have exp: "row_expires_at row \<le> now" by simp
    obtain t where t:
      "acquire name owner ttl token fresh now db =
         (let r = granted_row name owner (str_or token fresh) (row_fencing_token row + 1) now ttl
          in Inr (db\<lparr>lease_table := t\<rparr>, lease_from_row r True True))"
      "(\<lambda>n. get_lease_row n t) =
         (lease_view db)(name \<mapsto> granted_row name owner (str_or token fresh) (row_fencing_token row + 1) now ttl)"
      "unique_key row_name t"
      by (rule acquire_expired [OF assms Some exp])
    have "lease_wf (db\<lparr>lease_table := t\<rparr>)"
      by (rule lease_wf_updI [OF assms(1) t(3,2)])
        (use lease_wf_fence [OF assms(1) Some] in \<open>simp add: granted_row_def\<close>)
    moreover have "lease_view (db\<lparr>lease_table := t\<rparr>) = (lease_view db)
        (name \<mapsto> granted_row name owner (str_or token fresh) (row_fencing_token row + 1) now ttl)"
      using t(2) by (simp add: lease_view_def)
    ultimately show ?thesis using False Some t(1)
      by (intro exI [of _ t]) (simp add: spec_acquire_def Let_def)
  qed
qed

text \<open>\<open>heartbeat\<close> and \<open>release\<close> rewrite the one row that the lease holds.\<close>

lemma holder_update:
  fixes db :: "'a lease_db_scheme"
  assumes "lease_wf db" and f: "\<And>r. row_name (f r) = row_name r"
    "\<And>r. row_fencing_token (f r) = row_fencing_token r"
  shows "lease_wf (db\<lparr>lease_table := (fst (sql_update (holds_row lease now) f (lease_table db)))\<rparr>)"
    and "(\<lambda>n. get_lease_row n (fst (sql_update (holds_row lease now) f (lease_table db)))) =
      (case lease_view db (lease_name lease) of
         None \<Rightarrow> lease_view db
       | Some row \<Rightarrow> if holds_row lease now row then (lease_view db)(lease_name lease \<mapsto> f row)
                     else lease_view db)"
proof -
  let ?t = "fst (sql_update (holds_row lease now) f (lease_table db))"
  have uniq: "unique_key row_name ?t"
    by (rule leases.unique_update [OF lease_wf_unique [OF assms(1)]]) (simp add: f)
  have got: "get_lease_row n ?t =
      map_option (\<lambda>r. if holds_row lease now r then f r else r) (lease_view db n)" for n
    unfolding lease_view_def by (rule leases.get_row_update) (simp add: f)
  show "lease_wf (db\<lparr>lease_table := ?t\<rparr>)"
    using uniq got lease_wf_fence [OF assms(1)]
    by (auto simp: lease_wf_view lease_view_def f split: option.splits if_splits)
  show "(\<lambda>n. get_lease_row n ?t) =
      (case lease_view db (lease_name lease) of
         None \<Rightarrow> lease_view db
       | Some row \<Rightarrow> if holds_row lease now row then (lease_view db)(lease_name lease \<mapsto> f row)
                     else lease_view db)"
  proof
    fix n
    have "map_option (\<lambda>r. if holds_row lease now r then f r else r) (lease_view db n) = lease_view db n"
      if "n \<noteq> lease_name lease"
      using that by (cases "lease_view db n") (auto dest: lease_view_name holds_row_name)
    then show "get_lease_row n ?t = (case lease_view db (lease_name lease) of
         None \<Rightarrow> lease_view db
       | Some row \<Rightarrow> if holds_row lease now row then (lease_view db)(lease_name lease \<mapsto> f row)
                     else lease_view db) n"
      using got [of n] by (cases "n = lease_name lease") (auto split: option.splits)
  qed
qed

lemma heartbeat_refines:
  assumes "lease_wf db" and "0 < ttl"
  shows "\<exists>t rec. heartbeat lease ttl now db = Inr (db\<lparr>lease_table := t\<rparr>, rec)
    \<and> lease_wf (db\<lparr>lease_table := t\<rparr>)
    \<and> (lease_view (db\<lparr>lease_table := t\<rparr>), rec) = spec_heartbeat lease ttl now (lease_view db)"
proof -
  let ?f = "\<lambda>r. r\<lparr>row_heartbeat_at := now, row_expires_at := now + ttl\<rparr>"
  let ?u = "sql_update (holds_row lease now) ?f (lease_table db)"
  note upd = holder_update [OF assms(1), of ?f lease now, simplified]
  have cnt: "snd ?u = (case lease_view db (lease_name lease) of None \<Rightarrow> 0
      | Some r \<Rightarrow> if holds_row lease now r then 1 else 0)"
    by (simp add: sql_update_def holds_row_count [OF assms(1)])
  have view: "get_lease_row n (fst ?u) = (case lease_view db (lease_name lease) of
         None \<Rightarrow> lease_view db
       | Some row \<Rightarrow> if holds_row lease now row then (lease_view db)(lease_name lease \<mapsto> ?f row)
                     else lease_view db) n" for n
    by (rule fun_cong [OF upd(2)])
  obtain t c where tc: "?u = (t, c)" by (cases ?u)
  show ?thesis
    using assms(2) cnt view upd tc
    by (intro exI [of _ t])
      (auto simp: heartbeat_def spec_heartbeat_def lease_view_def Let_def split: option.splits)
qed

lemma release_refines:
  assumes "lease_wf db"
  shows "\<exists>t b. release lease fresh now db = Inr (db\<lparr>lease_table := t\<rparr>, b)
    \<and> lease_wf (db\<lparr>lease_table := t\<rparr>)
    \<and> (lease_view (db\<lparr>lease_table := t\<rparr>), b) = spec_release lease fresh now (lease_view db)"
proof -
  let ?f = "\<lambda>r. r\<lparr>row_heartbeat_at := now, row_expires_at := now, row_token := fresh\<rparr>"
  let ?u = "sql_update (holds_row lease now) ?f (lease_table db)"
  note upd = holder_update [OF assms(1), of ?f lease now, simplified]
  have cnt: "snd ?u = (case lease_view db (lease_name lease) of None \<Rightarrow> 0
      | Some r \<Rightarrow> if holds_row lease now r then 1 else 0)"
    by (simp add: sql_update_def holds_row_count [OF assms])
  obtain t c where tc: "?u = (t, c)" by (cases ?u)
  show ?thesis
    using cnt upd tc
    by (intro exI [of _ t])
      (auto simp: release_def spec_release_def lease_view_def Let_def split: option.splits)
qed


subsection \<open>Histories of lease operations\<close>

text \<open>
  Any number of processes call the store in any order, with any clock reading and any lease
  record, also forged or stale ones. \<open>F\<close> holds the values that \<open>secrets.token_hex\<close>
  returns when a lease is released.
\<close>

inductive lease_step :: "string set \<Rightarrow> 'a lease_db_scheme \<Rightarrow> 'a lease_db_scheme \<Rightarrow> bool"
  for F :: "string set" where
  step_acquire: "acquire name owner ttl token fresh now db = Inr (db', rec) \<Longrightarrow> lease_step F db db'"
| step_heartbeat: "heartbeat lease ttl now db = Inr (db', refreshed) \<Longrightarrow> lease_step F db db'"
| step_release: "release lease fresh now db = Inr (db', released) \<Longrightarrow> fresh \<in> F \<Longrightarrow> lease_step F db db'"

definition lease_level :: "'a lease_db_scheme \<Rightarrow> string \<Rightarrow> int" where
  "lease_level db n = (case lease_view db n of None \<Rightarrow> 0 | Some r \<Rightarrow> row_fencing_token r)"

definition lease_identity :: "lease_record \<Rightarrow> string \<times> string" where
  "lease_identity l = (lease_owner l, lease_token l)"

text \<open>How one row may change: a new grant, or the same grant with the same or a fresh token.\<close>

definition row_evolves :: "string set \<Rightarrow> lease_row \<Rightarrow> lease_row \<Rightarrow> bool" where
  "row_evolves F r r' \<longleftrightarrow> row_fencing_token r < row_fencing_token r'
     \<or> row_fencing_token r = row_fencing_token r' \<and> row_owner r = row_owner r'
        \<and> (row_token r' = row_token r \<or> row_token r' \<in> F)"

lemma row_evolves_refl [simp]: "row_evolves F r r"
  by (simp add: row_evolves_def)

lemma row_evolves_fence: "row_evolves F r r' \<Longrightarrow> row_fencing_token r \<le> row_fencing_token r'"
  by (auto simp: row_evolves_def)

lemma acquire_ok_ttl: "acquire name owner ttl token fresh now db = Inr x \<Longrightarrow> 0 < ttl"
  by (simp add: acquire_def split: if_splits)

lemma heartbeat_ok_ttl: "heartbeat lease ttl now db = Inr x \<Longrightarrow> 0 < ttl"
  by (simp add: heartbeat_def split: if_splits)

lemma acquire_ok:
  assumes "lease_wf db" and "acquire name owner ttl token fresh now db = Inr (db', rec)"
  shows "\<exists>t. db' = db\<lparr>lease_table := t\<rparr>" "lease_wf db'"
    "lease_view db' = fst (spec_acquire name owner ttl (str_or token fresh) now (lease_view db))"
    "rec = snd (spec_acquire name owner ttl (str_or token fresh) now (lease_view db))"
  using acquire_refines [OF assms(1) acquire_ok_ttl [OF assms(2)], of name owner token fresh now]
    assms(2) by (auto simp: prod_eq_iff)

lemma heartbeat_ok:
  assumes "lease_wf db" and "heartbeat lease ttl now db = Inr (db', rec)"
  shows "\<exists>t. db' = db\<lparr>lease_table := t\<rparr>" "lease_wf db'"
    "lease_view db' = fst (spec_heartbeat lease ttl now (lease_view db))"
    "rec = snd (spec_heartbeat lease ttl now (lease_view db))"
  using heartbeat_refines [OF assms(1) heartbeat_ok_ttl [OF assms(2)], of lease now]
    assms(2) by (auto simp: prod_eq_iff)

lemma release_ok:
  assumes "lease_wf db" and "release lease fresh now db = Inr (db', b)"
  shows "\<exists>t. db' = db\<lparr>lease_table := t\<rparr>" "lease_wf db'"
    "lease_view db' = fst (spec_release lease fresh now (lease_view db))"
    "b = snd (spec_release lease fresh now (lease_view db))"
  using release_refines [OF assms(1), of lease fresh now] assms(2) by (auto simp: prod_eq_iff)

lemma lease_step_wf: "lease_step F db db' \<Longrightarrow> lease_wf db \<Longrightarrow> lease_wf db'"
  by (induction rule: lease_step.induct) (auto intro: acquire_ok heartbeat_ok release_ok)

lemma lease_step_frame: "lease_step F db db' \<Longrightarrow> lease_wf db \<Longrightarrow> \<exists>t. db' = db\<lparr>lease_table := t\<rparr>"
  by (induction rule: lease_step.induct) (auto dest: acquire_ok(1) heartbeat_ok(1) release_ok(1))

lemma lease_step_row:
  assumes "lease_step F db db'" and "lease_wf db" and "lease_view db n = Some r"
  shows "\<exists>r'. lease_view db' n = Some r' \<and> row_evolves F r r'"
  using assms
proof (induction rule: lease_step.induct)
  case (step_acquire name owner ttl token fresh now db db' rec)
  then show ?case
    using acquire_ok(3) [OF step_acquire(2,1)]
    by (auto simp: spec_acquire_def granted_row_def row_evolves_def split: option.splits if_splits)
next
  case (step_heartbeat lease ttl now db db' refreshed)
  then show ?case
    using heartbeat_ok(3) [OF step_heartbeat(2,1)]
    by (auto simp: spec_heartbeat_def Let_def row_evolves_def split: option.splits if_splits)
next
  case (step_release lease fresh now db db' released)
  then show ?case
    using release_ok(3) [OF step_release(3,1)]
    by (auto simp: spec_release_def row_evolves_def split: option.splits if_splits)
qed

lemma lease_step_level:
  assumes "lease_wf db" and "lease_step F db db'"
  shows "lease_level db n \<le> lease_level db' n"
proof (cases "lease_view db n")
  case None
  then show ?thesis
    using lease_wf_fence [OF lease_step_wf [OF assms(2,1)], of n]
    by (fastforce simp: lease_level_def split: option.splits)
next
  case (Some r)
  then show ?thesis
    using lease_step_row [OF assms(2,1) Some] row_evolves_fence
    by (fastforce simp: lease_level_def)
qed

lemma current_row:
  assumes "lease_wf db" and "lease_is_current db l t"
  obtains r where "lease_view db (lease_name l) = Some r" "holds_row l t r"
  using assms by (auto simp: is_current_refines spec_current_def split: option.splits)

interpretation lease_auth: fencing_authority
  lease_wf "lease_step F" lease_is_current lease_level lease_name lease_fencing_token lease_identity
proof unfold_locales
  fix db db' :: "'a lease_db_scheme" and n
  assume "lease_wf db" and "lease_step F db db'"
  then show "lease_wf db'" and "lease_level db n \<le> lease_level db' n"
    by (auto intro: lease_step_wf lease_step_level)
next
  fix db :: "'a lease_db_scheme" and l t
  assume "lease_wf db" and "lease_is_current db l t"
  then show "lease_fencing_token l = lease_level db (lease_name l)"
    by (rule current_row) (simp add: lease_level_def holds_row_def)
next
  fix db :: "'a lease_db_scheme" and l t l' t'
  assume wf: "lease_wf db" and l: "lease_is_current db l t" and l': "lease_is_current db l' t'"
    and eq: "lease_name l = lease_name l'"
  obtain r where r: "lease_view db (lease_name l) = Some r" "holds_row l t r"
    using wf l by (rule current_row)
  obtain r' where r': "lease_view db (lease_name l') = Some r'" "holds_row l' t' r'"
    using wf l' by (rule current_row)
  show "lease_identity l = lease_identity l'"
    using r r' eq by (auto simp: lease_identity_def holds_row_def)
qed


subsection \<open>A revoked lease\<close>

definition revoked :: "'a lease_db_scheme \<Rightarrow> lease_record \<Rightarrow> bool" where
  "revoked db l \<longleftrightarrow> (\<exists>r. lease_view db (lease_name l) = Some r \<and>
     (lease_fencing_token l < row_fencing_token r
      \<or> lease_fencing_token l = row_fencing_token r \<and> lease_token l \<noteq> row_token r))"

lemma revoked_not_current: "lease_wf db \<Longrightarrow> revoked db l \<Longrightarrow> \<not> lease_is_current db l t"
  by (auto simp: revoked_def is_current_refines spec_current_def holds_row_def)

lemma revoked_step:
  assumes "lease_wf db" and "revoked db l" and "lease_step F db db'" and "lease_token l \<notin> F"
  shows "revoked db' l"
proof -
  obtain r where r: "lease_view db (lease_name l) = Some r"
    "lease_fencing_token l < row_fencing_token r
      \<or> lease_fencing_token l = row_fencing_token r \<and> lease_token l \<noteq> row_token r"
    using assms(2) by (auto simp: revoked_def)
  obtain r' where "lease_view db' (lease_name l) = Some r'" "row_evolves F r r'"
    using lease_step_row [OF assms(3,1) r(1)] by auto
  then show ?thesis using r(2) assms(4) by (auto simp: revoked_def row_evolves_def)
qed

lemma revoked_run:
  "(lease_step F)\<^sup>*\<^sup>* db db' \<Longrightarrow> lease_wf db \<Longrightarrow> revoked db l \<Longrightarrow> lease_token l \<notin> F
    \<Longrightarrow> revoked db' l"
  by (induction rule: rtranclp_induct) (auto intro: revoked_step lease_auth.run_invar)

lemma release_true:
  assumes "lease_wf db" and "release l fresh now db = Inr (db', b)"
  shows "b \<longleftrightarrow> lease_is_current db l now"
    and "b \<Longrightarrow> lease_token l \<noteq> fresh \<Longrightarrow> revoked db' l"
proof -
  show "b \<longleftrightarrow> lease_is_current db l now"
    using release_ok(4) [OF assms] assms(1)
    by (auto simp: spec_release_def is_current_refines spec_current_def split: option.splits)
  then show "b \<Longrightarrow> lease_token l \<noteq> fresh \<Longrightarrow> revoked db' l"
    using release_ok(3) [OF assms] assms(1)
    by (auto simp: spec_release_def is_current_refines spec_current_def revoked_def holds_row_def
        split: option.splits)
qed

lemma lease_wf_empty: "lease_table db = [] \<Longrightarrow> lease_wf db"
  by (simp add: lease_wf_def)

lemma lease_run_wf: "(lease_step F)\<^sup>*\<^sup>* db db' \<Longrightarrow> lease_table db = [] \<Longrightarrow> lease_wf db'"
  using lease_auth.run_invar lease_wf_empty by blast

lemma current_iff:
  "lease_wf db \<Longrightarrow> lease_is_current db l t \<longleftrightarrow>
    (\<exists>r. lease_view db (lease_name l) = Some r \<and> holds_row l t r)"
  by (auto simp: is_current_refines spec_current_def split: option.splits)

lemma level_Some: "lease_view db n = Some r \<Longrightarrow> lease_level db n = row_fencing_token r"
  by (simp add: lease_level_def)

subsection \<open>Properties\<close>

text \<open>A concrete table for the witnesses: worker w1 holds ws from 0 to 10.\<close>

definition demo_row :: lease_row where
  "demo_row = granted_row ''ws'' ''w1'' ''t1'' 1 0 10"

definition demo_leases :: lease_db where
  "demo_leases = \<lparr>lease_table = [demo_row]\<rparr>"

definition demo_lease :: lease_record where
  "demo_lease = lease_from_row demo_row True True"

lemmas lease_eval = demo_leases_def demo_lease_def demo_row_def granted_row_def lease_from_row_def
  acquire_def heartbeat_def release_def active_def lease_is_current_def holds_row_def
  get_lease_row_def sql_update_def sql_insert_def lease_clash_def Let_def

lemma demo_wf: "lease_wf demo_leases"
  by (simp add: lease_wf_def unique_key_def lease_eval)

lemma demo_acquired: "acquire ''ws'' ''w1'' 10 (Some ''t1'') [] 0 \<lparr>lease_table = []\<rparr> = Inr (demo_leases, demo_lease)"
  by (simp add: lease_eval)

lemma demo_current: "lease_is_current demo_leases demo_lease 5"
  by (simp add: lease_eval)

text \<open>
  C2. \<open>acquire\<close> with a positive time to live on a well-formed table never raises, whatever
  the clock says, and does exactly what the abstract lease table does: an unexpired row is
  reported without authority and left alone, an expired row is regranted with the next
  fencing token, a missing row is granted with fencing token 1. In particular the
  IntegrityError and the "lease disappeared" branches of the code cannot be reached.
\<close>

theorem acquire_implements_spec:
  assumes "lease_wf db" and "0 < ttl"
  shows "\<exists>t rec. acquire name owner ttl token fresh now db = Inr (db\<lparr>lease_table := t\<rparr>, rec)
    \<and> lease_wf (db\<lparr>lease_table := t\<rparr>)
    \<and> (lease_view (db\<lparr>lease_table := t\<rparr>), rec)
       = spec_acquire name owner ttl (str_or token fresh) now (lease_view db)"
  using assms by (rule acquire_refines)

theorem acquire_implements_spec_witness:
  "\<exists>t rec. acquire ''ws'' ''w2'' 10 None ''t2'' 20 demo_leases
      = Inr (demo_leases\<lparr>lease_table := t\<rparr>, rec)
    \<and> lease_fencing_token rec = 2 \<and> lease_token rec = ''t2'' \<and> lease_acquired rec"
  using acquire_implements_spec [OF demo_wf, of 10 "''ws''" "''w2''" None "''t2''" 20]
  by (auto simp: spec_acquire_def lease_view_def lease_eval)

text \<open>
  A granted lease is authority, a refused one is not. If \<open>acquire\<close> reports
  \<open>acquired\<close>, the record is current for every clock reading before its expiry, carries a
  fencing token larger than the counter before the call, and no lease record that was current
  under that name before can be current in the new database. If it does not, the table is
  unchanged and the record handed out (token empty, fencing token 0) is never current.
\<close>

theorem acquire_authority:
  assumes "lease_wf db" and "acquire name owner ttl token fresh now db = Inr (db', rec)"
  shows "if lease_acquired rec
    then (\<forall>t. t < now + ttl \<longrightarrow> lease_is_current db' rec t)
      \<and> lease_fencing_token rec = lease_level db name + 1
      \<and> (\<forall>l t t'. lease_name l = name \<longrightarrow> lease_is_current db l t \<longrightarrow> \<not> lease_is_current db' l t')
    else db' = db \<and> (\<forall>t. \<not> lease_is_current db' rec t)"
proof -
  note wf = assms(1) and wf' = acquire_ok(2) [OF assms]
  consider (new) "lease_view db name = None"
    | (held) r where "lease_view db name = Some r" "now < row_expires_at r"
    | (expired) r where "lease_view db name = Some r" "row_expires_at r \<le> now"
    by (metis not_less option.exhaust)
  then show ?thesis
  proof cases
    case new
    then show ?thesis
      using acquire_ok(3,4) [OF assms]
      by (auto simp: spec_acquire_def current_iff [OF wf] current_iff [OF wf'] lease_from_row_def
          granted_row_def holds_row_def lease_level_def)
  next
    case held
    have db': "db' = db" and rec: "rec = lease_from_row r False False"
      using acquire_held [OF acquire_ok_ttl [OF assms(2)] held, of owner token fresh] assms(2) by auto
    have "\<not> lease_is_current db rec t" for t
      using lease_wf_fence [OF wf held(1)] held(1) lease_view_name [OF held(1)]
      by (auto simp: current_iff [OF wf] rec lease_from_row_def holds_row_def)
    with db' rec show ?thesis by (simp add: lease_from_row_def)
  next
    case expired
    then show ?thesis
      using acquire_ok(3,4) [OF assms]
      by (auto simp: spec_acquire_def current_iff [OF wf] current_iff [OF wf'] lease_from_row_def
          granted_row_def holds_row_def lease_level_def)
  qed
qed

theorem acquire_authority_witness:
  "acquire ''ws'' ''w2'' 10 None ''t2'' 5 demo_leases
     = Inr (demo_leases, lease_from_row demo_row False False)
   \<and> \<not> lease_is_current demo_leases (lease_from_row demo_row False False) 5"
proof -
  have a: "acquire ''ws'' ''w2'' 10 None ''t2'' 5 demo_leases
     = Inr (demo_leases, lease_from_row demo_row False False)"
    by (simp add: lease_eval)
  show ?thesis using acquire_authority [OF demo_wf a] a by (simp add: lease_from_row_def)
qed

text \<open>
  C3. A superseded worker stays fenced off. Once any lease record of a name has been current
  with a larger fencing token, an older record of that name is never current again, after any
  further history of lease operations and for any clock reading.
\<close>

theorem superseded_lease_never_current:
  assumes "lease_wf db" and "lease_is_current db l' t'" and "lease_name l' = lease_name l"
    and "lease_fencing_token l < lease_fencing_token l'" and "(lease_step F)\<^sup>*\<^sup>* db db'"
  shows "\<not> lease_is_current db' l t"
  using lease_auth.handover [OF assms] .

theorem superseded_lease_never_current_witness:
  "\<not> lease_is_current demo_leases (demo_lease\<lparr>lease_fencing_token := 0\<rparr>) 3"
  using superseded_lease_never_current [OF demo_wf demo_current, of "demo_lease\<lparr>lease_fencing_token := 0\<rparr>" "{}"]
  by (simp add: lease_eval)

text \<open>
  C4. A released lease stays released, even for a heartbeat that read its clock before the
  release and reaches the store later: if \<open>release\<close> returned \<open>True\<close> and the replacement
  tokens drawn by this and later releases differ from the released lease's token, the lease is
  not current in any later database, for any clock reading, and no heartbeat renews it.
\<close>

theorem released_lease_never_renewed:
  assumes "lease_wf db" and "release l fresh now db = Inr (db1, True)"
    and "fresh \<noteq> lease_token l" and "(lease_step F)\<^sup>*\<^sup>* db1 db2" and "lease_token l \<notin> F"
  shows "\<not> lease_is_current db2 l t \<and> (0 < ttl \<longrightarrow> heartbeat l ttl t db2 = Inr (db2, None))"
proof -
  have wf1: "lease_wf db1" by (rule release_ok(2) [OF assms(1,2)])
  then have wf2: "lease_wf db2" by (rule lease_auth.run_invar [OF assms(4)])
  have "revoked db2 l"
    using revoked_run [OF assms(4) wf1 release_true(2) [OF assms(1,2)] assms(5)] assms(3) by simp
  then have no: "\<not> lease_is_current db2 l t" by (rule revoked_not_current [OF wf2])
  then have "filter (holds_row l t) (lease_table db2) = []"
    by (simp add: lease_is_current_def list_ex_iff filter_empty_conv)
  then have "sql_update (holds_row l t) f (lease_table db2) = (lease_table db2, 0)" for f
    by (auto simp: sql_update_def filter_empty_conv intro: map_idI)
  with no show ?thesis by (simp add: heartbeat_def)
qed

theorem released_lease_never_renewed_witness:
  "\<exists>db1. release demo_lease ''r'' 5 demo_leases = Inr (db1, True)
    \<and> \<not> lease_is_current db1 demo_lease 4 \<and> heartbeat demo_lease 10 4 db1 = Inr (db1, None)"
proof -
  obtain db1 where r: "release demo_lease ''r'' 5 demo_leases = Inr (db1, True)"
    by (simp add: lease_eval)
  show ?thesis
    using released_lease_never_renewed [OF demo_wf r _ rtranclp.rtrancl_refl, where F = "{}" and t = 4 and ttl = 10] r by (auto simp: lease_eval)
qed

text \<open>
  A heartbeat extends exactly the leases that are current: it returns a record if and only
  if the lease is current at its clock reading; the lease then stays current up to the new
  expiry with the fencing counter unchanged, and otherwise the table is unchanged.
\<close>

theorem heartbeat_renews_current:
  assumes "lease_wf db" and "heartbeat lease ttl now db = Inr (db', refreshed)"
  shows "(refreshed \<noteq> None \<longleftrightarrow> lease_is_current db lease now)
    \<and> (refreshed \<noteq> None \<longrightarrow> (\<forall>t < now + ttl. lease_is_current db' lease t))
    \<and> (refreshed = None \<longrightarrow> lease_view db' = lease_view db)
    \<and> (\<forall>n. lease_level db' n = lease_level db n)"
  using heartbeat_ok(2-4) [OF assms] assms(1)
  by (auto simp: spec_heartbeat_def current_iff holds_row_def lease_level_def Let_def
      split: option.splits if_splits)

theorem heartbeat_renews_current_witness:
  "\<exists>db' rec. heartbeat demo_lease 10 5 demo_leases = Inr (db', Some rec)
    \<and> lease_is_current db' demo_lease 14 \<and> lease_level db' ''ws'' = 1"
proof -
  obtain db' rec where h: "heartbeat demo_lease 10 5 demo_leases = Inr (db', Some rec)"
    by (simp add: lease_eval)
  show ?thesis
    using heartbeat_renews_current [OF demo_wf h] h
    by (auto simp: lease_level_def lease_view_def lease_eval)
qed

end
