(* ===== verification/Lease_History.thy ===== *)
theory Lease_History
  imports Leases
begin

section \<open>Leases over time\<close>

text \<open>
  What the holders of a lease see of each other. A history lists, newest first, the calls of the
  lease store that granted, renewed or released a lease, with what they returned; it is read
  without looking at the table. The calls come from any number of processes, in any order, with
  any clock readings and with any lease records.
\<close>

datatype lease_event =
    Granted lease_record time
  | Renewed lease_record time
  | Released lease_record

text \<open>Renewed up to the time in the event, granted at the time in the event.\<close>

inductive lease_history :: "string set \<Rightarrow> lease_event list \<Rightarrow> 'a lease_db_scheme \<Rightarrow> bool"
  for F :: "string set" where
  history_start: "lease_table db = [] \<Longrightarrow> lease_history F [] db"
| history_acquire: "lease_history F tr db \<Longrightarrow> acquire name owner ttl token fresh now db = Inr (db', rec)
    \<Longrightarrow> lease_history F (if lease_acquired rec then Granted rec now # tr else tr) db'"
| history_heartbeat: "lease_history F tr db \<Longrightarrow> heartbeat lease ttl now db = Inr (db', refreshed)
    \<Longrightarrow> lease_history F (if refreshed = None then tr else Renewed lease (now + ttl) # tr) db'"
| history_release: "lease_history F tr db \<Longrightarrow> release lease fresh now db = Inr (db', released) \<Longrightarrow> fresh \<in> F
    \<Longrightarrow> lease_history F (if released then Released lease # tr else tr) db'"

text \<open>The same grant, in whatever record a process keeps of it.\<close>

definition same_grant :: "lease_record \<Rightarrow> lease_record \<Rightarrow> bool" where
  "same_grant g l \<longleftrightarrow> lease_name l = lease_name g \<and> lease_owner l = lease_owner g
     \<and> lease_token l = lease_token g \<and> lease_fencing_token l = lease_fencing_token g"

text \<open>Up to when a grant lasts after the events since, and whether it was released among them.\<close>

fun valid_until :: "lease_record \<Rightarrow> lease_event list \<Rightarrow> time" where
  "valid_until g [] = lease_expires_at g"
| "valid_until g (Renewed l expires # since) = (if same_grant g l then expires else valid_until g since)"
| "valid_until g (_ # since) = valid_until g since"

definition given_up :: "lease_record \<Rightarrow> lease_event list \<Rightarrow> bool" where
  "given_up g since \<longleftrightarrow> (\<exists>l. Released l \<in> set since \<and> same_grant g l)"

text \<open>The newest grant of a name and the events since.\<close>

fun newest_grant :: "string \<Rightarrow> lease_event list \<Rightarrow> (lease_record \<times> lease_event list) option" where
  "newest_grant n [] = None"
| "newest_grant n (e # tr) =
     (case e of
        Granted g _ \<Rightarrow> if lease_name g = n then Some (g, [])
                       else map_option (map_prod id (Cons e)) (newest_grant n tr)
      | _ \<Rightarrow> map_option (map_prod id (Cons e)) (newest_grant n tr))"

definition grants_in :: "string \<Rightarrow> lease_event list \<Rightarrow> bool" where
  "grants_in n tr \<longleftrightarrow> (\<exists>g now. Granted g now \<in> set tr \<and> lease_name g = n)"

lemma newest_grant_Some:
  "newest_grant n tr = Some (g, since) \<Longrightarrow>
    \<exists>now before. tr = since @ Granted g now # before \<and> lease_name g = n \<and> \<not> grants_in n since"
proof (induction tr arbitrary: since)
  case (Cons e tr)
  show ?case
  proof (cases "\<exists>now. e = Granted g now \<and> lease_name g = n \<and> since = []")
    case True
    then show ?thesis by (auto simp: grants_in_def)
  next
    case False
    then obtain since' where s: "newest_grant n tr = Some (g, since')" "since = e # since'" "\<not> grants_in n [e]"
      using Cons.prems by (cases e) (auto simp: grants_in_def split: if_splits)
    from Cons.IH [OF s(1)] s(2,3) show ?thesis by (auto simp: grants_in_def)
  qed
qed simp

lemma newest_grant_split:
  "lease_name g = n \<Longrightarrow> \<not> grants_in n since \<Longrightarrow> newest_grant n (since @ Granted g now # before) = Some (g, since)"
proof (induction since)
  case (Cons e since)
  then show ?case by (cases e) (auto simp: grants_in_def)
qed (simp add: grants_in_def)

lemma newest_grant_None: "newest_grant n tr = None \<longleftrightarrow> \<not> grants_in n tr"
  by (induction tr) (auto simp: grants_in_def split: lease_event.splits)

subsection \<open>What the table says of the history\<close>

definition tracked :: "string set \<Rightarrow> lease_row \<Rightarrow> lease_record \<Rightarrow> lease_event list \<Rightarrow> bool" where
  "tracked F r g since \<longleftrightarrow> row_owner r = lease_owner g \<and> row_fencing_token r = lease_fencing_token g
     \<and> (if given_up g since then row_token r \<in> F
        else row_token r = lease_token g \<and> row_expires_at r = valid_until g since)"

definition agrees :: "string set \<Rightarrow> lease_event list \<Rightarrow> lease_view \<Rightarrow> bool" where
  "agrees F tr m \<longleftrightarrow> (\<forall>n. case newest_grant n tr of
      None \<Rightarrow> m n = None
    | Some (g, since) \<Rightarrow> \<exists>r. m n = Some r \<and> tracked F r g since)"

lemma given_up_Cons [simp]:
  "given_up g (Granted l now # since) = given_up g since"
  "given_up g (Renewed l t # since) = given_up g since"
  "given_up g (Released l # since) \<longleftrightarrow> same_grant g l \<or> given_up g since"
  by (auto simp: given_up_def)

lemma given_up_Nil [simp]: "\<not> given_up g []"
  by (simp add: given_up_def)

lemma tracked_granted [simp]: "tracked F r g (Granted l now # since) = tracked F r g since"
  by (simp add: tracked_def)

text \<open>An event of another name leaves what is known of a grant.\<close>

lemma tracked_other:
  assumes "tracked F r g since" and "\<And>l t. e = Renewed l t \<or> e = Released l \<Longrightarrow> lease_name l \<noteq> lease_name g"
  shows "tracked F r g (e # since)"
  using assms by (cases e) (auto simp: tracked_def same_grant_def)

lemma agrees_name:
  assumes "agrees F tr m" and "newest_grant n tr = Some (g, since)"
  obtains r where "m n = Some r" "tracked F r g since" "lease_name g = n"
  using assms newest_grant_Some [OF assms(2)] unfolding agrees_def by (fastforce split: option.splits)

lemma agrees_none: "agrees F tr m \<Longrightarrow> newest_grant n tr = None \<Longrightarrow> m n = None"
  by (auto simp: agrees_def dest!: spec [of _ n])

lemma agrees_renewed:
  assumes "agrees F tr m" and row: "m (lease_name l) = Some r" "holds_row l now r"
  shows "agrees F (Renewed l t # tr) (m(lease_name l \<mapsto> r\<lparr>row_heartbeat_at := now', row_expires_at := t\<rparr>))"
  unfolding agrees_def
proof
  fix n
  show "case newest_grant n (Renewed l t # tr) of
      None \<Rightarrow> (m(lease_name l \<mapsto> r\<lparr>row_heartbeat_at := now', row_expires_at := t\<rparr>)) n = None
    | Some (g, since) \<Rightarrow> \<exists>x. (m(lease_name l \<mapsto> r\<lparr>row_heartbeat_at := now', row_expires_at := t\<rparr>)) n = Some x
        \<and> tracked F x g since"
  proof (cases "newest_grant n tr")
    case None
    then have "m n = None" by (rule agrees_none [OF assms(1)])
    then show ?thesis using None row(1) by auto
  next
    case (Some p)
    obtain g since where p: "p = (g, since)" by fastforce
    obtain x where x: "m n = Some x" "tracked F x g since" "lease_name g = n"
      using agrees_name [OF assms(1) Some [unfolded p]] .
    show ?thesis
      using x row tracked_other [OF x(2), of "Renewed l t"]
      by (auto simp: Some p tracked_def same_grant_def holds_row_def)
  qed
qed

lemma agrees_released:
  assumes "agrees F tr m" and row: "m (lease_name l) = Some r" "holds_row l now r" and "fresh \<in> F"
  shows "agrees F (Released l # tr)
    (m(lease_name l \<mapsto> r\<lparr>row_heartbeat_at := now, row_expires_at := now, row_token := fresh\<rparr>))"
  unfolding agrees_def
proof
  fix n
  show "case newest_grant n (Released l # tr) of
      None \<Rightarrow> (m(lease_name l \<mapsto> r\<lparr>row_heartbeat_at := now, row_expires_at := now, row_token := fresh\<rparr>)) n = None
    | Some (g, since) \<Rightarrow> \<exists>x. (m(lease_name l \<mapsto> r\<lparr>row_heartbeat_at := now, row_expires_at := now, row_token := fresh\<rparr>)) n
        = Some x \<and> tracked F x g since"
  proof (cases "newest_grant n tr")
    case None
    then have "m n = None" by (rule agrees_none [OF assms(1)])
    then show ?thesis using None row(1) by auto
  next
    case (Some p)
    obtain g since where p: "p = (g, since)" by fastforce
    obtain x where x: "m n = Some x" "tracked F x g since" "lease_name g = n"
      using agrees_name [OF assms(1) Some [unfolded p]] .
    show ?thesis
      using x row assms(4) tracked_other [OF x(2), of "Released l"]
      by (auto simp: Some p tracked_def same_grant_def holds_row_def split: if_splits)
  qed
qed

lemma agrees_granted:
  assumes "agrees F tr m" and "tracked F r g []" and "lease_name g = n"
  shows "agrees F (Granted g now # tr) (m(n \<mapsto> r))"
  unfolding agrees_def
proof
  fix k
  show "case newest_grant k (Granted g now # tr) of None \<Rightarrow> (m(n \<mapsto> r)) k = None
    | Some (g', since) \<Rightarrow> \<exists>x. (m(n \<mapsto> r)) k = Some x \<and> tracked F x g' since"
  proof (cases "k = n")
    case False
    then show ?thesis
      using assms(1,3) unfolding agrees_def
      by (auto split: option.splits dest!: spec [of _ k])
  qed (use assms(2,3) in simp)
qed

lemma history_agrees:
  "lease_history F tr db \<Longrightarrow> lease_wf db \<and> agrees F tr (lease_view db)"
proof (induction rule: lease_history.induct)
  case (history_start db)
  then show ?case by (simp add: lease_wf_empty agrees_def lease_view_def get_lease_row_def)
next
  case (history_acquire tr db name owner ttl token fresh now db' rec)
  then have wf: "lease_wf db" and ag: "agrees F tr (lease_view db)" by simp_all
  note ok = acquire_ok [OF wf history_acquire(2)]
  have granted: "tracked F (granted_row name owner tok k now ttl) (lease_from_row (granted_row name owner tok k now ttl) True True) []"
    for tok k by (simp add: tracked_def lease_from_row_def granted_row_def)
  show ?case
    using ok(2-4) ag
    by (auto simp: spec_acquire_def lease_from_row_def granted_row_def
        intro!: agrees_granted [OF ag granted, unfolded lease_from_row_def granted_row_def, simplified]
        split: option.splits if_splits)
next
  case (history_heartbeat tr db lease ttl now db' refreshed)
  then have wf: "lease_wf db" and ag: "agrees F tr (lease_view db)" by simp_all
  note ok = heartbeat_ok [OF wf history_heartbeat(2)]
  show ?case
    using ok(2-4) ag
    by (auto simp: spec_heartbeat_def Let_def intro: agrees_renewed [OF ag] split: option.splits if_splits)
next
  case (history_release tr db lease fresh now db' released)
  then have wf: "lease_wf db" and ag: "agrees F tr (lease_view db)" by simp_all
  note ok = release_ok [OF wf history_release(2)]
  show ?case
    using ok(2-4) ag
    by (auto simp: spec_release_def intro: agrees_released [OF ag _ _ history_release(3)] split: option.splits if_splits)
qed

text \<open>Every grant in a history was made by a call of \<open>acquire\<close> on the table of the history before it.\<close>

lemma history_grant:
  fixes db :: "'a lease_db_scheme"
  assumes "lease_history F (later @ Granted g now # tr) db"
  shows "\<exists>(db0 :: 'a lease_db_scheme) db1 owner ttl token fresh. lease_history F tr db0
    \<and> acquire (lease_name g) owner ttl token fresh now db0 = Inr (db1, g) \<and> lease_acquired g"
  using assms
proof (induction "later @ Granted g now # tr" db arbitrary: later rule: lease_history.induct)
  case (history_acquire tr' db name owner ttl token fresh now' db' rec)
  show ?case
  proof (cases "lease_acquired rec \<and> later = []")
    case True
    then have eq: "rec = g" "now' = now" "tr' = tr" using history_acquire.hyps(4) by auto
    have "lease_wf db" using history_agrees [OF history_acquire.hyps(1)] by simp
    from acquire_ok(4) [OF this history_acquire.hyps(3)] have "lease_name g = name"
      using True lease_view_name [of db name]
      by (auto simp: eq spec_acquire_def lease_from_row_def granted_row_def split: option.splits if_splits)
    then show ?thesis using history_acquire.hyps(1,3) True eq by metis
  next
    case False
    then have "\<exists>later'. tr' = later' @ Granted g now # tr"
      using history_acquire.hyps(4) by (cases later) (auto split: if_splits)
    then show ?thesis using history_acquire.hyps(2) by blast
  qed
next
  case (history_heartbeat tr' db lease ttl now' db' refreshed)
  then have "\<exists>later'. tr' = later' @ Granted g now # tr" by (cases later) (auto split: if_splits)
  then show ?case using history_heartbeat.hyps(2) by blast
next
  case (history_release tr' db lease fresh now' db' released)
  then have "\<exists>later'. tr' = later' @ Granted g now # tr" by (cases later) (auto split: if_splits)
  then show ?case using history_release.hyps(2) by blast
qed simp

text \<open>What \<open>acquire\<close> requires of the grant before.\<close>

lemma grant_after:
  assumes "lease_history F tr db" and "acquire n owner ttl token fresh now db = Inr (db', g)" and "lease_acquired g"
    and "newest_grant n tr = Some (g0, since)"
  shows "lease_fencing_token g = lease_fencing_token g0 + 1 \<and> (given_up g0 since \<or> valid_until g0 since \<le> now)"
proof -
  have wf: "lease_wf db" and ag: "agrees F tr (lease_view db)" using history_agrees [OF assms(1)] by simp_all
  obtain r where r: "lease_view db n = Some r" "tracked F r g0 since" using agrees_name [OF ag assms(4)] .
  show ?thesis
    using acquire_ok(4) [OF wf assms(2)] assms(3) r
    by (auto simp: spec_acquire_def lease_from_row_def granted_row_def tracked_def split: if_splits)
qed

text \<open>What a current lease is in the history.\<close>

lemma current_newest:
  assumes "lease_history F tr db" and "lease_is_current db l t" and "lease_token l \<notin> F"
  shows "\<exists>g since. newest_grant (lease_name l) tr = Some (g, since) \<and> same_grant g l
    \<and> \<not> given_up g since \<and> t < valid_until g since"
proof -
  have wf: "lease_wf db" and ag: "agrees F tr (lease_view db)" using history_agrees [OF assms(1)] by simp_all
  obtain r where r: "lease_view db (lease_name l) = Some r" "holds_row l t r" using wf assms(2) by (rule current_row)
  then obtain g since where g: "newest_grant (lease_name l) tr = Some (g, since)"
    using ag unfolding agrees_def by (fastforce split: option.splits dest!: spec [of _ "lease_name l"])
  obtain r' where "lease_view db (lease_name l) = Some r'" "tracked F r' g since" "lease_name g = lease_name l"
    using agrees_name [OF ag g] .
  then show ?thesis
    using g r assms(3) by (auto simp: tracked_def same_grant_def holds_row_def split: if_splits)
qed

subsection \<open>Mutual exclusion\<close>

text \<open>
  C1. Mutual exclusion. In every history of lease calls, by any processes and with any clock
  readings: between two successive grants of a name the first holder had released the lease, or the
  time up to which it was granted, or up to which its last heartbeat had renewed it, had passed at
  the clock reading of the second grant; and the fencing token of the second grant is the next
  number. Whoever holds a current lease (with a token that was not drawn for a release) holds the
  newest grant of its name, which is not released and not over at the time of the check. So a lease
  is never taken from a live holder, and no two holders are current.
\<close>

theorem lease_mutual_exclusion:
  fixes db :: "'a lease_db_scheme"
  assumes "lease_history F tr db"
  shows "(\<forall>later g2 now2 since g1 now1 before.
      tr = later @ Granted g2 now2 # since @ Granted g1 now1 # before \<longrightarrow> lease_name g1 = lease_name g2
      \<longrightarrow> \<not> grants_in (lease_name g2) since
      \<longrightarrow> lease_fencing_token g2 = lease_fencing_token g1 + 1
        \<and> (given_up g1 since \<or> valid_until g1 since \<le> now2))
    \<and> (\<forall>l t. lease_is_current db l t \<longrightarrow> lease_token l \<notin> F \<longrightarrow>
        (\<exists>since g now before. tr = since @ Granted g now # before \<and> \<not> grants_in (lease_name l) since
           \<and> same_grant g l \<and> \<not> given_up g since \<and> t < valid_until g since))"
proof (intro conjI allI impI)
  fix later g2 now2 since g1 now1 before
  assume tr: "tr = later @ Granted g2 now2 # since @ Granted g1 now1 # before"
    and name: "lease_name g1 = lease_name g2" and none: "\<not> grants_in (lease_name g2) since"
  from history_grant [OF assms [unfolded tr]] obtain db0 db1 :: "'a lease_db_scheme" and owner ttl token fresh
    where g: "lease_history F (since @ Granted g1 now1 # before) db0"
      "acquire (lease_name g2) owner ttl token fresh now2 db0 = Inr (db1, g2)" "lease_acquired g2" by blast
  note after = grant_after [OF g newest_grant_split [OF name none]]
  show "lease_fencing_token g2 = lease_fencing_token g1 + 1" "given_up g1 since \<or> valid_until g1 since \<le> now2"
    using after by blast+
next
  fix l t
  assume "lease_is_current db l t" and "lease_token l \<notin> F"
  from current_newest [OF assms this] obtain g since where g: "newest_grant (lease_name l) tr = Some (g, since)"
    "same_grant g l" "\<not> given_up g since" "t < valid_until g since" by blast
  with newest_grant_Some [OF g(1)]
  show "\<exists>since g now before. tr = since @ Granted g now # before \<and> \<not> grants_in (lease_name l) since
     \<and> same_grant g l \<and> \<not> given_up g since \<and> t < valid_until g since" by blast
qed

text \<open>w1 renews its lease once and lets it expire; w2 is refused while it lasts and takes over later.\<close>

definition demo_lease2 :: lease_record where
  "demo_lease2 = lease_from_row (granted_row ''ws'' ''w2'' ''t2'' 2 18 10) True True"

definition demo_events :: "lease_event list" where
  "demo_events = [Granted demo_lease2 18, Renewed demo_lease 18, Granted demo_lease 0]"

definition demo_taken_over :: lease_db where
  "demo_taken_over = \<lparr>lease_table = [granted_row ''ws'' ''w2'' ''t2'' 2 18 10]\<rparr>"

lemma demo_history: "lease_history {} demo_events demo_taken_over"
proof -
  let ?renewed = "demo_row\<lparr>row_heartbeat_at := 8, row_expires_at := 18\<rparr>"
  have calls: "heartbeat demo_lease 10 8 demo_leases = Inr (\<lparr>lease_table = [?renewed]\<rparr>, Some (lease_from_row ?renewed False True))"
    "acquire ''ws'' ''w2'' 10 None ''t2'' 12 (\<lparr>lease_table = [?renewed]\<rparr> :: lease_db)
       = Inr (\<lparr>lease_table = [?renewed]\<rparr>, lease_from_row ?renewed False False)"
    "acquire ''ws'' ''w2'' 10 None ''t2'' 18 (\<lparr>lease_table = [?renewed]\<rparr> :: lease_db) = Inr (demo_taken_over, demo_lease2)"
    by (simp_all add: lease_eval demo_taken_over_def demo_lease2_def)
  note history_acquire [OF history_start demo_acquired, where F = "{}", simplified]
  note history_acquire [OF history_acquire [OF history_heartbeat [OF this calls(1)] calls(2)] calls(3)]
  then show ?thesis by (simp add: demo_events_def demo_lease_def demo_lease2_def lease_from_row_def)
qed

theorem lease_mutual_exclusion_witness:
  "lease_fencing_token demo_lease2 = lease_fencing_token demo_lease + 1
    \<and> valid_until demo_lease [Renewed demo_lease 18] \<le> 18
    \<and> lease_is_current demo_taken_over demo_lease2 20 \<and> 20 < valid_until demo_lease2 []"
proof -
  note mutual = lease_mutual_exclusion [OF demo_history]
  have names: "lease_name demo_lease = lease_name demo_lease2"
    by (simp add: demo_lease2_def lease_eval)
  have "lease_fencing_token demo_lease2 = lease_fencing_token demo_lease + 1
      \<and> (given_up demo_lease [Renewed demo_lease 18] \<or> valid_until demo_lease [Renewed demo_lease 18] \<le> 18)"
    using conjunct1 [OF mutual, rule_format, of "[]" demo_lease2 18 "[Renewed demo_lease 18]" demo_lease 0 "[]"] names
    by (simp add: demo_events_def grants_in_def)
  moreover have "\<not> given_up demo_lease [Renewed demo_lease 18]" by simp
  moreover have current: "lease_is_current demo_taken_over demo_lease2 20"
    by (simp add: lease_eval demo_taken_over_def demo_lease2_def)
  moreover have "20 < valid_until demo_lease2 []"
  proof -
    obtain since g now before where g: "demo_events = since @ Granted g now # before"
      "\<not> grants_in (lease_name demo_lease2) since" "same_grant g demo_lease2" "20 < valid_until g since"
      using conjunct2 [OF mutual, rule_format, OF current] by auto
    then have "since = []"
      by (cases since) (auto simp: demo_events_def grants_in_def)
    with g show ?thesis by (simp add: demo_events_def)
  qed
  ultimately show ?thesis by blast
qed

end
