(* ===== verification/Json.thy ===== *)
theory Json
  imports Prelude
begin

section \<open>JSON values\<close>

text \<open>
  The payloads of the stores are JSON objects. Python's \<open>None\<close> and JSON's \<open>null\<close> are
  \<open>JNull\<close>; \<open>payload.get(key)\<close> of a missing key is \<open>JNull\<close> as well. Floating point
  numbers do not occur in the payloads of this package and are left out. A tuple and a list
  are both \<open>JArr\<close> (\<open>_freeze_json\<close> turns one into the other).
\<close>

datatype json =
    JNull
  | JBool bool
  | JInt int
  | JStr string
  | JArr "json list"
  | JObj "(string \<times> json) list"

text \<open>\<open>isinstance(value, Mapping)\<close>, \<open>isinstance(value, str)\<close> and \<open>mapping.get(key)\<close>.\<close>

definition is_mapping :: "json \<Rightarrow> bool" where
  "is_mapping v = (case v of JObj _ \<Rightarrow> True | _ \<Rightarrow> False)"

definition is_array :: "json \<Rightarrow> bool" where
  "is_array v = (case v of JArr _ \<Rightarrow> True | _ \<Rightarrow> False)"

definition is_bool :: "json \<Rightarrow> bool" where
  "is_bool v = (case v of JBool _ \<Rightarrow> True | _ \<Rightarrow> False)"

definition jget :: "json \<Rightarrow> string \<Rightarrow> json" where
  "jget v k = (case v of
      JObj kvs \<Rightarrow> (case map_of kvs k of None \<Rightarrow> JNull | Some x \<Rightarrow> x)
    | _ \<Rightarrow> JNull)"

text \<open>\<open>key in mapping\<close>.\<close>

definition jhas :: "json \<Rightarrow> string \<Rightarrow> bool" where
  "jhas v k = (case v of JObj kvs \<Rightarrow> map_of kvs k \<noteq> None | _ \<Rightarrow> False)"

text \<open>\<open>dict(mapping)\<close> with \<open>d[key] = value\<close>: an existing key keeps its place.\<close>

fun assoc_set :: "string \<Rightarrow> json \<Rightarrow> (string \<times> json) list \<Rightarrow> (string \<times> json) list" where
  "assoc_set k v [] = [(k, v)]"
| "assoc_set k v ((k', v') # kvs) = (if k = k' then (k, v) # kvs else (k', v') # assoc_set k v kvs)"

definition assoc_update :: "(string \<times> json) list \<Rightarrow> (string \<times> json) list \<Rightarrow> (string \<times> json) list" where
  "assoc_update kvs new = foldl (\<lambda>acc (k, v). assoc_set k v acc) kvs new"

text \<open>
  Python's \<open>int\<close> test and equality on JSON values: a \<open>bool\<close> is an \<open>int\<close>
  (\<open>True == 1\<close>), and mappings compare by keys, not by order.
\<close>

definition py_int :: "json \<Rightarrow> int option" where
  "py_int v = (case v of JInt n \<Rightarrow> Some n | JBool b \<Rightarrow> Some (if b then 1 else 0) | _ \<Rightarrow> None)"

fun py_eq :: "json \<Rightarrow> json \<Rightarrow> bool" where
  "py_eq (JStr a) w = (case w of JStr b \<Rightarrow> a = b | _ \<Rightarrow> False)"
| "py_eq JNull w = (w = JNull)"
| "py_eq (JInt n) w = (py_int w = Some n)"
| "py_eq (JBool b) w = (py_int w = Some (if b then 1 else 0))"
| "py_eq (JArr xs) w = (case w of JArr ys \<Rightarrow> list_all2 py_eq xs ys | _ \<Rightarrow> False)"
| "py_eq (JObj kvs) w = (case w of
      JObj kws \<Rightarrow>
        length kvs = length kws \<and>
        list_all (\<lambda>p. case map_of kws (fst p) of None \<Rightarrow> False | Some x \<Rightarrow> py_eq (snd p) x) kvs
    | _ \<Rightarrow> False)"

lemma is_mapping_simps [simp]:
  "is_mapping (JObj kvs)" "\<not> is_mapping JNull" "\<not> is_mapping (JBool b)" "\<not> is_mapping (JInt n)"
  "\<not> is_mapping (JStr s)" "\<not> is_mapping (JArr xs)"
  by (simp_all add: is_mapping_def)

lemma is_bool_simps [simp]:
  "is_bool (JBool b)" "\<not> is_bool JNull" "\<not> is_bool (JInt n)" "\<not> is_bool (JStr s)"
  "\<not> is_bool (JArr xs)" "\<not> is_bool (JObj kvs)"
  by (simp_all add: is_bool_def)

lemma is_array_simps [simp]:
  "is_array (JArr xs)" "\<not> is_array JNull" "\<not> is_array (JBool b)" "\<not> is_array (JInt n)"
  "\<not> is_array (JStr s)" "\<not> is_array (JObj kvs)"
  by (simp_all add: is_array_def)

lemma jget_JObj: "jget (JObj kvs) k = (case map_of kvs k of None \<Rightarrow> JNull | Some x \<Rightarrow> x)"
  by (simp add: jget_def)

lemma jget_Nil [simp]: "jget (JObj []) k = JNull"
  by (simp add: jget_def)

lemma jget_Cons [simp]: "jget (JObj ((k', v) # kvs)) k = (if k = k' then v else jget (JObj kvs) k)"
  by (simp add: jget_def)

lemma jget_JNull [simp]: "jget JNull k = JNull"
  by (simp add: jget_def)

lemma map_of_assoc_set: "map_of (assoc_set k v kvs) = (map_of kvs)(k \<mapsto> v)"
  by (induction kvs) (auto simp: fun_eq_iff)

lemma jget_assoc_set: "jget (JObj (assoc_set k v kvs)) x = (if x = k then v else jget (JObj kvs) x)"
  by (simp add: jget_def map_of_assoc_set)

lemma jget_assoc_update:
  "k \<notin> fst ` set new \<Longrightarrow> jget (JObj (assoc_update kvs new)) k = jget (JObj kvs) k"
proof (induction new arbitrary: kvs)
  case Nil
  then show ?case by (simp add: assoc_update_def)
next
  case (Cons p new)
  obtain a v where p: "p = (a, v)" by fastforce
  have "assoc_update kvs (p # new) = assoc_update (assoc_set a v kvs) new"
    by (simp add: assoc_update_def p)
  with Cons p show ?case by (simp add: jget_assoc_set)
qed

lemma py_eq_int: "py_int v = Some n \<Longrightarrow> py_int w = Some n \<Longrightarrow> py_eq v w"
  by (cases v) (auto simp: py_int_def split: if_splits)

lemma py_eq_str [simp]: "py_eq (JStr a) (JStr b) \<longleftrightarrow> a = b"
  by simp

end
