(* ===== verification/Claims.thy ===== *)
theory Claims
  imports Leases Json
begin

section \<open>Resource claims\<close>

text \<open>
  \<open>workspace_state/claims.py\<close>: the \<open>ClaimStore\<close> methods over the table
  \<open>workspace_resource_claims\<close>, in the same database as the leases. A row has the fields of
  \<open>ClaimRecord\<close>. Parameters of the model: \<open>H\<close> is SHA-256 in hexadecimal and \<open>loads\<close> is
  \<open>json.loads\<close> (\<open>None\<close> for a \<open>JSONDecodeError\<close>).
\<close>

record claim_db = lease_db +
  claim_table :: "claim_record list"

definition claim_clash :: "claim_record \<Rightarrow> claim_record \<Rightarrow> bool" where
  "claim_clash r x \<longleftrightarrow> claim_resource_key r = claim_resource_key x"

definition get_claim_row :: "string \<Rightarrow> claim_record list \<Rightarrow> claim_record option" where
  "get_claim_row k t = find (\<lambda>r. claim_resource_key r = k) t"

interpretation claims: keyed_table claim_resource_key claim_clash get_claim_row
  by unfold_locales (simp_all add: get_claim_row_def claim_clash_def)

text \<open>\<open>lease_claim_details_payload\<close>: later keys of \<open>extra\<close> replace the lease's own.\<close>

definition lease_claim_details_payload ::
  "digest \<Rightarrow> lease_record \<Rightarrow> string \<Rightarrow> (string \<times> json) list option \<Rightarrow> json" where
  "lease_claim_details_payload H lease claim_id extra =
    (let payload =
       [(''claim_id'', JStr claim_id),
        (''lease_name'', JStr (lease_name lease)),
        (''lease_owner'', JStr (lease_owner lease)),
        (''lease_token_digest'', JStr (lease_token_digest H lease)),
        (''lease_fencing_token'', JInt (lease_fencing_token lease))]
     in JObj (case extra of None \<Rightarrow> payload | Some kvs \<Rightarrow> assoc_update payload kvs))"

definition conflicts :: "claim_record \<Rightarrow> string \<Rightarrow> string option \<Rightarrow> bool" where
  "conflicts existing owner scope \<longleftrightarrow> claim_owner existing \<noteq> owner \<or> claim_scope existing \<noteq> scope"

definition new_claim :: "string \<Rightarrow> string \<Rightarrow> string option \<Rightarrow> string option \<Rightarrow> time \<Rightarrow> claim_record" where
  "new_claim key owner scope details now =
     \<lparr>claim_resource_key = key, claim_owner = owner, claim_scope = scope, claim_details = details,
      claim_created_at = now, claim_updated_at = now\<rparr>"

definition create_claim ::
  "string \<Rightarrow> lease_record \<Rightarrow> string \<Rightarrow> string option \<Rightarrow> string option \<Rightarrow> time
    \<Rightarrow> 'a claim_db_scheme \<Rightarrow> error + 'a claim_db_scheme \<times> claim_record" where
  "create_claim key lease owner scope details now db =
    res_bind (validate_required key) (\<lambda>_.
    res_bind (validate_required owner) (\<lambda>_.
    res_bind (require_current_lease db lease now) (\<lambda>_.
      case sql_insert claim_clash (new_claim key owner scope details now) (claim_table db) of
        None \<Rightarrow>
          (case get_claim_row key (claim_table db) of
             None \<Rightarrow> Inl IntegrityError
           | Some existing \<Rightarrow> Inl (ClaimConflictError existing))
      | Some t \<Rightarrow>
          (case get_claim_row key t of
             None \<Rightarrow> Inl RuntimeError
           | Some row \<Rightarrow> Inr (db\<lparr>claim_table := t\<rparr>, row)))))"

definition upsert_claim ::
  "string \<Rightarrow> lease_record \<Rightarrow> string \<Rightarrow> string option \<Rightarrow> string option \<Rightarrow> time
    \<Rightarrow> 'a claim_db_scheme \<Rightarrow> error + 'a claim_db_scheme \<times> claim_record" where
  "upsert_claim key lease owner scope details now db =
    res_bind (validate_required key) (\<lambda>_.
    res_bind (validate_required owner) (\<lambda>_.
    res_bind (require_current_lease db lease now) (\<lambda>_.
    res_bind
      (case get_claim_row key (claim_table db) of
         None \<Rightarrow>
           from_option IntegrityError
             (sql_insert claim_clash (new_claim key owner scope details now) (claim_table db))
       | Some existing \<Rightarrow>
           if conflicts existing owner scope then Inl (ClaimConflictError existing)
           else Inr (fst (sql_update (\<lambda>r. claim_resource_key r = key)
                       (\<lambda>r. r\<lparr>claim_details := details, claim_updated_at := now\<rparr>)
                       (claim_table db)))) (\<lambda>t.
    case get_claim_row key t of
      None \<Rightarrow> Inl RuntimeError
    | Some row \<Rightarrow> Inr (db\<lparr>claim_table := t\<rparr>, row)))))"

definition get_claim :: "string \<Rightarrow> 'a claim_db_scheme \<Rightarrow> claim_record option" where
  "get_claim key db = get_claim_row key (claim_table db)"

definition conflict_for ::
  "string \<Rightarrow> string \<Rightarrow> string option \<Rightarrow> 'a claim_db_scheme \<Rightarrow> error + claim_record option" where
  "conflict_for key owner scope db =
    res_bind (validate_required key) (\<lambda>_.
    res_bind (validate_required owner) (\<lambda>_.
      case get_claim key db of
        None \<Rightarrow> Inr None
      | Some existing \<Rightarrow> Inr (if conflicts existing owner scope then Some existing else None)))"

definition list_claims :: "string option \<Rightarrow> 'a claim_db_scheme \<Rightarrow> claim_record list" where
  "list_claims owner db =
    sql_select (\<lambda>r. case owner of None \<Rightarrow> True | Some q \<Rightarrow> claim_owner r = q)
      claim_resource_key (claim_table db)"

text \<open>The condition of the two \<open>DELETE\<close> statements of \<open>_release_claim_in_connection\<close>.\<close>

definition release_matches ::
  "string \<Rightarrow> string \<Rightarrow> string option \<Rightarrow> claim_record option \<Rightarrow> claim_record \<Rightarrow> bool" where
  "release_matches key owner scope expected_claim r \<longleftrightarrow>
     claim_resource_key r = key \<and> claim_owner r = owner \<and> claim_scope r = scope \<and>
     (case expected_claim of
        None \<Rightarrow> True
      | Some e \<Rightarrow> claim_details r = claim_details e
          \<and> claim_created_at r = claim_created_at e \<and> claim_updated_at r = claim_updated_at e)"

definition release_claim_in_connection ::
  "string \<Rightarrow> string \<Rightarrow> string option \<Rightarrow> claim_record option \<Rightarrow> 'a claim_db_scheme
    \<Rightarrow> 'a claim_db_scheme \<times> bool" where
  "release_claim_in_connection key owner scope expected_claim db =
    (let (t, rowcount) = sql_delete (release_matches key owner scope expected_claim) (claim_table db)
     in (db\<lparr>claim_table := t\<rparr>, rowcount = 1))"

definition release_claim ::
  "string \<Rightarrow> lease_record \<Rightarrow> string \<Rightarrow> string option \<Rightarrow> claim_record option \<Rightarrow> time
    \<Rightarrow> 'a claim_db_scheme \<Rightarrow> error + 'a claim_db_scheme \<times> bool" where
  "release_claim key lease owner scope expected_claim now db =
    res_bind (validate_required key) (\<lambda>_.
    res_bind (validate_required owner) (\<lambda>_.
    res_bind (require (case expected_claim of None \<Rightarrow> True | Some e \<Rightarrow> claim_resource_key e = key)
                ValueError) (\<lambda>_.
    res_bind (require_current_lease db lease now) (\<lambda>_.
      Inr (release_claim_in_connection key owner scope expected_claim db)))))"

definition lease_bound_claim_details :: "(string \<Rightarrow> json option) \<Rightarrow> string option \<Rightarrow> json option" where
  "lease_bound_claim_details loads details =
    (case details of
       None \<Rightarrow> None
     | Some text \<Rightarrow>
         (case loads text of
            None \<Rightarrow> None
          | Some payload \<Rightarrow> if is_mapping payload then Some payload else None))"

definition claim_matches_lease_authority ::
  "digest \<Rightarrow> (string \<Rightarrow> json option) \<Rightarrow> claim_record \<Rightarrow> lease_record \<Rightarrow> bool" where
  "claim_matches_lease_authority H loads claim lease =
    (case lease_bound_claim_details loads (claim_details claim) of
       None \<Rightarrow> False
     | Some details \<Rightarrow>
         (case jget details ''claim_id'' of JStr s \<Rightarrow> s \<noteq> [] | _ \<Rightarrow> False) \<and>
         jget details ''lease_name'' = JStr (lease_name lease) \<and>
         jget details ''lease_owner'' = JStr (lease_owner lease) \<and>
         jget details ''lease_token_digest'' = JStr (lease_token_digest H lease) \<and>
         py_int (jget details ''lease_fencing_token'') = Some (lease_fencing_token lease))"

definition release_if_owner_scope_matches ::
  "digest \<Rightarrow> (string \<Rightarrow> json option) \<Rightarrow> string \<Rightarrow> lease_record \<Rightarrow> string \<Rightarrow> string option
    \<Rightarrow> claim_record option \<Rightarrow> time \<Rightarrow> 'a claim_db_scheme \<Rightarrow> error + 'a claim_db_scheme \<times> bool" where
  "release_if_owner_scope_matches H loads key lease owner scope expected_claim now db =
    res_bind (validate_required key) (\<lambda>_.
    res_bind (validate_required owner) (\<lambda>_.
    res_bind (from_option ValueError expected_claim) (\<lambda>e.
    res_bind (require (claim_resource_key e = key) ValueError) (\<lambda>_.
    res_bind (require (lease_is_current db lease now \<or> claim_matches_lease_authority H loads e lease)
                ValueError) (\<lambda>_.
      Inr (release_claim_in_connection key owner scope (Some e) db))))))"


subsection \<open>The abstract claim table\<close>

type_synonym claim_view = "string \<Rightarrow> claim_record option"

definition claim_view :: "'a claim_db_scheme \<Rightarrow> claim_view" where
  "claim_view db = (\<lambda>k. get_claim_row k (claim_table db))"

definition claim_wf :: "'a claim_db_scheme \<Rightarrow> bool" where
  "claim_wf db \<longleftrightarrow> unique_key claim_resource_key (claim_table db)"

definition spec_upsert ::
  "bool \<Rightarrow> string \<Rightarrow> string \<Rightarrow> string option \<Rightarrow> string option \<Rightarrow> time \<Rightarrow> claim_view
    \<Rightarrow> error + claim_view \<times> claim_record" where
  "spec_upsert authorised key owner scope details now m =
    (if key = [] \<or> owner = [] then Inl ValueError
     else if \<not> authorised then Inl LeaseLostError
     else case m key of
       None \<Rightarrow> let c = new_claim key owner scope details now in Inr (m(key \<mapsto> c), c)
     | Some e \<Rightarrow>
         if conflicts e owner scope then Inl (ClaimConflictError e)
         else let c = e\<lparr>claim_details := details, claim_updated_at := now\<rparr> in Inr (m(key \<mapsto> c), c))"

definition spec_create ::
  "bool \<Rightarrow> string \<Rightarrow> string \<Rightarrow> string option \<Rightarrow> string option \<Rightarrow> time \<Rightarrow> claim_view
    \<Rightarrow> error + claim_view \<times> claim_record" where
  "spec_create authorised key owner scope details now m =
    (if key = [] \<or> owner = [] then Inl ValueError
     else if \<not> authorised then Inl LeaseLostError
     else case m key of
       None \<Rightarrow> let c = new_claim key owner scope details now in Inr (m(key \<mapsto> c), c)
     | Some e \<Rightarrow> Inl (ClaimConflictError e))"

definition spec_release_claim ::
  "string \<Rightarrow> string \<Rightarrow> string option \<Rightarrow> claim_record option \<Rightarrow> claim_view \<Rightarrow> claim_view \<times> bool" where
  "spec_release_claim key owner scope expected m =
    (case m key of
       None \<Rightarrow> (m, False)
     | Some c \<Rightarrow> if release_matches key owner scope expected c then (m(key := None), True) else (m, False))"

definition spec_checked_release ::
  "bool \<Rightarrow> string \<Rightarrow> string \<Rightarrow> string option \<Rightarrow> claim_record option \<Rightarrow> claim_view
    \<Rightarrow> error + claim_view \<times> bool" where
  "spec_checked_release authorised key owner scope expected m =
    (if key = [] \<or> owner = [] \<or> (\<exists>e. expected = Some e \<and> claim_resource_key e \<noteq> key) then Inl ValueError
     else if \<not> authorised then Inl LeaseLostError
     else Inr (spec_release_claim key owner scope expected m))"

text \<open>Under a lease that may be gone: the claim that is expected has to be given, and to be bound to it.\<close>

definition spec_release_if ::
  "(claim_record \<Rightarrow> bool) \<Rightarrow> string \<Rightarrow> string \<Rightarrow> string option \<Rightarrow> claim_record option \<Rightarrow> claim_view
    \<Rightarrow> error + claim_view \<times> bool" where
  "spec_release_if authorised key owner scope expected m =
    (case expected of
       None \<Rightarrow> Inl ValueError
     | Some e \<Rightarrow>
         if key = [] \<or> owner = [] \<or> claim_resource_key e \<noteq> key \<or> \<not> authorised e then Inl ValueError
         else Inr (spec_release_claim key owner scope expected m))"

text \<open>The abstract result of a store call.\<close>

definition claim_result :: "error + 'a claim_db_scheme \<times> 'b \<Rightarrow> error + claim_view \<times> 'b" where
  "claim_result r = (case r of Inl e \<Rightarrow> Inl e | Inr (db, x) \<Rightarrow> Inr (claim_view db, x))"

lemma claim_result_simps [simp]:
  "claim_result (Inl e) = Inl e"
  "claim_result (Inr (db, x)) = Inr (claim_view db, x)"
  by (simp_all add: claim_result_def)

lemma claim_view_key: "claim_view db k = Some c \<Longrightarrow> claim_resource_key c = k"
  by (simp add: claim_view_def claims.get_row_Some)

lemma claim_wf_update [simp]: "claim_wf (db\<lparr>claim_table := t\<rparr>) \<longleftrightarrow> unique_key claim_resource_key t"
  by (simp add: claim_wf_def)

lemma claim_view_update: "claim_view (db\<lparr>claim_table := t\<rparr>) = (\<lambda>k. get_claim_row k t)"
  by (simp add: claim_view_def)

lemma new_claim_key [simp]: "claim_resource_key (new_claim key owner scope details now) = key"
  by (simp add: new_claim_def)

lemma claim_insert:
  assumes "claim_view db (claim_resource_key c) = None"
  shows "sql_insert claim_clash c (claim_table db) = Some (claim_table db @ [c])"
    and "get_claim_row (claim_resource_key c) (claim_table db @ [c]) = Some c"
    and "(\<lambda>k. get_claim_row k (claim_table db @ [c])) = (claim_view db)(claim_resource_key c \<mapsto> c)"
proof -
  have none: "get_claim_row (claim_resource_key c) (claim_table db) = None"
    using assms by (simp add: claim_view_def)
  show "sql_insert claim_clash c (claim_table db) = Some (claim_table db @ [c])"
    using none by (auto simp: sql_insert_Some claim_clash_def claims.get_row_None)
  show got: "get_claim_row (claim_resource_key c) (claim_table db @ [c]) = Some c"
    by (rule claims.get_row_append_new [OF none])
  show "(\<lambda>k. get_claim_row k (claim_table db @ [c])) = (claim_view db)(claim_resource_key c \<mapsto> c)"
    using got claims.get_row_append_other [of _ c] by (auto simp: fun_eq_iff claim_view_def)
qed

lemma claim_touch:
  assumes "claim_view db key = Some e" and f: "\<And>r. claim_resource_key (f r) = claim_resource_key r"
  shows "get_claim_row key (fst (sql_update (\<lambda>r. claim_resource_key r = key) f (claim_table db))) = Some (f e)"
    and "(\<lambda>k. get_claim_row k (fst (sql_update (\<lambda>r. claim_resource_key r = key) f (claim_table db))))
      = (claim_view db)(key \<mapsto> f e)"
proof -
  let ?t = "fst (sql_update (\<lambda>r. claim_resource_key r = key) f (claim_table db))"
  have got: "get_claim_row k ?t =
      map_option (\<lambda>r. if claim_resource_key r = key then f r else r) (claim_view db k)" for k
    unfolding claim_view_def by (rule claims.get_row_update) (rule f)
  show 1: "get_claim_row key ?t = Some (f e)"
    using got [of key] assms(1) claim_view_key [OF assms(1)] by simp
  have "map_option (\<lambda>r. if claim_resource_key r = key then f r else r) (claim_view db k) = claim_view db k"
    if "k \<noteq> key" for k
    using that by (cases "claim_view db k") (auto dest: claim_view_key)
  with 1 got show "(\<lambda>k. get_claim_row k ?t) = (claim_view db)(key \<mapsto> f e)"
    by (auto simp: fun_eq_iff)
qed

subsection \<open>Refinement\<close>

lemma upsert_refines:
  "claim_result (upsert_claim key lease owner scope details now db) =
     spec_upsert (lease_is_current db lease now) key owner scope details now (claim_view db)"
proof (cases "key = [] \<or> owner = [] \<or> \<not> lease_is_current db lease now")
  case True
  then show ?thesis
    by (auto simp: upsert_claim_def spec_upsert_def validate_required_def require_current_lease_def)
next
  case False
  then have ok: "key \<noteq> []" "owner \<noteq> []" "lease_is_current db lease now" by simp_all
  show ?thesis
  proof (cases "claim_view db key")
    case None
    note ins = claim_insert [of db "new_claim key owner scope details now", simplified, OF None]
    show ?thesis
      using ok ins None
      by (simp add: upsert_claim_def spec_upsert_def validate_required_def require_current_lease_def
          claim_view_def Let_def)
  next
    case (Some e)
    note upd = claim_touch [OF Some, of "\<lambda>r. r\<lparr>claim_details := details, claim_updated_at := now\<rparr>", simplified]
    have row: "get_claim_row key (claim_table db) = Some e" using Some by (simp add: claim_view_def)
    show ?thesis
      using ok upd row Some
      by (simp add: upsert_claim_def spec_upsert_def validate_required_def require_current_lease_def
          claim_view_update Let_def)
  qed
qed

lemma create_refines:
  "claim_result (create_claim key lease owner scope details now db) =
     spec_create (lease_is_current db lease now) key owner scope details now (claim_view db)"
proof (cases "key = [] \<or> owner = [] \<or> \<not> lease_is_current db lease now")
  case True
  then show ?thesis
    by (auto simp: create_claim_def spec_create_def validate_required_def require_current_lease_def)
next
  case False
  then have ok: "key \<noteq> []" "owner \<noteq> []" "lease_is_current db lease now" by simp_all
  show ?thesis
  proof (cases "claim_view db key")
    case None
    note ins = claim_insert [of db "new_claim key owner scope details now", simplified, OF None]
    show ?thesis
      using ok ins None
      by (simp add: create_claim_def spec_create_def validate_required_def require_current_lease_def
          claim_view_def Let_def)
  next
    case (Some e)
    have "sql_insert claim_clash (new_claim key owner scope details now) (claim_table db) = None"
      using Some claims.get_row_Some
      by (force simp: sql_insert_None claim_clash_def claim_view_def)
    with Some show ?thesis using ok
      by (simp add: create_claim_def spec_create_def validate_required_def require_current_lease_def
          claim_view_def)
  qed
qed

lemma release_connection_refines:
  assumes "claim_wf db"
  shows "(claim_view (fst (release_claim_in_connection key owner scope expected db)),
          snd (release_claim_in_connection key owner scope expected db))
    = spec_release_claim key owner scope expected (claim_view db)"
proof -
  let ?p = "release_matches key owner scope expected"
  have uniq: "unique_key claim_resource_key (claim_table db)" using assms by (simp add: claim_wf_def)
  have got: "get_claim_row k (fst (sql_delete ?p (claim_table db))) =
      (case claim_view db k of None \<Rightarrow> None | Some r \<Rightarrow> if ?p r then None else Some r)" for k
    unfolding claim_view_def by (rule claims.get_row_delete [OF uniq])
  have p: "(\<lambda>r. claim_resource_key r = key \<and> ?p r) = ?p" by (auto simp: release_matches_def)
  have cnt: "snd (sql_delete ?p (claim_table db)) =
      (case claim_view db key of None \<Rightarrow> 0 | Some r \<Rightarrow> if ?p r then 1 else 0)"
    using claims.rows_of_key [OF uniq, of key ?p] by (simp add: p sql_delete_def claim_view_def)
  obtain t c where tc: "sql_delete ?p (claim_table db) = (t, c)" by fastforce
  have other: "\<not> ?p r" if "claim_view db k = Some r" "k \<noteq> key" for k r
    using claim_view_key [OF that(1)] that(2) by (simp add: release_matches_def)
  have "(\<lambda>k. get_claim_row k t) = fst (spec_release_claim key owner scope expected (claim_view db))"
  proof
    fix k show "get_claim_row k t = fst (spec_release_claim key owner scope expected (claim_view db)) k"
      using got [of k] tc other [of k]
      by (cases "k = key") (auto simp: spec_release_claim_def split: option.splits)
  qed
  moreover have "(c = 1) = snd (spec_release_claim key owner scope expected (claim_view db))"
    using cnt tc by (auto simp: spec_release_claim_def split: option.splits)
  ultimately show ?thesis
    by (simp add: release_claim_in_connection_def tc claim_view_update prod_eq_iff)
qed


subsection \<open>Histories of lease and claim operations\<close>

lemma claim_release_refines:
  assumes "claim_wf db"
  shows "claim_result (release_claim key lease owner scope expected now db)
    = spec_checked_release (lease_is_current db lease now) key owner scope expected (claim_view db)"
  using release_connection_refines [OF assms, of key owner scope expected]
  by (cases expected; cases "release_claim_in_connection key owner scope expected db")
    (simp_all add: release_claim_def spec_checked_release_def validate_required_def require_def require_current_lease_def)

lemma release_if_refines:
  assumes "claim_wf db"
  shows "claim_result (release_if_owner_scope_matches H loads key lease owner scope expected now db)
    = spec_release_if (\<lambda>e. lease_is_current db lease now \<or> claim_matches_lease_authority H loads e lease)
        key owner scope expected (claim_view db)"
  using release_connection_refines [OF assms, of key owner scope expected]
  by (cases expected; cases "release_claim_in_connection key owner scope expected db")
    (simp_all add: release_if_owner_scope_matches_def spec_release_if_def validate_required_def require_def from_option_def)

text \<open>
  Every call of the two stores, by any process. \<open>allowed\<close> restricts the releases of the
  history: it says which (key, owner, scope) a release may name.
\<close>

inductive workspace_step ::
  "digest \<Rightarrow> (string \<Rightarrow> json option) \<Rightarrow> string set \<Rightarrow> (string \<Rightarrow> string \<Rightarrow> string option \<Rightarrow> bool)
    \<Rightarrow> 'a claim_db_scheme \<Rightarrow> 'a claim_db_scheme \<Rightarrow> bool"
  for H :: digest and loads :: "string \<Rightarrow> json option" and F :: "string set"
    and allowed :: "string \<Rightarrow> string \<Rightarrow> string option \<Rightarrow> bool" where
  ws_lease: "lease_step F db db' \<Longrightarrow> workspace_step H loads F allowed db db'"
| ws_create: "create_claim key lease owner scope details now db = Inr (db', c)
    \<Longrightarrow> workspace_step H loads F allowed db db'"
| ws_upsert: "upsert_claim key lease owner scope details now db = Inr (db', c)
    \<Longrightarrow> workspace_step H loads F allowed db db'"
| ws_release: "release_claim key lease owner scope expected now db = Inr (db', b)
    \<Longrightarrow> allowed key owner scope \<Longrightarrow> workspace_step H loads F allowed db db'"
| ws_release_if:
    "release_if_owner_scope_matches H loads key lease owner scope expected now db = Inr (db', b)
    \<Longrightarrow> allowed key owner scope \<Longrightarrow> workspace_step H loads F allowed db db'"

lemma create_ok:
  assumes "create_claim key lease owner scope details now db = Inr (db', c)"
  shows "\<exists>t. db' = db\<lparr>claim_table := t\<rparr>" "lease_is_current db lease now"
    "Inr (claim_view db', c) = spec_create True key owner scope details now (claim_view db)"
    "claim_wf db \<Longrightarrow> claim_wf db'"
proof -
  show cur: "lease_is_current db lease now"
    using assms by (simp add: create_claim_def res_simps require_current_lease_def)
  show "\<exists>t. db' = db\<lparr>claim_table := t\<rparr>"
    using assms by (auto simp: create_claim_def res_simps split: option.splits)
  show "Inr (claim_view db', c) = spec_create True key owner scope details now (claim_view db)"
    using create_refines [of key lease owner scope details now db] assms cur by simp
  show "claim_wf db \<Longrightarrow> claim_wf db'"
    using assms claims.unique_insert
    by (auto simp: create_claim_def res_bind_Inr claim_wf_def split: option.splits)
qed

lemma upsert_ok:
  assumes "upsert_claim key lease owner scope details now db = Inr (db', c)"
  shows "\<exists>t. db' = db\<lparr>claim_table := t\<rparr>" "lease_is_current db lease now"
    "Inr (claim_view db', c) = spec_upsert True key owner scope details now (claim_view db)"
    "claim_wf db \<Longrightarrow> claim_wf db'"
proof -
  show cur: "lease_is_current db lease now"
    using assms by (simp add: upsert_claim_def res_simps require_current_lease_def)
  show "\<exists>t. db' = db\<lparr>claim_table := t\<rparr>"
    using assms by (auto simp: upsert_claim_def res_simps split: option.splits)
  show "Inr (claim_view db', c) = spec_upsert True key owner scope details now (claim_view db)"
    using upsert_refines [of key lease owner scope details now db] assms cur by simp
  show "claim_wf db \<Longrightarrow> claim_wf db'"
    using assms claims.unique_insert claims.unique_update
    by (auto simp: upsert_claim_def res_bind_Inr claim_wf_def from_option_Inr
        split: option.splits if_splits)
qed

lemma release_connection_frame:
  "\<exists>t. fst (release_claim_in_connection key owner scope expected db) = db\<lparr>claim_table := t\<rparr>"
  by (auto simp: release_claim_in_connection_def split: prod.splits)

lemma release_connection_wf:
  "claim_wf db \<Longrightarrow> claim_wf (fst (release_claim_in_connection key owner scope expected db))"
  using claims.unique_delete
  by (auto simp: release_claim_in_connection_def claim_wf_def sql_delete_def Let_def)

lemma release_claim_ok:
  "release_claim key lease owner scope expected now db = Inr (db', b) \<longleftrightarrow>
     key \<noteq> [] \<and> owner \<noteq> [] \<and> (\<forall>e. expected = Some e \<longrightarrow> claim_resource_key e = key)
     \<and> lease_is_current db lease now
     \<and> release_claim_in_connection key owner scope expected db = (db', b)"
  by (auto simp: release_claim_def res_simps require_current_lease_def split: option.splits)

lemma release_if_ok:
  "release_if_owner_scope_matches H loads key lease owner scope expected now db = Inr (db', b) \<longleftrightarrow>
     key \<noteq> [] \<and> owner \<noteq> [] \<and> (\<exists>e. expected = Some e \<and> claim_resource_key e = key
     \<and> (lease_is_current db lease now \<or> claim_matches_lease_authority H loads e lease)
     \<and> release_claim_in_connection key owner scope (Some e) db = (db', b))"
  by (auto simp: release_if_owner_scope_matches_def res_simps)

lemma workspace_step_lease_table:
  assumes "workspace_step H loads F allowed db db'" and "lease_wf db"
  shows "lease_step F db db' \<or> lease_table db' = lease_table db"
  using assms
proof (induction rule: workspace_step.induct)
  case (ws_release key lease owner scope expected now db db' b)
  then show ?case
    using release_connection_frame [of key owner scope expected db] by (auto simp: release_claim_ok)
next
  case (ws_release_if key lease owner scope expected now db db' b)
  then obtain e where "release_claim_in_connection key owner scope (Some e) db = (db', b)"
    by (auto simp: release_if_ok)
  then have "fst (release_claim_in_connection key owner scope (Some e) db) = db'" by simp
  then show ?case using release_connection_frame [of key owner scope "Some e" db] by auto
qed (auto dest: create_ok(1) upsert_ok(1))

lemma lease_same_table:
  fixes db db' :: "'a lease_db_scheme"
  assumes "lease_table db' = lease_table db"
  shows "lease_view db' = lease_view db" "lease_wf db' \<longleftrightarrow> lease_wf db" "lease_level db' n = lease_level db n"
    "lease_is_current db' l t \<longleftrightarrow> lease_is_current db l t"
  using assms by (simp_all add: lease_view_def lease_wf_def lease_level_def lease_is_current_def)

interpretation workspace_auth: fencing_authority
  lease_wf "workspace_step H loads F allowed" lease_is_current lease_level
  lease_name lease_fencing_token lease_identity
proof unfold_locales
  fix db db' :: "'a claim_db_scheme" and n
  assume wf: "lease_wf db" and "workspace_step H loads F allowed db db'"
  then have "lease_step F db db' \<or> lease_table db' = lease_table db"
    using workspace_step_lease_table by blast
  then have "lease_wf db' \<and> lease_level db n \<le> lease_level db' n"
  proof
    assume "lease_step F db db'"
    with wf show ?thesis by (simp add: lease_step_wf lease_step_level)
  next
    assume "lease_table db' = lease_table db"
    then show ?thesis
      using wf lease_same_table(2,3) [of db' db] by simp
  qed
  then show "lease_wf db'" "lease_level db n \<le> lease_level db' n" by simp_all
qed (rule lease_auth.current_level lease_auth.current_identity; assumption)+

text \<open>What one step may do to one claim.\<close>

lemma workspace_step_claim:
  assumes "workspace_step H loads F allowed db db'" and "lease_wf db" and "claim_wf db"
    and "claim_view db k = Some c"
  shows "(\<exists>c'. claim_view db' k = Some c' \<and> claim_owner c' = claim_owner c
        \<and> claim_scope c' = claim_scope c \<and> claim_created_at c' = claim_created_at c)
    \<or> claim_view db' k = None \<and> allowed k (claim_owner c) (claim_scope c)"
  using assms
proof (induction rule: workspace_step.induct)
  case (ws_lease db db')
  then show ?case
    using lease_step_frame [OF ws_lease(1,2)] by (auto simp: claim_view_def)
next
  case (ws_create key lease owner scope details now db db' c')
  then show ?case
    using create_ok(3) [OF ws_create(1)]
    by (auto simp: spec_create_def Let_def split: if_splits option.splits)
next
  case (ws_upsert key lease owner scope details now db db' c')
  then show ?case
    using upsert_ok(3) [OF ws_upsert(1)]
    by (auto simp: spec_upsert_def Let_def split: if_splits option.splits)
next
  case (ws_release key lease owner scope expected now db db' b)
  then show ?case
    using release_connection_refines [OF ws_release(4), of key owner scope expected]
    by (auto simp: release_claim_ok spec_release_claim_def release_matches_def
        split: option.splits if_splits)
next
  case (ws_release_if key lease owner scope expected now db db' b)
  then obtain e where "release_claim_in_connection key owner scope (Some e) db = (db', b)"
    by (auto simp: release_if_ok)
  then show ?case
    using release_connection_refines [OF ws_release_if(4), of key owner scope "Some e"] ws_release_if
    by (auto simp: spec_release_claim_def release_matches_def split: option.splits if_splits)
qed

lemma workspace_step_claim_wf:
  assumes "workspace_step H loads F allowed db db'" and "lease_wf db" and "claim_wf db"
  shows "claim_wf db'"
  using assms
proof (induction rule: workspace_step.induct)
  case (ws_lease db db')
  then show ?case using lease_step_frame [OF ws_lease(1,2)] by (auto simp: claim_wf_def)
next
  case (ws_release key lease owner scope expected now db db' b)
  then show ?case using release_connection_wf [OF ws_release(4), of key owner scope expected]
    by (simp add: release_claim_ok)
next
  case (ws_release_if key lease owner scope expected now db db' b)
  then obtain e where "release_claim_in_connection key owner scope (Some e) db = (db', b)"
    by (auto simp: release_if_ok)
  then show ?case using release_connection_wf [OF ws_release_if(4), of key owner scope "Some e"] by simp
qed (auto intro: create_ok(4) upsert_ok(4))

lemma workspace_run_wf:
  assumes "(workspace_step H loads F allowed)\<^sup>*\<^sup>* db db'" and "lease_wf db" and "claim_wf db"
  shows "lease_wf db' \<and> claim_wf db'"
  using assms
  by (induction rule: rtranclp_induct)
    (auto intro: workspace_step_claim_wf workspace_auth.step_invar)

lemma workspace_run_claim:
  assumes "(workspace_step H loads F allowed)\<^sup>*\<^sup>* db db'" and "lease_wf db" and "claim_wf db"
    and "claim_view db k = Some c" and "\<not> allowed k (claim_owner c) (claim_scope c)"
  shows "\<exists>c'. claim_view db' k = Some c' \<and> claim_owner c' = claim_owner c
        \<and> claim_scope c' = claim_scope c \<and> claim_created_at c' = claim_created_at c"
  using assms
proof (induction rule: rtranclp_induct)
  case base
  then show ?case by simp
next
  case (step x y)
  then obtain c' where c': "claim_view x k = Some c'" "claim_owner c' = claim_owner c"
    "claim_scope c' = claim_scope c" "claim_created_at c' = claim_created_at c" by auto
  have wf: "lease_wf x \<and> claim_wf x" using workspace_run_wf step by blast
  from workspace_step_claim [OF step(2) _ _ c'(1)] wf c' step.prems show ?case by auto
qed


subsection \<open>Properties\<close>

definition demo_claim :: claim_record where
  "demo_claim = new_claim ''file:a'' ''w1'' (Some ''tx1'') (Some ''{}'') 1"

definition demo_ws :: claim_db where
  "demo_ws = \<lparr>lease_table = [demo_row], claim_table = [demo_claim]\<rparr>"

lemmas claim_eval = lease_eval demo_ws_def demo_claim_def new_claim_def create_claim_def
  upsert_claim_def get_claim_row_def claim_clash_def conflicts_def validate_required_def
  require_current_lease_def release_claim_def release_claim_in_connection_def release_matches_def
  sql_delete_def

lemma demo_ws_wf: "lease_wf demo_ws \<and> claim_wf demo_ws"
  by (simp add: lease_wf_def claim_wf_def unique_key_def claim_eval)

lemma demo_ws_claim: "claim_view demo_ws ''file:a'' = Some demo_claim"
  by (simp add: claim_view_def claim_eval)

lemma demo_ws_current: "lease_is_current demo_ws demo_lease 5"
  by (simp add: claim_eval)

text \<open>
  C5. The writing methods of \<open>ClaimStore\<close> do, on the table, exactly what the abstract claim table
  does, exceptions included. \<open>upsert\<close>: empty keys and owners are refused, then a lease that is not
  current, then a claim held by another owner or under another scope (the conflict carries the
  existing claim); otherwise the claim is created, or its details and update time are replaced while
  owner, scope and creation time stay. \<open>create\<close> differs only in refusing every existing claim.
  \<open>release\<close>, on a table with unique keys: an expected claim of another key is refused as well; the
  claim is removed, and \<open>True\<close> returned, if and only if it has this owner and scope and, when an
  expected claim is given, its details and times; otherwise nothing changes. For
  \<open>release_if_owner_scope_matches\<close> the expected claim is mandatory, and a claim bound to the lease
  is as good as a lease that is current.
\<close>

theorem claim_writes_implement_spec:
  "claim_result (upsert_claim key lease owner scope details now db) =
     spec_upsert (lease_is_current db lease now) key owner scope details now (claim_view db)
   \<and> claim_result (create_claim key lease owner scope details now db) =
     spec_create (lease_is_current db lease now) key owner scope details now (claim_view db)
   \<and> (claim_wf db \<longrightarrow>
     claim_result (release_claim key lease owner scope expected now db) =
       spec_checked_release (lease_is_current db lease now) key owner scope expected (claim_view db)
     \<and> claim_result (release_if_owner_scope_matches H loads key lease owner scope expected now db) =
       spec_release_if (\<lambda>e. lease_is_current db lease now \<or> claim_matches_lease_authority H loads e lease)
         key owner scope expected (claim_view db))"
  by (simp add: upsert_refines create_refines claim_release_refines release_if_refines)

theorem claim_writes_implement_spec_witness:
  "claim_result (upsert_claim ''file:a'' demo_lease ''w2'' None None 5 demo_ws) = Inl (ClaimConflictError demo_claim)
    \<and> claim_result (release_claim ''file:a'' demo_lease ''w1'' (Some ''tx2'') None 5 demo_ws) = Inr (claim_view demo_ws, False)
    \<and> claim_result (release_claim ''file:a'' demo_lease ''w1'' (Some ''tx1'') None 5 demo_ws)
      = Inr ((claim_view demo_ws)(''file:a'' := None), True)"
proof -
  have wf: "claim_wf demo_ws" using demo_ws_wf by simp
  have owner: "claim_owner demo_claim = ''w1''" "claim_scope demo_claim = Some ''tx1''" "claim_resource_key demo_claim = ''file:a''"
    by (simp_all add: demo_claim_def new_claim_def)
  show ?thesis
    using claim_writes_implement_spec [where key = "''file:a''" and lease = demo_lease and db = demo_ws]
    by (simp add: wf demo_ws_current demo_ws_claim spec_upsert_def spec_checked_release_def spec_release_claim_def
        release_matches_def conflicts_def owner)
qed

text \<open>
  C6. A claim belongs to one owner and scope until it is released in that owner's and scope's
  name: over every history of lease and claim calls by any processes in which no release names
  the claim's key, owner and scope, the claim stays with the same owner, scope and creation
  time, and an \<open>upsert\<close> or \<open>create\<close> of the key by another owner or scope raises
  \<open>ClaimConflictError\<close> (or, with a lease that is not current, \<open>LeaseLostError\<close>).
\<close>

theorem claim_ownership_stable:
  assumes "(workspace_step H loads F allowed)\<^sup>*\<^sup>* db db'" and "lease_wf db" and "claim_wf db"
    and "claim_view db k = Some c" and "\<not> allowed k (claim_owner c) (claim_scope c)"
    and "owner \<noteq> []" and "owner \<noteq> claim_owner c \<or> scope \<noteq> claim_scope c"
  shows "\<exists>c'. claim_view db' k = Some c' \<and> claim_owner c' = claim_owner c
    \<and> claim_scope c' = claim_scope c \<and> claim_created_at c' = claim_created_at c
    \<and> upsert_claim k lease owner scope details now db' \<in>
        {Inl ValueError, Inl LeaseLostError, Inl (ClaimConflictError c')}
    \<and> create_claim k lease owner scope details now db' \<in>
        {Inl ValueError, Inl LeaseLostError, Inl (ClaimConflictError c')}"
proof -
  obtain c' where c': "claim_view db' k = Some c'" "claim_owner c' = claim_owner c"
    "claim_scope c' = claim_scope c" "claim_created_at c' = claim_created_at c"
    using workspace_run_claim [OF assms(1-5)] by auto
  have row: "get_claim_row k (claim_table db') = Some c'" using c'(1) by (simp add: claim_view_def)
  have "conflicts c' owner scope" using assms(7) c' by (auto simp: conflicts_def)
  then have "upsert_claim k lease owner scope details now db' \<in>
      {Inl ValueError, Inl LeaseLostError, Inl (ClaimConflictError c')}"
    using row by (simp add: upsert_claim_def validate_required_def require_current_lease_def require_def)
  moreover have "sql_insert claim_clash (new_claim k owner scope details now) (claim_table db') = None"
    using row claims.get_row_Some by (force simp: sql_insert_None claim_clash_def)
  then have "create_claim k lease owner scope details now db' \<in>
      {Inl ValueError, Inl LeaseLostError, Inl (ClaimConflictError c')}"
    using row by (simp add: create_claim_def validate_required_def require_current_lease_def require_def)
  ultimately show ?thesis using c' by blast
qed

theorem claim_ownership_stable_witness:
  "upsert_claim ''file:a'' demo_lease ''w2'' None None 5 demo_ws = Inl (ClaimConflictError demo_claim)"
  using claim_ownership_stable [where H = id and loads = "\<lambda>_. None" and F = "{}"
      and allowed = "\<lambda>_ _ _. False" and owner = "''w2''" and scope = None and details = None
      and lease = demo_lease and now = 5, OF rtranclp.rtrancl_refl _ _ demo_ws_claim] demo_ws_wf
  by (auto simp: claim_eval)

text \<open>
  Claims are written with authority only. A successful \<open>create\<close>, \<open>upsert\<close> or
  \<open>release\<close> was made with a lease that is current in the same transaction; a successful
  \<open>release_if_owner_scope_matches\<close> with a current lease or with a claim record whose details
  name this very lease. A worker whose lease has been superseded can therefore create, extend
  or plainly release nothing, after any history, for any clock reading.
\<close>

theorem superseded_worker_cannot_claim:
  assumes "lease_wf db" and "lease_is_current db l' t'" and "lease_name l' = lease_name l"
    and "lease_fencing_token l < lease_fencing_token l'"
    and "(workspace_step H loads F allowed)\<^sup>*\<^sup>* db db'"
  shows "upsert_claim key l owner scope details now db' \<in> {Inl ValueError, Inl LeaseLostError}
    \<and> create_claim key l owner scope details now db' \<in> {Inl ValueError, Inl LeaseLostError}
    \<and> release_claim key l owner scope expected now db' \<in> {Inl ValueError, Inl LeaseLostError}
    \<and> (release_if_owner_scope_matches H loads key l owner scope expected now db' \<noteq> Inl ValueError
       \<longrightarrow> (\<exists>e. expected = Some e \<and> claim_matches_lease_authority H loads e l))"
proof -
  have "\<not> lease_is_current db' l now" by (rule workspace_auth.handover [OF assms])
  then show ?thesis
    by (auto simp: upsert_claim_def create_claim_def release_claim_def validate_required_def
        require_current_lease_def release_if_owner_scope_matches_def from_option_def require_def
        split: option.splits)
qed

theorem superseded_worker_cannot_claim_witness:
  "upsert_claim ''file:b'' (demo_lease\<lparr>lease_fencing_token := 0\<rparr>) ''w1'' None None 5 demo_ws
     = Inl LeaseLostError"
  using superseded_worker_cannot_claim [where l = "demo_lease\<lparr>lease_fencing_token := 0\<rparr>"
      and key = "''file:b''" and owner = "''w1''" and scope = None and details = None and now = 5
      and expected = None,
      OF _ demo_ws_current _ _ rtranclp.rtrancl_refl [of "workspace_step id (\<lambda>_. None) {} (\<lambda>_ _ _. True)"]]
    demo_ws_wf
  by (auto simp: claim_eval)

text \<open>
  Conditional release is optimistic concurrency. A release removes at most the claim of
  its key, only if owner and scope are the claim's own and, when an \<open>expected_claim\<close> is given,
  only if the stored details, creation and update times are still those of that record; it
  returns \<open>True\<close> exactly when it removed the claim, and every other claim is untouched.
\<close>

theorem release_removes_only_the_expected_claim:
  assumes "claim_wf db" and "release_claim key lease owner scope expected now db = Inr (db', released)"
  shows "(released \<longleftrightarrow> (\<exists>c. claim_view db key = Some c \<and> claim_owner c = owner \<and> claim_scope c = scope
       \<and> (\<forall>e. expected = Some e \<longrightarrow> claim_details c = claim_details e
            \<and> claim_created_at c = claim_created_at e \<and> claim_updated_at c = claim_updated_at e)))
    \<and> claim_view db' = (if released then (claim_view db)(key := None) else claim_view db)"
  using release_connection_refines [OF assms(1), of key owner scope expected] assms(2)
  by (auto simp: release_claim_ok spec_release_claim_def release_matches_def
      dest: claim_view_key split: option.splits if_splits)

theorem release_removes_only_the_expected_claim_witness:
  "release_claim ''file:a'' demo_lease ''w1'' (Some ''tx1'')
       (Some (demo_claim\<lparr>claim_updated_at := 0\<rparr>)) 5 demo_ws = Inr (demo_ws, False)
   \<and> claim_view demo_ws ''file:a'' = Some demo_claim"
proof -
  have r: "release_claim ''file:a'' demo_lease ''w1'' (Some ''tx1'')
       (Some (demo_claim\<lparr>claim_updated_at := 0\<rparr>)) 5 demo_ws = Inr (demo_ws, False)"
    by (simp add: claim_eval)
  show ?thesis
    using release_removes_only_the_expected_claim [OF _ r] demo_ws_wf r demo_ws_claim by simp
qed

text \<open>
  The details written into a claim bind it to one lease. A claim whose details text parses
  to \<open>lease_claim_details_payload\<close> of a lease (with a claim id, and extra fields that do not
  overwrite the lease's own) is accepted as authority for that lease, and for any other lease
  only if name, owner, fencing token and the SHA-256 digest of the token agree.
\<close>

theorem claim_details_bind_lease:
  assumes "loads body = Some (lease_claim_details_payload H lease claim_id (Some extra))"
    and "claim_id \<noteq> []"
    and "fst ` set extra \<inter> {''claim_id'', ''lease_name'', ''lease_owner'', ''lease_token_digest'',
           ''lease_fencing_token''} = {}"
    and "claim_details claim = Some body"
  shows "claim_matches_lease_authority H loads claim lease' \<longleftrightarrow>
    lease_name lease' = lease_name lease \<and> lease_owner lease' = lease_owner lease
    \<and> lease_fencing_token lease' = lease_fencing_token lease
    \<and> H (lease_token lease') = H (lease_token lease)"
proof -
  let ?own = "[(''claim_id'', JStr claim_id), (''lease_name'', JStr (lease_name lease)),
     (''lease_owner'', JStr (lease_owner lease)),
     (''lease_token_digest'', JStr (lease_token_digest H lease)),
     (''lease_fencing_token'', JInt (lease_fencing_token lease))]"
  have "jget (JObj (assoc_update ?own extra)) k = jget (JObj ?own) k"
    if "k \<in> {''claim_id'', ''lease_name'', ''lease_owner'', ''lease_token_digest'',
           ''lease_fencing_token''}" for k
    by (rule jget_assoc_update) (use assms(3) that in blast)
  then have own: "jget (JObj (assoc_update ?own extra)) ''claim_id'' = JStr claim_id"
    "jget (JObj (assoc_update ?own extra)) ''lease_name'' = JStr (lease_name lease)"
    "jget (JObj (assoc_update ?own extra)) ''lease_owner'' = JStr (lease_owner lease)"
    "jget (JObj (assoc_update ?own extra)) ''lease_token_digest'' = JStr (lease_token_digest H lease)"
    "jget (JObj (assoc_update ?own extra)) ''lease_fencing_token'' = JInt (lease_fencing_token lease)"
    by simp_all
  have payload: "loads body = Some (JObj (assoc_update ?own extra))"
    using assms(1) by (simp add: lease_claim_details_payload_def)
  show ?thesis
    using assms(2,4)
    by (simp add: claim_matches_lease_authority_def lease_bound_claim_details_def payload own)
      (auto simp: py_int_def lease_token_digest_def)
qed

theorem claim_details_bind_lease_witness:
  "claim_matches_lease_authority rev
     (\<lambda>_. Some (lease_claim_details_payload rev demo_lease ''c1'' (Some [(''run_id'', JStr ''r1'')])))
     demo_claim demo_lease"
  by (subst claim_details_bind_lease [where H = rev and lease = demo_lease and claim_id = "''c1''"
        and extra = "[(''run_id'', JStr ''r1'')]" and body = "''{}''"])
    (simp_all add: demo_claim_def new_claim_def)

end
