(* ===== verification/Event_Log.thy ===== *)
theory Event_Log
  imports Sql_Table
begin

section \<open>Append-only logs with sequence numbers\<close>

text \<open>
  The five journal tables are logs: a row has an id, the batch it belongs to and a sequence
  number that is unique in the batch. The locale \<open>event_log\<close> states what such a table
  promises, \<open>status_log\<close> adds the status machine that the recovery actions and the artifact
  cleanups share. \<open>Journal_Rows\<close> and the two record components interpret them.
\<close>

text \<open>\<open>_max_sequence\<close>: \<open>SELECT MAX(sequence) ... WHERE batch_id = ?\<close>, \<open>NULL\<close> read as 0.\<close>

definition max_sequence :: "('r \<Rightarrow> string) \<Rightarrow> ('r \<Rightarrow> nat) \<Rightarrow> string \<Rightarrow> 'r list \<Rightarrow> nat" where
  "max_sequence batch_of seq_of b t =
     foldr (\<lambda>r m. max (seq_of r) m) (filter (\<lambda>r. batch_of r = b) t) 0"

definition ordered_log :: "('r \<Rightarrow> string) \<Rightarrow> ('r \<Rightarrow> nat) \<Rightarrow> 'r list \<Rightarrow> bool" where
  "ordered_log batch_of seq_of t \<longleftrightarrow>
     (\<forall>b. sorted_wrt (<) (map seq_of (filter (\<lambda>r. batch_of r = b) t)))"

definition last_of :: "('r \<Rightarrow> bool) \<Rightarrow> 'r list \<Rightarrow> 'r option" where
  "last_of p t = (if filter p t = [] then None else Some (last (filter p t)))"

definition valid_history :: "('s \<Rightarrow> bool) \<Rightarrow> ('s \<Rightarrow> 's \<Rightarrow> bool) \<Rightarrow> 's list \<Rightarrow> bool" where
  "valid_history initial allowed h \<longleftrightarrow> (h = [] \<or> initial (hd h)) \<and> successively allowed h"

lemma foldr_max_ge: "r \<in> set xs \<Longrightarrow> (f r :: nat) \<le> foldr (\<lambda>r m. max (f r) m) xs 0"
  by (induction xs) auto

lemma foldr_max_bound: "(\<And>r. r \<in> set xs \<Longrightarrow> f r < n) \<Longrightarrow> 0 < n \<Longrightarrow> foldr (\<lambda>r m. max (f r) m) xs 0 < (n::nat)"
  by (induction xs) auto

lemma max_sequence_ge: "r \<in> set t \<Longrightarrow> seq_of r \<le> max_sequence batch_of seq_of (batch_of r) t"
  unfolding max_sequence_def by (rule foldr_max_ge) simp

lemma max_sequence_Nil [simp]: "max_sequence batch_of seq_of b [] = 0"
  by (simp add: max_sequence_def)

lemma foldr_max_append:
  "foldr (\<lambda>r m. max (f r) m) xs (n::nat) = max (foldr (\<lambda>r m. max (f r) m) xs 0) n"
  by (induction xs) auto

lemma max_sequence_append:
  "max_sequence batch_of seq_of b (t @ [r]) =
     (if batch_of r = b then max (max_sequence batch_of seq_of b t) (seq_of r)
      else max_sequence batch_of seq_of b t)"
  using foldr_max_append [of seq_of "filter (\<lambda>r. batch_of r = b) t" "seq_of r"]
  by (simp add: max_sequence_def)

lemma max_sequence_in:
  "max_sequence batch_of seq_of b t = 0 \<or> (\<exists>r \<in> set t. batch_of r = b \<and> seq_of r = max_sequence batch_of seq_of b t)"
  by (induction t) (auto simp: max_sequence_def max_def)

lemma ordered_log_Nil [simp]: "ordered_log batch_of seq_of []"
  by (simp add: ordered_log_def)

lemma ordered_log_append:
  assumes "ordered_log batch_of seq_of t" and "max_sequence batch_of seq_of (batch_of r) t < seq_of r"
  shows "ordered_log batch_of seq_of (t @ [r])"
proof -
  have "seq_of x < seq_of r" if "x \<in> set t" "batch_of x = batch_of r" for x
    using max_sequence_ge [OF that(1), of seq_of batch_of] that(2) assms(2) by simp
  then show ?thesis using assms(1) by (auto simp: ordered_log_def sorted_wrt_append)
qed

lemma last_of_Nil [simp]: "last_of p [] = None"
  by (simp add: last_of_def)

lemma last_of_append [simp]:
  "last_of p (t @ [r]) = (if p r then Some r else last_of p t)"
  by (simp add: last_of_def)

lemma last_of_None: "last_of p t = None \<longleftrightarrow> (\<forall>r \<in> set t. \<not> p r)"
  by (simp add: last_of_def filter_empty_conv)

lemma last_of_Some:
  assumes "last_of p t = Some r"
  shows "r \<in> set t \<and> p r"
proof -
  from assms have "filter p t \<noteq> []" and r: "r = last (filter p t)"
    by (auto simp: last_of_def split: if_splits)
  then have "r \<in> set (filter p t)" unfolding r by (intro last_in_set)
  then show ?thesis by simp
qed

lemma last_of_map:
  "map_option f (last_of p t) = (if filter p t = [] then None else Some (last (map f (filter p t))))"
  by (simp add: last_of_def last_map)

lemma sorted_filter_seq:
  assumes "ordered_log batch_of seq_of t" and "\<And>r. r \<in> set t \<Longrightarrow> p r \<Longrightarrow> batch_of r = b"
  shows "sorted_wrt (<) (map seq_of (filter p t))"
proof -
  have "filter p (filter (\<lambda>r. batch_of r = b) t) = filter p t"
    using assms(2) by (induction t) auto
  moreover have "sorted_wrt (\<lambda>r x. seq_of r < seq_of x) (filter (\<lambda>r. batch_of r = b) t)"
    using assms(1) by (simp add: ordered_log_def sorted_wrt_map)
  ultimately show ?thesis by (metis sorted_wrt_filter sorted_wrt_map)
qed

lemma sort_key_strict:
  assumes "sorted_wrt (<) (map (seq_of :: 'r \<Rightarrow> nat) xs)"
  shows "sort_key (\<lambda>r. (seq_of r, key r :: string)) xs = xs"
proof -
  have "sorted_wrt (\<lambda>r x. (seq_of r, key r) \<le> (seq_of x, key x)) xs"
    using assms unfolding sorted_wrt_map by (rule sorted_wrt_mono_rel [rotated]) (simp add: less_eq_prod_def)
  then show ?thesis by (intro sort_key_id_if_sorted) (simp add: sorted_wrt_map)
qed

text \<open>
  On an ordered log, \<open>ORDER BY sequence, id\<close> is the storage order and
  \<open>ORDER BY sequence DESC, id DESC LIMIT 1\<close> is the row stored last.
\<close>

lemma select_is_filter:
  assumes "ordered_log batch_of seq_of t" and "\<And>r. r \<in> set t \<Longrightarrow> p r \<Longrightarrow> batch_of r = b"
  shows "sql_select p (\<lambda>r. (seq_of r, key r :: string)) t = filter p t"
  unfolding sql_select_def by (rule sort_key_strict) (rule sorted_filter_seq [OF assms])

lemma latest_is_last:
  assumes "ordered_log batch_of seq_of t" and "\<And>r. r \<in> set t \<Longrightarrow> p r \<Longrightarrow> batch_of r = b"
  shows "sql_latest p (\<lambda>r. (seq_of r, key r :: string)) t = last_of p t"
  by (auto simp: sql_latest_def last_of_def select_is_filter [OF assms] split: list.splits)

lemma valid_history_Nil [simp]: "valid_history initial allowed []"
  by (simp add: valid_history_def)

lemma valid_history_snoc:
  "valid_history initial allowed (h @ [s]) \<longleftrightarrow>
     valid_history initial allowed h \<and> (if h = [] then initial s else allowed (last h) s)"
  by (cases "h = []") (auto simp: valid_history_def successively_append_iff)

lemma valid_history_end:
  assumes "valid_history initial allowed (h @ s # h')" and "\<And>s'. \<not> allowed s s'"
  shows "h' = []"
  using assms by (cases h') (auto simp: valid_history_def successively_append_iff)

subsection \<open>The contract of a log table\<close>

locale event_log = keyed_table key clash get_row
  for key :: "'r \<Rightarrow> string" and clash :: "'r \<Rightarrow> 'r \<Rightarrow> bool" and get_row :: "string \<Rightarrow> 'r list \<Rightarrow> 'r option" +
  fixes batch_of :: "'r \<Rightarrow> string" and seq_of :: "'r \<Rightarrow> nat"
  assumes clash_iff: "clash r x \<longleftrightarrow> key r = key x \<or> batch_of r = batch_of x \<and> seq_of r = seq_of x"
begin

lemma insert_next:
  assumes "max_sequence batch_of seq_of (batch_of r) t < seq_of r"
  shows "sql_insert clash r t = (if key r \<in> key ` set t then None else Some (t @ [r]))"
proof -
  have "\<not> (batch_of r = batch_of x \<and> seq_of r = seq_of x)" if "x \<in> set t" for x
    using max_sequence_ge [OF that, of seq_of batch_of] assms by auto
  then have "list_ex (clash r) t \<longleftrightarrow> key r \<in> key ` set t"
    by (auto simp: list_ex_iff clash_iff)
  then show ?thesis by (simp add: sql_insert_def)
qed

lemma insert_Some:
  assumes "sql_insert clash r t = Some t'"
  shows "t' = t @ [r]" "key r \<notin> key ` set t" "get_row (key r) t' = Some r"
    "unique_key key t \<Longrightarrow> unique_key key t'"
  using assms get_row_insert [OF assms] unique_insert [OF _ assms]
  by (auto simp: sql_insert_Some clash_iff)

text \<open>A log never loses or reorders rows: the rows of a batch only grow at the end.\<close>

lemma select_append:
  assumes "ordered_log batch_of seq_of t" and "max_sequence batch_of seq_of (batch_of r) t < seq_of r"
  shows "sql_select (\<lambda>x. batch_of x = b) (\<lambda>x. (seq_of x, key x)) (t @ [r]) =
    sql_select (\<lambda>x. batch_of x = b) (\<lambda>x. (seq_of x, key x)) t @ (if batch_of r = b then [r] else [])"
  using select_is_filter [OF assms(1)] select_is_filter [OF ordered_log_append [OF assms]] by simp

end

subsection \<open>Logs of a status machine\<close>

text \<open>
  \<open>stream\<close> says which machine a row belongs to; \<open>admit\<close> is the guard that the store
  evaluates on the status of the stream's latest row before it appends the next one.
\<close>

locale status_log = event_log key clash get_row batch_of seq_of
  for key :: "'r \<Rightarrow> string" and clash and get_row and batch_of and seq_of :: "'r \<Rightarrow> nat" +
  fixes stream :: "'r \<Rightarrow> 'k" and status :: "'r \<Rightarrow> 's"
    and initial :: "'s \<Rightarrow> bool" and allowed :: "'s \<Rightarrow> 's \<Rightarrow> bool"
    and admit :: "'s option \<Rightarrow> 's \<Rightarrow> bool"
  assumes admit_first: "admit None s \<Longrightarrow> initial s"
    and admit_next: "admit (Some s) s' \<Longrightarrow> allowed s s'"
begin

definition history :: "'r list \<Rightarrow> 'k \<Rightarrow> 's list" where
  "history t k = map status (filter (\<lambda>r. stream r = k) t)"

definition wf_log :: "'r list \<Rightarrow> bool" where
  "wf_log t \<longleftrightarrow> (\<forall>k. valid_history initial allowed (history t k))"

lemma wf_log_Nil: "wf_log []"
  by (simp add: wf_log_def history_def)

lemma wf_log_append:
  assumes "wf_log t"
    and "admit (map_option status (last_of (\<lambda>x. stream x = stream r) t)) (status r)"
  shows "wf_log (t @ [r])"
proof -
  let ?h = "history t (stream r)"
  have last: "map_option status (last_of (\<lambda>x. stream x = stream r) t) = (if ?h = [] then None else Some (last ?h))"
    by (simp add: last_of_map history_def)
  have "if ?h = [] then initial (status r) else allowed (last ?h) (status r)"
    using assms(2) unfolding last by (auto intro: admit_first admit_next split: if_splits)
  moreover have "valid_history initial allowed ?h" using assms(1) by (simp add: wf_log_def)
  ultimately have "valid_history initial allowed (?h @ [status r])"
    by (simp add: valid_history_snoc)
  then show ?thesis
    using assms(1) by (auto simp: wf_log_def history_def)
qed

text \<open>Nothing follows a status that allows no successor.\<close>

lemma terminal_is_last:
  assumes "wf_log t" and "filter (\<lambda>r. stream r = k) t = xs @ r # ys" and "\<And>s. \<not> allowed (status r) s"
  shows "ys = []"
proof -
  have "history t k = map status xs @ status r # map status ys" by (simp add: history_def assms(2))
  then have "valid_history initial allowed (map status xs @ status r # map status ys)"
    using assms(1) by (metis wf_log_def)
  then have "map status ys = []" by (rule valid_history_end) (rule assms(3))
  then show ?thesis by simp
qed

lemma first_is_initial:
  assumes "wf_log t" and "filter (\<lambda>r. stream r = k) t = r # xs"
  shows "initial (status r)"
  using assms(1) unfolding wf_log_def valid_history_def history_def
  by (metis assms(2) list.sel(1) list.simps(3,9))

end

end
