(* ===== verification/Journal_Rows.thy ===== *)
theory Journal_Rows
  imports Claims Event_Log
begin

section \<open>Tables and queries of the operation journal\<close>

text \<open>
  \<open>operation_journal/journal_schema.py\<close> (phases, transitions, tables and their
  constraints), the records of \<open>operation_journal/models.py\<close>, \<open>journal_payloads.py\<close> and
  the queries of \<open>journal_rows.py\<close>. A row of a log table has the fields of the record that
  \<open>_..._from_row\<close> builds from it; a payload column holds the canonical JSON value its text
  denotes, so that two texts are equal exactly if the values are.
\<close>

subsection \<open>Phases, statuses and payloads\<close>

datatype batch_phase =
    PLANNED | ATTEMPTING | SUCCEEDED | FAILED
  | RECOVERY_DESIRED | RECOVERING | RECOVERY_SUCCEEDED | RECOVERY_FAILED

fun valid_transitions :: "batch_phase \<Rightarrow> batch_phase set" where
  "valid_transitions PLANNED = {ATTEMPTING}"
| "valid_transitions ATTEMPTING = {SUCCEEDED, FAILED}"
| "valid_transitions SUCCEEDED = {}"
| "valid_transitions FAILED = {RECOVERY_DESIRED}"
| "valid_transitions RECOVERY_DESIRED = {RECOVERING}"
| "valid_transitions RECOVERING = {RECOVERY_SUCCEEDED, RECOVERY_FAILED}"
| "valid_transitions RECOVERY_SUCCEEDED = {}"
| "valid_transitions RECOVERY_FAILED = {RECOVERY_DESIRED}"

datatype action_status =
    ACTION_PLANNED | ACTION_ATTEMPTING | ACTION_SUCCEEDED | ACTION_FAILED | ACTION_SKIPPED
  | ACTION_MANUAL_INTERVENTION_REQUIRED

datatype cleanup_status =
    CLEANUP_PLANNED | CLEANUP_ATTEMPTING | CLEANUP_SUCCEEDED | CLEANUP_SKIPPED | CLEANUP_FAILED
  | CLEANUP_MANUAL_INTERVENTION_REQUIRED

definition artifact_cleanup_active_statuses :: "cleanup_status set" where
  "artifact_cleanup_active_statuses = {CLEANUP_PLANNED, CLEANUP_ATTEMPTING}"

definition artifact_cleanup_debt_statuses :: "cleanup_status set" where
  "artifact_cleanup_debt_statuses = {CLEANUP_FAILED, CLEANUP_MANUAL_INTERVENTION_REQUIRED}"

definition artifact_cleanup_outstanding_statuses :: "cleanup_status set" where
  "artifact_cleanup_outstanding_statuses = artifact_cleanup_active_statuses \<union> artifact_cleanup_debt_statuses"

text \<open>
  \<open>json.dumps(payload, sort_keys=True, separators=(",", ":"))\<close>: the text of a value with
  the keys of every mapping in order, represented by that ordered value.
\<close>

fun canonical_json :: "json \<Rightarrow> json" where
  "canonical_json (JObj kvs) = JObj (sort_key fst (map (\<lambda>p. (fst p, canonical_json (snd p))) kvs))"
| "canonical_json (JArr xs) = JArr (map canonical_json xs)"
| "canonical_json JNull = JNull"
| "canonical_json (JBool b) = JBool b"
| "canonical_json (JInt n) = JInt n"
| "canonical_json (JStr s) = JStr s"

definition payload_to_json :: "json option \<Rightarrow> json" where
  "payload_to_json payload = canonical_json (case payload of None \<Rightarrow> JObj [] | Some v \<Rightarrow> v)"

subsection \<open>Rows\<close>

record batch_entry =
  batch_storage_order :: nat
  batch_id :: string
  batch_idempotency_key :: string
  batch_lease_name :: string
  batch_lease_owner :: "string option"
  batch_lease_fencing_token :: int
  batch_lease_token_digest :: "string option"
  batch_owner :: string
  batch_run_id :: string
  batch_operation_run_id :: "string option"
  batch_operation_phase_id :: "string option"
  batch_resource_key :: "string option"
  batch_claim_owner :: "string option"
  batch_claim_scope :: "string option"
  batch_phase :: batch_phase
  batch_payload :: json
  batch_status_message :: "string option"
  batch_status_payload :: json
  batch_created_at :: time
  batch_updated_at :: time

record operation_record =
  operation_id :: string
  operation_batch_id :: string
  operation_sequence :: nat
  operation_type :: string
  operation_resource_key :: "string option"
  operation_payload :: json
  operation_created_at :: time

record checkpoint_record =
  checkpoint_id :: string
  checkpoint_batch_id :: string
  checkpoint_sequence :: nat
  checkpoint_operation_id :: "string option"
  checkpoint_resource_key :: string
  checkpoint_type :: string
  checkpoint_payload :: json
  checkpoint_created_at :: time

record recovery_record =
  recovery_id :: string
  recovery_batch_id :: string
  recovery_sequence :: nat
  recovery_phase :: batch_phase
  recovery_reason :: "string option"
  recovery_payload :: json
  recovery_created_at :: time

record recovery_action_record =
  action_record_id :: string
  action_id :: string
  action_recovery_attempt_id :: string
  action_batch_id :: string
  action_sequence :: nat
  action_type :: string
  action_status :: action_status
  action_resource_key :: "string option"
  action_reason :: "string option"
  action_payload :: json
  action_created_at :: time

record artifact_cleanup_record =
  cleanup_record_id :: string
  cleanup_artifact_id :: string
  cleanup_batch_id :: string
  cleanup_sequence :: nat
  cleanup_trigger :: string
  cleanup_status :: cleanup_status
  cleanup_resource_key :: "string option"
  cleanup_reason :: "string option"
  cleanup_payload :: json
  cleanup_created_at :: time

record operation_run_record =
  run_operation_run_id :: string
  run_run_id :: string
  run_owner :: string
  run_lease_name :: string
  run_lease_fencing_token :: int
  run_status :: string
  run_payload :: json
  run_created_at :: time
  run_updated_at :: time

record operation_phase_record =
  phase_operation_phase_id :: string
  phase_operation_run_id :: string
  phase_phase_name :: string
  phase_status :: string
  phase_phase_order :: int
  phase_payload :: json
  phase_created_at :: time
  phase_updated_at :: time

text \<open>\<open>OperationBatchRecord\<close>: a batch row without the two authority columns.\<close>

record operation_batch_record =
  br_batch_id :: string
  br_idempotency_key :: string
  br_lease_name :: string
  br_lease_fencing_token :: int
  br_owner :: string
  br_run_id :: string
  br_operation_run_id :: "string option"
  br_operation_phase_id :: "string option"
  br_resource_key :: "string option"
  br_claim_owner :: "string option"
  br_claim_scope :: "string option"
  br_phase :: batch_phase
  br_payload :: json
  br_status_message :: "string option"
  br_status_payload :: json
  br_created_at :: time
  br_updated_at :: time
  br_storage_order :: nat

definition batch_from_row :: "batch_entry \<Rightarrow> operation_batch_record" where
  "batch_from_row row =
     \<lparr>br_batch_id = batch_id row,
      br_idempotency_key = batch_idempotency_key row,
      br_lease_name = batch_lease_name row,
      br_lease_fencing_token = batch_lease_fencing_token row,
      br_owner = batch_owner row,
      br_run_id = batch_run_id row,
      br_operation_run_id = batch_operation_run_id row,
      br_operation_phase_id = batch_operation_phase_id row,
      br_resource_key = batch_resource_key row,
      br_claim_owner = batch_claim_owner row,
      br_claim_scope = batch_claim_scope row,
      br_phase = batch_phase row,
      br_payload = batch_payload row,
      br_status_message = batch_status_message row,
      br_status_payload = batch_status_payload row,
      br_created_at = batch_created_at row,
      br_updated_at = batch_updated_at row,
      br_storage_order = batch_storage_order row\<rparr>"

subsection \<open>The database\<close>

record journal_db = claim_db +
  batch_table :: "batch_entry list"
  operation_table :: "operation_record list"
  checkpoint_table :: "checkpoint_record list"
  recovery_table :: "recovery_record list"
  recovery_action_table :: "recovery_action_record list"
  artifact_cleanup_table :: "artifact_cleanup_record list"
  operation_run_table :: "operation_run_record list"
  operation_phase_table :: "operation_phase_record list"

text \<open>The \<open>PRIMARY KEY\<close> and \<open>UNIQUE\<close> constraints of the schema.\<close>

definition batch_clash :: "batch_entry \<Rightarrow> batch_entry \<Rightarrow> bool" where
  "batch_clash r x \<longleftrightarrow> batch_id r = batch_id x \<or> batch_idempotency_key r = batch_idempotency_key x"

definition operation_clash :: "operation_record \<Rightarrow> operation_record \<Rightarrow> bool" where
  "operation_clash r x \<longleftrightarrow> operation_id r = operation_id x
     \<or> operation_batch_id r = operation_batch_id x \<and> operation_sequence r = operation_sequence x"

definition checkpoint_clash :: "checkpoint_record \<Rightarrow> checkpoint_record \<Rightarrow> bool" where
  "checkpoint_clash r x \<longleftrightarrow> checkpoint_id r = checkpoint_id x
     \<or> checkpoint_batch_id r = checkpoint_batch_id x \<and> checkpoint_sequence r = checkpoint_sequence x"

definition recovery_clash :: "recovery_record \<Rightarrow> recovery_record \<Rightarrow> bool" where
  "recovery_clash r x \<longleftrightarrow> recovery_id r = recovery_id x
     \<or> recovery_batch_id r = recovery_batch_id x \<and> recovery_sequence r = recovery_sequence x"

definition recovery_action_clash :: "recovery_action_record \<Rightarrow> recovery_action_record \<Rightarrow> bool" where
  "recovery_action_clash r x \<longleftrightarrow> action_record_id r = action_record_id x
     \<or> action_batch_id r = action_batch_id x \<and> action_sequence r = action_sequence x"

definition artifact_cleanup_clash :: "artifact_cleanup_record \<Rightarrow> artifact_cleanup_record \<Rightarrow> bool" where
  "artifact_cleanup_clash r x \<longleftrightarrow> cleanup_record_id r = cleanup_record_id x
     \<or> cleanup_batch_id r = cleanup_batch_id x \<and> cleanup_sequence r = cleanup_sequence x"

definition operation_run_clash :: "operation_run_record \<Rightarrow> operation_run_record \<Rightarrow> bool" where
  "operation_run_clash r x \<longleftrightarrow> run_operation_run_id r = run_operation_run_id x"

definition operation_phase_clash :: "operation_phase_record \<Rightarrow> operation_phase_record \<Rightarrow> bool" where
  "operation_phase_clash r x \<longleftrightarrow> phase_operation_phase_id r = phase_operation_phase_id x
     \<or> phase_operation_run_id r = phase_operation_run_id x \<and> phase_phase_name r = phase_phase_name x"

subsection \<open>Queries by id\<close>

definition batch_row :: "string \<Rightarrow> batch_entry list \<Rightarrow> batch_entry option" where
  "batch_row b t = find (\<lambda>r. batch_id r = b) t"

definition batch_row_by_idempotency_key :: "string \<Rightarrow> batch_entry list \<Rightarrow> batch_entry option" where
  "batch_row_by_idempotency_key k t = find (\<lambda>r. batch_idempotency_key r = k) t"

definition operation_row :: "string \<Rightarrow> operation_record list \<Rightarrow> operation_record option" where
  "operation_row i t = find (\<lambda>r. operation_id r = i) t"

definition checkpoint_row :: "string \<Rightarrow> checkpoint_record list \<Rightarrow> checkpoint_record option" where
  "checkpoint_row i t = find (\<lambda>r. checkpoint_id r = i) t"

definition recovery_row :: "string \<Rightarrow> recovery_record list \<Rightarrow> recovery_record option" where
  "recovery_row i t = find (\<lambda>r. recovery_id r = i) t"

definition recovery_action_row :: "string \<Rightarrow> recovery_action_record list \<Rightarrow> recovery_action_record option" where
  "recovery_action_row i t = find (\<lambda>r. action_record_id r = i) t"

definition artifact_cleanup_row :: "string \<Rightarrow> artifact_cleanup_record list \<Rightarrow> artifact_cleanup_record option" where
  "artifact_cleanup_row i t = find (\<lambda>r. cleanup_record_id r = i) t"

definition operation_run_row :: "string \<Rightarrow> operation_run_record list \<Rightarrow> operation_run_record option" where
  "operation_run_row i t = find (\<lambda>r. run_operation_run_id r = i) t"

definition operation_phase_row :: "string \<Rightarrow> operation_phase_record list \<Rightarrow> operation_phase_record option" where
  "operation_phase_row i t = find (\<lambda>r. phase_operation_phase_id r = i) t"

definition operation_phase_row_by_identity ::
  "string \<Rightarrow> string \<Rightarrow> operation_phase_record list \<Rightarrow> operation_phase_record option" where
  "operation_phase_row_by_identity run_id name t =
     find (\<lambda>r. phase_operation_run_id r = run_id \<and> phase_phase_name r = name) t"

interpretation batches: keyed_table batch_id batch_clash batch_row
  by unfold_locales (simp_all add: batch_row_def batch_clash_def)

interpretation operations: event_log operation_id operation_clash operation_row
  operation_batch_id operation_sequence
  by unfold_locales (auto simp: operation_row_def operation_clash_def)

interpretation checkpoints: event_log checkpoint_id checkpoint_clash checkpoint_row
  checkpoint_batch_id checkpoint_sequence
  by unfold_locales (auto simp: checkpoint_row_def checkpoint_clash_def)

interpretation recoveries: event_log recovery_id recovery_clash recovery_row
  recovery_batch_id recovery_sequence
  by unfold_locales (auto simp: recovery_row_def recovery_clash_def)

interpretation actions: event_log action_record_id recovery_action_clash recovery_action_row
  action_batch_id action_sequence
  by unfold_locales (auto simp: recovery_action_row_def recovery_action_clash_def)

interpretation cleanups: event_log cleanup_record_id artifact_cleanup_clash artifact_cleanup_row
  cleanup_batch_id cleanup_sequence
  by unfold_locales (auto simp: artifact_cleanup_row_def artifact_cleanup_clash_def)

interpretation runs: keyed_table run_operation_run_id operation_run_clash operation_run_row
  by unfold_locales (simp_all add: operation_run_row_def operation_run_clash_def)

interpretation run_phases: keyed_table phase_operation_phase_id operation_phase_clash operation_phase_row
  by unfold_locales (simp_all add: operation_phase_row_def operation_phase_clash_def)

subsection \<open>Sequences, listings and latest rows\<close>

definition next_sequence :: "string \<Rightarrow> 'a journal_db_scheme \<Rightarrow> nat" where
  "next_sequence b db =
     max (max (max (max (max_sequence operation_batch_id operation_sequence b (operation_table db))
                        (max_sequence checkpoint_batch_id checkpoint_sequence b (checkpoint_table db)))
                   (max_sequence recovery_batch_id recovery_sequence b (recovery_table db)))
              (max_sequence action_batch_id action_sequence b (recovery_action_table db)))
         (max_sequence cleanup_batch_id cleanup_sequence b (artifact_cleanup_table db)) + 1"

definition batch_has_journal_records :: "string \<Rightarrow> 'a journal_db_scheme \<Rightarrow> bool" where
  "batch_has_journal_records b db \<longleftrightarrow>
     list_ex (\<lambda>r. operation_batch_id r = b) (operation_table db) \<or>
     list_ex (\<lambda>r. checkpoint_batch_id r = b) (checkpoint_table db) \<or>
     list_ex (\<lambda>r. recovery_batch_id r = b) (recovery_table db) \<or>
     list_ex (\<lambda>r. action_batch_id r = b) (recovery_action_table db) \<or>
     list_ex (\<lambda>r. cleanup_batch_id r = b) (artifact_cleanup_table db)"

definition list_operations :: "string \<Rightarrow> 'a journal_db_scheme \<Rightarrow> operation_record list" where
  "list_operations b db =
     sql_select (\<lambda>r. operation_batch_id r = b) (\<lambda>r. (operation_sequence r, operation_id r)) (operation_table db)"

definition list_checkpoints :: "string \<Rightarrow> 'a journal_db_scheme \<Rightarrow> checkpoint_record list" where
  "list_checkpoints b db =
     sql_select (\<lambda>r. checkpoint_batch_id r = b) (\<lambda>r. (checkpoint_sequence r, checkpoint_id r)) (checkpoint_table db)"

definition list_recovery_records :: "string \<Rightarrow> 'a journal_db_scheme \<Rightarrow> recovery_record list" where
  "list_recovery_records b db =
     sql_select (\<lambda>r. recovery_batch_id r = b) (\<lambda>r. (recovery_sequence r, recovery_id r)) (recovery_table db)"

definition list_recovery_actions ::
  "string \<Rightarrow> string option \<Rightarrow> 'a journal_db_scheme \<Rightarrow> recovery_action_record list" where
  "list_recovery_actions b attempt db =
     sql_select (\<lambda>r. action_batch_id r = b
         \<and> (case attempt of None \<Rightarrow> True | Some a \<Rightarrow> action_recovery_attempt_id r = a))
       (\<lambda>r. (action_sequence r, action_record_id r)) (recovery_action_table db)"

definition list_artifact_cleanup_records ::
  "string \<Rightarrow> string option \<Rightarrow> 'a journal_db_scheme \<Rightarrow> artifact_cleanup_record list" where
  "list_artifact_cleanup_records b artifact db =
     sql_select (\<lambda>r. cleanup_batch_id r = b
         \<and> (case artifact of None \<Rightarrow> True | Some a \<Rightarrow> cleanup_artifact_id r = a))
       (\<lambda>r. (cleanup_sequence r, cleanup_record_id r)) (artifact_cleanup_table db)"

text \<open>
  The rows whose sequence is the \<open>MAX\<close> of their (batch, artifact) group, with one of the
  given statuses, by creation time.
\<close>

definition list_latest_artifact_cleanup_rows_with_statuses ::
  "cleanup_status set \<Rightarrow> 'a journal_db_scheme \<Rightarrow> artifact_cleanup_record list" where
  "list_latest_artifact_cleanup_rows_with_statuses statuses db =
     sql_select
       (\<lambda>r. list_ex (\<lambda>latest. cleanup_record_id latest = cleanup_record_id r \<and>
               cleanup_sequence latest =
                 max_sequence (\<lambda>x. cleanup_batch_id x) cleanup_sequence (cleanup_batch_id latest)
                   (filter (\<lambda>x. cleanup_artifact_id x = cleanup_artifact_id latest)
                     (artifact_cleanup_table db)))
             (artifact_cleanup_table db)
           \<and> cleanup_status r \<in> statuses)
       (\<lambda>r. (cleanup_created_at r, cleanup_record_id r)) (artifact_cleanup_table db)"

definition list_unresolved_artifact_cleanup_debt :: "'a journal_db_scheme \<Rightarrow> artifact_cleanup_record list" where
  "list_unresolved_artifact_cleanup_debt db =
     list_latest_artifact_cleanup_rows_with_statuses artifact_cleanup_debt_statuses db"

definition list_outstanding_artifact_cleanup_records :: "'a journal_db_scheme \<Rightarrow> artifact_cleanup_record list" where
  "list_outstanding_artifact_cleanup_records db =
     list_latest_artifact_cleanup_rows_with_statuses artifact_cleanup_outstanding_statuses db"

definition latest_recovery_row :: "string \<Rightarrow> recovery_record list \<Rightarrow> recovery_record option" where
  "latest_recovery_row b t =
     sql_latest (\<lambda>r. recovery_batch_id r = b) (\<lambda>r. (recovery_sequence r, recovery_id r)) t"

definition latest_recovering_recovery_row :: "string \<Rightarrow> recovery_record list \<Rightarrow> recovery_record option" where
  "latest_recovering_recovery_row b t =
     sql_latest (\<lambda>r. recovery_batch_id r = b \<and> recovery_phase r = RECOVERING)
       (\<lambda>r. (recovery_sequence r, recovery_id r)) t"

definition latest_artifact_cleanup_row ::
  "string \<Rightarrow> string \<Rightarrow> artifact_cleanup_record list \<Rightarrow> artifact_cleanup_record option" where
  "latest_artifact_cleanup_row b artifact t =
     sql_latest (\<lambda>r. cleanup_batch_id r = b \<and> cleanup_artifact_id r = artifact)
       (\<lambda>r. (cleanup_sequence r, cleanup_record_id r)) t"

definition latest_recovery_action_for_attempt ::
  "string \<Rightarrow> string \<Rightarrow> recovery_action_record list \<Rightarrow> recovery_action_record option" where
  "latest_recovery_action_for_attempt attempt action t =
     sql_latest (\<lambda>r. action_recovery_attempt_id r = attempt \<and> action_id r = action)
       (\<lambda>r. (action_sequence r, action_record_id r)) t"

end
