(* ===== verification/Journal_Guards.thy ===== *)
theory Journal_Guards
  imports Journal_Rows
begin

section \<open>Guards of the journal writes\<close>

text \<open>
  \<open>operation_journal/journal_guards.py\<close>: the checks that every journal write makes inside
  its transaction before it touches a table, and the two writes of
  \<open>_record_recovery_takeover_handoff\<close>. A guard that only checks returns the row it read; the
  guards that may also hand a batch over to a newer lease return the new database with it.
  \<open>fresh\<close> is the value of \<open>uuid.uuid4().hex\<close>.
\<close>

fun recovery_action_transitions :: "action_status \<Rightarrow> action_status set" where
  "recovery_action_transitions ACTION_PLANNED =
     {ACTION_ATTEMPTING, ACTION_SKIPPED, ACTION_MANUAL_INTERVENTION_REQUIRED}"
| "recovery_action_transitions ACTION_ATTEMPTING =
     {ACTION_SUCCEEDED, ACTION_FAILED, ACTION_SKIPPED, ACTION_MANUAL_INTERVENTION_REQUIRED}"
| "recovery_action_transitions ACTION_SUCCEEDED = {}"
| "recovery_action_transitions ACTION_FAILED = {}"
| "recovery_action_transitions ACTION_SKIPPED = {}"
| "recovery_action_transitions ACTION_MANUAL_INTERVENTION_REQUIRED = {}"

definition require_valid_transition :: "batch_phase \<Rightarrow> batch_phase \<Rightarrow> error + unit" where
  "require_valid_transition current_phase next_phase =
     require (next_phase \<in> valid_transitions current_phase) InvalidBatchPhaseTransitionError"

definition require_appendable_phase :: "batch_phase \<Rightarrow> error + unit" where
  "require_appendable_phase phase =
     require (phase \<in> {PLANNED, ATTEMPTING}) InvalidBatchPhaseTransitionError"

definition require_batch_resource_key :: "batch_entry \<Rightarrow> string option \<Rightarrow> error + unit" where
  "require_batch_resource_key row resource_key =
     require (batch_resource_key row = None \<or> resource_key = batch_resource_key row)
       BatchIdempotencyMismatchError"

definition require_batch_for_write ::
  "string \<Rightarrow> lease_record \<Rightarrow> time \<Rightarrow> 'a journal_db_scheme \<Rightarrow> error + batch_entry" where
  "require_batch_for_write b lease now db =
    res_bind (require_current_lease db lease now) (\<lambda>_.
    res_bind (from_option BatchNotFoundError (batch_row b (batch_table db))) (\<lambda>row.
    if batch_lease_name row \<noteq> lease_name lease
       \<or> batch_lease_fencing_token row \<noteq> lease_fencing_token lease
    then Inl JournalLeaseMismatchError
    else Inr row))"

text \<open>The two updates of a batch row that the writes of the journal are made of.\<close>

definition set_batch_authority :: "digest \<Rightarrow> lease_record \<Rightarrow> time \<Rightarrow> batch_entry \<Rightarrow> batch_entry" where
  "set_batch_authority H lease now r =
     r\<lparr>batch_lease_fencing_token := lease_fencing_token lease,
       batch_lease_owner := Some (lease_owner lease),
       batch_lease_token_digest := Some (lease_token_digest H lease),
       batch_updated_at := now\<rparr>"

definition set_batch_status ::
  "batch_phase \<Rightarrow> string option \<Rightarrow> json \<Rightarrow> time \<Rightarrow> batch_entry \<Rightarrow> batch_entry" where
  "set_batch_status phase message payload now r =
     r\<lparr>batch_phase := phase,
       batch_status_message := message,
       batch_status_payload := payload,
       batch_updated_at := now\<rparr>"

definition update_batch ::
  "string \<Rightarrow> (batch_entry \<Rightarrow> batch_entry) \<Rightarrow> 'a journal_db_scheme \<Rightarrow> 'a journal_db_scheme" where
  "update_batch b f db =
     db\<lparr>batch_table := fst (sql_update (\<lambda>r. batch_id r = b) f (batch_table db))\<rparr>"

definition insert_recovery ::
  "string \<Rightarrow> string \<Rightarrow> nat \<Rightarrow> batch_phase \<Rightarrow> string option \<Rightarrow> json \<Rightarrow> time
    \<Rightarrow> 'a journal_db_scheme \<Rightarrow> error + 'a journal_db_scheme" where
  "insert_recovery rid b seq phase reason payload now db =
    res_bind (from_option IntegrityError
      (sql_insert recovery_clash
         \<lparr>recovery_id = rid, recovery_batch_id = b, recovery_sequence = seq, recovery_phase = phase,
          recovery_reason = reason, recovery_payload = payload, recovery_created_at = now\<rparr>
         (recovery_table db))) (\<lambda>t.
    Inr (db\<lparr>recovery_table := t\<rparr>))"

fun phase_text :: "batch_phase \<Rightarrow> string" where
  "phase_text PLANNED = ''planned''"
| "phase_text ATTEMPTING = ''attempting''"
| "phase_text SUCCEEDED = ''succeeded''"
| "phase_text FAILED = ''failed''"
| "phase_text RECOVERY_DESIRED = ''recovery_desired''"
| "phase_text RECOVERING = ''recovering''"
| "phase_text RECOVERY_SUCCEEDED = ''recovery_succeeded''"
| "phase_text RECOVERY_FAILED = ''recovery_failed''"

definition record_recovery_takeover_handoff ::
  "digest \<Rightarrow> batch_entry \<Rightarrow> lease_record \<Rightarrow> string \<Rightarrow> time \<Rightarrow> 'a journal_db_scheme
    \<Rightarrow> error + 'a journal_db_scheme" where
  "record_recovery_takeover_handoff H row lease fresh now db =
    (let seq = next_sequence (batch_id row) db;
         payload = payload_to_json (Some (JObj
           [(''event_type'', JStr ''recovery_takeover''),
            (''previous_lease'', JObj [(''name'', JStr (batch_lease_name row)),
                                       (''fencing_token'', JInt (batch_lease_fencing_token row))]),
            (''current_lease'', JObj [(''name'', JStr (lease_name lease)),
                                      (''fencing_token'', JInt (lease_fencing_token lease))]),
            (''previous_phase'', JStr (phase_text (batch_phase row)))]))
     in insert_recovery fresh (batch_id row) seq RECOVERY_DESIRED (Some ''recovery takeover'') payload now
          (update_batch (batch_id row) (set_batch_authority H lease now) db))"

definition require_batch_for_recovery_write ::
  "digest \<Rightarrow> string \<Rightarrow> lease_record \<Rightarrow> batch_phase \<Rightarrow> string \<Rightarrow> time \<Rightarrow> 'a journal_db_scheme
    \<Rightarrow> error + 'a journal_db_scheme \<times> batch_entry \<times> bool" where
  "require_batch_for_recovery_write H b lease phase fresh now db =
    res_bind (require_current_lease db lease now) (\<lambda>_.
    res_bind (from_option BatchNotFoundError (batch_row b (batch_table db))) (\<lambda>row.
    if batch_lease_name row \<noteq> lease_name lease then Inl JournalLeaseMismatchError
    else if batch_lease_fencing_token row = lease_fencing_token lease then Inr (db, row, False)
    else if batch_lease_fencing_token row < lease_fencing_token lease \<and>
      (phase \<in> {RECOVERING, RECOVERY_SUCCEEDED, RECOVERY_FAILED} \<and> batch_phase row = RECOVERY_DESIRED
       \<or> phase = RECOVERY_DESIRED \<and> batch_phase row \<in> {FAILED, RECOVERING, RECOVERY_FAILED})
    then
      res_bind (record_recovery_takeover_handoff H row lease fresh now db) (\<lambda>db'.
      res_bind (from_option RuntimeError (batch_row b (batch_table db'))) (\<lambda>updated.
      Inr (db', updated, True)))
    else Inl JournalLeaseMismatchError))"

definition require_recovering_batch :: "batch_entry \<Rightarrow> error + unit" where
  "require_recovering_batch row = require (batch_phase row = RECOVERING) InvalidBatchPhaseTransitionError"

definition require_batch_for_recovery_action_write ::
  "digest \<Rightarrow> string \<Rightarrow> lease_record \<Rightarrow> string \<Rightarrow> time \<Rightarrow> 'a journal_db_scheme
    \<Rightarrow> error + 'a journal_db_scheme \<times> batch_entry" where
  "require_batch_for_recovery_action_write H b lease fresh now db =
    res_bind (require_current_lease db lease now) (\<lambda>_.
    res_bind (from_option BatchNotFoundError (batch_row b (batch_table db))) (\<lambda>row.
    if batch_lease_name row \<noteq> lease_name lease then Inl JournalLeaseMismatchError
    else
    res_bind (require_recovering_batch row) (\<lambda>_.
    if batch_lease_fencing_token row = lease_fencing_token lease then Inr (db, row)
    else if batch_lease_fencing_token row < lease_fencing_token lease then
      res_bind (record_recovery_takeover_handoff H row lease fresh now db) (\<lambda>db'.
      res_bind (from_option RuntimeError (batch_row b (batch_table db'))) (\<lambda>updated.
      Inr (db', updated)))
    else Inl JournalLeaseMismatchError)))"

definition require_batch_for_recovery_attempt_check ::
  "string \<Rightarrow> lease_record \<Rightarrow> time \<Rightarrow> 'a journal_db_scheme \<Rightarrow> error + batch_entry" where
  "require_batch_for_recovery_attempt_check b lease now db =
    res_bind (require_batch_for_write b lease now db) (\<lambda>row.
    if batch_phase row \<noteq> RECOVERING then Inl RecoveryAttemptMismatchError else Inr row)"

definition require_active_recovery_attempt ::
  "string \<Rightarrow> string option \<Rightarrow> 'a journal_db_scheme \<Rightarrow> error + recovery_record" where
  "require_active_recovery_attempt b recovery_attempt_id db =
    (case recovery_attempt_id of
       None \<Rightarrow> Inl RecoveryAttemptMismatchError
     | Some a \<Rightarrow>
         if a = [] then Inl RecoveryAttemptMismatchError
         else case recovery_row a (recovery_table db) of
           None \<Rightarrow> Inl RecoveryAttemptMismatchError
         | Some attempt \<Rightarrow>
             if recovery_batch_id attempt \<noteq> b then Inl RecoveryAttemptMismatchError
             else if recovery_phase attempt \<noteq> RECOVERING then Inl RecoveryAttemptMismatchError
             else case latest_recovery_row b (recovery_table db) of
               None \<Rightarrow> Inl RecoveryAttemptMismatchError
             | Some latest \<Rightarrow>
                 if recovery_id latest \<noteq> a \<or> recovery_phase latest \<noteq> RECOVERING
                 then Inl RecoveryAttemptMismatchError
                 else Inr attempt)"

text \<open>\<open>None\<close> for a new action, the latest record of the action otherwise.\<close>

definition prepare_recovery_action_write ::
  "string \<Rightarrow> string \<Rightarrow> action_status \<Rightarrow> string option \<Rightarrow> string option \<Rightarrow> string option
    \<Rightarrow> 'a journal_db_scheme \<Rightarrow> error + recovery_action_record option" where
  "prepare_recovery_action_write b attempt status action_id0 action_type0 resource_key db =
    (if status = ACTION_PLANNED then
       (if (case action_id0 of None \<Rightarrow> False
            | Some a \<Rightarrow> latest_recovery_action_for_attempt attempt a (recovery_action_table db) \<noteq> None)
        then Inl InvalidBatchPhaseTransitionError
        else if action_type0 = None then Inl ValueError
        else Inr None)
     else case action_id0 of
       None \<Rightarrow> Inl RecoveryAttemptMismatchError
     | Some a \<Rightarrow>
         if a = [] then Inl RecoveryAttemptMismatchError
         else case latest_recovery_action_for_attempt attempt a (recovery_action_table db) of
           None \<Rightarrow> Inl RecoveryAttemptMismatchError
         | Some existing \<Rightarrow>
             if action_batch_id existing \<noteq> b then Inl RecoveryAttemptMismatchError
             else if action_type0 \<noteq> None \<and> action_type0 \<noteq> Some (action_type existing)
             then Inl BatchIdempotencyMismatchError
             else if resource_key \<noteq> None \<and> resource_key \<noteq> action_resource_key existing
             then Inl BatchIdempotencyMismatchError
             else if status \<notin> recovery_action_transitions (action_status existing)
             then Inl InvalidBatchPhaseTransitionError
             else Inr (Some existing))"

definition require_matching_idempotent_batch ::
  "batch_entry \<Rightarrow> lease_record \<Rightarrow> string \<Rightarrow> string \<Rightarrow> string option \<Rightarrow> string option \<Rightarrow> string option
    \<Rightarrow> string option \<Rightarrow> string option \<Rightarrow> json \<Rightarrow> error + unit" where
  "require_matching_idempotent_batch row lease owner run_id operation_run_id operation_phase_id
     resource_key claim_owner0 claim_scope0 payload =
    require
      (batch_lease_name row = lease_name lease
       \<and> batch_owner row = owner
       \<and> batch_run_id row = run_id
       \<and> batch_operation_run_id row = operation_run_id
       \<and> batch_operation_phase_id row = operation_phase_id
       \<and> batch_resource_key row = resource_key
       \<and> batch_claim_owner row = claim_owner0
       \<and> batch_claim_scope row = claim_scope0
       \<and> batch_payload row = payload) BatchIdempotencyMismatchError"

definition require_startable_batch ::
  "batch_entry \<Rightarrow> lease_record \<Rightarrow> string option \<Rightarrow> 'a journal_db_scheme \<Rightarrow> error + unit" where
  "require_startable_batch row lease resource_key db =
    (if batch_phase row \<noteq> PLANNED then Inl BatchStartConflictError
     else if batch_lease_name row \<noteq> lease_name lease then Inl JournalLeaseMismatchError
     else if batch_lease_fencing_token row > lease_fencing_token lease then Inl JournalLeaseMismatchError
     else if batch_resource_key row \<noteq> None \<and> resource_key \<noteq> batch_resource_key row
     then Inl BatchIdempotencyMismatchError
     else if batch_has_journal_records (batch_id row) db then Inl BatchStartConflictError
     else Inr ())"

definition require_recovery_takeover ::
  "batch_entry \<Rightarrow> lease_record \<Rightarrow> string option \<Rightarrow> 'a journal_db_scheme \<Rightarrow> error + unit" where
  "require_recovery_takeover row lease resource_key db =
    (if batch_phase row \<notin> {PLANNED, ATTEMPTING, FAILED, RECOVERY_FAILED}
     then Inl InvalidBatchPhaseTransitionError
     else if batch_lease_name row \<noteq> lease_name lease then Inl JournalLeaseMismatchError
     else if batch_lease_fencing_token row \<ge> lease_fencing_token lease then Inl JournalLeaseMismatchError
     else if batch_resource_key row \<noteq> None \<and> resource_key \<noteq> batch_resource_key row
     then Inl BatchIdempotencyMismatchError
     else if batch_phase row = PLANNED \<and> \<not> batch_has_journal_records (batch_id row) db
     then Inl InvalidBatchPhaseTransitionError
     else Inr ())"

definition require_lease_lost_recovery_marker ::
  "digest \<Rightarrow> batch_entry \<Rightarrow> lease_record \<Rightarrow> string option \<Rightarrow> error + unit" where
  "require_lease_lost_recovery_marker H row lease resource_key =
    (if batch_lease_name row \<noteq> lease_name lease
        \<or> batch_lease_fencing_token row \<noteq> lease_fencing_token lease
     then Inl JournalLeaseMismatchError
     else if lease_token lease = [] \<or> batch_lease_owner row = None \<or> batch_lease_token_digest row = None
     then Inl JournalLeaseMismatchError
     else if batch_lease_owner row \<noteq> Some (lease_owner lease)
        \<or> batch_lease_token_digest row \<noteq> Some (lease_token_digest H lease)
     then Inl JournalLeaseMismatchError
     else if batch_resource_key row \<noteq> None \<and> resource_key \<noteq> batch_resource_key row
     then Inl BatchIdempotencyMismatchError
     else if batch_phase row \<notin> {ATTEMPTING, FAILED, RECOVERY_FAILED}
     then Inl InvalidBatchPhaseTransitionError
     else Inr ())"

end
