(* ===== verification/Operation_Runs.thy ===== *)
theory Operation_Runs
  imports Journal_Guards
begin

section \<open>Operation runs and phases\<close>

text \<open>
  \<open>journal_operation_runs.py\<close>, \<open>journal_operation_run_rows.py\<close>,
  \<open>journal_operation_run_diagnostics.py\<close> and \<open>journal_batch_links.py\<close>: the records of an
  operation run and its phases, the status updates of a run, the terminal diagnostics that a
  newer lease may still record, and the check that links a batch to a run and a phase.
  A status is a string that the caller chooses, as in the code.
\<close>

definition list_operation_runs ::
  "string option \<Rightarrow> string option \<Rightarrow> string option \<Rightarrow> 'a journal_db_scheme \<Rightarrow> operation_run_record list" where
  "list_operation_runs run_id owner status db =
     sql_select
       (\<lambda>r. (case run_id of None \<Rightarrow> True | Some x \<Rightarrow> run_run_id r = x)
          \<and> (case owner of None \<Rightarrow> True | Some x \<Rightarrow> run_owner r = x)
          \<and> (case status of None \<Rightarrow> True | Some x \<Rightarrow> run_status r = x))
       (\<lambda>r. (run_created_at r, run_operation_run_id r)) (operation_run_table db)"

definition list_operation_phases :: "string \<Rightarrow> 'a journal_db_scheme \<Rightarrow> operation_phase_record list" where
  "list_operation_phases run db =
     sql_select (\<lambda>r. phase_operation_run_id r = run)
       (\<lambda>r. (phase_phase_order r, phase_operation_phase_id r)) (operation_phase_table db)"

definition get_operation_run :: "string \<Rightarrow> 'a journal_db_scheme \<Rightarrow> operation_run_record option" where
  "get_operation_run run db = operation_run_row run (operation_run_table db)"

definition get_operation_phase :: "string \<Rightarrow> 'a journal_db_scheme \<Rightarrow> operation_phase_record option" where
  "get_operation_phase phase db = operation_phase_row phase (operation_phase_table db)"

definition require_matching_operation_run ::
  "operation_run_record \<Rightarrow> string \<Rightarrow> string \<Rightarrow> lease_record \<Rightarrow> string \<Rightarrow> json \<Rightarrow> error + unit" where
  "require_matching_operation_run row run_id owner lease status payload =
     require
       (run_run_id row = run_id \<and> run_owner row = owner \<and> run_lease_name row = lease_name lease
        \<and> run_lease_fencing_token row = lease_fencing_token lease \<and> run_status row = status
        \<and> run_payload row = payload) BatchIdempotencyMismatchError"

definition require_matching_operation_phase ::
  "operation_phase_record \<Rightarrow> string \<Rightarrow> int \<Rightarrow> json \<Rightarrow> string option \<Rightarrow> error + unit" where
  "require_matching_operation_phase row status order payload operation_phase_id =
     require
       (phase_status row = status \<and> phase_phase_order row = order \<and> phase_payload row = payload
        \<and> (operation_phase_id = None \<or> operation_phase_id = Some (phase_operation_phase_id row)))
       BatchIdempotencyMismatchError"

text \<open>
  \<open>_raise_operation_run_integrity_error\<close>: the only constraint of the table is its primary key.
\<close>

definition operation_run_integrity_error ::
  "string \<Rightarrow> string \<Rightarrow> string \<Rightarrow> 'a journal_db_scheme \<Rightarrow> error" where
  "operation_run_integrity_error new_id run_id owner db =
     (case operation_run_row new_id (operation_run_table db) of
        None \<Rightarrow> IntegrityError
      | Some existing \<Rightarrow>
          if run_run_id existing \<noteq> run_id \<or> run_owner existing \<noteq> owner
          then BatchIdempotencyMismatchError else IntegrityError)"

definition create_operation_run ::
  "string \<Rightarrow> lease_record \<Rightarrow> string \<Rightarrow> string \<Rightarrow> json option \<Rightarrow> string option \<Rightarrow> string \<Rightarrow> time
    \<Rightarrow> 'a journal_db_scheme \<Rightarrow> error + 'a journal_db_scheme \<times> operation_run_record" where
  "create_operation_run run_id lease owner status payload operation_run_id fresh now db =
    res_bind (validate_required run_id) (\<lambda>_.
    res_bind (validate_required owner) (\<lambda>_.
    res_bind (validate_required status) (\<lambda>_.
    res_bind (require_current_lease db lease now) (\<lambda>_.
    case (case operation_run_id of None \<Rightarrow> None | Some i \<Rightarrow> operation_run_row i (operation_run_table db)) of
      Some existing \<Rightarrow>
        res_bind (require_matching_operation_run existing run_id owner lease status (payload_to_json payload))
          (\<lambda>_. Inr (db, existing))
    | None \<Rightarrow>
        let new_id = str_or operation_run_id fresh;
            new_row = \<lparr>run_operation_run_id = new_id, run_run_id = run_id, run_owner = owner,
              run_lease_name = lease_name lease, run_lease_fencing_token = lease_fencing_token lease,
              run_status = status, run_payload = payload_to_json payload,
              run_created_at = now, run_updated_at = now\<rparr>
        in (case sql_insert operation_run_clash new_row (operation_run_table db) of
              None \<Rightarrow> Inl (operation_run_integrity_error new_id run_id owner db)
            | Some t \<Rightarrow>
                res_bind (from_option RuntimeError (operation_run_row new_id t)) (\<lambda>row.
                Inr (db\<lparr>operation_run_table := t\<rparr>, row)))))))"

definition require_operation_run_for_write ::
  "string \<Rightarrow> lease_record \<Rightarrow> 'a journal_db_scheme \<Rightarrow> error + operation_run_record" where
  "require_operation_run_for_write run lease db =
    res_bind (from_option ValueError (operation_run_row run (operation_run_table db))) (\<lambda>row.
    if run_lease_name row \<noteq> lease_name lease then Inl JournalLeaseMismatchError
    else if run_lease_fencing_token row \<noteq> lease_fencing_token lease then Inl JournalLeaseMismatchError
    else Inr row)"

definition require_operation_phase_for_write ::
  "string \<Rightarrow> lease_record \<Rightarrow> 'a journal_db_scheme \<Rightarrow> error + operation_phase_record" where
  "require_operation_phase_for_write phase lease db =
    res_bind (from_option ValueError (operation_phase_row phase (operation_phase_table db))) (\<lambda>row.
    res_bind (require_operation_run_for_write (phase_operation_run_id row) lease db) (\<lambda>_. Inr row))"

text \<open>
  \<open>_raise_operation_phase_integrity_error\<close>: a clash on the primary key is looked at first;
  a clash on (run, phase name) is a \<open>ValueError\<close>.
\<close>

definition operation_phase_integrity_error ::
  "string \<Rightarrow> string \<Rightarrow> string \<Rightarrow> 'a journal_db_scheme \<Rightarrow> error" where
  "operation_phase_integrity_error new_id run name db =
     (case operation_phase_row new_id (operation_phase_table db) of
        Some existing \<Rightarrow>
          if phase_operation_run_id existing \<noteq> run \<or> phase_phase_name existing \<noteq> name
          then BatchIdempotencyMismatchError else IntegrityError
      | None \<Rightarrow>
          (case operation_phase_row_by_identity run name (operation_phase_table db) of
             None \<Rightarrow> IntegrityError
           | Some _ \<Rightarrow> ValueError))"

definition create_operation_phase ::
  "string \<Rightarrow> lease_record \<Rightarrow> string \<Rightarrow> string \<Rightarrow> int \<Rightarrow> json option \<Rightarrow> string option \<Rightarrow> string \<Rightarrow> time
    \<Rightarrow> 'a journal_db_scheme \<Rightarrow> error + 'a journal_db_scheme \<times> operation_phase_record" where
  "create_operation_phase run lease name status order payload operation_phase_id fresh now db =
    res_bind (validate_required run) (\<lambda>_.
    res_bind (validate_required name) (\<lambda>_.
    res_bind (validate_required status) (\<lambda>_.
    res_bind (require_current_lease db lease now) (\<lambda>_.
    res_bind (require_operation_run_for_write run lease db) (\<lambda>run_row.
    case operation_phase_row_by_identity (run_operation_run_id run_row) name (operation_phase_table db) of
      Some existing \<Rightarrow>
        res_bind (require_matching_operation_phase existing status order (payload_to_json payload) operation_phase_id)
          (\<lambda>_. Inr (db, existing))
    | None \<Rightarrow>
        let new_id = str_or operation_phase_id fresh;
            new_row = \<lparr>phase_operation_phase_id = new_id,
              phase_operation_run_id = run_operation_run_id run_row, phase_phase_name = name,
              phase_status = status, phase_phase_order = order, phase_payload = payload_to_json payload,
              phase_created_at = now, phase_updated_at = now\<rparr>
        in (case sql_insert operation_phase_clash new_row (operation_phase_table db) of
              None \<Rightarrow> Inl (operation_phase_integrity_error new_id run name db)
            | Some t \<Rightarrow>
                res_bind (from_option RuntimeError (operation_phase_row new_id t)) (\<lambda>row.
                Inr (db\<lparr>operation_phase_table := t\<rparr>, row))))))))"

subsection \<open>Status updates\<close>

definition operation_status_transition :: "string \<Rightarrow> string \<Rightarrow> bool" where
  "operation_status_transition current_status next_status \<longleftrightarrow>
     current_status = next_status
     \<or> current_status = ''active'' \<and> next_status \<in> {''succeeded'', ''failed'', ''finalization_failed''}"

definition terminal_diagnostic_transition :: "string \<Rightarrow> string \<Rightarrow> bool" where
  "terminal_diagnostic_transition current_status next_status \<longleftrightarrow>
     current_status = next_status
     \<or> next_status = ''failed'' \<and> current_status = ''active''
     \<or> next_status = ''finalization_failed'' \<and> current_status \<in> {''active'', ''succeeded''}"

text \<open>The \<open>UPDATE ... SET status, updated_at\<close> shared by the update and the diagnostic.\<close>

definition write_run_status ::
  "operation_run_record \<Rightarrow> string \<Rightarrow> string \<Rightarrow> time \<Rightarrow> 'a journal_db_scheme
    \<Rightarrow> error + 'a journal_db_scheme \<times> operation_run_record" where
  "write_run_status row run status now db =
    (if run_status row = status then Inr (db, row)
     else let t = fst (sql_update (\<lambda>r. run_operation_run_id r = run)
                    (\<lambda>r. r\<lparr>run_status := status, run_updated_at := now\<rparr>) (operation_run_table db))
          in res_bind (from_option RuntimeError (operation_run_row run t)) (\<lambda>updated.
             Inr (db\<lparr>operation_run_table := t\<rparr>, updated)))"

definition write_phase_status ::
  "operation_phase_record \<Rightarrow> string \<Rightarrow> string \<Rightarrow> time \<Rightarrow> 'a journal_db_scheme
    \<Rightarrow> error + 'a journal_db_scheme \<times> operation_phase_record" where
  "write_phase_status row phase status now db =
    (if phase_status row = status then Inr (db, row)
     else let t = fst (sql_update (\<lambda>r. phase_operation_phase_id r = phase)
                    (\<lambda>r. r\<lparr>phase_status := status, phase_updated_at := now\<rparr>) (operation_phase_table db))
          in res_bind (from_option RuntimeError (operation_phase_row phase t)) (\<lambda>updated.
             Inr (db\<lparr>operation_phase_table := t\<rparr>, updated)))"

definition update_operation_run_status ::
  "string \<Rightarrow> lease_record \<Rightarrow> string \<Rightarrow> time \<Rightarrow> 'a journal_db_scheme
    \<Rightarrow> error + 'a journal_db_scheme \<times> operation_run_record" where
  "update_operation_run_status run lease status now db =
    res_bind (validate_required run) (\<lambda>_.
    res_bind (validate_required status) (\<lambda>_.
    res_bind (require_current_lease db lease now) (\<lambda>_.
    res_bind (require_operation_run_for_write run lease db) (\<lambda>row.
    res_bind (require (operation_status_transition (run_status row) status) ValueError) (\<lambda>_.
    write_run_status row run status now db)))))"

definition update_operation_phase_status ::
  "string \<Rightarrow> lease_record \<Rightarrow> string \<Rightarrow> time \<Rightarrow> 'a journal_db_scheme
    \<Rightarrow> error + 'a journal_db_scheme \<times> operation_phase_record" where
  "update_operation_phase_status phase lease status now db =
    res_bind (validate_required phase) (\<lambda>_.
    res_bind (validate_required status) (\<lambda>_.
    res_bind (require_current_lease db lease now) (\<lambda>_.
    res_bind (require_operation_phase_for_write phase lease db) (\<lambda>row.
    res_bind (require (operation_status_transition (phase_status row) status) ValueError) (\<lambda>_.
    write_phase_status row phase status now db)))))"

definition require_terminal_diagnostic_status :: "string \<Rightarrow> error + unit" where
  "require_terminal_diagnostic_status status =
     require (status \<in> {''failed'', ''finalization_failed''}) ValueError"

definition require_operation_run_for_terminal_diagnostic ::
  "string \<Rightarrow> lease_record \<Rightarrow> 'a journal_db_scheme \<Rightarrow> error + operation_run_record" where
  "require_operation_run_for_terminal_diagnostic run lease db =
    res_bind (from_option ValueError (operation_run_row run (operation_run_table db))) (\<lambda>row.
    if run_lease_name row \<noteq> lease_name lease then Inl JournalLeaseMismatchError
    else if run_lease_fencing_token row > lease_fencing_token lease then Inl JournalLeaseMismatchError
    else Inr row)"

definition record_operation_run_terminal_diagnostic ::
  "string \<Rightarrow> lease_record \<Rightarrow> string \<Rightarrow> time \<Rightarrow> 'a journal_db_scheme
    \<Rightarrow> error + 'a journal_db_scheme \<times> operation_run_record" where
  "record_operation_run_terminal_diagnostic run lease status now db =
    res_bind (require_terminal_diagnostic_status status) (\<lambda>_.
    res_bind (require_current_lease db lease now) (\<lambda>_.
    res_bind (require_operation_run_for_terminal_diagnostic run lease db) (\<lambda>row.
    res_bind (require (terminal_diagnostic_transition (run_status row) status) ValueError) (\<lambda>_.
    write_run_status row run status now db))))"

definition record_operation_phase_terminal_diagnostic ::
  "string \<Rightarrow> lease_record \<Rightarrow> string \<Rightarrow> time \<Rightarrow> 'a journal_db_scheme
    \<Rightarrow> error + 'a journal_db_scheme \<times> operation_phase_record" where
  "record_operation_phase_terminal_diagnostic phase lease status now db =
    res_bind (require_terminal_diagnostic_status status) (\<lambda>_.
    res_bind (require_current_lease db lease now) (\<lambda>_.
    res_bind (from_option ValueError (operation_phase_row phase (operation_phase_table db))) (\<lambda>row.
    res_bind (require_operation_run_for_terminal_diagnostic (phase_operation_run_id row) lease db) (\<lambda>_.
    res_bind (require (terminal_diagnostic_transition (phase_status row) status) ValueError) (\<lambda>_.
    write_phase_status row phase status now db)))))"

subsection \<open>Links from batches\<close>

definition require_active_operation_link_status :: "string \<Rightarrow> error + unit" where
  "require_active_operation_link_status status = require (status = ''active'') ValueError"

definition require_valid_batch_operation_links ::
  "string \<Rightarrow> string \<Rightarrow> string option \<Rightarrow> string option \<Rightarrow> 'a journal_db_scheme \<Rightarrow> error + unit" where
  "require_valid_batch_operation_links run_id owner operation_run_id operation_phase_id db =
    (case operation_run_id of
       None \<Rightarrow> require (operation_phase_id = None) ValueError
     | Some run \<Rightarrow>
         res_bind (from_option ValueError (operation_run_row run (operation_run_table db))) (\<lambda>row.
         res_bind (require (run_run_id row = run_id) ValueError) (\<lambda>_.
         res_bind (require (run_owner row = owner) ValueError) (\<lambda>_.
         res_bind (require_active_operation_link_status (run_status row)) (\<lambda>_.
         case operation_phase_id of
           None \<Rightarrow> Inr ()
         | Some phase \<Rightarrow>
             res_bind (from_option ValueError (operation_phase_row phase (operation_phase_table db))) (\<lambda>phase_row.
             res_bind (require (phase_operation_run_id phase_row = run) ValueError) (\<lambda>_.
             require_active_operation_link_status (phase_status phase_row))))))))"

end
