(* ===== verification/Journal_Batch.thy ===== *)
theory Journal_Batch
  imports Operation_Runs
begin

section \<open>Batches, operations and checkpoints\<close>

text \<open>
  \<open>operation_journal/journal_batch.py\<close>: the \<open>JournalBatchMixin\<close> methods. Each method is
  the body of its transaction; \<open>Inl\<close> is the exception that rolls the transaction back. The
  \<open>fresh\<close> arguments are the values of \<open>uuid.uuid4().hex\<close>, in the order the code draws
  them; \<open>now\<close> is the clock reading (\<open>_utcnow\<close>).
\<close>

definition next_rowid :: "batch_entry list \<Rightarrow> nat" where
  "next_rowid t = foldr (\<lambda>r m. max (batch_storage_order r) m) t 0 + 1"

definition create_batch ::
  "digest \<Rightarrow> string \<Rightarrow> lease_record \<Rightarrow> string \<Rightarrow> string \<Rightarrow> string option \<Rightarrow> string option \<Rightarrow> string option
    \<Rightarrow> string option \<Rightarrow> string option \<Rightarrow> json option \<Rightarrow> string option \<Rightarrow> string \<Rightarrow> time
    \<Rightarrow> 'a journal_db_scheme \<Rightarrow> error + 'a journal_db_scheme \<times> operation_batch_record" where
  "create_batch H idempotency_key lease owner run_id operation_run_id operation_phase_id resource_key
     claim_owner0 claim_scope0 payload batch_id0 fresh now db =
    res_bind (validate_required idempotency_key) (\<lambda>_.
    res_bind (validate_required owner) (\<lambda>_.
    res_bind (validate_required run_id) (\<lambda>_.
    res_bind (require_current_lease db lease now) (\<lambda>_.
    case batch_row_by_idempotency_key idempotency_key (batch_table db) of
      Some existing \<Rightarrow>
        res_bind (require_matching_idempotent_batch existing lease owner run_id operation_run_id
                    operation_phase_id resource_key claim_owner0 claim_scope0 (payload_to_json payload))
          (\<lambda>_. Inr (db, batch_from_row existing))
    | None \<Rightarrow>
        res_bind (require_valid_batch_operation_links run_id owner operation_run_id operation_phase_id db)
          (\<lambda>_.
        let new_id = str_or batch_id0 fresh;
            new_row = \<lparr>batch_storage_order = next_rowid (batch_table db), batch_id = new_id,
              batch_idempotency_key = idempotency_key, batch_lease_name = lease_name lease,
              batch_lease_owner = Some (lease_owner lease),
              batch_lease_fencing_token = lease_fencing_token lease,
              batch_lease_token_digest = Some (lease_token_digest H lease), batch_owner = owner,
              batch_run_id = run_id, batch_operation_run_id = operation_run_id,
              batch_operation_phase_id = operation_phase_id, batch_resource_key = resource_key,
              batch_claim_owner = claim_owner0, batch_claim_scope = claim_scope0,
              batch_phase = PLANNED, batch_payload = payload_to_json payload,
              batch_status_message = None, batch_status_payload = payload_to_json None,
              batch_created_at = now, batch_updated_at = now\<rparr>
        in res_bind (from_option IntegrityError (sql_insert batch_clash new_row (batch_table db))) (\<lambda>t.
           res_bind (from_option RuntimeError (batch_row new_id t)) (\<lambda>row.
           Inr (db\<lparr>batch_table := t\<rparr>, batch_from_row row))))))))"

definition get_batch :: "string \<Rightarrow> 'a journal_db_scheme \<Rightarrow> operation_batch_record option" where
  "get_batch b db = map_option batch_from_row (batch_row b (batch_table db))"

definition list_batches ::
  "string option \<Rightarrow> batch_phase option \<Rightarrow> 'a journal_db_scheme \<Rightarrow> operation_batch_record list" where
  "list_batches run_id phase db =
     map batch_from_row
       (sql_select
          (\<lambda>r. (case run_id of None \<Rightarrow> True | Some x \<Rightarrow> batch_run_id r = x)
             \<and> (case phase of None \<Rightarrow> True | Some x \<Rightarrow> batch_phase r = x))
          (\<lambda>r. (batch_created_at r, batch_id r)) (batch_table db))"

definition insert_operation ::
  "operation_record \<Rightarrow> 'a journal_db_scheme \<Rightarrow> error + 'a journal_db_scheme" where
  "insert_operation r db =
    res_bind (from_option IntegrityError (sql_insert operation_clash r (operation_table db))) (\<lambda>t.
    Inr (db\<lparr>operation_table := t\<rparr>))"

definition append_operation ::
  "string \<Rightarrow> lease_record \<Rightarrow> string \<Rightarrow> string option \<Rightarrow> json option \<Rightarrow> string option \<Rightarrow> string \<Rightarrow> time
    \<Rightarrow> 'a journal_db_scheme \<Rightarrow> error + 'a journal_db_scheme \<times> operation_record" where
  "append_operation b lease type resource_key payload operation_id0 fresh now db =
    res_bind (validate_required b) (\<lambda>_.
    res_bind (validate_required type) (\<lambda>_.
    res_bind (require_batch_for_write b lease now db) (\<lambda>row.
    res_bind (require_batch_resource_key row resource_key) (\<lambda>_.
    res_bind (require_appendable_phase (batch_phase row)) (\<lambda>_.
    let seq = next_sequence b db;
        new_id = str_or operation_id0 fresh;
        new_row = \<lparr>operation_id = new_id, operation_batch_id = batch_id row, operation_sequence = seq,
          operation_type = type, operation_resource_key = resource_key,
          operation_payload = payload_to_json payload, operation_created_at = now\<rparr>
    in res_bind (insert_operation new_row db) (\<lambda>db'.
       res_bind (from_option RuntimeError (operation_row new_id (operation_table db'))) (\<lambda>r.
       Inr (db', r))))))))"

definition start_batch_operation ::
  "digest \<Rightarrow> string \<Rightarrow> lease_record \<Rightarrow> string \<Rightarrow> string option \<Rightarrow> json option \<Rightarrow> string option \<Rightarrow> json option
    \<Rightarrow> string \<Rightarrow> time \<Rightarrow> 'a journal_db_scheme
    \<Rightarrow> error + 'a journal_db_scheme \<times> operation_batch_record \<times> operation_record" where
  "start_batch_operation H b lease type resource_key payload operation_id0 status_payload fresh now db =
    res_bind (validate_required b) (\<lambda>_.
    res_bind (validate_required type) (\<lambda>_.
    res_bind (require_current_lease db lease now) (\<lambda>_.
    res_bind (from_option BatchNotFoundError (batch_row b (batch_table db))) (\<lambda>row.
    res_bind (require_startable_batch row lease resource_key db) (\<lambda>_.
    res_bind
      (if batch_lease_fencing_token row \<noteq> lease_fencing_token lease
       then let db' = update_batch b (set_batch_authority H lease now) db
            in res_bind (from_option RuntimeError (batch_row b (batch_table db'))) (\<lambda>_. Inr db')
       else Inr db) (\<lambda>db1.
    let seq = next_sequence b db1;
        new_id = str_or operation_id0 fresh;
        status = payload_to_json (Some (case status_payload of
                   None \<Rightarrow> JObj [(''operation_id'', JStr new_id)] | Some p \<Rightarrow> p));
        new_row = \<lparr>operation_id = new_id, operation_batch_id = b, operation_sequence = seq,
          operation_type = type, operation_resource_key = resource_key,
          operation_payload = payload_to_json payload, operation_created_at = now\<rparr>
    in res_bind (insert_operation new_row db1) (\<lambda>db2.
       let db3 = update_batch b (set_batch_status ATTEMPTING None status now) db2
       in res_bind (from_option RuntimeError (batch_row b (batch_table db3))) (\<lambda>updated.
          res_bind (from_option RuntimeError (operation_row new_id (operation_table db3))) (\<lambda>r.
          Inr (db3, batch_from_row updated, r))))))))))"

definition require_checkpoint_operation ::
  "string \<Rightarrow> string option \<Rightarrow> string \<Rightarrow> 'a journal_db_scheme \<Rightarrow> error + unit" where
  "require_checkpoint_operation b operation_id0 resource_key db =
    (case operation_id0 of
       None \<Rightarrow> Inr ()
     | Some i \<Rightarrow>
         res_bind (from_option ValueError (operation_row i (operation_table db))) (\<lambda>r.
         res_bind (require (operation_batch_id r = b) ValueError) (\<lambda>_.
         require (operation_resource_key r = Some resource_key) ValueError)))"

definition record_checkpoint ::
  "digest \<Rightarrow> string \<Rightarrow> lease_record \<Rightarrow> string \<Rightarrow> string \<Rightarrow> json option \<Rightarrow> string option \<Rightarrow> string option
    \<Rightarrow> string option \<Rightarrow> string \<Rightarrow> string \<Rightarrow> time \<Rightarrow> 'a journal_db_scheme
    \<Rightarrow> error + 'a journal_db_scheme \<times> checkpoint_record" where
  "record_checkpoint H b lease resource_key type payload operation_id0 checkpoint_id0
     recovery_attempt_id fresh fresh2 now db =
    res_bind (validate_required b) (\<lambda>_.
    res_bind (validate_required resource_key) (\<lambda>_.
    res_bind (validate_required type) (\<lambda>_.
    res_bind
      (if recovery_attempt_id = None then
         res_bind (require_batch_for_write b lease now db) (\<lambda>row.
         res_bind (require_appendable_phase (batch_phase row)) (\<lambda>_. Inr (db, row)))
       else
         res_bind (require_batch_for_recovery_action_write H b lease fresh now db) (\<lambda>(db', row).
         res_bind (require_active_recovery_attempt b recovery_attempt_id db') (\<lambda>_. Inr (db', row))))
      (\<lambda>(db1, row).
    res_bind (require_batch_resource_key row (Some resource_key)) (\<lambda>_.
    res_bind (require_checkpoint_operation b operation_id0 resource_key db1) (\<lambda>_.
    let seq = next_sequence b db1;
        new_id = str_or checkpoint_id0 fresh2;
        new_row = \<lparr>checkpoint_id = new_id, checkpoint_batch_id = batch_id row, checkpoint_sequence = seq,
          checkpoint_operation_id = operation_id0, checkpoint_resource_key = resource_key,
          checkpoint_type = type, checkpoint_payload = payload_to_json payload,
          checkpoint_created_at = now\<rparr>
    in res_bind (from_option IntegrityError (sql_insert checkpoint_clash new_row (checkpoint_table db1))) (\<lambda>t.
       res_bind (from_option RuntimeError (checkpoint_row new_id t)) (\<lambda>r.
       Inr (db1\<lparr>checkpoint_table := t\<rparr>, r)))))))))"

definition transition_batch ::
  "string \<Rightarrow> lease_record \<Rightarrow> batch_phase \<Rightarrow> string option \<Rightarrow> json option \<Rightarrow> time
    \<Rightarrow> 'a journal_db_scheme \<Rightarrow> error + 'a journal_db_scheme \<times> operation_batch_record" where
  "transition_batch b lease phase status_message status_payload now db =
    res_bind (validate_required b) (\<lambda>_.
    res_bind (require_batch_for_write b lease now db) (\<lambda>row.
    res_bind (require_valid_transition (batch_phase row) phase) (\<lambda>_.
    let db' = update_batch b (set_batch_status phase status_message (payload_to_json status_payload) now) db
    in res_bind (from_option RuntimeError (batch_row b (batch_table db'))) (\<lambda>updated.
       Inr (db', batch_from_row updated)))))"

definition mark_attempting ::
  "string \<Rightarrow> lease_record \<Rightarrow> json option \<Rightarrow> time
    \<Rightarrow> 'a journal_db_scheme \<Rightarrow> error + 'a journal_db_scheme \<times> operation_batch_record" where
  "mark_attempting b lease payload now db = transition_batch b lease ATTEMPTING None payload now db"

definition mark_succeeded ::
  "string \<Rightarrow> lease_record \<Rightarrow> json option \<Rightarrow> time
    \<Rightarrow> 'a journal_db_scheme \<Rightarrow> error + 'a journal_db_scheme \<times> operation_batch_record" where
  "mark_succeeded b lease result now db = transition_batch b lease SUCCEEDED None result now db"

definition mark_failed ::
  "string \<Rightarrow> lease_record \<Rightarrow> string \<Rightarrow> json option \<Rightarrow> time
    \<Rightarrow> 'a journal_db_scheme \<Rightarrow> error + 'a journal_db_scheme \<times> operation_batch_record" where
  "mark_failed b lease message observed_state now db =
    res_bind (validate_required message) (\<lambda>_.
    transition_batch b lease FAILED (Some message) observed_state now db)"

end
