(* ===== verification/Journal_Recovery.thy ===== *)
theory Journal_Recovery
  imports Journal_Batch
begin

section \<open>Recovery of a batch\<close>

text \<open>
  \<open>operation_journal/journal_recovery.py\<close>: the \<open>JournalRecoveryMixin\<close> methods. Every
  method that changes the phase of a batch also appends a recovery record with that phase.
  \<open>fresh\<close> is the id of a takeover record (drawn only on a takeover), \<open>fresh2\<close> the id of
  the recovery record itself when the caller gives none.
\<close>

text \<open>
  The end of each method: new phase and status of the batch, then the recovery record. The
  sequence number was read before the update of the batch row, which does not change it.
\<close>

definition write_recovery_phase ::
  "string \<Rightarrow> (batch_entry \<Rightarrow> batch_entry) \<Rightarrow> batch_phase \<Rightarrow> string option \<Rightarrow> json \<Rightarrow> string option \<Rightarrow> string
    \<Rightarrow> time \<Rightarrow> 'a journal_db_scheme \<Rightarrow> error + 'a journal_db_scheme \<times> recovery_record" where
  "write_recovery_phase b set_row phase reason payload recovery_id0 fresh2 now db =
    (let seq = next_sequence b db;
         new_id = str_or recovery_id0 fresh2
     in res_bind (insert_recovery new_id b seq phase reason payload now (update_batch b set_row db)) (\<lambda>db'.
        res_bind (from_option RuntimeError (recovery_row new_id (recovery_table db'))) (\<lambda>r.
        Inr (db', r))))"

definition record_recovery_phase ::
  "digest \<Rightarrow> string \<Rightarrow> lease_record \<Rightarrow> batch_phase \<Rightarrow> string option \<Rightarrow> string option \<Rightarrow> json option
    \<Rightarrow> string option \<Rightarrow> string \<Rightarrow> string \<Rightarrow> time
    \<Rightarrow> 'a journal_db_scheme \<Rightarrow> error + 'a journal_db_scheme \<times> recovery_record" where
  "record_recovery_phase H b lease phase recovery_attempt_id reason payload recovery_id0 fresh fresh2 now db =
    res_bind (validate_required b) (\<lambda>_.
    res_bind (require_batch_for_recovery_write H b lease phase fresh now db) (\<lambda>(db1, row, takeover_recorded).
    res_bind
      (if takeover_recorded \<and> batch_phase row = RECOVERING \<and> phase = RECOVERY_DESIRED
          \<or> batch_phase row = SUCCEEDED \<and> phase = RECOVERY_DESIRED
       then Inr ()
       else require_valid_transition (batch_phase row) phase) (\<lambda>_.
    res_bind
      (if phase \<in> {RECOVERY_SUCCEEDED, RECOVERY_FAILED}
       then res_bind (require_active_recovery_attempt b recovery_attempt_id db1) (\<lambda>_. Inr ())
       else Inr ()) (\<lambda>_.
    write_recovery_phase b (set_batch_status phase reason (payload_to_json payload) now)
      phase reason (payload_to_json payload) recovery_id0 fresh2 now db1))))"

definition record_recovery_desired ::
  "digest \<Rightarrow> string \<Rightarrow> lease_record \<Rightarrow> string option \<Rightarrow> json option \<Rightarrow> string option \<Rightarrow> string \<Rightarrow> string
    \<Rightarrow> time \<Rightarrow> 'a journal_db_scheme \<Rightarrow> error + 'a journal_db_scheme \<times> recovery_record" where
  "record_recovery_desired H b lease reason payload recovery_id0 fresh fresh2 now db =
     record_recovery_phase H b lease RECOVERY_DESIRED None reason payload recovery_id0 fresh fresh2 now db"

definition record_recovery_succeeded ::
  "digest \<Rightarrow> string \<Rightarrow> lease_record \<Rightarrow> string option \<Rightarrow> string option \<Rightarrow> json option \<Rightarrow> string option
    \<Rightarrow> string \<Rightarrow> string \<Rightarrow> time \<Rightarrow> 'a journal_db_scheme
    \<Rightarrow> error + 'a journal_db_scheme \<times> recovery_record" where
  "record_recovery_succeeded H b lease recovery_attempt_id reason payload recovery_id0 fresh fresh2 now db =
     record_recovery_phase H b lease RECOVERY_SUCCEEDED recovery_attempt_id reason payload recovery_id0
       fresh fresh2 now db"

definition record_recovery_failed ::
  "digest \<Rightarrow> string \<Rightarrow> lease_record \<Rightarrow> string option \<Rightarrow> string option \<Rightarrow> json option \<Rightarrow> string option
    \<Rightarrow> string \<Rightarrow> string \<Rightarrow> time \<Rightarrow> 'a journal_db_scheme
    \<Rightarrow> error + 'a journal_db_scheme \<times> recovery_record" where
  "record_recovery_failed H b lease recovery_attempt_id reason payload recovery_id0 fresh fresh2 now db =
     record_recovery_phase H b lease RECOVERY_FAILED recovery_attempt_id reason payload recovery_id0
       fresh fresh2 now db"

definition start_recovery ::
  "digest \<Rightarrow> string \<Rightarrow> lease_record \<Rightarrow> string option \<Rightarrow> json option \<Rightarrow> string option \<Rightarrow> string \<Rightarrow> string
    \<Rightarrow> time \<Rightarrow> 'a journal_db_scheme
    \<Rightarrow> error + 'a journal_db_scheme \<times> operation_batch_record \<times> recovery_record" where
  "start_recovery H b lease reason payload recovery_id0 fresh fresh2 now db =
    res_bind (validate_required b) (\<lambda>_.
    res_bind (require_batch_for_recovery_write H b lease RECOVERING fresh now db) (\<lambda>(db1, row, _).
    res_bind (require_valid_transition (batch_phase row) RECOVERING) (\<lambda>_.
    res_bind (write_recovery_phase b (set_batch_status RECOVERING reason (payload_to_json payload) now)
      RECOVERING reason (payload_to_json payload) recovery_id0 fresh2 now db1) (\<lambda>(db2, r).
    res_bind (from_option RuntimeError (batch_row b (batch_table db2))) (\<lambda>updated.
    Inr (db2, batch_from_row updated, r))))))"

text \<open>Reads under the write lock: nothing is changed.\<close>

definition check_active_recovery_attempt ::
  "string \<Rightarrow> lease_record \<Rightarrow> string \<Rightarrow> time \<Rightarrow> 'a journal_db_scheme \<Rightarrow> error + recovery_record" where
  "check_active_recovery_attempt b lease recovery_attempt_id now db =
    res_bind (validate_required b) (\<lambda>_.
    res_bind (require_batch_for_recovery_attempt_check b lease now db) (\<lambda>_.
    require_active_recovery_attempt b (Some recovery_attempt_id) db))"

definition run_with_active_recovery_attempt ::
  "string \<Rightarrow> lease_record \<Rightarrow> string \<Rightarrow> (unit \<Rightarrow> error + 'b) \<Rightarrow> time \<Rightarrow> 'a journal_db_scheme \<Rightarrow> error + 'b" where
  "run_with_active_recovery_attempt b lease recovery_attempt_id run now db =
    res_bind (check_active_recovery_attempt b lease recovery_attempt_id now db) (\<lambda>_. run ())"

definition record_interrupted_recovery_desired ::
  "digest \<Rightarrow> string \<Rightarrow> lease_record \<Rightarrow> string option \<Rightarrow> string option \<Rightarrow> json option \<Rightarrow> string option
    \<Rightarrow> string \<Rightarrow> time \<Rightarrow> 'a journal_db_scheme \<Rightarrow> error + 'a journal_db_scheme \<times> recovery_record" where
  "record_interrupted_recovery_desired H b lease resource_key reason payload recovery_id0 fresh2 now db =
    res_bind (validate_required b) (\<lambda>_.
    res_bind (require_current_lease db lease now) (\<lambda>_.
    res_bind (from_option BatchNotFoundError (batch_row b (batch_table db))) (\<lambda>row.
    res_bind (require_recovery_takeover row lease resource_key db) (\<lambda>_.
    write_recovery_phase b
      (\<lambda>r. set_batch_status RECOVERY_DESIRED reason (payload_to_json payload) now
             (set_batch_authority H lease now r))
      RECOVERY_DESIRED reason (payload_to_json payload) recovery_id0 fresh2 now db))))"

definition record_lease_lost_recovery_desired ::
  "digest \<Rightarrow> string \<Rightarrow> lease_record \<Rightarrow> string option \<Rightarrow> string option \<Rightarrow> json option \<Rightarrow> string option
    \<Rightarrow> string \<Rightarrow> time \<Rightarrow> 'a journal_db_scheme \<Rightarrow> error + 'a journal_db_scheme \<times> recovery_record" where
  "record_lease_lost_recovery_desired H b lease resource_key reason payload recovery_id0 fresh2 now db =
    res_bind (validate_required b) (\<lambda>_.
    if require_current_lease db lease now = Inr () then Inl JournalLeaseMismatchError
    else
    res_bind (from_option BatchNotFoundError (batch_row b (batch_table db))) (\<lambda>row.
    res_bind (require_lease_lost_recovery_marker H row lease resource_key) (\<lambda>_.
    write_recovery_phase b (set_batch_status RECOVERY_DESIRED reason (payload_to_json payload) now)
      RECOVERY_DESIRED reason (payload_to_json payload) recovery_id0 fresh2 now db)))"

end
