(* ===== verification/Recovery_Actions.thy ===== *)
theory Recovery_Actions
  imports Journal_Recovery
begin

section \<open>Recovery actions and recovery reads\<close>

text \<open>
  \<open>journal_recovery_actions.py\<close>: the records of the actions of a recovery attempt, and
  \<open>journal_recovery_reads.py\<close>: the snapshot a recovery callback is given. The six public
  methods of the mixin are \<open>record_recovery_action\<close> with a status; only the planned one
  names the action type and the resource.
\<close>

definition record_recovery_action ::
  "digest \<Rightarrow> string \<Rightarrow> lease_record \<Rightarrow> string \<Rightarrow> action_status \<Rightarrow> string option \<Rightarrow> string option
    \<Rightarrow> string option \<Rightarrow> json option \<Rightarrow> string option \<Rightarrow> string option \<Rightarrow> string \<Rightarrow> string \<Rightarrow> string
    \<Rightarrow> time \<Rightarrow> 'a journal_db_scheme \<Rightarrow> error + 'a journal_db_scheme \<times> recovery_action_record" where
  "record_recovery_action H b lease recovery_attempt_id status action_type0 resource_key reason payload
     action_id0 action_record_id0 fresh fresh2 fresh3 now db =
    res_bind (validate_required b) (\<lambda>_.
    if recovery_attempt_id = [] then Inl RecoveryAttemptMismatchError
    else
    res_bind (require_batch_for_recovery_action_write H b lease fresh now db) (\<lambda>(db1, row).
    res_bind (require_active_recovery_attempt b (Some recovery_attempt_id) db1) (\<lambda>attempt_row.
    res_bind (prepare_recovery_action_write b recovery_attempt_id status action_id0 action_type0
                resource_key db1) (\<lambda>existing_action.
    let seq = next_sequence b db1;
        new_action_id = (case existing_action of Some e \<Rightarrow> action_id e | None \<Rightarrow> str_or action_id0 fresh2);
        new_action_type = (case existing_action of Some e \<Rightarrow> action_type e | None \<Rightarrow> the action_type0);
        new_resource_key = (case existing_action of Some e \<Rightarrow> action_resource_key e | None \<Rightarrow> resource_key);
        new_record_id = str_or action_record_id0 fresh3
    in res_bind (require_batch_resource_key row new_resource_key) (\<lambda>_.
       let new_row = \<lparr>action_record_id = new_record_id, action_id = new_action_id,
             action_recovery_attempt_id = recovery_id attempt_row, action_batch_id = b,
             action_sequence = seq, action_type = new_action_type, action_status = status,
             action_resource_key = new_resource_key, action_reason = reason,
             action_payload = payload_to_json payload, action_created_at = now\<rparr>
       in res_bind (from_option IntegrityError
                      (sql_insert recovery_action_clash new_row (recovery_action_table db1))) (\<lambda>t.
          res_bind (from_option RuntimeError (recovery_action_row new_record_id t)) (\<lambda>r.
          Inr (db1\<lparr>recovery_action_table := t\<rparr>, r))))))))"

definition record_recovery_action_planned ::
  "digest \<Rightarrow> string \<Rightarrow> lease_record \<Rightarrow> string \<Rightarrow> string \<Rightarrow> string option \<Rightarrow> json option \<Rightarrow> string option
    \<Rightarrow> string option \<Rightarrow> string \<Rightarrow> string \<Rightarrow> string \<Rightarrow> time \<Rightarrow> 'a journal_db_scheme
    \<Rightarrow> error + 'a journal_db_scheme \<times> recovery_action_record" where
  "record_recovery_action_planned H b lease attempt type resource_key payload action_id0
     action_record_id0 fresh fresh2 fresh3 now db =
    res_bind (validate_required type) (\<lambda>_.
    record_recovery_action H b lease attempt ACTION_PLANNED (Some type) resource_key None payload
      action_id0 action_record_id0 fresh fresh2 fresh3 now db)"

text \<open>\<open>mark_recovery_action_attempting\<close>, \<open>record_recovery_action_failed\<close>, \<open>..._skipped\<close> and
  \<open>..._manual_intervention_required\<close> take a reason, \<open>record_recovery_action_succeeded\<close> none.\<close>

definition mark_recovery_action ::
  "digest \<Rightarrow> action_status \<Rightarrow> string \<Rightarrow> lease_record \<Rightarrow> string \<Rightarrow> string \<Rightarrow> string option \<Rightarrow> json option
    \<Rightarrow> string option \<Rightarrow> string \<Rightarrow> string \<Rightarrow> string \<Rightarrow> time \<Rightarrow> 'a journal_db_scheme
    \<Rightarrow> error + 'a journal_db_scheme \<times> recovery_action_record" where
  "mark_recovery_action H status b lease attempt action_id0 reason payload action_record_id0
     fresh fresh2 fresh3 now db =
    record_recovery_action H b lease attempt status None None
      (if status = ACTION_SUCCEEDED then None else reason) payload (Some action_id0) action_record_id0
      fresh fresh2 fresh3 now db"

subsection \<open>Recovery reads\<close>

record proof_context =
  pc_batch :: operation_batch_record
  pc_operations :: "operation_record list"
  pc_checkpoints :: "checkpoint_record list"

record recovery_context =
  rc_batch :: operation_batch_record
  rc_operations :: "operation_record list"
  rc_checkpoints :: "checkpoint_record list"
  rc_recovery_records :: "recovery_record list"
  rc_recovery_attempt :: "recovery_record option"
  rc_recovery_actions :: "recovery_action_record list"
  rc_proof_contexts :: "(string \<times> proof_context) list"

text \<open>
  The batch ids that the recorded payloads name as proofs, in order and without repetition.
  \<open>py_str\<close> is Python's \<open>str\<close> on a JSON value; only strings are ids in practice, and it is a
  parameter here.
\<close>

definition step_proof_batch_id :: "(json \<Rightarrow> string) \<Rightarrow> json \<Rightarrow> string option" where
  "step_proof_batch_id py_str step =
     (if \<not> is_mapping step then None
      else let prf = jget step ''journaled_creation_proof''
           in if \<not> is_mapping prf then None
              else let pid = jget prf ''batch_id''
                   in if pid = JNull then None else Some (py_str pid))"

definition record_proof_steps :: "recovery_record \<Rightarrow> json list" where
  "record_proof_steps r =
     (let group = jget (recovery_payload r) ''recursive_group''
      in if \<not> is_mapping group then []
         else case jget group ''prior_created_steps'' of JArr steps \<Rightarrow> steps | _ \<Rightarrow> [])"

definition add_proof_id :: "string \<Rightarrow> string option \<Rightarrow> string list \<Rightarrow> string list" where
  "add_proof_id b candidate ids =
     (case candidate of None \<Rightarrow> ids | Some i \<Rightarrow> if i = b \<or> i \<in> set ids then ids else ids @ [i])"

definition proof_batch_ids_from_recovery_records ::
  "(json \<Rightarrow> string) \<Rightarrow> recovery_record list \<Rightarrow> string \<Rightarrow> string list" where
  "proof_batch_ids_from_recovery_records py_str records b =
     foldl (\<lambda>ids r. foldl (\<lambda>ids step. add_proof_id b (step_proof_batch_id py_str step) ids) ids
                        (record_proof_steps r)) [] records"

definition read_proof_contexts ::
  "(json \<Rightarrow> string) \<Rightarrow> string \<Rightarrow> recovery_record list \<Rightarrow> 'a journal_db_scheme \<Rightarrow> (string \<times> proof_context) list" where
  "read_proof_contexts py_str b records db =
     List.map_filter
       (\<lambda>i. map_option (\<lambda>row. (i, \<lparr>pc_batch = batch_from_row row, pc_operations = list_operations i db,
                                  pc_checkpoints = list_checkpoints i db\<rparr>))
              (batch_row i (batch_table db)))
       (proof_batch_ids_from_recovery_records py_str records b)"

definition read_recovery_context ::
  "(json \<Rightarrow> string) \<Rightarrow> string \<Rightarrow> 'a journal_db_scheme \<Rightarrow> error + recovery_context" where
  "read_recovery_context py_str b db =
    res_bind (validate_required b) (\<lambda>_.
    res_bind (from_option BatchNotFoundError (batch_row b (batch_table db))) (\<lambda>row.
    res_bind
      (if batch_phase row = RECOVERING
       then (case latest_recovering_recovery_row b (recovery_table db) of
               None \<Rightarrow> Inl RecoveryContextError
             | Some r \<Rightarrow> Inr (Some r))
       else Inr None) (\<lambda>attempt.
    let records = list_recovery_records b db
    in Inr \<lparr>rc_batch = batch_from_row row,
            rc_operations = list_operations b db,
            rc_checkpoints = list_checkpoints b db,
            rc_recovery_records = records,
            rc_recovery_attempt = attempt,
            rc_recovery_actions = list_recovery_actions b None db,
            rc_proof_contexts = read_proof_contexts py_str b records db\<rparr>)))"

end
