(* ===== verification/Artifact_Cleanup.thy ===== *)
theory Artifact_Cleanup
  imports Recovery_Actions
begin

section \<open>Artifact cleanup records\<close>

text \<open>
  \<open>operation_journal/journal_artifact_cleanup.py\<close>: the records of the removal of backup
  artifacts. The trigger of a cleanup is a string of the caller; the six public methods are
  \<open>record_artifact_cleanup\<close> with a status, and only the planned one names a trigger and a
  resource.
\<close>

fun artifact_cleanup_transitions :: "cleanup_status \<Rightarrow> cleanup_status set" where
  "artifact_cleanup_transitions CLEANUP_PLANNED =
     {CLEANUP_ATTEMPTING, CLEANUP_SUCCEEDED, CLEANUP_SKIPPED, CLEANUP_FAILED,
      CLEANUP_MANUAL_INTERVENTION_REQUIRED}"
| "artifact_cleanup_transitions CLEANUP_ATTEMPTING =
     {CLEANUP_SUCCEEDED, CLEANUP_SKIPPED, CLEANUP_FAILED, CLEANUP_MANUAL_INTERVENTION_REQUIRED}"
| "artifact_cleanup_transitions CLEANUP_SUCCEEDED = {}"
| "artifact_cleanup_transitions CLEANUP_SKIPPED = {}"
| "artifact_cleanup_transitions CLEANUP_FAILED = {}"
| "artifact_cleanup_transitions CLEANUP_MANUAL_INTERVENTION_REQUIRED = {}"

definition batch_phase_by_trigger :: "string \<Rightarrow> batch_phase option" where
  "batch_phase_by_trigger trigger =
     (if trigger = ''deferred_cleanup'' then Some ATTEMPTING
      else if trigger = ''commit_cleanup'' then Some SUCCEEDED
      else if trigger = ''recovery_cleanup'' then Some RECOVERY_SUCCEEDED
      else None)"

definition artifact_cleanup_retryable_statuses :: "cleanup_status set" where
  "artifact_cleanup_retryable_statuses = {CLEANUP_FAILED, CLEANUP_MANUAL_INTERVENTION_REQUIRED}"

definition require_batch_for_artifact_cleanup_write ::
  "string \<Rightarrow> lease_record \<Rightarrow> time \<Rightarrow> 'a journal_db_scheme \<Rightarrow> error + batch_entry" where
  "require_batch_for_artifact_cleanup_write b lease now db =
    res_bind (require_current_lease db lease now) (\<lambda>_.
    res_bind (from_option BatchNotFoundError (batch_row b (batch_table db))) (\<lambda>row.
    if batch_lease_name row \<noteq> lease_name lease then Inl JournalLeaseMismatchError
    else if batch_lease_fencing_token row = lease_fencing_token lease then Inr row
    else if batch_lease_fencing_token row < lease_fencing_token lease
       \<and> batch_phase row \<in> {SUCCEEDED, RECOVERY_SUCCEEDED} then Inr row
    else Inl JournalLeaseMismatchError))"

definition prepare_artifact_cleanup_write ::
  "string \<Rightarrow> string \<Rightarrow> cleanup_status \<Rightarrow> string option \<Rightarrow> string option \<Rightarrow> 'a journal_db_scheme
    \<Rightarrow> error + artifact_cleanup_record option" where
  "prepare_artifact_cleanup_write b artifact status trigger resource_key db =
    (let existing_row = latest_artifact_cleanup_row b artifact (artifact_cleanup_table db)
     in if status = CLEANUP_PLANNED then
       (if (case trigger of None \<Rightarrow> True | Some x \<Rightarrow> batch_phase_by_trigger x = None) then Inl ValueError
        else case existing_row of
          None \<Rightarrow> Inr None
        | Some existing \<Rightarrow>
            if resource_key \<noteq> None \<and> resource_key \<noteq> cleanup_resource_key existing
            then Inl BatchIdempotencyMismatchError
            else if cleanup_status existing \<in> artifact_cleanup_active_statuses
            then Inl InvalidBatchPhaseTransitionError
            else if cleanup_status existing \<in> {CLEANUP_SUCCEEDED, CLEANUP_SKIPPED}
            then Inl InvalidBatchPhaseTransitionError
            else if cleanup_status existing \<in> artifact_cleanup_retryable_statuses then Inr (Some existing)
            else if trigger \<noteq> Some (cleanup_trigger existing) then Inl BatchIdempotencyMismatchError
            else Inr (Some existing))
     else case existing_row of
       None \<Rightarrow> Inl InvalidBatchPhaseTransitionError
     | Some existing \<Rightarrow>
         if trigger \<noteq> None \<and> trigger \<noteq> Some (cleanup_trigger existing)
         then Inl BatchIdempotencyMismatchError
         else if resource_key \<noteq> None \<and> resource_key \<noteq> cleanup_resource_key existing
         then Inl BatchIdempotencyMismatchError
         else if status \<notin> artifact_cleanup_transitions (cleanup_status existing)
         then Inl InvalidBatchPhaseTransitionError
         else Inr (Some existing))"

definition require_batch_phase_for_trigger ::
  "batch_entry \<Rightarrow> string \<Rightarrow> cleanup_status \<Rightarrow> error + unit" where
  "require_batch_phase_for_trigger row trigger status =
    (if status \<noteq> CLEANUP_PLANNED then Inr ()
     else case batch_phase_by_trigger trigger of
       None \<Rightarrow> Inl ValueError
     | Some expected \<Rightarrow> require (batch_phase row = expected) InvalidBatchPhaseTransitionError)"

definition record_artifact_cleanup ::
  "string \<Rightarrow> lease_record \<Rightarrow> string \<Rightarrow> cleanup_status \<Rightarrow> string option \<Rightarrow> string option \<Rightarrow> string option
    \<Rightarrow> json option \<Rightarrow> string option \<Rightarrow> string \<Rightarrow> time \<Rightarrow> 'a journal_db_scheme
    \<Rightarrow> error + 'a journal_db_scheme \<times> artifact_cleanup_record" where
  "record_artifact_cleanup b lease artifact status trigger resource_key reason payload
     cleanup_record_id0 fresh now db =
    res_bind (validate_required b) (\<lambda>_.
    res_bind (validate_required artifact) (\<lambda>_.
    res_bind (require_batch_for_artifact_cleanup_write b lease now db) (\<lambda>row.
    res_bind (prepare_artifact_cleanup_write b artifact status trigger resource_key db) (\<lambda>existing.
    let seq = next_sequence b db;
        new_id = str_or cleanup_record_id0 fresh;
        new_trigger =
          (case existing of
             None \<Rightarrow> the trigger
           | Some e \<Rightarrow>
               if status = CLEANUP_PLANNED \<and> cleanup_status e \<in> artifact_cleanup_retryable_statuses
               then the trigger else cleanup_trigger e);
        new_resource_key = (case existing of Some e \<Rightarrow> cleanup_resource_key e | None \<Rightarrow> resource_key)
    in res_bind (require_batch_phase_for_trigger row new_trigger status) (\<lambda>_.
       res_bind (require_batch_resource_key row new_resource_key) (\<lambda>_.
       let new_row = \<lparr>cleanup_record_id = new_id, cleanup_artifact_id = artifact, cleanup_batch_id = b,
             cleanup_sequence = seq, cleanup_trigger = new_trigger, cleanup_status = status,
             cleanup_resource_key = new_resource_key, cleanup_reason = reason,
             cleanup_payload = payload_to_json payload, cleanup_created_at = now\<rparr>
       in res_bind (from_option IntegrityError
                      (sql_insert artifact_cleanup_clash new_row (artifact_cleanup_table db))) (\<lambda>t.
          res_bind (from_option RuntimeError (artifact_cleanup_row new_id t)) (\<lambda>r.
          Inr (db\<lparr>artifact_cleanup_table := t\<rparr>, r)))))))))"

definition record_artifact_cleanup_planned ::
  "string \<Rightarrow> lease_record \<Rightarrow> string \<Rightarrow> string \<Rightarrow> string option \<Rightarrow> json option \<Rightarrow> string option \<Rightarrow> string
    \<Rightarrow> time \<Rightarrow> 'a journal_db_scheme \<Rightarrow> error + 'a journal_db_scheme \<times> artifact_cleanup_record" where
  "record_artifact_cleanup_planned b lease artifact trigger resource_key payload cleanup_record_id0
     fresh now db =
    res_bind (validate_required trigger) (\<lambda>_.
    record_artifact_cleanup b lease artifact CLEANUP_PLANNED (Some trigger) resource_key None payload
      cleanup_record_id0 fresh now db)"

text \<open>The other five methods; \<open>record_artifact_cleanup_succeeded\<close> takes no reason.\<close>

definition mark_artifact_cleanup ::
  "cleanup_status \<Rightarrow> string \<Rightarrow> lease_record \<Rightarrow> string \<Rightarrow> string option \<Rightarrow> json option \<Rightarrow> string option \<Rightarrow> string
    \<Rightarrow> time \<Rightarrow> 'a journal_db_scheme \<Rightarrow> error + 'a journal_db_scheme \<times> artifact_cleanup_record" where
  "mark_artifact_cleanup status b lease artifact reason payload cleanup_record_id0 fresh now db =
    record_artifact_cleanup b lease artifact status None None
      (if status = CLEANUP_SUCCEEDED then None else reason) payload cleanup_record_id0 fresh now db"

end
