(* ===== verification/Journal_Invariant.thy ===== *)
theory Journal_Invariant
  imports Artifact_Cleanup "HOL-Library.Multiset"
begin

section \<open>The invariant of the journal tables\<close>

text \<open>
  What every database written by the journal satisfies, and that the primitive writes
  (inserting a batch, updating a batch row, appending to one of the five logs) keep it.
  \<open>log_wf\<close>: ids are unique, the records of a batch carry the sequence numbers 1, 2, 3, ...
  across the five log tables without gap or repetition, every table is in sequence order, and
  every reference exists. \<open>phase_wf\<close>: the phase of a batch is the phase of its latest recovery
  record. \<open>fence_wf\<close>: no batch is bound to a fencing token its lease has not reached.
\<close>

definition sequence_mset :: "string \<Rightarrow> 'a journal_db_scheme \<Rightarrow> nat multiset" where
  "sequence_mset b db =
     mset (map operation_sequence (filter (\<lambda>r. operation_batch_id r = b) (operation_table db)))
   + mset (map checkpoint_sequence (filter (\<lambda>r. checkpoint_batch_id r = b) (checkpoint_table db)))
   + mset (map recovery_sequence (filter (\<lambda>r. recovery_batch_id r = b) (recovery_table db)))
   + mset (map action_sequence (filter (\<lambda>r. action_batch_id r = b) (recovery_action_table db)))
   + mset (map cleanup_sequence (filter (\<lambda>r. cleanup_batch_id r = b) (artifact_cleanup_table db)))"

definition batch_ids :: "'a journal_db_scheme \<Rightarrow> string set" where
  "batch_ids db = batch_id ` set (batch_table db)"

definition unique_ids :: "'a journal_db_scheme \<Rightarrow> bool" where
  "unique_ids db \<longleftrightarrow> unique_key batch_id (batch_table db)
     \<and> unique_key batch_idempotency_key (batch_table db)
     \<and> unique_key operation_id (operation_table db)
     \<and> unique_key checkpoint_id (checkpoint_table db)
     \<and> unique_key recovery_id (recovery_table db)
     \<and> unique_key action_record_id (recovery_action_table db)
     \<and> unique_key cleanup_record_id (artifact_cleanup_table db)"

definition ordered_logs :: "'a journal_db_scheme \<Rightarrow> bool" where
  "ordered_logs db \<longleftrightarrow> ordered_log operation_batch_id operation_sequence (operation_table db)
     \<and> ordered_log checkpoint_batch_id checkpoint_sequence (checkpoint_table db)
     \<and> ordered_log recovery_batch_id recovery_sequence (recovery_table db)
     \<and> ordered_log action_batch_id action_sequence (recovery_action_table db)
     \<and> ordered_log cleanup_batch_id cleanup_sequence (artifact_cleanup_table db)"

text \<open>The foreign keys, and that an action belongs to an attempt of the same batch.\<close>

definition references_ok :: "'a journal_db_scheme \<Rightarrow> bool" where
  "references_ok db \<longleftrightarrow>
     (\<forall>r \<in> set (operation_table db). operation_batch_id r \<in> batch_ids db)
   \<and> (\<forall>r \<in> set (checkpoint_table db). checkpoint_batch_id r \<in> batch_ids db
        \<and> (\<forall>i. checkpoint_operation_id r = Some i \<longrightarrow>
             (\<exists>x \<in> set (operation_table db). operation_id x = i
                \<and> operation_batch_id x = checkpoint_batch_id r)))
   \<and> (\<forall>r \<in> set (recovery_table db). recovery_batch_id r \<in> batch_ids db)
   \<and> (\<forall>r \<in> set (recovery_action_table db). action_batch_id r \<in> batch_ids db
        \<and> (\<exists>x \<in> set (recovery_table db). recovery_id x = action_recovery_attempt_id r
             \<and> recovery_batch_id x = action_batch_id r \<and> recovery_phase x = RECOVERING))
   \<and> (\<forall>r \<in> set (artifact_cleanup_table db). cleanup_batch_id r \<in> batch_ids db)"

definition log_wf :: "'a journal_db_scheme \<Rightarrow> bool" where
  "log_wf db \<longleftrightarrow> unique_ids db \<and> ordered_logs db \<and> references_ok db
     \<and> (\<forall>b. sequence_mset b db = mset_set {1..<next_sequence b db})"

definition recovery_phases :: "batch_phase set" where
  "recovery_phases = {RECOVERY_DESIRED, RECOVERING, RECOVERY_SUCCEEDED, RECOVERY_FAILED}"

definition last_recovery :: "string \<Rightarrow> 'a journal_db_scheme \<Rightarrow> recovery_record option" where
  "last_recovery b db = last_of (\<lambda>r. recovery_batch_id r = b) (recovery_table db)"

definition phase_ok :: "'a journal_db_scheme \<Rightarrow> batch_entry \<Rightarrow> bool" where
  "phase_ok db row \<longleftrightarrow>
     (case last_recovery (batch_id row) db of
        None \<Rightarrow> batch_phase row \<notin> recovery_phases
      | Some r \<Rightarrow> recovery_phase r = batch_phase row \<and> batch_phase row \<in> recovery_phases)"

definition phase_wf :: "'a journal_db_scheme \<Rightarrow> bool" where
  "phase_wf db \<longleftrightarrow> (\<forall>row \<in> set (batch_table db). phase_ok db row)"

definition fence_wf :: "'a journal_db_scheme \<Rightarrow> bool" where
  "fence_wf db \<longleftrightarrow> (\<forall>row \<in> set (batch_table db).
     batch_lease_fencing_token row \<le> lease_level db (batch_lease_name row))"

subsection \<open>Sequence numbers\<close>

lemma next_sequence_gt:
  "max_sequence operation_batch_id operation_sequence b (operation_table db) < next_sequence b db"
  "max_sequence checkpoint_batch_id checkpoint_sequence b (checkpoint_table db) < next_sequence b db"
  "max_sequence recovery_batch_id recovery_sequence b (recovery_table db) < next_sequence b db"
  "max_sequence action_batch_id action_sequence b (recovery_action_table db) < next_sequence b db"
  "max_sequence cleanup_batch_id cleanup_sequence b (artifact_cleanup_table db) < next_sequence b db"
  by (simp_all add: next_sequence_def)

lemma next_sequence_pos [simp]: "1 \<le> next_sequence b db"
  by (simp add: next_sequence_def)

lemma next_sequence_batch_table [simp]: "next_sequence b (db\<lparr>batch_table := t\<rparr>) = next_sequence b db"
  by (simp add: next_sequence_def)

lemma next_sequence_update_batch [simp]: "next_sequence b (update_batch b' f db) = next_sequence b db"
  by (simp add: update_batch_def)

lemma sequence_mset_batch_table [simp]: "sequence_mset b (db\<lparr>batch_table := t\<rparr>) = sequence_mset b db"
  by (simp add: sequence_mset_def)

lemma no_records_next_sequence:
  assumes "\<not> batch_has_journal_records b db"
  shows "next_sequence b db = 1"
proof -
  have none: "max_sequence f g b t = 0" if "\<not> list_ex (\<lambda>r. f r = b) t"
    for f :: "'b \<Rightarrow> string" and g and t
    using that by (simp add: max_sequence_def list_ex_iff filter_False)
  show ?thesis using assms by (simp add: next_sequence_def batch_has_journal_records_def none)
qed

lemma mset_set_upt_Suc: "1 \<le> n \<Longrightarrow> mset_set {1..<n + 1} = mset_set {1..<n} + {#n#}" for n :: nat
  by (simp add: atLeastLessThanSuc)

text \<open>Appending one record with the next sequence number, whatever the table.\<close>

definition appends :: "string \<Rightarrow> 'a journal_db_scheme \<Rightarrow> 'a journal_db_scheme \<Rightarrow> bool" where
  "appends b db db' \<longleftrightarrow>
     (\<forall>b'. sequence_mset b' db' = sequence_mset b' db + (if b' = b then {#next_sequence b db#} else {#})
        \<and> next_sequence b' db' = (if b' = b then next_sequence b db + 1 else next_sequence b' db))"

lemma sequence_append:
  assumes "appends b db db'" and "\<forall>b. sequence_mset b db = mset_set {1..<next_sequence b db}"
  shows "sequence_mset b' db' = mset_set {1..<next_sequence b' db'}"
proof -
  have eq: "sequence_mset b' db' = sequence_mset b' db + (if b' = b then {#next_sequence b db#} else {#})"
    "next_sequence b' db' = (if b' = b then next_sequence b db + 1 else next_sequence b' db)"
    using assms(1) by (auto simp only: appends_def)
  show ?thesis
  proof (cases "b' = b")
    case True
    then show ?thesis
      using eq assms(2) mset_set_upt_Suc [OF next_sequence_pos [of b db]] by (simp only: if_True simp_thms)
  next
    case False
    then show ?thesis using eq assms(2) by (simp only: if_False simp_thms add_0_right)
  qed
qed

lemma appendsI:
  assumes "\<And>b'. sequence_mset b' db' = sequence_mset b' db + (if b' = b then {#next_sequence b db#} else {#})"
    and "next_sequence b db' = next_sequence b db + 1"
    and "\<And>b'. b' \<noteq> b \<Longrightarrow> next_sequence b' db' = next_sequence b' db"
  shows "appends b db db'"
  unfolding appends_def using assms by simp

lemma appends_operation:
  assumes "operation_sequence r = next_sequence (operation_batch_id r) db"
  shows "appends (operation_batch_id r) db (db\<lparr>operation_table := operation_table db @ [r]\<rparr>)"
proof (rule appendsI)
  let ?db = "db\<lparr>operation_table := operation_table db @ [r]\<rparr>"
  show "next_sequence (operation_batch_id r) ?db = next_sequence (operation_batch_id r) db + 1"
    using next_sequence_gt [of "operation_batch_id r" db]
    unfolding next_sequence_def [of _ ?db] by (simp add: max_sequence_append assms)
  show "next_sequence b' ?db = next_sequence b' db" if "b' \<noteq> operation_batch_id r" for b'
    using that unfolding next_sequence_def by (simp add: max_sequence_append)
  show "sequence_mset b' ?db = sequence_mset b' db
      + (if b' = operation_batch_id r then {#next_sequence (operation_batch_id r) db#} else {#})" for b'
    unfolding sequence_mset_def by (simp add: assms)
qed

lemma appends_checkpoint:
  assumes "checkpoint_sequence r = next_sequence (checkpoint_batch_id r) db"
  shows "appends (checkpoint_batch_id r) db (db\<lparr>checkpoint_table := checkpoint_table db @ [r]\<rparr>)"
proof (rule appendsI)
  let ?db = "db\<lparr>checkpoint_table := checkpoint_table db @ [r]\<rparr>"
  show "next_sequence (checkpoint_batch_id r) ?db = next_sequence (checkpoint_batch_id r) db + 1"
    using next_sequence_gt [of "checkpoint_batch_id r" db]
    unfolding next_sequence_def [of _ ?db] by (simp add: max_sequence_append assms)
  show "next_sequence b' ?db = next_sequence b' db" if "b' \<noteq> checkpoint_batch_id r" for b'
    using that unfolding next_sequence_def by (simp add: max_sequence_append)
  show "sequence_mset b' ?db = sequence_mset b' db
      + (if b' = checkpoint_batch_id r then {#next_sequence (checkpoint_batch_id r) db#} else {#})" for b'
    unfolding sequence_mset_def by (simp add: assms)
qed

lemma appends_recovery:
  assumes "recovery_sequence r = next_sequence (recovery_batch_id r) db"
  shows "appends (recovery_batch_id r) db (db\<lparr>recovery_table := recovery_table db @ [r]\<rparr>)"
proof (rule appendsI)
  let ?db = "db\<lparr>recovery_table := recovery_table db @ [r]\<rparr>"
  show "next_sequence (recovery_batch_id r) ?db = next_sequence (recovery_batch_id r) db + 1"
    using next_sequence_gt [of "recovery_batch_id r" db]
    unfolding next_sequence_def [of _ ?db] by (simp add: max_sequence_append assms)
  show "next_sequence b' ?db = next_sequence b' db" if "b' \<noteq> recovery_batch_id r" for b'
    using that unfolding next_sequence_def by (simp add: max_sequence_append)
  show "sequence_mset b' ?db = sequence_mset b' db
      + (if b' = recovery_batch_id r then {#next_sequence (recovery_batch_id r) db#} else {#})" for b'
    unfolding sequence_mset_def by (simp add: assms)
qed

lemma appends_action:
  assumes "action_sequence r = next_sequence (action_batch_id r) db"
  shows "appends (action_batch_id r) db (db\<lparr>recovery_action_table := recovery_action_table db @ [r]\<rparr>)"
proof (rule appendsI)
  let ?db = "db\<lparr>recovery_action_table := recovery_action_table db @ [r]\<rparr>"
  show "next_sequence (action_batch_id r) ?db = next_sequence (action_batch_id r) db + 1"
    using next_sequence_gt [of "action_batch_id r" db]
    unfolding next_sequence_def [of _ ?db] by (simp add: max_sequence_append assms)
  show "next_sequence b' ?db = next_sequence b' db" if "b' \<noteq> action_batch_id r" for b'
    using that unfolding next_sequence_def by (simp add: max_sequence_append)
  show "sequence_mset b' ?db = sequence_mset b' db
      + (if b' = action_batch_id r then {#next_sequence (action_batch_id r) db#} else {#})" for b'
    unfolding sequence_mset_def by (simp add: assms)
qed

lemma appends_cleanup:
  assumes "cleanup_sequence r = next_sequence (cleanup_batch_id r) db"
  shows "appends (cleanup_batch_id r) db (db\<lparr>artifact_cleanup_table := artifact_cleanup_table db @ [r]\<rparr>)"
proof (rule appendsI)
  let ?db = "db\<lparr>artifact_cleanup_table := artifact_cleanup_table db @ [r]\<rparr>"
  show "next_sequence (cleanup_batch_id r) ?db = next_sequence (cleanup_batch_id r) db + 1"
    using next_sequence_gt [of "cleanup_batch_id r" db]
    unfolding next_sequence_def [of _ ?db] by (simp add: max_sequence_append assms)
  show "next_sequence b' ?db = next_sequence b' db" if "b' \<noteq> cleanup_batch_id r" for b'
    using that unfolding next_sequence_def by (simp add: max_sequence_append)
  show "sequence_mset b' ?db = sequence_mset b' db
      + (if b' = cleanup_batch_id r then {#next_sequence (cleanup_batch_id r) db#} else {#})" for b'
    unfolding sequence_mset_def by (simp add: assms)
qed

subsection \<open>Primitive writes keep the log invariant\<close>

lemma references_batch_table:
  "references_ok db \<Longrightarrow> batch_ids db \<subseteq> batch_ids (db\<lparr>batch_table := t\<rparr>) \<Longrightarrow> references_ok (db\<lparr>batch_table := t\<rparr>)"
  by (simp add: references_ok_def subset_iff)

lemma log_wf_batch_table:
  assumes "log_wf db" and "unique_key batch_id t" and "unique_key batch_idempotency_key t"
    and "batch_ids db \<subseteq> batch_id ` set t"
  shows "log_wf (db\<lparr>batch_table := t\<rparr>)"
proof -
  have "references_ok (db\<lparr>batch_table := t\<rparr>)"
    using assms(1,4) by (intro references_batch_table) (simp_all add: log_wf_def batch_ids_def)
  then show ?thesis using assms(1-3) by (simp add: log_wf_def unique_ids_def ordered_logs_def)
qed

lemma map_update:
  "(\<And>r. k (f r) = k r) \<Longrightarrow> map k (fst (sql_update p f t)) = map k t"
  by (simp add: sql_update_def)

lemma log_wf_update_batch:
  assumes "log_wf db" and f: "\<And>r. batch_id (f r) = batch_id r" "\<And>r. batch_idempotency_key (f r) = batch_idempotency_key r"
  shows "log_wf (update_batch b f db)"
proof -
  let ?t = "fst (sql_update (\<lambda>r. batch_id r = b) f (batch_table db))"
  have map: "map batch_id ?t = map batch_id (batch_table db)"
    "map batch_idempotency_key ?t = map batch_idempotency_key (batch_table db)"
    by (rule map_update; rule f)+
  then have "unique_key batch_id ?t" "unique_key batch_idempotency_key ?t"
    using assms(1) by (simp_all add: log_wf_def unique_ids_def unique_key_def)
  moreover have "batch_ids db \<subseteq> batch_id ` set ?t"
    using map(1) unfolding batch_ids_def by (metis order_refl set_map)
  ultimately show ?thesis
    unfolding update_batch_def by (intro log_wf_batch_table [OF assms(1)])
qed

lemma batch_ids_update_batch [simp]:
  "(\<And>r. batch_id (f r) = batch_id r) \<Longrightarrow> batch_ids (update_batch b f db) = batch_ids db"
  using arg_cong [OF map_update [of batch_id f "\<lambda>r. batch_id r = b" "batch_table db"], of set]
  by (simp add: batch_ids_def update_batch_def)

lemma ordered_next:
  assumes "ordered_log batch_of seq_of t" and "seq_of r = n" and "max_sequence batch_of seq_of (batch_of r) t < n"
  shows "ordered_log batch_of seq_of (t @ [r])"
  using assms by (intro ordered_log_append) simp_all

lemma log_wf_operation:
  assumes "log_wf db" and "sql_insert operation_clash r (operation_table db) = Some t"
    and "operation_sequence r = next_sequence (operation_batch_id r) db" and "operation_batch_id r \<in> batch_ids db"
  shows "log_wf (db\<lparr>operation_table := t\<rparr>)"
proof -
  note ins = operations.insert_Some [OF assms(2)]
  have "sequence_mset b (db\<lparr>operation_table := t\<rparr>) = mset_set {1..<next_sequence b (db\<lparr>operation_table := t\<rparr>)}" for b
    using assms(1) unfolding ins(1)
    by (intro sequence_append [OF appends_operation [OF assms(3)]]) (simp add: log_wf_def)
  moreover have "ordered_log operation_batch_id operation_sequence t"
    using assms(1,3) next_sequence_gt(1) unfolding ins(1)
    by (intro ordered_next) (auto simp: log_wf_def ordered_logs_def)
  moreover have "references_ok (db\<lparr>operation_table := t\<rparr>)"
    using assms(1,4) unfolding ins(1) by (auto simp: log_wf_def references_ok_def batch_ids_def)
  ultimately show ?thesis
    using assms(1) ins(4) by (simp add: log_wf_def unique_ids_def ordered_logs_def)
qed

lemma log_wf_checkpoint:
  assumes "log_wf db" and "sql_insert checkpoint_clash r (checkpoint_table db) = Some t"
    and "checkpoint_sequence r = next_sequence (checkpoint_batch_id r) db"
    and "checkpoint_batch_id r \<in> batch_ids db"
    and "\<And>i. checkpoint_operation_id r = Some i \<Longrightarrow>
      \<exists>x \<in> set (operation_table db). operation_id x = i \<and> operation_batch_id x = checkpoint_batch_id r"
  shows "log_wf (db\<lparr>checkpoint_table := t\<rparr>)"
proof -
  note ins = checkpoints.insert_Some [OF assms(2)]
  have "sequence_mset b (db\<lparr>checkpoint_table := t\<rparr>) = mset_set {1..<next_sequence b (db\<lparr>checkpoint_table := t\<rparr>)}" for b
    using assms(1) unfolding ins(1)
    by (intro sequence_append [OF appends_checkpoint [OF assms(3)]]) (simp add: log_wf_def)
  moreover have "ordered_log checkpoint_batch_id checkpoint_sequence t"
    using assms(1,3) next_sequence_gt(2) unfolding ins(1)
    by (intro ordered_next) (auto simp: log_wf_def ordered_logs_def)
  moreover have "references_ok (db\<lparr>checkpoint_table := t\<rparr>)"
    using assms(1,4,5) unfolding ins(1) by (auto simp: log_wf_def references_ok_def batch_ids_def)
  ultimately show ?thesis
    using assms(1) ins(4) by (simp add: log_wf_def unique_ids_def ordered_logs_def)
qed

lemma log_wf_recovery:
  assumes "log_wf db" and "sql_insert recovery_clash r (recovery_table db) = Some t"
    and "recovery_sequence r = next_sequence (recovery_batch_id r) db" and "recovery_batch_id r \<in> batch_ids db"
  shows "log_wf (db\<lparr>recovery_table := t\<rparr>)"
proof -
  note ins = recoveries.insert_Some [OF assms(2)]
  have "sequence_mset b (db\<lparr>recovery_table := t\<rparr>) = mset_set {1..<next_sequence b (db\<lparr>recovery_table := t\<rparr>)}" for b
    using assms(1) unfolding ins(1)
    by (intro sequence_append [OF appends_recovery [OF assms(3)]]) (simp add: log_wf_def)
  moreover have "ordered_log recovery_batch_id recovery_sequence t"
    using assms(1,3) next_sequence_gt(3) unfolding ins(1)
    by (intro ordered_next) (auto simp: log_wf_def ordered_logs_def)
  moreover have "references_ok (db\<lparr>recovery_table := t\<rparr>)"
    using assms(1,4) unfolding ins(1) by (auto simp: log_wf_def references_ok_def batch_ids_def)
  ultimately show ?thesis
    using assms(1) ins(4) by (simp add: log_wf_def unique_ids_def ordered_logs_def)
qed

lemma log_wf_action:
  assumes "log_wf db" and "sql_insert recovery_action_clash r (recovery_action_table db) = Some t"
    and "action_sequence r = next_sequence (action_batch_id r) db" and "action_batch_id r \<in> batch_ids db"
    and "\<exists>x \<in> set (recovery_table db). recovery_id x = action_recovery_attempt_id r
      \<and> recovery_batch_id x = action_batch_id r \<and> recovery_phase x = RECOVERING"
  shows "log_wf (db\<lparr>recovery_action_table := t\<rparr>)"
proof -
  note ins = actions.insert_Some [OF assms(2)]
  have "sequence_mset b (db\<lparr>recovery_action_table := t\<rparr>) = mset_set {1..<next_sequence b (db\<lparr>recovery_action_table := t\<rparr>)}" for b
    using assms(1) unfolding ins(1)
    by (intro sequence_append [OF appends_action [OF assms(3)]]) (simp add: log_wf_def)
  moreover have "ordered_log action_batch_id action_sequence t"
    using assms(1,3) next_sequence_gt(4) unfolding ins(1)
    by (intro ordered_next) (auto simp: log_wf_def ordered_logs_def)
  moreover have "references_ok (db\<lparr>recovery_action_table := t\<rparr>)"
    using assms(1,4,5) unfolding ins(1) by (auto simp: log_wf_def references_ok_def batch_ids_def)
  ultimately show ?thesis
    using assms(1) ins(4) by (simp add: log_wf_def unique_ids_def ordered_logs_def)
qed

lemma log_wf_cleanup:
  assumes "log_wf db" and "sql_insert artifact_cleanup_clash r (artifact_cleanup_table db) = Some t"
    and "cleanup_sequence r = next_sequence (cleanup_batch_id r) db" and "cleanup_batch_id r \<in> batch_ids db"
  shows "log_wf (db\<lparr>artifact_cleanup_table := t\<rparr>)"
proof -
  note ins = cleanups.insert_Some [OF assms(2)]
  have "sequence_mset b (db\<lparr>artifact_cleanup_table := t\<rparr>) = mset_set {1..<next_sequence b (db\<lparr>artifact_cleanup_table := t\<rparr>)}" for b
    using assms(1) unfolding ins(1)
    by (intro sequence_append [OF appends_cleanup [OF assms(3)]]) (simp add: log_wf_def)
  moreover have "ordered_log cleanup_batch_id cleanup_sequence t"
    using assms(1,3) next_sequence_gt(5) unfolding ins(1)
    by (intro ordered_next) (auto simp: log_wf_def ordered_logs_def)
  moreover have "references_ok (db\<lparr>artifact_cleanup_table := t\<rparr>)"
    using assms(1,4) unfolding ins(1) by (auto simp: log_wf_def references_ok_def batch_ids_def)
  ultimately show ?thesis
    using assms(1) ins(4) by (simp add: log_wf_def unique_ids_def ordered_logs_def)
qed

end
