(* ===== verification/Journal_Effects.thy ===== *)
theory Journal_Effects
  imports Journal_Invariant
begin

section \<open>What each journal call does when it succeeds\<close>

text \<open>
  One lemma per operation: the guards that held, the rows it wrote and the database it
  returns. They are the only lemmas that unfold the operations; everything later is proved
  from them.
\<close>

subsection \<open>Reads of the recovery log\<close>

lemma log_wf_parts:
  assumes "log_wf db"
  shows "unique_key batch_id (batch_table db)" "ordered_logs db" "references_ok db"
    "ordered_log recovery_batch_id recovery_sequence (recovery_table db)"
    "ordered_log action_batch_id action_sequence (recovery_action_table db)"
    "ordered_log cleanup_batch_id cleanup_sequence (artifact_cleanup_table db)"
    "unique_key recovery_id (recovery_table db)"
  using assms by (simp_all add: log_wf_def unique_ids_def ordered_logs_def)

lemma latest_recovery:
  "log_wf db \<Longrightarrow> latest_recovery_row b (recovery_table db) = last_recovery b db"
  unfolding latest_recovery_row_def last_recovery_def
  by (rule latest_is_last [where batch_of = recovery_batch_id and b = b, OF log_wf_parts(4)])

lemma latest_cleanup:
  assumes "log_wf db"
  shows "latest_artifact_cleanup_row b a (artifact_cleanup_table db)
    = last_of (\<lambda>r. (cleanup_batch_id r, cleanup_artifact_id r) = (b, a)) (artifact_cleanup_table db)"
  using latest_is_last [OF log_wf_parts(6) [OF assms],
      of "\<lambda>r. cleanup_batch_id r = b \<and> cleanup_artifact_id r = a" b cleanup_record_id]
  by (simp add: latest_artifact_cleanup_row_def)

lemma action_attempt_batch:
  assumes "log_wf db" and "r \<in> set (recovery_action_table db)"
    and "recovery_row (action_recovery_attempt_id r) (recovery_table db) = Some x"
  shows "action_batch_id r = recovery_batch_id x"
proof -
  obtain y where "y \<in> set (recovery_table db)" "recovery_id y = action_recovery_attempt_id r"
    "recovery_batch_id y = action_batch_id r"
    using log_wf_parts(3) [OF assms(1)] assms(2) by (auto simp: references_ok_def)
  moreover have "x \<in> set (recovery_table db)" "recovery_id x = action_recovery_attempt_id r"
    using recoveries.get_row_Some [OF assms(3)] by simp_all
  ultimately show ?thesis
    using recoveries.unique_same_row [OF log_wf_parts(7) [OF assms(1)], of x y] by simp
qed

lemma latest_action:
  assumes "log_wf db" and "recovery_row attempt (recovery_table db) = Some x"
  shows "latest_recovery_action_for_attempt attempt a (recovery_action_table db)
    = last_of (\<lambda>r. (action_recovery_attempt_id r, action_id r) = (attempt, a)) (recovery_action_table db)"
proof -
  have "action_batch_id r = recovery_batch_id x"
    if "r \<in> set (recovery_action_table db)" "action_recovery_attempt_id r = attempt \<and> action_id r = a" for r
    using action_attempt_batch [OF assms(1) that(1), of x] assms(2) that(2) by simp
  from latest_is_last [OF log_wf_parts(5) [OF assms(1)], of _ "recovery_batch_id x" action_record_id, OF this]
  show ?thesis by (simp add: latest_recovery_action_for_attempt_def)
qed

subsection \<open>Guards\<close>

lemma batch_for_write_ok [res_simps]:
  "require_batch_for_write b lease now db = Inr row \<longleftrightarrow>
     lease_is_current db lease now \<and> batch_row b (batch_table db) = Some row
     \<and> batch_lease_name row = lease_name lease
     \<and> batch_lease_fencing_token row = lease_fencing_token lease"
  by (auto simp: require_batch_for_write_def require_current_lease_def res_simps)

lemma resource_key_ok [res_simps]:
  "require_batch_resource_key row k = Inr u \<longleftrightarrow>
     batch_resource_key row = None \<or> k = batch_resource_key row"
  by (simp add: require_batch_resource_key_def res_simps)

lemma appendable_ok [res_simps]:
  "require_appendable_phase p = Inr u \<longleftrightarrow> p \<in> {PLANNED, ATTEMPTING}"
  by (simp add: require_appendable_phase_def res_simps)

lemma valid_transition_ok [res_simps]:
  "require_valid_transition p q = Inr u \<longleftrightarrow> q \<in> valid_transitions p"
  by (simp add: require_valid_transition_def res_simps)

lemma current_lease_ok [res_simps]:
  "require_current_lease db lease now = Inr u \<longleftrightarrow> lease_is_current db lease now"
  by (simp add: require_current_lease_def res_simps)

lemma active_attempt_ok:
  assumes "log_wf db"
  shows "require_active_recovery_attempt b a db = Inr r \<longleftrightarrow>
    last_recovery b db = Some r \<and> recovery_phase r = RECOVERING \<and> a = Some (recovery_id r)
      \<and> recovery_id r \<noteq> []"
proof
  assume "require_active_recovery_attempt b a db = Inr r"
  then obtain i latest where a: "a = Some i" "i \<noteq> []" and r: "recovery_row i (recovery_table db) = Some r"
    and latest: "last_recovery b db = Some latest" "recovery_id latest = i" "recovery_phase latest = RECOVERING"
    unfolding require_active_recovery_attempt_def latest_recovery [OF assms]
    by (auto split: option.splits if_splits)
  have "latest \<in> set (recovery_table db)" using latest(1) by (metis last_of_Some last_recovery_def)
  then have "latest = r"
    using recoveries.unique_same_row [OF log_wf_parts(7) [OF assms], of latest r]
      recoveries.get_row_Some [OF r] latest(2) by simp
  with a latest show "last_recovery b db = Some r \<and> recovery_phase r = RECOVERING
      \<and> a = Some (recovery_id r) \<and> recovery_id r \<noteq> []" by simp
next
  assume r: "last_recovery b db = Some r \<and> recovery_phase r = RECOVERING \<and> a = Some (recovery_id r)
      \<and> recovery_id r \<noteq> []"
  then have "r \<in> set (recovery_table db)" "recovery_batch_id r = b"
    using last_of_Some [of "\<lambda>r. recovery_batch_id r = b" "recovery_table db" r] by (simp_all add: last_recovery_def)
  then show "require_active_recovery_attempt b a db = Inr r"
    using r recoveries.get_row_unique [OF log_wf_parts(7) [OF assms]]
    by (simp add: require_active_recovery_attempt_def latest_recovery [OF assms])
qed

text \<open>The row that a lookup finds after an update of its batch.\<close>

lemma batch_row_update:
  assumes "\<And>r. batch_id (f r) = batch_id r"
  shows "batch_row b' (batch_table (update_batch b f db))
    = map_option (\<lambda>r. if batch_id r = b then f r else r) (batch_row b' (batch_table db))"
  unfolding update_batch_def using batches.get_row_update [of f, OF assms] by simp

lemma set_status_id [simp]:
  "batch_id (set_batch_status p m v now r) = batch_id r"
  "batch_idempotency_key (set_batch_status p m v now r) = batch_idempotency_key r"
  "batch_id (set_batch_authority H lease now r) = batch_id r"
  "batch_idempotency_key (set_batch_authority H lease now r) = batch_idempotency_key r"
  by (simp_all add: set_batch_status_def set_batch_authority_def)

lemma batch_row_in: "batch_row b (batch_table db) = Some row \<Longrightarrow> batch_id row = b \<and> b \<in> batch_ids db"
  using batches.get_row_Some by (auto simp: batch_ids_def)

lemma update_batch_tables [simp]:
  "lease_table (update_batch b f db) = lease_table db"
  "claim_table (update_batch b f db) = claim_table db"
  "operation_table (update_batch b f db) = operation_table db"
  "checkpoint_table (update_batch b f db) = checkpoint_table db"
  "recovery_table (update_batch b f db) = recovery_table db"
  "recovery_action_table (update_batch b f db) = recovery_action_table db"
  "artifact_cleanup_table (update_batch b f db) = artifact_cleanup_table db"
  "operation_run_table (update_batch b f db) = operation_run_table db"
  "operation_phase_table (update_batch b f db) = operation_phase_table db"
  by (simp_all add: update_batch_def)

subsection \<open>Takeover\<close>

definition handoff_record ::
  "batch_entry \<Rightarrow> lease_record \<Rightarrow> string \<Rightarrow> time \<Rightarrow> 'a journal_db_scheme \<Rightarrow> recovery_record" where
  "handoff_record row lease fresh now db =
     \<lparr>recovery_id = fresh, recovery_batch_id = batch_id row,
      recovery_sequence = next_sequence (batch_id row) db, recovery_phase = RECOVERY_DESIRED,
      recovery_reason = Some ''recovery takeover'',
      recovery_payload = payload_to_json (Some (JObj
           [(''event_type'', JStr ''recovery_takeover''),
            (''previous_lease'', JObj [(''name'', JStr (batch_lease_name row)),
                                       (''fencing_token'', JInt (batch_lease_fencing_token row))]),
            (''current_lease'', JObj [(''name'', JStr (lease_name lease)),
                                      (''fencing_token'', JInt (lease_fencing_token lease))]),
            (''previous_phase'', JStr (phase_text (batch_phase row)))])),
      recovery_created_at = now\<rparr>"

lemma insert_recovery_ok:
  "insert_recovery rid b seq phase reason payload now db = Inr db' \<longleftrightarrow>
     (\<exists>t. sql_insert recovery_clash
         \<lparr>recovery_id = rid, recovery_batch_id = b, recovery_sequence = seq, recovery_phase = phase,
          recovery_reason = reason, recovery_payload = payload, recovery_created_at = now\<rparr>
         (recovery_table db) = Some t \<and> db' = db\<lparr>recovery_table := t\<rparr>)"
  unfolding insert_recovery_def by (auto simp: res_bind_Inr from_option_Inr)

lemma handoff_ok:
  "record_recovery_takeover_handoff H row lease fresh now db = Inr db' \<longleftrightarrow>
     (\<exists>t. sql_insert recovery_clash (handoff_record row lease fresh now db) (recovery_table db) = Some t
        \<and> db' = (update_batch (batch_id row) (set_batch_authority H lease now) db)\<lparr>recovery_table := t\<rparr>)"
  by (simp add: record_recovery_takeover_handoff_def insert_recovery_ok handoff_record_def Let_def)

lemma log_wf_recovery_write:
  assumes "log_wf db" and "b \<in> batch_ids db" and f: "\<And>r. batch_id (f r) = batch_id r"
    "\<And>r. batch_idempotency_key (f r) = batch_idempotency_key r"
    and "sql_insert recovery_clash r (recovery_table db) = Some t"
    and "recovery_batch_id r = b" and "recovery_sequence r = next_sequence b db"
  shows "log_wf ((update_batch b f db)\<lparr>recovery_table := t\<rparr>)"
    and "last_recovery b ((update_batch b f db)\<lparr>recovery_table := t\<rparr>) = Some r"
    and "b' \<noteq> b \<Longrightarrow> last_recovery b' ((update_batch b f db)\<lparr>recovery_table := t\<rparr>) = last_recovery b' db"
  using log_wf_recovery [where r = r and t = t, OF log_wf_update_batch [OF assms(1) f]] assms(2,5-7)
    recoveries.insert_Some(1) [OF assms(5)]
  by (simp_all add: f last_recovery_def)

lemma handoff_blocks_attempt:
  assumes "log_wf db" and "batch_row b (batch_table db) = Some row"
    and "record_recovery_takeover_handoff H row lease fresh now db = Inr db1"
  shows "\<nexists>r. require_active_recovery_attempt b a db1 = Inr r"
proof -
  note b = batch_row_in [OF assms(2)]
  let ?r = "handoff_record row lease fresh now db"
  obtain t where ins: "sql_insert recovery_clash ?r (recovery_table db) = Some t"
    and db1: "db1 = (update_batch b (set_batch_authority H lease now) db)\<lparr>recovery_table := t\<rparr>"
    using assms(3) b by (auto simp: handoff_ok)
  note w = log_wf_recovery_write [OF assms(1) _ _ _ ins, of b "set_batch_authority H lease now"]
  have "log_wf db1" "last_recovery b db1 = Some ?r"
    unfolding db1 using b by (intro w; simp add: handoff_record_def)+
  then show ?thesis by (simp add: active_attempt_ok handoff_record_def)
qed

text \<open>
  The guard of the action writes hands the batch over to a newer lease, but the check of the
  attempt that follows it then always fails: only the batch's own lease gets through.
\<close>

lemma action_write_ok:
  assumes "log_wf db"
    and "require_batch_for_recovery_action_write H b lease fresh now db = Inr (db1, row)"
    and "require_active_recovery_attempt b a db1 = Inr attempt"
  shows "db1 = db" "lease_is_current db lease now" "batch_row b (batch_table db) = Some row"
    "batch_lease_name row = lease_name lease" "batch_phase row = RECOVERING"
    "batch_lease_fencing_token row = lease_fencing_token lease"
    "last_recovery b db = Some attempt" "recovery_phase attempt = RECOVERING"
    "a = Some (recovery_id attempt)"
proof -
  obtain row0 where cur: "lease_is_current db lease now" and row0: "batch_row b (batch_table db) = Some row0"
    and name: "batch_lease_name row0 = lease_name lease" and ph: "batch_phase row0 = RECOVERING"
    and or: "batch_lease_fencing_token row0 = lease_fencing_token lease \<and> db1 = db \<and> row = row0
      \<or> (\<exists>db'. record_recovery_takeover_handoff H row0 lease fresh now db = Inr db' \<and> db1 = db')"
    using assms(2)
    by (auto simp: require_batch_for_recovery_action_write_def require_recovering_batch_def res_simps
        split: if_splits)
  with handoff_blocks_attempt [OF assms(1) row0, of H lease fresh now _ a] assms(3)
  have same: "batch_lease_fencing_token row0 = lease_fencing_token lease" "db1 = db" "row = row0" by auto
  with assms(3) have "last_recovery b db = Some attempt \<and> recovery_phase attempt = RECOVERING
      \<and> a = Some (recovery_id attempt)"
    by (simp add: active_attempt_ok [OF assms(1)])
  with same cur row0 name ph show "db1 = db" "lease_is_current db lease now"
    "batch_row b (batch_table db) = Some row" "batch_lease_name row = lease_name lease"
    "batch_phase row = RECOVERING" "batch_lease_fencing_token row = lease_fencing_token lease"
    "last_recovery b db = Some attempt" "recovery_phase attempt = RECOVERING" "a = Some (recovery_id attempt)"
    by simp_all
qed

end
