(* ===== verification/Journal_Writes.thy ===== *)
theory Journal_Writes
  imports Journal_Effects "HOL-Library.Sublist"
begin

section \<open>Journal calls as sequences of authorised writes\<close>

text \<open>
  The abstract view of the journal: one call of a worker with lease \<open>l\<close> is a short sequence
  of writes to one batch \<open>b\<close> that the lease may write, that is, the batch is bound to the
  name of the lease and to a fencing token not larger than the lease's. Ids, sequence numbers,
  references and fencing bounds are kept by every such write; the phase and the status
  histories are treated per operation in \<open>Journal_Machine\<close>.
\<close>

definition may_write :: "lease_record \<Rightarrow> batch_entry \<Rightarrow> bool" where
  "may_write l row \<longleftrightarrow> batch_lease_name row = lease_name l
     \<and> batch_lease_fencing_token row \<le> lease_fencing_token l"

text \<open>What a batch is created with and keeps for good.\<close>

definition batch_identity ::
  "batch_entry \<Rightarrow> nat \<times> string \<times> string \<times> string \<times> string \<times> string \<times> string option \<times> string option
    \<times> string option \<times> string option \<times> string option \<times> json \<times> time" where
  "batch_identity r =
     (batch_storage_order r, batch_id r, batch_idempotency_key r, batch_lease_name r, batch_owner r,
      batch_run_id r, batch_operation_run_id r, batch_operation_phase_id r, batch_resource_key r,
      batch_claim_owner r, batch_claim_scope r, batch_payload r, batch_created_at r)"

lemma batch_identity_fields:
  assumes "batch_identity r = batch_identity x"
  shows "batch_id r = batch_id x" "batch_idempotency_key r = batch_idempotency_key x"
    "batch_lease_name r = batch_lease_name x"
  using assms by (simp_all add: batch_identity_def)

inductive batch_write :: "lease_record \<Rightarrow> string \<Rightarrow> 'a journal_db_scheme \<Rightarrow> 'a journal_db_scheme \<Rightarrow> bool"
  for l :: lease_record and b :: string where
  write_create:
    "sql_insert batch_clash r (batch_table db) = Some t \<Longrightarrow> batch_id r = b \<Longrightarrow> may_write l r
      \<Longrightarrow> batch_lease_fencing_token r \<le> lease_level db (batch_lease_name r)
      \<Longrightarrow> batch_idempotency_key r \<notin> batch_idempotency_key ` set (batch_table db)
      \<Longrightarrow> batch_write l b db (db\<lparr>batch_table := t\<rparr>)"
| write_update:
    "batch_row b (batch_table db) = Some row \<Longrightarrow> may_write l row
      \<Longrightarrow> (\<And>r. batch_identity (f r) = batch_identity r)
      \<Longrightarrow> batch_lease_fencing_token row \<le> batch_lease_fencing_token (f row)
      \<Longrightarrow> batch_lease_fencing_token (f row) \<le> lease_fencing_token l
      \<Longrightarrow> batch_lease_fencing_token (f row) \<le> lease_level db (batch_lease_name row)
      \<Longrightarrow> batch_write l b db (update_batch b f db)"
| write_operation:
    "batch_row b (batch_table db) = Some row \<Longrightarrow> may_write l row
      \<Longrightarrow> sql_insert operation_clash r (operation_table db) = Some t
      \<Longrightarrow> operation_batch_id r = b \<Longrightarrow> operation_sequence r = next_sequence b db
      \<Longrightarrow> batch_write l b db (db\<lparr>operation_table := t\<rparr>)"
| write_checkpoint:
    "batch_row b (batch_table db) = Some row \<Longrightarrow> may_write l row
      \<Longrightarrow> sql_insert checkpoint_clash r (checkpoint_table db) = Some t
      \<Longrightarrow> checkpoint_batch_id r = b \<Longrightarrow> checkpoint_sequence r = next_sequence b db
      \<Longrightarrow> (\<And>i. checkpoint_operation_id r = Some i \<Longrightarrow>
            \<exists>x \<in> set (operation_table db). operation_id x = i \<and> operation_batch_id x = b)
      \<Longrightarrow> batch_write l b db (db\<lparr>checkpoint_table := t\<rparr>)"
| write_recovery:
    "batch_row b (batch_table db) = Some row \<Longrightarrow> may_write l row
      \<Longrightarrow> sql_insert recovery_clash r (recovery_table db) = Some t
      \<Longrightarrow> recovery_batch_id r = b \<Longrightarrow> recovery_sequence r = next_sequence b db
      \<Longrightarrow> batch_write l b db (db\<lparr>recovery_table := t\<rparr>)"
| write_action:
    "batch_row b (batch_table db) = Some row \<Longrightarrow> may_write l row
      \<Longrightarrow> sql_insert recovery_action_clash r (recovery_action_table db) = Some t
      \<Longrightarrow> action_batch_id r = b \<Longrightarrow> action_sequence r = next_sequence b db
      \<Longrightarrow> \<exists>x \<in> set (recovery_table db). recovery_id x = action_recovery_attempt_id r
            \<and> recovery_batch_id x = b \<and> recovery_phase x = RECOVERING
      \<Longrightarrow> batch_write l b db (db\<lparr>recovery_action_table := t\<rparr>)"
| write_cleanup:
    "batch_row b (batch_table db) = Some row \<Longrightarrow> may_write l row
      \<Longrightarrow> sql_insert artifact_cleanup_clash r (artifact_cleanup_table db) = Some t
      \<Longrightarrow> cleanup_batch_id r = b \<Longrightarrow> cleanup_sequence r = next_sequence b db
      \<Longrightarrow> batch_write l b db (db\<lparr>artifact_cleanup_table := t\<rparr>)"

subsection \<open>What every authorised write keeps\<close>

definition same_leases :: "'a journal_db_scheme \<Rightarrow> 'a journal_db_scheme \<Rightarrow> bool" where
  "same_leases db db' \<longleftrightarrow> lease_table db' = lease_table db \<and> claim_table db' = claim_table db"

definition same_runs :: "'a journal_db_scheme \<Rightarrow> 'a journal_db_scheme \<Rightarrow> bool" where
  "same_runs db db' \<longleftrightarrow> operation_run_table db' = operation_run_table db
     \<and> operation_phase_table db' = operation_phase_table db"

definition logs_extend :: "'a journal_db_scheme \<Rightarrow> 'a journal_db_scheme \<Rightarrow> bool" where
  "logs_extend db db' \<longleftrightarrow> prefix (operation_table db) (operation_table db')
     \<and> prefix (checkpoint_table db) (checkpoint_table db')
     \<and> prefix (recovery_table db) (recovery_table db')
     \<and> prefix (recovery_action_table db) (recovery_action_table db')
     \<and> prefix (artifact_cleanup_table db) (artifact_cleanup_table db')"

text \<open>The journal of a batch: its row and its records in the five logs.\<close>

definition journal_of ::
  "string \<Rightarrow> 'a journal_db_scheme \<Rightarrow> batch_entry option \<times> operation_record list \<times> checkpoint_record list
    \<times> recovery_record list \<times> recovery_action_record list \<times> artifact_cleanup_record list" where
  "journal_of b db =
     (batch_row b (batch_table db),
      filter (\<lambda>r. operation_batch_id r = b) (operation_table db),
      filter (\<lambda>r. checkpoint_batch_id r = b) (checkpoint_table db),
      filter (\<lambda>r. recovery_batch_id r = b) (recovery_table db),
      filter (\<lambda>r. action_batch_id r = b) (recovery_action_table db),
      filter (\<lambda>r. cleanup_batch_id r = b) (artifact_cleanup_table db))"

lemma same_leases_level:
  assumes "same_leases db db'"
  shows "lease_level db' n = lease_level db n" "lease_is_current db' l t = lease_is_current db l t"
    "lease_wf db' = lease_wf db" "claim_wf db' = claim_wf db" "claim_view db' = claim_view db"
  using lease_same_table [of db' db] assms
  by (simp_all add: same_leases_def claim_wf_def claim_view_def)

lemma batch_write_frame:
  assumes "batch_write l b db db'"
  shows "same_leases db db'" "same_runs db db'"
  using assms by (induction) (simp_all add: same_leases_def same_runs_def)

lemma insert_prefix:
  "sql_insert clash r t = Some t' \<Longrightarrow> prefix t t'"
  by (simp add: sql_insert_Some)

lemma batch_write_logs: "batch_write l b db db' \<Longrightarrow> logs_extend db db'"
  by (induction rule: batch_write.induct) (auto simp: logs_extend_def insert_prefix)

lemma filter_insert_other:
  "sql_insert clash r t = Some t' \<Longrightarrow> \<not> p r \<Longrightarrow> filter p t' = filter p t"
  by (auto simp: sql_insert_Some)

lemma batch_write_other:
  assumes "batch_write l b db db'" and "b' \<noteq> b"
  shows "journal_of b' db' = journal_of b' db"
  using assms
proof (induction rule: batch_write.induct)
  case (write_create r db t)
  then have "batch_row b' t = batch_row b' (batch_table db)"
    using batches.get_row_insert_other [OF write_create(1)] by blast
  then show ?case by (simp add: journal_of_def)
next
  case (write_update db row f)
  have "map_option (\<lambda>r. if batch_id r = b then f r else r) (batch_row b' (batch_table db))
      = batch_row b' (batch_table db)"
    using write_update.prems batch_row_in by (cases "batch_row b' (batch_table db)") auto
  then show ?case
    using batch_row_update [of f b' b db, OF batch_identity_fields(1) [OF write_update(3)]]
    by (simp add: journal_of_def)
qed (auto simp: journal_of_def filter_insert_other)

lemma batch_write_row:
  assumes "batch_write l b db db'" and "batch_row b (batch_table db) = Some row"
  shows "may_write l row" "\<exists>row'. batch_row b (batch_table db') = Some row' \<and> may_write l row' \<and> batch_identity row' = batch_identity row
    \<and> batch_lease_fencing_token row \<le> batch_lease_fencing_token row'"
proof -
  have "may_write l row \<and> (\<exists>row'. batch_row b (batch_table db') = Some row' \<and> may_write l row'
    \<and> batch_identity row' = batch_identity row \<and> batch_lease_fencing_token row \<le> batch_lease_fencing_token row')"
    using assms
  proof (induction rule: batch_write.induct)
    case (write_create r db t)
    then show ?case using batches.get_row_Some [of b "batch_table db" row]
      by (auto simp: sql_insert_Some batch_clash_def)
  next
    case (write_update db row0 f)
    then show ?case
      using batch_row_update [of f b b db, OF batch_identity_fields(1) [OF write_update(3)]]
        batch_row_in [of b db row0] batch_identity_fields(3) [OF write_update(3)]
      by (auto simp: may_write_def)
  qed auto
  then show "may_write l row" "\<exists>row'. batch_row b (batch_table db') = Some row' \<and> may_write l row' \<and> batch_identity row' = batch_identity row
    \<and> batch_lease_fencing_token row \<le> batch_lease_fencing_token row'" by simp_all
qed

lemma unique_key_append:
  "unique_key k t \<Longrightarrow> k r \<notin> k ` set t \<Longrightarrow> unique_key k (t @ [r])"
  by (simp add: unique_key_def)

lemma batch_write_log_wf: "batch_write l b db db' \<Longrightarrow> log_wf db \<Longrightarrow> log_wf db'"
proof (induction rule: batch_write.induct)
  case (write_create r db t)
  have t: "t = batch_table db @ [r]" using write_create(1) by (simp add: sql_insert_Some)
  have "unique_key batch_id t"
    using batches.unique_insert [OF log_wf_parts(1) [OF write_create(6)] write_create(1)] .
  moreover have "unique_key batch_idempotency_key t"
    unfolding t using write_create(5,6) by (intro unique_key_append) (simp_all add: log_wf_def unique_ids_def)
  ultimately show ?case
    by (intro log_wf_batch_table [OF write_create(6)]) (auto simp: t batch_ids_def)
next
  case (write_update db row f)
  show ?case
    by (rule log_wf_update_batch [OF write_update(7) batch_identity_fields(1) [OF write_update(3)]
          batch_identity_fields(2) [OF write_update(3)]])
next
  case (write_operation db row r t)
  then show ?case using batch_row_in [of b db row] by (intro log_wf_operation) auto
next
  case (write_checkpoint db row r t)
  then show ?case using batch_row_in [of b db row] by (intro log_wf_checkpoint) auto
next
  case (write_recovery db row r t)
  then show ?case using batch_row_in [of b db row] by (intro log_wf_recovery) auto
next
  case (write_action db row r t)
  then show ?case using batch_row_in [of b db row] by (intro log_wf_action) auto
next
  case (write_cleanup db row r t)
  then show ?case using batch_row_in [of b db row] by (intro log_wf_cleanup) auto
qed

lemma fence_wf_row:
  "fence_wf db \<Longrightarrow> batch_row b (batch_table db) = Some row
    \<Longrightarrow> batch_lease_fencing_token row \<le> lease_level db (batch_lease_name row)"
  using batches.get_row_Some by (auto simp: fence_wf_def)

lemma fence_wf_tables:
  "fence_wf db \<Longrightarrow> same_leases db db' \<Longrightarrow> batch_table db' = batch_table db \<Longrightarrow> fence_wf db'"
  by (simp add: fence_wf_def same_leases_level)

lemma batch_write_fence_wf: "batch_write l b db db' \<Longrightarrow> log_wf db \<Longrightarrow> fence_wf db \<Longrightarrow> fence_wf db'"
proof (induction rule: batch_write.induct)
  case (write_create r db t)
  have lv: "lease_level (db\<lparr>batch_table := t\<rparr>) n = lease_level db n" for n
    by (rule lease_same_table) simp
  have t: "t = batch_table db @ [r]" using write_create(1) by (simp add: sql_insert_Some)
  show ?case using write_create(4,7) by (simp add: fence_wf_def lv [unfolded t] t)
next
  case (write_update db row f)
  have lv: "lease_level (update_batch b f db) n = lease_level db n" for n
    by (rule lease_same_table) simp
  have "r = row" if "r \<in> set (batch_table db)" "batch_id r = b" for r
    using batches.get_row_unique [OF log_wf_parts(1) [OF write_update(7)] that(1)] that(2) write_update(1)
    by simp
  then show ?case
    using write_update(6,8) batch_identity_fields(3) [OF write_update(3)]
    by (auto simp: fence_wf_def lv) (auto simp: update_batch_def sql_update_def)
qed (auto intro: fence_wf_tables simp: same_leases_def)

subsection \<open>Whole calls\<close>

definition base_wf :: "'a journal_db_scheme \<Rightarrow> bool" where
  "base_wf db \<longleftrightarrow> lease_wf db \<and> claim_wf db \<and> log_wf db \<and> fence_wf db"

lemma base_wf_parts:
  assumes "base_wf db"
  shows "lease_wf db" "claim_wf db" "log_wf db" "fence_wf db"
  using assms by (simp_all add: base_wf_def)

lemma batch_write_base_wf: "batch_write l b db db' \<Longrightarrow> base_wf db \<Longrightarrow> base_wf db'"
  using batch_write_log_wf [of l b db db'] batch_write_fence_wf [of l b db db']
    same_leases_level(3,4) [OF batch_write_frame(1), of l b db db']
  by (simp add: base_wf_def)

lemma logs_extend_refl [simp]: "logs_extend db db"
  by (simp add: logs_extend_def)

lemma logs_extend_trans: "logs_extend db db' \<Longrightarrow> logs_extend db' db'' \<Longrightarrow> logs_extend db db''"
  unfolding logs_extend_def by (meson prefix_order.trans)

lemma call_base_wf: "(batch_write l b)\<^sup>*\<^sup>* db db' \<Longrightarrow> base_wf db \<Longrightarrow> base_wf db'"
  by (erule rtranclp_invariant) (auto intro: batch_write_base_wf)

lemma call_frame: "(batch_write l b)\<^sup>*\<^sup>* db db' \<Longrightarrow> same_leases db db' \<and> same_runs db db'"
  by (induction rule: rtranclp_induct)
    (auto simp: same_leases_def same_runs_def dest: batch_write_frame)

lemma call_logs: "(batch_write l b)\<^sup>*\<^sup>* db db' \<Longrightarrow> logs_extend db db'"
  by (induction rule: rtranclp_induct) (auto intro: logs_extend_trans batch_write_logs)

lemma call_other: "(batch_write l b)\<^sup>*\<^sup>* db db' \<Longrightarrow> b' \<noteq> b \<Longrightarrow> journal_of b' db' = journal_of b' db"
  by (induction rule: rtranclp_induct) (auto dest: batch_write_other)

lemma call_row:
  assumes "(batch_write l b)\<^sup>*\<^sup>* db db'" and "batch_row b (batch_table db) = Some row"
  shows "\<exists>row'. batch_row b (batch_table db') = Some row' \<and> batch_identity row' = batch_identity row
    \<and> batch_lease_fencing_token row \<le> batch_lease_fencing_token row'"
  using assms
proof (induction rule: rtranclp_induct)
  case base
  then show ?case by simp
next
  case (step x y)
  then obtain r where r: "batch_row b (batch_table x) = Some r" "batch_identity r = batch_identity row"
    "batch_lease_fencing_token row \<le> batch_lease_fencing_token r" by blast
  obtain r' where "batch_row b (batch_table y) = Some r'" "batch_identity r' = batch_identity r"
    "batch_lease_fencing_token r \<le> batch_lease_fencing_token r'"
    using batch_write_row(2) [OF step(2) r(1)] by blast
  with r show ?case by auto
qed

text \<open>A call that writes anything at all was allowed to write the batch as it found it.\<close>

lemma call_allowed:
  assumes "(batch_write l b)\<^sup>*\<^sup>* db db'" and "batch_row b (batch_table db) = Some row"
  shows "db' = db \<or> may_write l row"
  using assms by (metis converse_rtranclpE batch_write_row(1))

end
