(* ===== verification/Journal_Calls.thy ===== *)
theory Journal_Calls
  imports Journal_Writes
begin

section \<open>The journal calls in the abstract view\<close>

text \<open>
  For every method of the journal: a successful call is a sequence of authorised writes to its
  batch (\<open>batch_write\<close>), and what it does to the phase of the batch and to the status
  histories. The lemmas \<open>..._ok\<close> unfold the definitions once; the lemmas below them are about
  the writes only.
\<close>

subsection \<open>Batches and operations\<close>

lemma idempotent_match_ok [res_simps]:
  "require_matching_idempotent_batch row lease owner run_id orun ophase rk co cs p = Inr u \<longleftrightarrow>
     batch_lease_name row = lease_name lease \<and> batch_owner row = owner \<and> batch_run_id row = run_id
     \<and> batch_operation_run_id row = orun \<and> batch_operation_phase_id row = ophase
     \<and> batch_resource_key row = rk \<and> batch_claim_owner row = co \<and> batch_claim_scope row = cs
     \<and> batch_payload row = p"
  by (simp add: require_matching_idempotent_batch_def res_simps)

lemma create_batch_ok:
  assumes "create_batch H key lease owner run_id orun ophase rk co cs payload bid fresh now db = Inr (db', rec)"
  obtains
    (existing) row where "lease_is_current db lease now" "db' = db" "rec = batch_from_row row"
      "batch_row_by_idempotency_key key (batch_table db) = Some row" "batch_lease_name row = lease_name lease"
      "require_matching_idempotent_batch row lease owner run_id orun ophase rk co cs (payload_to_json payload) = Inr ()"
      "key \<noteq> []" "owner \<noteq> []" "run_id \<noteq> []"
  | (created) r t where "lease_is_current db lease now" "db' = db\<lparr>batch_table := t\<rparr>" "rec = batch_from_row r"
      "batch_row_by_idempotency_key key (batch_table db) = None"
      "sql_insert batch_clash r (batch_table db) = Some t" "batch_id r = str_or bid fresh"
      "batch_idempotency_key r = key" "batch_phase r = PLANNED" "batch_lease_name r = lease_name lease"
      "batch_lease_fencing_token r = lease_fencing_token lease" "batch_owner r = owner"
      "require_matching_idempotent_batch r lease owner run_id orun ophase rk co cs (payload_to_json payload) = Inr ()"
      "key \<noteq> []" "owner \<noteq> []" "run_id \<noteq> []"
      "require_valid_batch_operation_links run_id owner orun ophase db = Inr ()"
      "batch_lease_owner r = Some (lease_owner lease)"
      "batch_lease_token_digest r = Some (lease_token_digest H lease)"
proof (cases "batch_row_by_idempotency_key key (batch_table db)")
  case (Some row)
  with assms show ?thesis
    by (intro existing [of row]) (auto simp: create_batch_def res_simps)
next
  case None
  let ?r = "\<lparr>batch_storage_order = next_rowid (batch_table db), batch_id = str_or bid fresh,
      batch_idempotency_key = key, batch_lease_name = lease_name lease,
      batch_lease_owner = Some (lease_owner lease), batch_lease_fencing_token = lease_fencing_token lease,
      batch_lease_token_digest = Some (lease_token_digest H lease), batch_owner = owner,
      batch_run_id = run_id, batch_operation_run_id = orun, batch_operation_phase_id = ophase,
      batch_resource_key = rk, batch_claim_owner = co, batch_claim_scope = cs, batch_phase = PLANNED,
      batch_payload = payload_to_json payload, batch_status_message = None,
      batch_status_payload = payload_to_json None, batch_created_at = now, batch_updated_at = now\<rparr>"
  obtain t row where t: "sql_insert batch_clash ?r (batch_table db) = Some t"
    and row: "batch_row (str_or bid fresh) t = Some row" and db': "db' = db\<lparr>batch_table := t\<rparr>"
    and rec: "rec = batch_from_row row" and cur: "lease_is_current db lease now"
    and req: "key \<noteq> []" "owner \<noteq> []" "run_id \<noteq> []"
    and links: "require_valid_batch_operation_links run_id owner orun ophase db = Inr ()"
    using assms None
    by (auto simp: create_batch_def res_bind_Inr from_option_Inr current_lease_ok validate_required_Inr Let_def)
  have "row = ?r" using batches.get_row_insert [OF t] row by simp
  with t db' rec cur None req links show ?thesis
    by (intro created [of t ?r]) (simp_all add: idempotent_match_ok)
qed

lemma key_lookup_None:
  "batch_row_by_idempotency_key key t = None \<longleftrightarrow> key \<notin> batch_idempotency_key ` set t"
  by (simp add: batch_row_by_idempotency_key_def find_key_None)

lemma fence_current:
  assumes "base_wf db" and "lease_is_current db lease now"
  shows "lease_level db (lease_name lease) = lease_fencing_token lease"
  using lease_auth.current_level [OF base_wf_parts(1) [OF assms(1)] assms(2)] by simp

text \<open>With a current lease, no batch of its name is bound to a newer one.\<close>

lemma current_may_write:
  assumes "base_wf db" and "lease_is_current db lease now" and "batch_row b (batch_table db) = Some row"
    and "batch_lease_name row = lease_name lease"
  shows "may_write lease row"
  using fence_wf_row [OF base_wf_parts(4) [OF assms(1)] assms(3)] fence_current [OF assms(1,2)] assms(4)
  by (simp add: may_write_def)

lemma create_batch_write:
  assumes "base_wf db" and "create_batch H key lease owner run_id orun ophase rk co cs payload bid fresh now db = Inr (db', rec)"
  shows "(batch_write lease (str_or bid fresh))\<^sup>*\<^sup>* db db'"
  using assms(2)
proof (cases rule: create_batch_ok)
  case (existing row)
  then show ?thesis by simp
next
  case (created r t)
  then show ?thesis
    using write_create [of r db t "str_or bid fresh" lease] fence_current [OF assms(1), of lease now]
    by (auto simp: may_write_def key_lookup_None)
qed

lemma append_operation_ok:
  assumes "append_operation b lease type rk payload oid fresh now db = Inr (db', r)"
  obtains row t where "lease_is_current db lease now" "batch_row b (batch_table db) = Some row"
    "batch_lease_name row = lease_name lease" "batch_lease_fencing_token row = lease_fencing_token lease"
    "batch_phase row \<in> {PLANNED, ATTEMPTING}" "sql_insert operation_clash r (operation_table db) = Some t"
    "db' = db\<lparr>operation_table := t\<rparr>" "operation_batch_id r = b" "operation_sequence r = next_sequence b db"
    "operation_id r = str_or oid fresh" "operation_type r = type"
    "operation_resource_key r = rk" "operation_payload r = payload_to_json payload"
proof -
  obtain row t where row: "lease_is_current db lease now" "batch_row b (batch_table db) = Some row"
    "batch_lease_name row = lease_name lease" "batch_lease_fencing_token row = lease_fencing_token lease"
    "batch_phase row \<in> {PLANNED, ATTEMPTING}"
    and t: "sql_insert operation_clash
      \<lparr>operation_id = str_or oid fresh, operation_batch_id = batch_id row,
       operation_sequence = next_sequence b db, operation_type = type, operation_resource_key = rk,
       operation_payload = payload_to_json payload, operation_created_at = now\<rparr> (operation_table db) = Some t"
    and r: "operation_row (str_or oid fresh) t = Some r" and db': "db' = db\<lparr>operation_table := t\<rparr>"
    using assms by (auto simp: append_operation_def insert_operation_def Let_def res_bind_Inr
        from_option_Inr batch_for_write_ok appendable_ok)
  note r' = operations.insert_Some(3) [OF t, simplified, unfolded r, simplified]
  show ?thesis using row t db' r' batch_row_in [OF row(2)] by (intro that [of row t]) simp_all
qed

lemma append_operation_write:
  assumes "append_operation b lease type rk payload oid fresh now db = Inr (db', r)"
  shows "(batch_write lease b)\<^sup>*\<^sup>* db db'"
  using assms
proof (cases rule: append_operation_ok)
  case (1 row t)
  have "may_write lease row" using 1 by (simp add: may_write_def)
  then have "batch_write lease b db db'"
    unfolding 1(7) by (rule write_operation [OF 1(2) _ 1(6,8,9)])
  then show ?thesis by simp
qed

lemma transition_batch_ok:
  assumes "transition_batch b lease phase msg payload now db = Inr (db', rec)"
  obtains row where "lease_is_current db lease now" "batch_row b (batch_table db) = Some row"
    "batch_lease_name row = lease_name lease" "batch_lease_fencing_token row = lease_fencing_token lease"
    "phase \<in> valid_transitions (batch_phase row)"
    "db' = update_batch b (set_batch_status phase msg (payload_to_json payload) now) db"
    "rec = batch_from_row (set_batch_status phase msg (payload_to_json payload) now row)"
proof -
  let ?f = "set_batch_status phase msg (payload_to_json payload) now"
  obtain row u where row: "lease_is_current db lease now" "batch_row b (batch_table db) = Some row"
    "batch_lease_name row = lease_name lease" "batch_lease_fencing_token row = lease_fencing_token lease"
    "phase \<in> valid_transitions (batch_phase row)" and db': "db' = update_batch b ?f db"
    and u: "batch_row b (batch_table db') = Some u" "rec = batch_from_row u"
    using assms by (auto simp: transition_batch_def Let_def res_bind_Inr from_option_Inr
        batch_for_write_ok valid_transition_ok)
  have "u = ?f row"
    using batch_row_update [of ?f b b db] u(1) row(2) batch_row_in [OF row(2)] by (simp add: db')
  with row db' u show ?thesis by (intro that [of row]) simp_all
qed

lemma set_status_fence [simp]:
  "batch_lease_fencing_token (set_batch_status p m v now r) = batch_lease_fencing_token r"
  "batch_lease_name (set_batch_status p m v now r) = batch_lease_name r"
  "batch_phase (set_batch_status p m v now r) = p"
  "batch_lease_fencing_token (set_batch_authority H lease now r) = lease_fencing_token lease"
  "batch_lease_name (set_batch_authority H lease now r) = batch_lease_name r"
  "batch_phase (set_batch_authority H lease now r) = batch_phase r"
  by (simp_all add: set_batch_status_def set_batch_authority_def)

lemma set_status_identity [simp]:
  "batch_identity (set_batch_status p m v now r) = batch_identity r"
  "batch_identity (set_batch_authority H lease now r) = batch_identity r"
  by (simp_all add: batch_identity_def set_batch_status_def set_batch_authority_def)

text \<open>The two kinds of update: of the status alone, and of the authority by a current lease.\<close>

lemma write_status:
  assumes "base_wf db" and "batch_row b (batch_table db) = Some row" and "may_write lease row"
  shows "batch_write lease b db (update_batch b (set_batch_status p m v now) db)"
  using assms fence_wf_row [OF base_wf_parts(4) [OF assms(1)] assms(2)]
  by (intro write_update [of b db row]) (simp_all add: may_write_def)

lemma write_authority:
  assumes "base_wf db" and "batch_row b (batch_table db) = Some row" and "may_write lease row"
    and "lease_is_current db lease now"
    and f: "\<And>r. batch_identity (f r) = batch_identity r"
    "\<And>r. batch_lease_fencing_token (f r) = lease_fencing_token lease"
  shows "batch_write lease b db (update_batch b f db)"
  using assms(2,3) fence_current [OF assms(1,4)]
  by (intro write_update [of b db row]) (simp_all add: may_write_def f)

lemma transition_batch_write:
  assumes "base_wf db" and "transition_batch b lease phase msg payload now db = Inr (db', rec)"
  shows "(batch_write lease b)\<^sup>*\<^sup>* db db'"
  using assms(2)
proof (cases rule: transition_batch_ok)
  case (1 row)
  then show ?thesis
    using write_status [OF assms(1) 1(2)] by (auto simp: may_write_def)
qed

lemma startable_ok [res_simps]:
  "require_startable_batch row lease rk db = Inr u \<longleftrightarrow>
     batch_phase row = PLANNED \<and> batch_lease_name row = lease_name lease
     \<and> batch_lease_fencing_token row \<le> lease_fencing_token lease
     \<and> (batch_resource_key row = None \<or> rk = batch_resource_key row)
     \<and> \<not> batch_has_journal_records (batch_id row) db"
  by (auto simp: require_startable_batch_def)

text \<open>The batch as the start finds it, with the authority of the new lease when it is newer.\<close>

definition rebound :: "digest \<Rightarrow> string \<Rightarrow> lease_record \<Rightarrow> time \<Rightarrow> batch_entry \<Rightarrow> 'a journal_db_scheme \<Rightarrow> 'a journal_db_scheme" where
  "rebound H b lease now row db =
     (if batch_lease_fencing_token row \<noteq> lease_fencing_token lease
      then update_batch b (set_batch_authority H lease now) db else db)"

lemma rebound_tables [simp]:
  "operation_table (rebound H b lease now row db) = operation_table db"
  "recovery_table (rebound H b lease now row db) = recovery_table db"
  "next_sequence b' (rebound H b lease now row db) = next_sequence b' db"
  by (simp_all add: rebound_def)

lemma rebound_row:
  "batch_row b (batch_table db) = Some row
    \<Longrightarrow> \<exists>row'. batch_row b (batch_table (rebound H b lease now row db)) = Some row'
      \<and> batch_lease_name row' = batch_lease_name row \<and> batch_lease_fencing_token row' = lease_fencing_token lease
      \<and> batch_phase row' = batch_phase row"
  using batch_row_update [of "set_batch_authority H lease now" b b db] batch_row_in [of b db row]
  by (auto simp: rebound_def)

lemma start_batch_operation_ok:
  assumes "start_batch_operation H b lease type rk payload oid sp fresh now db = Inr (db', rec, r)"
  obtains row t v u where "lease_is_current db lease now" "batch_row b (batch_table db) = Some row"
    "batch_phase row = PLANNED" "may_write lease row" "\<not> batch_has_journal_records b db"
    "sql_insert operation_clash r (operation_table db) = Some t"
    "db' = update_batch b (set_batch_status ATTEMPTING None v now) ((rebound H b lease now row db)\<lparr>operation_table := t\<rparr>)"
    "operation_batch_id r = b" "operation_sequence r = next_sequence b db" "operation_type r = type"
    "operation_resource_key r = rk" "operation_payload r = payload_to_json payload"
    "batch_row b (batch_table db') = Some u" "rec = batch_from_row u"
proof -
  obtain row where row: "lease_is_current db lease now" "batch_row b (batch_table db) = Some row"
    "batch_phase row = PLANNED" "may_write lease row" "\<not> batch_has_journal_records b db"
    using assms batch_row_in
    by (fastforce simp: start_batch_operation_def res_bind_Inr from_option_Inr current_lease_ok startable_ok may_write_def)
  have db1: "(if batch_lease_fencing_token row \<noteq> lease_fencing_token lease
       then let db' = update_batch b (set_batch_authority H lease now) db
            in res_bind (from_option RuntimeError (batch_row b (batch_table db'))) (\<lambda>_. Inr db')
       else Inr db) = Inr (rebound H b lease now row db)"
    using row(2) batch_row_update [of "set_batch_authority H lease now" b b db]
    by (simp add: rebound_def Let_def)
  let ?r = "\<lparr>operation_id = str_or oid fresh, operation_batch_id = b, operation_sequence = next_sequence b db,
       operation_type = type, operation_resource_key = rk, operation_payload = payload_to_json payload,
       operation_created_at = now\<rparr>"
  obtain t v u where t: "sql_insert operation_clash ?r (operation_table db) = Some t"
    and db': "db' = update_batch b (set_batch_status ATTEMPTING None v now) ((rebound H b lease now row db)\<lparr>operation_table := t\<rparr>)"
    and r: "operation_row (str_or oid fresh) t = Some r"
    and u: "batch_row b (batch_table db') = Some u" "rec = batch_from_row u"
    using assms row(2) db1
    by (auto simp: start_batch_operation_def insert_operation_def Let_def res_bind_Inr from_option_Inr)
  note r' = operations.insert_Some(3) [OF t, simplified, unfolded r, simplified]
  show ?thesis using row t db' r' u by (intro that [of row t v u]) simp_all
qed

lemma start_batch_operation_write:
  assumes "base_wf db" and "start_batch_operation H b lease type rk payload oid sp fresh now db = Inr (db', rec, r)"
  shows "(batch_write lease b)\<^sup>*\<^sup>* db db'"
  using assms(2)
proof (cases rule: start_batch_operation_ok)
  case (1 row t v u)
  let ?db1 = "rebound H b lease now row db" and ?db2 = "(rebound H b lease now row db)\<lparr>operation_table := t\<rparr>"
  obtain row' where row': "batch_row b (batch_table ?db1) = Some row'" and may: "may_write lease row'"
    using rebound_row [OF 1(2), of H lease now] 1(4) by (auto simp: may_write_def)
  have w1: "(batch_write lease b)\<^sup>*\<^sup>* db ?db1"
    using write_authority [OF assms(1) 1(2,4,1), of "set_batch_authority H lease now"]
    by (auto simp: rebound_def)
  have w2: "batch_write lease b ?db1 ?db2"
    by (rule write_operation [OF row' may]) (use 1(6,8,9) in simp_all)
  have "base_wf ?db2"
    using call_base_wf [OF w1 assms(1)] by (rule batch_write_base_wf [OF w2])
  then have "batch_write lease b ?db2 db'"
    unfolding 1(7) by (rule write_status [OF _ _ may]) (simp add: row')
  with w1 w2 show ?thesis by (meson rtranclp.rtrancl_into_rtrancl)
qed

lemma checkpoint_operation_ok:
  assumes "require_checkpoint_operation b oid rk db = Inr u" and "oid = Some i"
  shows "\<exists>x \<in> set (operation_table db). operation_id x = i \<and> operation_batch_id x = b
    \<and> operation_resource_key x = Some rk"
  using assms operations.get_row_Some
  by (fastforce simp: require_checkpoint_operation_def res_simps)

lemma record_checkpoint_ok:
  assumes "base_wf db"
    and "record_checkpoint H b lease rk type payload oid cid attempt fresh fresh2 now db = Inr (db', r)"
  obtains row t where "lease_is_current db lease now" "batch_row b (batch_table db) = Some row"
    "batch_lease_name row = lease_name lease" "batch_lease_fencing_token row = lease_fencing_token lease"
    "if attempt = None then batch_phase row \<in> {PLANNED, ATTEMPTING}
     else batch_phase row = RECOVERING
       \<and> (\<exists>x. last_recovery b db = Some x \<and> recovery_phase x = RECOVERING \<and> attempt = Some (recovery_id x))"
    "sql_insert checkpoint_clash r (checkpoint_table db) = Some t" "db' = db\<lparr>checkpoint_table := t\<rparr>"
    "checkpoint_batch_id r = b" "checkpoint_sequence r = next_sequence b db"
    "\<And>i. checkpoint_operation_id r = Some i \<Longrightarrow>
      \<exists>x \<in> set (operation_table db). operation_id x = i \<and> operation_batch_id x = b
        \<and> operation_resource_key x = Some rk"
    "checkpoint_resource_key r = rk" "checkpoint_type r = type"
proof -
  have log: "log_wf db" using assms(1) by (rule base_wf_parts)
  obtain db1 row where guard: "(if attempt = None then
         res_bind (require_batch_for_write b lease now db) (\<lambda>row.
         res_bind (require_appendable_phase (batch_phase row)) (\<lambda>_. Inr (db, row)))
       else
         res_bind (require_batch_for_recovery_action_write H b lease fresh now db) (\<lambda>(db', row).
         res_bind (require_active_recovery_attempt b attempt db') (\<lambda>_. Inr (db', row)))) = Inr (db1, row)"
    and op: "require_checkpoint_operation b oid rk db1 = Inr ()"
    and rest: "\<exists>t. sql_insert checkpoint_clash \<lparr>checkpoint_id = str_or cid fresh2,
        checkpoint_batch_id = batch_id row, checkpoint_sequence = next_sequence b db1,
        checkpoint_operation_id = oid, checkpoint_resource_key = rk, checkpoint_type = type,
        checkpoint_payload = payload_to_json payload, checkpoint_created_at = now\<rparr> (checkpoint_table db1) = Some t
      \<and> checkpoint_row (str_or cid fresh2) t = Some r \<and> db' = db1\<lparr>checkpoint_table := t\<rparr>"
    using assms(2) unfolding record_checkpoint_def Let_def
    by (elim res_bind_Inr [THEN iffD1, THEN exE]) (auto simp: res_bind_Inr from_option_Inr)
  have cases: "db1 = db \<and> lease_is_current db lease now \<and> batch_row b (batch_table db) = Some row
    \<and> batch_lease_name row = lease_name lease \<and> batch_lease_fencing_token row = lease_fencing_token lease
    \<and> (if attempt = None then batch_phase row \<in> {PLANNED, ATTEMPTING}
       else batch_phase row = RECOVERING
         \<and> (\<exists>x. last_recovery b db = Some x \<and> recovery_phase x = RECOVERING \<and> attempt = Some (recovery_id x)))"
  proof (cases "attempt = None")
    case True
    then show ?thesis
      using guard by (auto simp: res_bind_Inr batch_for_write_ok appendable_ok)
  next
    case False
    then obtain x where x: "require_batch_for_recovery_action_write H b lease fresh now db = Inr (db1, row)"
      "require_active_recovery_attempt b attempt db1 = Inr x"
      using guard by (auto simp: res_bind_Inr)
    show ?thesis using action_write_ok [OF log x] False by auto
  qed
  then have b: "batch_id row = b" using batch_row_in by blast
  from rest cases b obtain t where t: "sql_insert checkpoint_clash \<lparr>checkpoint_id = str_or cid fresh2,
        checkpoint_batch_id = b, checkpoint_sequence = next_sequence b db,
        checkpoint_operation_id = oid, checkpoint_resource_key = rk, checkpoint_type = type,
        checkpoint_payload = payload_to_json payload, checkpoint_created_at = now\<rparr> (checkpoint_table db) = Some t"
    and r: "checkpoint_row (str_or cid fresh2) t = Some r" and db': "db' = db\<lparr>checkpoint_table := t\<rparr>"
    by auto
  note r' = checkpoints.insert_Some(3) [OF t, simplified, unfolded r, simplified]
  from cases have c: "lease_is_current db lease now" "batch_row b (batch_table db) = Some row"
    "batch_lease_name row = lease_name lease" "batch_lease_fencing_token row = lease_fencing_token lease"
    "if attempt = None then batch_phase row \<in> {PLANNED, ATTEMPTING}
     else batch_phase row = RECOVERING
       \<and> (\<exists>x. last_recovery b db = Some x \<and> recovery_phase x = RECOVERING \<and> attempt = Some (recovery_id x))"
    and db1: "db1 = db" by blast+
  show ?thesis
    by (rule that [OF c t [folded r'] db']) (use checkpoint_operation_ok [OF op] db1 in \<open>simp_all add: r'\<close>)
qed

lemma record_checkpoint_write:
  assumes "base_wf db"
    and "record_checkpoint H b lease rk type payload oid cid attempt fresh fresh2 now db = Inr (db', r)"
  shows "(batch_write lease b)\<^sup>*\<^sup>* db db'"
  using assms
proof (cases rule: record_checkpoint_ok)
  case (1 row t)
  have "may_write lease row" using 1 by (simp add: may_write_def)
  then have "batch_write lease b db db'"
    unfolding 1(7) by (rule write_checkpoint [OF 1(2) _ 1(6,8,9)]) (use 1(10) in blast)
  then show ?thesis by simp
qed

subsection \<open>Recovery\<close>

text \<open>One recovery record of a batch together with the update of the batch row.\<close>

definition recovery_write ::
  "string \<Rightarrow> (batch_entry \<Rightarrow> batch_entry) \<Rightarrow> recovery_record \<Rightarrow> 'a journal_db_scheme \<Rightarrow> 'a journal_db_scheme \<Rightarrow> bool" where
  "recovery_write b f r db db' \<longleftrightarrow>
     (\<exists>t. sql_insert recovery_clash r (recovery_table db) = Some t
        \<and> db' = (update_batch b f db)\<lparr>recovery_table := t\<rparr>)
     \<and> recovery_batch_id r = b \<and> recovery_sequence r = next_sequence b db"

lemma write_recovery_phase_ok:
  assumes "write_recovery_phase b f phase reason payload rid fresh2 now db = Inr (db', r)"
  shows "recovery_write b f r db db'" "recovery_phase r = phase" "recovery_id r = str_or rid fresh2"
    "recovery_reason r = reason" "recovery_payload r = payload"
proof -
  obtain t where t: "sql_insert recovery_clash
         \<lparr>recovery_id = str_or rid fresh2, recovery_batch_id = b, recovery_sequence = next_sequence b db,
          recovery_phase = phase, recovery_reason = reason, recovery_payload = payload,
          recovery_created_at = now\<rparr> (recovery_table db) = Some t"
    and db': "db' = (update_batch b f db)\<lparr>recovery_table := t\<rparr>"
    and r: "recovery_row (str_or rid fresh2) t = Some r"
    using assms by (auto simp: write_recovery_phase_def Let_def res_bind_Inr from_option_Inr insert_recovery_ok)
  note r' = recoveries.insert_Some(3) [OF t, simplified, unfolded r, simplified]
  show "recovery_write b f r db db'" "recovery_phase r = phase" "recovery_id r = str_or rid fresh2"
    "recovery_reason r = reason" "recovery_payload r = payload"
    using t db' r' by (auto simp: recovery_write_def)
qed

lemma handoff_write:
  assumes "record_recovery_takeover_handoff H row lease fresh now db = Inr db'"
  shows "recovery_write (batch_id row) (set_batch_authority H lease now)
    (handoff_record row lease fresh now db) db db'"
  using assms by (auto simp: handoff_ok recovery_write_def handoff_record_def)

lemma recovery_write_writes:
  assumes "recovery_write b f r db db'" and "batch_row b (batch_table db) = Some row"
    and "may_write lease (f row)" and f: "\<And>r. batch_id (f r) = batch_id r"
    and "batch_write lease b db (update_batch b f db)"
  shows "(batch_write lease b)\<^sup>*\<^sup>* db db'"
proof -
  obtain t where t: "sql_insert recovery_clash r (recovery_table db) = Some t"
    and db': "db' = (update_batch b f db)\<lparr>recovery_table := t\<rparr>"
    and r: "recovery_batch_id r = b" "recovery_sequence r = next_sequence b db"
    using assms(1) by (auto simp: recovery_write_def)
  have "batch_row b (batch_table (update_batch b f db)) = Some (f row)"
    using batch_row_update [of f b b db, OF f] assms(2) batch_row_in [OF assms(2)] by simp
  then have "batch_write lease b (update_batch b f db) db'"
    unfolding db' by (rule write_recovery [OF _ assms(3)]) (use t r in simp_all)
  with assms(5) show ?thesis by (meson converse_rtranclp_into_rtranclp r_into_rtranclp)
qed

lemma recovery_write_row:
  assumes "recovery_write b f r db db'" and "\<And>r. batch_id (f r) = batch_id r"
  shows "batch_row b' (batch_table db') = map_option (\<lambda>x. if batch_id x = b then f x else x) (batch_row b' (batch_table db))"
    "batch_table db' = map (\<lambda>x. if batch_id x = b then f x else x) (batch_table db)"
    "recovery_table db' = recovery_table db @ [r]" "recovery_batch_id r = b"
    "recovery_action_table db' = recovery_action_table db" "artifact_cleanup_table db' = artifact_cleanup_table db"
    "lease_table db' = lease_table db"
  using assms(1) batch_row_update [of f b' b db, OF assms(2)]
  by (auto simp: recovery_write_def sql_insert_Some update_batch_def sql_update_def)

text \<open>
  The phase changes that are open to the worker whose lease the batch is bound to, to a worker
  with a newer lease of the same name, and to a worker that has lost its lease.
\<close>

definition own_edge :: "batch_phase \<Rightarrow> batch_phase \<Rightarrow> bool" where
  "own_edge p q \<longleftrightarrow> q \<in> valid_transitions p \<or> p = SUCCEEDED \<and> q = RECOVERY_DESIRED"

definition takeover_edge :: "batch_phase \<Rightarrow> batch_phase \<Rightarrow> bool" where
  "takeover_edge p q \<longleftrightarrow> p = PLANNED \<and> q = ATTEMPTING \<or> p = RECOVERY_DESIRED \<and> q = RECOVERING
     \<or> p \<in> {PLANNED, ATTEMPTING, FAILED, RECOVERING, RECOVERY_FAILED} \<and> q = RECOVERY_DESIRED"

definition lost_edge :: "batch_phase \<Rightarrow> batch_phase \<Rightarrow> bool" where
  "lost_edge p q \<longleftrightarrow> p \<in> {ATTEMPTING, FAILED, RECOVERY_FAILED} \<and> q = RECOVERY_DESIRED"

definition call_edge :: "'a journal_db_scheme \<Rightarrow> lease_record \<Rightarrow> time \<Rightarrow> batch_entry \<Rightarrow> batch_phase \<Rightarrow> bool" where
  "call_edge db lease now row q \<longleftrightarrow>
     (if lease_is_current db lease now
      then if batch_lease_fencing_token row = lease_fencing_token lease
           then own_edge (batch_phase row) q else takeover_edge (batch_phase row) q
      else batch_lease_fencing_token row = lease_fencing_token lease \<and> lost_edge (batch_phase row) q)"

definition phase_call ::
  "lease_record \<Rightarrow> time \<Rightarrow> string \<Rightarrow> batch_entry \<Rightarrow> recovery_record \<Rightarrow> 'a journal_db_scheme \<Rightarrow> 'a journal_db_scheme \<Rightarrow> bool" where
  "phase_call lease now b row r db db' \<longleftrightarrow>
     batch_row b (batch_table db) = Some row \<and> may_write lease row
   \<and> call_edge db lease now row (recovery_phase r) \<and> recovery_phase r \<in> recovery_phases
   \<and> last_recovery b db' = Some r \<and> (batch_write lease b)\<^sup>*\<^sup>* db db'
   \<and> (\<exists>row'. batch_row b (batch_table db') = Some row' \<and> batch_phase row' = recovery_phase r
        \<and> batch_lease_fencing_token row' =
            (if lease_is_current db lease now then lease_fencing_token lease else batch_lease_fencing_token row))
   \<and> recovery_action_table db' = recovery_action_table db
   \<and> artifact_cleanup_table db' = artifact_cleanup_table db"

lemma last_recovery_append:
  "recovery_table db' = recovery_table db @ [r] \<Longrightarrow> recovery_batch_id r = b \<Longrightarrow> last_recovery b db' = Some r"
  by (simp add: last_recovery_def)

text \<open>
  A recovery write, after the writes that precede it in the call, is a phase call if its update
  sets the phase of the record.
\<close>

lemma phase_callI:
  assumes "(batch_write lease b)\<^sup>*\<^sup>* db db1" and "recovery_write b f r db1 db'"
    and "batch_row b (batch_table db) = Some row" and "batch_row b (batch_table db1) = Some row1"
    and f: "\<And>r. batch_id (f r) = batch_id r" "batch_phase (f row1) = recovery_phase r"
    "batch_lease_fencing_token (f row1) =
       (if lease_is_current db lease now then lease_fencing_token lease else batch_lease_fencing_token row)"
    "batch_lease_name (f row1) = batch_lease_name row"
    and "may_write lease row" and "call_edge db lease now row (recovery_phase r)"
    and "recovery_phase r \<in> recovery_phases"
    and "batch_write lease b db1 (update_batch b f db1)"
    and "recovery_action_table db1 = recovery_action_table db"
    and "artifact_cleanup_table db1 = artifact_cleanup_table db"
  shows "phase_call lease now b row r db db'"
proof -
  note row = recovery_write_row [OF assms(2) f(1)]
  have may: "may_write lease (f row1)" using assms(9) f(3,4) by (simp add: may_write_def)
  have "batch_row b (batch_table db') = Some (f row1)"
    using row(1) [of b] assms(4) batch_row_in [OF assms(4)] by simp
  moreover have "(batch_write lease b)\<^sup>*\<^sup>* db db'"
    using assms(1) recovery_write_writes [OF assms(2,4) may f(1) assms(12)] by (rule rtranclp_trans)
  ultimately show ?thesis
    unfolding phase_call_def
    using assms(3,9-11,13,14) row(5,6) last_recovery_append [OF row(3,4)] f(2,3) by simp
qed

lemma recovery_guard_ok:
  assumes "require_batch_for_recovery_write H b lease phase fresh now db = Inr (db1, row1, took)"
  obtains row where "lease_is_current db lease now" "batch_row b (batch_table db) = Some row"
    "batch_lease_name row = lease_name lease"
    "if took then
       batch_lease_fencing_token row < lease_fencing_token lease
       \<and> (phase \<in> {RECOVERING, RECOVERY_SUCCEEDED, RECOVERY_FAILED} \<and> batch_phase row = RECOVERY_DESIRED
          \<or> phase = RECOVERY_DESIRED \<and> batch_phase row \<in> {FAILED, RECOVERING, RECOVERY_FAILED})
       \<and> recovery_write b (set_batch_authority H lease now) (handoff_record row lease fresh now db) db db1
       \<and> row1 = set_batch_authority H lease now row
     else batch_lease_fencing_token row = lease_fencing_token lease \<and> db1 = db \<and> row1 = row"
proof -
  obtain row where row: "lease_is_current db lease now" "batch_row b (batch_table db) = Some row"
    "batch_lease_name row = lease_name lease"
    and or: "batch_lease_fencing_token row = lease_fencing_token lease \<and> db1 = db \<and> row1 = row \<and> \<not> took
      \<or> batch_lease_fencing_token row < lease_fencing_token lease
        \<and> (phase \<in> {RECOVERING, RECOVERY_SUCCEEDED, RECOVERY_FAILED} \<and> batch_phase row = RECOVERY_DESIRED
          \<or> phase = RECOVERY_DESIRED \<and> batch_phase row \<in> {FAILED, RECOVERING, RECOVERY_FAILED})
        \<and> record_recovery_takeover_handoff H row lease fresh now db = Inr db1
        \<and> batch_row b (batch_table db1) = Some row1 \<and> took"
    using assms
    by (auto simp: require_batch_for_recovery_write_def res_bind_Inr from_option_Inr current_lease_ok
        split: if_splits)
  show ?thesis
  proof (cases took)
    case True
    with or have w: "recovery_write b (set_batch_authority H lease now) (handoff_record row lease fresh now db) db db1"
      using handoff_write batch_row_in [OF row(2)] by blast
    then have "row1 = set_batch_authority H lease now row"
      using recovery_write_row(1) [OF w, of b] or True row(2) batch_row_in [OF row(2)] by simp
    with row or w True show ?thesis by (intro that [of row]) auto
  next
    case False
    with row or show ?thesis by (intro that [of row]) auto
  qed
qed

text \<open>The part that \<open>record_recovery_phase\<close> and \<open>start_recovery\<close> share: guard, then recovery write.\<close>

lemma guarded_phase_call:
  assumes "base_wf db"
    and "require_batch_for_recovery_write H b lease phase fresh now db = Inr (db1, row1, took)"
    and "recovery_write b (set_batch_status phase m v now) r db1 db'" and "recovery_phase r = phase"
    and "took \<and> batch_phase row1 = RECOVERING \<and> phase = RECOVERY_DESIRED
      \<or> batch_phase row1 = SUCCEEDED \<and> phase = RECOVERY_DESIRED \<or> phase \<in> valid_transitions (batch_phase row1)"
    and "phase \<in> recovery_phases"
  obtains row where "phase_call lease now b row r db db'" "lease_is_current db lease now"
    "\<not> took \<Longrightarrow> db1 = db \<and> batch_lease_fencing_token row = lease_fencing_token lease"
    "took \<Longrightarrow> phase \<in> {RECOVERY_DESIRED, RECOVERING}"
  using assms(2)
proof (cases rule: recovery_guard_ok)
  case (1 row)
  let ?f = "set_batch_status phase m v now"
  have may: "may_write lease row" by (rule current_may_write [OF assms(1) 1(1-3)])
  show ?thesis
  proof (cases took)
    case False
    with 1(4) have same: "batch_lease_fencing_token row = lease_fencing_token lease" "db1 = db" "row1 = row"
      by simp_all
    have "phase_call lease now b row r db db'"
      by (rule phase_callI [OF rtranclp.rtrancl_refl assms(3) [unfolded same] 1(2) 1(2)])
        (use assms(4-6) 1 False same may write_status [OF assms(1) 1(2) may] in
          \<open>auto simp: call_edge_def own_edge_def\<close>)
    with 1 same False show ?thesis by (intro that) simp_all
  next
    case True
    let ?h = "handoff_record row lease fresh now db" and ?a = "set_batch_authority H lease now"
    from True 1(4) have less: "batch_lease_fencing_token row < lease_fencing_token lease"
      and edge: "phase \<in> {RECOVERING, RECOVERY_SUCCEEDED, RECOVERY_FAILED} \<and> batch_phase row = RECOVERY_DESIRED
          \<or> phase = RECOVERY_DESIRED \<and> batch_phase row \<in> {FAILED, RECOVERING, RECOVERY_FAILED}"
      and w: "recovery_write b ?a ?h db db1" and row1: "row1 = ?a row" by simp_all
    have r1: "batch_row b (batch_table db1) = Some row1"
      using recovery_write_row(1) [OF w, of b] 1(2) batch_row_in [OF 1(2)] by (simp add: row1)
    have may1: "may_write lease row1" using 1(3) by (simp add: may_write_def row1)
    have w1: "(batch_write lease b)\<^sup>*\<^sup>* db db1"
      using write_authority [OF assms(1) 1(2) may 1(1), of ?a] may1
      by (intro recovery_write_writes [OF w 1(2)]) (simp_all add: row1)
    have q: "phase \<in> {RECOVERY_DESIRED, RECOVERING}"
      using assms(5) edge by (auto simp: row1)
    have "phase_call lease now b row r db db'"
      by (rule phase_callI [OF w1 assms(3) 1(2) r1])
        (use assms(4-6) 1 True edge less may recovery_write_row(5,6) [OF w]
          write_status [OF call_base_wf [OF w1 assms(1)] r1 may1] in
          \<open>auto simp: call_edge_def takeover_edge_def row1\<close>)
    with 1(1) q True show ?thesis by (intro that) simp_all
  qed
qed

lemma record_recovery_phase_ok:
  assumes "base_wf db" and "phase \<in> {RECOVERY_DESIRED, RECOVERY_SUCCEEDED, RECOVERY_FAILED}"
    and "record_recovery_phase H b lease phase attempt reason payload rid fresh fresh2 now db = Inr (db', r)"
  obtains row where "phase_call lease now b row r db db'" "recovery_phase r = phase" "lease_is_current db lease now"
    "phase \<in> {RECOVERY_SUCCEEDED, RECOVERY_FAILED} \<Longrightarrow>
      \<exists>x. last_recovery b db = Some x \<and> recovery_phase x = RECOVERING \<and> attempt = Some (recovery_id x) \<and> recovery_id x \<noteq> []
        \<and> batch_lease_fencing_token row = lease_fencing_token lease"
proof -
  obtain db1 row1 took where g: "require_batch_for_recovery_write H b lease phase fresh now db = Inr (db1, row1, took)"
    and e: "took \<and> batch_phase row1 = RECOVERING \<and> phase = RECOVERY_DESIRED
      \<or> batch_phase row1 = SUCCEEDED \<and> phase = RECOVERY_DESIRED \<or> phase \<in> valid_transitions (batch_phase row1)"
    and att: "phase \<in> {RECOVERY_SUCCEEDED, RECOVERY_FAILED} \<Longrightarrow>
      \<exists>x. require_active_recovery_attempt b attempt db1 = Inr x"
    and w: "write_recovery_phase b (set_batch_status phase reason (payload_to_json payload) now)
      phase reason (payload_to_json payload) rid fresh2 now db1 = Inr (db', r)"
    using assms(3) unfolding record_recovery_phase_def
    by (auto simp: res_bind_Inr valid_transition_ok split: if_splits)
  note w' = write_recovery_phase_ok [OF w]
  have rp: "phase \<in> recovery_phases" using assms(2) by (auto simp: recovery_phases_def)
  obtain row where row: "phase_call lease now b row r db db'" "lease_is_current db lease now"
    "\<not> took \<Longrightarrow> db1 = db \<and> batch_lease_fencing_token row = lease_fencing_token lease"
    "took \<Longrightarrow> phase \<in> {RECOVERY_DESIRED, RECOVERING}"
    by (rule guarded_phase_call [OF assms(1) g w'(1,2) e rp]) blast
  have att': "\<exists>x. last_recovery b db = Some x \<and> recovery_phase x = RECOVERING \<and> attempt = Some (recovery_id x) \<and> recovery_id x \<noteq> []
        \<and> batch_lease_fencing_token row = lease_fencing_token lease"
    if q: "phase \<in> {RECOVERY_SUCCEEDED, RECOVERY_FAILED}"
  proof -
    have "\<not> took" using q row(4) by auto
    with row(3) have same: "db1 = db" "batch_lease_fencing_token row = lease_fencing_token lease" by simp_all
    obtain x where "require_active_recovery_attempt b attempt db = Inr x" using att [OF q] same by auto
    with same(2) show ?thesis using active_attempt_ok [OF base_wf_parts(3) [OF assms(1)]] by blast
  qed
  show ?thesis by (rule that [OF row(1) w'(2) row(2)]) (rule att')
qed

lemma start_recovery_ok:
  assumes "base_wf db"
    and "start_recovery H b lease reason payload rid fresh fresh2 now db = Inr (db', rec, r)"
  obtains row u where "phase_call lease now b row r db db'" "recovery_phase r = RECOVERING"
    "recovery_id r = str_or rid fresh2" "lease_is_current db lease now"
    "batch_row b (batch_table db') = Some u" "rec = batch_from_row u"
proof -
  obtain db1 row1 took u where g: "require_batch_for_recovery_write H b lease RECOVERING fresh now db = Inr (db1, row1, took)"
    and e: "RECOVERING \<in> valid_transitions (batch_phase row1)"
    and w: "write_recovery_phase b (set_batch_status RECOVERING reason (payload_to_json payload) now)
      RECOVERING reason (payload_to_json payload) rid fresh2 now db1 = Inr (db', r)"
    and u: "batch_row b (batch_table db') = Some u" "rec = batch_from_row u"
    using assms(2) unfolding start_recovery_def
    by (auto simp: res_bind_Inr from_option_Inr valid_transition_ok)
  note w' = write_recovery_phase_ok [OF w]
  show ?thesis
    by (rule guarded_phase_call [OF assms(1) g w'(1,2)])
      (use e that w' u in \<open>auto simp: recovery_phases_def\<close>)
qed

lemma recovery_takeover_ok [res_simps]:
  "require_recovery_takeover row lease rk db = Inr u \<longleftrightarrow>
     batch_phase row \<in> {PLANNED, ATTEMPTING, FAILED, RECOVERY_FAILED}
     \<and> batch_lease_name row = lease_name lease
     \<and> batch_lease_fencing_token row < lease_fencing_token lease
     \<and> (batch_resource_key row = None \<or> rk = batch_resource_key row)
     \<and> (batch_phase row = PLANNED \<longrightarrow> batch_has_journal_records (batch_id row) db)"
  by (auto simp: require_recovery_takeover_def)

lemma interrupted_ok:
  assumes "base_wf db"
    and "record_interrupted_recovery_desired H b lease rk reason payload rid fresh2 now db = Inr (db', r)"
  obtains row where "phase_call lease now b row r db db'" "recovery_phase r = RECOVERY_DESIRED"
    "lease_is_current db lease now" "batch_lease_fencing_token row < lease_fencing_token lease"
    "batch_phase row = PLANNED \<Longrightarrow> batch_has_journal_records b db"
proof -
  let ?f = "\<lambda>r. set_batch_status RECOVERY_DESIRED reason (payload_to_json payload) now
             (set_batch_authority H lease now r)"
  obtain row where row: "lease_is_current db lease now" "batch_row b (batch_table db) = Some row"
    "batch_lease_name row = lease_name lease" "batch_lease_fencing_token row < lease_fencing_token lease"
    "batch_phase row \<in> {PLANNED, ATTEMPTING, FAILED, RECOVERY_FAILED}"
    "batch_phase row = PLANNED \<longrightarrow> batch_has_journal_records (batch_id row) db"
    and w: "write_recovery_phase b ?f RECOVERY_DESIRED reason (payload_to_json payload) rid fresh2 now db = Inr (db', r)"
    using assms(2) unfolding record_interrupted_recovery_desired_def
    by (auto simp: res_bind_Inr from_option_Inr current_lease_ok recovery_takeover_ok)
  note w' = write_recovery_phase_ok [OF w]
  have may: "may_write lease row" by (rule current_may_write [OF assms(1) row(1-3)])
  have "phase_call lease now b row r db db'"
    by (rule phase_callI [OF rtranclp.rtrancl_refl w'(1) row(2) row(2)])
      (use w' row may write_authority [OF assms(1) row(2) may row(1), of ?f] in
        \<open>auto simp: call_edge_def takeover_edge_def recovery_phases_def\<close>)
  with w'(2) row batch_row_in [OF row(2)] show ?thesis by (intro that) auto
qed

lemma lease_lost_marker_ok [res_simps]:
  "require_lease_lost_recovery_marker H row lease rk = Inr u \<longleftrightarrow>
     batch_lease_name row = lease_name lease
     \<and> batch_lease_fencing_token row = lease_fencing_token lease \<and> lease_token lease \<noteq> []
     \<and> batch_lease_owner row = Some (lease_owner lease)
     \<and> batch_lease_token_digest row = Some (lease_token_digest H lease)
     \<and> (batch_resource_key row = None \<or> rk = batch_resource_key row)
     \<and> batch_phase row \<in> {ATTEMPTING, FAILED, RECOVERY_FAILED}"
  by (auto simp: require_lease_lost_recovery_marker_def)

lemma lease_lost_ok:
  assumes "base_wf db"
    and "record_lease_lost_recovery_desired H b lease rk reason payload rid fresh2 now db = Inr (db', r)"
  obtains row where "phase_call lease now b row r db db'" "recovery_phase r = RECOVERY_DESIRED"
    "\<not> lease_is_current db lease now" "batch_lease_owner row = Some (lease_owner lease)"
    "batch_lease_token_digest row = Some (lease_token_digest H lease)"
proof -
  let ?f = "set_batch_status RECOVERY_DESIRED reason (payload_to_json payload) now"
  obtain row where row: "\<not> lease_is_current db lease now" "batch_row b (batch_table db) = Some row"
    "batch_lease_name row = lease_name lease" "batch_lease_fencing_token row = lease_fencing_token lease"
    "batch_phase row \<in> {ATTEMPTING, FAILED, RECOVERY_FAILED}" "batch_lease_owner row = Some (lease_owner lease)"
    "batch_lease_token_digest row = Some (lease_token_digest H lease)"
    and w: "write_recovery_phase b ?f RECOVERY_DESIRED reason (payload_to_json payload) rid fresh2 now db = Inr (db', r)"
    using assms(2) unfolding record_lease_lost_recovery_desired_def
    by (auto simp: res_bind_Inr from_option_Inr current_lease_ok lease_lost_marker_ok split: if_splits)
  note w' = write_recovery_phase_ok [OF w]
  have may: "may_write lease row" using row(3,4) by (simp add: may_write_def)
  have "phase_call lease now b row r db db'"
    by (rule phase_callI [OF rtranclp.rtrancl_refl w'(1) row(2) row(2)])
      (use w' row may write_status [OF assms(1) row(2) may] in
        \<open>auto simp: call_edge_def lost_edge_def recovery_phases_def\<close>)
  with w'(2) row show ?thesis by (intro that) auto
qed

subsection \<open>Recovery actions and artifact cleanups\<close>

lemma record_recovery_action_ok:
  assumes "base_wf db"
    and "record_recovery_action H b lease attempt status type rk reason payload aid arid fresh fresh2 fresh3 now db
      = Inr (db', r)"
  obtains row x t existing where "lease_is_current db lease now" "batch_row b (batch_table db) = Some row"
    "batch_lease_name row = lease_name lease" "batch_lease_fencing_token row = lease_fencing_token lease"
    "batch_phase row = RECOVERING" "last_recovery b db = Some x" "recovery_phase x = RECOVERING"
    "recovery_id x = attempt" "recovery_row attempt (recovery_table db) = Some x"
    "prepare_recovery_action_write b attempt status aid type rk db = Inr existing"
    "sql_insert recovery_action_clash r (recovery_action_table db) = Some t"
    "db' = db\<lparr>recovery_action_table := t\<rparr>" "action_batch_id r = b" "action_sequence r = next_sequence b db"
    "action_recovery_attempt_id r = attempt" "action_status r = status"
    "action_id r = (case existing of Some e \<Rightarrow> action_id e | None \<Rightarrow> str_or aid fresh2)"
    "action_type r = (case existing of Some e \<Rightarrow> action_type e | None \<Rightarrow> the type)"
    "action_resource_key r = (case existing of Some e \<Rightarrow> action_resource_key e | None \<Rightarrow> rk)"
proof -
  have log: "log_wf db" using assms(1) by (rule base_wf_parts)
  obtain db1 row x existing where g: "require_batch_for_recovery_action_write H b lease fresh now db = Inr (db1, row)"
    and at: "require_active_recovery_attempt b (Some attempt) db1 = Inr x"
    and ex: "prepare_recovery_action_write b attempt status aid type rk db1 = Inr existing"
    and rest: "\<exists>t. sql_insert recovery_action_clash
        \<lparr>action_record_id = str_or arid fresh3,
         action_id = (case existing of Some e \<Rightarrow> action_id e | None \<Rightarrow> str_or aid fresh2),
         action_recovery_attempt_id = recovery_id x, action_batch_id = b,
         action_sequence = next_sequence b db1,
         action_type = (case existing of Some e \<Rightarrow> action_type e | None \<Rightarrow> the type), action_status = status,
         action_resource_key = (case existing of Some e \<Rightarrow> action_resource_key e | None \<Rightarrow> rk),
         action_reason = reason, action_payload = payload_to_json payload, action_created_at = now\<rparr>
        (recovery_action_table db1) = Some t
      \<and> recovery_action_row (str_or arid fresh3) t = Some r \<and> db' = db1\<lparr>recovery_action_table := t\<rparr>"
    using assms(2) unfolding record_recovery_action_def Let_def
    by (auto simp: res_bind_Inr from_option_Inr split: if_splits)
  note a = action_write_ok [OF log g at]
  from rest obtain t where t: "sql_insert recovery_action_clash
        \<lparr>action_record_id = str_or arid fresh3,
         action_id = (case existing of Some e \<Rightarrow> action_id e | None \<Rightarrow> str_or aid fresh2),
         action_recovery_attempt_id = recovery_id x, action_batch_id = b,
         action_sequence = next_sequence b db,
         action_type = (case existing of Some e \<Rightarrow> action_type e | None \<Rightarrow> the type), action_status = status,
         action_resource_key = (case existing of Some e \<Rightarrow> action_resource_key e | None \<Rightarrow> rk),
         action_reason = reason, action_payload = payload_to_json payload, action_created_at = now\<rparr>
        (recovery_action_table db) = Some t"
    and r: "recovery_action_row (str_or arid fresh3) t = Some r" and db': "db' = db\<lparr>recovery_action_table := t\<rparr>"
    using a(1) by auto
  note r' = actions.insert_Some(3) [OF t, simplified, unfolded r, simplified]
  have "x \<in> set (recovery_table db)" using a(7) last_of_Some [of _ _ x] by (auto simp: last_recovery_def)
  then have "recovery_row attempt (recovery_table db) = Some x"
    using recoveries.get_row_unique [OF log_wf_parts(7) [OF log]] a(9) by simp
  with a ex t db' r' show ?thesis by (intro that [of row x existing t]) simp_all
qed

lemma record_recovery_action_write:
  assumes "base_wf db"
    and "record_recovery_action H b lease attempt status type rk reason payload aid arid fresh fresh2 fresh3 now db
      = Inr (db', r)"
  shows "(batch_write lease b)\<^sup>*\<^sup>* db db'"
  using assms
proof (cases rule: record_recovery_action_ok)
  case (1 row x t existing)
  have may: "may_write lease row" using 1 by (simp add: may_write_def)
  have "x \<in> set (recovery_table db)" "recovery_batch_id x = b"
    using 1(6) last_of_Some [of _ _ x] by (auto simp: last_recovery_def)
  then have "batch_write lease b db db'"
    unfolding 1(12) by (intro write_action [OF 1(2) may 1(11,13,14)]) (use 1(7,8,15) in auto)
  then show ?thesis by simp
qed

lemma cleanup_guard_ok [res_simps]:
  "require_batch_for_artifact_cleanup_write b lease now db = Inr row \<longleftrightarrow>
     lease_is_current db lease now \<and> batch_row b (batch_table db) = Some row
     \<and> batch_lease_name row = lease_name lease
     \<and> (batch_lease_fencing_token row = lease_fencing_token lease
        \<or> batch_lease_fencing_token row < lease_fencing_token lease
          \<and> batch_phase row \<in> {SUCCEEDED, RECOVERY_SUCCEEDED})"
  by (auto simp: require_batch_for_artifact_cleanup_write_def res_bind_Inr from_option_Inr
      current_lease_ok split: if_splits)

lemma record_artifact_cleanup_ok:
  assumes "record_artifact_cleanup b lease artifact status trigger rk reason payload cid fresh now db = Inr (db', r)"
  obtains row t existing where "lease_is_current db lease now" "batch_row b (batch_table db) = Some row"
    "batch_lease_name row = lease_name lease"
    "batch_lease_fencing_token row = lease_fencing_token lease
      \<or> batch_lease_fencing_token row < lease_fencing_token lease \<and> batch_phase row \<in> {SUCCEEDED, RECOVERY_SUCCEEDED}"
    "prepare_artifact_cleanup_write b artifact status trigger rk db = Inr existing"
    "status = CLEANUP_PLANNED \<Longrightarrow> batch_phase_by_trigger (cleanup_trigger r) = Some (batch_phase row)"
    "sql_insert artifact_cleanup_clash r (artifact_cleanup_table db) = Some t"
    "db' = db\<lparr>artifact_cleanup_table := t\<rparr>" "cleanup_batch_id r = b" "cleanup_artifact_id r = artifact"
    "cleanup_sequence r = next_sequence b db" "cleanup_status r = status"
proof -
  obtain row existing u where row: "lease_is_current db lease now" "batch_row b (batch_table db) = Some row"
    "batch_lease_name row = lease_name lease"
    "batch_lease_fencing_token row = lease_fencing_token lease
      \<or> batch_lease_fencing_token row < lease_fencing_token lease \<and> batch_phase row \<in> {SUCCEEDED, RECOVERY_SUCCEEDED}"
    and ex: "prepare_artifact_cleanup_write b artifact status trigger rk db = Inr existing"
    and tr0: "require_batch_phase_for_trigger row (case existing of None \<Rightarrow> the trigger
        | Some e \<Rightarrow> if status = CLEANUP_PLANNED \<and> cleanup_status e \<in> artifact_cleanup_retryable_statuses
                    then the trigger else cleanup_trigger e) status = Inr u"
    and rest0: "\<exists>t. sql_insert artifact_cleanup_clash
        \<lparr>cleanup_record_id = str_or cid fresh, cleanup_artifact_id = artifact, cleanup_batch_id = b,
         cleanup_sequence = next_sequence b db, cleanup_trigger = (case existing of None \<Rightarrow> the trigger
        | Some e \<Rightarrow> if status = CLEANUP_PLANNED \<and> cleanup_status e \<in> artifact_cleanup_retryable_statuses
                    then the trigger else cleanup_trigger e), cleanup_status = status,
         cleanup_resource_key = (case existing of Some e \<Rightarrow> cleanup_resource_key e | None \<Rightarrow> rk),
         cleanup_reason = reason, cleanup_payload = payload_to_json payload,
         cleanup_created_at = now\<rparr> (artifact_cleanup_table db) = Some t
      \<and> artifact_cleanup_row (str_or cid fresh) t = Some r \<and> db' = db\<lparr>artifact_cleanup_table := t\<rparr>"
    using assms unfolding record_artifact_cleanup_def Let_def res_bind_Inr from_option_Inr cleanup_guard_ok
      sum.inject prod.inject
    by (elim exE conjE, hypsubst) (rule that; (assumption | rule exI conjI refl)+)
  define tr k where tr_def: "tr = (case existing of None \<Rightarrow> the trigger
        | Some e \<Rightarrow> if status = CLEANUP_PLANNED \<and> cleanup_status e \<in> artifact_cleanup_retryable_statuses
                    then the trigger else cleanup_trigger e)"
    and k_def: "k = (case existing of Some e \<Rightarrow> cleanup_resource_key e | None \<Rightarrow> rk)"
  note tr = tr0 [folded tr_def] and rest = rest0 [folded tr_def k_def]
  from rest obtain t where t: "sql_insert artifact_cleanup_clash
        \<lparr>cleanup_record_id = str_or cid fresh, cleanup_artifact_id = artifact, cleanup_batch_id = b,
         cleanup_sequence = next_sequence b db, cleanup_trigger = tr, cleanup_status = status,
         cleanup_resource_key = k, cleanup_reason = reason, cleanup_payload = payload_to_json payload,
         cleanup_created_at = now\<rparr> (artifact_cleanup_table db) = Some t"
    and r: "artifact_cleanup_row (str_or cid fresh) t = Some r" and db': "db' = db\<lparr>artifact_cleanup_table := t\<rparr>"
    by auto
  note r' = cleanups.insert_Some(3) [OF t, simplified, unfolded r, simplified]
  have "batch_phase_by_trigger tr = Some (batch_phase row)" if "status = CLEANUP_PLANNED"
    using tr that by (auto simp: require_batch_phase_for_trigger_def res_simps split: option.splits)
  with row ex t db' r' show ?thesis by (intro that [of row existing t]) simp_all
qed

lemma record_artifact_cleanup_write:
  assumes "record_artifact_cleanup b lease artifact status trigger rk reason payload cid fresh now db = Inr (db', r)"
  shows "(batch_write lease b)\<^sup>*\<^sup>* db db'"
  using assms
proof (cases rule: record_artifact_cleanup_ok)
  case (1 row t existing)
  have "may_write lease row" using 1 by (auto simp: may_write_def)
  then have "batch_write lease b db db'"
    unfolding 1(8) by (rule write_cleanup [OF 1(2) _ 1(7,9,11)])
  then show ?thesis by simp
qed

end
