(* ===== verification/Run_Status.thy ===== *)
theory Run_Status
  imports Journal_Writes
begin

section \<open>What a call does to operation runs\<close>

text \<open>
  One call on operation runs or phases, seen from the tables: existing runs and phases keep all
  but their status, and a status changes only along the edges open to the lease: the lease the
  run is bound to may end an active run, a newer lease of the same name may only record that it
  failed, or that its finalization failed.
\<close>

definition may_run :: "lease_record \<Rightarrow> operation_run_record \<Rightarrow> bool" where
  "may_run l r \<longleftrightarrow> run_lease_name r = lease_name l \<and> run_lease_fencing_token r \<le> lease_fencing_token l"

definition run_edge :: "bool \<Rightarrow> string \<Rightarrow> string \<Rightarrow> bool" where
  "run_edge own s s' \<longleftrightarrow> own \<and> s = ''active'' \<and> s' \<in> {''succeeded'', ''failed'', ''finalization_failed''}
     \<or> s = ''active'' \<and> s' = ''failed''
     \<or> s \<in> {''active'', ''succeeded''} \<and> s' = ''finalization_failed''"

definition own_run :: "lease_record \<Rightarrow> operation_run_record \<Rightarrow> bool" where
  "own_run l r \<longleftrightarrow> run_lease_fencing_token r = lease_fencing_token l"

definition run_change :: "lease_record \<Rightarrow> operation_run_record \<Rightarrow> operation_run_record \<Rightarrow> bool" where
  "run_change l r r' \<longleftrightarrow> r' = r \<or> may_run l r \<and> run_edge (own_run l r) (run_status r) (run_status r')
     \<and> (\<exists>s u. r' = r\<lparr>run_status := s, run_updated_at := u\<rparr>)"

definition phase_change ::
  "lease_record \<Rightarrow> operation_run_record list \<Rightarrow> operation_phase_record \<Rightarrow> operation_phase_record \<Rightarrow> bool" where
  "phase_change l t r r' \<longleftrightarrow> r' = r \<or> (\<exists>run. operation_run_row (phase_operation_run_id r) t = Some run
     \<and> may_run l run \<and> run_edge (own_run l run) (phase_status r) (phase_status r'))
     \<and> (\<exists>s u. r' = r\<lparr>phase_status := s, phase_updated_at := u\<rparr>)"

definition runs_write :: "lease_record \<Rightarrow> 'a journal_db_scheme \<Rightarrow> 'a journal_db_scheme \<Rightarrow> bool" where
  "runs_write l db db' \<longleftrightarrow> (\<exists>t p. db' = db\<lparr>operation_run_table := t, operation_phase_table := p\<rparr>
     \<and> (\<forall>i r. operation_run_row i (operation_run_table db) = Some r \<longrightarrow>
          (\<exists>r'. operation_run_row i t = Some r' \<and> run_change l r r'))
     \<and> (\<forall>i r. operation_phase_row i (operation_phase_table db) = Some r \<longrightarrow>
          (\<exists>r'. operation_phase_row i p = Some r' \<and> phase_change l (operation_run_table db) r r')))"

lemma run_change_refl [simp]: "run_change l r r" "phase_change l t p p"
  by (simp_all add: run_change_def phase_change_def)

lemma runs_write_refl: "runs_write l db db"
  unfolding runs_write_def
  by (intro exI [of _ "operation_run_table db"] exI [of _ "operation_phase_table db"]) simp

lemma runs_write_run:
  assumes "\<And>i r. operation_run_row i (operation_run_table db) = Some r
    \<Longrightarrow> \<exists>r'. operation_run_row i t = Some r' \<and> run_change l r r'"
  shows "runs_write l db (db\<lparr>operation_run_table := t\<rparr>)"
  unfolding runs_write_def
  by (intro exI [of _ t] exI [of _ "operation_phase_table db"]) (simp add: assms)

lemma runs_write_phase:
  assumes "\<And>i r. operation_phase_row i (operation_phase_table db) = Some r
    \<Longrightarrow> \<exists>r'. operation_phase_row i p = Some r' \<and> phase_change l (operation_run_table db) r r'"
  shows "runs_write l db (db\<lparr>operation_phase_table := p\<rparr>)"
  unfolding runs_write_def
  by (intro exI [of _ "operation_run_table db"] exI [of _ p]) (simp add: assms)

lemma write_run_status_write:
  assumes "write_run_status row run status now db = Inr (db', r)"
    and "operation_run_row run (operation_run_table db) = Some row"
    and "may_run l row" and "run_status row = status \<or> run_edge (own_run l row) (run_status row) status"
  shows "runs_write l db db'"
proof (cases "run_status row = status")
  case True
  then show ?thesis using assms(1) by (simp add: write_run_status_def runs_write_refl)
next
  case False
  let ?f = "\<lambda>r. r\<lparr>run_status := status, run_updated_at := now\<rparr>"
  have db': "db' = db\<lparr>operation_run_table := fst (sql_update (\<lambda>r. run_operation_run_id r = run) ?f (operation_run_table db))\<rparr>"
    using assms(1) False by (auto simp: write_run_status_def Let_def res_bind_Inr)
  show ?thesis
    unfolding db'
  proof (rule runs_write_run)
    fix i r
    assume r: "operation_run_row i (operation_run_table db) = Some r"
    have "run_change l r (if run_operation_run_id r = run then ?f r else r)"
      using runs.get_row_Some [OF r] r assms(2-4) False by (auto simp: run_change_def)
    then show "\<exists>r'. operation_run_row i (fst (sql_update (\<lambda>r. run_operation_run_id r = run) ?f (operation_run_table db)))
        = Some r' \<and> run_change l r r'"
      using runs.get_row_update [of ?f i] r by simp
  qed
qed

lemma write_phase_status_write:
  assumes "write_phase_status row phase status now db = Inr (db', r)"
    and "operation_phase_row phase (operation_phase_table db) = Some row"
    and "operation_run_row (phase_operation_run_id row) (operation_run_table db) = Some run"
    and "may_run l run" and "phase_status row = status \<or> run_edge (own_run l run) (phase_status row) status"
  shows "runs_write l db db'"
proof (cases "phase_status row = status")
  case True
  then show ?thesis using assms(1) by (simp add: write_phase_status_def runs_write_refl)
next
  case False
  let ?f = "\<lambda>r. r\<lparr>phase_status := status, phase_updated_at := now\<rparr>"
  have db': "db' = db\<lparr>operation_phase_table := fst (sql_update (\<lambda>r. phase_operation_phase_id r = phase) ?f (operation_phase_table db))\<rparr>"
    using assms(1) False by (auto simp: write_phase_status_def Let_def res_bind_Inr)
  show ?thesis
    unfolding db'
  proof (rule runs_write_phase)
    fix i r
    assume r: "operation_phase_row i (operation_phase_table db) = Some r"
    have "phase_change l (operation_run_table db) r (if phase_operation_phase_id r = phase then ?f r else r)"
      using run_phases.get_row_Some [OF r] r assms(2-5) False by (auto simp: phase_change_def)
    then show "\<exists>r'. operation_phase_row i (fst (sql_update (\<lambda>r. phase_operation_phase_id r = phase) ?f (operation_phase_table db)))
        = Some r' \<and> phase_change l (operation_run_table db) r r'"
      using run_phases.get_row_update [of ?f i] r by simp
  qed
qed

lemma run_for_write_ok:
  "require_operation_run_for_write run l db = Inr row \<longleftrightarrow>
     operation_run_row run (operation_run_table db) = Some row \<and> may_run l row \<and> own_run l row"
  by (auto simp: require_operation_run_for_write_def res_bind_Inr from_option_Inr may_run_def own_run_def split: if_splits)

lemma run_for_diagnostic_ok:
  "require_operation_run_for_terminal_diagnostic run l db = Inr row \<longleftrightarrow>
     operation_run_row run (operation_run_table db) = Some row \<and> may_run l row"
  by (cases "operation_run_row run (operation_run_table db)")
    (auto simp: require_operation_run_for_terminal_diagnostic_def may_run_def)

lemma transition_edges:
  "operation_status_transition s s' \<Longrightarrow> s = s' \<or> run_edge True s s'"
  "terminal_diagnostic_transition s s' \<Longrightarrow> s = s' \<or> run_edge own s s'"
  by (auto simp: operation_status_transition_def terminal_diagnostic_transition_def run_edge_def)

lemma create_run_write:
  assumes "create_operation_run run_id l owner status payload oid fresh now db = Inr (db', r)"
  shows "lease_is_current db l now" "runs_write l db db'"
proof -
  show "lease_is_current db l now"
    using assms by (auto simp: create_operation_run_def res_bind_Inr current_lease_ok)
  have "db' = db \<or> (\<exists>new t. sql_insert operation_run_clash new (operation_run_table db) = Some t
      \<and> db' = db\<lparr>operation_run_table := t\<rparr>)"
    using assms by (auto simp: create_operation_run_def Let_def res_bind_Inr split: option.splits)
  then show "runs_write l db db'"
    by (auto simp: sql_insert_Some runs.get_row_append_kept runs_write_refl intro!: runs_write_run)
qed

lemma create_phase_write:
  assumes "create_operation_phase run l name status order payload pid fresh now db = Inr (db', r)"
  shows "lease_is_current db l now" "runs_write l db db'"
proof -
  show "lease_is_current db l now"
    using assms by (auto simp: create_operation_phase_def res_bind_Inr current_lease_ok)
  have "db' = db \<or> (\<exists>new t. sql_insert operation_phase_clash new (operation_phase_table db) = Some t
      \<and> db' = db\<lparr>operation_phase_table := t\<rparr>)"
    using assms by (auto simp: create_operation_phase_def Let_def res_bind_Inr split: option.splits)
  then show "runs_write l db db'"
    by (auto simp: sql_insert_Some run_phases.get_row_append_kept runs_write_refl intro!: runs_write_phase)
qed

lemma run_calls_write:
  "create_operation_run run_id l owner status payload oid fresh now db = Inr (db', r)
    \<Longrightarrow> lease_is_current db l now \<and> runs_write l db db'"
  "create_operation_phase run l name status order payload pid fresh now db = Inr (db', pr)
    \<Longrightarrow> lease_is_current db l now \<and> runs_write l db db'"
  "update_operation_run_status run l status now db = Inr (db', r)
    \<Longrightarrow> lease_is_current db l now \<and> runs_write l db db'"
  "update_operation_phase_status phase l status now db = Inr (db', pr)
    \<Longrightarrow> lease_is_current db l now \<and> runs_write l db db'"
  "record_operation_run_terminal_diagnostic run l status now db = Inr (db', r)
    \<Longrightarrow> lease_is_current db l now \<and> runs_write l db db'"
  "record_operation_phase_terminal_diagnostic phase l status now db = Inr (db', pr)
    \<Longrightarrow> lease_is_current db l now \<and> runs_write l db db'"
proof -
  show "create_operation_run run_id l owner status payload oid fresh now db = Inr (db', r)
    \<Longrightarrow> lease_is_current db l now \<and> runs_write l db db'"
    by (intro conjI) (erule create_run_write)+
  show "create_operation_phase run l name status order payload pid fresh now db = Inr (db', pr)
    \<Longrightarrow> lease_is_current db l now \<and> runs_write l db db'"
    by (intro conjI) (erule create_phase_write)+
  show "lease_is_current db l now \<and> runs_write l db db'"
    if call: "update_operation_run_status run l status now db = Inr (db', r)"
  proof -
    obtain row where row: "lease_is_current db l now" "operation_run_row run (operation_run_table db) = Some row"
      "may_run l row" "own_run l row" "operation_status_transition (run_status row) status"
      and w: "write_run_status row run status now db = Inr (db', r)"
      using call by (auto simp: update_operation_run_status_def res_simps run_for_write_ok)
    show ?thesis
      using row(1) write_run_status_write [OF w row(2,3)] transition_edges(1) [OF row(5)] row(4) by simp
  qed
  show "lease_is_current db l now \<and> runs_write l db db'"
    if call: "update_operation_phase_status phase l status now db = Inr (db', pr)"
  proof -
    obtain row run where row: "lease_is_current db l now" "operation_phase_row phase (operation_phase_table db) = Some row"
      "operation_run_row (phase_operation_run_id row) (operation_run_table db) = Some run"
      "may_run l run" "own_run l run" "operation_status_transition (phase_status row) status"
      and w: "write_phase_status row phase status now db = Inr (db', pr)"
      using call by (auto simp: update_operation_phase_status_def require_operation_phase_for_write_def
          res_simps run_for_write_ok)
    show ?thesis
      using row(1) write_phase_status_write [OF w row(2-4)] transition_edges(1) [OF row(6)] row(5) by simp
  qed
  show "lease_is_current db l now \<and> runs_write l db db'"
    if call: "record_operation_run_terminal_diagnostic run l status now db = Inr (db', r)"
  proof -
    obtain row where row: "lease_is_current db l now" "operation_run_row run (operation_run_table db) = Some row"
      "may_run l row" "terminal_diagnostic_transition (run_status row) status"
      and w: "write_run_status row run status now db = Inr (db', r)"
      using call by (auto simp: record_operation_run_terminal_diagnostic_def res_simps run_for_diagnostic_ok)
    show ?thesis
      using row(1) write_run_status_write [OF w row(2,3)] transition_edges(2) [OF row(4)] by simp
  qed
  show "lease_is_current db l now \<and> runs_write l db db'"
    if call: "record_operation_phase_terminal_diagnostic phase l status now db = Inr (db', pr)"
  proof -
    obtain row run where row: "lease_is_current db l now" "operation_phase_row phase (operation_phase_table db) = Some row"
      "operation_run_row (phase_operation_run_id row) (operation_run_table db) = Some run"
      "may_run l run" "terminal_diagnostic_transition (phase_status row) status"
      and w: "write_phase_status row phase status now db = Inr (db', pr)"
      using call by (auto simp: record_operation_phase_terminal_diagnostic_def res_simps run_for_diagnostic_ok)
    show ?thesis
      using row(1) write_phase_status_write [OF w row(2-4)] transition_edges(2) [OF row(5)] by simp
  qed
qed

lemma runs_write_tables:
  assumes "runs_write l db db'"
  shows "batch_table db' = batch_table db" "recovery_table db' = recovery_table db"
    "recovery_action_table db' = recovery_action_table db" "artifact_cleanup_table db' = artifact_cleanup_table db"
    "operation_table db' = operation_table db" "checkpoint_table db' = checkpoint_table db" "same_leases db db'"
  using assms by (auto simp: runs_write_def same_leases_def)

end
