(* ===== verification/Journal_Machine.thy ===== *)
theory Journal_Machine
  imports Journal_Calls Run_Status
begin

section \<open>The journal as a state machine\<close>

text \<open>
  The step relation over every public method of the journal store, and over the lease and
  claim stores that share its database, and the invariant \<open>journal_wf\<close> of its reachable
  states. \<open>journal_call H l now\<close> is one successful call made with the lease record \<open>l\<close> at
  clock reading \<open>now\<close>; a call that raises is rolled back and leaves the database as it was.
  The status machines of recovery actions and cleanups are interpretations of \<open>status_log\<close>.
\<close>

subsection \<open>Status histories\<close>

definition action_stream :: "recovery_action_record \<Rightarrow> string \<times> string" where
  "action_stream r = (action_recovery_attempt_id r, action_id r)"

definition action_next :: "action_status \<Rightarrow> action_status \<Rightarrow> bool" where
  "action_next s s' \<longleftrightarrow> s' \<in> recovery_action_transitions s"

text \<open>The guard of the code on the status of the latest record of an action.\<close>

definition action_admit :: "action_status option \<Rightarrow> action_status \<Rightarrow> bool" where
  "action_admit latest s \<longleftrightarrow>
     (if s = ACTION_PLANNED then latest = None
      else case latest of None \<Rightarrow> False | Some p \<Rightarrow> s \<in> recovery_action_transitions p)"

interpretation action_log: status_log action_record_id recovery_action_clash recovery_action_row
  action_batch_id action_sequence action_stream action_status "\<lambda>s. s = ACTION_PLANNED" action_next action_admit
  by unfold_locales (auto simp: action_admit_def action_next_def split: if_splits)

definition cleanup_stream :: "artifact_cleanup_record \<Rightarrow> string \<times> string" where
  "cleanup_stream r = (cleanup_batch_id r, cleanup_artifact_id r)"

text \<open>A failed cleanup or one left to a human may be planned again.\<close>

definition cleanup_next :: "cleanup_status \<Rightarrow> cleanup_status \<Rightarrow> bool" where
  "cleanup_next s s' \<longleftrightarrow> s' \<in> artifact_cleanup_transitions s
     \<or> s \<in> artifact_cleanup_retryable_statuses \<and> s' = CLEANUP_PLANNED"

definition cleanup_admit :: "cleanup_status option \<Rightarrow> cleanup_status \<Rightarrow> bool" where
  "cleanup_admit latest s \<longleftrightarrow>
     (case latest of
        None \<Rightarrow> s = CLEANUP_PLANNED
      | Some p \<Rightarrow> if s = CLEANUP_PLANNED then p \<in> artifact_cleanup_retryable_statuses
                  else s \<in> artifact_cleanup_transitions p)"

interpretation cleanup_log: status_log cleanup_record_id artifact_cleanup_clash artifact_cleanup_row
  cleanup_batch_id cleanup_sequence cleanup_stream cleanup_status "\<lambda>s. s = CLEANUP_PLANNED"
  cleanup_next cleanup_admit
  by unfold_locales (auto simp: cleanup_admit_def cleanup_next_def split: if_splits)

lemma record_action_admitted:
  assumes "base_wf db"
    and "record_recovery_action H b lease attempt status type rk reason payload aid arid fresh fresh2 fresh3 now db
      = Inr (db', r)"
    and "status = ACTION_PLANNED \<Longrightarrow> fresh2 \<notin> action_id ` set (recovery_action_table db)"
    and "action_log.wf_log (recovery_action_table db)"
  shows "action_log.wf_log (recovery_action_table db')"
  using assms(1,2)
proof (cases rule: record_recovery_action_ok)
  case (1 row x t existing)
  let ?last = "\<lambda>a. last_of (\<lambda>r. action_stream r = (attempt, a)) (recovery_action_table db)"
  have latest: "latest_recovery_action_for_attempt attempt a (recovery_action_table db) = ?last a" for a
    using latest_action [OF base_wf_parts(3) [OF assms(1)] 1(9), of a] by (simp add: action_stream_def)
  have fresh: "?last fresh2 = None" if "status = ACTION_PLANNED"
    using assms(3) that by (auto simp: last_of_None action_stream_def)
  have "action_admit (map_option action_status (?last (action_id r))) status"
  proof (cases "status = ACTION_PLANNED")
    case True
    then have "existing = None" and "aid = Some a \<Longrightarrow> ?last a = None" for a
      using 1(10) by (auto simp: prepare_recovery_action_write_def latest split: if_splits option.splits)
    then have "?last (action_id r) = None"
      using 1(17) fresh [OF True] by (cases aid) (auto simp: str_or_def)
    with True show ?thesis by (simp add: action_admit_def)
  next
    case False
    then obtain a where a: "aid = Some a"
      using 1(10) by (auto simp: prepare_recovery_action_write_def split: option.splits)
    obtain e where e: "?last a = Some e"
      using 1(10) False a
      by (cases "?last a") (auto simp: prepare_recovery_action_write_def latest split: if_splits)
    have "existing = Some e" "status \<in> recovery_action_transitions (action_status e)"
      using 1(10) False a e by (auto simp: prepare_recovery_action_write_def latest split: if_splits)
    note this a e
    moreover from this have "action_id e = a"
      using last_of_Some [of _ "recovery_action_table db" e] by (auto simp: action_stream_def)
    ultimately show ?thesis using False 1(17) by (simp add: action_admit_def)
  qed
  then have "action_admit (map_option action_status
      (last_of (\<lambda>x. action_stream x = action_stream r) (recovery_action_table db))) (action_status r)"
    using 1(15,16) by (simp add: action_stream_def)
  then show ?thesis
    using action_log.wf_log_append [OF assms(4)] actions.insert_Some(1) [OF 1(11)] by (simp add: 1(12))
qed

lemma record_cleanup_admitted:
  assumes "base_wf db"
    and "record_artifact_cleanup b lease artifact status trigger rk reason payload cid fresh now db = Inr (db', r)"
    and "cleanup_log.wf_log (artifact_cleanup_table db)"
  shows "cleanup_log.wf_log (artifact_cleanup_table db')"
  using assms(2)
proof (cases rule: record_artifact_cleanup_ok)
  case (1 row t existing)
  let ?last = "last_of (\<lambda>r. cleanup_stream r = (b, artifact)) (artifact_cleanup_table db)"
  have latest: "latest_artifact_cleanup_row b artifact (artifact_cleanup_table db) = ?last"
    using latest_cleanup [OF base_wf_parts(3) [OF assms(1)]] by (simp add: cleanup_stream_def)
  have "cleanup_admit (map_option cleanup_status ?last) status"
  proof (cases ?last)
    case None
    then show ?thesis
      using 1(5) by (simp add: prepare_artifact_cleanup_write_def Let_def latest cleanup_admit_def split: if_splits)
  next
    case (Some e)
    then show ?thesis
      using 1(5) by (cases "cleanup_status e")
        (auto simp: prepare_artifact_cleanup_write_def Let_def latest cleanup_admit_def
          artifact_cleanup_active_statuses_def artifact_cleanup_retryable_statuses_def
          split: if_splits option.splits)
  qed
  then have "cleanup_admit (map_option cleanup_status
      (last_of (\<lambda>x. cleanup_stream x = cleanup_stream r) (artifact_cleanup_table db))) (cleanup_status r)"
    using 1(9,10,12) by (simp add: cleanup_stream_def)
  then show ?thesis
    using cleanup_log.wf_log_append [OF assms(3)] cleanups.insert_Some(1) [OF 1(7)] by (simp add: 1(8))
qed

subsection \<open>Every call of the journal store\<close>

text \<open>
  The only assumption on \<open>uuid4\<close> is the one of \<open>jc_plan_action\<close>: the id drawn for a planned
  action without one is new. A collision of any other id violates a constraint and raises.
\<close>

inductive journal_call ::
  "digest \<Rightarrow> lease_record \<Rightarrow> time \<Rightarrow> 'a journal_db_scheme \<Rightarrow> 'a journal_db_scheme \<Rightarrow> bool"
  for H :: digest and l :: lease_record and now :: time where
  jc_create_batch:
    "create_batch H key l owner run_id orun ophase rk co cs payload bid fresh now db = Inr (db', rec)
      \<Longrightarrow> journal_call H l now db db'"
| jc_append_operation:
    "append_operation b l type rk payload oid fresh now db = Inr (db', r) \<Longrightarrow> journal_call H l now db db'"
| jc_start_batch_operation:
    "start_batch_operation H b l type rk payload oid sp fresh now db = Inr (db', rec, r)
      \<Longrightarrow> journal_call H l now db db'"
| jc_record_checkpoint:
    "record_checkpoint H b l key type payload oid cid attempt fresh fresh2 now db = Inr (db', r)
      \<Longrightarrow> journal_call H l now db db'"
| jc_mark_attempting:
    "mark_attempting b l payload now db = Inr (db', rec) \<Longrightarrow> journal_call H l now db db'"
| jc_mark_succeeded:
    "mark_succeeded b l payload now db = Inr (db', rec) \<Longrightarrow> journal_call H l now db db'"
| jc_mark_failed:
    "mark_failed b l message payload now db = Inr (db', rec) \<Longrightarrow> journal_call H l now db db'"
| jc_recovery_desired:
    "record_recovery_desired H b l reason payload rid fresh fresh2 now db = Inr (db', r)
      \<Longrightarrow> journal_call H l now db db'"
| jc_start_recovery:
    "start_recovery H b l reason payload rid fresh fresh2 now db = Inr (db', rec, r)
      \<Longrightarrow> journal_call H l now db db'"
| jc_recovery_succeeded:
    "record_recovery_succeeded H b l attempt reason payload rid fresh fresh2 now db = Inr (db', r)
      \<Longrightarrow> journal_call H l now db db'"
| jc_recovery_failed:
    "record_recovery_failed H b l attempt reason payload rid fresh fresh2 now db = Inr (db', r)
      \<Longrightarrow> journal_call H l now db db'"
| jc_interrupted:
    "record_interrupted_recovery_desired H b l rk reason payload rid fresh now db = Inr (db', r)
      \<Longrightarrow> journal_call H l now db db'"
| jc_lease_lost:
    "record_lease_lost_recovery_desired H b l rk reason payload rid fresh now db = Inr (db', r)
      \<Longrightarrow> journal_call H l now db db'"
| jc_plan_action:
    "record_recovery_action_planned H b l attempt_id type rk payload aid arid fresh fresh2 fresh3 now db = Inr (db', r)
      \<Longrightarrow> fresh2 \<notin> action_id ` set (recovery_action_table db) \<Longrightarrow> journal_call H l now db db'"
| jc_mark_action:
    "mark_recovery_action H status b l attempt_id aid' reason payload arid fresh fresh2 fresh3 now db = Inr (db', r)
      \<Longrightarrow> status \<noteq> ACTION_PLANNED \<Longrightarrow> journal_call H l now db db'"
| jc_plan_cleanup:
    "record_artifact_cleanup_planned b l artifact trigger rk payload cid fresh now db = Inr (db', c)
      \<Longrightarrow> journal_call H l now db db'"
| jc_mark_cleanup:
    "mark_artifact_cleanup cstatus b l artifact reason payload cid fresh now db = Inr (db', c)
      \<Longrightarrow> cstatus \<noteq> CLEANUP_PLANNED \<Longrightarrow> journal_call H l now db db'"
| jc_create_run:
    "create_operation_run run_id l owner rstatus payload oid fresh now db = Inr (db', run)
      \<Longrightarrow> journal_call H l now db db'"
| jc_create_phase:
    "create_operation_phase run_id l name rstatus order payload pid fresh now db = Inr (db', ph)
      \<Longrightarrow> journal_call H l now db db'"
| jc_update_run:
    "update_operation_run_status run_id l rstatus now db = Inr (db', run) \<Longrightarrow> journal_call H l now db db'"
| jc_update_phase:
    "update_operation_phase_status phase_id l rstatus now db = Inr (db', ph) \<Longrightarrow> journal_call H l now db db'"
| jc_run_diagnostic:
    "record_operation_run_terminal_diagnostic run_id l rstatus now db = Inr (db', run)
      \<Longrightarrow> journal_call H l now db db'"
| jc_phase_diagnostic:
    "record_operation_phase_terminal_diagnostic phase_id l rstatus now db = Inr (db', ph)
      \<Longrightarrow> journal_call H l now db db'"

text \<open>A call whose records leave the phases alone, and one that changes a phase outside recovery.\<close>

definition record_call :: "lease_record \<Rightarrow> string \<Rightarrow> 'a journal_db_scheme \<Rightarrow> 'a journal_db_scheme \<Rightarrow> bool" where
  "record_call l b db db' \<longleftrightarrow> (batch_write l b)\<^sup>*\<^sup>* db db'
     \<and> batch_table db' = batch_table db \<and> recovery_table db' = recovery_table db"

definition status_call ::
  "lease_record \<Rightarrow> time \<Rightarrow> string \<Rightarrow> batch_entry \<Rightarrow> batch_entry \<Rightarrow> 'a journal_db_scheme \<Rightarrow> 'a journal_db_scheme \<Rightarrow> bool" where
  "status_call l now b row row' db db' \<longleftrightarrow> (batch_write l b)\<^sup>*\<^sup>* db db'
     \<and> batch_row b (batch_table db) = Some row \<and> batch_row b (batch_table db') = Some row'
     \<and> call_edge db l now row (batch_phase row')
     \<and> batch_phase row \<notin> recovery_phases \<and> batch_phase row' \<notin> recovery_phases
     \<and> recovery_table db' = recovery_table db"

definition create_call :: "lease_record \<Rightarrow> string \<Rightarrow> 'a journal_db_scheme \<Rightarrow> 'a journal_db_scheme \<Rightarrow> bool" where
  "create_call l b db db' \<longleftrightarrow> (batch_write l b)\<^sup>*\<^sup>* db db' \<and> batch_row b (batch_table db) = None
     \<and> (\<exists>r. batch_row b (batch_table db') = Some r \<and> batch_phase r = PLANNED
          \<and> batch_lease_fencing_token r = lease_fencing_token l)
     \<and> recovery_table db' = recovery_table db"

lemma batch_row_None: "sql_insert batch_clash r (batch_table db) = Some t \<Longrightarrow> batch_row (batch_id r) (batch_table db) = None"
  by (auto simp: batches.get_row_None sql_insert_Some batch_clash_def)

lemma create_batch_call:
  assumes "base_wf db" and "create_batch H key l owner run_id orun ophase rk co cs payload bid fresh now db = Inr (db', rec)"
  shows "db' = db \<or> create_call l (str_or bid fresh) db db'"
  using assms(2)
proof (cases rule: create_batch_ok)
  case (created r t)
  then show ?thesis
    using batch_row_None [OF created(5)] batches.get_row_insert [OF created(5)] create_batch_write [OF assms]
    by (auto simp: create_call_def)
qed simp

lemma own_call_edge:
  "lease_is_current db l now \<Longrightarrow> batch_lease_fencing_token row = lease_fencing_token l
    \<Longrightarrow> q \<in> valid_transitions (batch_phase row) \<Longrightarrow> call_edge db l now row q"
  by (simp add: call_edge_def own_edge_def)

lemma transition_call:
  assumes "base_wf db" and "phase \<in> {ATTEMPTING, SUCCEEDED, FAILED}"
    and "transition_batch b l phase msg payload now db = Inr (db', rec)"
  shows "\<exists>row row'. status_call l now b row row' db db'"
  using assms(3)
proof (cases rule: transition_batch_ok)
  case (1 row)
  let ?f = "set_batch_status phase msg (payload_to_json payload) now"
  have "batch_row b (batch_table db') = Some (?f row)"
    using batch_row_update [of ?f b b db] 1(2) batch_row_in [OF 1(2)] by (simp add: 1(6))
  moreover have "batch_phase row \<notin> recovery_phases" "phase \<notin> recovery_phases"
    using 1(5) assms(2) by (cases "batch_phase row"; force simp: recovery_phases_def)+
  ultimately show ?thesis
    using transition_batch_write [OF assms(1,3)] 1 own_call_edge [OF 1(1,4,5)]
    by (intro exI [of _ row] exI [of _ "?f row"]) (simp add: status_call_def)
qed

lemma start_call:
  assumes "base_wf db" and "start_batch_operation H b l type rk payload oid sp fresh now db = Inr (db', rec, r)"
  shows "\<exists>row row'. status_call l now b row row' db db' \<and> batch_phase row' = ATTEMPTING"
  using assms(2)
proof (cases rule: start_batch_operation_ok)
  case (1 row t v u)
  have "batch_phase u = ATTEMPTING"
    using 1(13) batch_row_update [of "set_batch_status ATTEMPTING None v now" b b
        "(rebound H b l now row db)\<lparr>operation_table := t\<rparr>"] unfolding 1(7)
    by (auto dest: batch_row_in)
  moreover have "call_edge db l now row ATTEMPTING"
    using 1(1,3) by (simp add: call_edge_def own_edge_def takeover_edge_def)
  moreover have "recovery_table db' = recovery_table db" unfolding 1(7) by simp
  ultimately show ?thesis
    using start_batch_operation_write [OF assms] 1(2,3,13)
    by (intro exI [of _ row] exI [of _ u]) (simp add: status_call_def recovery_phases_def)
qed

text \<open>Every call is of one of five kinds.\<close>

lemma journal_call_kinds:
  assumes "journal_call H l now db db'" and "base_wf db"
  obtains (create) b where "create_call l b db db'"
  | (records) b where "record_call l b db db'"
  | (status) b row row' where "status_call l now b row row' db db'"
  | (recovery) b row r where "phase_call l now b row r db db'"
  | (runs) "runs_write l db db'"
  using assms
proof (induction rule: journal_call.induct)
  case (jc_create_batch key owner run_id orun ophase rk co cs payload bid fresh db db' rec)
  have "db' = db \<or> create_call l (str_or bid fresh) db db'"
    by (rule create_batch_call [OF jc_create_batch.prems(6) jc_create_batch.hyps])
  then show ?case using jc_create_batch.prems(1,5) runs_write_refl by auto
next
  case (jc_append_operation b type rk payload oid fresh db db' r)
  from jc_append_operation(1) have "record_call l b db db'"
    by (rule append_operation_ok) (use append_operation_write [OF jc_append_operation(1)] in \<open>simp add: record_call_def\<close>)
  then show ?case by (rule jc_append_operation(3))
next
  case (jc_start_batch_operation b type rk payload oid sp fresh db db' rec r)
  then show ?case using start_call [OF jc_start_batch_operation.prems(6) jc_start_batch_operation.hyps] by blast
next
  case (jc_record_checkpoint b key type payload oid cid attempt fresh fresh2 db db' r)
  from jc_record_checkpoint.prems(6) jc_record_checkpoint.hyps have "record_call l b db db'"
    by (rule record_checkpoint_ok)
      (use record_checkpoint_write [OF jc_record_checkpoint.prems(6) jc_record_checkpoint.hyps] in \<open>simp add: record_call_def\<close>)
  then show ?case by (rule jc_record_checkpoint.prems(2))
next
  case (jc_mark_attempting b payload db db' rec)
  have "\<exists>row row'. status_call l now b row row' db db'"
    by (rule transition_call [OF jc_mark_attempting.prems(6) _ jc_mark_attempting.hyps [unfolded mark_attempting_def]]) simp
  then show ?case using jc_mark_attempting.prems(3) by blast
next
  case (jc_mark_succeeded b payload db db' rec)
  have "\<exists>row row'. status_call l now b row row' db db'"
    by (rule transition_call [OF jc_mark_succeeded.prems(6) _ jc_mark_succeeded.hyps [unfolded mark_succeeded_def]]) simp
  then show ?case using jc_mark_succeeded.prems(3) by blast
next
  case (jc_mark_failed b message payload db db' rec)
  then have call: "transition_batch b l FAILED (Some message) payload now db = Inr (db', rec)"
    by (auto simp: mark_failed_def res_bind_Inr)
  have "\<exists>row row'. status_call l now b row row' db db'"
    by (rule transition_call [OF jc_mark_failed.prems(6) _ call]) simp
  then show ?case using jc_mark_failed.prems(3) by blast
next
  case (jc_recovery_desired b reason payload rid fresh fresh2 db db' r)
  show ?case
    by (rule record_recovery_phase_ok
        [OF jc_recovery_desired.prems(6) _ jc_recovery_desired.hyps [unfolded record_recovery_desired_def]])
      (simp, rule jc_recovery_desired.prems(4))
next
  case (jc_start_recovery b reason payload rid fresh fresh2 db db' rec r)
  show ?case
    by (rule start_recovery_ok [OF jc_start_recovery.prems(6) jc_start_recovery.hyps]) (rule jc_start_recovery.prems(4))
next
  case (jc_recovery_succeeded b attempt reason payload rid fresh fresh2 db db' r)
  show ?case
    by (rule record_recovery_phase_ok
        [OF jc_recovery_succeeded.prems(6) _ jc_recovery_succeeded.hyps [unfolded record_recovery_succeeded_def]])
      (simp, rule jc_recovery_succeeded.prems(4))
next
  case (jc_recovery_failed b attempt reason payload rid fresh fresh2 db db' r)
  show ?case
    by (rule record_recovery_phase_ok
        [OF jc_recovery_failed.prems(6) _ jc_recovery_failed.hyps [unfolded record_recovery_failed_def]])
      (simp, rule jc_recovery_failed.prems(4))
next
  case (jc_interrupted b rk reason payload rid fresh db db' r)
  show ?case
    by (rule interrupted_ok [OF jc_interrupted.prems(6) jc_interrupted.hyps]) (rule jc_interrupted.prems(4))
next
  case (jc_lease_lost b rk reason payload rid fresh db db' r)
  show ?case
    by (rule lease_lost_ok [OF jc_lease_lost.prems(6) jc_lease_lost.hyps]) (rule jc_lease_lost.prems(4))
next
  case (jc_plan_action b attempt_id type rk payload aid arid fresh fresh2 fresh3 db db' r)
  then have call: "record_recovery_action H b l attempt_id ACTION_PLANNED (Some type) rk None payload aid arid
      fresh fresh2 fresh3 now db = Inr (db', r)"
    by (auto simp: record_recovery_action_planned_def res_bind_Inr)
  have "record_call l b db db'"
    by (rule record_recovery_action_ok [OF jc_plan_action.prems(6) call])
      (use record_recovery_action_write [OF jc_plan_action.prems(6) call] in \<open>simp add: record_call_def\<close>)
  then show ?case by (rule jc_plan_action.prems(2))
next
  case (jc_mark_action status b attempt_id aid' reason payload arid fresh fresh2 fresh3 db db' r)
  note call = jc_mark_action.hyps(1) [unfolded mark_recovery_action_def]
  have "record_call l b db db'"
    by (rule record_recovery_action_ok [OF jc_mark_action.prems(6) call])
      (use record_recovery_action_write [OF jc_mark_action.prems(6) call] in \<open>simp add: record_call_def\<close>)
  then show ?case by (rule jc_mark_action.prems(2))
next
  case (jc_plan_cleanup b artifact trigger rk payload cid fresh db db' c)
  then have call: "record_artifact_cleanup b l artifact CLEANUP_PLANNED (Some trigger) rk None payload cid fresh now db
      = Inr (db', c)"
    by (auto simp: record_artifact_cleanup_planned_def res_bind_Inr)
  have "record_call l b db db'"
    by (rule record_artifact_cleanup_ok [OF call])
      (use record_artifact_cleanup_write [OF call] in \<open>simp add: record_call_def\<close>)
  then show ?case by (rule jc_plan_cleanup.prems(2))
next
  case (jc_mark_cleanup cstatus b artifact reason payload cid fresh db db' c)
  note call = jc_mark_cleanup.hyps(1) [unfolded mark_artifact_cleanup_def]
  have "record_call l b db db'"
    by (rule record_artifact_cleanup_ok [OF call])
      (use record_artifact_cleanup_write [OF call] in \<open>simp add: record_call_def\<close>)
  then show ?case by (rule jc_mark_cleanup.prems(2))
qed (blast dest: run_calls_write)+

subsection \<open>The invariant\<close>

definition histories_wf :: "'a journal_db_scheme \<Rightarrow> bool" where
  "histories_wf db \<longleftrightarrow> action_log.wf_log (recovery_action_table db) \<and> cleanup_log.wf_log (artifact_cleanup_table db)"

definition journal_wf :: "'a journal_db_scheme \<Rightarrow> bool" where
  "journal_wf db \<longleftrightarrow> base_wf db \<and> phase_wf db \<and> histories_wf db"

lemma journal_wf_parts:
  assumes "journal_wf db"
  shows "base_wf db" "phase_wf db" "histories_wf db" "log_wf db" "lease_wf db" "fence_wf db"
  using assms by (simp_all add: journal_wf_def base_wf_def)

lemma histories_same:
  "recovery_action_table db' = recovery_action_table db \<Longrightarrow> artifact_cleanup_table db' = artifact_cleanup_table db
    \<Longrightarrow> histories_wf db' = histories_wf db"
  by (simp add: histories_wf_def)

lemma rebound_histories [simp]:
  "recovery_action_table (rebound H b l now row db) = recovery_action_table db"
  "artifact_cleanup_table (rebound H b l now row db) = artifact_cleanup_table db"
  by (simp_all add: rebound_def)

lemma transition_histories:
  "transition_batch b l phase msg payload now db = Inr (db', rec) \<Longrightarrow> histories_wf db' = histories_wf db"
  by (elim transition_batch_ok) (simp add: histories_wf_def)

lemma phase_call_histories: "phase_call l now b row r db db' \<Longrightarrow> histories_wf db' = histories_wf db"
  by (rule histories_same) (simp_all add: phase_call_def)

lemma action_histories:
  assumes "record_recovery_action H b lease attempt status type rk reason payload aid arid fresh fresh2 fresh3 now db
      = Inr (db', r)" and "base_wf db"
    and "status = ACTION_PLANNED \<Longrightarrow> fresh2 \<notin> action_id ` set (recovery_action_table db)"
    and "histories_wf db"
  shows "histories_wf db'"
proof -
  have "artifact_cleanup_table db' = artifact_cleanup_table db"
    by (rule record_recovery_action_ok [OF assms(2,1)]) simp
  then show ?thesis
    using record_action_admitted [OF assms(2,1,3)] assms(4) by (simp add: histories_wf_def)
qed

lemma cleanup_histories:
  assumes "record_artifact_cleanup b lease artifact status trigger rk reason payload cid fresh now db = Inr (db', r)"
    and "base_wf db" and "histories_wf db"
  shows "histories_wf db'"
proof -
  have "recovery_action_table db' = recovery_action_table db"
    by (rule record_artifact_cleanup_ok [OF assms(1)]) simp
  then show ?thesis
    using record_cleanup_admitted [OF assms(2,1)] assms(3) by (simp add: histories_wf_def)
qed

lemma journal_call_histories:
  assumes "journal_call H l now db db'" and "base_wf db" and "histories_wf db"
  shows "histories_wf db'"
  using assms
proof (induction rule: journal_call.induct)
  case (jc_create_batch key owner run_id orun ophase rk co cs payload bid fresh db db' rec)
  show ?case
    by (rule create_batch_ok [OF jc_create_batch.hyps]) (use jc_create_batch.prems(2) in \<open>simp_all add: histories_wf_def\<close>)
next
  case (jc_append_operation b type rk payload oid fresh db db' r)
  show ?case
    by (rule append_operation_ok [OF jc_append_operation.hyps])
      (use jc_append_operation.prems(2) in \<open>simp add: histories_wf_def\<close>)
next
  case (jc_start_batch_operation b type rk payload oid sp fresh db db' rec r)
  show ?case
    by (rule start_batch_operation_ok [OF jc_start_batch_operation.hyps])
      (use jc_start_batch_operation.prems(2) in \<open>simp add: histories_wf_def\<close>)
next
  case (jc_record_checkpoint b key type payload oid cid attempt fresh fresh2 db db' r)
  show ?case
    by (rule record_checkpoint_ok [OF jc_record_checkpoint.prems(1) jc_record_checkpoint.hyps])
      (use jc_record_checkpoint.prems(2) in \<open>simp add: histories_wf_def\<close>)
next
  case (jc_mark_attempting b payload db db' rec)
  then show ?case by (simp add: mark_attempting_def transition_histories)
next
  case (jc_mark_succeeded b payload db db' rec)
  then show ?case by (simp add: mark_succeeded_def transition_histories)
next
  case (jc_mark_failed b message payload db db' rec)
  then show ?case by (auto simp: mark_failed_def res_bind_Inr transition_histories)
next
  case (jc_recovery_desired b reason payload rid fresh fresh2 db db' r)
  show ?case
    by (rule record_recovery_phase_ok [OF jc_recovery_desired.prems(1) _
          jc_recovery_desired.hyps [unfolded record_recovery_desired_def]])
      (use jc_recovery_desired.prems(2) in \<open>simp_all add: phase_call_histories\<close>)
next
  case (jc_start_recovery b reason payload rid fresh fresh2 db db' rec r)
  show ?case
    by (rule start_recovery_ok [OF jc_start_recovery.prems(1) jc_start_recovery.hyps])
      (use jc_start_recovery.prems(2) in \<open>simp add: phase_call_histories\<close>)
next
  case (jc_recovery_succeeded b attempt reason payload rid fresh fresh2 db db' r)
  show ?case
    by (rule record_recovery_phase_ok [OF jc_recovery_succeeded.prems(1) _
          jc_recovery_succeeded.hyps [unfolded record_recovery_succeeded_def]])
      (use jc_recovery_succeeded.prems(2) in \<open>simp_all add: phase_call_histories\<close>)
next
  case (jc_recovery_failed b attempt reason payload rid fresh fresh2 db db' r)
  show ?case
    by (rule record_recovery_phase_ok [OF jc_recovery_failed.prems(1) _
          jc_recovery_failed.hyps [unfolded record_recovery_failed_def]])
      (use jc_recovery_failed.prems(2) in \<open>simp_all add: phase_call_histories\<close>)
next
  case (jc_interrupted b rk reason payload rid fresh db db' r)
  show ?case
    by (rule interrupted_ok [OF jc_interrupted.prems(1) jc_interrupted.hyps])
      (use jc_interrupted.prems(2) in \<open>simp add: phase_call_histories\<close>)
next
  case (jc_lease_lost b rk reason payload rid fresh db db' r)
  show ?case
    by (rule lease_lost_ok [OF jc_lease_lost.prems(1) jc_lease_lost.hyps])
      (use jc_lease_lost.prems(2) in \<open>simp add: phase_call_histories\<close>)
next
  case (jc_plan_action b attempt_id type rk payload aid arid fresh fresh2 fresh3 db db' r)
  then show ?case
    by (auto simp: record_recovery_action_planned_def res_bind_Inr intro: action_histories)
next
  case (jc_mark_action status b attempt_id aid' reason payload arid fresh fresh2 fresh3 db db' r)
  then show ?case unfolding mark_recovery_action_def by (blast intro: action_histories)
next
  case (jc_plan_cleanup b artifact trigger rk payload cid fresh db db' c)
  then show ?case
    by (auto simp: record_artifact_cleanup_planned_def res_bind_Inr intro: cleanup_histories)
next
  case (jc_mark_cleanup cstatus b artifact reason payload cid fresh db db' c)
  then show ?case unfolding mark_artifact_cleanup_def by (blast intro: cleanup_histories)
qed (use run_calls_write runs_write_tables(3,4) histories_same in \<open>metis\<close>)+

lemma phase_wf_rows:
  assumes "log_wf db"
  shows "phase_wf db \<longleftrightarrow> (\<forall>b row. batch_row b (batch_table db) = Some row \<longrightarrow> phase_ok db row)"
  using batches.get_row_Some batches.get_row_unique [OF log_wf_parts(1) [OF assms]]
  unfolding phase_wf_def by blast

lemma last_recovery_same:
  "recovery_table db' = recovery_table db \<Longrightarrow> last_recovery b db' = last_recovery b db"
  by (simp add: last_recovery_def)

lemma last_recovery_journal:
  "journal_of b db' = journal_of b db \<Longrightarrow> last_recovery b db' = last_recovery b db"
  by (simp add: journal_of_def last_recovery_def last_of_def)

text \<open>A call on \<open>b\<close> leaves the phases of other batches in order; its own batch is the case left.\<close>

lemma phase_wf_call:
  assumes "(batch_write l b)\<^sup>*\<^sup>* db db'" and "base_wf db" and "phase_wf db"
    and "\<And>row'. batch_row b (batch_table db') = Some row' \<Longrightarrow> phase_ok db' row'"
  shows "phase_wf db'"
proof -
  have log: "log_wf db" "log_wf db'"
    using assms(2) call_base_wf [OF assms(1,2)] by (simp_all add: base_wf_def)
  have "phase_ok db' row" if row: "batch_row b' (batch_table db') = Some row" and "b' \<noteq> b" for b' row
  proof -
    have same: "journal_of b' db' = journal_of b' db" by (rule call_other [OF assms(1) that(2)])
    then have "batch_row b' (batch_table db) = Some row" using row by (simp add: journal_of_def)
    then have "phase_ok db row" using assms(3) log(1) by (simp add: phase_wf_rows)
    then show ?thesis
      using last_recovery_journal [OF same] batch_row_in [OF row] by (simp add: phase_ok_def)
  qed
  with assms(4) show ?thesis unfolding phase_wf_rows [OF log(2)] by blast
qed

lemma journal_call_phase_wf:
  assumes "journal_call H l now db db'" and "base_wf db" and "phase_wf db"
  shows "phase_wf db'"
  using assms(1,2)
proof (cases rule: journal_call_kinds)
  case (create b)
  then have w: "(batch_write l b)\<^sup>*\<^sup>* db db'" and none: "batch_row b (batch_table db) = None"
    and rec: "recovery_table db' = recovery_table db" by (simp_all add: create_call_def)
  have log: "log_wf db" using assms(2) by (rule base_wf_parts)
  have "b \<notin> batch_ids db" using none by (simp add: batches.get_row_None batch_ids_def)
  then have "last_recovery b db' = None"
    using log_wf_parts(3) [OF log] by (auto simp: last_recovery_def rec last_of_None references_ok_def)
  then show ?thesis
    using phase_wf_call [OF w assms(2,3)] create batch_row_in
    by (fastforce simp: create_call_def phase_ok_def recovery_phases_def)
next
  case (records b)
  then show ?thesis
    using assms(3) by (simp add: record_call_def phase_wf_def phase_ok_def last_recovery_def)
next
  case (status b row row')
  then have w: "(batch_write l b)\<^sup>*\<^sup>* db db'" and rows: "batch_row b (batch_table db) = Some row"
    "batch_row b (batch_table db') = Some row'" and out: "batch_phase row \<notin> recovery_phases"
    "batch_phase row' \<notin> recovery_phases" and rec: "recovery_table db' = recovery_table db"
    by (simp_all add: status_call_def)
  have "phase_ok db row"
    using assms(3) rows(1) phase_wf_rows [OF base_wf_parts(3) [OF assms(2)]] by blast
  then have "last_recovery b db' = None"
    using out(1) batch_row_in [OF rows(1)] last_recovery_same [OF rec]
    by (auto simp: phase_ok_def split: option.splits)
  then show ?thesis
    using phase_wf_call [OF w assms(2,3)] rows(2) out(2) batch_row_in [OF rows(2)]
    by (simp add: phase_ok_def)
next
  case (recovery b row r)
  then have w: "(batch_write l b)\<^sup>*\<^sup>* db db'" by (simp add: phase_call_def)
  show ?thesis
    by (rule phase_wf_call [OF w assms(2,3)])
      (use recovery in \<open>auto simp: phase_call_def phase_ok_def dest!: batch_row_in\<close>)
next
  case runs
  then show ?thesis
    using assms(3) runs_write_tables [OF runs] by (simp add: phase_wf_def phase_ok_def last_recovery_def)
qed

lemma runs_write_base_wf:
  assumes "runs_write l db db'" and "base_wf db"
  shows "base_wf db'"
proof -
  note t = runs_write_tables [OF assms(1)]
  have "log_wf db'"
    using assms(2) t unfolding base_wf_def log_wf_def unique_ids_def ordered_logs_def references_ok_def
      sequence_mset_def next_sequence_def batch_ids_def by simp
  then show ?thesis
    using assms(2) t(1) fence_wf_tables [OF _ t(7)] same_leases_level [OF t(7)] by (simp add: base_wf_def)
qed

lemma journal_call_base_wf:
  assumes "journal_call H l now db db'" and "base_wf db"
  shows "base_wf db'"
  using assms
proof (cases rule: journal_call_kinds)
  case (create b)
  then show ?thesis using call_base_wf assms(2) by (auto simp: create_call_def)
next
  case (records b)
  then show ?thesis using call_base_wf assms(2) by (auto simp: record_call_def)
next
  case (status b row row')
  then show ?thesis using call_base_wf assms(2) by (auto simp: status_call_def)
next
  case (recovery b row r)
  then show ?thesis using call_base_wf assms(2) by (auto simp: phase_call_def)
next
  case runs
  then show ?thesis using assms(2) by (rule runs_write_base_wf)
qed

lemma journal_call_wf: "journal_call H l now db db' \<Longrightarrow> journal_wf db \<Longrightarrow> journal_wf db'"
  using journal_call_base_wf journal_call_phase_wf journal_call_histories
  by (auto simp: journal_wf_def)

end
