(* ===== verification/Journal_History.thy ===== *)
theory Journal_History
  imports Journal_Machine
begin

section \<open>Histories of the whole database\<close>

text \<open>
  Leases, claims and the journal together: a history is any sequence of successful calls by
  any number of workers, with any lease records and clock readings. The second interpretation
  of \<open>fencing_authority\<close> carries the lease guarantees over to these histories, and the
  lemmas here say what one step and what a whole history may do to a batch and its records.
\<close>

inductive journal_step ::
  "digest \<Rightarrow> (string \<Rightarrow> json option) \<Rightarrow> string set \<Rightarrow> 'a journal_db_scheme \<Rightarrow> 'a journal_db_scheme \<Rightarrow> bool"
  for H :: digest and loads :: "string \<Rightarrow> json option" and F :: "string set" where
  js_workspace: "workspace_step H loads F (\<lambda>_ _ _. True) db db' \<Longrightarrow> journal_step H loads F db db'"
| js_journal: "journal_call H l now db db' \<Longrightarrow> journal_step H loads F db db'"

inductive_cases journal_stepE: "journal_step H loads F db db'"

subsection \<open>Lease and claim calls leave the journal alone\<close>

lemma workspace_step_frame:
  assumes "workspace_step H loads F allowed db db'" and "lease_wf db"
  shows "\<exists>lt ct. db' = db\<lparr>lease_table := lt, claim_table := ct\<rparr>"
  using assms
proof (induction rule: workspace_step.induct)
  case (ws_lease db db')
  then obtain t where "db' = db\<lparr>lease_table := t\<rparr>" using lease_step_frame by blast
  then have "db' = db\<lparr>lease_table := t, claim_table := claim_table db\<rparr>" by simp
  then show ?case by blast
next
  case (ws_create key lease owner scope details now db db' c)
  then obtain t where "db' = db\<lparr>claim_table := t\<rparr>" using create_ok(1) by blast
  then have "db' = db\<lparr>lease_table := lease_table db, claim_table := t\<rparr>" by simp
  then show ?case by blast
next
  case (ws_upsert key lease owner scope details now db db' c)
  then obtain t where "db' = db\<lparr>claim_table := t\<rparr>" using upsert_ok(1) by blast
  then have "db' = db\<lparr>lease_table := lease_table db, claim_table := t\<rparr>" by simp
  then show ?case by blast
next
  case (ws_release key lease owner scope expected now db db' b)
  then obtain t where "db' = db\<lparr>claim_table := t\<rparr>"
    using release_connection_frame [of key owner scope expected db] by (auto simp: release_claim_ok)
  then have "db' = db\<lparr>lease_table := lease_table db, claim_table := t\<rparr>" by simp
  then show ?case by blast
next
  case (ws_release_if key lease owner scope expected now db db' b)
  then obtain e where "release_claim_in_connection key owner scope (Some e) db = (db', b)"
    by (auto simp: release_if_ok)
  then obtain t where "db' = db\<lparr>claim_table := t\<rparr>"
    using release_connection_frame [of key owner scope "Some e" db] by auto
  then have "db' = db\<lparr>lease_table := lease_table db, claim_table := t\<rparr>" by simp
  then show ?case by blast
qed

definition same_journal :: "'a journal_db_scheme \<Rightarrow> 'a journal_db_scheme \<Rightarrow> bool" where
  "same_journal db db' \<longleftrightarrow> batch_table db' = batch_table db \<and> operation_table db' = operation_table db
     \<and> checkpoint_table db' = checkpoint_table db \<and> recovery_table db' = recovery_table db
     \<and> recovery_action_table db' = recovery_action_table db
     \<and> artifact_cleanup_table db' = artifact_cleanup_table db"

lemma workspace_step_journal:
  assumes "workspace_step H loads F allowed db db'" and "lease_wf db"
  shows "same_journal db db'"
  using workspace_step_frame [OF assms] by (auto simp: same_journal_def)

lemma same_journal_wf:
  assumes "same_journal db db'"
  shows "log_wf db' = log_wf db" "phase_wf db' = phase_wf db" "histories_wf db' = histories_wf db"
    "journal_of b db' = journal_of b db" "logs_extend db db'"
  using assms
  by (simp_all add: same_journal_def log_wf_def unique_ids_def ordered_logs_def references_ok_def
      sequence_mset_def next_sequence_def batch_ids_def phase_wf_def phase_ok_def last_recovery_def
      histories_wf_def journal_of_def logs_extend_def)

lemma workspace_step_fence_wf:
  assumes "workspace_step H loads F allowed db db'" and "lease_wf db" and "fence_wf db"
  shows "fence_wf db'"
proof -
  have "lease_level db n \<le> lease_level db' n" for n
    using workspace_auth.step_level [OF assms(2,1)] by simp
  then show ?thesis
    using assms(3) workspace_step_journal [OF assms(1,2)]
    by (fastforce simp: fence_wf_def same_journal_def intro: order_trans)
qed

lemma workspace_step_journal_wf:
  assumes "workspace_step H loads F allowed db db'" and "journal_wf db"
  shows "journal_wf db'"
proof -
  have wf: "lease_wf db" "claim_wf db" "fence_wf db" "log_wf db"
    using assms(2) by (simp_all add: journal_wf_def base_wf_def)
  note same = same_journal_wf [OF workspace_step_journal [OF assms(1) wf(1)]]
  show ?thesis
    using assms(2) wf same workspace_auth.step_invar [OF wf(1) assms(1)]
      workspace_step_claim_wf [OF assms(1) wf(1,2)] workspace_step_fence_wf [OF assms(1) wf(1,3)]
    by (simp add: journal_wf_def base_wf_def)
qed

lemma journal_step_wf: "journal_step H loads F db db' \<Longrightarrow> journal_wf db \<Longrightarrow> journal_wf db'"
  by (erule journal_stepE) (auto intro: workspace_step_journal_wf journal_call_wf)

lemma journal_call_leases:
  assumes "journal_call H l now db db'" and "base_wf db"
  shows "same_leases db db'"
  using assms
  by (cases rule: journal_call_kinds)
    (auto simp: create_call_def record_call_def status_call_def phase_call_def
      dest: call_frame runs_write_tables(7))

interpretation journal_auth: fencing_authority
  journal_wf "journal_step H loads F" lease_is_current lease_level
  lease_name lease_fencing_token lease_identity
proof unfold_locales
  fix db db' :: "'a journal_db_scheme" and n
  assume wf: "journal_wf db" and step: "journal_step H loads F db db'"
  show "journal_wf db'" by (rule journal_step_wf [OF step wf])
  have "lease_wf db" "base_wf db" using wf by (simp_all add: journal_wf_def base_wf_def)
  with step show "lease_level db n \<le> lease_level db' n"
    by (cases rule: journal_step.cases)
      (auto simp: same_leases_level dest: workspace_auth.step_level journal_call_leases)
qed (auto simp: journal_wf_def base_wf_def intro: lease_auth.current_level lease_auth.current_identity)

subsection \<open>One step\<close>

lemma journal_call_logs:
  assumes "journal_call H l now db db'" and "base_wf db"
  shows "logs_extend db db'"
  using assms
proof (cases rule: journal_call_kinds)
  case runs
  then show ?thesis using runs_write_tables [OF runs] by (simp add: logs_extend_def)
qed (auto simp: create_call_def record_call_def status_call_def phase_call_def dest: call_logs)

text \<open>
  What one call may do to a batch that exists: nothing at all, or, if the lease may write it,
  change its phase along an edge that is open to the lease, keep its identity and not lower its
  fencing token.
\<close>

definition batch_change ::
  "lease_record \<Rightarrow> time \<Rightarrow> string \<Rightarrow> batch_entry \<Rightarrow> batch_entry \<Rightarrow> 'a journal_db_scheme \<Rightarrow> 'a journal_db_scheme \<Rightarrow> bool" where
  "batch_change l now b row row' db db' \<longleftrightarrow>
     batch_row b (batch_table db') = Some row' \<and> batch_identity row' = batch_identity row
   \<and> batch_lease_fencing_token row \<le> batch_lease_fencing_token row'
   \<and> (journal_of b db' = journal_of b db \<or> may_write l row)
   \<and> (batch_phase row' = batch_phase row \<or> call_edge db l now row (batch_phase row'))"

lemma batch_unchanged:
  "journal_of b db' = journal_of b db \<Longrightarrow> batch_row b (batch_table db) = Some row
    \<Longrightarrow> batch_change l now b row row db db'"
  by (simp add: batch_change_def journal_of_def)

lemma batch_changed:
  assumes "(batch_write l c)\<^sup>*\<^sup>* db db'" and "batch_row b (batch_table db) = Some row"
    and "\<And>row'. c = b \<Longrightarrow> batch_row b (batch_table db') = Some row'
      \<Longrightarrow> batch_phase row' = batch_phase row \<or> call_edge db l now row (batch_phase row')"
  shows "\<exists>row'. batch_change l now b row row' db db'"
proof (cases "c = b")
  case True
  obtain row' where "batch_row b (batch_table db') = Some row'" "batch_identity row' = batch_identity row"
    "batch_lease_fencing_token row \<le> batch_lease_fencing_token row'"
    using call_row [OF assms(1)] assms(2) True by blast
  moreover have "journal_of b db' = journal_of b db \<or> may_write l row"
    using call_allowed [OF assms(1)] assms(2) True by auto
  ultimately show ?thesis
    using assms(3) [OF True] unfolding batch_change_def by blast
next
  case False
  then show ?thesis using batch_unchanged [OF call_other [OF assms(1)] assms(2)] by blast
qed

lemma journal_call_batch:
  assumes "journal_call H l now db db'" and "base_wf db" and "batch_row b (batch_table db) = Some row"
  shows "\<exists>row'. batch_change l now b row row' db db'"
  using assms(1,2)
proof (cases rule: journal_call_kinds)
  case (create c)
  then show ?thesis
    by (intro batch_changed [of l c, OF _ assms(3)]) (use assms(3) in \<open>auto simp: create_call_def\<close>)
next
  case (records c)
  then show ?thesis
    by (intro batch_changed [of l c, OF _ assms(3)]) (use assms(3) in \<open>auto simp: record_call_def\<close>)
next
  case (status c r r')
  then show ?thesis
    by (intro batch_changed [of l c, OF _ assms(3)]) (use assms(3) in \<open>auto simp: status_call_def\<close>)
next
  case (recovery c r x)
  then show ?thesis
    by (intro batch_changed [of l c, OF _ assms(3)]) (use assms(3) in \<open>auto simp: phase_call_def\<close>)
next
  case runs
  then have "journal_of b db' = journal_of b db" using runs_write_tables [OF runs] by (simp add: journal_of_def)
  then show ?thesis using batch_unchanged assms(3) by blast
qed

subsection \<open>Whole histories\<close>

text \<open>The phases a batch may still reach from a phase.\<close>

definition phase_edge :: "batch_phase \<Rightarrow> batch_phase \<Rightarrow> bool" where
  "phase_edge p q \<longleftrightarrow> own_edge p q \<or> takeover_edge p q \<or> lost_edge p q"

lemma call_phase_edge: "call_edge db l now row q \<Longrightarrow> phase_edge (batch_phase row) q"
  by (auto simp: call_edge_def phase_edge_def split: if_splits)

lemma journal_step_batch:
  assumes "journal_step H loads F db db'" and "journal_wf db" and "batch_row b (batch_table db) = Some row"
  shows "\<exists>row'. batch_row b (batch_table db') = Some row' \<and> batch_identity row' = batch_identity row
    \<and> batch_lease_fencing_token row \<le> batch_lease_fencing_token row'
    \<and> phase_edge\<^sup>*\<^sup>* (batch_phase row) (batch_phase row')"
  using assms(1)
proof (cases rule: journal_step.cases)
  case js_workspace
  then have "same_journal db db'" using workspace_step_journal journal_wf_parts(5) [OF assms(2)] by blast
  then show ?thesis using assms(3) by (simp add: same_journal_def)
next
  case (js_journal l now)
  then obtain row' where "batch_change l now b row row' db db'"
    using journal_call_batch [OF _ journal_wf_parts(1) [OF assms(2)] assms(3)] by blast
  then show ?thesis
    unfolding batch_change_def by (metis call_phase_edge r_into_rtranclp rtranclp.rtrancl_refl)
qed

lemma history_wf: "(journal_step H loads F)\<^sup>*\<^sup>* db db' \<Longrightarrow> journal_wf db \<Longrightarrow> journal_wf db'"
  by (rule journal_auth.run_invar)

lemma history_batch:
  assumes "(journal_step H loads F)\<^sup>*\<^sup>* db db'" and "journal_wf db" and "batch_row b (batch_table db) = Some row"
  shows "\<exists>row'. batch_row b (batch_table db') = Some row' \<and> batch_identity row' = batch_identity row
    \<and> batch_lease_fencing_token row \<le> batch_lease_fencing_token row'
    \<and> phase_edge\<^sup>*\<^sup>* (batch_phase row) (batch_phase row')"
  using assms
proof (induction rule: rtranclp_induct)
  case base
  then show ?case by simp
next
  case (step x y)
  then obtain r where r: "batch_row b (batch_table x) = Some r" "batch_identity r = batch_identity row"
    "batch_lease_fencing_token row \<le> batch_lease_fencing_token r" "phase_edge\<^sup>*\<^sup>* (batch_phase row) (batch_phase r)"
    by blast
  have "journal_wf x" using history_wf [OF step(1) step.prems(1)] .
  from journal_step_batch [OF step(2) this r(1)] show ?case
    using r(2-4) by (metis order_trans rtranclp_trans)
qed

lemma history_logs:
  assumes "(journal_step H loads F)\<^sup>*\<^sup>* db db'" and "journal_wf db"
  shows "logs_extend db db'"
  using assms
proof (induction rule: rtranclp_induct)
  case base
  then show ?case by simp
next
  case (step x y)
  have wf: "journal_wf x" by (rule history_wf [OF step(1) step.prems])
  have "logs_extend x y"
    using step(2)
  proof (cases rule: journal_step.cases)
    case js_workspace
    then show ?thesis using workspace_step_journal journal_wf_parts(5) [OF wf] same_journal_wf(5) by blast
  next
    case (js_journal l now)
    then show ?thesis using journal_call_logs journal_wf_parts(1) [OF wf] by blast
  qed
  then show ?case using step logs_extend_trans by blast
qed

subsection \<open>Operation runs\<close>

lemma call_runs: "(batch_write l b)\<^sup>*\<^sup>* db db' \<Longrightarrow> operation_run_table db' = operation_run_table db"
  using call_frame by (auto simp: same_runs_def)

lemma journal_call_run:
  assumes "journal_call H l now db db'" and "base_wf db" and "operation_run_row i (operation_run_table db) = Some r"
  shows "\<exists>r'. operation_run_row i (operation_run_table db') = Some r' \<and> run_change l r r'"
  using assms(1,2)
proof (cases rule: journal_call_kinds)
  case runs
  then show ?thesis using assms(3) unfolding runs_write_def by fastforce
qed (use assms(3) in \<open>auto simp: create_call_def record_call_def status_call_def phase_call_def call_runs
      intro!: exI [of _ r]\<close>)

lemma journal_step_run:
  assumes "journal_step H loads F db db'" and "journal_wf db" and "operation_run_row i (operation_run_table db) = Some r"
  shows "\<exists>r' l. operation_run_row i (operation_run_table db') = Some r' \<and> run_change l r r'"
  using assms(1)
proof (cases rule: journal_step.cases)
  case js_workspace
  then have "operation_run_table db' = operation_run_table db"
    using workspace_step_frame [OF _ journal_wf_parts(5) [OF assms(2)]] by fastforce
  then show ?thesis using assms(3) by (auto intro: exI [of _ r])
next
  case (js_journal l now)
  then show ?thesis using journal_call_run [OF _ journal_wf_parts(1) [OF assms(2)] assms(3)] by blast
qed

subsection \<open>The empty database\<close>

definition empty_db :: journal_db where
  "empty_db = \<lparr>lease_table = [], claim_table = [], batch_table = [], operation_table = [],
     checkpoint_table = [], recovery_table = [], recovery_action_table = [],
     artifact_cleanup_table = [], operation_run_table = [], operation_phase_table = []\<rparr>"

lemma empty_db_wf: "journal_wf empty_db"
  by (simp add: journal_wf_def base_wf_def empty_db_def lease_wf_def claim_wf_def log_wf_def unique_ids_def
      ordered_logs_def references_ok_def sequence_mset_def next_sequence_def fence_wf_def phase_wf_def
      histories_wf_def action_log.wf_log_Nil cleanup_log.wf_log_Nil)

lemma reachable_wf: "(journal_step H loads F)\<^sup>*\<^sup>* empty_db db \<Longrightarrow> journal_wf db"
  using history_wf empty_db_wf by blast

end
