(* ===== verification/Journal_Demo.thy ===== *)
theory Journal_Demo
  imports Journal_History
begin

section \<open>A concrete history\<close>

text \<open>
  One run of the journal that the witnesses of the properties evaluate: worker w1 holds the
  lease ws, creates and starts a batch, fails and begins its recovery with one action; its
  lease expires, worker w2 takes the recovery over. SHA-256 is \<open>rev\<close> here.
\<close>

definition out :: "error + journal_db \<times> 'b \<Rightarrow> journal_db" where
  "out r = (case r of Inl _ \<Rightarrow> empty_db | Inr (db, _) \<Rightarrow> db)"

definition res :: "error + journal_db \<times> 'b \<Rightarrow> 'b" where
  "res r = (case r of Inr (_, x) \<Rightarrow> x)"

lemma out_res: "\<not> isl r \<Longrightarrow> r = Inr (out r, res r)"
  by (cases r) (auto simp: out_def res_def)

definition w1 :: lease_record where "w1 = demo_lease"

definition demo_create :: "journal_db \<Rightarrow> error + journal_db \<times> operation_batch_record" where
  "demo_create = create_batch rev ''k1'' w1 ''w1'' ''run1'' None None (Some ''file:a'') None None None
     (Some ''b1'') [] 1"

definition demo_start :: "journal_db \<Rightarrow> error + journal_db \<times> operation_batch_record \<times> operation_record" where
  "demo_start = start_batch_operation rev ''b1'' w1 ''write'' (Some ''file:a'') None (Some ''o1'') None [] 2"

definition demo_fail :: "journal_db \<Rightarrow> error + journal_db \<times> operation_batch_record" where
  "demo_fail = mark_failed ''b1'' w1 ''boom'' None 3"

definition demo_desire :: "journal_db \<Rightarrow> error + journal_db \<times> recovery_record" where
  "demo_desire = record_recovery_desired rev ''b1'' w1 None None (Some ''r0'') [] [] 4"

definition demo_recover :: "journal_db \<Rightarrow> error + journal_db \<times> operation_batch_record \<times> recovery_record" where
  "demo_recover = start_recovery rev ''b1'' w1 None None (Some ''r1'') [] [] 5"

definition demo_plan :: "journal_db \<Rightarrow> error + journal_db \<times> recovery_action_record" where
  "demo_plan = record_recovery_action_planned rev ''b1'' w1 ''r1'' ''restore'' (Some ''file:a'') None
     (Some ''a1'') (Some ''ar1'') [] [] [] 6"

definition demo_attempt :: "journal_db \<Rightarrow> error + journal_db \<times> recovery_action_record" where
  "demo_attempt = mark_recovery_action rev ACTION_ATTEMPTING ''b1'' w1 ''r1'' ''a1'' None None (Some ''ar2'') [] [] [] 7"

definition db_leased :: journal_db where "db_leased = empty_db\<lparr>lease_table := [demo_row]\<rparr>"
definition db_planned :: journal_db where "db_planned = out (demo_create db_leased)"
definition db_started :: journal_db where "db_started = out (demo_start db_planned)"
definition db_failed :: journal_db where "db_failed = out (demo_fail db_started)"
definition db_desired :: journal_db where "db_desired = out (demo_desire db_failed)"
definition db_recovering :: journal_db where "db_recovering = out (demo_recover db_desired)"
definition db_action :: journal_db where "db_action = out (demo_plan db_recovering)"
definition db_attempting :: journal_db where "db_attempting = out (demo_attempt db_action)"

text \<open>Worker w2 takes the lease over at time 20 and the recovery at 21 and 22.\<close>

definition w2 :: lease_record where
  "w2 = lease_from_row (granted_row ''ws'' ''w2'' ''t2'' 2 20 100) True True"

definition demo_regrant :: "journal_db \<Rightarrow> error + journal_db \<times> lease_record" where
  "demo_regrant = acquire ''ws'' ''w2'' 100 (Some ''t2'') [] 20"

definition demo_takeover :: "journal_db \<Rightarrow> error + journal_db \<times> recovery_record" where
  "demo_takeover = record_recovery_desired rev ''b1'' w2 None None (Some ''r2'') ''h1'' [] 21"

definition demo_recover2 :: "journal_db \<Rightarrow> error + journal_db \<times> operation_batch_record \<times> recovery_record" where
  "demo_recover2 = start_recovery rev ''b1'' w2 None None (Some ''r3'') [] [] 22"

definition db_regranted :: journal_db where "db_regranted = out (demo_regrant db_attempting)"
definition db_takeover :: journal_db where "db_takeover = out (demo_takeover db_regranted)"
definition db_recovering2 :: journal_db where "db_recovering2 = out (demo_recover2 db_takeover)"

lemma demo_calls_succeed:
  "\<not> isl (demo_create db_leased)" "\<not> isl (demo_start db_planned)" "\<not> isl (demo_fail db_started)"
  "\<not> isl (demo_desire db_failed)" "\<not> isl (demo_recover db_desired)" "\<not> isl (demo_plan db_recovering)"
  "\<not> isl (demo_attempt db_action)" "\<not> isl (demo_regrant db_attempting)" "\<not> isl (demo_takeover db_regranted)"
  "\<not> isl (demo_recover2 db_takeover)"
  by code_simp+

text \<open>Each state of the run follows from the one before by one call.\<close>

lemma demo_results:
  "demo_create db_leased = Inr (db_planned, res (demo_create db_leased))"
  "demo_start db_planned = Inr (db_started, res (demo_start db_planned))"
  "demo_fail db_started = Inr (db_failed, res (demo_fail db_started))"
  "demo_desire db_failed = Inr (db_desired, res (demo_desire db_failed))"
  "demo_recover db_desired = Inr (db_recovering, res (demo_recover db_desired))"
  "demo_plan db_recovering = Inr (db_action, res (demo_plan db_recovering))"
  "demo_attempt db_action = Inr (db_attempting, res (demo_attempt db_action))"
  "demo_regrant db_attempting = Inr (db_regranted, res (demo_regrant db_attempting))"
  "demo_takeover db_regranted = Inr (db_takeover, res (demo_takeover db_regranted))"
  "demo_recover2 db_takeover = Inr (db_recovering2, res (demo_recover2 db_takeover))"
  using demo_calls_succeed [THEN out_res]
  by (simp_all add: db_planned_def db_started_def db_failed_def db_desired_def db_recovering_def
      db_action_def db_attempting_def db_regranted_def db_takeover_def db_recovering2_def)

lemma demo_acquire: "acquire ''ws'' ''w1'' 10 (Some ''t1'') [] 0 empty_db = Inr (db_leased, demo_lease)"
  by (simp add: lease_eval db_leased_def empty_db_def)

lemma demo_steps:
  "journal_step rev loads F empty_db db_leased"
  "journal_step rev loads F db_leased db_planned"
  "journal_step rev loads F db_planned db_started"
  "journal_step rev loads F db_started db_failed"
  "journal_step rev loads F db_failed db_desired"
  "journal_step rev loads F db_desired db_recovering"
  "journal_step rev loads F db_recovering db_action"
  "journal_step rev loads F db_action db_attempting"
  "journal_step rev loads F db_attempting db_regranted"
  "journal_step rev loads F db_regranted db_takeover"
  "journal_step rev loads F db_takeover db_recovering2"
proof -
  show "journal_step rev loads F empty_db db_leased"
    by (rule js_workspace, rule ws_lease, rule step_acquire, rule demo_acquire)
  show "journal_step rev loads F db_leased db_planned"
    by (rule js_journal, rule jc_create_batch, rule demo_results(1) [unfolded demo_create_def])
  show "journal_step rev loads F db_planned db_started"
    using demo_results(2) unfolding demo_start_def
    by (cases "res (demo_start db_planned)") (auto simp: demo_start_def intro: js_journal jc_start_batch_operation)
  show "journal_step rev loads F db_started db_failed"
    by (rule js_journal, rule jc_mark_failed, rule demo_results(3) [unfolded demo_fail_def])
  show "journal_step rev loads F db_failed db_desired"
    by (rule js_journal, rule jc_recovery_desired, rule demo_results(4) [unfolded demo_desire_def])
  show "journal_step rev loads F db_desired db_recovering"
    using demo_results(5) unfolding demo_recover_def
    by (cases "res (demo_recover db_desired)") (auto simp: demo_recover_def intro: js_journal jc_start_recovery)
  have "[] \<notin> action_id ` set (recovery_action_table db_recovering)" by code_simp
  then show "journal_step rev loads F db_recovering db_action"
    by (rule js_journal [OF jc_plan_action [OF demo_results(6) [unfolded demo_plan_def]]])
  show "journal_step rev loads F db_action db_attempting"
    by (rule js_journal, rule jc_mark_action, rule demo_results(7) [unfolded demo_attempt_def]) simp
  show "journal_step rev loads F db_attempting db_regranted"
    by (rule js_workspace, rule ws_lease, rule step_acquire, rule demo_results(8) [unfolded demo_regrant_def])
  show "journal_step rev loads F db_regranted db_takeover"
    by (rule js_journal, rule jc_recovery_desired, rule demo_results(9) [unfolded demo_takeover_def])
  show "journal_step rev loads F db_takeover db_recovering2"
    using demo_results(10) unfolding demo_recover2_def
    by (cases "res (demo_recover2 db_takeover)") (auto simp: demo_recover2_def intro: js_journal jc_start_recovery)
qed

lemma demo_reach:
  "(journal_step rev loads F)\<^sup>*\<^sup>* empty_db db_leased"
  "(journal_step rev loads F)\<^sup>*\<^sup>* empty_db db_planned"
  "(journal_step rev loads F)\<^sup>*\<^sup>* empty_db db_started"
  "(journal_step rev loads F)\<^sup>*\<^sup>* empty_db db_failed"
  "(journal_step rev loads F)\<^sup>*\<^sup>* empty_db db_desired"
  "(journal_step rev loads F)\<^sup>*\<^sup>* empty_db db_recovering"
  "(journal_step rev loads F)\<^sup>*\<^sup>* empty_db db_action"
  "(journal_step rev loads F)\<^sup>*\<^sup>* empty_db db_attempting"
  "(journal_step rev loads F)\<^sup>*\<^sup>* empty_db db_regranted"
  "(journal_step rev loads F)\<^sup>*\<^sup>* empty_db db_takeover"
  "(journal_step rev loads F)\<^sup>*\<^sup>* empty_db db_recovering2"
  by (meson demo_steps [of loads F] rtranclp.rtrancl_refl rtranclp.rtrancl_into_rtrancl)+

lemmas demo_wfs = demo_reach [where loads = "\<lambda>_. None" and F = "{}", THEN reachable_wf]

lemma demo_handover_run: "(journal_step rev loads F)\<^sup>*\<^sup>* db_recovering db_recovering2"
  by (meson demo_steps(7-11) [of loads F] rtranclp.rtrancl_refl rtranclp.rtrancl_into_rtrancl)

lemma demo_recovery_run: "(journal_step rev loads F)\<^sup>*\<^sup>* db_planned db_recovering"
  by (meson demo_steps(3-6) [of loads F] rtranclp.rtrancl_refl rtranclp.rtrancl_into_rtrancl)

text \<open>A third worker, w3, holds another lease, ws2, and creates a batch of its own.\<close>

definition w3 :: lease_record where
  "w3 = lease_from_row (granted_row ''ws2'' ''w3'' ''t3'' 1 23 100) True True"

definition demo_lease3 :: "journal_db \<Rightarrow> error + journal_db \<times> lease_record" where
  "demo_lease3 = acquire ''ws2'' ''w3'' 100 (Some ''t3'') [] 23"

definition demo_create3 :: "journal_db \<Rightarrow> error + journal_db \<times> operation_batch_record" where
  "demo_create3 = create_batch rev ''k2'' w3 ''w3'' ''run2'' None None None None None None (Some ''b2'') [] 24"

definition db_leased3 :: journal_db where "db_leased3 = out (demo_lease3 db_recovering2)"
definition db_other :: journal_db where "db_other = out (demo_create3 db_leased3)"

lemma demo_other_run: "(journal_step rev loads F)\<^sup>*\<^sup>* db_recovering2 db_leased3"
proof -
  have "\<not> isl (demo_lease3 db_recovering2)" by code_simp
  then have "demo_lease3 db_recovering2 = Inr (db_leased3, res (demo_lease3 db_recovering2))"
    unfolding db_leased3_def by (rule out_res)
  then show ?thesis
    unfolding demo_lease3_def by (intro r_into_rtranclp js_workspace ws_lease) (rule step_acquire)
qed

lemma demo_other_call: "journal_call rev w3 24 db_leased3 db_other"
proof -
  have "\<not> isl (demo_create3 db_leased3)" by code_simp
  then have "demo_create3 db_leased3 = Inr (db_other, res (demo_create3 db_leased3))"
    unfolding db_other_def by (rule out_res)
  then show ?thesis unfolding demo_create3_def by (rule jc_create_batch)
qed

end
