(* ===== verification/Journal_Properties.thy ===== *)
theory Journal_Properties
  imports Journal_Demo
begin

section \<open>Properties of the journal\<close>

text \<open>
  What the journal guarantees to its callers, over every history of calls of the lease, claim
  and journal stores. The witnesses evaluate the properties on the run of \<open>Journal_Demo\<close>.
\<close>

lemma key_lookup:
  assumes "log_wf db" and "r \<in> set (batch_table db)"
  shows "batch_row_by_idempotency_key (batch_idempotency_key r) (batch_table db) = Some r"
proof -
  have u: "unique_key batch_idempotency_key (batch_table db)"
    using assms(1) by (simp add: log_wf_def unique_ids_def)
  obtain x where x: "batch_row_by_idempotency_key (batch_idempotency_key r) (batch_table db) = Some x"
    using assms(2) by (cases "batch_row_by_idempotency_key (batch_idempotency_key r) (batch_table db)")
      (auto simp: key_lookup_None)
  then have "x \<in> set (batch_table db)" "batch_idempotency_key x = batch_idempotency_key r"
    by (auto simp: batch_row_by_idempotency_key_def find_Some_iff)
  with u assms(2) have "x = r"
    unfolding unique_key_def by (metis distinct_map inj_onD)
  with x show ?thesis by simp
qed

lemma match_identity:
  "batch_identity r' = batch_identity r
    \<Longrightarrow> require_matching_idempotent_batch r' l owner run_id orun ophase rk co cs p
      = require_matching_idempotent_batch r l owner run_id orun ophase rk co cs p"
  by (simp add: batch_identity_def require_matching_idempotent_batch_def)

lemma match_lease_name:
  "lease_name l' = lease_name l
    \<Longrightarrow> require_matching_idempotent_batch r l' owner run_id orun ophase rk co cs p
      = require_matching_idempotent_batch r l owner run_id orun ophase rk co cs p"
  by (simp add: require_matching_idempotent_batch_def)

text \<open>The batch that a successful \<open>create_batch\<close> returned, in any later database.\<close>

lemma created_batch_later:
  assumes "journal_wf db"
    and "create_batch H key l owner run_id orun ophase rk co cs payload bid fresh now db = Inr (db1, rec)"
    and "(journal_step H loads F)\<^sup>*\<^sup>* db1 db2"
  obtains row row' where "rec = batch_from_row row"
    "require_matching_idempotent_batch row l owner run_id orun ophase rk co cs (payload_to_json payload) = Inr ()"
    "key \<noteq> []" "owner \<noteq> []" "run_id \<noteq> []" "batch_idempotency_key row = key"
    "batch_row_by_idempotency_key key (batch_table db2) = Some row'" "batch_identity row' = batch_identity row"
    "phase_edge\<^sup>*\<^sup>* (batch_phase row) (batch_phase row')"
proof -
  have step: "journal_call H l now db db1" using assms(2) by (rule jc_create_batch)
  have wf1: "journal_wf db1" by (rule journal_call_wf [OF step assms(1)])
  have "\<exists>row. row \<in> set (batch_table db1) \<and> rec = batch_from_row row \<and> batch_idempotency_key row = key
    \<and> require_matching_idempotent_batch row l owner run_id orun ophase rk co cs (payload_to_json payload) = Inr ()
    \<and> key \<noteq> [] \<and> owner \<noteq> [] \<and> run_id \<noteq> []"
    using assms(2)
  proof (cases rule: create_batch_ok)
    case (existing row)
    then have "row \<in> set (batch_table db1)" "batch_idempotency_key row = key"
      by (auto simp: batch_row_by_idempotency_key_def find_Some_iff)
    with existing show ?thesis by blast
  next
    case (created r t)
    then show ?thesis by (intro exI [of _ r]) (simp add: sql_insert_Some)
  qed
  then obtain row where row: "row \<in> set (batch_table db1)" "rec = batch_from_row row" "batch_idempotency_key row = key"
    "require_matching_idempotent_batch row l owner run_id orun ophase rk co cs (payload_to_json payload) = Inr ()"
    "key \<noteq> []" "owner \<noteq> []" "run_id \<noteq> []" by blast
  have "batch_row (batch_id row) (batch_table db1) = Some row"
    using batches.get_row_unique [OF log_wf_parts(1) [OF journal_wf_parts(4) [OF wf1]] row(1)] .
  from history_batch [OF assms(3) wf1 this] obtain row' where
    row': "batch_row (batch_id row) (batch_table db2) = Some row'" "batch_identity row' = batch_identity row"
      "phase_edge\<^sup>*\<^sup>* (batch_phase row) (batch_phase row')" by blast
  have "batch_row_by_idempotency_key key (batch_table db2) = Some row'"
    using key_lookup [OF journal_wf_parts(4) [OF history_wf [OF assms(3) wf1]], of row']
      batches.get_row_Some [OF row'(1)] batch_identity_fields(2) [OF row'(2)] row(3) by simp
  with row row' show ?thesis by (intro that [of row row']) simp_all
qed

text \<open>
  C7. \<open>create_batch\<close> is idempotent. Once a request has created (or found) a batch, then after
  any history the same request, made with any current lease of the same name, returns that
  batch, whatever has happened to it since, and changes nothing; no new batch can appear under
  the key. A request with the same key that differs in owner, run, operation links, resource,
  claim or canonical payload raises \<open>BatchIdempotencyMismatchError\<close>.
\<close>

theorem create_batch_idempotent:
  assumes "journal_wf db"
    and "create_batch H key l owner run_id orun ophase rk co cs payload bid fresh now db = Inr (db1, rec)"
    and "(journal_step H loads F)\<^sup>*\<^sup>* db1 db2"
    and "lease_is_current db2 l' now'" and "lease_name l' = lease_name l"
  shows "(\<exists>rec'. create_batch H key l' owner run_id orun ophase rk co cs payload bid' fresh' now' db2 = Inr (db2, rec')
      \<and> br_batch_id rec' = br_batch_id rec \<and> br_payload rec' = br_payload rec
      \<and> br_created_at rec' = br_created_at rec)
    \<and> (owner' \<noteq> [] \<and> run_id' \<noteq> []
        \<and> (owner', run_id', orun', ophase', rk', co', cs', payload_to_json payload')
           \<noteq> (owner, run_id, orun, ophase, rk, co, cs, payload_to_json payload)
       \<longrightarrow> create_batch H key l' owner' run_id' orun' ophase' rk' co' cs' payload' bid' fresh' now' db2
           = Inl BatchIdempotencyMismatchError)"
proof -
  obtain row row' where row: "rec = batch_from_row row"
    "require_matching_idempotent_batch row l owner run_id orun ophase rk co cs (payload_to_json payload) = Inr ()"
    "key \<noteq> []" "owner \<noteq> []" "run_id \<noteq> []" "batch_idempotency_key row = key"
    and found: "batch_row_by_idempotency_key key (batch_table db2) = Some row'"
    and same: "batch_identity row' = batch_identity row"
    by (rule created_batch_later [OF assms(1-3)])
  have match: "require_matching_idempotent_batch row' l' owner run_id orun ophase rk co cs (payload_to_json payload) = Inr ()"
    using row(2) by (simp add: match_identity [OF same] match_lease_name [OF assms(5)])
  have again: "create_batch H key l' owner run_id orun ophase rk co cs payload bid' fresh' now' db2
      = Inr (db2, batch_from_row row')"
    using row assms(4) found match by (simp add: create_batch_def require_current_lease_def validate_required_def)
  have other: "create_batch H key l' owner' run_id' orun' ophase' rk' co' cs' payload' bid' fresh' now' db2
           = Inl BatchIdempotencyMismatchError"
    if "owner' \<noteq> []" "run_id' \<noteq> []"
      "(owner', run_id', orun', ophase', rk', co', cs', payload_to_json payload')
         \<noteq> (owner, run_id, orun, ophase, rk, co, cs, payload_to_json payload)"
    using row assms(4) found match that
    by (auto simp: create_batch_def require_current_lease_def require_matching_idempotent_batch_def
        validate_required_def require_def res_bind_def split: if_splits)
  show ?thesis
    using again other same row(1) by (simp add: batch_from_row_def batch_identity_def)
qed

theorem create_batch_idempotent_witness:
  "\<exists>rec. create_batch rev ''k1'' w1 ''w1'' ''run1'' None None (Some ''file:a'') None None None None ''x'' 6 db_recovering
       = Inr (db_recovering, rec) \<and> br_batch_id rec = ''b1''
   \<and> create_batch rev ''k1'' w1 ''w1'' ''run1'' None None (Some ''file:b'') None None None None ''x'' 6 db_recovering
       = Inl BatchIdempotencyMismatchError"
proof -
  have cur: "lease_is_current db_recovering w1 6" by code_simp
  have id: "br_batch_id (res (demo_create db_leased)) = ''b1''" by code_simp
  show ?thesis
    using create_batch_idempotent [OF demo_wfs(1) demo_results(1) [unfolded demo_create_def] demo_recovery_run cur refl,
        where owner' = "''w1''" and run_id' = "''run1''" and orun' = None and ophase' = None
          and rk' = "Some ''file:b''" and co' = None and cs' = None and payload' = None and bid' = None
          and fresh' = "''x''"] id
    by (auto simp: demo_create_def)
qed

subsection \<open>Phases\<close>

text \<open>
  C8. The phase of a batch changes only along the edges that are open to the caller. In one
  successful call of any journal method, a batch keeps its phase or the caller's lease may write
  the batch and the change is: for the lease the batch is bound to, a transition of
  \<open>_VALID_TRANSITIONS\<close> or the rollback of a succeeded batch; for a newer current lease, a start
  of a planned batch or a takeover of its recovery; for a lease that is no longer current, the
  lease-lost marker.
\<close>

theorem phase_changes_follow_the_graph:
  assumes "journal_wf db" and "journal_call H l now db db'" and "batch_row b (batch_table db) = Some row"
  shows "\<exists>row'. batch_row b (batch_table db') = Some row'
    \<and> (batch_phase row' = batch_phase row
       \<or> may_write l row \<and> call_edge db l now row (batch_phase row'))"
proof -
  obtain row' where "batch_change l now b row row' db db'"
    using journal_call_batch [OF assms(2) journal_wf_parts(1) [OF assms(1)] assms(3)] by blast
  then show ?thesis
    using assms(3) by (intro exI [of _ row']) (auto simp: batch_change_def journal_of_def)
qed

theorem phase_changes_follow_the_graph_witness:
  "\<exists>row row'. batch_row ''b1'' (batch_table db_desired) = Some row \<and> batch_phase row = RECOVERY_DESIRED
    \<and> batch_row ''b1'' (batch_table db_recovering) = Some row' \<and> batch_phase row' = RECOVERING
    \<and> call_edge db_desired w1 5 row RECOVERING"
proof -
  let ?row = "the (batch_row ''b1'' (batch_table db_desired))"
  let ?row' = "the (batch_row ''b1'' (batch_table db_recovering))"
  have call: "journal_call rev w1 5 db_desired db_recovering"
    using demo_results(5) unfolding demo_recover_def
    by (cases "res (demo_recover db_desired)") (auto simp: demo_recover_def intro: jc_start_recovery)
  have row: "batch_row ''b1'' (batch_table db_desired) = Some ?row" by code_simp
  have row': "batch_row ''b1'' (batch_table db_recovering) = Some ?row'" by code_simp
  have ph: "batch_phase ?row = RECOVERY_DESIRED" "batch_phase ?row' = RECOVERING" by code_simp+
  have "call_edge db_desired w1 5 ?row (batch_phase ?row')"
    using phase_changes_follow_the_graph [OF demo_wfs(5) call row] row' ph by auto
  with row row' ph show ?thesis by auto
qed

lemma phase_edge_kept:
  assumes "phase_edge\<^sup>*\<^sup>* p q"
  shows "p = RECOVERY_SUCCEEDED \<Longrightarrow> q = RECOVERY_SUCCEEDED"
    "p \<in> recovery_phases \<Longrightarrow> q \<in> recovery_phases"
    "p \<noteq> PLANNED \<Longrightarrow> q \<noteq> PLANNED"
    "p \<in> insert SUCCEEDED recovery_phases \<Longrightarrow> q \<in> insert SUCCEEDED recovery_phases"
    "p \<in> insert FAILED recovery_phases \<Longrightarrow> q \<in> insert FAILED recovery_phases"
proof -
  have edge: "(x = RECOVERY_SUCCEEDED \<longrightarrow> y = RECOVERY_SUCCEEDED) \<and> (x \<in> recovery_phases \<longrightarrow> y \<in> recovery_phases)
      \<and> y \<noteq> PLANNED \<and> (x \<in> insert SUCCEEDED recovery_phases \<longrightarrow> y \<in> insert SUCCEEDED recovery_phases)
      \<and> (x \<in> insert FAILED recovery_phases \<longrightarrow> y \<in> insert FAILED recovery_phases)" if "phase_edge x y" for x y
    using that by (cases x)
      (auto simp: phase_edge_def own_edge_def takeover_edge_def lost_edge_def recovery_phases_def)
  show "p = RECOVERY_SUCCEEDED \<Longrightarrow> q = RECOVERY_SUCCEEDED"
    using rtranclp_invariant [OF assms, of "\<lambda>x. x = RECOVERY_SUCCEEDED"] edge by blast
  show "p \<in> recovery_phases \<Longrightarrow> q \<in> recovery_phases"
    using rtranclp_invariant [OF assms, of "\<lambda>x. x \<in> recovery_phases"] edge by blast
  show "p \<noteq> PLANNED \<Longrightarrow> q \<noteq> PLANNED"
    using rtranclp_invariant [OF assms, of "\<lambda>x. x \<noteq> PLANNED"] edge by blast
  show "p \<in> insert SUCCEEDED recovery_phases \<Longrightarrow> q \<in> insert SUCCEEDED recovery_phases"
    using rtranclp_invariant [OF assms, of "\<lambda>x. x \<in> insert SUCCEEDED recovery_phases"] edge by blast
  show "p \<in> insert FAILED recovery_phases \<Longrightarrow> q \<in> insert FAILED recovery_phases"
    using rtranclp_invariant [OF assms, of "\<lambda>x. x \<in> insert FAILED recovery_phases"] edge by blast
qed

text \<open>
  C9. Outcomes are kept. Over any history of calls by any workers: a recovered batch stays
  recovered; a batch in recovery never runs, succeeds or fails as an ordinary batch again; a
  succeeded batch can only be rolled back, a failed one only be recovered; and no batch becomes
  planned again. Its identity (key, run, owner, resource, payload) never changes.
\<close>

theorem batch_outcomes_are_kept:
  assumes "journal_wf db" and "(journal_step H loads F)\<^sup>*\<^sup>* db db'" and "batch_row b (batch_table db) = Some row"
  shows "\<exists>row'. batch_row b (batch_table db') = Some row' \<and> batch_identity row' = batch_identity row
    \<and> (batch_phase row = RECOVERY_SUCCEEDED \<longrightarrow> batch_phase row' = RECOVERY_SUCCEEDED)
    \<and> (batch_phase row \<in> recovery_phases \<longrightarrow> batch_phase row' \<in> recovery_phases)
    \<and> (batch_phase row = SUCCEEDED \<longrightarrow> batch_phase row' \<in> insert SUCCEEDED recovery_phases)
    \<and> (batch_phase row = FAILED \<longrightarrow> batch_phase row' \<in> insert FAILED recovery_phases)
    \<and> (batch_phase row \<noteq> PLANNED \<longrightarrow> batch_phase row' \<noteq> PLANNED)"
proof -
  obtain row' where row': "batch_row b (batch_table db') = Some row'" "batch_identity row' = batch_identity row"
    and path: "phase_edge\<^sup>*\<^sup>* (batch_phase row) (batch_phase row')"
    using history_batch [OF assms(2,1,3)] by blast
  from phase_edge_kept [OF path] show ?thesis using row' by (intro exI [of _ row']) simp
qed

theorem batch_outcomes_are_kept_witness:
  "\<exists>row. batch_row ''b1'' (batch_table db_recovering2) = Some row \<and> batch_phase row \<in> recovery_phases
    \<and> br_batch_id (batch_from_row row) = ''b1''"
proof -
  let ?row = "the (batch_row ''b1'' (batch_table db_recovering))"
  have row: "batch_row ''b1'' (batch_table db_recovering) = Some ?row" by code_simp
  have ph: "batch_phase ?row = RECOVERING" "batch_id ?row = ''b1''" by code_simp+
  obtain row' where "batch_row ''b1'' (batch_table db_recovering2) = Some row'" "batch_identity row' = batch_identity ?row"
    "batch_phase row' \<in> recovery_phases"
    using batch_outcomes_are_kept [OF demo_wfs(6) demo_handover_run row] ph(1) by (auto simp: recovery_phases_def)
  then show ?thesis using ph(2) by (auto simp: batch_identity_def batch_from_row_def)
qed

subsection \<open>Fencing\<close>

text \<open>
  C10. A worker that has been fenced off cannot touch a batch. Once a batch is bound to a larger
  fencing token than the worker's lease carries, or to another lease name, then after any
  history no journal call of that worker, current or not, with any clock reading, changes the
  row of the batch or adds a record to any of its five logs; and the fencing token of a batch
  never goes back.
\<close>

theorem fenced_worker_leaves_batch_alone:
  assumes "journal_wf db" and "batch_row b (batch_table db) = Some row"
    and "lease_fencing_token l < batch_lease_fencing_token row \<or> lease_name l \<noteq> batch_lease_name row"
    and "(journal_step H loads F)\<^sup>*\<^sup>* db db'"
    and "journal_call H l now db' db''"
  shows "journal_of b db'' = journal_of b db'
    \<and> (\<exists>row'. batch_row b (batch_table db'') = Some row'
         \<and> batch_lease_fencing_token row \<le> batch_lease_fencing_token row')"
proof -
  have wf: "journal_wf db'" by (rule history_wf [OF assms(4,1)])
  obtain row' where row': "batch_row b (batch_table db') = Some row'" "batch_identity row' = batch_identity row"
    "batch_lease_fencing_token row \<le> batch_lease_fencing_token row'"
    using history_batch [OF assms(4,1,2)] by blast
  then have no: "\<not> may_write l row'"
    using assms(3) batch_identity_fields(3) [OF row'(2)] by (auto simp: may_write_def)
  obtain row'' where "batch_change l now b row' row'' db' db''"
    using journal_call_batch [OF assms(5) journal_wf_parts(1) [OF wf] row'(1)] by blast
  with no row'(3) show ?thesis by (auto simp: batch_change_def)
qed

theorem fenced_worker_leaves_batch_alone_witness:
  "\<exists>row. batch_row ''b1'' (batch_table db_recovering2) = Some row
    \<and> lease_fencing_token w3 < batch_lease_fencing_token row
    \<and> batch_table db_other \<noteq> batch_table db_recovering2
    \<and> journal_of ''b1'' db_other = journal_of ''b1'' db_recovering2"
proof -
  let ?row = "the (batch_row ''b1'' (batch_table db_recovering2))"
  have row: "batch_row ''b1'' (batch_table db_recovering2) = Some ?row" by code_simp
  have fence: "lease_fencing_token w3 < batch_lease_fencing_token ?row" by code_simp
  have same: "journal_of ''b1'' db_leased3 = journal_of ''b1'' db_recovering2" by code_simp
  have new: "batch_table db_other \<noteq> batch_table db_recovering2" by code_simp
  have "journal_of ''b1'' db_other = journal_of ''b1'' db_leased3"
    using fenced_worker_leaves_batch_alone [OF demo_wfs(11) row _ demo_other_run demo_other_call] fence by blast
  with row fence same new show ?thesis by auto
qed

end
