(* ===== verification/Journal_Listings.thy ===== *)
theory Journal_Listings
  imports Journal_History
begin

section \<open>The listings of the journal over its histories\<close>

text \<open>
  On every database of the journal, the public listings are the records of a batch in the order
  in which they were written, and the queries for a latest row find the record written last.
  The lemmas carry what \<open>log_wf\<close> and \<open>logs_extend\<close> say of the tables over to the
  listings, and follow a recovery attempt through a history.
\<close>

named_theorems listing_simps \<open>listings as filters of the tables\<close>

lemma listings [listing_simps]:
  assumes "log_wf db"
  shows "list_operations b db = filter (\<lambda>r. operation_batch_id r = b) (operation_table db)"
    "list_checkpoints b db = filter (\<lambda>r. checkpoint_batch_id r = b) (checkpoint_table db)"
    "list_recovery_records b db = filter (\<lambda>r. recovery_batch_id r = b) (recovery_table db)"
    "list_recovery_actions b attempt db
      = filter (\<lambda>r. action_batch_id r = b
          \<and> (case attempt of None \<Rightarrow> True | Some a \<Rightarrow> action_recovery_attempt_id r = a)) (recovery_action_table db)"
    "list_artifact_cleanup_records b artifact db
      = filter (\<lambda>r. cleanup_batch_id r = b
          \<and> (case artifact of None \<Rightarrow> True | Some a \<Rightarrow> cleanup_artifact_id r = a)) (artifact_cleanup_table db)"
  using log_wf_parts(2) [OF assms]
  by (auto simp: ordered_logs_def list_operations_def list_checkpoints_def list_recovery_records_def
      list_recovery_actions_def list_artifact_cleanup_records_def intro!: select_is_filter [where b = b])

lemma journal_of_listings:
  assumes "log_wf db"
  shows "journal_of b db = (batch_row b (batch_table db), list_operations b db, list_checkpoints b db,
    list_recovery_records b db, list_recovery_actions b None db, list_artifact_cleanup_records b None db)"
  by (simp add: journal_of_def listing_simps assms)

lemma prefix_filter: "prefix xs ys \<Longrightarrow> prefix (filter p xs) (filter p ys)"
  by (auto simp: prefix_def)

lemma listings_extend:
  assumes "logs_extend db db'" and "log_wf db" and "log_wf db'"
  shows "prefix (list_operations b db) (list_operations b db')"
    "prefix (list_checkpoints b db) (list_checkpoints b db')"
    "prefix (list_recovery_records b db) (list_recovery_records b db')"
    "prefix (list_recovery_actions b attempt db) (list_recovery_actions b attempt db')"
    "prefix (list_artifact_cleanup_records b artifact db) (list_artifact_cleanup_records b artifact db')"
  using assms by (simp_all add: listing_simps logs_extend_def prefix_filter)

lemma listings_sorted:
  assumes "log_wf db"
  shows "sorted_wrt (<) (map operation_sequence (list_operations b db))"
    "sorted_wrt (<) (map checkpoint_sequence (list_checkpoints b db))"
    "sorted_wrt (<) (map recovery_sequence (list_recovery_records b db))"
    "sorted_wrt (<) (map action_sequence (list_recovery_actions b None db))"
    "sorted_wrt (<) (map cleanup_sequence (list_artifact_cleanup_records b None db))"
  using log_wf_parts(2) [OF assms] by (simp_all add: listing_simps assms ordered_logs_def ordered_log_def)

text \<open>All sequence numbers of a batch, from the five listings.\<close>

definition listed_sequences :: "string \<Rightarrow> 'a journal_db_scheme \<Rightarrow> nat list" where
  "listed_sequences b db = map operation_sequence (list_operations b db)
     @ map checkpoint_sequence (list_checkpoints b db)
     @ map recovery_sequence (list_recovery_records b db)
     @ map action_sequence (list_recovery_actions b None db)
     @ map cleanup_sequence (list_artifact_cleanup_records b None db)"

lemma listed_sequences_mset:
  assumes "log_wf db"
  shows "mset (listed_sequences b db) = mset [1..<next_sequence b db]"
proof -
  have "mset (listed_sequences b db) = sequence_mset b db"
    by (simp add: listed_sequences_def sequence_mset_def listing_simps assms)
  also have "\<dots> = mset_set {1..<next_sequence b db}" using assms by (simp add: log_wf_def)
  also have "\<dots> = mset [1..<next_sequence b db]" by simp
  finally show ?thesis .
qed

subsection \<open>Recovery attempts\<close>

lemma last_recovery_in:
  "last_recovery b db = Some r \<Longrightarrow> r \<in> set (recovery_table db) \<and> recovery_batch_id r = b"
  unfolding last_recovery_def by (drule last_of_Some) simp

lemma not_isl_pair: "\<not> isl r \<Longrightarrow> \<exists>db x. r = Inr (db, x)"
  by (cases r) auto

lemma last_recovery_listing:
  assumes "log_wf db"
  shows "last_recovery b db = (if list_recovery_records b db = [] then None else Some (last (list_recovery_records b db)))"
  by (simp add: last_recovery_def last_of_def listing_simps assms)

lemma phase_wf_row:
  assumes "journal_wf db" and "batch_row b (batch_table db) = Some row"
  shows "phase_ok db row" "batch_id row = b"
  using assms phase_wf_rows [OF journal_wf_parts(4) [OF assms(1)]] journal_wf_parts(2) [OF assms(1)]
    batch_row_in by blast+

lemma recovering_attempt:
  assumes "journal_wf db" and "batch_row b (batch_table db) = Some row" and "batch_phase row = RECOVERING"
  obtains r where "last_recovery b db = Some r" "recovery_phase r = RECOVERING"
    "latest_recovering_recovery_row b (recovery_table db) = Some r"
proof -
  have log: "log_wf db" by (rule journal_wf_parts(4) [OF assms(1)])
  obtain r where r: "last_recovery b db = Some r" "recovery_phase r = RECOVERING"
    using phase_wf_row [OF assms(1,2)] assms(3) by (auto simp: phase_ok_def recovery_phases_def split: option.splits)
  let ?t = "filter (\<lambda>r. recovery_batch_id r = b) (recovery_table db)"
  have t: "?t \<noteq> []" "last ?t = r" using r(1) by (auto simp: last_recovery_def last_of_def split: if_splits)
  then have "?t = butlast ?t @ [r]" using append_butlast_last_id by metis
  then have "last_of (\<lambda>r. recovery_phase r = RECOVERING) ?t = Some r"
    using r(2) last_of_append [of "\<lambda>r. recovery_phase r = RECOVERING" "butlast ?t" r] by simp
  then have "last_of (\<lambda>r. recovery_batch_id r = b \<and> recovery_phase r = RECOVERING) (recovery_table db) = Some r"
    by (simp only: last_of_def filter_filter)
  then have "latest_recovering_recovery_row b (recovery_table db) = Some r"
    unfolding latest_recovering_recovery_row_def
    by (subst latest_is_last [where batch_of = recovery_batch_id and b = b, OF log_wf_parts(4) [OF log]]) auto
  with r that show ?thesis by blast
qed

text \<open>A record of a batch that is not the last one will not be the last one again.\<close>

lemma last_recovery_superseded:
  assumes "journal_wf db" and "last_recovery b db = Some r"
    and "(journal_step H loads F)\<^sup>*\<^sup>* db db'" and "last_recovery b db' \<noteq> Some r"
    and "(journal_step H loads F)\<^sup>*\<^sup>* db' db''"
  shows "last_recovery b db'' \<noteq> Some r"
proof
  assume eq: "last_recovery b db'' = Some r"
  let ?t = "\<lambda>db. filter (\<lambda>r. recovery_batch_id r = b) (recovery_table db)"
  have wf': "journal_wf db'" by (rule history_wf [OF assms(3,1)])
  have wf'': "journal_wf db''" by (rule history_wf [OF assms(5) wf'])
  obtain u v where uv: "?t db' = ?t db @ u" "?t db'' = ?t db' @ v"
    using history_logs [OF assms(3,1)] history_logs [OF assms(5) wf']
    by (auto simp: logs_extend_def prefix_def)
  have r: "?t db \<noteq> []" "last (?t db) = r" "last (?t db'') = r"
    using assms(2) eq by (auto simp: last_recovery_def last_of_def split: if_splits)
  have "u \<noteq> []"
    using assms(4) r(1,2) uv(1) by (auto simp: last_recovery_def last_of_def)
  then have "last (?t db'') \<in> set (u @ v)" unfolding uv by (metis append_assoc append_is_Nil_conv last_appendR last_in_set)
  then have "r \<in> set (u @ v)" "r \<in> set (?t db)" using r last_in_set by metis+
  moreover have "distinct (?t db'')"
  proof -
    have "distinct (map recovery_id (recovery_table db''))"
      using log_wf_parts(7) [OF journal_wf_parts(4) [OF wf'']] by (simp add: unique_key_def)
    then show ?thesis by (simp add: distinct_map)
  qed
  ultimately show False unfolding uv by auto
qed

text \<open>Ids are unique for good: two last records with one id, seen at two times, are one record.\<close>

lemma same_recovery_record:
  assumes "journal_wf db" and "(journal_step H loads F)\<^sup>*\<^sup>* db db'"
    and "last_recovery b db = Some r" and "last_recovery b' db' = Some x" and "recovery_id x = recovery_id r"
  shows "x = r"
proof -
  have "prefix (recovery_table db) (recovery_table db')"
    using history_logs [OF assms(2,1)] by (simp add: logs_extend_def)
  then have "r \<in> set (recovery_table db')" "x \<in> set (recovery_table db')"
    using last_recovery_in [OF assms(3)] last_recovery_in [OF assms(4)] set_mono_prefix by blast+
  then show ?thesis
    using recoveries.unique_same_row [OF log_wf_parts(7) [OF journal_wf_parts(4) [OF history_wf [OF assms(2,1)]]]]
      assms(5) by simp
qed

end
