(* ===== verification/Record_Properties.thy ===== *)
theory Record_Properties
  imports Journal_Properties Journal_Listings
begin

section \<open>Properties of the records of a batch\<close>

text \<open>
  The five logs of a batch: one sequence of numbers, nothing ever removed or rewritten, the
  status histories of recovery actions and artifact cleanups, the references between records
  and the atomic start of a batch.
\<close>

subsection \<open>One append-only sequence\<close>

text \<open>
  C11. The records of a batch form one sequence. In every database that the stores can reach,
  the sequence numbers over the operations, checkpoints, recovery records, recovery actions and
  artifact cleanups of a batch are exactly 1, 2, ..., n, each used once, \<open>_next_sequence\<close> is
  n + 1, and every listing is in strictly increasing order: a reader can merge the five
  listings into one timeline.
\<close>

theorem sequence_numbers_gapless:
  assumes "(journal_step H loads F)\<^sup>*\<^sup>* empty_db db"
  shows "mset (listed_sequences b db) = mset [1..<next_sequence b db]
    \<and> sorted_wrt (<) (map operation_sequence (list_operations b db))
    \<and> sorted_wrt (<) (map checkpoint_sequence (list_checkpoints b db))
    \<and> sorted_wrt (<) (map recovery_sequence (list_recovery_records b db))
    \<and> sorted_wrt (<) (map action_sequence (list_recovery_actions b None db))
    \<and> sorted_wrt (<) (map cleanup_sequence (list_artifact_cleanup_records b None db))"
proof -
  have log: "log_wf db" by (rule journal_wf_parts(4) [OF reachable_wf [OF assms]])
  show ?thesis using listed_sequences_mset [OF log] listings_sorted [OF log] by simp
qed

theorem sequence_numbers_gapless_witness:
  "next_sequence ''b1'' db_attempting = 6
   \<and> mset (listed_sequences ''b1'' db_attempting) = {#1, 2, 3, 4, 5#}"
proof -
  have "next_sequence ''b1'' db_attempting = 6" by code_simp
  then show ?thesis
    using sequence_numbers_gapless [OF demo_reach(8), where b = "''b1''"]
    by (simp add: numeral_eq_Suc)
qed

text \<open>
  The journal is append-only. Over any history of calls of any workers, each listing of a
  batch only grows at its end: no record is removed, changed or reordered, so that what a reader
  saw stays a prefix of what later readers see.
\<close>

theorem listings_are_append_only:
  assumes "journal_wf db" and "(journal_step H loads F)\<^sup>*\<^sup>* db db'"
  shows "prefix (list_operations b db) (list_operations b db')
    \<and> prefix (list_checkpoints b db) (list_checkpoints b db')
    \<and> prefix (list_recovery_records b db) (list_recovery_records b db')
    \<and> prefix (list_recovery_actions b attempt db) (list_recovery_actions b attempt db')
    \<and> prefix (list_artifact_cleanup_records b artifact db) (list_artifact_cleanup_records b artifact db')"
proof -
  have "log_wf db" "log_wf db'"
    using journal_wf_parts(4) assms(1) history_wf [OF assms(2,1)] by blast+
  from listings_extend [OF history_logs [OF assms(2,1)] this] show ?thesis by simp
qed

theorem listings_are_append_only_witness:
  "prefix (list_recovery_records ''b1'' db_recovering) (list_recovery_records ''b1'' db_recovering2)
   \<and> length (list_recovery_records ''b1'' db_recovering) = 2
   \<and> length (list_recovery_records ''b1'' db_recovering2) = 5"
proof -
  have "length (list_recovery_records ''b1'' db_recovering) = 2"
    "length (list_recovery_records ''b1'' db_recovering2) = 5" by code_simp+
  then show ?thesis using listings_are_append_only [OF demo_wfs(6) demo_handover_run] by simp
qed

end
