(* ===== verification/Recovery_Properties.thy ===== *)
theory Recovery_Properties
  imports Record_Properties
begin

section \<open>Properties of recovery\<close>

text \<open>
  What a recovery callback can rely on: the context it reads exists and names the attempt that
  is active, an attempt that is no longer the latest one is fenced off for good, only the lease
  that the batch is bound to records actions, and an attempt is completed at most once.
\<close>

text \<open>
  C12. Reading the recovery context of an existing batch never fails: the error
  \<open>RecoveryContextError\<close> is unreachable. While the batch is recovering, the context names the
  last recovery record as the attempt, and that attempt is the one the action guards accept; in
  every other phase it names none. An unknown batch raises \<open>BatchNotFoundError\<close>.
\<close>

theorem recovery_context_total:
  assumes "journal_wf db" and "b \<noteq> []"
  shows "case batch_row b (batch_table db) of
      None \<Rightarrow> read_recovery_context py_str b db = Inl BatchNotFoundError
    | Some row \<Rightarrow> (\<exists>ctx. read_recovery_context py_str b db = Inr ctx
        \<and> rc_batch ctx = batch_from_row row \<and> rc_recovery_records ctx = list_recovery_records b db
        \<and> (if batch_phase row = RECOVERING
           then list_recovery_records b db \<noteq> []
             \<and> rc_recovery_attempt ctx = Some (last (list_recovery_records b db))
             \<and> recovery_phase (last (list_recovery_records b db)) = RECOVERING
             \<and> (recovery_id (last (list_recovery_records b db)) \<noteq> [] \<longrightarrow>
                 require_active_recovery_attempt b (Some (recovery_id (last (list_recovery_records b db)))) db
                   = Inr (last (list_recovery_records b db)))
           else rc_recovery_attempt ctx = None))"
proof (cases "batch_row b (batch_table db)")
  case None
  then show ?thesis using assms(2) by (simp add: read_recovery_context_def validate_required_def)
next
  case (Some row)
  have log: "log_wf db" by (rule journal_wf_parts(4) [OF assms(1)])
  show ?thesis
  proof (cases "batch_phase row = RECOVERING")
    case True
    obtain r where r: "last_recovery b db = Some r" "recovery_phase r = RECOVERING"
      "latest_recovering_recovery_row b (recovery_table db) = Some r"
      by (rule recovering_attempt [OF assms(1) Some True])
    then have "list_recovery_records b db \<noteq> []" "last (list_recovery_records b db) = r"
      using last_recovery_listing [OF log, of b] by (auto split: if_splits)
    then show ?thesis
      using Some True r assms(2) active_attempt_ok [OF log, of b "Some (recovery_id r)" r]
      by (simp add: read_recovery_context_def validate_required_def Let_def)
  next
    case False
    then show ?thesis using Some assms(2) by (simp add: read_recovery_context_def validate_required_def Let_def)
  qed
qed

theorem recovery_context_total_witness:
  "\<exists>ctx r. read_recovery_context (\<lambda>_. []) ''b1'' db_recovering = Inr ctx
    \<and> rc_recovery_attempt ctx = Some r \<and> recovery_id r = ''r1''"
proof -
  have row: "batch_row ''b1'' (batch_table db_recovering) = Some (the (batch_row ''b1'' (batch_table db_recovering)))"
    by code_simp
  have ph: "batch_phase (the (batch_row ''b1'' (batch_table db_recovering))) = RECOVERING" by code_simp
  have id: "recovery_id (last (list_recovery_records ''b1'' db_recovering)) = ''r1''" by code_simp
  have "''b1'' \<noteq> ([] :: string)" by simp
  from recovery_context_total [OF demo_wfs(6) this, where py_str = "\<lambda>_. []"] show ?thesis
    using ph id by (subst (asm) row) auto
qed

text \<open>
  C13. A superseded attempt stays fenced off. Once a recovery attempt was active and is not any
  more (the recovery was completed, requeued or taken over), no later history makes it active
  again: every check of it, and with it every action or checkpoint that names it, raises
  \<open>RecoveryAttemptMismatchError\<close>.
\<close>

theorem superseded_attempt_never_active:
  assumes "journal_wf db" and "require_active_recovery_attempt b (Some a) db = Inr r"
    and "(journal_step H loads F)\<^sup>*\<^sup>* db db'"
    and "\<And>x. require_active_recovery_attempt b (Some a) db' \<noteq> Inr x"
    and "(journal_step H loads F)\<^sup>*\<^sup>* db' db''"
  shows "require_active_recovery_attempt b (Some a) db'' = Inl RecoveryAttemptMismatchError"
proof -
  have wf': "journal_wf db'" and wf'': "journal_wf db''"
    using history_wf assms(1,3,5) by blast+
  note log = journal_wf_parts(4)
  have r: "last_recovery b db = Some r" "recovery_phase r = RECOVERING" "a = recovery_id r" "a \<noteq> []"
    using assms(2) active_attempt_ok [OF log [OF assms(1)]] by auto
  have "last_recovery b db' \<noteq> Some r"
    using assms(4) [of r] r active_attempt_ok [OF log [OF wf']] by auto
  then have no: "last_recovery b db'' \<noteq> Some r"
    by (rule last_recovery_superseded [OF assms(1) r(1) assms(3) _ assms(5)])
  note same = same_recovery_record [OF assms(1) rtranclp_trans [OF assms(3,5)] r(1)]
  have "require_active_recovery_attempt b (Some a) db'' \<noteq> Inr x" for x
    using active_attempt_ok [OF log [OF wf''], of b "Some a" x] same no r(3) by auto
  moreover have "require_active_recovery_attempt b (Some a) db'' = Inl RecoveryAttemptMismatchError
      \<or> (\<exists>x. require_active_recovery_attempt b (Some a) db'' = Inr x)"
    by (auto simp: require_active_recovery_attempt_def split: option.splits)
  ultimately show ?thesis by blast
qed

theorem superseded_attempt_never_active_witness:
  "require_active_recovery_attempt ''b1'' (Some ''r1'') db_recovering2 = Inl RecoveryAttemptMismatchError
   \<and> (\<exists>r. require_active_recovery_attempt ''b1'' (Some ''r1'') db_attempting = Inr r)"
proof -
  let ?a = "require_active_recovery_attempt ''b1'' (Some ''r1'')"
  have on: "?a db_attempting = Inr (the (last_recovery ''b1'' db_attempting))" by code_simp
  have off: "?a db_takeover \<noteq> Inr x" for x
  proof -
    have "isl (?a db_takeover)" by code_simp
    then show ?thesis by auto
  qed
  have run: "(journal_step rev loads F)\<^sup>*\<^sup>* db_attempting db_takeover"
    "(journal_step rev loads F)\<^sup>*\<^sup>* db_takeover db_recovering2" for loads F
    by (meson demo_steps(9-11) rtranclp.rtrancl_refl rtranclp.rtrancl_into_rtrancl)+
  show ?thesis
    using superseded_attempt_never_active [OF demo_wfs(8) on run(1) off run(2)] on by blast
qed

text \<open>
  Only the lease that the batch is bound to acts in a recovery. For any other fencing token
  or lease name, recording an action, recording a checkpoint for the attempt and checking the
  attempt all raise, and the transactions leave the database as it was, also where the guard
  had begun to hand the batch over to a newer lease. A takeover is made by requeueing the
  recovery, never by an action.
\<close>

theorem foreign_lease_records_no_actions:
  assumes "journal_wf db" and "batch_row b (batch_table db) = Some row"
    and "batch_lease_fencing_token row \<noteq> lease_fencing_token l \<or> batch_lease_name row \<noteq> lease_name l"
  shows "fst (transaction (record_recovery_action H b l attempt status type rk reason payload aid arid
           fresh fresh2 fresh3 now) db) = db
    \<and> isl (record_recovery_action H b l attempt status type rk reason payload aid arid fresh fresh2 fresh3 now db)
    \<and> isl (record_checkpoint H b l ck ctype payload oid cid (Some attempt) fresh fresh2 now db)
    \<and> isl (check_active_recovery_attempt b l attempt now db)"
proof -
  note base = journal_wf_parts(1) [OF assms(1)]
  have act: "isl (record_recovery_action H b l attempt status type rk reason payload aid arid fresh fresh2 fresh3 now db)"
  proof (rule ccontr)
    assume "\<not> ?thesis"
    then obtain db' r where "record_recovery_action H b l attempt status type rk reason payload aid arid
        fresh fresh2 fresh3 now db = Inr (db', r)" using not_isl_pair by blast
    then show False
      by (cases rule: record_recovery_action_ok [OF base]) (use assms(2,3) in auto)
  qed
  have "isl (record_checkpoint H b l ck ctype payload oid cid (Some attempt) fresh fresh2 now db)"
  proof (rule ccontr)
    assume "\<not> ?thesis"
    then obtain db' r where "record_checkpoint H b l ck ctype payload oid cid (Some attempt) fresh fresh2 now db
        = Inr (db', r)" using not_isl_pair by blast
    then show False
      by (cases rule: record_checkpoint_ok [OF base]) (use assms(2,3) in auto)
  qed
  moreover have "isl (check_active_recovery_attempt b l attempt now db)"
    using assms(2,3)
    by (auto simp: check_active_recovery_attempt_def require_batch_for_recovery_attempt_check_def
        require_batch_for_write_def res_bind_def require_def require_current_lease_def split: sum.splits)
  moreover have "fst (transaction (record_recovery_action H b l attempt status type rk reason payload aid arid
           fresh fresh2 fresh3 now) db) = db"
    using act by (auto simp: isl_def transaction_def)
  ultimately show ?thesis using act by simp
qed

theorem foreign_lease_records_no_actions_witness:
  "lease_is_current db_regranted w2 21
   \<and> isl (record_recovery_action rev ''b1'' w2 ''r1'' ACTION_PLANNED (Some ''restore'') (Some ''file:a'') None None
       (Some ''a2'') None ''h'' ''f2'' ''f3'' 21 db_regranted)"
proof -
  let ?row = "the (batch_row ''b1'' (batch_table db_regranted))"
  have row: "batch_row ''b1'' (batch_table db_regranted) = Some ?row" by code_simp
  have ne: "batch_lease_fencing_token ?row \<noteq> lease_fencing_token w2" by code_simp
  have "lease_is_current db_regranted w2 21" by code_simp
  with foreign_lease_records_no_actions [OF demo_wfs(9) row disjI1 [OF ne]] show ?thesis by blast
qed

text \<open>
  A recovery attempt is completed at most once, by its own worker. A successful
  \<open>record_recovery_succeeded\<close> or \<open>record_recovery_failed\<close> was made with a current lease that
  the batch is bound to, for the attempt that was active, and leaves the batch in the phase
  recorded; after any further history no completion of either kind of the same attempt succeeds
  again.
\<close>

theorem recovery_completed_once:
  assumes "journal_wf db" and "phase \<in> {RECOVERY_SUCCEEDED, RECOVERY_FAILED}"
    and "record_recovery_phase H b l phase (Some a) reason payload rid fresh fresh2 now db = Inr (db1, r)"
    and "(journal_step H loads F)\<^sup>*\<^sup>* db1 db2" and "phase' \<in> {RECOVERY_SUCCEEDED, RECOVERY_FAILED}"
  shows "lease_is_current db l now
    \<and> (\<exists>x. require_active_recovery_attempt b (Some a) db = Inr x)
    \<and> (\<exists>row. batch_row b (batch_table db1) = Some row \<and> batch_phase row = phase
         \<and> batch_lease_name row = lease_name l \<and> batch_lease_fencing_token row = lease_fencing_token l)
    \<and> isl (record_recovery_phase H b l' phase' (Some a) reason' payload' rid' fresh' fresh2' now' db2)"
proof -
  note base = journal_wf_parts(1) [OF assms(1)]
  have ph: "phase \<in> {RECOVERY_DESIRED, RECOVERY_SUCCEEDED, RECOVERY_FAILED}"
    "phase' \<in> {RECOVERY_DESIRED, RECOVERY_SUCCEEDED, RECOVERY_FAILED}" using assms(2,5) by auto
  obtain row x where call: "phase_call l now b row r db db1" and rp: "recovery_phase r = phase"
    and cur: "lease_is_current db l now"
    and x: "last_recovery b db = Some x" "recovery_phase x = RECOVERING" "a = recovery_id x" "a \<noteq> []"
      "batch_lease_fencing_token row = lease_fencing_token l"
    by (rule record_recovery_phase_ok [OF base ph(1) assms(3)]) (use assms(2) in auto)
  have "journal_call H l now db db1"
    using assms(2,3) by (auto simp: record_recovery_succeeded_def record_recovery_failed_def
        intro: jc_recovery_succeeded jc_recovery_failed)
  note one = js_journal [OF this]
  have wf1: "journal_wf db1" by (rule journal_step_wf [OF one assms(1)])
  have wf2: "journal_wf db2" by (rule history_wf [OF assms(4) wf1])
  have ne: "last_recovery b db1 \<noteq> Some x" using call rp x(2) assms(2) by (auto simp: phase_call_def)
  have no: "last_recovery b db2 \<noteq> Some x"
    by (rule last_recovery_superseded [OF assms(1) x(1) r_into_rtranclp [of "journal_step H loads F", OF one] ne assms(4)])
  note hist = converse_rtranclp_into_rtranclp [of "journal_step H loads F", OF one assms(4)]
  have "isl (record_recovery_phase H b l' phase' (Some a) reason' payload' rid' fresh' fresh2' now' db2)"
  proof (rule ccontr)
    assume "\<not> ?thesis"
    then obtain db3 r' where again: "record_recovery_phase H b l' phase' (Some a) reason' payload' rid' fresh' fresh2' now' db2
        = Inr (db3, r')" using not_isl_pair by blast
    obtain y where "last_recovery b db2 = Some y" "a = recovery_id y"
      by (rule record_recovery_phase_ok [OF journal_wf_parts(1) [OF wf2] ph(2) again]) (use assms(5) in auto)
    with same_recovery_record [OF assms(1) hist x(1), of b y] x(3) no show False by simp
  qed
  moreover have "require_active_recovery_attempt b (Some a) db = Inr x"
    using x active_attempt_ok [OF journal_wf_parts(4) [OF assms(1)], of b "Some a" x] by simp
  moreover obtain row' where "batch_row b (batch_table db1) = Some row'" "batch_phase row' = phase"
    "batch_lease_name row' = lease_name l" "batch_lease_fencing_token row' = lease_fencing_token l"
  proof -
    have row: "batch_row b (batch_table db) = Some row" "batch_lease_name row = lease_name l"
      using call by (simp_all add: phase_call_def may_write_def)
    obtain row' where row': "batch_row b (batch_table db1) = Some row'" "batch_phase row' = phase"
      "batch_lease_fencing_token row' = lease_fencing_token l"
      using call rp cur unfolding phase_call_def by auto
    obtain row2 where row2: "batch_row b (batch_table db1) = Some row2" "batch_identity row2 = batch_identity row"
      using journal_step_batch [OF one assms(1) row(1)] by blast
    have "batch_lease_name row' = lease_name l"
      using row'(1) row2(1) batch_identity_fields(3) [OF row2(2)] row(2) by simp
    with row' that show ?thesis by blast
  qed
  ultimately show ?thesis using cur by blast
qed

theorem recovery_completed_once_witness:
  "\<exists>db1 r. record_recovery_succeeded rev ''b1'' w1 (Some ''r1'') None None (Some ''r9'') [] [] 8 db_attempting = Inr (db1, r)
    \<and> isl (record_recovery_failed rev ''b1'' w1 (Some ''r1'') None None (Some ''r10'') [] [] 8 db1)"
proof -
  let ?c = "record_recovery_succeeded rev ''b1'' w1 (Some ''r1'') None None (Some ''r9'') [] [] 8 db_attempting"
  have "\<not> isl ?c" by code_simp
  then have c: "?c = Inr (out ?c, res ?c)" by (rule out_res)
  have "isl (record_recovery_phase rev ''b1'' w1 RECOVERY_FAILED (Some ''r1'') None None (Some ''r10'') [] [] 8 (out ?c))"
    using recovery_completed_once [OF demo_wfs(8) _ c [unfolded record_recovery_succeeded_def]
        rtranclp.rtrancl_refl, of RECOVERY_FAILED] by (simp add: record_recovery_succeeded_def)
  with c show ?thesis unfolding record_recovery_failed_def by blast
qed

end
