(* ===== verification/Status_Properties.thy ===== *)
theory Status_Properties
  imports Recovery_Properties
begin

section \<open>Properties of statuses and of starting a batch\<close>

text \<open>
  The status machines of recovery actions, artifact cleanups and operation runs over every
  reachable database, the query for outstanding cleanups, and the atomic start of a batch.
\<close>

subsection \<open>Recovery actions\<close>

lemma action_listing_history:
  assumes "journal_wf db"
  shows "filter (\<lambda>r. action_id r = a) (list_recovery_actions b (Some attempt) db) = []
    \<or> filter (\<lambda>r. action_id r = a) (list_recovery_actions b (Some attempt) db)
       = filter (\<lambda>r. action_stream r = (attempt, a)) (recovery_action_table db)"
proof -
  have log: "log_wf db" by (rule journal_wf_parts(4) [OF assms])
  let ?t = "recovery_action_table db"
  show ?thesis
  proof (cases "\<exists>r \<in> set ?t. action_batch_id r = b \<and> action_recovery_attempt_id r = attempt")
    case False
    then show ?thesis by (auto simp: listing_simps log filter_empty_conv)
  next
    case True
    then obtain r x where r: "r \<in> set ?t" "action_batch_id r = b" "action_recovery_attempt_id r = attempt"
      and x: "recovery_row attempt (recovery_table db) = Some x"
      using log_wf_parts(3) [OF log] recoveries.get_row_unique [OF log_wf_parts(7) [OF log]]
      unfolding references_ok_def by metis
    have "action_batch_id y = b" if "y \<in> set ?t" "action_recovery_attempt_id y = attempt" for y
      using action_attempt_batch [OF log that(1), of x] action_attempt_batch [OF log r(1), of x] r that x by simp
    then have "filter (\<lambda>r. action_id r = a) (list_recovery_actions b (Some attempt) db)
        = filter (\<lambda>r. action_stream r = (attempt, a)) ?t"
      by (simp add: listing_simps log action_stream_def) (rule filter_cong, auto)
    then show ?thesis ..
  qed
qed

text \<open>
  C14. The records of a recovery action follow its status machine. In every reachable database
  the statuses of an action of an attempt, in the order of the listing, begin with planned and
  each next status is one that \<open>_RECOVERY_ACTION_TRANSITIONS\<close> allows; a record with a
  terminal status (succeeded, failed, skipped, manual intervention) is the last one.
\<close>

theorem action_histories_valid:
  fixes a b attempt :: string
  assumes "(journal_step H loads F)\<^sup>*\<^sup>* empty_db db"
  defines "h \<equiv> filter (\<lambda>r. action_id r = a) (list_recovery_actions b (Some attempt) db)"
  shows "valid_history (\<lambda>s. s = ACTION_PLANNED) (\<lambda>s s'. s' \<in> recovery_action_transitions s) (map action_status h)
    \<and> (\<forall>xs r ys. h = xs @ r # ys \<longrightarrow> recovery_action_transitions (action_status r) = {} \<longrightarrow> ys = [])"
proof -
  have wf: "journal_wf db" by (rule reachable_wf [OF assms(1)])
  have log: "action_log.wf_log (recovery_action_table db)"
    using journal_wf_parts(3) [OF wf] by (simp add: histories_wf_def)
  have h: "h = [] \<or> h = filter (\<lambda>r. action_stream r = (attempt, a)) (recovery_action_table db)"
    using action_listing_history [OF wf] unfolding h_def by blast
  have valid: "valid_history (\<lambda>s. s = ACTION_PLANNED) action_next (map action_status h)"
    using h log by (auto simp: action_log.wf_log_def action_log.history_def)
  have "ys = []" if "h = xs @ r # ys" "recovery_action_transitions (action_status r) = {}" for xs r ys
    using valid_history_end [of _ _ "map action_status xs" "action_status r" "map action_status ys"]
      valid that by (auto simp: action_next_def)
  moreover have "action_next = (\<lambda>s s'. s' \<in> recovery_action_transitions s)"
    by (simp add: fun_eq_iff action_next_def)
  ultimately show ?thesis using valid by simp
qed

theorem action_histories_valid_witness:
  "map action_status (filter (\<lambda>r. action_id r = ''a1'') (list_recovery_actions ''b1'' (Some ''r1'') db_attempting))
     = [ACTION_PLANNED, ACTION_ATTEMPTING]
   \<and> valid_history (\<lambda>s. s = ACTION_PLANNED) (\<lambda>s s'. s' \<in> recovery_action_transitions s)
       [ACTION_PLANNED, ACTION_ATTEMPTING]"
proof -
  have eq: "map action_status (filter (\<lambda>r. action_id r = ''a1'') (list_recovery_actions ''b1'' (Some ''r1'') db_attempting))
    = [ACTION_PLANNED, ACTION_ATTEMPTING]" by code_simp
  from action_histories_valid [OF demo_reach(8), where a = "''a1''" and b = "''b1''" and attempt = "''r1''", unfolded eq]
  show ?thesis using eq by (intro conjI) (rule eq, rule conjunct1)
qed

subsection \<open>Artifact cleanups\<close>

lemma cleanup_listing_history:
  assumes "log_wf db"
  shows "list_artifact_cleanup_records b (Some a) db
    = filter (\<lambda>r. cleanup_stream r = (b, a)) (artifact_cleanup_table db)"
  by (simp add: listing_simps assms cleanup_stream_def)

text \<open>
  C15. Artifact cleanups follow their status machine and are never planned twice at a time. In
  every reachable database the records of an artifact begin with a planned one, each next status
  is a transition of the code or a new plan after a failed or manual one, and a succeeded or
  skipped cleanup is the last. While the latest record is planned, attempting, succeeded or
  skipped, planning the artifact again raises, with any lease and any trigger.
\<close>

theorem cleanup_histories_valid:
  fixes a b :: string
  assumes "(journal_step H loads F)\<^sup>*\<^sup>* empty_db db"
  defines "h \<equiv> list_artifact_cleanup_records b (Some a) db"
  shows "valid_history (\<lambda>s. s = CLEANUP_PLANNED)
      (\<lambda>s s'. s' \<in> artifact_cleanup_transitions s \<or> s \<in> artifact_cleanup_retryable_statuses \<and> s' = CLEANUP_PLANNED)
      (map cleanup_status h)
    \<and> (\<forall>xs r ys. h = xs @ r # ys \<longrightarrow> cleanup_status r \<in> {CLEANUP_SUCCEEDED, CLEANUP_SKIPPED} \<longrightarrow> ys = [])
    \<and> (h \<noteq> [] \<and> cleanup_status (last h) \<in> {CLEANUP_PLANNED, CLEANUP_ATTEMPTING, CLEANUP_SUCCEEDED, CLEANUP_SKIPPED}
       \<longrightarrow> isl (record_artifact_cleanup_planned b l a trigger rk payload cid fresh now db))"
proof -
  have wf: "journal_wf db" by (rule reachable_wf [OF assms(1)])
  have log: "log_wf db" by (rule journal_wf_parts(4) [OF wf])
  have clog: "cleanup_log.wf_log (artifact_cleanup_table db)"
    using journal_wf_parts(3) [OF wf] by (simp add: histories_wf_def)
  have h: "h = filter (\<lambda>r. cleanup_stream r = (b, a)) (artifact_cleanup_table db)"
    unfolding h_def by (rule cleanup_listing_history [OF log])
  have valid: "valid_history (\<lambda>s. s = CLEANUP_PLANNED) cleanup_next (map cleanup_status h)"
    using clog by (simp add: h cleanup_log.wf_log_def cleanup_log.history_def)
  have "ys = []" if "h = xs @ r # ys" "cleanup_status r \<in> {CLEANUP_SUCCEEDED, CLEANUP_SKIPPED}" for xs r ys
    using valid_history_end [of _ _ "map cleanup_status xs" "cleanup_status r" "map cleanup_status ys"] valid that
    by (auto simp: cleanup_next_def artifact_cleanup_retryable_statuses_def)
  moreover have "isl (record_artifact_cleanup_planned b l a trigger rk payload cid fresh now db)"
    if ne: "h \<noteq> []" and st: "cleanup_status (last h) \<in> {CLEANUP_PLANNED, CLEANUP_ATTEMPTING, CLEANUP_SUCCEEDED, CLEANUP_SKIPPED}"
  proof (rule ccontr)
    assume "\<not> ?thesis"
    then obtain db' r where "record_artifact_cleanup_planned b l a trigger rk payload cid fresh now db = Inr (db', r)"
      using not_isl_pair by blast
    then have call: "record_artifact_cleanup b l a CLEANUP_PLANNED (Some trigger) rk None payload cid fresh now db = Inr (db', r)"
      by (auto simp: record_artifact_cleanup_planned_def res_bind_Inr)
    have latest: "latest_artifact_cleanup_row b a (artifact_cleanup_table db) = Some (last h)"
      using latest_cleanup [OF log, of b a] ne by (simp add: h cleanup_stream_def last_of_def)
    from call show False
      by (cases rule: record_artifact_cleanup_ok)
        (use latest st in \<open>auto simp: prepare_artifact_cleanup_write_def Let_def
          artifact_cleanup_active_statuses_def split: if_splits\<close>)
  qed
  moreover have "cleanup_next = (\<lambda>s s'. s' \<in> artifact_cleanup_transitions s
      \<or> s \<in> artifact_cleanup_retryable_statuses \<and> s' = CLEANUP_PLANNED)"
    by (simp add: fun_eq_iff cleanup_next_def)
  ultimately show ?thesis using valid by simp
qed

text \<open>A cleanup planned while the batch of the demonstration run is attempting.\<close>

definition demo_cleanup :: "journal_db \<Rightarrow> error + journal_db \<times> artifact_cleanup_record" where
  "demo_cleanup = record_artifact_cleanup_planned ''b1'' w1 ''art1'' ''deferred_cleanup'' (Some ''file:a'') None
     (Some ''c1'') [] 3"

definition db_cleanup :: journal_db where "db_cleanup = out (demo_cleanup db_started)"

lemma demo_cleanup_reach: "(journal_step rev loads F)\<^sup>*\<^sup>* empty_db db_cleanup"
proof -
  have "\<not> isl (demo_cleanup db_started)" by code_simp
  then have "demo_cleanup db_started = Inr (db_cleanup, res (demo_cleanup db_started))"
    unfolding db_cleanup_def by (rule out_res)
  then have "journal_step rev loads F db_started db_cleanup"
    unfolding demo_cleanup_def by (intro js_journal) (rule jc_plan_cleanup)
  with demo_reach(3) show ?thesis by (rule rtranclp.rtrancl_into_rtrancl)
qed

theorem cleanup_histories_valid_witness:
  "map cleanup_status (list_artifact_cleanup_records ''b1'' (Some ''art1'') db_cleanup) = [CLEANUP_PLANNED]
   \<and> isl (record_artifact_cleanup_planned ''b1'' w1 ''art1'' ''deferred_cleanup'' (Some ''file:a'') None
       (Some ''c2'') [] 4 db_cleanup)"
proof -
  let ?h = "list_artifact_cleanup_records ''b1'' (Some ''art1'') db_cleanup"
  have eq: "map cleanup_status ?h = [CLEANUP_PLANNED]" by code_simp
  then have "?h \<noteq> []" "cleanup_status (last ?h) = CLEANUP_PLANNED"
    by (auto simp: last_map [symmetric])
  then show ?thesis
    using cleanup_histories_valid [OF demo_cleanup_reach, where a = "''art1''" and b = "''b1''"] eq by blast
qed

subsection \<open>Outstanding cleanups\<close>

lemma foldr_max_sorted:
  assumes "sorted_wrt (<) (map f xs)" and "xs \<noteq> []"
  shows "foldr (\<lambda>r m. max (f r) m) xs (0::nat) = f (last xs)"
  using assms
proof (induction xs)
  case (Cons x xs)
  show ?case
  proof (cases "xs = []")
    case False
    then have "f x < f (last xs)" using Cons.prems by (auto intro: last_in_set)
    then show ?thesis using False Cons by (simp add: max.absorb2)
  qed simp
qed simp

lemma max_is_last:
  assumes "ordered_log batch_of seq_of t" and "r \<in> set t" and "q r"
  shows "seq_of r = max_sequence batch_of seq_of (batch_of r) (filter q t)
    \<longleftrightarrow> last_of (\<lambda>x. batch_of x = batch_of r \<and> q x) t = Some r"
proof -
  let ?xs = "filter (\<lambda>x. batch_of x = batch_of r \<and> q x) t"
  have r: "r \<in> set ?xs" using assms(2,3) by simp
  then have ne: "?xs \<noteq> []" by (metis empty_iff empty_set)
  have sorted: "sorted_wrt (<) (map seq_of ?xs)"
    using sorted_filter_seq [OF assms(1), of "\<lambda>x. batch_of x = batch_of r \<and> q x" "batch_of r"] by simp
  have "max_sequence batch_of seq_of (batch_of r) (filter q t) = seq_of (last ?xs)"
    using foldr_max_sorted [OF sorted ne] by (simp add: max_sequence_def conj_commute)
  moreover have "inj_on seq_of (set ?xs)"
    using sorted strict_sorted_iff [of "map seq_of ?xs"] by (simp add: distinct_map)
  ultimately show ?thesis
    using r last_in_set [OF ne] ne by (auto simp: last_of_def inj_on_def)
qed

text \<open>
  C16. The outstanding cleanups are the artifacts whose latest record is outstanding. The SQL
  query that groups by batch and artifact and takes the row with the largest sequence returns
  exactly the records that are the last of their artifact and have one of the asked statuses, in
  every reachable database: every artifact at most once, none forgotten, none that a later
  record has settled.
\<close>

theorem latest_cleanups_are_the_last_records:
  assumes "(journal_step H loads F)\<^sup>*\<^sup>* empty_db db"
  shows "set (list_latest_artifact_cleanup_rows_with_statuses statuses db)
      = {r. cleanup_status r \<in> statuses
            \<and> list_artifact_cleanup_records (cleanup_batch_id r) (Some (cleanup_artifact_id r)) db \<noteq> []
            \<and> r = last (list_artifact_cleanup_records (cleanup_batch_id r) (Some (cleanup_artifact_id r)) db)}
    \<and> distinct (map (\<lambda>r. (cleanup_batch_id r, cleanup_artifact_id r))
         (list_latest_artifact_cleanup_rows_with_statuses statuses db))"
proof -
  have log: "log_wf db" by (rule journal_wf_parts(4) [OF reachable_wf [OF assms]])
  let ?t = "artifact_cleanup_table db"
  let ?q = "list_latest_artifact_cleanup_rows_with_statuses statuses db"
  define last_row where "last_row = (\<lambda>r. last_of (\<lambda>x. cleanup_batch_id x = cleanup_batch_id r
    \<and> cleanup_artifact_id x = cleanup_artifact_id r) ?t = Some r)"
  have uniq: "unique_key cleanup_record_id ?t" using log by (simp add: log_wf_def unique_ids_def)
  have ord: "ordered_log cleanup_batch_id cleanup_sequence ?t" by (rule log_wf_parts(6) [OF log])
  have same: "x = r" if "x \<in> set ?t" "r \<in> set ?t" "cleanup_record_id x = cleanup_record_id r" for x r
    using cleanups.unique_same_row [OF uniq that(1,2,3)] .
  have row: "list_ex (\<lambda>latest. cleanup_record_id latest = cleanup_record_id r \<and>
               cleanup_sequence latest = max_sequence cleanup_batch_id cleanup_sequence (cleanup_batch_id latest)
                   (filter (\<lambda>x. cleanup_artifact_id x = cleanup_artifact_id latest) ?t)) ?t \<longleftrightarrow> last_row r"
    if r: "r \<in> set ?t" for r
  proof -
    have "list_ex (\<lambda>latest. cleanup_record_id latest = cleanup_record_id r \<and>
               cleanup_sequence latest = max_sequence cleanup_batch_id cleanup_sequence (cleanup_batch_id latest)
                   (filter (\<lambda>x. cleanup_artifact_id x = cleanup_artifact_id latest) ?t)) ?t
      \<longleftrightarrow> cleanup_sequence r = max_sequence cleanup_batch_id cleanup_sequence (cleanup_batch_id r)
                   (filter (\<lambda>x. cleanup_artifact_id x = cleanup_artifact_id r) ?t)"
      using r same by (auto simp: list_ex_iff)
    then show ?thesis using max_is_last [OF ord r, of "\<lambda>x. cleanup_artifact_id x = cleanup_artifact_id r"]
      by (simp add: last_row_def)
  qed
  have set_q: "set ?q = {r \<in> set ?t. last_row r \<and> cleanup_status r \<in> statuses}"
    using row by (auto simp: list_latest_artifact_cleanup_rows_with_statuses_def sql_select_def)
  have last_iff: "r \<in> set ?t \<and> last_row r
      \<longleftrightarrow> list_artifact_cleanup_records (cleanup_batch_id r) (Some (cleanup_artifact_id r)) db \<noteq> []
        \<and> r = last (list_artifact_cleanup_records (cleanup_batch_id r) (Some (cleanup_artifact_id r)) db)" for r
  proof -
    let ?p = "\<lambda>x. cleanup_batch_id x = cleanup_batch_id r \<and> cleanup_artifact_id x = cleanup_artifact_id r"
    have "last_of ?p ?t = Some r \<longleftrightarrow> filter ?p ?t \<noteq> [] \<and> r = last (filter ?p ?t)" by (auto simp: last_of_def)
    then show ?thesis
      using last_of_Some [of ?p ?t r] by (auto simp: listing_simps log last_row_def)
  qed
  have "distinct (map cleanup_record_id ?t)" using uniq by (simp add: unique_key_def)
  then have "distinct ?t" by (simp add: distinct_map)
  then have d: "distinct ?q"
    by (simp add: list_latest_artifact_cleanup_rows_with_statuses_def sql_select_def distinct_filter)
  have "inj_on (\<lambda>r. (cleanup_batch_id r, cleanup_artifact_id r)) (set ?q)"
  proof (rule inj_onI)
    fix x y
    assume "x \<in> set ?q" "y \<in> set ?q"
      and eq: "(cleanup_batch_id x, cleanup_artifact_id x) = (cleanup_batch_id y, cleanup_artifact_id y)"
    then have l: "last_row x" "last_row y" unfolding set_q by blast+
    have "Some x = last_of (\<lambda>z. cleanup_batch_id z = cleanup_batch_id x \<and> cleanup_artifact_id z = cleanup_artifact_id x) ?t"
      using l(1) by (simp add: last_row_def)
    also have "\<dots> = Some y" using l(2) eq by (simp add: last_row_def)
    finally show "x = y" by simp
  qed
  then have "distinct (map (\<lambda>r. (cleanup_batch_id r, cleanup_artifact_id r)) ?q)"
    using d by (simp only: distinct_map)
  moreover have "set ?q
      = {r. cleanup_status r \<in> statuses
            \<and> list_artifact_cleanup_records (cleanup_batch_id r) (Some (cleanup_artifact_id r)) db \<noteq> []
            \<and> r = last (list_artifact_cleanup_records (cleanup_batch_id r) (Some (cleanup_artifact_id r)) db)}"
    unfolding set_q using last_iff by blast
  ultimately show ?thesis by blast
qed

theorem latest_cleanups_are_the_last_records_witness:
  "map cleanup_record_id (list_outstanding_artifact_cleanup_records db_cleanup) = [''c1'']
   \<and> distinct (map (\<lambda>r. (cleanup_batch_id r, cleanup_artifact_id r))
       (list_outstanding_artifact_cleanup_records db_cleanup))"
proof -
  have "map cleanup_record_id (list_outstanding_artifact_cleanup_records db_cleanup) = [''c1'']" by code_simp
  then show ?thesis
    using latest_cleanups_are_the_last_records [OF demo_cleanup_reach]
    by (simp add: list_outstanding_artifact_cleanup_records_def)
qed

end
