(* ===== verification/Start_Properties.thy ===== *)
theory Start_Properties
  imports Status_Properties
begin

section \<open>Starting a batch\<close>

text \<open>
  \<open>start_batch_operation\<close> records the first operation of a batch and moves the batch to
  attempting in one transaction. The first property says exactly when it succeeds and what it
  leaves, the second that a batch is started at most once, by whatever workers.
\<close>

definition startable :: "lease_record \<Rightarrow> string option \<Rightarrow> string \<Rightarrow> batch_entry \<Rightarrow> 'a journal_db_scheme \<Rightarrow> bool" where
  "startable l rk b row db \<longleftrightarrow> batch_phase row = PLANNED \<and> batch_lease_name row = lease_name l
     \<and> batch_lease_fencing_token row \<le> lease_fencing_token l
     \<and> (batch_resource_key row = None \<or> rk = batch_resource_key row)
     \<and> listed_sequences b db = []"

lemma has_records_listed:
  assumes "log_wf db"
  shows "batch_has_journal_records b db \<longleftrightarrow> listed_sequences b db \<noteq> []"
  by (auto simp: batch_has_journal_records_def listed_sequences_def listing_simps assms list_ex_iff filter_empty_conv)

lemma startable_succeeds:
  assumes "log_wf db" and "b \<noteq> []" and "type \<noteq> []" and "lease_is_current db l now"
    and "batch_row b (batch_table db) = Some row"
    and "str_or oid fresh \<notin> operation_id ` set (operation_table db)"
    and "startable l rk b row db"
  shows "\<exists>db' rec op. start_batch_operation H b l type rk payload oid sp fresh now db = Inr (db', rec, op)"
proof -
  have b: "batch_id row = b" using batch_row_in [OF assms(5)] by simp
  have none: "\<not> batch_has_journal_records b db"
    using assms(7) has_records_listed [OF assms(1)] by (simp add: startable_def)
  let ?r = "\<lparr>operation_id = str_or oid fresh, operation_batch_id = b, operation_sequence = next_sequence b db,
       operation_type = type, operation_resource_key = rk, operation_payload = payload_to_json payload,
       operation_created_at = now\<rparr>"
  have db1: "(if batch_lease_fencing_token row \<noteq> lease_fencing_token l
       then let db' = update_batch b (set_batch_authority H l now) db
            in res_bind (from_option RuntimeError (batch_row b (batch_table db'))) (\<lambda>_. Inr db')
       else Inr db) = Inr (rebound H b l now row db)"
    using assms(5) batch_row_update [of "set_batch_authority H l now" b b db] by (simp add: rebound_def Let_def)
  have ins: "sql_insert operation_clash ?r (operation_table db) = Some (operation_table db @ [?r])"
    using operations.insert_next [of ?r "operation_table db"] next_sequence_gt(1) [of b db] assms(6) by simp
  have row: "operation_row (str_or oid fresh) (operation_table db @ [?r]) = Some ?r"
    using operations.insert_Some(3) [OF ins] by simp
  obtain row' where row': "batch_row b (batch_table (rebound H b l now row db)) = Some row'"
    using rebound_row [OF assms(5)] by blast
  have updated: "\<exists>u. batch_row b (batch_table (update_batch b f ((rebound H b l now row db)\<lparr>operation_table := t\<rparr>))) = Some u"
    if "\<And>r. batch_id (f r) = batch_id r" for f t
    using batch_row_update [of f b b "(rebound H b l now row db)\<lparr>operation_table := t\<rparr>"] that row' by simp
  let ?db3 = "update_batch b (set_batch_status ATTEMPTING None
      (payload_to_json (Some (case sp of None \<Rightarrow> JObj [(''operation_id'', JStr (str_or oid fresh))] | Some p \<Rightarrow> p))) now)
      ((rebound H b l now row db)\<lparr>operation_table := operation_table db @ [?r]\<rparr>)"
  obtain u where u: "batch_row b (batch_table ?db3) = Some u" using updated by (meson set_status_id(1))
  have "require_startable_batch row l rk db = Inr ()"
    using assms(7) none b by (simp add: startable_ok startable_def)
  then have "start_batch_operation H b l type rk payload oid sp fresh now db = Inr (?db3, batch_from_row u, ?r)"
    using assms(2-5) db1 ins row u
    by (simp add: start_batch_operation_def validate_required_def require_current_lease_def insert_operation_def Let_def)
  then show ?thesis by blast
qed

text \<open>
  C17. Intent first. With a current lease and a fresh operation id, \<open>start_batch_operation\<close> on
  an existing batch succeeds exactly if the batch is planned, has no records at all, is bound
  to a lease of the same name with no larger token and to no other resource. It then leaves
  exactly one record, the operation with sequence number 1, and the batch attempting and bound
  to the lease, in one step: there is no state with the operation and not the phase, or with the
  phase and not the operation. In every other case it raises the error of the first guard that
  fails and records nothing.
\<close>

theorem start_operation_intent_first:
  assumes "journal_wf db" and "b \<noteq> []" and "type \<noteq> []" and "lease_is_current db l now"
    and "batch_row b (batch_table db) = Some row"
    and "str_or oid fresh \<notin> operation_id ` set (operation_table db)"
  shows "case start_batch_operation H b l type rk payload oid sp fresh now db of
      Inr (db', rec, op) \<Rightarrow> startable l rk b row db
        \<and> br_phase rec = ATTEMPTING \<and> br_lease_fencing_token rec = lease_fencing_token l
        \<and> get_batch b db' = Some rec
        \<and> list_operations b db' = [op] \<and> operation_sequence op = 1 \<and> operation_type op = type
        \<and> operation_resource_key op = rk \<and> operation_payload op = payload_to_json payload
        \<and> listed_sequences b db' = [1]
    | Inl e \<Rightarrow> \<not> startable l rk b row db
        \<and> e = (if batch_phase row \<noteq> PLANNED then BatchStartConflictError
               else if batch_lease_name row \<noteq> lease_name l
                 \<or> batch_lease_fencing_token row > lease_fencing_token l then JournalLeaseMismatchError
               else if batch_resource_key row \<noteq> None \<and> rk \<noteq> batch_resource_key row
               then BatchIdempotencyMismatchError else BatchStartConflictError)"
proof -
  note base = journal_wf_parts(1) [OF assms(1)] and log = journal_wf_parts(4) [OF assms(1)]
  have b: "batch_id row = b" using batch_row_in [OF assms(5)] by simp
  show ?thesis
  proof (cases "start_batch_operation H b l type rk payload oid sp fresh now db")
    case (Inl e)
    have no: "\<not> startable l rk b row db"
      using startable_succeeds [OF log assms(2-6), of rk H payload sp] Inl by auto
    then have "\<exists>e'. require_startable_batch row l rk db = Inl e'"
      using b has_records_listed [OF log, of b] startable_ok [of row l rk db "()"]
      by (cases "require_startable_batch row l rk db") (auto simp: startable_def)
    with Inl have "require_startable_batch row l rk db = Inl e"
      using assms(2-5)
      by (auto simp: start_batch_operation_def validate_required_def require_current_lease_def)
    with Inl no show ?thesis
      using has_records_listed [OF log, of b] b
      by (auto simp: require_startable_batch_def startable_def split: if_splits)
  next
    case (Inr x)
    obtain db' rec op where x: "x = (db', rec, op)" by (cases x)
    note call = Inr [unfolded x]
    note writes = start_batch_operation_write [OF base call]
    have log': "log_wf db'" using base_wf_parts(3) [OF call_base_wf [OF writes base]] .
    from call show ?thesis
    proof (cases rule: start_batch_operation_ok)
      case (1 row0 t v u)
      have row: "row0 = row" using 1(2) assms(5) by simp
      have seq: "next_sequence b db = 1" by (rule no_records_next_sequence [OF 1(5)])
      have none: "listed_sequences b db = []" using 1(5) has_records_listed [OF log] by simp
      have t: "t = operation_table db @ [op]" using operations.insert_Some(1) [OF 1(6)] .
      have tables: "operation_table db' = operation_table db @ [op]" "checkpoint_table db' = checkpoint_table db"
        "recovery_table db' = recovery_table db" "recovery_action_table db' = recovery_action_table db"
        "artifact_cleanup_table db' = artifact_cleanup_table db"
        unfolding 1(7) t by (simp_all add: rebound_def)
      have ops: "list_operations b db' = [op]" and rest: "listed_sequences b db' = [1]"
        using none 1(8,9) seq by (simp_all add: listed_sequences_def listing_simps log log' tables)
      obtain row' where row': "batch_row b (batch_table (rebound H b l now row db)) = Some row'"
        "batch_lease_fencing_token row' = lease_fencing_token l"
        using rebound_row [OF assms(5)] by blast
      have u: "u = set_batch_status ATTEMPTING None v now row'"
        using 1(13) row'(1) batch_row_in [of b "rebound H b l now row db" row']
          batch_row_update [of "set_batch_status ATTEMPTING None v now" b b "(rebound H b l now row db)\<lparr>operation_table := t\<rparr>"]
        unfolding 1(7) row by simp
      have "startable l rk b row db"
        using call assms(2-5) none b
        by (auto simp: start_batch_operation_def res_bind_Inr from_option_Inr startable_ok startable_def)
      with ops rest u row'(2) 1(8-14) seq show ?thesis
        by (simp add: call [unfolded x] Inr x batch_from_row_def set_batch_status_def get_batch_def)
    qed
  qed
qed

theorem start_operation_intent_first_witness:
  "\<exists>db' rec op. start_batch_operation rev ''b1'' w1 ''write'' (Some ''file:a'') None (Some ''o1'') None [] 2 db_planned
      = Inr (db', rec, op) \<and> list_operations ''b1'' db' = [op] \<and> br_phase rec = ATTEMPTING"
proof -
  let ?row = "the (batch_row ''b1'' (batch_table db_planned))"
  have row: "batch_row ''b1'' (batch_table db_planned) = Some ?row" by code_simp
  have cur: "lease_is_current db_planned w1 2" by code_simp
  have new: "str_or (Some ''o1'') [] \<notin> operation_id ` set (operation_table db_planned)" by code_simp
  have ok: "start_batch_operation rev ''b1'' w1 ''write'' (Some ''file:a'') None (Some ''o1'') None [] 2 db_planned
      = Inr (db_started, fst (res (demo_start db_planned)), snd (res (demo_start db_planned)))"
    using demo_results(2) by (simp add: demo_start_def)
  show ?thesis
    using start_operation_intent_first [OF demo_wfs(2) _ _ cur row new, where type = "''write''" and H = rev
        and rk = "Some ''file:a''" and payload = None and sp = None] ok
    by (auto split: prod.splits)
qed

text \<open>
  A batch is started at most once. After a successful \<open>start_batch_operation\<close>, no history of
  any workers makes a second start of the same batch succeed, whatever lease, resource or ids it
  is called with.
\<close>

theorem batch_started_at_most_once:
  assumes "journal_wf db"
    and "start_batch_operation H b l type rk payload oid sp fresh now db = Inr (db1, rec, op)"
    and "(journal_step H loads F)\<^sup>*\<^sup>* db1 db2"
  shows "isl (start_batch_operation H b l' type' rk' payload' oid' sp' fresh' now' db2)"
proof (rule ccontr)
  assume "\<not> ?thesis"
  then obtain db3 rec' op' where again:
    "start_batch_operation H b l' type' rk' payload' oid' sp' fresh' now' db2 = Inr (db3, rec', op')"
    using not_isl_pair by (metis surj_pair)
  note base = journal_wf_parts(1) [OF assms(1)]
  have one: "journal_step H loads F db db1" by (rule js_journal, rule jc_start_batch_operation, rule assms(2))
  have wf1: "journal_wf db1" by (rule journal_step_wf [OF one assms(1)])
  obtain row row1 where "status_call l now b row row1 db db1" "batch_phase row1 = ATTEMPTING"
    using start_call [OF base assms(2)] by blast
  then have row1: "batch_row b (batch_table db1) = Some row1" "batch_phase row1 \<noteq> PLANNED"
    by (simp_all add: status_call_def)
  obtain row2 where row2: "batch_row b (batch_table db2) = Some row2"
    and path: "phase_edge\<^sup>*\<^sup>* (batch_phase row1) (batch_phase row2)"
    using history_batch [OF assms(3) wf1 row1(1)] by blast
  have "batch_phase row2 \<noteq> PLANNED" by (rule phase_edge_kept(3) [OF path row1(2)])
  with row2 show False by (cases rule: start_batch_operation_ok [OF again]) auto
qed

theorem batch_started_at_most_once_witness:
  "isl (start_batch_operation rev ''b1'' w2 ''write'' (Some ''file:a'') None (Some ''o2'') None [] 30 db_recovering)"
proof -
  have ok: "start_batch_operation rev ''b1'' w1 ''write'' (Some ''file:a'') None (Some ''o1'') None [] 2 db_planned
      = Inr (db_started, fst (res (demo_start db_planned)), snd (res (demo_start db_planned)))"
    using demo_results(2) by (simp add: demo_start_def)
  have run: "(journal_step rev loads F)\<^sup>*\<^sup>* db_started db_recovering" for loads F
    by (meson demo_steps(4-6) [of loads F] rtranclp.rtrancl_refl rtranclp.rtrancl_into_rtrancl)
  show ?thesis by (rule batch_started_at_most_once [OF demo_wfs(2) ok run])
qed

subsection \<open>Operation runs\<close>

definition run_outcome :: "string \<Rightarrow> string \<Rightarrow> bool" where
  "run_outcome s s' \<longleftrightarrow> s' = s \<or> s = ''active'' \<and> s' \<in> {''succeeded'', ''failed'', ''finalization_failed''}
     \<or> s = ''succeeded'' \<and> s' = ''finalization_failed''"

lemma run_outcome_edge: "run_outcome s s' \<Longrightarrow> run_edge own s' s'' \<Longrightarrow> run_outcome s s''"
  by (auto simp: run_outcome_def run_edge_def)

lemma run_history:
  assumes "(journal_step H loads F)\<^sup>*\<^sup>* db db'" and "journal_wf db"
    and "operation_run_row i (operation_run_table db) = Some r"
  shows "\<exists>r'. operation_run_row i (operation_run_table db') = Some r'
    \<and> (\<exists>u. r' = r\<lparr>run_status := run_status r', run_updated_at := u\<rparr>) \<and> run_outcome (run_status r) (run_status r')"
  using assms
proof (induction rule: rtranclp_induct)
  case base
  have "r = r\<lparr>run_status := run_status r, run_updated_at := run_updated_at r\<rparr>" by simp
  with base show ?case unfolding run_outcome_def by blast
next
  case (step x y)
  then obtain r1 u where r1: "operation_run_row i (operation_run_table x) = Some r1"
    "r1 = r\<lparr>run_status := run_status r1, run_updated_at := u\<rparr>" "run_outcome (run_status r) (run_status r1)" by blast
  obtain r2 l where r2: "operation_run_row i (operation_run_table y) = Some r2" "run_change l r1 r2"
    using journal_step_run [OF step(2) history_wf [OF step(1) step.prems(1)] r1(1)] by blast
  show ?case
  proof (cases "r2 = r1")
    case True
    then show ?thesis using r1 r2(1) by blast
  next
    case False
    then obtain s v where s: "r2 = r1\<lparr>run_status := s, run_updated_at := v\<rparr>"
      and e: "run_edge (own_run l r1) (run_status r1) (run_status r2)"
      using r2(2) by (auto simp: run_change_def)
    have "r2 = r\<lparr>run_status := run_status r2, run_updated_at := v\<rparr>"
      unfolding s by (subst r1(2)) simp
    with r2(1) run_outcome_edge [OF r1(3) e] show ?thesis by blast
  qed
qed

text \<open>
  C18. The status of an operation run is a one-way machine. Over any history a run keeps its id,
  run id, owner, lease, payload and creation time; an active run may end as succeeded, failed or
  finalization_failed, a succeeded one only be marked finalization_failed, and every other status
  stays for good. A worker whose lease has another name or a smaller fencing token than the run
  never changes it.
\<close>

theorem operation_run_status_machine:
  assumes "journal_wf db" and "(journal_step H loads F)\<^sup>*\<^sup>* db db'" and "get_operation_run i db = Some r"
  shows "\<exists>r'. get_operation_run i db' = Some r'
    \<and> (\<exists>u. r' = r\<lparr>run_status := run_status r', run_updated_at := u\<rparr>)
    \<and> (run_status r' = run_status r
       \<or> run_status r = ''active'' \<and> run_status r' \<in> {''succeeded'', ''failed'', ''finalization_failed''}
       \<or> run_status r = ''succeeded'' \<and> run_status r' = ''finalization_failed'')
    \<and> (\<forall>H' l now db''. journal_call H' l now db' db''
         \<longrightarrow> lease_name l \<noteq> run_lease_name r \<or> lease_fencing_token l < run_lease_fencing_token r
         \<longrightarrow> get_operation_run i db'' = Some r')"
proof -
  have row: "operation_run_row i (operation_run_table db) = Some r" using assms(3) by (simp add: get_operation_run_def)
  obtain r' u where r': "operation_run_row i (operation_run_table db') = Some r'"
    "r' = r\<lparr>run_status := run_status r', run_updated_at := u\<rparr>" "run_outcome (run_status r) (run_status r')"
    using run_history [OF assms(2,1) row] by blast
  have bound: "run_lease_name r' = run_lease_name r" "run_lease_fencing_token r' = run_lease_fencing_token r"
    by (subst r'(2), simp)+
  have fenced: "get_operation_run i db'' = Some r'"
    if call: "journal_call H' l now db' db''"
      and stale: "lease_name l \<noteq> run_lease_name r \<or> lease_fencing_token l < run_lease_fencing_token r"
    for H' l now db''
  proof -
    obtain r2 where r2: "operation_run_row i (operation_run_table db'') = Some r2" "run_change l r' r2"
      using journal_call_run [OF call journal_wf_parts(1) [OF history_wf [OF assms(2,1)]] r'(1)] by blast
    have "r2 = r'" using r2(2) stale bound by (auto simp: run_change_def may_run_def)
    with r2(1) show ?thesis by (simp add: get_operation_run_def)
  qed
  show ?thesis
    using r'(1,3) fenced unfolding run_outcome_def get_operation_run_def
    by (intro exI [of _ r'] conjI exI [of _ u]) (rule r'(2) | blast)+
qed

definition demo_run :: "journal_db \<Rightarrow> error + journal_db \<times> operation_run_record" where
  "demo_run = create_operation_run ''run1'' w1 ''w1'' ''active'' None (Some ''or1'') [] 1"

definition demo_run_end :: "journal_db \<Rightarrow> error + journal_db \<times> operation_run_record" where
  "demo_run_end = update_operation_run_status ''or1'' w1 ''succeeded'' 2"

definition db_run :: journal_db where "db_run = out (demo_run db_leased)"
definition db_run_end :: journal_db where "db_run_end = out (demo_run_end db_run)"

lemma demo_run_steps: "journal_step rev loads F db_leased db_run" "journal_step rev loads F db_run db_run_end"
proof -
  have ok: "\<not> isl (demo_run db_leased)" "\<not> isl (demo_run_end db_run)" by code_simp+
  have r: "demo_run db_leased = Inr (db_run, res (demo_run db_leased))"
    "demo_run_end db_run = Inr (db_run_end, res (demo_run_end db_run))"
    using ok [THEN out_res] by (simp_all add: db_run_def db_run_end_def)
  show "journal_step rev loads F db_leased db_run"
    by (rule js_journal, rule jc_create_run, rule r(1) [unfolded demo_run_def])
  show "journal_step rev loads F db_run db_run_end"
    by (rule js_journal, rule jc_update_run, rule r(2) [unfolded demo_run_end_def])
qed

theorem operation_run_status_machine_witness:
  "\<exists>r r'. get_operation_run ''or1'' db_run = Some r \<and> run_status r = ''active''
    \<and> get_operation_run ''or1'' db_run_end = Some r' \<and> run_status r' = ''succeeded'' \<and> run_owner r' = run_owner r"
proof -
  let ?r = "the (get_operation_run ''or1'' db_run)" and ?r' = "the (get_operation_run ''or1'' db_run_end)"
  have run: "get_operation_run ''or1'' db_run = Some ?r" by code_simp
  have st: "run_status ?r = ''active''" "run_status ?r' = ''succeeded''" by code_simp+
  have wf: "journal_wf db_run" by (rule journal_step_wf [OF demo_run_steps(1) demo_wfs(1)])
  obtain r' u where r': "get_operation_run ''or1'' db_run_end = Some r'"
    "r' = ?r\<lparr>run_status := run_status r', run_updated_at := u\<rparr>"
    using operation_run_status_machine [OF wf r_into_rtranclp [of "journal_step rev _ _", OF demo_run_steps(2)] run] by blast
  have "run_owner r' = run_owner ?r" by (subst r'(2)) simp
  with run st r'(1) show ?thesis by auto
qed

end
