(* ===== verification/Python_Values.thy ===== *)
theory Python_Values
  imports Json Models
begin

section \<open>Python's text, integers and paths\<close>

text \<open>
  The part of Python's library that the planning code applies to recorded values:
  \<open>str\<close> and \<open>int\<close>, membership in a set of strings, and \<open>pathlib.Path\<close> on
  POSIX. Recorded values are frozen (\<open>_freeze_json\<close>): an array is a tuple and an object a
  \<open>mappingproxy\<close>, whose \<open>repr\<close> names the proxy and whose \<open>str\<close> does not. Texts are
  taken to be ASCII, and integers to stay below Python's limit of 4300 digits.
\<close>

subsection \<open>Decimal text\<close>

definition digit_char :: "nat \<Rightarrow> char" where
  "digit_char n = char_of (48 + n)"

definition is_digit :: "char \<Rightarrow> bool" where
  "is_digit c \<longleftrightarrow> 48 \<le> (of_char c :: nat) \<and> (of_char c :: nat) \<le> 57"

definition digit_value :: "char \<Rightarrow> nat" where
  "digit_value c = of_char c - 48"

fun nat_text :: "nat \<Rightarrow> string" where
  "nat_text n = (if n < 10 then [digit_char n] else nat_text (n div 10) @ [digit_char (n mod 10)])"

declare nat_text.simps [simp del]

definition int_text :: "int \<Rightarrow> string" where
  "int_text i = (if i < 0 then CHR ''-'' # nat_text (nat (- i)) else nat_text (nat i))"

text \<open>Digits, with single underscores between them; the flag says whether a digit came just before.\<close>

fun digits_value :: "nat \<Rightarrow> bool \<Rightarrow> string \<Rightarrow> nat option" where
  "digits_value acc after_digit [] = (if after_digit then Some acc else None)"
| "digits_value acc after_digit (c # cs) =
     (if is_digit c then digits_value (10 * acc + digit_value c) True cs
      else if c = CHR ''_'' \<and> after_digit then digits_value acc False cs
      else None)"

definition is_blank :: "char \<Rightarrow> bool" where
  "is_blank c \<longleftrightarrow> (of_char c :: nat) \<in> {9, 10, 11, 12, 13, 32}"

definition strip :: "string \<Rightarrow> string" where
  "strip s = rev (dropWhile is_blank (rev (dropWhile is_blank s)))"

text \<open>\<open>int(text)\<close> of a string; \<open>None\<close> is its \<open>ValueError\<close>.\<close>

definition parse_int :: "string \<Rightarrow> int option" where
  "parse_int s = (case strip s of
      [] \<Rightarrow> None
    | c # cs \<Rightarrow>
        if c = CHR ''-'' then map_option (\<lambda>n. - int n) (digits_value 0 False cs)
        else if c = CHR ''+'' then map_option int (digits_value 0 False cs)
        else map_option int (digits_value 0 False (c # cs)))"

lemma digit_code: "n < 10 \<Longrightarrow> (of_char (digit_char n) :: nat) = 48 + n"
  by (simp add: digit_char_def)

lemma is_digit_char [simp]: "n < 10 \<Longrightarrow> is_digit (digit_char n)"
  by (simp add: is_digit_def digit_code)

lemma digit_value_char [simp]: "n < 10 \<Longrightarrow> digit_value (digit_char n) = n"
  by (simp add: digit_value_def digit_code)

lemma nat_text_digits: "c \<in> set (nat_text n) \<Longrightarrow> is_digit c"
proof (induction n rule: nat_text.induct)
  case (1 n)
  then show ?case by (subst (asm) nat_text.simps) (auto split: if_splits)
qed

lemma nat_text_not_Nil [simp]: "nat_text n \<noteq> []"
  by (subst nat_text.simps) simp

lemma int_text_not_Nil [simp]: "int_text i \<noteq> []"
  by (simp add: int_text_def)

lemma digits_value_append:
  assumes "\<forall>c \<in> set xs. is_digit c" and "xs \<noteq> []"
  shows "digits_value acc d (xs @ ys)
    = digits_value (foldl (\<lambda>a c. 10 * a + digit_value c) acc xs) True ys"
  using assms
proof (induction xs arbitrary: acc d)
  case (Cons c cs)
  then show ?case
    using Cons.IH [of "10 * acc + digit_value c" True] by (cases "cs = []") simp_all
qed simp

lemma nat_text_value: "foldl (\<lambda>a c. 10 * a + digit_value c) 0 (nat_text n) = n"
proof (induction n rule: nat_text.induct)
  case (1 n)
  then show ?case by (subst nat_text.simps) simp
qed

lemma digits_value_nat_text: "digits_value 0 False (nat_text n) = Some n"
  using digits_value_append [of "nat_text n" 0 False "[]"] nat_text_digits nat_text_value by simp

lemma digit_not_blank: "is_digit c \<Longrightarrow> \<not> is_blank c"
  by (auto simp: is_digit_def is_blank_def)

lemma digit_not_sign: "is_digit c \<Longrightarrow> c \<noteq> CHR ''-'' \<and> c \<noteq> CHR ''+''"
  by (auto simp: is_digit_def)

lemma strip_id: "s \<noteq> [] \<Longrightarrow> \<not> is_blank (hd s) \<Longrightarrow> \<not> is_blank (last s) \<Longrightarrow> strip s = s"
proof -
  assume s: "s \<noteq> []" "\<not> is_blank (hd s)" "\<not> is_blank (last s)"
  have "dropWhile is_blank s = s" using s by (cases s) auto
  moreover have "dropWhile is_blank (rev s) = rev s" using s by (cases s rule: rev_cases) auto
  ultimately show ?thesis by (simp add: strip_def)
qed

lemma nat_text_ends: "is_digit (hd (nat_text n))" "is_digit (last (nat_text n))"
  using nat_text_digits by (metis hd_in_set nat_text_not_Nil, metis last_in_set nat_text_not_Nil)

lemma parse_int_text: "parse_int (int_text i) = Some i"
proof (cases "i < 0")
  case True
  have "strip (CHR ''-'' # nat_text (nat (- i))) = CHR ''-'' # nat_text (nat (- i))"
    by (rule strip_id) (use digit_not_blank [OF nat_text_ends(2)] in \<open>simp_all add: is_blank_def\<close>)
  then show ?thesis using True by (simp add: int_text_def parse_int_def digits_value_nat_text)
next
  case False
  have s: "strip (nat_text (nat i)) = nat_text (nat i)"
    by (rule strip_id) (use nat_text_ends in \<open>auto dest: digit_not_blank\<close>)
  obtain c cs where c: "nat_text (nat i) = c # cs" by (cases "nat_text (nat i)") auto
  have "is_digit c" using nat_text_digits [of c "nat i"] c by simp
  then show ?thesis
    using False s c digits_value_nat_text [of "nat i"] digit_not_sign [of c]
    by (simp add: int_text_def parse_int_def)
qed

subsection \<open>\<open>repr\<close> and \<open>str\<close>\<close>

definition joined :: "string \<Rightarrow> string list \<Rightarrow> string" where
  "joined sep xs = (case xs of [] \<Rightarrow> [] | y # ys \<Rightarrow> y @ concat (map (\<lambda>z. sep @ z) ys))"

definition hex_digit :: "nat \<Rightarrow> char" where
  "hex_digit n = (if n < 10 then digit_char n else char_of (87 + n))"

definition repr_char :: "char \<Rightarrow> char \<Rightarrow> string" where
  "repr_char quote c =
     (let n = of_char c :: nat
      in if c = quote \<or> n = 92 then [CHR 0x5C, c]
         else if n = 9 then [CHR 0x5C, CHR ''t'']
         else if n = 10 then [CHR 0x5C, CHR ''n'']
         else if n = 13 then [CHR 0x5C, CHR ''r'']
         else if n < 32 \<or> n = 127 then [CHR 0x5C, CHR ''x'', hex_digit (n div 16), hex_digit (n mod 16)]
         else [c])"

definition repr_text :: "string \<Rightarrow> string" where
  "repr_text s =
     (let quote = (if CHR 0x27 \<in> set s \<and> CHR 0x22 \<notin> set s then CHR 0x22 else CHR 0x27)
      in quote # concat (map (repr_char quote) s) @ [quote])"

definition mapping_text :: "(string \<times> string) list \<Rightarrow> string" where
  "mapping_text kvs = ''{'' @ joined '', '' (map (\<lambda>(k, v). repr_text k @ '': '' @ v) kvs) @ ''}''"

definition tuple_text :: "string list \<Rightarrow> string" where
  "tuple_text xs = (case xs of [x] \<Rightarrow> ''('' @ x @ '',)'' | _ \<Rightarrow> ''('' @ joined '', '' xs @ '')'')"

fun py_repr :: "json \<Rightarrow> string" where
  "py_repr JNull = ''None''"
| "py_repr (JBool b) = (if b then ''True'' else ''False'')"
| "py_repr (JInt n) = int_text n"
| "py_repr (JStr s) = repr_text s"
| "py_repr (JArr xs) = tuple_text (map py_repr xs)"
| "py_repr (JObj kvs) = ''mappingproxy('' @ mapping_text (map (\<lambda>p. (fst p, py_repr (snd p))) kvs) @ '')''"

definition py_str :: "json \<Rightarrow> string" where
  "py_str v = (case v of
      JStr s \<Rightarrow> s
    | JObj kvs \<Rightarrow> mapping_text (map (\<lambda>p. (fst p, py_repr (snd p))) kvs)
    | _ \<Rightarrow> py_repr v)"

lemma py_str_simps [simp]:
  "py_str (JStr s) = s" "py_str (JInt n) = int_text n" "py_str JNull = ''None''"
  by (simp_all add: py_str_def)

text \<open>A string or \<open>None\<close> as an f-string shows it, and \<open>optional_str\<close>.\<close>

definition opt_text :: "string option \<Rightarrow> string" where
  "opt_text v = (case v of None \<Rightarrow> ''None'' | Some s \<Rightarrow> s)"

definition opt_json :: "string option \<Rightarrow> json" where
  "opt_json v = (case v of None \<Rightarrow> JNull | Some s \<Rightarrow> JStr s)"

definition optional_str :: "json \<Rightarrow> string option" where
  "optional_str v = (if v = JNull then None else Some (py_str v))"

text \<open>\<open>int(value)\<close> of a recorded value.\<close>

definition int_of_value :: "json \<Rightarrow> error + int" where
  "int_of_value v = (case v of
      JInt n \<Rightarrow> Inr n
    | JBool b \<Rightarrow> Inr (if b then 1 else 0)
    | JStr s \<Rightarrow> from_option ValueError (parse_int s)
    | _ \<Rightarrow> Inl TypeError)"

text \<open>\<open>value in {...}\<close> for a set of strings: a mapping, or a tuple that holds one, has no hash.\<close>

fun hashable :: "json \<Rightarrow> bool" where
  "hashable (JObj kvs) = False"
| "hashable (JArr xs) = list_all hashable xs"
| "hashable JNull = True"
| "hashable (JBool b) = True"
| "hashable (JInt n) = True"
| "hashable (JStr s) = True"

definition in_strings :: "json \<Rightarrow> string list \<Rightarrow> error + bool" where
  "in_strings v names =
     (if hashable v then Inr (case v of JStr s \<Rightarrow> s \<in> set names | _ \<Rightarrow> False) else Inl TypeError)"

lemma in_strings_JStr [simp]: "in_strings (JStr s) names = Inr (s \<in> set names)"
  by (simp add: in_strings_def)

lemma in_strings_True: "in_strings v names = Inr True \<longleftrightarrow> (\<exists>s. v = JStr s \<and> s \<in> set names)"
  by (auto simp: in_strings_def split: json.splits)

lemma in_strings_Inl: "in_strings v names = Inl e \<Longrightarrow> e = TypeError \<and> \<not> hashable v"
  by (auto simp: in_strings_def split: if_splits)

subsection \<open>POSIX paths\<close>

text \<open>
  A \<open>PosixPath\<close> is a root (empty, one slash, or exactly two) and its components: empty
  components and single dots are dropped, \<open>..\<close> stays. Two paths are equal exactly if
  their texts are.
\<close>

record path =
  path_root :: string
  path_parts :: "string list"

fun split_on :: "char \<Rightarrow> string \<Rightarrow> string list" where
  "split_on sep [] = [[]]"
| "split_on sep (c # cs) =
     (if c = sep then [] # split_on sep cs
      else case split_on sep cs of [] \<Rightarrow> [[c]] | w # ws \<Rightarrow> (c # w) # ws)"

definition root_of :: "string \<Rightarrow> string" where
  "root_of s =
     (if take 1 s \<noteq> ''/'' then ''''
      else if take 2 s = ''//'' \<and> take 3 s \<noteq> ''///'' then ''//''
      else ''/'')"

definition is_part :: "string \<Rightarrow> bool" where
  "is_part p \<longleftrightarrow> p \<noteq> [] \<and> p \<noteq> ''.''"

definition path_of :: "string \<Rightarrow> path" where
  "path_of s = \<lparr>path_root = root_of s, path_parts = filter is_part (split_on CHR ''/'' s)\<rparr>"

definition path_text :: "path \<Rightarrow> string" where
  "path_text p = (if path_root p = [] \<and> path_parts p = [] then ''.''
                  else path_root p @ joined ''/'' (path_parts p))"

definition path_wf :: "path \<Rightarrow> bool" where
  "path_wf p \<longleftrightarrow> path_root p \<in> {'''', ''/'', ''//''} \<and> list_all (\<lambda>x. is_part x \<and> CHR ''/'' \<notin> set x) (path_parts p)"

lemma split_on_not_Nil [simp]: "split_on sep s \<noteq> []"
  by (cases s) (auto split: list.splits)

lemma split_on_parts: "x \<in> set (split_on sep s) \<Longrightarrow> sep \<notin> set x"
  by (induction s arbitrary: x) (auto split: if_splits list.splits)

lemma split_on_plain: "sep \<notin> set x \<Longrightarrow> split_on sep x = [x]"
  by (induction x) auto

lemma split_on_append: "sep \<notin> set x \<Longrightarrow> split_on sep (x @ sep # s) = x # split_on sep s"
  by (induction x) auto

lemma joined_simps [simp]:
  "joined sep [] = []" "joined sep [x] = x"
  "joined sep (x # y # ys) = x @ sep @ joined sep (y # ys)"
  by (simp_all add: joined_def)

lemma split_on_joined:
  "xs \<noteq> [] \<Longrightarrow> \<forall>x \<in> set xs. sep \<notin> set x \<Longrightarrow> split_on sep (joined [sep] xs) = xs"
  by (induction xs rule: induct_list012) (auto simp: split_on_plain split_on_append)

lemma path_wf_of [simp]: "path_wf (path_of s)"
  by (auto simp: path_wf_def path_of_def root_of_def list_all_iff is_part_def dest: split_on_parts)

lemma joined_head:
  assumes "list_all (\<lambda>x. is_part x \<and> CHR ''/'' \<notin> set x) (y # ys)"
  obtains c cs where "joined ''/'' (y # ys) = c # cs" "c \<noteq> CHR ''/''"
proof -
  obtain c cs where "y = c # cs" "c \<noteq> CHR ''/''"
    using assms by (cases y) (auto simp: is_part_def)
  then show ?thesis using that by (cases ys) auto
qed

lemma path_of_text:
  assumes "path_wf p"
  shows "path_of (path_text p) = p"
proof -
  obtain r ps where p: "p = \<lparr>path_root = r, path_parts = ps\<rparr>" by (cases p)
  have r: "r \<in> {'''', ''/'', ''//''}" and ps: "list_all (\<lambda>x. is_part x \<and> CHR ''/'' \<notin> set x) ps"
    using assms by (simp_all add: p path_wf_def)
  show ?thesis
  proof (cases ps)
    case Nil
    then show ?thesis using r by (auto simp: p path_text_def path_of_def root_of_def is_part_def)
  next
    case (Cons y ys)
    obtain c cs where c: "joined ''/'' ps = c # cs" "c \<noteq> CHR ''/''"
      using joined_head ps unfolding Cons by metis
    have "split_on CHR ''/'' (joined ''/'' ps) = ps"
      using split_on_joined [of ps "CHR ''/''"] ps Cons by (auto simp: list_all_iff)
    moreover have "filter is_part ps = ps" using ps by (auto simp: list_all_iff filter_id_conv)
    ultimately show ?thesis
      using r c Cons by (auto simp: p path_text_def path_of_def root_of_def is_part_def)
  qed
qed

lemma path_text_inject: "path_wf p \<Longrightarrow> path_wf q \<Longrightarrow> path_text p = path_text q \<longleftrightarrow> p = q"
  using path_of_text by metis

text \<open>\<open>Path(str(value))\<close>.\<close>

definition value_path :: "json \<Rightarrow> path" where
  "value_path v = path_of (py_str v)"

lemma value_path_wf [simp]: "path_wf (value_path v)"
  by (simp add: value_path_def)

lemma value_path_text [simp]: "path_wf p \<Longrightarrow> value_path (JStr (path_text p)) = p"
  by (simp add: value_path_def path_of_text)

end
