(* ===== verification/Programs.thy ===== *)
theory Programs
  imports Journal_History Python_Values
begin

section \<open>Programs over the store and the file system\<close>

text \<open>
  The recovery runner makes many transactions, reads the clock between them and calls handlers
  that change files. A program takes the state of the database, of the rest of the world and a
  counter of the transactions so far, and returns a value or a failure with the new state.
  Between any two of its transactions other processes may change the database: \<open>set_others n\<close>
  is what they do before its \<open>n\<close>-th. Clock readings, the ids drawn from \<open>uuid4\<close> and the
  heartbeat thread are parameters of the same kind. The locale \<open>state_relation\<close> carries a
  relation on states through a program.
\<close>

record 'w run_state =
  run_db :: journal_db
  run_world :: 'w
  run_tick :: nat

text \<open>
  What a program can raise: an exception of the stores, the two of the recovery runner with
  their payloads, the three of the coordinator, any other \<open>Exception\<close>, and an interrupt that
  no \<open>except Exception\<close> catches.
\<close>

datatype failure =
    Raised error
  | ActionSkipped json
  | ActionManual json
  | RecoveryFailed "recovery_record option" "failure option"
  | BatchState
  | MutationFailed string
  | OtherFailure string
  | Interrupt

type_synonym ('w, 'a) program = "'w run_state \<Rightarrow> (failure + 'a) \<times> 'w run_state"

definition ret :: "'a \<Rightarrow> ('w, 'a) program" where
  "ret x s = (Inr x, s)"

definition raise :: "failure \<Rightarrow> ('w, 'a) program" where
  "raise e s = (Inl e, s)"

definition bind :: "('w, 'a) program \<Rightarrow> ('a \<Rightarrow> ('w, 'b) program) \<Rightarrow> ('w, 'b) program" where
  "bind m f s = (case m s of (Inl e, s') \<Rightarrow> (Inl e, s') | (Inr x, s') \<Rightarrow> f x s')"

text \<open>\<open>try: ... except: ...\<close>; the handler gives \<open>None\<close> for a failure it does not catch.\<close>

definition attempt :: "('w, 'a) program \<Rightarrow> (failure \<Rightarrow> ('w, 'a) program option) \<Rightarrow> ('w, 'a) program" where
  "attempt m h s = (case m s of
      (Inl e, s') \<Rightarrow> (case h e of None \<Rightarrow> (Inl e, s') | Some p \<Rightarrow> p s')
    | (Inr x, s') \<Rightarrow> (Inr x, s'))"

definition lift :: "error + 'a \<Rightarrow> ('w, 'a) program" where
  "lift r s = (map_sum Raised id r, s)"

fun each :: "('a \<Rightarrow> ('w, 'b) program) \<Rightarrow> 'a list \<Rightarrow> ('w, 'b list) program" where
  "each f [] = ret []"
| "each f (x # xs) = bind (f x) (\<lambda>y. bind (each f xs) (\<lambda>ys. ret (y # ys)))"

subsection \<open>The surroundings of a run\<close>

record surroundings =
  set_now :: "time option"
  set_clock :: "nat \<Rightarrow> time"
  set_ids :: "nat \<Rightarrow> nat \<Rightarrow> journal_db \<Rightarrow> string"
  set_others :: "nat \<Rightarrow> journal_db \<Rightarrow> journal_db"
  set_heartbeats :: bool
  set_thread_error :: "nat \<Rightarrow> error option"
  set_describe :: "failure \<Rightarrow> string \<times> string \<times> json option"

text \<open>One transaction: others first, then the body with the ids it draws, committed or rolled back.\<close>

definition transact ::
  "surroundings \<Rightarrow> ((nat \<Rightarrow> string) \<Rightarrow> journal_db \<Rightarrow> error + journal_db \<times> 'a) \<Rightarrow> ('w, 'a) program" where
  "transact S body s =
     (let n = run_tick s;
          db = set_others S n (run_db s);
          (db', r) = transaction (body (\<lambda>k. set_ids S n k db)) db
      in (map_sum Raised id r, s\<lparr>run_db := db', run_tick := Suc n\<rparr>))"

definition read :: "surroundings \<Rightarrow> (journal_db \<Rightarrow> error + 'a) \<Rightarrow> ('w, 'a) program" where
  "read S q = transact S (\<lambda>_ db. res_bind (q db) (\<lambda>x. Inr (db, x)))"

text \<open>\<open>_operation_time(now)\<close>, and the clock alone.\<close>

definition clock_time :: "surroundings \<Rightarrow> ('w, time) program" where
  "clock_time S s = (Inr (set_clock S (run_tick s)), s)"

definition operation_time :: "surroundings \<Rightarrow> ('w, time) program" where
  "operation_time S = (case set_now S of Some t \<Rightarrow> ret t | None \<Rightarrow> clock_time S)"

text \<open>\<open>with maintain_lease(...)\<close>: a first heartbeat, the body, and the thread's error if it had one.\<close>

definition raise_if_failed :: "surroundings \<Rightarrow> ('w, unit) program" where
  "raise_if_failed S s =
     (case set_thread_error S (run_tick s) of None \<Rightarrow> (Inr (), s) | Some e \<Rightarrow> (Inl (Raised e), s))"

definition maintain_lease :: "surroundings \<Rightarrow> lease_record \<Rightarrow> ('w, 'a) program \<Rightarrow> ('w, 'a) program" where
  "maintain_lease S lease body =
     (let ttl = lease_expires_at lease - lease_heartbeat_at lease
      in if ttl \<le> 0 then body
         else bind (clock_time S) (\<lambda>now.
              bind (transact S (\<lambda>_ db. heartbeat lease ttl now db)) (\<lambda>refreshed.
              if refreshed = None then raise (Raised LeaseLostError)
              else bind body (\<lambda>x. bind (raise_if_failed S) (\<lambda>_. ret x)))))"

lemma bind_Inr: "bind m f s = (Inr y, s'') \<longleftrightarrow> (\<exists>x s'. m s = (Inr x, s') \<and> f x s' = (Inr y, s''))"
  by (auto simp: bind_def split: prod.splits sum.splits)

lemma bind_apply_Inr [simp]: "m s = (Inr x, s') \<Longrightarrow> bind m f s = f x s'"
  by (simp add: bind_def)

lemma bind_apply_Inl [simp]: "m s = (Inl e, s') \<Longrightarrow> bind m f s = (Inl e, s')"
  by (simp add: bind_def)

lemma ret_apply [simp]: "ret x s = (Inr x, s)"
  by (simp add: ret_def)

lemma raise_apply [simp]: "raise e s = (Inl e, s)"
  by (simp add: raise_def)

lemma operation_time_state: "snd (operation_time S s) = s"
  by (simp add: operation_time_def clock_time_def split: option.splits)

lemma operation_time_ok: "\<exists>t. operation_time S s = (Inr t, s)"
  by (simp add: operation_time_def clock_time_def split: option.splits)

lemma read_apply:
  "read S q s = (map_sum Raised id (q (set_others S (run_tick s) (run_db s))),
     s\<lparr>run_db := set_others S (run_tick s) (run_db s), run_tick := Suc (run_tick s)\<rparr>)"
  by (cases "q (set_others S (run_tick s) (run_db s))")
    (simp_all add: read_def transact_def Let_def)

subsection \<open>Relations that a program keeps\<close>

definition keeps :: "('w run_state \<Rightarrow> 'w run_state \<Rightarrow> bool) \<Rightarrow> ('w, 'a) program \<Rightarrow> bool" where
  "keeps R m \<longleftrightarrow> (\<forall>s. R s (snd (m s)))"

named_theorems keeps_intros \<open>programs that keep a relation\<close>

locale state_relation =
  fixes R :: "'w run_state \<Rightarrow> 'w run_state \<Rightarrow> bool"
  assumes refl: "R s s"
    and trans: "R s t \<Longrightarrow> R t u \<Longrightarrow> R s u"
begin

lemma keeps_unchanged: "(\<And>s. snd (m s) = s) \<Longrightarrow> keeps R m"
  by (simp add: keeps_def refl)

lemma keeps_ret: "keeps R (ret x)"
  by (rule keeps_unchanged) simp

lemma keeps_raise: "keeps R (raise e)"
  by (rule keeps_unchanged) simp

lemma keeps_lift: "keeps R (lift r)"
  by (rule keeps_unchanged) (simp add: lift_def)

lemma keeps_time: "keeps R (operation_time S)" "keeps R (clock_time S)"
  by (auto intro!: keeps_unchanged simp: operation_time_state clock_time_def)

lemma keeps_raise_if_failed: "keeps R (raise_if_failed S)"
  by (rule keeps_unchanged) (simp add: raise_if_failed_def split: option.splits)

lemma keeps_bind:
  assumes "keeps R m" and "\<And>x. keeps R (f x)"
  shows "keeps R (bind m f)"
  unfolding keeps_def
proof
  fix s :: "'w run_state"
  show "R s (snd (bind m f s))"
  proof (cases "m s")
    case (Pair r s')
    have "R s s'" using assms(1) Pair unfolding keeps_def by (metis snd_conv)
    then show ?thesis
      using assms(2) Pair trans by (cases r) (auto simp: keeps_def bind_def)
  qed
qed

lemma keeps_attempt:
  assumes "keeps R m" and "\<And>e p. h e = Some p \<Longrightarrow> keeps R p"
  shows "keeps R (attempt m h)"
  unfolding keeps_def
proof
  fix s :: "'w run_state"
  show "R s (snd (attempt m h s))"
  proof (cases "m s")
    case (Pair r s')
    have "R s s'" using assms(1) Pair unfolding keeps_def by (metis snd_conv)
    then show ?thesis
      using assms(2) Pair trans
      by (cases r) (auto simp: keeps_def attempt_def split: option.splits)
  qed
qed

lemma keeps_each: "(\<And>x. x \<in> set xs \<Longrightarrow> keeps R (f x)) \<Longrightarrow> keeps R (each f xs)"
  by (induction xs) (auto intro!: keeps_bind keeps_ret)

lemma keeps_if: "(b \<Longrightarrow> keeps R m) \<Longrightarrow> (\<not> b \<Longrightarrow> keeps R m') \<Longrightarrow> keeps R (if b then m else m')"
  by simp

lemma keeps_option:
  "keeps R m \<Longrightarrow> (\<And>x. v = Some x \<Longrightarrow> keeps R (f x)) \<Longrightarrow> keeps R (case v of None \<Rightarrow> m | Some x \<Rightarrow> f x)"
  by (cases v) simp_all

lemma keeps_transact:
  assumes "\<And>s. R s (s\<lparr>run_db := set_others S (run_tick s) (run_db s), run_tick := Suc (run_tick s)\<rparr>)"
    and "\<And>s n db db' x. body (\<lambda>k. set_ids S n k db) db = Inr (db', x)
      \<Longrightarrow> R (s\<lparr>run_db := db\<rparr>) (s\<lparr>run_db := db'\<rparr>)"
  shows "keeps R (transact S body)"
  unfolding keeps_def
proof
  fix s :: "'w run_state"
  let ?db = "set_others S (run_tick s) (run_db s)"
  let ?s = "s\<lparr>run_db := ?db, run_tick := Suc (run_tick s)\<rparr>"
  have s: "R s ?s" by (rule assms(1))
  show "R s (snd (transact S body s))"
  proof (cases "body (\<lambda>k. set_ids S (run_tick s) k ?db) ?db")
    case (Inl e)
    with s show ?thesis by (simp add: transact_def Let_def)
  next
    case (Inr x)
    obtain db' v where x: "x = (db', v)" by (cases x)
    have "R (?s\<lparr>run_db := ?db\<rparr>) (?s\<lparr>run_db := db'\<rparr>)"
      by (rule assms(2) [OF Inr [unfolded x]])
    then have "R ?s (s\<lparr>run_db := db', run_tick := Suc (run_tick s)\<rparr>)"
      by (cases s) simp
    with s show ?thesis using Inr x trans by (simp add: transact_def Let_def)
  qed
qed

lemma keeps_read:
  assumes "\<And>s. R s (s\<lparr>run_db := set_others S (run_tick s) (run_db s), run_tick := Suc (run_tick s)\<rparr>)"
  shows "keeps R (read S q)"
  unfolding read_def by (rule keeps_transact [OF assms]) (auto simp: res_bind_Inr refl)

lemmas keeps_rules = keeps_ret keeps_raise keeps_lift keeps_time keeps_raise_if_failed keeps_bind
  keeps_attempt keeps_each keeps_if keeps_option

end

end
