(* ===== verification/File_Planning.thy ===== *)
theory File_Planning
  imports Recovery_Actions Python_Values
begin

section \<open>Planning the recovery of a file from its records\<close>

text \<open>
  \<open>operation_journal/file_recovery_planning.py\<close>: from the payload, the checkpoints and the
  failure of a batch that wrote or deleted one file, the proof that its backup may be
  restored, that nothing has to be done, or that a person has to look at it. Values of the
  payloads are \<open>json\<close>; a missing key, an absent record and Python's \<open>None\<close> are
  \<open>JNull\<close>. The tests \<open>file_type in {...}\<close> raise \<open>TypeError\<close> on a value without a
  hash, so the functions that make them return a result.
\<close>

subsection \<open>Snapshots and backups in payloads\<close>

definition snapshot_file_types :: "string list" where
  "snapshot_file_types = [''missing'', ''file'', ''directory'', ''symlink'', ''other'']"

definition is_snapshot_payload :: "json \<Rightarrow> path \<Rightarrow> error + bool" where
  "is_snapshot_payload payload path =
     (if value_path (jget payload ''path'') \<noteq> path then Inr False
      else if is_bool (jget payload ''exists'') then in_strings (jget payload ''file_type'') snapshot_file_types
      else Inr False)"

definition is_backup_payload :: "json \<Rightarrow> path \<Rightarrow> error + bool" where
  "is_backup_payload payload path =
     (let snapshot = jget payload ''snapshot'';
          file_type = jget payload ''file_type'';
          existed = jget payload ''existed''
      in if value_path (jget payload ''path'') \<noteq> path then Inr False
         else res_bind (in_strings file_type [''missing'', ''file'']) (\<lambda>known.
           if \<not> known then Inr False
           else if \<not> is_bool existed then Inr False
           else if \<not> is_mapping snapshot then Inr False
           else if value_path (jget snapshot ''path'') \<noteq> path then Inr False
           else Inr (py_eq (jget snapshot ''file_type'') file_type \<and> py_eq (jget snapshot ''exists'') existed)))"

definition snapshot_keys :: "string list" where
  "snapshot_keys = [''exists'', ''file_type'', ''content_hash'', ''size'', ''mtime_ns'',
     ''symlink_target'', ''device'', ''inode'']"

definition same_snapshot_payload :: "json \<Rightarrow> json \<Rightarrow> path \<Rightarrow> error + bool" where
  "same_snapshot_payload left right path =
     res_bind (is_snapshot_payload left path) (\<lambda>l.
     if \<not> l then Inr False
     else res_bind (is_snapshot_payload right path) (\<lambda>r.
       if \<not> r then Inr False
       else Inr (list_all (\<lambda>key. py_eq (jget left key) (jget right key)) snapshot_keys)))"

definition failure_snapshot_matches_expected_after :: "json \<Rightarrow> json \<Rightarrow> path \<Rightarrow> error + bool" where
  "failure_snapshot_matches_expected_after snapshot expected_after path =
     res_bind (is_snapshot_payload snapshot path) (\<lambda>ok.
     if \<not> ok then Inr False
     else if value_path (jget expected_after ''path'') \<noteq> path then Inr False
     else let expected_exists = jget expected_after ''exists'';
              expected_file_type = jget expected_after ''file_type''
       in if expected_exists = JBool False
          then Inr (jget snapshot ''exists'' = JBool False \<and> jget snapshot ''file_type'' = JStr ''missing'')
          else if expected_exists = JBool True \<and> expected_file_type = JStr ''file''
          then let expected_hash = (if jhas expected_after ''sha256'' then jget expected_after ''sha256''
                                    else jget expected_after ''content_hash'')
               in Inr (jget snapshot ''exists'' = JBool True \<and> jget snapshot ''file_type'' = JStr ''file''
                    \<and> py_eq (jget snapshot ''size'') (jget expected_after ''size'')
                    \<and> py_eq (jget snapshot ''content_hash'') expected_hash)
          else Inr False)"

subsection \<open>Failure payloads\<close>

definition failure_stage :: "json \<Rightarrow> json" where
  "failure_stage failure =
     (if \<not> is_mapping failure then JNull
      else let stage = jget failure ''stage'' in if stage = JNull then JNull else JStr (py_str stage))"

definition failure_stage_is_before_mutation :: "json \<Rightarrow> bool" where
  "failure_stage_is_before_mutation failure \<longleftrightarrow>
     is_mapping failure \<and> jget failure ''stage'' = JStr ''prepare_checkpoints''"

definition failure_snapshot_payload :: "json \<Rightarrow> json option" where
  "failure_snapshot_payload failure =
     (if \<not> is_mapping failure then None
      else let snapshot = jget failure ''snapshot'' in if is_mapping snapshot then Some snapshot else None)"

definition failure_observed_after_payload :: "json \<Rightarrow> json option" where
  "failure_observed_after_payload failure =
     (if \<not> is_mapping failure then None
      else let after = jget failure ''after''
           in if is_mapping after then Some after else failure_snapshot_payload failure)"

definition latest_failure_payload :: "recovery_context \<Rightarrow> json" where
  "latest_failure_payload context =
     (let failure = jget (br_status_payload (rc_batch context)) ''failure''
      in if failure \<noteq> JNull then failure
         else case find (\<lambda>r. is_mapping (recovery_payload r) \<and> jget (recovery_payload r) ''failure'' \<noteq> JNull)
                     (rev (rc_recovery_records context)) of
             None \<Rightarrow> JNull
           | Some r \<Rightarrow> jget (recovery_payload r) ''failure'')"

subsection \<open>The proof\<close>

definition latest_checkpoint_from_records ::
  "checkpoint_record list \<Rightarrow> string \<Rightarrow> string \<Rightarrow> path \<Rightarrow> checkpoint_record option" where
  "latest_checkpoint_from_records checkpoints type resource_key path =
     find (\<lambda>c. checkpoint_type c = type \<and> checkpoint_resource_key c = resource_key
               \<and> value_path (jget (checkpoint_payload c) ''path'') = path) (rev checkpoints)"

datatype proof_kind = PROOF_RESTORE | PROOF_NOOP | PROOF_MANUAL

record file_proof =
  proof_kind :: proof_kind
  proof_action_id :: string
  proof_resource_key :: string
  proof_payload :: json

definition noop_proof :: "string \<Rightarrow> string \<Rightarrow> path \<Rightarrow> json \<Rightarrow> file_proof" where
  "noop_proof act_id rkey path failure =
     \<lparr>proof_kind = PROOF_NOOP, proof_action_id = ''noop:'' @ act_id, proof_resource_key = rkey,
      proof_payload = JObj [(''path'', JStr (path_text path)),
        (''reason_code'', JStr ''mutation_not_started''), (''failure_stage'', failure_stage failure)]\<rparr>"

definition before_mutation_noop_proof ::
  "checkpoint_record list \<Rightarrow> string \<Rightarrow> path \<Rightarrow> string \<Rightarrow> json \<Rightarrow> error + file_proof option" where
  "before_mutation_noop_proof checkpoints rkey path act_id failure =
     (if \<not> failure_stage_is_before_mutation failure then Inr None
      else case (latest_checkpoint_from_records checkpoints ''before'' rkey path,
                 failure_snapshot_payload failure) of
          (Some before, Some snapshot) \<Rightarrow>
            res_bind (same_snapshot_payload (checkpoint_payload before) snapshot path) (\<lambda>same.
            Inr (if same then Some (noop_proof act_id rkey path failure) else None))
        | _ \<Rightarrow> Inr None)"

definition no_side_effect_noop_proof ::
  "checkpoint_record list \<Rightarrow> string \<Rightarrow> path \<Rightarrow> string \<Rightarrow> checkpoint_record \<Rightarrow> json
    \<Rightarrow> error + file_proof option" where
  "no_side_effect_noop_proof checkpoints rkey path act_id backup failure =
     (case failure_snapshot_payload failure of
        None \<Rightarrow> Inr None
      | Some snapshot \<Rightarrow>
          if latest_checkpoint_from_records checkpoints ''expected_after'' rkey path = None then Inr None
          else
          res_bind (case latest_checkpoint_from_records checkpoints ''before'' rkey path of
              None \<Rightarrow> Inr False
            | Some before \<Rightarrow> same_snapshot_payload (checkpoint_payload before) snapshot path)
            (\<lambda>matches_before.
          res_bind (let backup_snapshot = jget (checkpoint_payload backup) ''snapshot''
                    in if is_mapping backup_snapshot then same_snapshot_payload backup_snapshot snapshot path
                       else Inr False)
            (\<lambda>matches_backup.
          Inr (if \<not> matches_before \<and> \<not> matches_backup then None
               else Some (noop_proof act_id rkey path failure)))))"

text \<open>The state the file is expected to be in now: after the mutation, or as the failure saw it.\<close>

definition checked_payload :: "json option \<Rightarrow> (json \<Rightarrow> error + bool) \<Rightarrow> error + json option" where
  "checked_payload candidate check =
     (case candidate of
        None \<Rightarrow> Inr None
      | Some payload \<Rightarrow> res_bind (check payload) (\<lambda>ok. Inr (if ok then Some payload else None)))"

definition observed_current_payload ::
  "checkpoint_record list \<Rightarrow> string \<Rightarrow> path \<Rightarrow> json \<Rightarrow> error + json option" where
  "observed_current_payload checkpoints rkey path failure =
     (case latest_checkpoint_from_records checkpoints ''expected_after'' rkey path of
        None \<Rightarrow> Inr None
      | Some expected \<Rightarrow>
          let matches = (\<lambda>p. failure_snapshot_matches_expected_after p (checkpoint_payload expected) path)
          in res_bind (checked_payload (failure_observed_after_payload failure) matches) (\<lambda>observed.
             if observed \<noteq> None then Inr observed
             else checked_payload
                    (map_option checkpoint_payload
                       (latest_checkpoint_from_records checkpoints ''failure'' rkey path)) matches))"

definition expected_current_payload ::
  "checkpoint_record list \<Rightarrow> string \<Rightarrow> path \<Rightarrow> json \<Rightarrow> error + json option" where
  "expected_current_payload checkpoints rkey path failure =
     res_bind (checked_payload
         (map_option checkpoint_payload (latest_checkpoint_from_records checkpoints ''after'' rkey path))
         (\<lambda>p. is_snapshot_payload p path)) (\<lambda>after.
     res_bind (if after \<noteq> None then Inr after
               else observed_current_payload checkpoints rkey path failure) (\<lambda>current.
     if current = None \<and> failure_stage_is_before_mutation failure
     then checked_payload (failure_snapshot_payload failure) (\<lambda>p. is_snapshot_payload p path)
     else Inr current))"

definition restore_proof :: "string \<Rightarrow> string \<Rightarrow> path \<Rightarrow> json \<Rightarrow> json \<Rightarrow> file_proof" where
  "restore_proof act_id rkey path backup current =
     \<lparr>proof_kind = PROOF_RESTORE, proof_action_id = act_id, proof_resource_key = rkey,
      proof_payload = JObj [(''path'', JStr (path_text path)), (''backup'', backup),
        (''expected_current'', current), (''allow_overwrite'', JBool False)]\<rparr>"

definition manual_proof ::
  "string \<Rightarrow> string \<Rightarrow> path \<Rightarrow> (string \<times> json) list \<Rightarrow> string \<Rightarrow> json \<Rightarrow> file_proof" where
  "manual_proof act_id rkey path backup reason_code failure =
     \<lparr>proof_kind = PROOF_MANUAL, proof_action_id = ''manual:'' @ act_id, proof_resource_key = rkey,
      proof_payload = JObj ([(''path'', JStr (path_text path))] @ backup
        @ [(''reason_code'', JStr reason_code), (''failure_stage'', failure_stage failure)])\<rparr>"

text \<open>The backup checkpoint of the file, when its payload is one.\<close>

definition usable_backup ::
  "checkpoint_record list \<Rightarrow> string \<Rightarrow> path \<Rightarrow> error + checkpoint_record option" where
  "usable_backup checkpoints rkey path =
     (case latest_checkpoint_from_records checkpoints ''backup'' rkey path of
        None \<Rightarrow> Inr None
      | Some c \<Rightarrow> res_bind (is_backup_payload (checkpoint_payload c) path) (\<lambda>ok.
          Inr (if ok then Some c else None)))"

definition restore_backup_action_id :: "string \<Rightarrow> string" where
  "restore_backup_action_id rkey = ''restore-backup:self:'' @ rkey"

definition file_recovery_proof_from_records ::
  "json \<Rightarrow> checkpoint_record list \<Rightarrow> string option \<Rightarrow> json \<Rightarrow> error + file_proof option" where
  "file_recovery_proof_from_records payload checkpoints resource_key failure =
     res_bind (in_strings (jget payload ''operation'') [''write_bytes'', ''write_text'', ''delete_file''])
       (\<lambda>known.
     if \<not> known then Inr None
     else case resource_key of
       None \<Rightarrow> Inr None
     | Some rkey \<Rightarrow>
         if jget payload ''path'' = JNull then Inr None
         else
         let path = value_path (jget payload ''path'');
             act_id = restore_backup_action_id rkey
         in res_bind (usable_backup checkpoints rkey path) (\<lambda>usable.
            case usable of
              None \<Rightarrow>
                res_bind (before_mutation_noop_proof checkpoints rkey path act_id failure) (\<lambda>noop.
                if noop \<noteq> None then Inr noop
                else Inr (Some (manual_proof act_id rkey path [] ''missing_backup_proof'' failure)))
            | Some backup \<Rightarrow>
                res_bind (expected_current_payload checkpoints rkey path failure) (\<lambda>current.
                case current of
                  Some c \<Rightarrow> Inr (Some (restore_proof act_id rkey path (checkpoint_payload backup) c))
                | None \<Rightarrow>
                    res_bind (no_side_effect_noop_proof checkpoints rkey path act_id backup failure) (\<lambda>noop.
                    if noop \<noteq> None then Inr noop
                    else Inr (Some (manual_proof act_id rkey path [(''backup'', checkpoint_payload backup)]
                           ''missing_expected_current_proof'' failure))))))"

subsection \<open>What the callers ask\<close>

definition file_recovery_proof :: "recovery_context \<Rightarrow> error + file_proof option" where
  "file_recovery_proof context =
     file_recovery_proof_from_records (br_payload (rc_batch context)) (rc_checkpoints context)
       (br_resource_key (rc_batch context)) (latest_failure_payload context)"

record action_plan =
  plan_action_id :: string
  plan_action_type :: string
  plan_resource_key :: "string option"
  plan_payload :: json

definition mapping_payload_copy :: "json \<Rightarrow> error + json" where
  "mapping_payload_copy v = (if is_mapping v then Inr v else Inl ValueError)"

definition file_recovery_action_plans :: "recovery_context \<Rightarrow> error + action_plan list" where
  "file_recovery_action_plans context =
     res_bind (file_recovery_proof context) (\<lambda>prf.
     case prf of
       None \<Rightarrow> Inr []
     | Some p \<Rightarrow>
         if proof_kind p \<noteq> PROOF_RESTORE then Inr []
         else res_bind (mapping_payload_copy (proof_payload p)) (\<lambda>payload.
              Inr [\<lparr>plan_action_id = proof_action_id p, plan_action_type = ''restore_backup'',
                    plan_resource_key = Some (proof_resource_key p), plan_payload = payload\<rparr>]))"

definition automatic_file_rollback_supported :: "recovery_context \<Rightarrow> error + bool" where
  "automatic_file_rollback_supported context =
     res_bind (file_recovery_proof context) (\<lambda>prf.
     Inr (case prf of None \<Rightarrow> False | Some p \<Rightarrow> proof_kind p \<in> {PROOF_RESTORE, PROOF_NOOP}))"

text \<open>The action id, the resource key and the payload of the manual intervention, if one is needed.\<close>

definition file_rollback_manual_intervention_payload ::
  "recovery_context \<Rightarrow> error + (string \<times> string \<times> json) option" where
  "file_rollback_manual_intervention_payload context =
     res_bind (file_recovery_proof context) (\<lambda>prf.
     case prf of
       None \<Rightarrow> Inr None
     | Some p \<Rightarrow>
         if proof_kind p \<noteq> PROOF_MANUAL then Inr None
         else res_bind (mapping_payload_copy (proof_payload p)) (\<lambda>payload.
              Inr (Some (proof_action_id p, proof_resource_key p, payload))))"

definition batch_has_automatic_file_rollback_proof ::
  "json \<Rightarrow> checkpoint_record list \<Rightarrow> string option \<Rightarrow> json \<Rightarrow> error + bool" where
  "batch_has_automatic_file_rollback_proof payload checkpoints resource_key failure =
     res_bind (file_recovery_proof_from_records payload checkpoints resource_key failure) (\<lambda>prf.
     Inr (case prf of None \<Rightarrow> False | Some p \<Rightarrow> proof_kind p \<in> {PROOF_RESTORE, PROOF_NOOP}))"

definition proof_payload_has_backup :: "file_proof \<Rightarrow> bool" where
  "proof_payload_has_backup p \<longleftrightarrow> is_mapping (proof_payload p) \<and> is_mapping (jget (proof_payload p) ''backup'')"

definition batch_has_file_rollback_backup_proof ::
  "json \<Rightarrow> checkpoint_record list \<Rightarrow> string option \<Rightarrow> json \<Rightarrow> error + bool" where
  "batch_has_file_rollback_backup_proof payload checkpoints resource_key failure =
     res_bind (file_recovery_proof_from_records payload checkpoints resource_key failure) (\<lambda>prf.
     Inr (case prf of None \<Rightarrow> False
          | Some p \<Rightarrow> proof_kind p = PROOF_NOOP \<or> proof_payload_has_backup p))"

subsection \<open>Where a proof comes from\<close>

text \<open>
  The state that a restore may overwrite: the snapshot recorded after the mutation, a snapshot
  that agrees with what the mutation was to leave behind, or, when the failure came before
  the mutation, the snapshot the failure took.
\<close>

definition current_justified ::
  "checkpoint_record list \<Rightarrow> string \<Rightarrow> path \<Rightarrow> json \<Rightarrow> json \<Rightarrow> bool" where
  "current_justified checkpoints rkey path failure current \<longleftrightarrow>
     is_snapshot_payload current path = Inr True \<and>
     ((\<exists>c. latest_checkpoint_from_records checkpoints ''after'' rkey path = Some c
           \<and> current = checkpoint_payload c)
      \<or> (\<exists>e. latest_checkpoint_from_records checkpoints ''expected_after'' rkey path = Some e
           \<and> failure_snapshot_matches_expected_after current (checkpoint_payload e) path = Inr True)
      \<or> failure_stage_is_before_mutation failure \<and> failure_snapshot_payload failure = Some current)"

text \<open>The state that a no-op proof compares the failure's snapshot with.\<close>

definition unchanged_since ::
  "checkpoint_record list \<Rightarrow> string \<Rightarrow> path \<Rightarrow> json \<Rightarrow> json \<Rightarrow> bool" where
  "unchanged_since checkpoints rkey path snapshot reference \<longleftrightarrow>
     same_snapshot_payload reference snapshot path = Inr True \<and>
     ((\<exists>c. latest_checkpoint_from_records checkpoints ''before'' rkey path = Some c
           \<and> reference = checkpoint_payload c)
      \<or> (\<exists>c. usable_backup checkpoints rkey path = Inr (Some c)
           \<and> reference = jget (checkpoint_payload c) ''snapshot''))"

lemma checked_payload_Some:
  "checked_payload candidate check = Inr (Some p) \<longleftrightarrow> candidate = Some p \<and> check p = Inr True"
  by (auto simp: checked_payload_def res_bind_Inr split: option.splits if_splits)

lemma matches_snapshot:
  "failure_snapshot_matches_expected_after p e path = Inr True \<Longrightarrow> is_snapshot_payload p path = Inr True"
  by (auto simp: failure_snapshot_matches_expected_after_def res_bind_Inr split: if_splits)

lemma usable_backup_Some:
  "usable_backup cps rkey path = Inr (Some c) \<longleftrightarrow>
     latest_checkpoint_from_records cps ''backup'' rkey path = Some c
     \<and> is_backup_payload (checkpoint_payload c) path = Inr True"
  by (auto simp: usable_backup_def res_bind_Inr split: option.splits if_splits)

lemma latest_checkpoint_Some:
  "latest_checkpoint_from_records cps type rkey path = Some c
    \<Longrightarrow> c \<in> set cps \<and> checkpoint_type c = type \<and> checkpoint_resource_key c = rkey
      \<and> value_path (jget (checkpoint_payload c) ''path'') = path"
  unfolding latest_checkpoint_from_records_def by (drule find_Some_iff_unique) simp

lemma observed_current_justified:
  assumes "observed_current_payload cps rkey path failure = Inr (Some c)"
  shows "current_justified cps rkey path failure c"
proof -
  obtain e where e: "latest_checkpoint_from_records cps ''expected_after'' rkey path = Some e"
    using assms by (auto simp: observed_current_payload_def split: option.splits)
  have "failure_snapshot_matches_expected_after c (checkpoint_payload e) path = Inr True"
    using assms e by (auto simp: observed_current_payload_def Let_def res_bind_Inr checked_payload_Some
        split: if_splits)
  with e matches_snapshot show ?thesis by (auto simp: current_justified_def)
qed

lemma expected_current_justified:
  assumes "expected_current_payload cps rkey path failure = Inr (Some c)"
  shows "current_justified cps rkey path failure c"
proof -
  let ?after = "map_option checkpoint_payload (latest_checkpoint_from_records cps ''after'' rkey path)"
  consider
      (after) "checked_payload ?after (\<lambda>p. is_snapshot_payload p path) = Inr (Some c)"
    | (observed) "observed_current_payload cps rkey path failure = Inr (Some c)"
    | (early) "failure_stage_is_before_mutation failure"
        "checked_payload (failure_snapshot_payload failure) (\<lambda>p. is_snapshot_payload p path) = Inr (Some c)"
    using assms by (auto simp: expected_current_payload_def res_bind_Inr split: if_splits)
  then show ?thesis
  proof cases
    case after
    then show ?thesis by (auto simp: current_justified_def checked_payload_Some)
  next
    case observed
    then show ?thesis by (rule observed_current_justified)
  next
    case early
    then show ?thesis by (simp add: current_justified_def checked_payload_Some)
  qed
qed

lemma before_mutation_noop_ok:
  assumes "before_mutation_noop_proof cps rkey path aid failure = Inr (Some p)"
  shows "p = noop_proof aid rkey path failure"
    "\<exists>snapshot reference. failure_snapshot_payload failure = Some snapshot
       \<and> unchanged_since cps rkey path snapshot reference"
  using assms
  by (auto simp: before_mutation_noop_proof_def unchanged_since_def res_bind_Inr
      split: option.splits if_splits)

lemma no_side_effect_noop_ok:
  assumes "no_side_effect_noop_proof cps rkey path aid backup failure = Inr (Some p)"
    and "usable_backup cps rkey path = Inr (Some backup)"
  shows "p = noop_proof aid rkey path failure"
    "\<exists>snapshot reference. failure_snapshot_payload failure = Some snapshot
       \<and> unchanged_since cps rkey path snapshot reference"
proof -
  obtain snapshot mb mu where s: "failure_snapshot_payload failure = Some snapshot"
    and mb: "(case latest_checkpoint_from_records cps ''before'' rkey path of None \<Rightarrow> Inr False
        | Some before \<Rightarrow> same_snapshot_payload (checkpoint_payload before) snapshot path) = Inr mb"
    and mu: "(let b = jget (checkpoint_payload backup) ''snapshot''
        in if is_mapping b then same_snapshot_payload b snapshot path else Inr False) = Inr mu"
    and p: "mb \<or> mu" "p = noop_proof aid rkey path failure"
    using assms(1) by (auto simp: no_side_effect_noop_proof_def res_bind_Inr split: option.splits if_splits)
  then show "p = noop_proof aid rkey path failure" by blast
  have "\<exists>reference. unchanged_since cps rkey path snapshot reference"
    using p(1)
  proof
    assume mb
    with mb show ?thesis by (auto simp: unchanged_since_def split: option.splits)
  next
    assume mu
    with mu assms(2) show ?thesis by (auto simp: unchanged_since_def Let_def split: if_splits)
  qed
  with s show "\<exists>snapshot reference. failure_snapshot_payload failure = Some snapshot
       \<and> unchanged_since cps rkey path snapshot reference" by blast
qed

text \<open>The ways in which a proof is made.\<close>

lemma file_recovery_proof_ok:
  assumes "file_recovery_proof_from_records payload cps rk failure = Inr (Some p)"
  obtains rkey path where "rk = Some rkey" "path = value_path (jget payload ''path'')"
      "(\<exists>backup current. usable_backup cps rkey path = Inr (Some backup)
          \<and> expected_current_payload cps rkey path failure = Inr (Some current)
          \<and> p = restore_proof (restore_backup_action_id rkey) rkey path (checkpoint_payload backup) current)
       \<or> (p = noop_proof (restore_backup_action_id rkey) rkey path failure
          \<and> (\<exists>snapshot reference. failure_snapshot_payload failure = Some snapshot
               \<and> unchanged_since cps rkey path snapshot reference))
       \<or> (usable_backup cps rkey path = Inr None
          \<and> p = manual_proof (restore_backup_action_id rkey) rkey path [] ''missing_backup_proof'' failure)
       \<or> (\<exists>backup. usable_backup cps rkey path = Inr (Some backup)
          \<and> expected_current_payload cps rkey path failure = Inr None
          \<and> p = manual_proof (restore_backup_action_id rkey) rkey path [(''backup'', checkpoint_payload backup)]
                  ''missing_expected_current_proof'' failure)"
proof -
  let ?path = "value_path (jget payload ''path'')"
  obtain rkey u where rk: "rk = Some rkey" and u: "usable_backup cps rkey ?path = Inr u"
    using assms by (auto simp: file_recovery_proof_from_records_def res_bind_Inr Let_def
        split: option.splits if_splits)
  let ?id = "restore_backup_action_id rkey"
  show ?thesis
  proof (cases u)
    case None
    then obtain b where b: "before_mutation_noop_proof cps rkey ?path ?id failure = Inr b"
      using assms u by (auto simp: file_recovery_proof_from_records_def rk res_bind_Inr Let_def split: if_splits)
    then have p: "p = (case b of None \<Rightarrow> manual_proof ?id rkey ?path [] ''missing_backup_proof'' failure | Some n \<Rightarrow> n)"
      using assms u None
      by (auto simp: file_recovery_proof_from_records_def rk res_bind_Inr Let_def split: if_splits option.splits)
    show ?thesis
    proof (cases b)
      case None
      with p u \<open>u = None\<close> show ?thesis by (intro that [OF rk refl]) simp
    next
      case (Some n)
      with b have n: "before_mutation_noop_proof cps rkey ?path ?id failure = Inr (Some n)" by simp
      show ?thesis
        using before_mutation_noop_ok [OF n] p Some by (intro that [OF rk refl]) simp
    qed
  next
    case (Some backup)
    with u have u: "usable_backup cps rkey ?path = Inr (Some backup)" by simp
    then obtain c where c: "expected_current_payload cps rkey ?path failure = Inr c"
      using assms by (auto simp: file_recovery_proof_from_records_def rk res_bind_Inr Let_def split: if_splits)
    show ?thesis
    proof (cases c)
      case None
      then obtain b where b: "no_side_effect_noop_proof cps rkey ?path ?id backup failure = Inr b"
        using assms u c by (auto simp: file_recovery_proof_from_records_def rk res_bind_Inr Let_def split: if_splits)
      then have p: "p = (case b of None \<Rightarrow> manual_proof ?id rkey ?path [(''backup'', checkpoint_payload backup)]
            ''missing_expected_current_proof'' failure | Some n \<Rightarrow> n)"
        using assms u c None
        by (auto simp: file_recovery_proof_from_records_def rk res_bind_Inr Let_def split: if_splits option.splits)
      show ?thesis
      proof (cases b)
        case None
        with p u c \<open>c = None\<close> show ?thesis by (intro that [OF rk refl]) simp
      next
        case (Some n)
        with b have n: "no_side_effect_noop_proof cps rkey ?path ?id backup failure = Inr (Some n)" by simp
        show ?thesis
          using no_side_effect_noop_ok [OF n u] p Some by (intro that [OF rk refl]) simp
      qed
    next
      case (Some current)
      then have "p = restore_proof ?id rkey ?path (checkpoint_payload backup) current"
        using assms u c by (auto simp: file_recovery_proof_from_records_def rk res_bind_Inr Let_def split: if_splits)
      with u c Some show ?thesis by (intro that [OF rk refl]) simp
    qed
  qed
qed

subsection \<open>When planning raises\<close>

text \<open>The file types that planning looks up in a set are hashable.\<close>

definition plain_snapshot :: "json \<Rightarrow> bool" where
  "plain_snapshot payload \<longleftrightarrow> hashable (jget payload ''file_type'')"

definition plain_failure :: "json \<Rightarrow> bool" where
  "plain_failure failure \<longleftrightarrow> plain_snapshot (jget failure ''snapshot'') \<and> plain_snapshot (jget failure ''after'')"

definition plain_checkpoint :: "checkpoint_record \<Rightarrow> bool" where
  "plain_checkpoint c \<longleftrightarrow> plain_snapshot (checkpoint_payload c)
     \<and> plain_snapshot (jget (checkpoint_payload c) ''snapshot'')"

named_theorems plain_simps \<open>planning functions that return on hashable file types\<close>

lemma plain_in_strings: "hashable v \<Longrightarrow> \<exists>b. in_strings v names = Inr b"
  by (simp add: in_strings_def)

lemma plain_is_snapshot [plain_simps]: "plain_snapshot p \<Longrightarrow> \<exists>b. is_snapshot_payload p path = Inr b"
  by (auto simp: is_snapshot_payload_def plain_snapshot_def plain_in_strings)

lemma plain_is_backup [plain_simps]: "plain_snapshot p \<Longrightarrow> \<exists>b. is_backup_payload p path = Inr b"
  using plain_in_strings [of "jget p ''file_type''" "[''missing'', ''file'']"]
  by (auto simp: is_backup_payload_def plain_snapshot_def Let_def)

lemma plain_same [plain_simps]:
  assumes "plain_snapshot l" and "plain_snapshot r"
  shows "\<exists>b. same_snapshot_payload l r path = Inr b"
  using plain_is_snapshot [OF assms(1), of path] plain_is_snapshot [OF assms(2), of path]
  by (auto simp: same_snapshot_payload_def)

lemma plain_matches [plain_simps]:
  "plain_snapshot p \<Longrightarrow> \<exists>b. failure_snapshot_matches_expected_after p e path = Inr b"
  using plain_is_snapshot [of p path] by (auto simp: failure_snapshot_matches_expected_after_def Let_def)

lemma plain_checked:
  assumes "\<And>p. candidate = Some p \<Longrightarrow> \<exists>b. check p = Inr b"
  shows "\<exists>r. checked_payload candidate check = Inr r"
  using assms by (cases candidate) (fastforce simp: checked_payload_def)+

lemma plain_failure_parts:
  assumes "plain_failure failure"
  shows "failure_snapshot_payload failure = Some s \<Longrightarrow> plain_snapshot s"
    "failure_observed_after_payload failure = Some s \<Longrightarrow> plain_snapshot s"
  using assms
  by (auto simp: plain_failure_def failure_snapshot_payload_def failure_observed_after_payload_def Let_def
      split: if_splits)

lemma plain_latest:
  assumes "\<forall>c \<in> set cps. plain_checkpoint c"
    and "latest_checkpoint_from_records cps type rkey path = Some c"
  shows "plain_snapshot (checkpoint_payload c)" "plain_snapshot (jget (checkpoint_payload c) ''snapshot'')"
  using assms latest_checkpoint_Some [OF assms(2)] by (auto simp: plain_checkpoint_def)

lemma plain_usable:
  assumes "\<forall>c \<in> set cps. plain_checkpoint c"
  shows "\<exists>u. usable_backup cps rkey path = Inr u"
proof (cases "latest_checkpoint_from_records cps ''backup'' rkey path")
  case None
  then show ?thesis by (simp add: usable_backup_def)
next
  case (Some c)
  then show ?thesis
    using plain_is_backup [OF plain_latest(1) [OF assms Some], of path] by (auto simp: usable_backup_def)
qed

lemma plain_observed:
  assumes "\<forall>c \<in> set cps. plain_checkpoint c" and "plain_failure failure"
  shows "\<exists>r. observed_current_payload cps rkey path failure = Inr r"
proof (cases "latest_checkpoint_from_records cps ''expected_after'' rkey path")
  case None
  then show ?thesis by (simp add: observed_current_payload_def)
next
  case (Some e)
  let ?m = "\<lambda>p. failure_snapshot_matches_expected_after p (checkpoint_payload e) path"
  let ?f = "map_option checkpoint_payload (latest_checkpoint_from_records cps ''failure'' rkey path)"
  obtain r where r: "checked_payload (failure_observed_after_payload failure) ?m = Inr r"
    using plain_checked [of _ ?m] plain_matches plain_failure_parts(2) [OF assms(2)] by meson
  obtain r' where r': "checked_payload ?f ?m = Inr r'"
    using plain_checked [of ?f ?m] plain_matches plain_latest(1) [OF assms(1)] by force
  show ?thesis using r r' by (simp add: observed_current_payload_def Some)
qed

lemma plain_expected_current:
  assumes "\<forall>c \<in> set cps. plain_checkpoint c" and "plain_failure failure"
  shows "\<exists>r. expected_current_payload cps rkey path failure = Inr r"
proof -
  let ?s = "\<lambda>p. is_snapshot_payload p path"
  let ?a = "map_option checkpoint_payload (latest_checkpoint_from_records cps ''after'' rkey path)"
  obtain r where r: "checked_payload ?a ?s = Inr r"
    using plain_checked [of ?a ?s] plain_is_snapshot plain_latest(1) [OF assms(1)] by force
  obtain r' where r': "observed_current_payload cps rkey path failure = Inr r'"
    using plain_observed [OF assms] by blast
  obtain r'' where r'': "checked_payload (failure_snapshot_payload failure) ?s = Inr r''"
    using plain_checked [of _ ?s] plain_is_snapshot plain_failure_parts(1) [OF assms(2)] by meson
  show ?thesis using r r' r'' by (auto simp: expected_current_payload_def)
qed

lemma plain_before_noop:
  assumes "\<forall>c \<in> set cps. plain_checkpoint c" and "plain_failure failure"
  shows "\<exists>r. before_mutation_noop_proof cps rkey path aid failure = Inr r"
proof -
  have "\<exists>b. same_snapshot_payload (checkpoint_payload c) s path = Inr b"
    if "latest_checkpoint_from_records cps ''before'' rkey path = Some c"
      and "failure_snapshot_payload failure = Some s" for c s
    using plain_same plain_latest(1) [OF assms(1) that(1)] plain_failure_parts(1) [OF assms(2) that(2)] by blast
  then show ?thesis
    by (cases "latest_checkpoint_from_records cps ''before'' rkey path"; cases "failure_snapshot_payload failure")
      (fastforce simp: before_mutation_noop_proof_def)+
qed

lemma plain_no_side_effect:
  assumes "\<forall>c \<in> set cps. plain_checkpoint c" and "plain_failure failure"
    and "usable_backup cps rkey path = Inr (Some backup)"
  shows "\<exists>r. no_side_effect_noop_proof cps rkey path aid backup failure = Inr r"
proof (cases "failure_snapshot_payload failure")
  case None
  then show ?thesis by (simp add: no_side_effect_noop_proof_def)
next
  case (Some s)
  have s: "plain_snapshot s" by (rule plain_failure_parts(1) [OF assms(2) Some])
  let ?before = "case latest_checkpoint_from_records cps ''before'' rkey path of None \<Rightarrow> Inr False
      | Some before \<Rightarrow> same_snapshot_payload (checkpoint_payload before) s path"
  let ?backup = "let b = jget (checkpoint_payload backup) ''snapshot''
      in if is_mapping b then same_snapshot_payload b s path else Inr False"
  obtain mb where mb: "?before = Inr mb"
  proof (cases "latest_checkpoint_from_records cps ''before'' rkey path")
    case (Some c)
    with that show ?thesis using plain_same [OF plain_latest(1) [OF assms(1) Some] s, of path] by auto
  qed (use that [of False] in simp)
  have l: "latest_checkpoint_from_records cps ''backup'' rkey path = Some backup"
    using assms(3) by (simp add: usable_backup_Some)
  obtain same where same: "same_snapshot_payload (jget (checkpoint_payload backup) ''snapshot'') s path = Inr same"
    using plain_same [OF plain_latest(2) [OF assms(1) l] s, of path] by blast
  have "\<exists>mu. ?backup = Inr mu" using same by (auto simp: Let_def)
  then obtain mu where mu: "?backup = Inr mu" by blast
  show ?thesis using mb mu by (simp add: no_side_effect_noop_proof_def Some)
qed

lemma file_recovery_proof_returns:
  assumes "hashable (jget payload ''operation'')" and "\<forall>c \<in> set cps. plain_checkpoint c"
    and "plain_failure failure"
  shows "\<exists>r. file_recovery_proof_from_records payload cps rk failure = Inr r
    \<and> (r = None \<longleftrightarrow> jget payload ''operation'' \<notin> JStr ` {''write_bytes'', ''write_text'', ''delete_file''}
         \<or> rk = None \<or> jget payload ''path'' = JNull)"
proof -
  let ?path = "value_path (jget payload ''path'')"
  define known where "known \<longleftrightarrow> jget payload ''operation'' \<in> JStr ` {''write_bytes'', ''write_text'', ''delete_file''}"
  have op: "in_strings (jget payload ''operation'') [''write_bytes'', ''write_text'', ''delete_file''] = Inr known"
    using assms(1) by (auto simp: known_def in_strings_def split: json.splits)
  have "\<exists>r. file_recovery_proof_from_records payload cps rk failure = Inr r
    \<and> (r = None \<longleftrightarrow> \<not> known \<or> rk = None \<or> jget payload ''path'' = JNull)"
  proof (cases "known \<and> rk \<noteq> None \<and> jget payload ''path'' \<noteq> JNull")
    case False
    then show ?thesis
      by (cases rk) (auto simp: file_recovery_proof_from_records_def op)
  next
    case True
    then obtain rkey where rk: "rk = Some rkey" by blast
    obtain u where u: "usable_backup cps rkey ?path = Inr u" using plain_usable [OF assms(2)] by blast
    obtain b where b: "before_mutation_noop_proof cps rkey ?path (restore_backup_action_id rkey) failure = Inr b"
      using plain_before_noop [OF assms(2,3)] by blast
    obtain c where c: "expected_current_payload cps rkey ?path failure = Inr c"
      using plain_expected_current [OF assms(2,3)] by blast
    have n: "\<exists>r. no_side_effect_noop_proof cps rkey ?path (restore_backup_action_id rkey) backup failure = Inr r"
      if "u = Some backup" for backup
      using plain_no_side_effect [OF assms(2,3)] u that by simp
    have k: "known" "jget payload ''path'' \<noteq> JNull" using True by blast+
    show ?thesis
      using k n by (cases u; cases c)
        (auto simp: file_recovery_proof_from_records_def op rk Let_def u b c)
  qed
  then show ?thesis unfolding known_def .
qed

end
