(* ===== verification/Mkdir_Planning.thy ===== *)
theory Mkdir_Planning
  imports File_Planning "HOL-Library.Multiset"
begin

section \<open>Planning the recovery of directories and renames\<close>

text \<open>
  \<open>recursive_mkdir_recovery_planning.py\<close> with the proof checks of
  \<open>recursive_mkdir_recovery_actions.py\<close>, and \<open>rename_recovery_planning.py\<close>: which
  directories that a transaction created may be removed again and in which order, and which
  rename may be undone. \<open>same_object\<close> is Python's \<open>is\<close> on two values that were loaded from
  two payloads; the values of one payload are the same object.
\<close>

subsection \<open>The proof that a directory was created here\<close>

definition is_int :: "json \<Rightarrow> bool" where
  "is_int v \<longleftrightarrow> py_int v \<noteq> None"

definition allowed_directory_remove_guarantees :: "string set" where
  "allowed_directory_remove_guarantees = {''identity_conditional_remove''}"

definition payload_identity_matches_action :: "json \<Rightarrow> path \<Rightarrow> string \<Rightarrow> bool" where
  "payload_identity_matches_action v path rkey \<longleftrightarrow>
     value_path (jget v ''path'') = path \<and> py_str (jget v ''resource_key'') = rkey"

definition payload_matches_action_path_and_resource_key :: "json \<Rightarrow> path \<Rightarrow> string \<Rightarrow> bool" where
  "payload_matches_action_path_and_resource_key v path rkey =
     (let payload_path = jget v ''path''; payload_resource_key = jget v ''resource_key''
      in if payload_path \<noteq> JNull \<and> value_path payload_path \<noteq> path then False
         else \<not> (payload_resource_key \<noteq> JNull \<and> py_str payload_resource_key \<noteq> rkey))"

definition checkpoint_payload_matches_owned_directory_identity :: "json \<Rightarrow> json \<Rightarrow> bool" where
  "checkpoint_payload_matches_owned_directory_identity payload identity \<longleftrightarrow>
     is_int (jget payload ''device'') \<and> is_int (jget payload ''inode'')
     \<and> py_eq (jget payload ''device'') (jget identity ''device'')
     \<and> py_eq (jget payload ''inode'') (jget identity ''inode'')"

definition same_optional_value :: "string option \<Rightarrow> string option \<Rightarrow> bool" where
  "same_optional_value current other =
     (case (current, other) of
        (None, None) \<Rightarrow> True
      | (Some a, Some b) \<Rightarrow> a = b
      | _ \<Rightarrow> False)"

definition same_recursive_batch_intent :: "(json \<Rightarrow> json \<Rightarrow> bool) \<Rightarrow> json \<Rightarrow> json \<Rightarrow> bool" where
  "same_recursive_batch_intent is_same failed_payload other_payload =
     (let failed_recursive = jget failed_payload ''recursive_mkdir'';
          proof_recursive = jget other_payload ''recursive_mkdir''
      in if \<not> is_mapping failed_recursive \<or> \<not> is_mapping proof_recursive
         then is_same failed_recursive proof_recursive
         else if optional_str (jget failed_payload ''operation'') \<noteq> optional_str (jget other_payload ''operation'')
         then False
         else list_all (\<lambda>(key, required).
                let failed_value = jget failed_recursive key; proof_value = jget proof_recursive key
                in if failed_value = JNull \<or> proof_value = JNull then \<not> required
                   else py_str failed_value = py_str proof_value)
              [(''requested_resource_key'', True), (''plan_target'', True), (''step_count'', False)])"

definition own_proof_context :: "recovery_context \<Rightarrow> proof_context" where
  "own_proof_context context =
     \<lparr>pc_batch = rc_batch context, pc_operations = rc_operations context,
      pc_checkpoints = rc_checkpoints context\<rparr>"

definition proof_context_for_batch :: "recovery_context \<Rightarrow> string \<Rightarrow> proof_context option" where
  "proof_context_for_batch context b =
     (if b = br_batch_id (rc_batch context) then Some (own_proof_context context)
      else map_of (rc_proof_contexts context) b)"

definition proof_batch_matches_recursive_lineage ::
  "(json \<Rightarrow> json \<Rightarrow> bool) \<Rightarrow> recovery_context \<Rightarrow> operation_batch_record \<Rightarrow> bool" where
  "proof_batch_matches_recursive_lineage is_same context proof_batch =
     (let failed_batch = rc_batch context
      in if br_owner proof_batch \<noteq> br_owner failed_batch \<or> br_run_id proof_batch \<noteq> br_run_id failed_batch
         then False
         else if \<not> same_optional_value (br_operation_run_id failed_batch) (br_operation_run_id proof_batch)
         then False
         else if \<not> same_optional_value (br_operation_phase_id failed_batch) (br_operation_phase_id proof_batch)
         then False
         else same_recursive_batch_intent is_same (br_payload failed_batch) (br_payload proof_batch))"

text \<open>The records that a creation proof names, in the context of the batch it names.\<close>

definition creation_evidence ::
  "string \<Rightarrow> path \<Rightarrow> string \<Rightarrow> string \<Rightarrow> json \<Rightarrow> operation_record \<Rightarrow> checkpoint_record \<Rightarrow> bool" where
  "creation_evidence b path rkey proof_checkpoint_type identity operation checkpoint \<longleftrightarrow>
     operation_batch_id operation = b \<and> checkpoint_batch_id checkpoint = b
     \<and> operation_type operation = ''make_directory''
     \<and> operation_resource_key operation = Some rkey
     \<and> payload_matches_action_path_and_resource_key (operation_payload operation) path rkey
     \<and> checkpoint_operation_id checkpoint \<in> {Some (operation_id operation), None}
     \<and> checkpoint_type checkpoint = proof_checkpoint_type
     \<and> checkpoint_resource_key checkpoint = rkey
     \<and> value_path (jget (checkpoint_payload checkpoint) ''path'') = path
     \<and> jget (checkpoint_payload checkpoint) ''file_type'' = JStr ''directory''
     \<and> jget (checkpoint_payload checkpoint) ''exists'' = JBool True
     \<and> checkpoint_payload_matches_owned_directory_identity (checkpoint_payload checkpoint) identity"

definition creation_proof_form :: "json \<Rightarrow> path \<Rightarrow> string \<Rightarrow> bool" where
  "creation_proof_form v path rkey \<longleftrightarrow>
     payload_identity_matches_action v path rkey
     \<and> optional_str (jget v ''operation_type'') = Some ''make_directory''
     \<and> optional_str (jget v ''checkpoint_type'') \<in> {Some ''after'', Some ''failure''}"

definition journaled_creation_proof_matches_action ::
  "(json \<Rightarrow> json \<Rightarrow> bool) \<Rightarrow> json \<Rightarrow> path \<Rightarrow> string \<Rightarrow> json \<Rightarrow> recovery_context \<Rightarrow> bool" where
  "journaled_creation_proof_matches_action same_object v path rkey identity context =
     (if \<not> creation_proof_form v path rkey then False
      else case (optional_str (jget v ''batch_id''), optional_str (jget v ''operation_id''),
                 optional_str (jget v ''checkpoint_id'')) of
        (Some b, Some oid, Some cid) \<Rightarrow>
          (case proof_context_for_batch context b of
             None \<Rightarrow> False
           | Some pc \<Rightarrow>
               if \<not> proof_batch_matches_recursive_lineage
                      (\<lambda>v w. b = br_batch_id (rc_batch context) \<or> same_object v w) context (pc_batch pc)
               then False
               else case (find (\<lambda>x. operation_id x = oid) (pc_operations pc),
                          find (\<lambda>c. checkpoint_id c = cid) (pc_checkpoints pc)) of
                 (Some operation, Some checkpoint) \<Rightarrow>
                   creation_evidence b path rkey (py_str (jget v ''checkpoint_type'')) identity operation checkpoint
               | _ \<Rightarrow> False)
      | _ \<Rightarrow> False)"

subsection \<open>Recursive directory creation\<close>

definition jsonable_mapping :: "json \<Rightarrow> error + json" where
  "jsonable_mapping v = (if is_mapping v then Inr v else Inl ValueError)"

definition step_index_value :: "json \<Rightarrow> error + int" where
  "step_index_value step = (if jhas step ''step_index'' then int_of_value (jget step ''step_index'') else Inr 0)"

definition step_index_text :: "json \<Rightarrow> error + int" where
  "step_index_text v = from_option ValueError (parse_int (str_or (optional_str v) ''0''))"

definition planned_recursive_mkdir_cleanup_payload ::
  "(json \<Rightarrow> json \<Rightarrow> bool) \<Rightarrow> recovery_context \<Rightarrow> json \<Rightarrow> error + json option" where
  "planned_recursive_mkdir_cleanup_payload same_object context step =
     (let ownership_class = optional_str (jget step ''ownership_class'');
          cleanup_policy = optional_str (jget step ''cleanup_policy'');
          backend_guarantee = optional_str (jget step ''backend_guarantee'');
          identity = jget step ''created_directory_identity'';
          creation = jget step ''journaled_creation_proof'';
          step_path = value_path (jget step ''step_path'');
          rkey = py_str (jget step ''step_resource_key'');
          cleanup = jget step ''cleanup''
      in if ownership_class \<noteq> Some ''created_by_transaction'' then Inr None
         else if cleanup_policy \<noteq> Some ''owned_empty_directory_safe_ish'' then Inr None
         else if backend_guarantee \<notin> Some ` allowed_directory_remove_guarantees then Inr None
         else if \<not> is_mapping identity \<or> \<not> is_mapping creation then Inr None
         else if \<not> payload_identity_matches_action identity step_path rkey then Inr None
         else if \<not> journaled_creation_proof_matches_action same_object creation step_path rkey identity context
         then Inr None
         else res_bind (jsonable_mapping identity) (\<lambda>identity_value.
              res_bind (jsonable_mapping creation) (\<lambda>creation_value.
              res_bind (step_index_text (jget step ''step_index'')) (\<lambda>index.
              Inr (Some (JObj
                [(''path'', JStr (path_text step_path)),
                 (''step_resource_key'', JStr rkey),
                 (''ownership_class'', opt_json ownership_class),
                 (''created_directory_identity'', identity_value),
                 (''journaled_creation_proof'', creation_value),
                 (''cleanup_policy'', opt_json cleanup_policy),
                 (''backend_guarantee'', opt_json backend_guarantee),
                 (''cleanup'', if is_mapping cleanup then cleanup else JObj []),
                 (''recursive_mkdir_cleanup'', JObj [(''step_index'', JInt index)])]))))))"

definition latest_recursive_mkdir_failure_payload :: "recovery_context \<Rightarrow> json option" where
  "latest_recursive_mkdir_failure_payload context =
     find (\<lambda>payload. is_mapping payload \<and> is_mapping (jget payload ''recursive_group'')
             \<and> is_array (jget (jget payload ''recursive_group'') ''prior_created_steps''))
       (rev (map recovery_payload (rc_recovery_records context)))"

definition failed_recursive_mkdir_step_path :: "json \<Rightarrow> path option" where
  "failed_recursive_mkdir_step_path payload =
     (let recursive_mkdir = jget payload ''recursive_mkdir''
      in if \<not> is_mapping recursive_mkdir then None
         else let step_path = jget recursive_mkdir ''step_path''
              in if step_path = JNull then None else Some (value_path step_path))"

definition expected_prior_created_step_count :: "json \<Rightarrow> int option" where
  "expected_prior_created_step_count payload =
     (let recursive_mkdir = jget payload ''recursive_mkdir''
      in if \<not> is_mapping recursive_mkdir then None
         else map_option (\<lambda>index. max (index - 1) 0) (py_int (jget recursive_mkdir ''step_index'')))"

definition incomplete_recursive_mkdir_cleanup_proof_plan ::
  "recovery_context \<Rightarrow> json \<Rightarrow> int \<Rightarrow> nat \<Rightarrow> action_plan" where
  "incomplete_recursive_mkdir_cleanup_proof_plan context payload expected planned =
     (let recursive_mkdir = jget payload ''recursive_mkdir'';
          step_path = (if is_mapping recursive_mkdir \<and> jget recursive_mkdir ''step_path'' \<noteq> JNull
                       then JStr (py_str (jget recursive_mkdir ''step_path'')) else JNull)
      in \<lparr>plan_action_id = ''recursive-mkdir-cleanup:manual-incomplete-proof:'' @ br_batch_id (rc_batch context),
          plan_action_type = ''manual_intervention_required'',
          plan_resource_key = br_resource_key (rc_batch context),
          plan_payload = JObj
            [(''operation'', JStr ''recursive_mkdir_cleanup''),
             (''reason_code'', JStr ''incomplete_recursive_mkdir_cleanup_proof''),
             (''detail'', JStr ''recursive mkdir cleanup proof is incomplete; automatic rollback refused''),
             (''batch_id'', JStr (br_batch_id (rc_batch context))),
             (''step_path'', step_path),
             (''expected_prior_created_steps'', JInt expected),
             (''planned_cleanup_steps'', JInt (int planned))]\<rparr>)"

definition payload_matches_step :: "json \<Rightarrow> path \<Rightarrow> string \<Rightarrow> bool" where
  "payload_matches_step payload path rkey \<longleftrightarrow>
     value_path (jget payload ''path'') = path \<and> py_str (jget payload ''resource_key'') = rkey"

text \<open>The step that the batch itself makes: its path, its resource key and its index.\<close>

definition direct_step :: "json \<Rightarrow> error + (path \<times> string option \<times> int) option" where
  "direct_step payload =
     (let recursive_mkdir = jget payload ''recursive_mkdir''
      in if is_mapping recursive_mkdir
         then res_bind (step_index_text (jget recursive_mkdir ''step_index'')) (\<lambda>index.
              Inr (Some (value_path (jget recursive_mkdir ''step_path''),
                         optional_str (jget recursive_mkdir ''step_resource_key''), index)))
         else if jget payload ''path'' = JNull then Inr None
         else Inr (Some (value_path (jget payload ''path''), optional_str (jget payload ''resource_key''), 0)))"

definition direct_before_checkpoint :: "recovery_context \<Rightarrow> path \<Rightarrow> string \<Rightarrow> checkpoint_record option" where
  "direct_before_checkpoint context path rkey =
     find (\<lambda>c. checkpoint_type c = ''before'' \<and> checkpoint_resource_key c = rkey
               \<and> value_path (jget (checkpoint_payload c) ''path'') = path
               \<and> jget (checkpoint_payload c) ''exists'' = JBool False) (rc_checkpoints context)"

definition direct_operation :: "recovery_context \<Rightarrow> path \<Rightarrow> string \<Rightarrow> operation_record option" where
  "direct_operation context path rkey =
     find (\<lambda>x. operation_type x = ''make_directory'' \<and> operation_resource_key x = Some rkey
               \<and> payload_matches_step (operation_payload x) path rkey) (rc_operations context)"

definition direct_creation_checkpoint :: "recovery_context \<Rightarrow> path \<Rightarrow> string \<Rightarrow> checkpoint_record option" where
  "direct_creation_checkpoint context path rkey =
     find (\<lambda>c. checkpoint_type c \<in> {''after'', ''failure''} \<and> checkpoint_resource_key c = rkey
               \<and> value_path (jget (checkpoint_payload c) ''path'') = path
               \<and> jget (checkpoint_payload c) ''file_type'' = JStr ''directory''
               \<and> jget (checkpoint_payload c) ''exists'' = JBool True) (rev (rc_checkpoints context))"

definition direct_cleanup_plan ::
  "recovery_context \<Rightarrow> path \<Rightarrow> string \<Rightarrow> int \<Rightarrow> json \<Rightarrow> operation_record \<Rightarrow> checkpoint_record \<Rightarrow> action_plan" where
  "direct_cleanup_plan context path rkey index diagnostic operation creation =
     \<lparr>plan_action_id = ''recursive-mkdir-cleanup:self:'' @ rkey,
      plan_action_type = ''remove_created_directory'',
      plan_resource_key = br_resource_key (rc_batch context),
      plan_payload = JObj
        [(''path'', JStr (path_text path)),
         (''step_resource_key'', JStr rkey),
         (''ownership_class'', JStr ''created_by_transaction''),
         (''created_directory_identity'', JObj
           [(''path'', JStr (path_text path)), (''resource_key'', JStr rkey),
            (''file_type'', JStr ''directory''),
            (''device'', jget (checkpoint_payload creation) ''device''),
            (''inode'', jget (checkpoint_payload creation) ''inode'')]),
         (''journaled_creation_proof'', JObj
           [(''batch_id'', JStr (br_batch_id (rc_batch context))),
            (''operation_id'', JStr (operation_id operation)),
            (''operation_type'', JStr ''make_directory''),
            (''checkpoint_id'', JStr (checkpoint_id creation)),
            (''checkpoint_type'', JStr (checkpoint_type creation)),
            (''path'', JStr (path_text path)), (''resource_key'', JStr rkey)]),
         (''cleanup_policy'', JStr ''owned_empty_directory_safe_ish''),
         (''backend_guarantee'', JStr ''identity_conditional_remove''),
         (''cleanup'', JObj
           [(''manual_intervention_possible'', JBool True),
            (''cleanup_policy'', JStr ''owned_empty_directory_safe_ish''),
            (''backend_guarantee'', JStr ''identity_conditional_remove''),
            (''remove_only_if'', jget diagnostic ''remove_only_if'')]),
         (''recursive_mkdir_cleanup'', JObj [(''step_index'', JInt index)])]\<rparr>"

definition direct_plan_of_step ::
  "recovery_context \<Rightarrow> json \<Rightarrow> (path \<times> string option \<times> int) option \<Rightarrow> action_plan option" where
  "direct_plan_of_step context diagnostic step =
     (case step of
        Some (path, Some rkey, index) \<Rightarrow>
          (case (direct_before_checkpoint context path rkey, direct_operation context path rkey,
                 direct_creation_checkpoint context path rkey) of
             (Some _, Some operation, Some creation) \<Rightarrow>
               if \<not> is_int (jget (checkpoint_payload creation) ''device'')
                  \<or> \<not> is_int (jget (checkpoint_payload creation) ''inode'') then None
               else Some (direct_cleanup_plan context path rkey index diagnostic operation creation)
           | _ \<Rightarrow> None)
      | _ \<Rightarrow> None)"

definition direct_recursive_mkdir_cleanup_plan :: "recovery_context \<Rightarrow> error + action_plan option" where
  "direct_recursive_mkdir_cleanup_plan context =
     (let payload = br_payload (rc_batch context);
          diagnostic = jget payload ''rollback_diagnostic''
      in if jget payload ''noop'' = JBool True then Inr None
         else if \<not> is_mapping diagnostic then Inr None
         else if optional_str (jget payload ''operation'') \<noteq> Some ''make_directory'' then Inr None
         else res_bind (direct_step payload) (\<lambda>step. Inr (direct_plan_of_step context diagnostic step)))"

text \<open>\<open>sorted(steps, key=..., reverse=True)\<close>: keys first, then a stable sort, largest first.\<close>

fun step_keys :: "json list \<Rightarrow> error + (int \<times> json) list" where
  "step_keys [] = Inr []"
| "step_keys (step # steps) =
     res_bind (step_index_value step) (\<lambda>i. res_bind (step_keys steps) (\<lambda>ks. Inr ((i, step) # ks)))"

definition ordered_steps :: "json list \<Rightarrow> error + json list" where
  "ordered_steps steps =
     res_bind (step_keys (filter is_mapping steps)) (\<lambda>ks. Inr (map snd (sort_key (\<lambda>k. - fst k) ks)))"

definition cleanup_step_plan :: "recovery_context \<Rightarrow> int \<Rightarrow> json \<Rightarrow> action_plan" where
  "cleanup_step_plan context index payload =
     \<lparr>plan_action_id = ''recursive-mkdir-cleanup:'' @ int_text index @ '':''
        @ py_str (jget payload ''step_resource_key''),
      plan_action_type = ''remove_created_directory'',
      plan_resource_key = br_resource_key (rc_batch context),
      plan_payload = payload\<rparr>"

fun plan_cleanup_steps ::
  "(json \<Rightarrow> json \<Rightarrow> bool) \<Rightarrow> recovery_context \<Rightarrow> path option \<Rightarrow> json list \<Rightarrow> error + action_plan list" where
  "plan_cleanup_steps same_object context failed [] = Inr []"
| "plan_cleanup_steps same_object context failed (step # steps) =
     res_bind (planned_recursive_mkdir_cleanup_payload same_object context step) (\<lambda>planned.
     case planned of
       None \<Rightarrow> plan_cleanup_steps same_object context failed steps
     | Some payload \<Rightarrow>
         if failed \<noteq> None \<and> Some (value_path (jget payload ''path'')) = failed
         then plan_cleanup_steps same_object context failed steps
         else res_bind (step_index_value step) (\<lambda>index.
              res_bind (plan_cleanup_steps same_object context failed steps) (\<lambda>plans.
              Inr (cleanup_step_plan context index payload # plans))))"

definition recursive_mkdir_recovery_action_plans ::
  "(json \<Rightarrow> json \<Rightarrow> bool) \<Rightarrow> recovery_context \<Rightarrow> error + action_plan list" where
  "recursive_mkdir_recovery_action_plans same_object context =
     res_bind (direct_recursive_mkdir_cleanup_plan context) (\<lambda>direct.
     let direct_plans = (case direct of None \<Rightarrow> [] | Some p \<Rightarrow> [p])
     in case latest_recursive_mkdir_failure_payload context of
          None \<Rightarrow> Inr direct_plans
        | Some payload \<Rightarrow>
            (case jget (jget payload ''recursive_group'') ''prior_created_steps'' of
               JArr steps \<Rightarrow>
                 res_bind (ordered_steps steps) (\<lambda>ordered.
                 res_bind (plan_cleanup_steps same_object context
                             (failed_recursive_mkdir_step_path payload) ordered) (\<lambda>cleanups.
                 Inr (case expected_prior_created_step_count payload of
                        Some expected \<Rightarrow>
                          if int (length cleanups) < expected
                          then [incomplete_recursive_mkdir_cleanup_proof_plan context payload expected (length cleanups)]
                          else direct_plans @ cleanups
                      | None \<Rightarrow> direct_plans @ cleanups)))
             | _ \<Rightarrow> Inr []))"

subsection \<open>Renames\<close>

definition looks_like_rename_payload :: "json \<Rightarrow> bool" where
  "looks_like_rename_payload payload =
     list_all (jhas payload) [''source_path'', ''destination_path'', ''file_type'', ''device'', ''inode'']"

definition latest_rename_payload :: "recovery_context \<Rightarrow> json option" where
  "latest_rename_payload context =
     (case find (\<lambda>c. checkpoint_type c = ''rename_record'' \<and> looks_like_rename_payload (checkpoint_payload c))
             (rev (rc_checkpoints context)) of
        Some c \<Rightarrow> Some (checkpoint_payload c)
      | None \<Rightarrow>
          find (\<lambda>v. is_mapping v \<and> looks_like_rename_payload v)
            (map (\<lambda>r. jget (recovery_payload r) ''rename_record'') (rev (rc_recovery_records context))))"

definition latest_manual_intervention_action :: "recovery_context \<Rightarrow> action_plan option" where
  "latest_manual_intervention_action context =
     map_option (\<lambda>action.
         \<lparr>plan_action_id = py_str (jget action ''action_id''),
          plan_action_type = py_str (jget action ''action_type''),
          plan_resource_key = br_resource_key (rc_batch context),
          plan_payload = jget action ''payload''\<rparr>)
       (find (\<lambda>action. is_mapping action \<and> is_mapping (jget action ''payload'')
                 \<and> jget (jget action ''payload'') ''operation'' = JStr ''rename_no_replace''
                 \<and> (case jget action ''action_id'' of JStr _ \<Rightarrow> True | _ \<Rightarrow> False)
                 \<and> jget action ''action_type'' = JStr ''manual_intervention_required'')
         (map (\<lambda>r. jget (recovery_payload r) ''manual_intervention_action'') (rev (rc_recovery_records context))))"

definition is_rename_no_replace_batch :: "recovery_context \<Rightarrow> bool" where
  "is_rename_no_replace_batch context \<longleftrightarrow>
     is_mapping (br_payload (rc_batch context))
     \<and> jget (br_payload (rc_batch context)) ''operation'' = JStr ''rename_no_replace''"

definition missing_rename_rollback_proof_action :: "recovery_context \<Rightarrow> action_plan" where
  "missing_rename_rollback_proof_action context =
     (let batch = rc_batch context;
          payload = (if is_mapping (br_payload batch) then br_payload batch else JObj [])
      in \<lparr>plan_action_id = ''rename-no-replace-manual:'' @ br_batch_id batch @ '':'' @ opt_text (br_resource_key batch),
          plan_action_type = ''manual_intervention_required'',
          plan_resource_key = br_resource_key batch,
          plan_payload = JObj
            [(''operation'', JStr ''rename_no_replace''),
             (''batch_id'', JStr (br_batch_id batch)),
             (''resource_key'', opt_json (br_resource_key batch)),
             (''source_path'', JStr (py_str (jget payload ''source_path''))),
             (''destination_path'', JStr (py_str (jget payload ''destination_path''))),
             (''reason_code'', JStr ''missing_rename_rollback_proof''),
             (''detail'', JStr ''rename_no_replace has no durable inverse rename proof'')]\<rparr>)"

definition rename_recovery_action_plans :: "recovery_context \<Rightarrow> action_plan list" where
  "rename_recovery_action_plans context =
     (case latest_rename_payload context of
        None \<Rightarrow>
          (case latest_manual_intervention_action context of
             Some manual \<Rightarrow> [manual]
           | None \<Rightarrow> if is_rename_no_replace_batch context
                     then [missing_rename_rollback_proof_action context] else [])
      | Some payload \<Rightarrow>
          [\<lparr>plan_action_id = ''restore-inverse-rename:'' @ py_str (jget payload ''destination_path'')
              @ '':'' @ py_str (jget payload ''source_path''),
            plan_action_type = ''restore_inverse_rename'',
            plan_resource_key = br_resource_key (rc_batch context),
            plan_payload = payload\<rparr>])"

lemma rename_plan_unique: "length (rename_recovery_action_plans context) \<le> 1"
  by (simp add: rename_recovery_action_plans_def split: option.splits)

lemma rename_batch_planned:
  "is_rename_no_replace_batch context \<Longrightarrow> \<exists>p. rename_recovery_action_plans context = [p]"
  by (auto simp: rename_recovery_action_plans_def split: option.splits)

subsection \<open>What a removal plan rests on\<close>

text \<open>
  The records that show that a directory with this identity was made by the transaction: an
  operation and a checkpoint of the batch itself or of a batch with the same owner and run.
\<close>

definition created_by_transaction :: "recovery_context \<Rightarrow> path \<Rightarrow> string \<Rightarrow> json \<Rightarrow> bool" where
  "created_by_transaction context path rkey identity \<longleftrightarrow>
     (\<exists>b pc operation checkpoint.
        proof_context_for_batch context b = Some pc
        \<and> br_owner (pc_batch pc) = br_owner (rc_batch context)
        \<and> br_run_id (pc_batch pc) = br_run_id (rc_batch context)
        \<and> operation \<in> set (pc_operations pc) \<and> checkpoint \<in> set (pc_checkpoints pc)
        \<and> operation_type operation = ''make_directory''
        \<and> operation_resource_key operation = Some rkey
        \<and> checkpoint_type checkpoint \<in> {''after'', ''failure''}
        \<and> checkpoint_resource_key checkpoint = rkey
        \<and> value_path (jget (checkpoint_payload checkpoint) ''path'') = path
        \<and> jget (checkpoint_payload checkpoint) ''file_type'' = JStr ''directory''
        \<and> jget (checkpoint_payload checkpoint) ''exists'' = JBool True
        \<and> checkpoint_payload_matches_owned_directory_identity (checkpoint_payload checkpoint) identity)"

lemma optional_str_Some: "optional_str v = Some s \<longleftrightarrow> v \<noteq> JNull \<and> py_str v = s"
  by (auto simp: optional_str_def)

lemma creation_proof_created:
  assumes "journaled_creation_proof_matches_action same_object v path rkey identity context"
  shows "created_by_transaction context path rkey identity"
proof -
  obtain b oid cid pc operation checkpoint where form: "creation_proof_form v path rkey"
    and pc: "proof_context_for_batch context b = Some pc"
    and lineage: "proof_batch_matches_recursive_lineage
       (\<lambda>v w. b = br_batch_id (rc_batch context) \<or> same_object v w) context (pc_batch pc)"
    and found: "find (\<lambda>x. operation_id x = oid) (pc_operations pc) = Some operation"
      "find (\<lambda>c. checkpoint_id c = cid) (pc_checkpoints pc) = Some checkpoint"
    and ev: "creation_evidence b path rkey (py_str (jget v ''checkpoint_type'')) identity operation checkpoint"
    using assms by (clarsimp simp: journaled_creation_proof_matches_action_def split: if_splits option.splits)
  have type: "py_str (jget v ''checkpoint_type'') \<in> {''after'', ''failure''}"
    using form by (auto simp: creation_proof_form_def optional_str_Some)
  have "operation \<in> set (pc_operations pc)" "checkpoint \<in> set (pc_checkpoints pc)"
    using find_Some_iff_unique [OF found(1)] find_Some_iff_unique [OF found(2)] by simp_all
  moreover have "br_owner (pc_batch pc) = br_owner (rc_batch context)"
    "br_run_id (pc_batch pc) = br_run_id (rc_batch context)"
    using lineage by (auto simp: proof_batch_matches_recursive_lineage_def Let_def split: if_splits)
  ultimately show ?thesis
    using pc ev type unfolding created_by_transaction_def creation_evidence_def by metis
qed

lemma planned_cleanup_ok:
  assumes "planned_recursive_mkdir_cleanup_payload same_object context step = Inr (Some payload)"
  obtains path rkey index where "path_wf path" "jget payload ''path'' = JStr (path_text path)"
    "jget payload ''step_resource_key'' = JStr rkey"
    "path = value_path (jget step ''step_path'')"
    "created_by_transaction context path rkey (jget payload ''created_directory_identity'')"
    "step_index_text (jget step ''step_index'') = Inr index"
    "jget (jget payload ''recursive_mkdir_cleanup'') ''step_index'' = JInt index"
    "jget payload ''backend_guarantee'' = JStr ''identity_conditional_remove''"
proof -
  let ?path = "value_path (jget step ''step_path'')" and ?rkey = "py_str (jget step ''step_resource_key'')"
  obtain index where "step_index_text (jget step ''step_index'') = Inr index"
    and "journaled_creation_proof_matches_action same_object (jget step ''journaled_creation_proof'') ?path ?rkey
        (jget step ''created_directory_identity'') context"
    and "optional_str (jget step ''backend_guarantee'') = Some ''identity_conditional_remove''"
    and payload: "payload = JObj
      [(''path'', JStr (path_text ?path)), (''step_resource_key'', JStr ?rkey),
       (''ownership_class'', opt_json (optional_str (jget step ''ownership_class''))),
       (''created_directory_identity'', jget step ''created_directory_identity''),
       (''journaled_creation_proof'', jget step ''journaled_creation_proof''),
       (''cleanup_policy'', opt_json (optional_str (jget step ''cleanup_policy''))),
       (''backend_guarantee'', opt_json (optional_str (jget step ''backend_guarantee''))),
       (''cleanup'', if is_mapping (jget step ''cleanup'') then jget step ''cleanup'' else JObj []),
       (''recursive_mkdir_cleanup'', JObj [(''step_index'', JInt index)])]"
    using assms by (auto simp: planned_recursive_mkdir_cleanup_payload_def Let_def res_bind_Inr
        jsonable_mapping_def allowed_directory_remove_guarantees_def split: if_splits)
  then show ?thesis
    by (intro that [of ?path ?rkey index]) (auto simp: creation_proof_created opt_json_def)
qed

lemma direct_step_wf: "direct_step payload = Inr (Some (path, rk, index)) \<Longrightarrow> path_wf path"
  by (auto simp: direct_step_def Let_def res_bind_Inr split: if_splits)

lemma int_py_eq: "is_int v \<Longrightarrow> py_eq v v"
  by (auto simp: is_int_def intro: py_eq_int)

lemma direct_plan_ok:
  assumes "direct_recursive_mkdir_cleanup_plan context = Inr (Some p)"
  obtains path rkey index diagnostic operation creation where "path_wf path"
    "p = direct_cleanup_plan context path rkey index diagnostic operation creation"
    "created_by_transaction context path rkey (jget (plan_payload p) ''created_directory_identity'')"
    "direct_before_checkpoint context path rkey \<noteq> None"
    "direct_step (br_payload (rc_batch context)) = Inr (Some (path, Some rkey, index))"
proof -
  obtain st where step0: "direct_step (br_payload (rc_batch context)) = Inr st"
    and plan: "direct_plan_of_step context (jget (br_payload (rc_batch context)) ''rollback_diagnostic'') st = Some p"
    using assms by (auto simp: direct_recursive_mkdir_cleanup_plan_def Let_def res_bind_Inr split: if_splits)
  note body = plan [unfolded direct_plan_of_step_def]
  obtain path rkey index where st: "st = Some (path, Some rkey, index)"
    using body by (simp split: option.splits prod.splits)
  note step = step0 [unfolded st]
  obtain before operation creation where found: "direct_before_checkpoint context path rkey = Some before"
      "direct_operation context path rkey = Some operation"
      "direct_creation_checkpoint context path rkey = Some creation"
    and ints: "is_int (jget (checkpoint_payload creation) ''device'')" "is_int (jget (checkpoint_payload creation) ''inode'')"
    and p: "p = direct_cleanup_plan context path rkey index
        (jget (br_payload (rc_batch context)) ''rollback_diagnostic'') operation creation"
    using body unfolding st by (auto split: option.splits if_splits)
  have op: "operation \<in> set (rc_operations context)" "operation_type operation = ''make_directory''"
    "operation_resource_key operation = Some rkey"
    using find_Some_iff_unique [OF found(2) [unfolded direct_operation_def]] by auto
  have ck: "creation \<in> set (rc_checkpoints context)" "checkpoint_type creation \<in> {''after'', ''failure''}"
    "checkpoint_resource_key creation = rkey" "value_path (jget (checkpoint_payload creation) ''path'') = path"
    "jget (checkpoint_payload creation) ''file_type'' = JStr ''directory''"
    "jget (checkpoint_payload creation) ''exists'' = JBool True"
    using find_Some_iff_unique [OF found(3) [unfolded direct_creation_checkpoint_def]] by auto
  have "checkpoint_payload_matches_owned_directory_identity (checkpoint_payload creation)
      (jget (plan_payload p) ''created_directory_identity'')"
    using ints by (simp add: checkpoint_payload_matches_owned_directory_identity_def p direct_cleanup_plan_def int_py_eq)
  moreover have "proof_context_for_batch context (br_batch_id (rc_batch context)) = Some (own_proof_context context)"
    by (simp add: proof_context_for_batch_def)
  ultimately have "created_by_transaction context path rkey (jget (plan_payload p) ''created_directory_identity'')"
    unfolding created_by_transaction_def
    by (intro exI [of _ "br_batch_id (rc_batch context)"] exI [of _ "own_proof_context context"]
        exI [of _ operation] exI [of _ creation] conjI)
      (simp_all only: own_proof_context_def proof_context.simps op ck)
  with step found p direct_step_wf [OF step] show ?thesis by (intro that) simp_all
qed

subsection \<open>The order of the removals\<close>

text \<open>The index that the sort reads and the one that the plan records are the same number.\<close>

lemma step_index_agree:
  assumes "step_index_value step = Inr i" and "step_index_text (jget step ''step_index'') = Inr j"
  shows "i = j"
proof (cases "jhas step ''step_index''")
  case False
  then have "jget step ''step_index'' = JNull" by (auto simp: jhas_def jget_def split: json.splits option.splits)
  moreover have "parse_int ''0'' = Some 0" by code_simp
  ultimately show ?thesis
    using assms False by (simp add: step_index_value_def step_index_text_def optional_str_def)
next
  case True
  have no: "parse_int ''True'' = None" "parse_int ''False'' = None" "parse_int [] = None" by code_simp+
  show ?thesis
    using assms True parse_int_text no int_text_not_Nil
    by (cases "jget step ''step_index''")
      (auto simp: step_index_value_def step_index_text_def int_of_value_def optional_str_def py_str_def
        from_option_Inr str_or_def split: if_splits)
qed

text \<open>The payload that a step contributes, if it does: proved, and not the failed step itself.\<close>

definition eligible_cleanup ::
  "(json \<Rightarrow> json \<Rightarrow> bool) \<Rightarrow> recovery_context \<Rightarrow> path option \<Rightarrow> json \<Rightarrow> json option" where
  "eligible_cleanup same_object context failed step =
     (case planned_recursive_mkdir_cleanup_payload same_object context step of
        Inr (Some payload) \<Rightarrow>
          if Some (value_path (jget payload ''path'')) = failed then None else Some payload
      | _ \<Rightarrow> None)"

definition cleanup_index :: "action_plan \<Rightarrow> json" where
  "cleanup_index p = jget (jget (plan_payload p) ''recursive_mkdir_cleanup'') ''step_index''"

lemma plan_cleanup_payloads:
  "plan_cleanup_steps same_object context failed steps = Inr plans
    \<Longrightarrow> map plan_payload plans = List.map_filter (eligible_cleanup same_object context failed) steps
      \<and> (\<forall>p \<in> set plans. plan_action_type p = ''remove_created_directory'')"
proof (induction steps arbitrary: plans)
  case Nil
  then show ?case by (simp add: map_filter_def)
next
  case (Cons step steps)
  then obtain planned where "planned_recursive_mkdir_cleanup_payload same_object context step = Inr planned"
    by (auto simp: res_bind_Inr)
  with Cons show ?case
    by (cases planned) (auto simp: res_bind_Inr eligible_cleanup_def map_filter_def cleanup_step_plan_def split: if_splits)
qed

definition index_of_step :: "json \<Rightarrow> int" where
  "index_of_step step = (case step_index_value step of Inr i \<Rightarrow> i | Inl _ \<Rightarrow> 0)"

lemma plan_cleanup_sorted:
  assumes "plan_cleanup_steps same_object context failed steps = Inr plans"
    and "sorted_wrt (\<ge>) (map index_of_step steps)"
  shows "\<exists>ns. map cleanup_index plans = map JInt ns \<and> sorted_wrt (\<ge>) ns \<and> set ns \<subseteq> index_of_step ` set steps"
  using assms
proof (induction steps arbitrary: plans)
  case Nil
  then show ?case by simp
next
  case (Cons step steps)
  obtain planned where planned: "planned_recursive_mkdir_cleanup_payload same_object context step = Inr planned"
    using Cons.prems(1) by (auto simp: res_bind_Inr)
  show ?case
  proof (cases "plan_cleanup_steps same_object context failed steps = Inr plans")
    case True
    then show ?thesis using Cons.IH [OF True] Cons.prems(2) by auto
  next
    case False
    then obtain payload i rest where p: "planned = Some payload" "step_index_value step = Inr i"
      "plan_cleanup_steps same_object context failed steps = Inr rest"
      "plans = cleanup_step_plan context i payload # rest"
      using Cons.prems(1) planned by (auto simp: res_bind_Inr split: option.splits if_splits)
    obtain ns where ns: "map cleanup_index rest = map JInt ns" "sorted_wrt (\<ge>) ns"
      "set ns \<subseteq> index_of_step ` set steps"
      using Cons.IH [OF p(3)] Cons.prems(2) by auto
    have "cleanup_index (cleanup_step_plan context i payload) = JInt i"
      using planned [unfolded p(1)]
    proof (cases rule: planned_cleanup_ok)
      case (1 path rkey index)
      then show ?thesis
        using step_index_agree [OF p(2)] by (simp add: cleanup_index_def cleanup_step_plan_def)
    qed
    moreover have "index_of_step step = i" by (simp add: index_of_step_def p(2))
    ultimately show ?thesis
      using ns Cons.prems(2) unfolding p(4) by (intro exI [of _ "i # ns"]) auto
  qed
qed

lemma index_of_step_Inr: "step_index_value step = Inr i \<Longrightarrow> index_of_step step = i"
  by (simp add: index_of_step_def)

lemma step_keys_ok:
  "step_keys steps = Inr ks \<Longrightarrow> map snd ks = steps \<and> (\<forall>i s. (i, s) \<in> set ks \<longrightarrow> i = index_of_step s)"
  by (induction steps arbitrary: ks) (auto simp: res_bind_Inr index_of_step_Inr)

lemma ordered_steps_ok:
  assumes "ordered_steps steps = Inr ordered"
  shows "mset ordered = mset (filter is_mapping steps)" "sorted_wrt (\<ge>) (map index_of_step ordered)"
proof -
  obtain ks where ks: "step_keys (filter is_mapping steps) = Inr ks"
    and ordered: "ordered = map snd (sort_key (\<lambda>k. - fst k) ks)"
    using assms by (auto simp: ordered_steps_def res_bind_Inr)
  note k = step_keys_ok [OF ks]
  have "mset ordered = image_mset snd (mset ks)" unfolding ordered by (simp only: mset_map mset_sort)
  then show "mset ordered = mset (filter is_mapping steps)" using k by (simp flip: mset_map)
  have "sorted_wrt (\<lambda>a b. - fst a \<le> - fst b) (sort_key (\<lambda>k. - fst k) ks)"
    using sorted_sort_key [of "\<lambda>k. - fst k" ks] by (simp only: sorted_wrt_map)
  then show "sorted_wrt (\<ge>) (map index_of_step ordered)"
    using k by (auto simp: ordered sorted_wrt_map elim!: sorted_wrt_mono_rel [rotated])
qed

lemma mset_map_filter: "mset xs = mset ys \<Longrightarrow> mset (List.map_filter f xs) = mset (List.map_filter f ys)"
  by (metis map_filter_def mset_filter mset_map)

text \<open>What a successful run of the planner consists of.\<close>

lemma recursive_mkdir_plans_ok:
  assumes "recursive_mkdir_recovery_action_plans same_object context = Inr plans"
  obtains d where "direct_recursive_mkdir_cleanup_plan context = Inr d"
      "latest_recursive_mkdir_failure_payload context = None"
      "plans = (case d of None \<Rightarrow> [] | Some p \<Rightarrow> [p])"
  | d payload steps ordered cleanups where "direct_recursive_mkdir_cleanup_plan context = Inr d"
      "latest_recursive_mkdir_failure_payload context = Some payload"
      "jget (jget payload ''recursive_group'') ''prior_created_steps'' = JArr steps"
      "ordered_steps steps = Inr ordered"
      "plan_cleanup_steps same_object context (failed_recursive_mkdir_step_path payload) ordered = Inr cleanups"
      "plans = (case expected_prior_created_step_count payload of
        Some n \<Rightarrow> if int (length cleanups) < n
          then [incomplete_recursive_mkdir_cleanup_proof_plan context payload n (length cleanups)]
          else (case d of None \<Rightarrow> [] | Some p \<Rightarrow> [p]) @ cleanups
      | None \<Rightarrow> (case d of None \<Rightarrow> [] | Some p \<Rightarrow> [p]) @ cleanups)"
proof -
  obtain d where d: "direct_recursive_mkdir_cleanup_plan context = Inr d"
    using assms by (auto simp: recursive_mkdir_recovery_action_plans_def res_bind_Inr Let_def)
  show ?thesis
  proof (cases "latest_recursive_mkdir_failure_payload context")
    case None
    show ?thesis
      by (rule that(1) [OF d None]) (use assms d None in \<open>simp add: recursive_mkdir_recovery_action_plans_def Let_def\<close>)
  next
    case (Some payload)
    have "is_array (jget (jget payload ''recursive_group'') ''prior_created_steps'')"
      using find_Some_iff_unique [OF Some [unfolded latest_recursive_mkdir_failure_payload_def]] by simp
    then obtain steps where steps: "jget (jget payload ''recursive_group'') ''prior_created_steps'' = JArr steps"
      by (auto simp: is_array_def split: json.splits)
    obtain ordered where o: "ordered_steps steps = Inr ordered"
      using assms d Some steps by (auto simp: recursive_mkdir_recovery_action_plans_def res_bind_Inr Let_def)
    obtain cleanups where c:
      "plan_cleanup_steps same_object context (failed_recursive_mkdir_step_path payload) ordered = Inr cleanups"
      using assms d Some steps o by (auto simp: recursive_mkdir_recovery_action_plans_def res_bind_Inr Let_def)
    show ?thesis
      by (rule that(2) [OF d Some steps o c])
        (use assms d Some steps o c in \<open>simp add: recursive_mkdir_recovery_action_plans_def Let_def\<close>)
  qed
qed

end
