(* ===== verification/Recovery_Runner.thy ===== *)
theory Recovery_Runner
  imports Programs Mkdir_Planning
begin

section \<open>The recovery runner\<close>

text \<open>
  \<open>operation_journal/filesystem_recovery.py\<close> with \<open>recovery_runner.py\<close> and the authority
  of \<open>models.py\<close>: the program that starts a recovery attempt, calls the recovery callback,
  plans and runs the actions of the attempt and records how each of them and the attempt ended.
  The callback, the handlers of the action types, and the planners of tree backups and captured
  directories are parameters; they may do anything to the world. A result is represented by
  the name of its type, the only thing the journal keeps of it.
\<close>

subsection \<open>The authority of a recovery\<close>

text \<open>
  \<open>RecoveryAuthority\<close> as \<open>_recovery_authority\<close> makes it: the closure checks the lease and
  the attempt; the attempt it names and the check of an action are optional fields.
\<close>

record authority =
  auth_batch :: string
  auth_lease :: lease_record
  auth_attempt :: string
  auth_attempt_id :: "string option"
  auth_checks_action :: bool

definition recovery_authority :: "string \<Rightarrow> lease_record \<Rightarrow> string \<Rightarrow> authority" where
  "recovery_authority b lease attempt_id =
     \<lparr>auth_batch = b, auth_lease = lease, auth_attempt = attempt_id,
      auth_attempt_id = Some attempt_id, auth_checks_action = True\<rparr>"

definition require_current :: "surroundings \<Rightarrow> authority \<Rightarrow> ('w, unit) program" where
  "require_current S a =
     bind (operation_time S) (\<lambda>now.
     bind (read S (\<lambda>db. require_current_lease db (auth_lease a) now)) (\<lambda>_.
     bind (read S (\<lambda>db. check_active_recovery_attempt (auth_batch a) (auth_lease a) (auth_attempt a) now db)) (\<lambda>_.
     ret ())))"

definition latest_status :: "string \<Rightarrow> recovery_action_record list \<Rightarrow> action_status option" where
  "latest_status aid actions = map_option action_status (last_of (\<lambda>c. action_id c = aid) actions)"

definition require_action_current :: "surroundings \<Rightarrow> authority \<Rightarrow> recovery_action_record \<Rightarrow> ('w, unit) program" where
  "require_action_current S a action =
     bind (require_current S a) (\<lambda>_.
     bind (require_current S a) (\<lambda>_.
     bind (read S (\<lambda>db. Inr (list_recovery_actions (auth_batch a) (Some (auth_attempt a)) db))) (\<lambda>actions.
     if latest_status (action_id action) actions \<noteq> Some ACTION_ATTEMPTING
     then raise (Raised RecoveryAttemptMismatchError)
     else ret ())))"

definition recovery_attempt_id :: "recovery_context \<Rightarrow> string option" where
  "recovery_attempt_id context = map_option recovery_id (rc_recovery_attempt context)"

definition manual :: "string \<Rightarrow> failure" where
  "manual reason_code = ActionManual (JObj [(''reason_code'', JStr reason_code)])"

definition require_recovery_action_authority ::
  "surroundings \<Rightarrow> authority option \<Rightarrow> recovery_context \<Rightarrow> recovery_action_record \<Rightarrow> ('w, unit) program" where
  "require_recovery_action_authority S auth context action =
     (case auth of
        None \<Rightarrow> raise (manual ''missing_recovery_authority'')
      | Some a \<Rightarrow>
          bind (require_current S a) (\<lambda>_.
          case recovery_attempt_id context of
            None \<Rightarrow> raise (manual ''missing_recovery_action_authority'')
          | Some attempt_id \<Rightarrow>
              if auth_attempt_id a \<notin> {None, Some attempt_id}
              then raise (manual ''recovery_authority_attempt_mismatch'')
              else if action_batch_id action \<noteq> br_batch_id (rc_batch context)
                \<or> action_recovery_attempt_id action \<noteq> attempt_id
              then raise (manual ''recovery_action_attempt_mismatch'')
              else if auth_checks_action a then require_action_current S a action
              else case last_of (\<lambda>c. action_recovery_attempt_id c = attempt_id
                          \<and> action_batch_id c = br_batch_id (rc_batch context)
                          \<and> action_id c = action_id action) (rc_recovery_actions context) of
                None \<Rightarrow> raise (manual ''missing_recovery_action_authority'')
              | Some latest \<Rightarrow>
                  if action_status latest \<in> {ACTION_PLANNED, ACTION_ATTEMPTING} then ret ()
                  else raise (manual ''missing_recovery_action_authority'')))"

subsection \<open>Actions of the current attempt\<close>

text \<open>The loop keeps a dictionary and the order in which its keys came.\<close>

definition latest_step ::
  "(string \<rightharpoonup> recovery_action_record) \<times> string list \<Rightarrow> recovery_action_record
    \<Rightarrow> (string \<rightharpoonup> recovery_action_record) \<times> string list" where
  "latest_step = (\<lambda>(latest, order) action.
     (latest(action_id action \<mapsto> action),
      if latest (action_id action) = None then order @ [action_id action] else order))"

definition latest_current_attempt_recovery_actions :: "recovery_context \<Rightarrow> recovery_action_record list" where
  "latest_current_attempt_recovery_actions context =
     (case recovery_attempt_id context of
        None \<Rightarrow> []
      | Some attempt_id \<Rightarrow>
          let (latest, order) = foldl latest_step (Map.empty, [])
                (filter (\<lambda>a. action_recovery_attempt_id a = attempt_id) (rc_recovery_actions context))
          in map (\<lambda>i. the (latest i)) order)"

fun payload_source :: "recovery_action_record \<Rightarrow> recovery_action_record \<Rightarrow> recovery_action_record list \<Rightarrow> recovery_action_record" where
  "payload_source action fallback [] = fallback"
| "payload_source action fallback (c # cs) =
     (if action_recovery_attempt_id c \<noteq> action_recovery_attempt_id action then payload_source action fallback cs
      else if action_id c \<noteq> action_id action then payload_source action fallback cs
      else if action_status c = ACTION_PLANNED then c
      else payload_source action c cs)"

definition recovery_action_payload_source ::
  "recovery_context \<Rightarrow> recovery_action_record \<Rightarrow> recovery_action_record" where
  "recovery_action_payload_source context action = payload_source action action (rc_recovery_actions context)"

definition nonempty_str :: "json \<Rightarrow> string option" where
  "nonempty_str v = (case v of JStr s \<Rightarrow> if s = [] then None else Some s | _ \<Rightarrow> None)"

definition manual_intervention_action_reason :: "recovery_action_record \<Rightarrow> string" where
  "manual_intervention_action_reason action =
     (case nonempty_str (jget (action_payload action) ''reason'') of
        Some s \<Rightarrow> s
      | None \<Rightarrow> (case nonempty_str (jget (action_payload action) ''detail'') of
            Some s \<Rightarrow> s
          | None \<Rightarrow> ''recovery action requires manual intervention''))"

definition optional_entry :: "string \<Rightarrow> string option \<Rightarrow> (string \<times> json) list" where
  "optional_entry key v = (case v of None \<Rightarrow> [] | Some s \<Rightarrow> [(key, JStr s)])"

definition status_entries ::
  "surroundings \<Rightarrow> recovery_action_record \<Rightarrow> string \<Rightarrow> string option \<Rightarrow> string option \<Rightarrow> failure option
    \<Rightarrow> (string \<times> json) list" where
  "status_entries S action event_type reason result_type exception =
     ([(''event_type'', JStr event_type),
            (''action_id'', JStr (action_id action)),
            (''action_type'', JStr (action_type action)),
            (''resource_key'', opt_json (action_resource_key action)),
            (''recovery_attempt_id'', JStr (action_recovery_attempt_id action))]
       @ optional_entry ''reason'' reason
       @ optional_entry ''result_type'' result_type
       @ concat (map (\<lambda>key. let v = jget (action_payload action) key in if v = JNull then [] else [(key, v)])
           [''path'', ''step_resource_key'', ''recursive_mkdir_cleanup'', ''store_path''])
       @ (case exception of
            None \<Rightarrow> []
          | Some e \<Rightarrow>
              (let (name, text, payload) = set_describe S e
               in [(''error_type'', JStr name), (''error'', JStr text)]
                  @ (case payload of None \<Rightarrow> [] | Some p \<Rightarrow> [(''exception_payload'', p)]))))"

definition recovery_action_status_payload ::
  "surroundings \<Rightarrow> recovery_action_record \<Rightarrow> string \<Rightarrow> string option \<Rightarrow> string option \<Rightarrow> failure option \<Rightarrow> json" where
  "recovery_action_status_payload S action event_type reason result_type exception =
     JObj (status_entries S action event_type reason result_type exception)"

subsection \<open>Recording the status of an action\<close>

definition failure_text :: "surroundings \<Rightarrow> failure \<Rightarrow> string" where
  "failure_text S e = fst (snd (set_describe S e))"

text \<open>The journal calls of the runner; the ids \<open>0\<close>, \<open>1\<close> and \<open>2\<close> are drawn in the transaction.\<close>

definition mark_action ::
  "digest \<Rightarrow> surroundings \<Rightarrow> action_status \<Rightarrow> authority \<Rightarrow> string \<Rightarrow> string option \<Rightarrow> json
    \<Rightarrow> time \<Rightarrow> ('w, recovery_action_record) program" where
  "mark_action H S status a aid reason payload now =
     transact S (\<lambda>ids db. mark_recovery_action H status (auth_batch a) (auth_lease a) (auth_attempt a)
       aid reason (Some payload) None (ids 0) (ids 1) (ids 2) now db)"

definition plan_action ::
  "digest \<Rightarrow> surroundings \<Rightarrow> authority \<Rightarrow> action_plan \<Rightarrow> json \<Rightarrow> time \<Rightarrow> ('w, recovery_action_record) program" where
  "plan_action H S a plan payload now =
     transact S (\<lambda>ids db. record_recovery_action_planned H (auth_batch a) (auth_lease a) (auth_attempt a)
       (plan_action_type plan) (plan_resource_key plan) (Some payload) (Some (plan_action_id plan)) None
       (ids 0) (ids 1) (ids 2) now db)"

subsection \<open>Handlers\<close>

type_synonym 'w handler = "authority \<Rightarrow> recovery_context \<Rightarrow> recovery_action_record \<Rightarrow> ('w, string) program"

record 'w handling =
  hd_handlers :: "string \<Rightarrow> 'w handler option"
  hd_tree_plans :: "'w \<Rightarrow> recovery_context \<Rightarrow> failure + action_plan list"
  hd_captured_plans :: "'w \<Rightarrow> recovery_context \<Rightarrow> failure + action_plan list"
  hd_same_object :: "json \<Rightarrow> json \<Rightarrow> bool"

definition run_with_lease_heartbeat ::
  "surroundings \<Rightarrow> lease_record \<Rightarrow> ('w, 'a) program \<Rightarrow> ('w, 'a) program" where
  "run_with_lease_heartbeat S lease handler =
     (if \<not> (set_now S = None \<and> set_heartbeats S) then handler else maintain_lease S lease handler)"

definition run_authorized_recovery_handler ::
  "surroundings \<Rightarrow> authority option \<Rightarrow> recovery_context \<Rightarrow> recovery_action_record \<Rightarrow> ('w, 'a) program \<Rightarrow> ('w, 'a) program" where
  "run_authorized_recovery_handler S auth context action handler =
     bind (require_recovery_action_authority S auth context action) (\<lambda>_.
     bind handler (\<lambda>result.
     bind (require_recovery_action_authority S auth context action) (\<lambda>_.
     ret result)))"

text \<open>\<open>run_with_active_recovery_attempt\<close>: the body runs after the checking transaction has ended.\<close>

definition run_with_active_attempt ::
  "surroundings \<Rightarrow> authority \<Rightarrow> time \<Rightarrow> ('w, 'a) program \<Rightarrow> ('w, 'a) program" where
  "run_with_active_attempt S a now body =
     bind (read S (\<lambda>db. check_active_recovery_attempt (auth_batch a) (auth_lease a) (auth_attempt a) now db)) (\<lambda>_.
     body)"

definition recovery_failed :: "('w, 'a) program" where
  "recovery_failed = raise (RecoveryFailed None None)"

text \<open>The \<open>except\<close> clauses around a handler.\<close>

definition handler_failure ::
  "digest \<Rightarrow> surroundings \<Rightarrow> authority \<Rightarrow> recovery_action_record \<Rightarrow> recovery_action_record \<Rightarrow> failure
    \<Rightarrow> ('w, recovery_action_record + string) program option" where
  "handler_failure H S a current source e =
     (case e of
        ActionSkipped _ \<Rightarrow> Some (
          bind (operation_time S) (\<lambda>now.
          bind (mark_action H S ACTION_SKIPPED a (action_id current) (Some (failure_text S e))
            (recovery_action_status_payload S source ''skipped'' (Some (failure_text S e)) None (Some e)) now)
          (\<lambda>r. ret (Inl r))))
      | ActionManual _ \<Rightarrow> Some (
          bind (operation_time S) (\<lambda>now.
          bind (mark_action H S ACTION_MANUAL_INTERVENTION_REQUIRED a (action_id current) (Some (failure_text S e))
            (recovery_action_status_payload S source ''manual_intervention_required''
              (Some (failure_text S e)) None (Some e)) now)
          (\<lambda>_. recovery_failed)))
      | Interrupt \<Rightarrow> None
      | _ \<Rightarrow>
          if e \<in> Raised ` {InvalidBatchPhaseTransitionError, JournalLeaseMismatchError, LeaseLostError,
                         RecoveryAttemptMismatchError}
          then Some recovery_failed
          else Some (
            bind (operation_time S) (\<lambda>now.
            bind (mark_action H S ACTION_FAILED a (action_id current) (Some (failure_text S e))
              (recovery_action_status_payload S source ''failed'' (Some (failure_text S e)) None (Some e)) now)
            (\<lambda>_. recovery_failed))))"

definition terminal_action_statuses :: "action_status set" where
  "terminal_action_statuses =
     {ACTION_SUCCEEDED, ACTION_FAILED, ACTION_SKIPPED, ACTION_MANUAL_INTERVENTION_REQUIRED}"

definition run_handler ::
  "digest \<Rightarrow> surroundings \<Rightarrow> authority \<Rightarrow> recovery_context \<Rightarrow> recovery_action_record
    \<Rightarrow> recovery_action_record \<Rightarrow> 'w handler \<Rightarrow> ('w, recovery_action_record) program" where
  "run_handler H S a context current source handler =
     bind (attempt
       (bind (operation_time S) (\<lambda>now.
        bind (run_with_active_attempt S a now
          (run_with_lease_heartbeat S (auth_lease a)
            (run_authorized_recovery_handler S (Some a) context current (handler a context source))))
        (\<lambda>result. ret (Inr result))))
       (handler_failure H S a current source)) (\<lambda>outcome.
     case outcome of
       Inl skipped \<Rightarrow> ret skipped
     | Inr result_type \<Rightarrow>
         bind (operation_time S) (\<lambda>now.
         bind (read S (\<lambda>db. require_current_lease db (auth_lease a) now)) (\<lambda>_.
         mark_action H S ACTION_SUCCEEDED a (action_id current) None
           (recovery_action_status_payload S source ''succeeded'' None (Some result_type) None) now)))"

definition run_recovery_action ::
  "digest \<Rightarrow> surroundings \<Rightarrow> 'w handling \<Rightarrow> authority \<Rightarrow> recovery_context \<Rightarrow> recovery_action_record
    \<Rightarrow> ('w, recovery_action_record) program" where
  "run_recovery_action H S D a context action =
     (if recovery_attempt_id context = None then raise (RecoveryFailed None None)
      else if action_status action \<in> terminal_action_statuses then ret action
      else
      bind (operation_time S) (\<lambda>attempt_time.
      bind (read S (\<lambda>db. require_current_lease db (auth_lease a) attempt_time)) (\<lambda>_.
      bind (if action_status action = ACTION_PLANNED
            then mark_action H S ACTION_ATTEMPTING a (action_id action) None
                   (recovery_action_status_payload S action ''attempting'' None None None) attempt_time
            else ret action) (\<lambda>current.
      let source = recovery_action_payload_source context current;
          stop = (\<lambda>reason payload.
            bind (operation_time S) (\<lambda>now.
            bind (mark_action H S ACTION_MANUAL_INTERVENTION_REQUIRED a (action_id current) (Some reason) payload now) (\<lambda>_.
            recovery_failed)))
      in if action_type current = ''manual_intervention_required'' then
           (let reason = manual_intervention_action_reason source
            in bind (lift (jsonable_mapping (action_payload source))) (\<lambda>m.
               stop reason (JObj (assoc_set ''manual_intervention'' m
                 (status_entries S source ''manual_intervention_required'' (Some reason) None None)))))
         else case hd_handlers D (action_type current) of
           None \<Rightarrow>
             (let reason = ''no built-in recovery handler for '' @ repr_text (action_type current)
              in stop reason (recovery_action_status_payload S source ''manual_intervention_required''
                                (Some reason) None None))
         | Some handler \<Rightarrow> run_handler H S a context current source handler))))"

subsection \<open>Planning and running the actions of an attempt\<close>

definition with_world :: "('w \<Rightarrow> failure + 'a) \<Rightarrow> ('w, 'a) program" where
  "with_world f s = (f (run_world s), s)"

text \<open>The plans of all planners, in the order of the code; any of them may raise.\<close>

definition all_action_plans :: "'w handling \<Rightarrow> recovery_context \<Rightarrow> ('w, action_plan list) program" where
  "all_action_plans D context =
     bind (lift (file_recovery_action_plans context)) (\<lambda>file_plans.
     bind (with_world (\<lambda>w. hd_tree_plans D w context)) (\<lambda>tree_plans.
     bind (with_world (\<lambda>w. hd_captured_plans D w context)) (\<lambda>captured_plans.
     bind (lift (recursive_mkdir_recovery_action_plans (hd_same_object D) context)) (\<lambda>mkdir_plans.
     ret (file_plans @ tree_plans @ captured_plans @ rename_recovery_action_plans context @ mkdir_plans)))))"

definition record_plan ::
  "digest \<Rightarrow> surroundings \<Rightarrow> authority \<Rightarrow> action_plan \<Rightarrow> ('w, recovery_action_record) program" where
  "record_plan H S a plan =
     bind (lift (jsonable_mapping (plan_payload plan))) (\<lambda>payload.
     bind (operation_time S) (\<lambda>now.
     plan_action H S a plan payload now))"

definition with_listed_actions ::
  "surroundings \<Rightarrow> authority \<Rightarrow> recovery_context \<Rightarrow> ('w, recovery_context) program" where
  "with_listed_actions S a context =
     bind (read S (\<lambda>db. Inr (list_recovery_actions (auth_batch a) (Some (auth_attempt a)) db))) (\<lambda>actions.
     ret (context\<lparr>rc_recovery_actions := actions\<rparr>))"

definition plan_recovery_actions ::
  "digest \<Rightarrow> surroundings \<Rightarrow> 'w handling \<Rightarrow> authority \<Rightarrow> recovery_context \<Rightarrow> ('w, recovery_context) program" where
  "plan_recovery_actions H S D a context =
     (case recovery_attempt_id context of
        None \<Rightarrow> ret context
      | Some attempt_id \<Rightarrow>
          let existing = map action_id
                (filter (\<lambda>c. action_recovery_attempt_id c = attempt_id) (rc_recovery_actions context))
          in bind (lift (file_rollback_manual_intervention_payload context)) (\<lambda>file_manual.
             case file_manual of
               Some (aid, rkey, payload) \<Rightarrow>
                 let plan = \<lparr>plan_action_id = aid, plan_action_type = ''manual_intervention_required'',
                              plan_resource_key = Some rkey, plan_payload = payload\<rparr>
                 in bind (if aid \<in> set existing then ret ()
                          else bind (record_plan H S a plan) (\<lambda>planned.
                               bind (lift (jsonable_mapping payload)) (\<lambda>p.
                               bind (operation_time S) (\<lambda>now.
                               bind (mark_action H S ACTION_MANUAL_INTERVENTION_REQUIRED a aid
                                        (Some ''file rollback requires manual intervention'') p now) (\<lambda>_.
                               ret ()))))) (\<lambda>_.
                    recovery_failed)
             | None \<Rightarrow>
                 bind (all_action_plans D context) (\<lambda>plans.
                 let new_plans = filter (\<lambda>p. plan_action_id p \<notin> set existing) plans
                 in bind (each (record_plan H S a) new_plans) (\<lambda>_.
                    if new_plans = [] then ret context else with_listed_actions S a context))))"

definition run_recovery_actions ::
  "digest \<Rightarrow> surroundings \<Rightarrow> 'w handling \<Rightarrow> recovery_context \<Rightarrow> lease_record
    \<Rightarrow> ('w, recovery_action_record list) program" where
  "run_recovery_actions H S D context lease =
     (case rc_recovery_attempt context of
        None \<Rightarrow> raise (RecoveryFailed None None)
      | Some attempt_record \<Rightarrow>
          let a = recovery_authority (br_batch_id (rc_batch context)) lease (recovery_id attempt_record)
          in bind (operation_time S) (\<lambda>now.
             bind (read S (\<lambda>db. require_current_lease db lease now)) (\<lambda>_.
             bind (with_listed_actions S a context) (\<lambda>refreshed.
             bind (plan_recovery_actions H S D a refreshed) (\<lambda>planned.
             each (\<lambda>action. bind (require_current S a) (\<lambda>_. run_recovery_action H S D a planned action))
               (latest_current_attempt_recovery_actions planned))))))"

subsection \<open>One recovery attempt\<close>

fun phase_text :: "batch_phase \<Rightarrow> string" where
  "phase_text PLANNED = ''planned''"
| "phase_text ATTEMPTING = ''attempting''"
| "phase_text SUCCEEDED = ''succeeded''"
| "phase_text FAILED = ''failed''"
| "phase_text RECOVERY_DESIRED = ''recovery_desired''"
| "phase_text RECOVERING = ''recovering''"
| "phase_text RECOVERY_SUCCEEDED = ''recovery_succeeded''"
| "phase_text RECOVERY_FAILED = ''recovery_failed''"

definition callback_failure_payload :: "surroundings \<Rightarrow> recovery_context \<Rightarrow> failure \<Rightarrow> json" where
  "callback_failure_payload S context e =
     JObj [(''batch_id'', JStr (br_batch_id (rc_batch context))),
           (''batch_phase'', JStr (phase_text (br_phase (rc_batch context)))),
           (''error_type'', JStr (fst (set_describe S e))),
           (''error'', JStr (failure_text S e)),
           (''operations'', JArr (map (\<lambda>x. JObj
              [(''operation_id'', JStr (operation_id x)), (''sequence'', JInt (int (operation_sequence x))),
               (''operation_type'', JStr (operation_type x))]) (rc_operations context))),
           (''checkpoints'', JArr (map (\<lambda>c. JObj
              [(''checkpoint_id'', JStr (checkpoint_id c)), (''sequence'', JInt (int (checkpoint_sequence c))),
               (''checkpoint_type'', JStr (checkpoint_type c))]) (rc_checkpoints context))),
           (''recovery_records'', JArr (map (\<lambda>r. JObj
              [(''recovery_id'', JStr (recovery_id r)), (''sequence'', JInt (int (recovery_sequence r))),
               (''phase'', JStr (phase_text (recovery_phase r))),
               (''reason'', opt_json (recovery_reason r))]) (rc_recovery_records context)))]"

record recovery_result =
  rr_context :: recovery_context
  rr_batch :: operation_batch_record
  rr_recovery_record :: recovery_record
  rr_callback_result :: string

type_synonym 'w callback = "authority \<Rightarrow> recovery_context \<Rightarrow> ('w, string) program"

definition begin_recovery ::
  "digest \<Rightarrow> surroundings \<Rightarrow> string \<Rightarrow> lease_record \<Rightarrow> time \<Rightarrow> ('w, recovery_record) program" where
  "begin_recovery H S b lease entry_time =
     attempt
       (bind (transact S (\<lambda>ids db. start_recovery H b lease (Some ''recovery callback started'')
                (Some (JObj [(''batch_id'', JStr b)])) None (ids 0) (ids 1) entry_time db)) (\<lambda>(_, started).
        ret started))
       (\<lambda>e. if e = Raised BatchNotFoundError then Some (raise BatchState)
            else if e = Raised InvalidBatchPhaseTransitionError
            then Some (bind (read S (\<lambda>db. Inr (get_batch b db))) (\<lambda>_. raise BatchState))
            else None)"

text \<open>The callback failed: record it, and raise with the record or with the error of recording it.\<close>

definition record_callback_failure ::
  "digest \<Rightarrow> surroundings \<Rightarrow> authority \<Rightarrow> recovery_context \<Rightarrow> failure \<Rightarrow> ('w, 'a) program" where
  "record_callback_failure H S a context e =
     bind (operation_time S) (\<lambda>now.
     bind (attempt
       (transact S (\<lambda>ids db. record_recovery_failed H (auth_batch a) (auth_lease a) (Some (auth_attempt a))
          (Some ''recovery callback failed'') (Some (callback_failure_payload S context e)) None
          (ids 0) (ids 1) now db))
       (\<lambda>recording_error. Some (raise (RecoveryFailed None (Some recording_error))))) (\<lambda>r.
     raise (RecoveryFailed (Some r) None)))"

text \<open>\<open>recover_batch\<close> up to the end of the callback, and from there.\<close>

definition run_recovery_callback ::
  "digest \<Rightarrow> surroundings \<Rightarrow> 'w callback \<Rightarrow> string \<Rightarrow> lease_record
    \<Rightarrow> ('w, authority \<times> recovery_context \<times> string) program" where
  "run_recovery_callback H S recover b lease =
     bind (operation_time S) (\<lambda>entry_time.
     bind (read S (\<lambda>db. require_current_lease db lease entry_time)) (\<lambda>_.
     bind (read S (\<lambda>db. Inr (get_batch b db))) (\<lambda>batch.
     if map_option br_phase batch \<noteq> Some RECOVERY_DESIRED then raise BatchState
     else
     bind (begin_recovery H S b lease entry_time) (\<lambda>started.
     bind (read S (read_recovery_context py_str b)) (\<lambda>context.
     let a = recovery_authority b lease (recovery_id started)
     in bind (operation_time S) (\<lambda>callback_time.
     bind (read S (\<lambda>db. check_active_recovery_attempt b lease (recovery_id started) callback_time db)) (\<lambda>_.
     bind (attempt (bind (require_current S a) (\<lambda>_. recover a context))
       (\<lambda>e. if e = Interrupt then None else Some (record_callback_failure H S a context e))) (\<lambda>result.
     ret (a, context, result)))))))))"

definition finish_recovery ::
  "digest \<Rightarrow> surroundings \<Rightarrow> authority \<Rightarrow> recovery_context \<Rightarrow> string \<Rightarrow> ('w, recovery_result) program" where
  "finish_recovery H S a context result =
     bind (operation_time S) (\<lambda>completion_time.
     bind (transact S (\<lambda>ids db. record_recovery_succeeded H (auth_batch a) (auth_lease a) (Some (auth_attempt a))
        (Some ''recovery callback succeeded'')
        (Some (JObj [(''batch_id'', JStr (br_batch_id (rc_batch context))),
                     (''batch_phase'', JStr (phase_text (br_phase (rc_batch context)))),
                     (''callback_result_type'', JStr result)])) None (ids 0) (ids 1) completion_time db)) (\<lambda>r.
     bind (read S (\<lambda>db. Inr (get_batch (auth_batch a) db))) (\<lambda>updated.
     case updated of
       None \<Rightarrow> raise (Raised RuntimeError)
     | Some u \<Rightarrow> ret \<lparr>rr_context = context, rr_batch = u, rr_recovery_record = r, rr_callback_result = result\<rparr>)))"

definition recover_batch ::
  "digest \<Rightarrow> surroundings \<Rightarrow> 'w callback \<Rightarrow> string \<Rightarrow> lease_record \<Rightarrow> ('w, recovery_result) program" where
  "recover_batch H S recover b lease =
     bind (run_recovery_callback H S recover b lease) (\<lambda>(a, context, result).
     finish_recovery H S a context result)"

end
