(* ===== verification/File_Backups.thy ===== *)
theory File_Backups
  imports Python_Values "HOL-Library.Word"
begin

section \<open>Snapshots and backups, in memory and in payloads\<close>

text \<open>
  \<open>ResourceSnapshot\<close> and \<open>FileBackup\<close> of \<open>filesystem_ops/models.py\<close>, the payloads in which the
  mutation code records them (\<open>filesystem_support.py\<close>, \<open>filesystem_mutation_checkpoints.py\<close>) and
  the parsers with which the recovery reads them back (\<open>recovery_runner.py\<close>). Bytes are 8-bit
  words; SHA-256 of bytes is a parameter where it is needed.
\<close>

type_synonym bytes = "8 word list"

datatype file_type = FT_MISSING | FT_FILE | FT_DIRECTORY | FT_SYMLINK | FT_OTHER

fun file_type_text :: "file_type \<Rightarrow> string" where
  "file_type_text FT_MISSING = ''missing''"
| "file_type_text FT_FILE = ''file''"
| "file_type_text FT_DIRECTORY = ''directory''"
| "file_type_text FT_SYMLINK = ''symlink''"
| "file_type_text FT_OTHER = ''other''"

record resource_snapshot =
  snap_path :: path
  snap_exists :: bool
  snap_file_type :: file_type
  snap_content_hash :: "string option"
  snap_size :: "int option"
  snap_mtime_ns :: "int option"
  snap_symlink_target :: "string option"
  snap_device :: "int option"
  snap_inode :: "int option"
  snap_ctime_ns :: "int option"

record content_ref =
  ref_algo :: string
  ref_digest :: string
  ref_size :: int
  ref_path :: path

record file_backup =
  fb_path :: path
  fb_existed :: bool
  fb_file_type :: file_type
  fb_content_bytes :: "bytes option"
  fb_content_path :: "path option"
  fb_content_hash :: "string option"
  fb_size :: "int option"
  fb_permissions :: "int option"
  fb_snapshot :: resource_snapshot
  fb_content_address :: "content_ref option"

subsection \<open>The checks of the constructors\<close>

definition is_hexdigit :: "char \<Rightarrow> bool" where
  "is_hexdigit c \<longleftrightarrow> c \<in> set ''0123456789abcdefABCDEF''"

definition is_upper :: "char \<Rightarrow> bool" where
  "is_upper c \<longleftrightarrow> 65 \<le> (of_char c :: nat) \<and> (of_char c :: nat) \<le> 90"

definition content_ref_checked :: "content_ref \<Rightarrow> error + content_ref" where
  "content_ref_checked r =
     (if ref_algo r \<noteq> ''sha256'' then Inl ValueError
      else if length (ref_digest r) \<noteq> 64 \<or> \<not> list_all is_hexdigit (ref_digest r) then Inl ValueError
      else if list_ex is_upper (ref_digest r) then Inl ValueError
      else if ref_size r < 0 then Inl ValueError
      else Inr r)"

definition content_sources :: "file_backup \<Rightarrow> nat" where
  "content_sources b = (if fb_content_bytes b = None then 0 else 1)
     + (if fb_content_path b = None then 0 else 1) + (if fb_content_address b = None then 0 else 1)"

definition file_backup_checked :: "file_backup \<Rightarrow> error + file_backup" where
  "file_backup_checked b =
     (if fb_file_type b \<notin> {FT_MISSING, FT_FILE} then Inl ValueError
      else if fb_existed b \<noteq> (fb_file_type b = FT_FILE) then Inl ValueError
      else if snap_path (fb_snapshot b) \<noteq> fb_path b then Inl ValueError
      else if snap_file_type (fb_snapshot b) \<noteq> fb_file_type b then Inl ValueError
      else if snap_exists (fb_snapshot b) \<noteq> fb_existed b then Inl ValueError
      else if fb_file_type b = FT_MISSING then
        (if fb_content_bytes b \<noteq> None \<or> fb_content_path b \<noteq> None \<or> fb_content_address b \<noteq> None
            \<or> fb_content_hash b \<noteq> None \<or> fb_size b \<noteq> None \<or> fb_permissions b \<noteq> None
         then Inl ValueError else Inr b)
      else if fb_permissions b = None then Inl ValueError
      else if content_sources b \<noteq> 1 then Inl ValueError
      else if fb_content_hash b = None \<or> fb_size b = None then Inl ValueError
      else (case fb_content_address b of
          None \<Rightarrow> Inr b
        | Some r \<Rightarrow>
            if ref_algo r \<noteq> ''sha256'' then Inl ValueError
            else if Some (ref_digest r) \<noteq> fb_content_hash b then Inl ValueError
            else if Some (ref_size r) \<noteq> fb_size b then Inl ValueError
            else Inr b))"

subsection \<open>Writing payloads\<close>

definition int_json :: "int option \<Rightarrow> json" where
  "int_json v = (case v of None \<Rightarrow> JNull | Some n \<Rightarrow> JInt n)"

definition path_json :: "path option \<Rightarrow> json" where
  "path_json v = (case v of None \<Rightarrow> JNull | Some p \<Rightarrow> JStr (path_text p))"

definition snapshot_payload :: "resource_snapshot \<Rightarrow> json" where
  "snapshot_payload s = JObj
     [(''path'', JStr (path_text (snap_path s))),
      (''exists'', JBool (snap_exists s)),
      (''file_type'', JStr (file_type_text (snap_file_type s))),
      (''content_hash'', opt_json (snap_content_hash s)),
      (''size'', int_json (snap_size s)),
      (''mtime_ns'', int_json (snap_mtime_ns s)),
      (''symlink_target'', opt_json (snap_symlink_target s)),
      (''device'', int_json (snap_device s)),
      (''inode'', int_json (snap_inode s)),
      (''ctime_ns'', int_json (snap_ctime_ns s))]"

definition captured_backup_payload :: "file_backup \<Rightarrow> json" where
  "captured_backup_payload b = JObj
     [(''path'', JStr (path_text (fb_path b))),
      (''existed'', JBool (fb_existed b)),
      (''file_type'', JStr (file_type_text (fb_file_type b))),
      (''content_path'', path_json (fb_content_path b)),
      (''content_hash'', opt_json (fb_content_hash b)),
      (''size'', int_json (fb_size b)),
      (''permissions'', int_json (fb_permissions b)),
      (''snapshot'', snapshot_payload (fb_snapshot b))]"

subsection \<open>Reading payloads\<close>

definition path_from_payload_value :: "json \<Rightarrow> error + path" where
  "path_from_payload_value v = (if v = JNull then Inl ValueError else Inr (value_path v))"

definition path_from_optional_payload_value :: "json \<Rightarrow> path option" where
  "path_from_optional_payload_value v = (if v = JNull then None else Some (value_path v))"

definition optional_str_value :: "json \<Rightarrow> string option" where
  "optional_str_value v = (if v = JNull then None else Some (py_str v))"

definition bool_from_payload_value :: "json \<Rightarrow> bool option \<Rightarrow> error + bool" where
  "bool_from_payload_value v fallback = (case v of
      JNull \<Rightarrow> from_option ValueError fallback
    | JBool b \<Rightarrow> Inr b
    | _ \<Rightarrow> Inl ValueError)"

definition file_type_from_payload_value :: "json \<Rightarrow> error + file_type" where
  "file_type_from_payload_value v = from_option ValueError
     (find (\<lambda>t. file_type_text t = py_str v) [FT_MISSING, FT_FILE, FT_DIRECTORY, FT_SYMLINK, FT_OTHER])"

definition backup_file_type_from_payload_value :: "json \<Rightarrow> error + file_type" where
  "backup_file_type_from_payload_value v = from_option ValueError
     (find (\<lambda>t. file_type_text t = py_str v) [FT_MISSING, FT_FILE])"

definition optional_int_value :: "json \<Rightarrow> error + int option" where
  "optional_int_value v = (case v of
      JNull \<Rightarrow> Inr None
    | JInt n \<Rightarrow> Inr (Some n)
    | JStr s \<Rightarrow> res_bind (from_option ValueError (parse_int s)) (\<lambda>n. Inr (Some n))
    | _ \<Rightarrow> Inl ValueError)"

definition resource_snapshot_from_payload :: "json \<Rightarrow> error + resource_snapshot option" where
  "resource_snapshot_from_payload v =
     (if v = JNull then Inr None
      else if \<not> is_mapping v then Inl ValueError
      else res_bind (path_from_payload_value (jget v ''path'')) (\<lambda>path.
        res_bind (bool_from_payload_value (jget v ''exists'') None) (\<lambda>exists.
        res_bind (file_type_from_payload_value (jget v ''file_type'')) (\<lambda>file_type.
        res_bind (optional_int_value (jget v ''size'')) (\<lambda>size.
        res_bind (optional_int_value (jget v ''mtime_ns'')) (\<lambda>mtime.
        res_bind (optional_int_value (jget v ''device'')) (\<lambda>device.
        res_bind (optional_int_value (jget v ''inode'')) (\<lambda>inode.
        res_bind (optional_int_value (jget v ''ctime_ns'')) (\<lambda>ctime.
        Inr (Some \<lparr>snap_path = path, snap_exists = exists, snap_file_type = file_type,
          snap_content_hash = optional_str_value (jget v ''content_hash''), snap_size = size,
          snap_mtime_ns = mtime, snap_symlink_target = optional_str_value (jget v ''symlink_target''),
          snap_device = device, snap_inode = inode, snap_ctime_ns = ctime\<rparr>))))))))))"

definition file_backup_from_payload :: "json \<Rightarrow> error + file_backup" where
  "file_backup_from_payload payload =
     (let b = jget payload ''backup''; sp = jget b ''snapshot''
      in if \<not> is_mapping b then Inl ValueError
         else if \<not> is_mapping sp then Inl ValueError
         else res_bind (resource_snapshot_from_payload sp) (\<lambda>snapshot.
           case snapshot of
             None \<Rightarrow> Inl ValueError
           | Some s \<Rightarrow>
               res_bind (path_from_payload_value (jget b ''path'')) (\<lambda>path.
               res_bind (bool_from_payload_value (jget b ''existed'') None) (\<lambda>existed.
               res_bind (backup_file_type_from_payload_value (jget b ''file_type'')) (\<lambda>file_type.
               res_bind (optional_int_value (jget b ''size'')) (\<lambda>size.
               res_bind (optional_int_value (jget b ''permissions'')) (\<lambda>permissions.
               file_backup_checked
                 \<lparr>fb_path = path, fb_existed = existed, fb_file_type = file_type, fb_content_bytes = None,
                  fb_content_path = path_from_optional_payload_value (jget b ''content_path''),
                  fb_content_hash = optional_str_value (jget b ''content_hash''), fb_size = size,
                  fb_permissions = permissions, fb_snapshot = s, fb_content_address = None\<rparr>)))))))"

subsection \<open>Reading what was written\<close>

lemma optional_int_json [simp]: "optional_int_value (int_json v) = Inr v"
  by (cases v) (simp_all add: optional_int_value_def int_json_def)

lemma optional_str_json [simp]: "optional_str_value (opt_json v) = v"
  by (cases v) (simp_all add: optional_str_value_def opt_json_def)

lemma optional_path_json [simp]:
  "(\<And>p. v = Some p \<Longrightarrow> path_wf p) \<Longrightarrow> path_from_optional_payload_value (path_json v) = v"
  by (cases v) (simp_all add: path_from_optional_payload_value_def path_json_def)

lemma path_from_text [simp]: "path_wf p \<Longrightarrow> path_from_payload_value (JStr (path_text p)) = Inr p"
  by (simp add: path_from_payload_value_def)

lemma bool_from_JBool [simp]: "bool_from_payload_value (JBool b) d = Inr b"
  by (simp add: bool_from_payload_value_def)

lemma file_type_from_text [simp]: "file_type_from_payload_value (JStr (file_type_text t)) = Inr t"
  by (cases t) (simp_all add: file_type_from_payload_value_def)

lemma backup_file_type_from_text [simp]:
  "t \<in> {FT_MISSING, FT_FILE} \<Longrightarrow> backup_file_type_from_payload_value (JStr (file_type_text t)) = Inr t"
  by (auto simp: backup_file_type_from_payload_value_def)

lemma snapshot_payload_mapping [simp]:
  "is_mapping (snapshot_payload s)" "snapshot_payload s \<noteq> JNull" "is_mapping (captured_backup_payload b)"
  by (simp_all add: snapshot_payload_def captured_backup_payload_def)

lemma snapshot_payload_fields [simp]:
  "jget (snapshot_payload s) ''path'' = JStr (path_text (snap_path s))"
  "jget (snapshot_payload s) ''exists'' = JBool (snap_exists s)"
  "jget (snapshot_payload s) ''file_type'' = JStr (file_type_text (snap_file_type s))"
  "jget (snapshot_payload s) ''content_hash'' = opt_json (snap_content_hash s)"
  "jget (snapshot_payload s) ''size'' = int_json (snap_size s)"
  "jget (snapshot_payload s) ''mtime_ns'' = int_json (snap_mtime_ns s)"
  "jget (snapshot_payload s) ''symlink_target'' = opt_json (snap_symlink_target s)"
  "jget (snapshot_payload s) ''device'' = int_json (snap_device s)"
  "jget (snapshot_payload s) ''inode'' = int_json (snap_inode s)"
  "jget (snapshot_payload s) ''ctime_ns'' = int_json (snap_ctime_ns s)"
  by (simp_all add: snapshot_payload_def)

lemma backup_payload_fields [simp]:
  "jget (captured_backup_payload b) ''path'' = JStr (path_text (fb_path b))"
  "jget (captured_backup_payload b) ''existed'' = JBool (fb_existed b)"
  "jget (captured_backup_payload b) ''file_type'' = JStr (file_type_text (fb_file_type b))"
  "jget (captured_backup_payload b) ''content_path'' = path_json (fb_content_path b)"
  "jget (captured_backup_payload b) ''content_hash'' = opt_json (fb_content_hash b)"
  "jget (captured_backup_payload b) ''size'' = int_json (fb_size b)"
  "jget (captured_backup_payload b) ''permissions'' = int_json (fb_permissions b)"
  "jget (captured_backup_payload b) ''snapshot'' = snapshot_payload (fb_snapshot b)"
  by (simp_all add: captured_backup_payload_def)

lemma snapshot_roundtrip:
  "path_wf (snap_path s) \<Longrightarrow> resource_snapshot_from_payload (snapshot_payload s) = Inr (Some s)"
  by (cases s) (simp add: resource_snapshot_from_payload_def)

lemma file_backup_checked_Inr: "file_backup_checked b = Inr c \<Longrightarrow> c = b"
  by (auto simp: file_backup_checked_def split: if_splits option.splits)

lemma file_backup_checked_paths:
  "file_backup_checked b = Inr c \<Longrightarrow> snap_path (fb_snapshot b) = fb_path b \<and> fb_file_type b \<in> {FT_MISSING, FT_FILE}"
  by (auto simp: file_backup_checked_def split: if_splits)

lemma backup_roundtrip:
  assumes "file_backup_checked b = Inr b"
    and "fb_content_bytes b = None" and "fb_content_address b = None"
    and "path_wf (fb_path b)" and "\<And>p. fb_content_path b = Some p \<Longrightarrow> path_wf p"
    and "jget payload ''backup'' = captured_backup_payload b"
  shows "file_backup_from_payload payload = Inr b"
proof -
  have s: "path_wf (snap_path (fb_snapshot b))" and t: "fb_file_type b \<in> {FT_MISSING, FT_FILE}"
    using file_backup_checked_paths [OF assms(1)] assms(4) by auto
  have c: "\<lparr>fb_path = fb_path b, fb_existed = fb_existed b, fb_file_type = fb_file_type b,
      fb_content_bytes = None, fb_content_path = fb_content_path b, fb_content_hash = fb_content_hash b,
      fb_size = fb_size b, fb_permissions = fb_permissions b, fb_snapshot = fb_snapshot b,
      fb_content_address = None\<rparr> = b"
    using assms(2,3) by (cases b) simp
  show ?thesis
    using assms(1) t
    by (simp add: file_backup_from_payload_def Let_def assms(4-6) snapshot_roundtrip [OF s] c)
qed

lemma parsed_backup_checked:
  assumes "file_backup_from_payload payload = Inr b"
  shows "file_backup_checked b = Inr b" "fb_content_bytes b = None" "fb_content_address b = None"
    "path_wf (fb_path b)"
proof -
  obtain c where c: "file_backup_checked c = Inr b" "fb_content_bytes c = None" "fb_content_address c = None"
    "path_wf (fb_path c)"
    using assms by (auto simp: file_backup_from_payload_def Let_def res_bind_Inr path_from_payload_value_def
      split: if_splits option.splits)
  then show "file_backup_checked b = Inr b" "fb_content_bytes b = None" "fb_content_address b = None"
    "path_wf (fb_path b)"
    using file_backup_checked_Inr [OF c(1)] by simp_all
qed

end
