(* ===== verification/Backup_Restore.thy ===== *)
theory Backup_Restore
  imports Recovery_Runner File_Backups
begin

section \<open>Taking and restoring the backup of a file\<close>

text \<open>
  \<open>filesystem_ops/backups.py\<close> and the handler of \<open>restore_backup\<close> actions in
  \<open>operation_journal/recovery_runner.py\<close>. The functions of the code take their snapshot reader,
  content reader, writer, deleter and artifact store as arguments; here they are the fields of
  \<open>file_access\<close>, and each of them acts on the world outside the database.
\<close>

record 'w artifact_store =
  as_put :: "path \<Rightarrow> 'w \<Rightarrow> (failure + content_ref) \<times> 'w"
  as_copy :: "content_ref \<Rightarrow> path \<Rightarrow> int option \<Rightarrow> 'w \<Rightarrow> (failure + unit) \<times> 'w"

record 'w file_access =
  fa_sha256 :: "bytes \<Rightarrow> string"
  fa_snapshot :: "path \<Rightarrow> 'w \<Rightarrow> (failure + resource_snapshot) \<times> 'w"
  fa_read :: "path \<Rightarrow> resource_snapshot \<Rightarrow> 'w \<Rightarrow> (failure + bytes \<times> int option) \<times> 'w"
  fa_permissions :: "path \<Rightarrow> 'w \<Rightarrow> int option \<times> 'w"
  fa_write :: "path \<Rightarrow> bytes \<Rightarrow> int option \<Rightarrow> 'w \<Rightarrow> (failure + unit) \<times> 'w"
  fa_delete :: "path \<Rightarrow> 'w \<Rightarrow> (failure + unit) \<times> 'w"

definition world_call :: "('w \<Rightarrow> (failure + 'a) \<times> 'w) \<Rightarrow> ('w, 'a) program" where
  "world_call f s = (let (r, w) = f (run_world s) in (r, s\<lparr>run_world := w\<rparr>))"

definition read_permissions :: "'w file_access \<Rightarrow> path \<Rightarrow> ('w, int option) program" where
  "read_permissions A p = world_call (\<lambda>w. let (m, w') = fa_permissions A p w in (Inr m, w'))"

text \<open>\<open>isinstance(exc, UnsafePathError)\<close> and \<open>isinstance(exc, ValueError)\<close>.\<close>

definition unsafe_path_errors :: "failure set" where
  "unsafe_path_errors = Raised `
     {UnsafePathError, RestoreConflictError, UnsupportedFilesystemMutationError, UnsupportedFilesystemBackendError,
      IdentityRemoveUnavailableError}"

definition value_errors :: "failure set" where
  "value_errors = unsafe_path_errors \<union> Raised ` {ValueError, BackupContentMismatchError}"

subsection \<open>Taking a backup\<close>

definition missing_backup :: "path \<Rightarrow> resource_snapshot \<Rightarrow> file_backup" where
  "missing_backup p snapshot = \<lparr>fb_path = p, fb_existed = False, fb_file_type = FT_MISSING,
     fb_content_bytes = None, fb_content_path = None, fb_content_hash = None, fb_size = None,
     fb_permissions = None, fb_snapshot = snapshot, fb_content_address = None\<rparr>"

definition made_backup :: "file_backup \<Rightarrow> ('w, file_backup) program" where
  "made_backup b = lift (file_backup_checked b)"

text \<open>The content of the file: from the artifact store, or read and compared with the snapshot.\<close>

definition captured_content ::
  "'w file_access \<Rightarrow> 'w artifact_store option \<Rightarrow> path \<Rightarrow> resource_snapshot
    \<Rightarrow> ('w, bytes option \<times> content_ref option \<times> int option) program" where
  "captured_content A store target current =
     (case store of
        Some st \<Rightarrow>
          bind (read_permissions A target) (\<lambda>permissions.
          if permissions = None then raise (Raised UnsafePathError)
          else bind (world_call (as_put st target)) (\<lambda>ref.
            if Some (ref_digest ref) \<noteq> snap_content_hash current \<or> Some (ref_size ref) \<noteq> snap_size current
            then raise (Raised UnsafePathError)
            else ret (None, Some ref, permissions)))
      | None \<Rightarrow>
          bind (world_call (fa_read A target current)) (\<lambda>(content, permissions).
          if Some (fa_sha256 A content) \<noteq> snap_content_hash current then raise (Raised UnsafePathError)
          else ret (Some content, None, permissions)))"

definition capture_backup ::
  "'w file_access \<Rightarrow> (path \<Rightarrow> path) \<Rightarrow> path \<Rightarrow> resource_snapshot option \<Rightarrow> path option
    \<Rightarrow> 'w artifact_store option \<Rightarrow> ('w, file_backup) program" where
  "capture_backup A absolute p snapshot content_path store =
     (if content_path \<noteq> None \<and> store \<noteq> None then raise (Raised ValueError)
      else let target = absolute p in
      bind (case snapshot of Some s \<Rightarrow> ret s | None \<Rightarrow> world_call (fa_snapshot A target)) (\<lambda>current.
      if snap_path current \<noteq> target then raise (Raised ValueError)
      else if snap_file_type current = FT_MISSING then made_backup (missing_backup target current)
      else if snap_file_type current \<noteq> FT_FILE then raise (Raised UnsafePathError)
      else bind (captured_content A store target current) (\<lambda>(content, ref, permissions).
        bind (case (content_path, content) of
            (Some cp, Some c) \<Rightarrow>
              (let stored = absolute cp
               in if stored = target then raise (Raised ValueError)
                  else bind (world_call (fa_write A stored c (Some 0x180))) (\<lambda>_. ret (None, Some stored)))
          | (Some cp, None) \<Rightarrow> raise (OtherFailure ''AssertionError'')
          | (None, _) \<Rightarrow> ret (content, None)) (\<lambda>(inline, stored).
        made_backup \<lparr>fb_path = target, fb_existed = True, fb_file_type = FT_FILE, fb_content_bytes = inline,
          fb_content_path = stored, fb_content_hash = snap_content_hash current, fb_size = snap_size current,
          fb_permissions = permissions, fb_snapshot = current, fb_content_address = ref\<rparr>))))"

subsection \<open>Restoring a backup\<close>

definition same_resource_snapshot :: "resource_snapshot \<Rightarrow> resource_snapshot \<Rightarrow> bool" where
  "same_resource_snapshot l r \<longleftrightarrow>
     (if snap_path l = snap_path r \<and> snap_exists l \<and> snap_exists r
         \<and> snap_file_type l = FT_FILE \<and> snap_file_type r = FT_FILE
         \<and> snap_content_hash l \<noteq> None \<and> snap_content_hash r \<noteq> None
      then snap_content_hash l = snap_content_hash r \<and> snap_size l = snap_size r
        \<and> snap_symlink_target l = snap_symlink_target r
      else snap_path l = snap_path r \<and> snap_exists l = snap_exists r
        \<and> snap_file_type l = snap_file_type r \<and> snap_content_hash l = snap_content_hash r
        \<and> snap_size l = snap_size r \<and> snap_mtime_ns l = snap_mtime_ns r
        \<and> snap_symlink_target l = snap_symlink_target r)"

definition restore_precondition ::
  "file_backup \<Rightarrow> resource_snapshot \<Rightarrow> resource_snapshot option \<Rightarrow> bool \<Rightarrow> error + unit" where
  "restore_precondition b current expected_current allow_overwrite =
     (if allow_overwrite then Inr ()
      else case expected_current of
        None \<Rightarrow> Inl RestoreConflictError
      | Some e \<Rightarrow>
          if snap_path e \<noteq> fb_path b then Inl ValueError
          else if \<not> same_resource_snapshot current e then Inl RestoreConflictError
          else Inr ())"

definition matches_backup_content ::
  "'w file_access \<Rightarrow> resource_snapshot \<Rightarrow> file_backup \<Rightarrow> ('w, bool) program" where
  "matches_backup_content A s b =
     (if fb_file_type b \<noteq> FT_FILE then ret (snap_file_type s = FT_MISSING)
      else if snap_file_type s = FT_FILE \<and> snap_content_hash s = fb_content_hash b \<and> snap_size s = fb_size b
      then bind (read_permissions A (snap_path s)) (\<lambda>m. ret (m = fb_permissions b))
      else ret False)"

definition stored_backup_content :: "'w file_access \<Rightarrow> file_backup \<Rightarrow> ('w, bytes) program" where
  "stored_backup_content A b =
     (case (fb_content_bytes b, fb_content_path b) of
        (Some c, _) \<Rightarrow> ret c
      | (None, None) \<Rightarrow> raise (OtherFailure ''AssertionError'')
      | (None, Some p) \<Rightarrow>
          bind (world_call (fa_snapshot A p)) (\<lambda>s.
          if snap_file_type s \<noteq> FT_FILE then raise (Raised BackupContentMismatchError)
          else bind (world_call (fa_read A p s)) (\<lambda>(c, _). ret c)))"

definition load_and_validate_backup_content :: "'w file_access \<Rightarrow> file_backup \<Rightarrow> ('w, bytes) program" where
  "load_and_validate_backup_content A b =
     (if fb_file_type b \<noteq> FT_FILE then raise (Raised ValueError)
      else bind (stored_backup_content A b) (\<lambda>c.
        if Some (fa_sha256 A c) \<noteq> fb_content_hash b then raise (Raised BackupContentMismatchError)
        else if Some (int (length c)) \<noteq> fb_size b then raise (Raised BackupContentMismatchError)
        else ret c))"

definition restore_missing_backup ::
  "'w file_access \<Rightarrow> file_backup \<Rightarrow> resource_snapshot option \<Rightarrow> bool \<Rightarrow> ('w, resource_snapshot) program" where
  "restore_missing_backup A b expected_current allow_overwrite =
     bind (world_call (fa_snapshot A (fb_path b))) (\<lambda>current.
     if snap_file_type current = FT_MISSING then ret current
     else if snap_file_type current \<noteq> FT_FILE then raise (Raised UnsafePathError)
     else bind (lift (restore_precondition b current expected_current allow_overwrite)) (\<lambda>_.
       bind (world_call (fa_delete A (fb_path b))) (\<lambda>_.
       bind (world_call (fa_snapshot A (fb_path b))) (\<lambda>restored.
       if snap_file_type restored \<noteq> FT_MISSING then raise (Raised RestoreConflictError)
       else ret restored))))"

definition write_backup_content ::
  "'w file_access \<Rightarrow> 'w artifact_store option \<Rightarrow> file_backup \<Rightarrow> ('w, unit) program" where
  "write_backup_content A store b =
     (case fb_content_address b of
        Some ref \<Rightarrow>
          (case store of
             None \<Rightarrow> raise (Raised BackupContentMismatchError)
           | Some st \<Rightarrow>
               attempt (world_call (as_copy st ref (fb_path b) (fb_permissions b)))
                 (\<lambda>e. if e \<in> value_errors then Some (raise (Raised BackupContentMismatchError)) else None))
      | None \<Rightarrow>
          bind (load_and_validate_backup_content A b) (\<lambda>c.
          world_call (fa_write A (fb_path b) c (fb_permissions b))))"

definition require_restored ::
  "'w file_access \<Rightarrow> file_backup \<Rightarrow> resource_snapshot \<Rightarrow> ('w, resource_snapshot) program" where
  "require_restored A b restored =
     (if snap_file_type restored \<noteq> FT_FILE \<or> snap_content_hash restored \<noteq> fb_content_hash b
      then raise (Raised BackupContentMismatchError)
      else if snap_size restored \<noteq> fb_size b then raise (Raised BackupContentMismatchError)
      else bind (read_permissions A (snap_path restored)) (\<lambda>m.
        if m \<noteq> fb_permissions b then raise (Raised BackupContentMismatchError) else ret restored))"

definition restore_backup ::
  "'w file_access \<Rightarrow> 'w artifact_store option \<Rightarrow> file_backup \<Rightarrow> resource_snapshot option \<Rightarrow> bool
    \<Rightarrow> ('w, resource_snapshot) program" where
  "restore_backup A store b expected_current allow_overwrite =
     (if fb_file_type b = FT_MISSING then restore_missing_backup A b expected_current allow_overwrite
      else bind (world_call (fa_snapshot A (fb_path b))) (\<lambda>current.
        bind (matches_backup_content A current b) (\<lambda>same.
        if same then
          bind (if fb_content_address b = None
                then bind (load_and_validate_backup_content A b) (\<lambda>_. ret ()) else ret ()) (\<lambda>_. ret current)
        else
          bind (lift (restore_precondition b current expected_current allow_overwrite)) (\<lambda>_.
          bind (write_backup_content A store b) (\<lambda>_.
          bind (world_call (fa_snapshot A (fb_path b))) (require_restored A b))))))"

subsection \<open>The handler of \<open>restore_backup\<close> actions\<close>

definition restore_backup_reason_code :: "failure \<Rightarrow> string" where
  "restore_backup_reason_code e =
     (if e = Raised RestoreConflictError then ''restore_conflict''
      else if e = Raised BackupContentMismatchError then ''backup_content_mismatch''
      else ''unsafe_path'')"

definition restore_backup_manual_intervention_payload ::
  "surroundings \<Rightarrow> file_backup \<Rightarrow> failure \<Rightarrow> json" where
  "restore_backup_manual_intervention_payload S b e =
     JObj ([(''path'', JStr (path_text (fb_path b))),
            (''reason_code'', JStr (restore_backup_reason_code e)),
            (''detail'', JStr (failure_text S e))]
           @ (case fb_content_path b of None \<Rightarrow> [] | Some p \<Rightarrow> [(''backup_content_path'', JStr (path_text p))]))"

definition restore_backup_recovery_action ::
  "surroundings \<Rightarrow> 'w file_access \<Rightarrow> authority \<Rightarrow> recovery_context \<Rightarrow> recovery_action_record
    \<Rightarrow> ('w, resource_snapshot) program" where
  "restore_backup_recovery_action S A a context action =
     bind (lift (file_backup_from_payload (action_payload action))) (\<lambda>b.
     bind (lift (resource_snapshot_from_payload (jget (action_payload action) ''expected_current''))) (\<lambda>expected.
     bind (lift (bool_from_payload_value (jget (action_payload action) ''allow_overwrite'') (Some False))) (\<lambda>overwrite.
     attempt
       (bind (require_recovery_action_authority S (Some a) context action) (\<lambda>_.
        restore_backup A None b expected overwrite))
       (\<lambda>e. if e \<in> insert (Raised BackupContentMismatchError) unsafe_path_errors
            then Some (raise (ActionManual (restore_backup_manual_intervention_payload S b e))) else None))))"

text \<open>As an entry of the table of handlers: the journal keeps the name of the type of the result.\<close>

definition restore_backup_handler :: "surroundings \<Rightarrow> 'w file_access \<Rightarrow> 'w handler" where
  "restore_backup_handler S A a context action =
     bind (restore_backup_recovery_action S A a context action) (\<lambda>_. ret ''ResourceSnapshot'')"

end
