(* ===== verification/Lexical_Paths.thy ===== *)
theory Lexical_Paths
  imports Python_Values "HOL-Library.Sublist" "HOL-Library.List_Lexorder" "HOL-Library.Char_ord"
begin

section \<open>Absolute paths and resource keys\<close>

text \<open>
  The lexical part of \<open>filesystem_ops/paths.py\<close>, \<open>operation_journal/filesystem_support.py\<close> and
  \<open>resources.py\<close>: \<open>os.path.abspath\<close> on POSIX, the keys under which files, directories and trees
  are claimed, and resource handles. \<open>os.path.normcase\<close> is the identity on POSIX. The working
  directory and \<open>Path.expanduser\<close> are parameters.
\<close>

subsection \<open>Operations of \<open>pathlib\<close>\<close>

record path_env =
  env_cwd :: path
  env_expanduser :: "path \<Rightarrow> path"

definition is_absolute :: "path \<Rightarrow> bool" where
  "is_absolute p \<longleftrightarrow> path_root p \<noteq> []"

definition env_wf :: "path_env \<Rightarrow> bool" where
  "env_wf E \<longleftrightarrow> path_wf (env_cwd E) \<and> path_root (env_cwd E) \<noteq> []
     \<and> (\<forall>p. path_wf p \<longrightarrow> path_wf (env_expanduser E p))
     \<and> (\<forall>p. is_absolute p \<longrightarrow> env_expanduser E p = p)"

definition path_join :: "path \<Rightarrow> path \<Rightarrow> path" where
  "path_join p q = (if is_absolute q then q else p\<lparr>path_parts := path_parts p @ path_parts q\<rparr>)"

definition path_parent :: "path \<Rightarrow> path" where
  "path_parent p = p\<lparr>path_parts := butlast (path_parts p)\<rparr>"

definition is_relative_to :: "path \<Rightarrow> path \<Rightarrow> bool" where
  "is_relative_to p base \<longleftrightarrow> path_root p = path_root base \<and> prefix (path_parts base) (path_parts p)"

text \<open>\<open>os.path.normpath\<close>.\<close>

definition norm_step :: "bool \<Rightarrow> string list \<Rightarrow> string \<Rightarrow> string list" where
  "norm_step rooted acc part =
     (if part \<noteq> ''..'' \<or> (\<not> rooted \<and> acc = []) \<or> (acc \<noteq> [] \<and> last acc = ''..'') then acc @ [part]
      else butlast acc)"

definition normpath :: "path \<Rightarrow> path" where
  "normpath p = p\<lparr>path_parts := foldl (norm_step (is_absolute p)) [] (path_parts p)\<rparr>"

definition absolute_without_resolving :: "path_env \<Rightarrow> path \<Rightarrow> path" where
  "absolute_without_resolving E p = normpath (path_join (env_cwd E) (env_expanduser E p))"

text \<open>Paths that \<open>os.path.abspath\<close> returns.\<close>

definition canonical :: "path \<Rightarrow> bool" where
  "canonical p \<longleftrightarrow> path_wf p \<and> is_absolute p \<and> ''..'' \<notin> set (path_parts p)"

lemma norm_step_rooted: "''..'' \<notin> set acc \<Longrightarrow> ''..'' \<notin> set (norm_step True acc part)"
  unfolding norm_step_def by (cases "acc = []") (auto dest: in_set_butlastD last_in_set)

lemma norm_step_members: "set (norm_step r acc part) \<subseteq> insert part (set acc)"
  unfolding norm_step_def by (auto dest: in_set_butlastD)

lemma norm_rooted: "''..'' \<notin> set acc \<Longrightarrow> ''..'' \<notin> set (foldl (norm_step True) acc parts)"
proof (induction parts arbitrary: acc)
  case (Cons part parts)
  show ?case using Cons.IH [OF norm_step_rooted [OF Cons.prems]] by simp
qed simp

lemma norm_plain: "''..'' \<notin> set parts \<Longrightarrow> foldl (norm_step r) acc parts = acc @ parts"
proof (induction parts arbitrary: acc)
  case (Cons part parts)
  then have "norm_step r acc part = acc @ [part]" by (auto simp: norm_step_def)
  then show ?case using Cons by simp
qed simp

lemma norm_members: "set (foldl (norm_step r) acc parts) \<subseteq> set acc \<union> set parts"
proof (induction parts arbitrary: acc)
  case (Cons part parts)
  show ?case using Cons.IH [of "norm_step r acc part"] norm_step_members [of r acc part] by auto
qed simp

lemma normpath_canonical:
  assumes "path_wf p" and "is_absolute p"
  shows "canonical (normpath p)"
proof -
  have "list_all (\<lambda>x. is_part x \<and> CHR ''/'' \<notin> set x) (foldl (norm_step True) [] (path_parts p))"
    using assms(1) norm_members [of True "[]" "path_parts p"] by (auto simp: path_wf_def list_all_iff)
  then show ?thesis
    using assms norm_rooted [of "[]"] by (auto simp: canonical_def normpath_def is_absolute_def path_wf_def)
qed

lemma join_wf: "path_wf p \<Longrightarrow> path_wf q \<Longrightarrow> path_wf (path_join p q)"
  by (simp add: path_join_def path_wf_def)

lemma join_is_absolute: "is_absolute p \<Longrightarrow> is_absolute (path_join p q)"
  by (simp add: path_join_def is_absolute_def)

lemma absolute_canonical:
  assumes "env_wf E" and "path_wf p"
  shows "canonical (absolute_without_resolving E p)"
  unfolding absolute_without_resolving_def
proof (rule normpath_canonical)
  show "path_wf (path_join (env_cwd E) (env_expanduser E p))"
    by (rule join_wf) (use assms in \<open>simp_all add: env_wf_def\<close>)
  show "is_absolute (path_join (env_cwd E) (env_expanduser E p))"
    by (rule join_is_absolute) (use assms(1) in \<open>simp add: env_wf_def is_absolute_def\<close>)
qed

lemma normpath_id: "canonical p \<Longrightarrow> normpath p = p"
  by (cases p) (simp add: normpath_def canonical_def norm_plain)

lemma absolute_id: "env_wf E \<Longrightarrow> canonical p \<Longrightarrow> absolute_without_resolving E p = p"
  by (simp add: absolute_without_resolving_def path_join_def env_wf_def normpath_id canonical_def [of p])

subsection \<open>Resource keys\<close>

definition file_resource_key :: "path_env \<Rightarrow> path \<Rightarrow> string" where
  "file_resource_key E p = ''file:'' @ path_text (absolute_without_resolving E p)"

definition directory_resource_key :: "path_env \<Rightarrow> path \<Rightarrow> string" where
  "directory_resource_key E p = ''directory:'' @ path_text (absolute_without_resolving E p)"

definition tree_resource_key :: "path_env \<Rightarrow> path \<Rightarrow> string" where
  "tree_resource_key E p = ''tree:'' @ path_text (absolute_without_resolving E p)"

definition require_matching_file_resource_key :: "path_env \<Rightarrow> path \<Rightarrow> string \<Rightarrow> error + unit" where
  "require_matching_file_resource_key E p key = require (key = file_resource_key E p) ResourceKeyMismatchError"

definition require_matching_directory_resource_key :: "path_env \<Rightarrow> path \<Rightarrow> string \<Rightarrow> error + unit" where
  "require_matching_directory_resource_key E p key =
     require (key = directory_resource_key E p) ResourceKeyMismatchError"

lemma text_wf_inject: "canonical p \<Longrightarrow> canonical q \<Longrightarrow> path_text p = path_text q \<Longrightarrow> p = q"
  using path_text_inject by (auto simp: canonical_def)

subsection \<open>Resource handles\<close>

datatype resource_kind = FILE | DIRECTORY | TREE | CUSTOM

record resource_handle =
  rh_original_path :: "path option"
  rh_path :: "path option"
  rh_resource_key :: string
  rh_kind :: resource_kind
  rh_label :: "string option"
  rh_scope :: "string option"

definition path_resource ::
  "path_env \<Rightarrow> resource_kind \<Rightarrow> (path_env \<Rightarrow> path \<Rightarrow> string) \<Rightarrow> path \<Rightarrow> string option \<Rightarrow> string option
    \<Rightarrow> resource_handle" where
  "path_resource E kind key p label scope =
     (let original = env_expanduser E p; canonical_path = absolute_without_resolving E original
      in \<lparr>rh_original_path = Some original, rh_path = Some canonical_path,
          rh_resource_key = key E canonical_path, rh_kind = kind, rh_label = label, rh_scope = scope\<rparr>)"

definition file_resource :: "path_env \<Rightarrow> path \<Rightarrow> string option \<Rightarrow> string option \<Rightarrow> resource_handle" where
  "file_resource E = path_resource E FILE file_resource_key"

definition directory_resource :: "path_env \<Rightarrow> path \<Rightarrow> string option \<Rightarrow> string option \<Rightarrow> resource_handle" where
  "directory_resource E = path_resource E DIRECTORY directory_resource_key"

definition tree_resource :: "path_env \<Rightarrow> path \<Rightarrow> string option \<Rightarrow> string option \<Rightarrow> resource_handle" where
  "tree_resource E = path_resource E TREE tree_resource_key"

definition custom_resource :: "string \<Rightarrow> string option \<Rightarrow> string option \<Rightarrow> error + resource_handle" where
  "custom_resource key label scope =
     (if key = [] then Inl ValueError
      else Inr \<lparr>rh_original_path = None, rh_path = None, rh_resource_key = key, rh_kind = CUSTOM,
                rh_label = label, rh_scope = scope\<rparr>)"

definition child_path :: "path_env \<Rightarrow> resource_handle \<Rightarrow> path \<Rightarrow> error + path" where
  "child_path E parent child =
     (case rh_path parent of
        None \<Rightarrow> Inl ValueError
      | Some base \<Rightarrow>
          if is_absolute child then Inl ValueError
          else let candidate = absolute_without_resolving E (path_join base child)
               in if is_relative_to candidate base then Inr candidate else Inl ValueError)"

text \<open>\<open>DirectoryResource.file\<close> and the five methods like it.\<close>

definition child_resource ::
  "path_env \<Rightarrow> (path_env \<Rightarrow> path \<Rightarrow> string option \<Rightarrow> string option \<Rightarrow> resource_handle)
    \<Rightarrow> resource_handle \<Rightarrow> path \<Rightarrow> string option \<Rightarrow> error + resource_handle" where
  "child_resource E build parent child label =
     res_bind (child_path E parent child) (\<lambda>p. Inr (build E p label (rh_scope parent)))"

text \<open>The constructor of \<open>ResourceSet\<close>: the named handles in order, with the keys seen so far.\<close>

fun label_resources ::
  "string list \<Rightarrow> (string \<times> resource_handle) list \<Rightarrow> error + (string \<times> resource_handle) list" where
  "label_resources seen [] = Inr []"
| "label_resources seen ((name, r) # rest) =
     (if name = [] then Inl ValueError
      else if rh_resource_key r \<in> set seen then Inl ValueError
      else res_bind (label_resources (rh_resource_key r # seen) rest) (\<lambda>labeled.
        Inr ((name, if rh_label r = None then r\<lparr>rh_label := Some name\<rparr> else r) # labeled)))"

definition resource_set :: "(string \<times> resource_handle) list \<Rightarrow> error + (string \<times> resource_handle) list" where
  "resource_set resources = label_resources [] resources"

definition contains_resource_key :: "(string \<times> resource_handle) list \<Rightarrow> string \<Rightarrow> bool" where
  "contains_resource_key resources key \<longleftrightarrow> list_ex (\<lambda>(name, r). rh_resource_key r = key) resources"

definition sorted_resources :: "(string \<times> resource_handle) list \<Rightarrow> resource_handle list" where
  "sorted_resources resources = sort_key rh_resource_key (map snd resources)"

lemma label_resources_Inr:
  "label_resources seen rs = Inr ls \<Longrightarrow>
     map fst ls = map fst rs
     \<and> map (\<lambda>p. rh_resource_key (snd p)) ls = map (\<lambda>p. rh_resource_key (snd p)) rs
     \<and> map (\<lambda>p. rh_path (snd p)) ls = map (\<lambda>p. rh_path (snd p)) rs
     \<and> distinct (map (\<lambda>p. rh_resource_key (snd p)) rs)
     \<and> (\<forall>p \<in> set rs. rh_resource_key (snd p) \<notin> set seen)"
proof (induction seen rs arbitrary: ls rule: label_resources.induct)
  case (2 seen name r rest)
  from "2.prems" obtain labeled where l: "label_resources (rh_resource_key r # seen) rest = Inr labeled"
    and ls: "ls = (name, if rh_label r = None then r\<lparr>rh_label := Some name\<rparr> else r) # labeled"
    and n: "name \<noteq> []" "rh_resource_key r \<notin> set seen"
    by (auto simp: res_bind_Inr split: if_splits)
  from "2.IH" [OF n l] show ?case unfolding ls using n(2) by (auto simp: image_iff)
qed simp

lemma child_path_within:
  assumes "child_path E parent child = Inr p" and "rh_path parent = Some base"
  shows "is_relative_to p base"
  using assms by (auto simp: child_path_def Let_def split: if_splits)

end
