(* ===== verification/Backup_Artifacts.thy ===== *)
theory Backup_Artifacts
  imports Backup_Restore Lexical_Paths
begin

section \<open>The files that hold backups, and their removal\<close>

text \<open>
  \<open>operation_journal/file_backup_artifacts.py\<close> with the paths of
  \<open>filesystem_mutation_checkpoints.py\<close>: where the content of a backup is stored, which stored
  contents the checkpoints of a batch account for, and the removal of one of them after its path,
  its directory and its content have been checked. \<open>uuid5\<close>, the reads of files and links and the
  two halves of \<open>delete_file\<close> (its checks, and the unlinking after its hook) are parameters.
\<close>

record 'w artifact_access =
  aa_env :: path_env
  aa_uuid5 :: "string \<Rightarrow> string"
  aa_sha256 :: "bytes \<Rightarrow> string"
  aa_is_regular :: "path \<Rightarrow> 'w \<Rightarrow> (failure + bool) \<times> 'w"
  aa_read :: "path \<Rightarrow> 'w \<Rightarrow> (failure + bytes) \<times> 'w"
  aa_is_symlink :: "path \<Rightarrow> 'w \<Rightarrow> (failure + bool) \<times> 'w"
  aa_delete_checks :: "path \<Rightarrow> 'w \<Rightarrow> (failure + unit) \<times> 'w"
  aa_unlink :: "path \<Rightarrow> 'w \<Rightarrow> (failure + unit) \<times> 'w"

subsection \<open>Paths of artifacts\<close>

definition path_name :: "path \<Rightarrow> string" where
  "path_name p = (if path_parts p = [] then [] else last (path_parts p))"

text \<open>\<open>"".join(path.suffixes)\<close>.\<close>

definition joined_suffixes :: "path \<Rightarrow> string" where
  "joined_suffixes p =
     (let name = path_name p
      in if name \<noteq> [] \<and> last name = CHR ''.'' then []
         else dropWhile (\<lambda>c. c \<noteq> CHR ''.'') (dropWhile (\<lambda>c. c = CHR ''.'') name))"

definition under :: "path \<Rightarrow> string \<Rightarrow> path" where
  "under p name = path_join p (path_of name)"

definition backup_artifacts_root :: "path \<Rightarrow> path" where
  "backup_artifacts_root state_path = under (path_parent state_path) (path_name state_path @ ''.artifacts'')"

definition backup_content_artifact_name :: "'w artifact_access \<Rightarrow> string \<Rightarrow> string \<Rightarrow> path \<Rightarrow> string" where
  "backup_content_artifact_name X b oid p =
     aa_uuid5 X (''safe-fs-ops:file-backup'' @ [CHR 0x00] @ b @ [CHR 0x00] @ oid @ [CHR 0x00] @ path_text p) @ ''.bak''"

definition backup_content_path :: "'w artifact_access \<Rightarrow> path \<Rightarrow> string \<Rightarrow> string \<Rightarrow> path \<Rightarrow> path" where
  "backup_content_path X state_path b oid p =
     under (under (backup_artifacts_root state_path) ''file-backups'') (backup_content_artifact_name X b oid p)"

definition legacy_backup_content_path :: "'w artifact_access \<Rightarrow> path \<Rightarrow> string \<Rightarrow> string \<Rightarrow> path \<Rightarrow> path" where
  "legacy_backup_content_path X state_path b oid p =
     under (under (under (under (backup_artifacts_root state_path) ''file-backups'') b)
       (aa_uuid5 X (path_text p))) (oid @ joined_suffixes p @ ''.bak'')"

definition normalized_path :: "'w artifact_access \<Rightarrow> path \<Rightarrow> path" where
  "normalized_path X p = normpath (path_join (env_cwd (aa_env X)) p)"

definition matches_artifact_path_contract :: "'w artifact_access \<Rightarrow> path \<Rightarrow> path \<Rightarrow> bool" where
  "matches_artifact_path_contract X content expected \<longleftrightarrow> normalized_path X content = normalized_path X expected"

definition expected_backup_content_path ::
  "'w artifact_access \<Rightarrow> path \<Rightarrow> string \<Rightarrow> string \<Rightarrow> path \<Rightarrow> path \<Rightarrow> path" where
  "expected_backup_content_path X state_path b oid p content =
     (let legacy = legacy_backup_content_path X state_path b oid p
      in if matches_artifact_path_contract X content legacy then legacy
         else backup_content_path X state_path b oid p)"

subsection \<open>Candidates for removal\<close>

record cleanup_debt =
  debt_batch_id :: string
  debt_content_path :: path
  debt_reason_code :: string
  debt_detail :: string

record artifact_candidate =
  ac_artifact_id :: string
  ac_batch_id :: string
  ac_checkpoint_id :: string
  ac_resource_key :: string
  ac_content_path :: path
  ac_expected_content_path :: "path option"
  ac_expected_content_hash :: "string option"
  ac_expected_size :: "int option"
  ac_debt :: "cleanup_debt option"

definition backup_operation_key :: "checkpoint_record \<Rightarrow> string \<times> string option \<times> string option" where
  "backup_operation_key c =
     (checkpoint_batch_id c, checkpoint_operation_id c, optional_str (jget (checkpoint_payload c) ''path''))"

definition is_missing_backup_without_artifact :: "checkpoint_record \<Rightarrow> bool" where
  "is_missing_backup_without_artifact c =
     (let payload = checkpoint_payload c; file_type = jget payload ''file_type'';
          snapshot = jget payload ''snapshot''
      in if jget payload ''content_path'' \<noteq> JNull then False
         else if jget payload ''existed'' \<noteq> JBool False then False
         else if file_type \<noteq> JNull \<and> file_type \<noteq> JStr ''missing'' then False
         else if snapshot = JNull then True
         else if \<not> is_mapping snapshot then False
         else if jget snapshot ''exists'' \<noteq> JNull \<and> \<not> py_eq (JBool False) (jget snapshot ''exists'') then False
         else jget snapshot ''file_type'' = JNull \<or> jget snapshot ''file_type'' = JStr ''missing'')"

definition nonempty_str_value :: "json \<Rightarrow> string option" where
  "nonempty_str_value v = (case v of JStr s \<Rightarrow> if s = [] then None else Some s | _ \<Rightarrow> None)"

text \<open>The artifact id: the expected path, or the checkpoint when there is none.\<close>

definition artifact_id_for :: "'w artifact_access \<Rightarrow> string \<Rightarrow> path option \<Rightarrow> string" where
  "artifact_id_for X cid expected = (case expected of
      Some p \<Rightarrow> path_text (normalized_path X p)
    | None \<Rightarrow> ''checkpoint:'' @ cid)"

definition missing_backup_fields :: "checkpoint_record \<Rightarrow> string list" where
  "missing_backup_fields c =
     (let payload = checkpoint_payload c
      in (if jget payload ''content_path'' = JNull then [''content_path''] else [])
         @ (if jget payload ''path'' = JNull then [''path''] else [])
         @ (if checkpoint_operation_id c = None then [''operation_id''] else [])
         @ (if nonempty_str_value (jget payload ''content_hash'') = None then [''content_hash''] else [])
         @ (if py_int (jget payload ''size'') = None then [''size''] else []))"

definition artifact_of_checkpoint :: "'w artifact_access \<Rightarrow> path \<Rightarrow> checkpoint_record \<Rightarrow> artifact_candidate" where
  "artifact_of_checkpoint X state_path c =
     (let payload = checkpoint_payload c;
          content = jget payload ''content_path''; source = jget payload ''path'';
          missing = missing_backup_fields c;
          derived = (case checkpoint_operation_id c of
              Some oid \<Rightarrow> if source = JNull then None
                else Some (backup_content_path X state_path (checkpoint_batch_id c) oid (value_path source))
            | None \<Rightarrow> None);
          debt_path = (if content \<noteq> JNull then value_path content
            else case derived of
                Some p \<Rightarrow> p
              | None \<Rightarrow> if source \<noteq> JNull then value_path source else backup_artifacts_root state_path);
          expected = (if missing = [] then
              Some (expected_backup_content_path X state_path (checkpoint_batch_id c)
                (the (checkpoint_operation_id c)) (value_path source) (value_path content))
            else derived)
      in \<lparr>ac_artifact_id = artifact_id_for X (checkpoint_id c) expected,
          ac_batch_id = checkpoint_batch_id c, ac_checkpoint_id = checkpoint_id c,
          ac_resource_key = checkpoint_resource_key c,
          ac_content_path = (if missing = [] then value_path content else debt_path),
          ac_expected_content_path = expected,
          ac_expected_content_hash = nonempty_str_value (jget payload ''content_hash''),
          ac_expected_size = py_int (jget payload ''size''),
          ac_debt = (if missing = [] then None else
            Some \<lparr>debt_batch_id = checkpoint_batch_id c, debt_content_path = debt_path,
                  debt_reason_code = ''malformed_backup_checkpoint'',
                  debt_detail = ''backup checkpoint is missing required field(s): '' @ joined '', '' missing\<rparr>)\<rparr>)"

definition accountable_checkpoints :: "checkpoint_record list \<Rightarrow> checkpoint_record list" where
  "accountable_checkpoints checkpoints =
     (let backed_up = map backup_operation_key (filter (\<lambda>c. checkpoint_type c = ''backup'') checkpoints)
      in filter (\<lambda>c. (checkpoint_type c = ''backup''
                      \<or> checkpoint_type c = ''backup_artifact_intent'' \<and> backup_operation_key c \<notin> set backed_up)
                    \<and> \<not> is_missing_backup_without_artifact c) checkpoints)"

fun first_by_artifact_id :: "string list \<Rightarrow> artifact_candidate list \<Rightarrow> artifact_candidate list" where
  "first_by_artifact_id seen [] = []"
| "first_by_artifact_id seen (a # as) =
     (if ac_artifact_id a \<in> set seen then first_by_artifact_id seen as
      else a # first_by_artifact_id (ac_artifact_id a # seen) as)"

definition plan_backup_artifact_cleanup_candidates ::
  "'w artifact_access \<Rightarrow> path \<Rightarrow> checkpoint_record list \<Rightarrow> artifact_candidate list" where
  "plan_backup_artifact_cleanup_candidates X state_path checkpoints =
     first_by_artifact_id [] (map (artifact_of_checkpoint X state_path) (accountable_checkpoints checkpoints))"

subsection \<open>Removing one artifact\<close>

record cleanup_result =
  cr_artifact_id :: string
  cr_batch_id :: string
  cr_content_path :: path
  cr_status :: string
  cr_reason_code :: "string option"
  cr_detail :: "string option"

definition cleanup_result_of ::
  "artifact_candidate \<Rightarrow> string \<Rightarrow> string option \<Rightarrow> string option \<Rightarrow> cleanup_result" where
  "cleanup_result_of a status reason detail =
     \<lparr>cr_artifact_id = ac_artifact_id a, cr_batch_id = ac_batch_id a, cr_content_path = ac_content_path a,
      cr_status = status, cr_reason_code = reason, cr_detail = detail\<rparr>"

definition manual_result :: "artifact_candidate \<Rightarrow> string \<Rightarrow> string \<Rightarrow> cleanup_result" where
  "manual_result a reason detail =
     cleanup_result_of a ''manual_intervention_required'' (Some reason) (Some detail)"

definition artifact_missing :: "artifact_candidate \<Rightarrow> cleanup_result" where
  "artifact_missing a = cleanup_result_of a ''skipped'' (Some ''artifact_missing'')
     (Some (''backup artifact already missing at '' @ path_text (ac_content_path a)))"

definition os_errors :: "failure set" where
  "os_errors = Raised ` {OSError, FileNotFoundError, FileExistsError}"

definition hash_regular_file :: "'w artifact_access \<Rightarrow> path \<Rightarrow> ('w, string \<times> int) program" where
  "hash_regular_file X p =
     bind (world_call (aa_is_regular X p)) (\<lambda>regular.
     if \<not> regular then raise (Raised OSError)
     else bind (world_call (aa_read X p)) (\<lambda>c. ret (aa_sha256 X c, int (length c))))"

text \<open>\<open>None\<close>: the artifact has the recorded content.\<close>

definition verify_candidate ::
  "surroundings \<Rightarrow> 'w artifact_access \<Rightarrow> artifact_candidate \<Rightarrow> ('w, cleanup_result option) program" where
  "verify_candidate S X a =
     attempt
       (bind (hash_regular_file X (ac_content_path a)) (\<lambda>(actual_hash, actual_size).
        ret (if Some actual_hash \<noteq> ac_expected_content_hash a \<or> Some actual_size \<noteq> ac_expected_size a
             then Some (manual_result a ''backup_artifact_content_mismatch''
                    (''backup artifact content changed at '' @ path_text (ac_content_path a)))
             else None)))
       (\<lambda>e. if e = Raised FileNotFoundError then Some (ret (Some (artifact_missing a)))
            else if e \<in> os_errors
            then Some (ret (Some (manual_result a ''backup_artifact_verification_failed'' (failure_text S e))))
            else None)"

text \<open>The paths from the root of the artifacts down to the path, or up to \<open>/\<close> if it is not below.\<close>

definition path_chain :: "path \<Rightarrow> path \<Rightarrow> path list" where
  "path_chain root p =
     (let chain = map (\<lambda>n. p\<lparr>path_parts := take n (path_parts p)\<rparr>) (rev [0..<Suc (length (path_parts p))])
      in rev (takeWhile (\<lambda>q. q \<noteq> root) chain @ (if root \<in> set chain then [root] else [])))"

definition symlink_detail :: "surroundings \<Rightarrow> 'w artifact_access \<Rightarrow> path \<Rightarrow> ('w, string option) program" where
  "symlink_detail S X q =
     attempt
       (bind (world_call (aa_is_symlink X q)) (\<lambda>link.
        ret (if link then Some (''refusing to remove backup artifact beneath symlinked path '' @ path_text q) else None)))
       (\<lambda>e. if e \<in> os_errors
            then Some (ret (Some (''refusing to inspect backup artifact path '' @ path_text q @ '': '' @ failure_text S e)))
            else None)"

fun first_symlink :: "surroundings \<Rightarrow> 'w artifact_access \<Rightarrow> path list \<Rightarrow> ('w, string option) program" where
  "first_symlink S X [] = ret None"
| "first_symlink S X (q # qs) =
     bind (symlink_detail S X q) (\<lambda>found. case found of Some d \<Rightarrow> ret (Some d) | None \<Rightarrow> first_symlink S X qs)"

definition symlink_chain_violation ::
  "surroundings \<Rightarrow> 'w artifact_access \<Rightarrow> path \<Rightarrow> path \<Rightarrow> ('w, string option) program" where
  "symlink_chain_violation S X p root =
     (let np = normalized_path X p; nroot = normalized_path X root
      in if \<not> is_relative_to np nroot
         then ret (Some (''refusing to remove backup artifact outside '' @ path_text root))
         else first_symlink S X (path_chain nroot np))"

text \<open>\<open>delete_file\<close> with the hook that verifies the content once more before the file is unlinked.\<close>

definition default_delete_verified ::
  "surroundings \<Rightarrow> 'w artifact_access \<Rightarrow> artifact_candidate \<Rightarrow> ('w, cleanup_result option) program" where
  "default_delete_verified S X a =
     bind (world_call (aa_delete_checks X (ac_content_path a))) (\<lambda>_.
     bind (verify_candidate S X a) (\<lambda>changed.
     case changed of
       Some result \<Rightarrow> ret (Some result)
     | None \<Rightarrow> bind (world_call (aa_unlink X (ac_content_path a))) (\<lambda>_. ret None)))"

definition delete_artifact ::
  "surroundings \<Rightarrow> 'w artifact_access \<Rightarrow> (path \<Rightarrow> 'w \<Rightarrow> (failure + unit) \<times> 'w) option \<Rightarrow> artifact_candidate
    \<Rightarrow> ('w, cleanup_result) program" where
  "delete_artifact S X delete_operation a =
     attempt
       (bind (case delete_operation of
            None \<Rightarrow> default_delete_verified S X a
          | Some delete \<Rightarrow> bind (world_call (delete (ac_content_path a))) (\<lambda>_. ret None)) (\<lambda>changed.
        ret (case changed of
            Some result \<Rightarrow> result
          | None \<Rightarrow> cleanup_result_of a ''succeeded'' None None)))
       (\<lambda>e. if e = Raised FileNotFoundError then Some (ret (artifact_missing a))
            else if e \<in> os_errors
            then Some (ret (cleanup_result_of a ''failed'' (Some ''artifact_cleanup_failed'') (Some (failure_text S e))))
            else None)"

definition execute_backup_artifact_cleanup_candidate ::
  "surroundings \<Rightarrow> 'w artifact_access \<Rightarrow> path \<Rightarrow> (path \<Rightarrow> 'w \<Rightarrow> (failure + unit) \<times> 'w) option
    \<Rightarrow> ('w, unit) program option \<Rightarrow> artifact_candidate \<Rightarrow> ('w, cleanup_result) program" where
  "execute_backup_artifact_cleanup_candidate S X state_path delete_operation before_delete a =
     (case ac_debt a of
        Some debt \<Rightarrow> ret (manual_result a (debt_reason_code debt) (debt_detail debt))
      | None \<Rightarrow> case ac_expected_content_path a of
          None \<Rightarrow> ret (manual_result a ''malformed_backup_checkpoint''
            ''backup artifact cleanup candidate is missing expected content path'')
        | Some expected \<Rightarrow>
            if ac_expected_content_hash a = None \<or> ac_expected_size a = None
            then ret (manual_result a ''malformed_backup_checkpoint''
              ''backup artifact cleanup candidate is missing expected content hash or size'')
            else if \<not> matches_artifact_path_contract X (ac_content_path a) expected
            then ret (manual_result a ''unsafe_artifact_path''
              (''refusing to remove backup artifact with unexpected path '' @ path_text (ac_content_path a)
               @ ''; expected '' @ path_text expected))
            else bind (symlink_chain_violation S X (ac_content_path a) (backup_artifacts_root state_path)) (\<lambda>violation.
              case violation of
                Some detail \<Rightarrow> ret (manual_result a ''unsafe_artifact_path'' detail)
              | None \<Rightarrow> bind (verify_candidate S X a) (\<lambda>verification.
                  case verification of
                    Some result \<Rightarrow> ret result
                  | None \<Rightarrow> (case before_delete of
                        None \<Rightarrow> delete_artifact S X delete_operation a
                      | Some before \<Rightarrow> bind before (\<lambda>_. bind (verify_candidate S X a) (\<lambda>again.
                          case again of
                            Some result \<Rightarrow> ret result
                          | None \<Rightarrow> delete_artifact S X delete_operation a))))))"

subsection \<open>Removing the artifacts of a batch\<close>

definition debt_of_result :: "cleanup_result \<Rightarrow> cleanup_debt" where
  "debt_of_result r = \<lparr>debt_batch_id = cr_batch_id r, debt_content_path = cr_content_path r,
     debt_reason_code = the (cr_reason_code r), debt_detail = the (cr_detail r)\<rparr>"

text \<open>\<open>BackupArtifactCleanupError\<close> carries its debts; they are the value of a run that ends in it.\<close>

definition cleanup_backup_artifacts ::
  "surroundings \<Rightarrow> 'w artifact_access \<Rightarrow> path \<Rightarrow> (path \<Rightarrow> 'w \<Rightarrow> (failure + unit) \<times> 'w) option
    \<Rightarrow> checkpoint_record list \<Rightarrow> ('w, cleanup_debt list + path list) program" where
  "cleanup_backup_artifacts S X state_path delete_operation checkpoints =
     bind (each (execute_backup_artifact_cleanup_candidate S X state_path delete_operation None)
            (plan_backup_artifact_cleanup_candidates X state_path checkpoints)) (\<lambda>results.
     let debts = map debt_of_result (filter (\<lambda>r. cr_status r \<notin> {''succeeded'', ''skipped''}) results)
     in if debts \<noteq> [] then ret (Inl debts)
        else ret (Inr (map cr_content_path (filter (\<lambda>r. cr_status r = ''succeeded'') results))))"

end
