(* ===== verification/Program_Logic.thy ===== *)
theory Program_Logic
  imports Programs
begin

section \<open>Weakest preconditions of programs\<close>

text \<open>
  \<open>wp m Q E s\<close>: run in state \<open>s\<close>, the program either returns a value and a state for which \<open>Q\<close>
  holds, or it raises a failure in a state for which \<open>E\<close> holds. The rules of the program
  constructors are equations, so the simplifier reduces a program to its calls; each call has an
  introduction rule for what is known of it.
\<close>

definition wp ::
  "('w, 'a) program \<Rightarrow> ('a \<Rightarrow> 'w run_state \<Rightarrow> bool) \<Rightarrow> (failure \<Rightarrow> 'w run_state \<Rightarrow> bool)
    \<Rightarrow> 'w run_state \<Rightarrow> bool" where
  "wp m Q E s = (case m s of (Inr x, s') \<Rightarrow> Q x s' | (Inl e, s') \<Rightarrow> E e s')"

named_theorems wp_rules \<open>equations of wp for the constructors of programs\<close>

lemma wp_ret [wp_rules]: "wp (ret x) Q E s = Q x s"
  by (simp add: wp_def)

lemma wp_ret': "wp (ret x) Q E = Q x"
  by (rule ext) (simp add: wp_ret)

lemma wp_raise [wp_rules]: "wp (raise e) Q E s = E e s"
  by (simp add: wp_def)

lemma wp_Pair [wp_rules]: "wp (Pair (Inr x)) Q E s = Q x s" "wp (Pair (Inl e)) Q E s = E e s"
  by (simp_all add: wp_def)

lemma wp_bind [wp_rules]: "wp (bind m f) Q E s = wp m (\<lambda>x. wp (f x) Q E) E s"
  by (simp add: wp_def bind_def split: prod.split sum.split)

lemma wp_attempt [wp_rules]:
  "wp (attempt m h) Q E s = wp m Q (\<lambda>e s'. case h e of None \<Rightarrow> E e s' | Some p \<Rightarrow> wp p Q E s') s"
  by (auto simp: wp_def attempt_def split: prod.split sum.split option.split)

lemma wp_lift [wp_rules]: "wp (lift r) Q E s = (case r of Inl e \<Rightarrow> E (Raised e) s | Inr x \<Rightarrow> Q x s)"
  by (simp add: wp_def lift_def split: sum.split)

lemma wp_if [wp_rules]: "wp (if b then m else m') Q E s = (if b then wp m Q E s else wp m' Q E s)"
  by simp

lemma wp_option [wp_rules]:
  "wp (case v of None \<Rightarrow> m | Some x \<Rightarrow> f x) Q E s = (case v of None \<Rightarrow> wp m Q E s | Some x \<Rightarrow> wp (f x) Q E s)"
  by (simp split: option.split)

lemma case_if_Some [wp_rules]:
  "(case (if c then Some p else None) of None \<Rightarrow> x | Some q \<Rightarrow> f q) = (if c then f p else x)"
  by simp

lemma wp_prod [wp_rules]: "wp (case v of (x, y) \<Rightarrow> f x y) Q E s = (case v of (x, y) \<Rightarrow> wp (f x y) Q E s)"
  by (simp split: prod.split)

lemma wp_sum [wp_rules]:
  "wp (case v of Inl x \<Rightarrow> f x | Inr y \<Rightarrow> g y) Q E s = (case v of Inl x \<Rightarrow> wp (f x) Q E s | Inr y \<Rightarrow> wp (g y) Q E s)"
  by (simp split: sum.split)

lemma wp_let [wp_rules]: "wp (let x = v in f x) Q E s = (let x = v in wp (f x) Q E s)"
  by simp

lemma wp_clock [wp_rules]: "wp (clock_time S) Q E s = Q (set_clock S (run_tick s)) s"
  by (simp add: wp_def clock_time_def)

lemma wp_time: "(\<And>t. Q t s) \<Longrightarrow> wp (operation_time S) Q E s"
  by (simp add: operation_time_def wp_rules split: option.split)

lemma wp_raise_if_failed: "(\<And>e. E (Raised e) s) \<Longrightarrow> Q () s \<Longrightarrow> wp (raise_if_failed S) Q E s"
  by (simp add: wp_def raise_if_failed_def split: option.split)

lemma wp_mono:
  "wp m Q E s \<Longrightarrow> (\<And>x s'. Q x s' \<Longrightarrow> Q' x s') \<Longrightarrow> (\<And>e s'. E e s' \<Longrightarrow> E' e s') \<Longrightarrow> wp m Q' E' s"
  by (auto simp: wp_def split: prod.splits sum.splits)

lemma wp_conj:
  "wp m Q E s \<Longrightarrow> wp m Q' E' s \<Longrightarrow> wp m (\<lambda>x s'. Q x s' \<and> Q' x s') (\<lambda>e s'. E e s' \<and> E' e s') s"
  by (auto simp: wp_def split: prod.splits sum.splits)

lemma wp_run: "wp m Q E s \<Longrightarrow> m s = (r, s') \<Longrightarrow> (case r of Inr x \<Rightarrow> Q x s' | Inl e \<Rightarrow> E e s')"
  by (auto simp: wp_def split: sum.splits)

lemma wp_runs: "(\<And>r s'. m s = (r, s') \<Longrightarrow> (case r of Inr x \<Rightarrow> Q x s' | Inl e \<Rightarrow> E e s')) \<Longrightarrow> wp m Q E s"
  by (fastforce simp: wp_def split: prod.splits sum.splits)

lemma wp_keeps: "keeps R m \<Longrightarrow> (\<And>x s'. R s s' \<Longrightarrow> Q x s') \<Longrightarrow> (\<And>e s'. R s s' \<Longrightarrow> E e s') \<Longrightarrow> wp m Q E s"
  by (auto simp: wp_def keeps_def split: prod.splits sum.splits) (metis snd_conv)+

lemma wp_any: "(\<And>x s'. Q x s') \<Longrightarrow> (\<And>e s'. E e s') \<Longrightarrow> wp m Q E s"
  by (simp add: wp_def split: prod.split sum.split)

lemma wp_raise': "wp (raise e) Q E = E e"
  by (rule ext) (simp add: wp_raise)

lemma wp_fails: "(\<And>e s'. E e s') \<Longrightarrow> wp (bind m (\<lambda>_. raise e)) Q E s"
  by (simp add: wp_bind wp_raise' wp_any)

text \<open>One transaction, with the others' changes before it.\<close>

lemma wp_transact:
  assumes "\<And>db. db = set_others S (run_tick s) (run_db s) \<Longrightarrow>
     (case body (\<lambda>k. set_ids S (run_tick s) k db) db of
        Inl e \<Rightarrow> E (Raised e) (s\<lparr>run_db := db, run_tick := Suc (run_tick s)\<rparr>)
      | Inr (db', x) \<Rightarrow> Q x (s\<lparr>run_db := db', run_tick := Suc (run_tick s)\<rparr>))"
  shows "wp (transact S body) Q E s"
  using assms [OF refl]
  by (simp add: wp_def transact_def transaction_def Let_def split: sum.splits prod.splits)

lemma wp_read:
  assumes "\<And>db. db = set_others S (run_tick s) (run_db s) \<Longrightarrow>
     (case q db of
        Inl e \<Rightarrow> E (Raised e) (s\<lparr>run_db := db, run_tick := Suc (run_tick s)\<rparr>)
      | Inr x \<Rightarrow> Q x (s\<lparr>run_db := db, run_tick := Suc (run_tick s)\<rparr>))"
  shows "wp (read S q) Q E s"
  using assms [OF refl] by (simp add: wp_def read_apply split: sum.splits)

text \<open>The invariant of a loop speaks of the results so far.\<close>

lemma wp_each:
  assumes "\<And>ys t. I ys t \<Longrightarrow> length ys < length xs \<Longrightarrow> wp (f (xs ! length ys)) (\<lambda>y t'. I (ys @ [y]) t') E t"
    and "I [] s"
  shows "wp (each f xs) (\<lambda>ys t. length ys = length xs \<and> I ys t) E s"
proof -
  have "wp (each f zs) (\<lambda>rs t. length (ys @ rs) = length xs \<and> I (ys @ rs) t) E t"
    if "I ys t" "drop (length ys) xs = zs" "length ys \<le> length xs" for zs ys t
    using that
  proof (induction zs arbitrary: ys t)
    case (Cons z zs)
    from Cons.prems(2) have n: "length ys < length xs" "xs ! length ys = z"
      by (metis drop_eq_Nil leI list.distinct(1), metis hd_drop_conv_nth drop_eq_Nil leI list.distinct(1) list.sel(1))
    have next_step: "wp (each f zs) (\<lambda>rs t. length ((ys @ [y]) @ rs) = length xs \<and> I ((ys @ [y]) @ rs) t) E t'"
      if "I (ys @ [y]) t'" for y t'
      using Cons.IH [OF that] Cons.prems(2) n(1)
      by (metis Suc_leI drop_Suc length_append_singleton list.sel(3) tl_drop)
    have cons: "wp (bind (each f zs) (\<lambda>rs. ret (y # rs))) Q E = wp (each f zs) (\<lambda>rs. Q (y # rs)) E" for y Q
      by (rule ext) (simp add: wp_bind wp_ret')
    show ?case
      using wp_mono [OF assms(1) [OF Cons.prems(1) n(1)], of "\<lambda>y. wp (each f zs)
          (\<lambda>rs t. length ((ys @ [y]) @ rs) = length xs \<and> I ((ys @ [y]) @ rs) t) E" E] next_step n(2)
      by (simp add: each.simps wp_bind cons)
  qed (simp add: each.simps wp_rules)
  from this [of "[]"] assms(2) show ?thesis by simp
qed

end
