(* ===== verification/Store_Relations.thy ===== *)
theory Store_Relations
  imports Recovery_Runner Journal_Machine
begin

section \<open>Relations that the store calls keep\<close>

text \<open>
  What a program does to the database it does by calls of the stores, between calls of others.
  The locale \<open>store_relation\<close> takes a relation on states that every such call keeps; inside it the
  programs of the recovery runner are shown to keep the relation. Its interpretations carry the
  histories of the journal and the claims of a transaction through a run.
\<close>

locale store_relation = state_relation R for R :: "'w run_state \<Rightarrow> 'w run_state \<Rightarrow> bool" +
  fixes S :: surroundings and H :: digest
  assumes others: "R s (s\<lparr>run_db := set_others S (run_tick s) (run_db s), run_tick := Suc (run_tick s)\<rparr>)"
    and call: "journal_call H l now db db' \<Longrightarrow> R (s\<lparr>run_db := db\<rparr>) (s\<lparr>run_db := db'\<rparr>)"
    and plan: "record_recovery_action_planned H b l i type rk payload aid arid
      (set_ids S n 0 db) (set_ids S n 1 db) (set_ids S n 2 db) now db = Inr (db', x)
      \<Longrightarrow> R (s\<lparr>run_db := db\<rparr>) (s\<lparr>run_db := db'\<rparr>)"
    and beat: "heartbeat lease ttl now db = Inr (db', y) \<Longrightarrow> R (s\<lparr>run_db := db\<rparr>) (s\<lparr>run_db := db'\<rparr>)"
begin

lemma store_transact:
  assumes "\<And>s n db db' x. body (\<lambda>k. set_ids S n k db) db = Inr (db', x) \<Longrightarrow> R (s\<lparr>run_db := db\<rparr>) (s\<lparr>run_db := db'\<rparr>)"
  shows "keeps R (transact S body)"
  by (rule keeps_transact [OF others]) (rule assms)

lemma store_read: "keeps R (read S q)"
  by (rule keeps_read [OF others])

lemma store_mark_action: "status \<noteq> ACTION_PLANNED \<Longrightarrow> keeps R (mark_action H S status a aid reason payload now)"
  unfolding mark_action_def by (rule store_transact) (auto intro: call jc_mark_action)

lemma store_plan_action: "keeps R (plan_action H S a p payload now)"
  unfolding plan_action_def by (rule store_transact) (rule plan)

lemma store_maintain: "keeps R m \<Longrightarrow> keeps R (maintain_lease S lease m)"
  unfolding maintain_lease_def Let_def by (intro keeps_rules store_transact) (auto intro: beat)

lemma store_require_current:
  "keeps R (require_current S a)"
  unfolding require_current_def by (intro keeps_rules store_read)

lemma store_action_authority:
  "keeps R (require_recovery_action_authority S auth context action)"
  unfolding require_recovery_action_authority_def require_action_current_def
  by (intro keeps_rules store_read store_require_current)

lemma store_handler_failure:
  assumes "handler_failure H S a current source e = Some p"
  shows "keeps R p"
proof -
  have m: "keeps R (mark_action H S status a aid reason payload now)"
    if "status \<in> terminal_action_statuses" for status aid reason payload now
    by (rule store_mark_action) (use that in \<open>auto simp: terminal_action_statuses_def\<close>)
  show ?thesis
    using assms unfolding handler_failure_def recovery_failed_def
    by (cases e) (auto simp: terminal_action_statuses_def split: if_splits intro!: keeps_rules m)
qed

lemma store_run_handler:
  assumes "keeps R (handler a context source)"
  shows "keeps R (run_handler H S a context current source handler)"
proof -
  have "keeps R (run_with_lease_heartbeat S (auth_lease a)
      (run_authorized_recovery_handler S (Some a) context current (handler a context source)))"
    unfolding run_with_lease_heartbeat_def run_authorized_recovery_handler_def
    by (intro keeps_rules store_maintain store_action_authority assms)
  then have body: "keeps R (attempt
       (bind (operation_time S) (\<lambda>now.
        bind (run_with_active_attempt S a now
          (run_with_lease_heartbeat S (auth_lease a)
            (run_authorized_recovery_handler S (Some a) context current (handler a context source))))
        (\<lambda>result. ret (Inr result))))
       (handler_failure H S a current source))"
    unfolding run_with_active_attempt_def
    by (intro keeps_rules store_read store_handler_failure) assumption
  show ?thesis
    unfolding run_handler_def
    by (rule keeps_bind [OF body])
      (auto split: sum.split intro!: keeps_rules store_read store_mark_action)
qed

lemma store_run_action:
  assumes "\<And>type h b context act. hd_handlers D type = Some h \<Longrightarrow> keeps R (h b context act)"
  shows "keeps R (run_recovery_action H S D a context action)"
  unfolding run_recovery_action_def Let_def recovery_failed_def
  by (intro keeps_rules store_read store_mark_action store_run_handler assms) simp_all

lemma store_plans: "keeps R (plan_recovery_actions H S D a context)"
proof -
  have r: "keeps R (record_plan H S a plan)" for plan
    unfolding record_plan_def by (intro keeps_rules store_plan_action)
  have w: "keeps R (with_world f)" for f :: "'w \<Rightarrow> failure + action_plan list"
    by (rule keeps_unchanged) (simp add: with_world_def)
  have p: "keeps R (all_action_plans D context)"
    unfolding all_action_plans_def by (intro keeps_rules w)
  have l: "keeps R (with_listed_actions S a context)"
    unfolding with_listed_actions_def by (intro keeps_rules store_read)
  show ?thesis
    unfolding plan_recovery_actions_def Let_def recovery_failed_def
    by (intro keeps_rules r p l store_mark_action) (auto intro!: keeps_rules r p l store_mark_action)
qed

lemma store_run_actions:
  assumes "\<And>type h b context act. hd_handlers D type = Some h \<Longrightarrow> keeps R (h b context act)"
  shows "keeps R (run_recovery_actions H S D context lease)"
  unfolding run_recovery_actions_def Let_def with_listed_actions_def
  by (intro keeps_rules store_read store_plans store_require_current store_run_action assms)

lemma store_begin: "keeps R (begin_recovery H S b lease t)"
  unfolding begin_recovery_def
  by (intro keeps_rules store_transact)
    (auto intro!: keeps_rules store_read
      intro: call jc_start_recovery split: if_splits prod.splits)

lemma store_callback_failure: "keeps R (record_callback_failure H S a context e)"
  unfolding record_callback_failure_def
  by (intro keeps_rules store_transact)
    (auto intro!: keeps_rules intro: call jc_recovery_failed)

lemma store_callback:
  assumes "\<And>a context. keeps R (recover a context)"
  shows "keeps R (run_recovery_callback H S recover b lease)"
  unfolding run_recovery_callback_def Let_def
  by (intro keeps_rules store_read store_begin store_require_current assms)
    (auto split: if_splits intro: store_callback_failure)

lemma store_finish: "keeps R (finish_recovery H S a context result)"
  unfolding finish_recovery_def
  by (intro keeps_rules store_read store_transact)
    (auto intro: call jc_recovery_succeeded)

lemma store_recover_batch:
  "(\<And>a context. keeps R (recover a context)) \<Longrightarrow> keeps R (recover_batch H S recover b lease)"
  unfolding recover_batch_def split_def by (intro keeps_bind store_callback store_finish)

end

end
