(* ===== verification/Runner_Steps.thy ===== *)
theory Runner_Steps
  imports Store_Relations Journal_Listings
begin

section \<open>What the runner does to the database and to the world\<close>

text \<open>
  Two interpretations of \<open>state_relation\<close>. \<open>journal_run\<close>: the database moves by calls of the
  stores only, so every property of the journal's histories holds of a run of the runner.
  \<open>world_kept\<close>: an invariant of the world is kept; it holds of everything but a handler, and
  the lemmas below show under which conditions a handler is called.
\<close>

definition journal_run ::
  "digest \<Rightarrow> (string \<Rightarrow> json option) \<Rightarrow> string set \<Rightarrow> 'w run_state \<Rightarrow> 'w run_state \<Rightarrow> bool" where
  "journal_run H loads F s s' \<longleftrightarrow> (journal_step H loads F)\<^sup>*\<^sup>* (run_db s) (run_db s')"

definition world_kept :: "('w \<Rightarrow> bool) \<Rightarrow> 'w run_state \<Rightarrow> 'w run_state \<Rightarrow> bool" where
  "world_kept P s s' \<longleftrightarrow> (P (run_world s) \<longrightarrow> P (run_world s'))"

interpretation jr: state_relation "journal_run H loads F" for H loads F
  by unfold_locales (auto simp: journal_run_def)

interpretation wk: state_relation "world_kept P" for P
  by unfold_locales (auto simp: world_kept_def)

text \<open>
  The surroundings are lawful: other processes use the stores as well, and \<open>uuid4\<close> draws ids
  that no action in the database has.
\<close>

definition lawful :: "digest \<Rightarrow> (string \<Rightarrow> json option) \<Rightarrow> string set \<Rightarrow> surroundings \<Rightarrow> bool" where
  "lawful H loads F S \<longleftrightarrow>
     (\<forall>n db. (journal_step H loads F)\<^sup>*\<^sup>* db (set_others S n db))
     \<and> (\<forall>n k db. set_ids S n k db \<notin> action_id ` set (recovery_action_table db))"

lemma lawful_others: "lawful H loads F S \<Longrightarrow> (journal_step H loads F)\<^sup>*\<^sup>* db (set_others S n db)"
  by (simp add: lawful_def)

lemma jr_transact:
  assumes "lawful H loads F S"
    and "\<And>n db db' x. body (\<lambda>k. set_ids S n k db) db = Inr (db', x) \<Longrightarrow> (journal_step H loads F)\<^sup>*\<^sup>* db db'"
  shows "keeps (journal_run H loads F) (transact S body)"
  by (rule jr.keeps_transact) (use assms lawful_others [OF assms(1)] in \<open>auto simp: journal_run_def\<close>)

text \<open>The relation for which \<open>store_relation\<close> is interpreted is the one under the hypothesis.\<close>

definition lawful_run ::
  "digest \<Rightarrow> (string \<Rightarrow> json option) \<Rightarrow> string set \<Rightarrow> surroundings \<Rightarrow> 'w run_state \<Rightarrow> 'w run_state \<Rightarrow> bool" where
  "lawful_run H loads F S s s' \<longleftrightarrow> (lawful H loads F S \<longrightarrow> journal_run H loads F s s')"

lemma lawful_run_step:
  "(lawful H loads F S \<Longrightarrow> journal_step H loads F db db') \<Longrightarrow> lawful_run H loads F S (s\<lparr>run_db := db\<rparr>) (s\<lparr>run_db := db'\<rparr>)"
  by (auto simp: lawful_run_def journal_run_def)

interpretation jr_store: store_relation "lawful_run H loads F S" S H for H loads F S
proof unfold_locales
  fix s t u :: "'a run_state"
  show "lawful_run H loads F S s s" by (simp add: lawful_run_def jr.refl)
  show "lawful_run H loads F S s u" if "lawful_run H loads F S s t" "lawful_run H loads F S t u"
    using that jr.trans by (auto simp: lawful_run_def)
  show "lawful_run H loads F S s (s\<lparr>run_db := set_others S (run_tick s) (run_db s), run_tick := Suc (run_tick s)\<rparr>)"
    by (simp add: lawful_run_def journal_run_def lawful_others)
next
  fix l b att type rk payload aid arid lease ttl now y and db db' :: journal_db and x and s :: "'a run_state"
  show "lawful_run H loads F S (s\<lparr>run_db := db\<rparr>) (s\<lparr>run_db := db'\<rparr>)" if "journal_call H l now db db'"
    using js_journal [OF that] by (rule lawful_run_step)
  show "lawful_run H loads F S (s\<lparr>run_db := db\<rparr>) (s\<lparr>run_db := db'\<rparr>)"
    if "heartbeat lease ttl now db = Inr (db', y)"
    by (rule lawful_run_step) (rule js_workspace [OF ws_lease [OF step_heartbeat [OF that]]])
  show "lawful_run H loads F S (s\<lparr>run_db := db\<rparr>) (s\<lparr>run_db := db'\<rparr>)"
    if "record_recovery_action_planned H b l att type rk payload aid arid
      (set_ids S n 0 db) (set_ids S n 1 db) (set_ids S n 2 db) now db = Inr (db', x)" for n
  proof (rule lawful_run_step)
    assume "lawful H loads F S"
    then have "set_ids S n 1 db \<notin> action_id ` set (recovery_action_table db)" by (simp add: lawful_def)
    with that have "journal_call H l now db db'" by (rule jc_plan_action)
    then show "journal_step H loads F db db'" by (rule js_journal)
  qed
qed

lemma keeps_lawful:
  assumes "lawful H loads F S"
  shows "keeps (lawful_run H loads F S) m \<longleftrightarrow> keeps (journal_run H loads F) m"
  using assms by (simp add: keeps_def lawful_run_def)

subsection \<open>The runner moves the database by store calls only\<close>

text \<open>What the locale says of the runner, for lawful surroundings.\<close>

lemma jr_read [keeps_intros]: "lawful H loads F S \<Longrightarrow> keeps (journal_run H loads F) (read S q)"
  using jr_store.store_read keeps_lawful by blast

lemma jr_mark_action [keeps_intros]:
  "lawful H loads F S \<Longrightarrow> status \<noteq> ACTION_PLANNED
    \<Longrightarrow> keeps (journal_run H loads F) (mark_action H S status a aid reason payload now)"
  using jr_store.store_mark_action keeps_lawful by blast

lemma jr_plan_action [keeps_intros]:
  "lawful H loads F S \<Longrightarrow> keeps (journal_run H loads F) (plan_action H S a payload plan now)"
  using jr_store.store_plan_action keeps_lawful by blast

lemma jr_maintain:
  "lawful H loads F S \<Longrightarrow> keeps (journal_run H loads F) m \<Longrightarrow> keeps (journal_run H loads F) (maintain_lease S lease m)"
  using jr_store.store_maintain keeps_lawful by blast

lemma jr_require_current [keeps_intros]:
  "lawful H loads F S \<Longrightarrow> keeps (journal_run H loads F) (require_current S a)"
  using jr_store.store_require_current keeps_lawful by blast

lemma jr_action_authority [keeps_intros]:
  "lawful H loads F S \<Longrightarrow> keeps (journal_run H loads F) (require_recovery_action_authority S auth context action)"
  using jr_store.store_action_authority keeps_lawful by blast

lemma jr_handler_failure:
  "lawful H loads F S \<Longrightarrow> handler_failure H S a current source e = Some p \<Longrightarrow> keeps (journal_run H loads F) p"
  using jr_store.store_handler_failure keeps_lawful by blast

lemma jr_run_handler:
  assumes "lawful H loads F S" and "keeps (journal_run H loads F) (handler a context source)"
  shows "keeps (journal_run H loads F) (run_handler H S a context current source handler)"
  using jr_store.store_run_handler [of H loads F S handler] assms(2) unfolding keeps_lawful [OF assms(1)] by blast

lemma jr_run_action:
  assumes "lawful H loads F S"
    and "\<And>type h b context act. hd_handlers D type = Some h \<Longrightarrow> keeps (journal_run H loads F) (h b context act)"
  shows "keeps (journal_run H loads F) (run_recovery_action H S D a context action)"
  using jr_store.store_run_action [of D H loads F S] assms(2) unfolding keeps_lawful [OF assms(1)] by blast

lemma jr_plans:
  "lawful H loads F S \<Longrightarrow> keeps (journal_run H loads F) (plan_recovery_actions H S D a context)"
  using jr_store.store_plans keeps_lawful by blast

lemma jr_run_actions:
  assumes "lawful H loads F S"
    and "\<And>type h b context act. hd_handlers D type = Some h \<Longrightarrow> keeps (journal_run H loads F) (h b context act)"
  shows "keeps (journal_run H loads F) (run_recovery_actions H S D context lease)"
  using jr_store.store_run_actions [of D H loads F S] assms(2) unfolding keeps_lawful [OF assms(1)] by blast

lemma jr_begin:
  "lawful H loads F S \<Longrightarrow> keeps (journal_run H loads F) (begin_recovery H S b lease t)"
  using jr_store.store_begin keeps_lawful by blast

lemma jr_callback_failure:
  "lawful H loads F S \<Longrightarrow> keeps (journal_run H loads F) (record_callback_failure H S a context e)"
  using jr_store.store_callback_failure keeps_lawful by blast

lemma jr_callback:
  assumes "lawful H loads F S" and "\<And>a context. keeps (journal_run H loads F) (recover a context)"
  shows "keeps (journal_run H loads F) (run_recovery_callback H S recover b lease)"
  using jr_store.store_callback [of H loads F S recover] assms(2) unfolding keeps_lawful [OF assms(1)] by blast

lemma jr_finish:
  "lawful H loads F S \<Longrightarrow> keeps (journal_run H loads F) (finish_recovery H S a context result)"
  using jr_store.store_finish keeps_lawful by blast

subsection \<open>When a handler is called\<close>

text \<open>
  At the last check before a handler the latest record of the action is attempting, and an
  instant earlier the lease was current, bound to the batch, and the attempt the active one.
\<close>

definition authorised ::
  "digest \<Rightarrow> (string \<Rightarrow> json option) \<Rightarrow> string set \<Rightarrow> authority \<Rightarrow> string \<Rightarrow> journal_db \<Rightarrow> bool" where
  "authorised H loads F a aid db \<longleftrightarrow>
     latest_status aid (list_recovery_actions (auth_batch a) (Some (auth_attempt a)) db) = Some ACTION_ATTEMPTING
     \<and> (\<exists>db0 now r. (journal_step H loads F)\<^sup>*\<^sup>* db0 db
          \<and> check_active_recovery_attempt (auth_batch a) (auth_lease a) (auth_attempt a) now db0 = Inr r)"

lemma read_Inr:
  assumes "read S q s = (Inr x, s')"
  shows "q (run_db s') = Inr x"
  using assms by (cases "q (set_others S (run_tick s) (run_db s))") (auto simp: read_apply)

lemma read_others:
  assumes "lawful H loads F S" and "read S q s = (r, s')"
  shows "(journal_step H loads F)\<^sup>*\<^sup>* (run_db s) (run_db s')"
  using assms lawful_others by (auto simp: read_apply)

lemma require_current_ok:
  assumes "require_current S a s = (Inr u, s')"
  shows "\<exists>now r. check_active_recovery_attempt (auth_batch a) (auth_lease a) (auth_attempt a) now (run_db s') = Inr r"
proof -
  obtain now r s1 where "read S (\<lambda>db. check_active_recovery_attempt (auth_batch a) (auth_lease a) (auth_attempt a) now db) s1
      = (Inr r, s')"
    using assms unfolding require_current_def by (auto simp: bind_Inr)
  then show ?thesis by (blast dest: read_Inr)
qed

lemma require_action_current_ok:
  assumes "lawful H loads F S" and "require_action_current S a action s = (Inr u, s')"
  shows "authorised H loads F a (action_id action) (run_db s')"
proof -
  obtain s1 s2 s3 actions where r: "require_current S a s2 = (Inr (), s1)"
    and l: "read S (\<lambda>db. Inr (list_recovery_actions (auth_batch a) (Some (auth_attempt a)) db)) s1 = (Inr actions, s3)"
    and st: "latest_status (action_id action) actions = Some ACTION_ATTEMPTING" "s3 = s'"
    using assms(2) unfolding require_action_current_def by (auto simp: bind_Inr split: if_splits)
  then show ?thesis
    using require_current_ok [OF r] read_others [OF assms(1) l] read_Inr [OF l] unfolding authorised_def by auto
qed

lemma handler_authority_ok:
  assumes "lawful H loads F S" and "auth_checks_action a"
    and "require_recovery_action_authority S (Some a) context action s = (Inr u, s')"
  shows "authorised H loads F a (action_id action) (run_db s')"
  using assms(2,3) unfolding require_recovery_action_authority_def
  by (auto simp: bind_Inr split: option.splits if_splits intro: require_action_current_ok [OF assms(1)])

lemma wk_transact [keeps_intros]: "keeps (world_kept P) (transact S body)"
  by (rule wk.keeps_transact) (simp_all add: world_kept_def)

lemma wk_read [keeps_intros]: "keeps (world_kept P) (read S q)"
  unfolding read_def by (rule wk_transact)

lemma wk_mark_action [keeps_intros]: "keeps (world_kept P) (mark_action H S status a aid reason payload now)"
  unfolding mark_action_def by (rule wk_transact)

lemma wk_action_authority:
  "keeps (world_kept P) (require_recovery_action_authority S auth context action)"
  unfolding require_recovery_action_authority_def require_action_current_def require_current_def
  by (intro wk.keeps_rules wk_read)

lemma wk_authorized_handler:
  assumes "lawful H loads F S" and "auth_checks_action a"
    and "\<And>s. authorised H loads F a (action_id action) (run_db s) \<Longrightarrow> P (run_world s)
      \<Longrightarrow> P (run_world (snd (m s)))"
  shows "keeps (world_kept P) (run_authorized_recovery_handler S (Some a) context action m)"
  unfolding keeps_def
proof
  fix s :: "'a run_state"
  let ?r = "require_recovery_action_authority S (Some a) context action"
  have auth: "world_kept P s (snd (?r s))" for s
    using wk_action_authority unfolding keeps_def by blast
  show "world_kept P s (snd (run_authorized_recovery_handler S (Some a) context action m s))"
  proof (cases "?r s")
    case (Pair r s1)
    have s1: "world_kept P s s1" using auth [of s] Pair by simp
    show ?thesis
    proof (cases r)
      case (Inl e)
      then show ?thesis using Pair s1 by (simp add: run_authorized_recovery_handler_def)
    next
      case (Inr u)
      have "authorised H loads F a (action_id action) (run_db s1)"
        by (rule handler_authority_ok [OF assms(1,2)]) (use Pair Inr in simp)
      then have m: "world_kept P s1 (snd (m s1))" using assms(3) by (simp add: world_kept_def)
      have "keeps (world_kept P) (bind ?r (\<lambda>_. ret x))" for x :: 'b
        by (intro wk.keeps_rules wk_action_authority)
      then have after: "world_kept P t (snd (bind ?r (\<lambda>_. ret x) t))" for x :: 'b and t
        by (simp add: keeps_def)
      obtain q t where t: "m s1 = (q, t)" by fastforce
      then have "world_kept P s t" using m wk.trans [OF s1] by simp
      then show ?thesis
        using Pair Inr t wk.trans [OF _ after]
        by (cases q) (simp_all add: run_authorized_recovery_handler_def)
    qed
  qed
qed

lemma payload_source_id:
  "action_id fallback = action_id action \<Longrightarrow> action_id (payload_source action fallback cs) = action_id action"
  by (induction cs arbitrary: fallback) auto

lemma wk_maintain: "keeps (world_kept P) m \<Longrightarrow> keeps (world_kept P) (maintain_lease S lease m)"
  unfolding maintain_lease_def Let_def by (intro wk.keeps_rules wk_transact)

lemma wk_run_handler:
  assumes "lawful H loads F S" and "auth_checks_action a" and "action_id source = action_id current"
    and "\<And>s. authorised H loads F a (action_id source) (run_db s) \<Longrightarrow> P (run_world s)
      \<Longrightarrow> P (run_world (snd (handler a context source s)))"
  shows "keeps (world_kept P) (run_handler H S a context current source handler)"
proof -
  have "keeps (world_kept P) (run_with_lease_heartbeat S (auth_lease a)
      (run_authorized_recovery_handler S (Some a) context current (handler a context source)))"
    unfolding run_with_lease_heartbeat_def
    by (intro wk.keeps_rules wk_maintain wk_authorized_handler [OF assms(1,2)] assms(4)) (use assms(3) in simp_all)
  moreover have "keeps (world_kept P) p" if "handler_failure H S a current source e = Some p" for e p
    using that unfolding handler_failure_def recovery_failed_def
    by (cases e) (auto split: if_splits intro!: wk.keeps_rules wk_mark_action)
  ultimately have body: "keeps (world_kept P) (attempt
       (bind (operation_time S) (\<lambda>now.
        bind (run_with_active_attempt S a now
          (run_with_lease_heartbeat S (auth_lease a)
            (run_authorized_recovery_handler S (Some a) context current (handler a context source))))
        (\<lambda>result. ret (Inr result))))
       (handler_failure H S a current source))"
    unfolding run_with_active_attempt_def by (intro wk.keeps_rules wk_read) assumption+
  show ?thesis
    unfolding run_handler_def
    by (rule wk.keeps_bind [OF body]) (auto split: sum.split intro!: wk.keeps_rules wk_read wk_mark_action)
qed

lemma wk_run_action:
  assumes "lawful H loads F S" and "auth_checks_action a"
    and "\<And>type h act s. hd_handlers D type = Some h \<Longrightarrow> authorised H loads F a (action_id act) (run_db s)
      \<Longrightarrow> P (run_world s) \<Longrightarrow> P (run_world (snd (h a context act s)))"
  shows "keeps (world_kept P) (run_recovery_action H S D a context action)"
proof -
  have h: "keeps (world_kept P) (run_handler H S a context current (recovery_action_payload_source context current) h)"
    if "hd_handlers D type = Some h" for type h current
    by (rule wk_run_handler [OF assms(1,2)])
      (use assms(3) [OF that] in \<open>simp_all add: recovery_action_payload_source_def payload_source_id\<close>)
  show ?thesis
    unfolding run_recovery_action_def Let_def recovery_failed_def
    by (intro wk.keeps_rules wk_read wk_mark_action h) assumption+
qed

lemma wk_plans: "keeps (world_kept P) (plan_recovery_actions H S D a context)"
proof -
  have r: "keeps (world_kept P) (record_plan H S a plan)" for plan
    unfolding record_plan_def plan_action_def by (intro wk.keeps_rules wk_transact)
  have w: "keeps (world_kept P) (with_world f)" for f :: "'a \<Rightarrow> failure + action_plan list"
    by (rule wk.keeps_unchanged) (simp add: with_world_def)
  have p: "keeps (world_kept P) (all_action_plans D context)"
    unfolding all_action_plans_def by (intro wk.keeps_rules w)
  have l: "keeps (world_kept P) (with_listed_actions S a context)"
    unfolding with_listed_actions_def by (intro wk.keeps_rules wk_read)
  show ?thesis
    unfolding plan_recovery_actions_def Let_def recovery_failed_def
    by (intro wk.keeps_rules r p l wk_mark_action) (auto intro!: wk.keeps_rules r p l wk_mark_action)
qed

subsection \<open>What the runner records\<close>

lemma mark_recorded:
  assumes "journal_wf db" and "status \<noteq> ACTION_PLANNED"
    and "mark_recovery_action H status b lease attempt_id aid reason payload arid fresh fresh2 fresh3 now db = Inr (db', r)"
  shows "action_id r = aid" "action_status r = status" "r \<in> set (recovery_action_table db')"
    "action_batch_id r = b" "action_recovery_attempt_id r = attempt_id"
    "latest_status aid (list_recovery_actions b (Some attempt_id) db') = Some status"
proof -
  note call = assms(3) [unfolded mark_recovery_action_def]
  have "journal_call H lease now db db'" by (rule jc_mark_action [OF assms(3,2)])
  then have log': "log_wf db'" using journal_call_wf [OF _ assms(1)] journal_wf_parts(4) by blast
  from journal_wf_parts(1) [OF assms(1)] call
  have "action_id r = aid \<and> action_status r = status \<and> action_batch_id r = b
    \<and> action_recovery_attempt_id r = attempt_id
    \<and> (\<exists>t. recovery_action_table db' = t @ [r])"
  proof (cases rule: record_recovery_action_ok)
    case (1 row x t existing)
    have latest: "latest_recovery_action_for_attempt attempt_id aid (recovery_action_table db)
        = last_of (\<lambda>r. (action_recovery_attempt_id r, action_id r) = (attempt_id, aid)) (recovery_action_table db)"
      by (rule latest_action [OF journal_wf_parts(4) [OF assms(1)] 1(9)])
    obtain e where l: "latest_recovery_action_for_attempt attempt_id aid (recovery_action_table db) = Some e"
      using 1(10) assms(2)
      by (cases "latest_recovery_action_for_attempt attempt_id aid (recovery_action_table db)")
        (simp_all add: prepare_recovery_action_write_def split: if_splits)
    then have e: "existing = Some e" "latest_recovery_action_for_attempt attempt_id aid (recovery_action_table db) = Some e"
      using 1(10) assms(2) by (simp_all add: prepare_recovery_action_write_def split: if_splits)
    have "action_id e = aid" using last_of_Some [of _ "recovery_action_table db" e] e(2) latest by auto
    then show ?thesis using 1 e(1) actions.insert_Some(1) [OF 1(11)] by auto
  qed
  then obtain t where r: "action_id r = aid" "action_status r = status" "action_batch_id r = b"
    "action_recovery_attempt_id r = attempt_id" and t: "recovery_action_table db' = t @ [r]" by blast
  then show "action_id r = aid" "action_status r = status" "action_batch_id r = b"
    "action_recovery_attempt_id r = attempt_id" "r \<in> set (recovery_action_table db')" by simp_all
  show "latest_status aid (list_recovery_actions b (Some attempt_id) db') = Some status"
    by (simp add: latest_status_def listing_simps [OF log'] t r)
qed

lemma transact_Inr:
  assumes "transact S body s = (Inr x, s')"
  obtains db where "db = set_others S (run_tick s) (run_db s)"
    "body (\<lambda>k. set_ids S (run_tick s) k db) db = Inr (run_db s', x)"
proof -
  let ?db = "set_others S (run_tick s) (run_db s)"
  have "body (\<lambda>k. set_ids S (run_tick s) k ?db) ?db = Inr (run_db s', x)"
    using assms
    by (cases "body (\<lambda>k. set_ids S (run_tick s) k ?db) ?db") (auto simp: transact_def Let_def)
  then show ?thesis using that by blast
qed

lemma transact_Inl:
  assumes "transact S body s = (Inl e, s')"
  shows "e \<in> range Raised"
proof -
  let ?db = "set_others S (run_tick s) (run_db s)"
  show ?thesis
    using assms by (cases "body (\<lambda>k. set_ids S (run_tick s) k ?db) ?db") (auto simp: transact_def Let_def)
qed

lemma mark_action_recorded:
  assumes "lawful H loads F S" and "journal_wf (run_db s)" and "status \<noteq> ACTION_PLANNED"
    and "mark_action H S status a aid reason payload now s = (Inr r, s')"
  shows "action_id r = aid" "action_status r = status" "r \<in> set (recovery_action_table (run_db s'))"
    "latest_status aid (list_recovery_actions (auth_batch a) (Some (auth_attempt a)) (run_db s')) = Some status"
proof -
  obtain db where db: "db = set_others S (run_tick s) (run_db s)"
    and m: "mark_recovery_action H status (auth_batch a) (auth_lease a) (auth_attempt a) aid reason (Some payload) None
      (set_ids S (run_tick s) 0 db) (set_ids S (run_tick s) 1 db) (set_ids S (run_tick s) 2 db) now db
      = Inr (run_db s', r)"
    using assms(4) unfolding mark_action_def by (rule transact_Inr)
  have "journal_wf db" using history_wf [OF lawful_others [OF assms(1)] assms(2)] db by simp
  from mark_recorded [OF this assms(3) m] show "action_id r = aid" "action_status r = status"
    "r \<in> set (recovery_action_table (run_db s'))"
    "latest_status aid (list_recovery_actions (auth_batch a) (Some (auth_attempt a)) (run_db s')) = Some status"
    by blast+
qed

subsection \<open>How a recovery attempt ends\<close>

text \<open>A failure that carries a recovery record carries one that is in the table, with the failed phase.\<close>

definition failure_recorded :: "string \<Rightarrow> failure \<Rightarrow> journal_db \<Rightarrow> bool" where
  "failure_recorded b e db \<longleftrightarrow>
     (\<forall>r x. e = RecoveryFailed (Some r) x \<longrightarrow>
        r \<in> set (recovery_table db) \<and> recovery_batch_id r = b \<and> recovery_phase r = RECOVERY_FAILED)"

lemma failure_recorded_plain [simp]:
  "failure_recorded b (Raised e) db" "failure_recorded b BatchState db" "failure_recorded b Interrupt db"
  "failure_recorded b (RecoveryFailed None x) db"
  by (simp_all add: failure_recorded_def)

lemma begin_recovery_Inl:
  assumes "begin_recovery H S b lease t s = (Inl e, s')"
  shows "e \<in> insert BatchState (range Raised)"
proof -
  let ?start = "transact S (\<lambda>ids db. start_recovery H b lease (Some ''recovery callback started'')
      (Some (JObj [(''batch_id'', JStr b)])) None (ids 0) (ids 1) t db)"
  obtain q s1 where q: "?start s = (q, s1)" by fastforce
  show ?thesis
  proof (cases q)
    case (Inr x)
    then show ?thesis using assms q by (auto simp: begin_recovery_def attempt_def bind_def split: prod.splits)
  next
    case (Inl e1)
    then have e1: "e1 \<in> range Raised" using transact_Inl q by blast
    obtain q2 s2 where q2: "read S (\<lambda>db. Inr (get_batch b db)) s1 = (q2, s2)" by fastforce
    then show ?thesis
      using assms q Inl e1 transact_Inl [of S _ s1, folded read_def]
      by (cases q2) (auto simp: begin_recovery_def attempt_def bind_def read_def split: prod.splits sum.splits if_splits
          dest: transact_Inl)
  qed
qed

definition fails_recorded :: "string \<Rightarrow> ('w, 'a) program \<Rightarrow> bool" where
  "fails_recorded b m \<longleftrightarrow>
     (\<forall>s e s'. journal_wf (run_db s) \<longrightarrow> m s = (Inl e, s') \<longrightarrow> failure_recorded b e (run_db s'))"

lemma fr_bind:
  assumes "keeps (journal_run H loads F) m" and "fails_recorded b m" and "\<And>x. fails_recorded b (f x)"
  shows "fails_recorded b (bind m f)"
  unfolding fails_recorded_def
proof (intro allI impI)
  fix s s'' :: "'a run_state" and e
  assume wf: "journal_wf (run_db s)" and fail: "bind m f s = (Inl e, s'')"
  obtain q s' where q: "m s = (q, s')" by fastforce
  have "(journal_step H loads F)\<^sup>*\<^sup>* (run_db s) (run_db s')"
    using assms(1) q unfolding keeps_def journal_run_def by (metis snd_conv)
  then have "journal_wf (run_db s')" using wf by (rule history_wf)
  then show "failure_recorded b e (run_db s'')"
    using fail q assms(2,3) wf by (cases q) (auto simp: fails_recorded_def)
qed

lemma fr_transact: "fails_recorded b (transact S body)"
  unfolding fails_recorded_def using transact_Inl by fastforce

lemma fr_read: "fails_recorded b (read S q)"
  unfolding read_def by (rule fr_transact)

lemma fr_time: "fails_recorded b (operation_time S)"
  unfolding fails_recorded_def using operation_time_ok by (metis Inl_Inr_False prod.inject)

lemma fr_ret: "fails_recorded b (ret x)"
  by (simp add: fails_recorded_def)

lemma fr_raise: "e \<in> insert BatchState (range Raised) \<Longrightarrow> fails_recorded b (raise e)"
  by (auto simp: fails_recorded_def)

lemma fr_begin: "fails_recorded b' (begin_recovery H S b lease t)"
  unfolding fails_recorded_def using begin_recovery_Inl by fastforce

lemma phase_record_in_table:
  assumes "phase_call lease now b row r db db'"
  shows "r \<in> set (recovery_table db') \<and> recovery_batch_id r = b"
  using assms last_recovery_in by (auto simp: phase_call_def)

lemma phase_recorded:
  assumes "base_wf db" and "phase \<in> {RECOVERY_DESIRED, RECOVERY_SUCCEEDED, RECOVERY_FAILED}"
    and "record_recovery_phase H b lease phase att reason payload rid fresh fresh2 now db = Inr (db', r)"
  shows "r \<in> set (recovery_table db') \<and> recovery_batch_id r = b \<and> recovery_phase r = phase"
  using assms
proof (cases rule: record_recovery_phase_ok)
  case (1 row)
  then show ?thesis using phase_record_in_table [OF 1(1)] by simp
qed

lemma transact_wf:
  assumes "lawful H loads F S" and "journal_wf (run_db s)"
  shows "journal_wf (set_others S n (run_db s))"
  using history_wf [OF lawful_others [OF assms(1)] assms(2)] .

lemma fr_callback_failure:
  assumes "lawful H loads F S"
  shows "fails_recorded (auth_batch a) (record_callback_failure H S a context e)"
  unfolding fails_recorded_def
proof (intro allI impI)
  fix s s' :: "'a run_state" and e'
  assume wf: "journal_wf (run_db s)" and fail: "record_callback_failure H S a context e s = (Inl e', s')"
  obtain now where now: "operation_time S s = (Inr now, s)" using operation_time_ok by blast
  let ?t = "transact S (\<lambda>ids db. record_recovery_failed H (auth_batch a) (auth_lease a) (Some (auth_attempt a))
      (Some ''recovery callback failed'') (Some (callback_failure_payload S context e)) None (ids 0) (ids 1) now db)"
  obtain q s1 where q: "?t s = (q, s1)" by fastforce
  show "failure_recorded (auth_batch a) e' (run_db s')"
  proof (cases q)
    case (Inl e1)
    then have "e' = RecoveryFailed None (Some e1)"
      using fail now q by (simp add: record_callback_failure_def attempt_def bind_def)
    then show ?thesis by simp
  next
    case (Inr r)
    then have e': "e' = RecoveryFailed (Some r) None" "s1 = s'"
      using fail now q by (simp_all add: record_callback_failure_def attempt_def bind_def)
    have "?t s = (Inr r, s')" using q Inr e'(2) by simp
    then obtain db where db: "db = set_others S (run_tick s) (run_db s)"
      and call: "record_recovery_failed H (auth_batch a) (auth_lease a) (Some (auth_attempt a))
        (Some ''recovery callback failed'') (Some (callback_failure_payload S context e)) None
        (set_ids S (run_tick s) 0 db) (set_ids S (run_tick s) 1 db) now db = Inr (run_db s', r)"
      by (rule transact_Inr)
    have base: "base_wf db" using journal_wf_parts(1) [OF transact_wf [OF assms wf]] db by simp
    show ?thesis
      using phase_recorded [OF base _ call [unfolded record_recovery_failed_def]] e'
      by (simp add: failure_recorded_def)
  qed
qed

lemma fr_callback:
  assumes "lawful H loads F S" and "\<And>a context. keeps (journal_run H loads F) (recover a context)"
  shows "fails_recorded b (run_recovery_callback H S recover b lease)"
proof -
  note jr = jr.keeps_time jr_read [OF assms(1)] jr_begin [OF assms(1)]
  have cb: "fails_recorded b (bind (attempt (bind (require_current S a) (\<lambda>_. recover a c))
       (\<lambda>e. if e = Interrupt then None else Some (record_callback_failure H S a c e))) (\<lambda>result.
     ret (a, c, result)))" (is "fails_recorded b (bind ?m _)") if "auth_batch a = b" for a c
  proof (rule fr_bind)
    show "keeps (journal_run H loads F) ?m"
      by (intro jr.keeps_rules jr_require_current assms)
        (auto split: if_splits intro: jr_callback_failure [OF assms(1)])
    show "fails_recorded b ?m"
      unfolding fails_recorded_def
    proof (intro allI impI)
      fix s s' :: "'a run_state" and e
      assume wf: "journal_wf (run_db s)" and fail: "?m s = (Inl e, s')"
      obtain q s1 where q: "bind (require_current S a) (\<lambda>_. recover a c) s = (q, s1)" by fastforce
      have "keeps (journal_run H loads F) (bind (require_current S a) (\<lambda>_. recover a c))"
        by (intro jr.keeps_rules jr_require_current assms)
      then have "(journal_step H loads F)\<^sup>*\<^sup>* (run_db s) (run_db s1)"
        using q unfolding keeps_def journal_run_def by (metis snd_conv)
      then have "journal_wf (run_db s1)" using wf by (rule history_wf)
      then show "failure_recorded b e (run_db s')"
        using fail q fr_callback_failure [OF assms(1), of a c] that
        by (cases q) (auto simp: attempt_def fails_recorded_def split: if_splits)
    qed
  qed (rule fr_ret)
  have auth_b: "auth_batch (recovery_authority b lease x) = b" for x
    by (simp add: recovery_authority_def)
  show ?thesis
    unfolding run_recovery_callback_def Let_def
    by (intro fr_bind [OF jr.keeps_time(1)] fr_bind [OF jr_read [OF assms(1)]] fr_time fr_read)
      (auto intro!: fr_raise fr_bind [OF jr.keeps_time(1)] fr_bind [OF jr_read [OF assms(1)]]
        fr_bind [OF jr_begin [OF assms(1)]] fr_time fr_read fr_begin cb [OF auth_b])
qed

lemma finish_recovery_ok:
  assumes "lawful H loads F S" and "journal_wf (run_db s)"
    and "finish_recovery H S a context result s = (q, s')"
  shows "case q of
      Inl e \<Rightarrow> e \<in> range Raised
    | Inr res \<Rightarrow> rr_recovery_record res \<in> set (recovery_table (run_db s'))
        \<and> recovery_batch_id (rr_recovery_record res) = auth_batch a
        \<and> recovery_phase (rr_recovery_record res) = RECOVERY_SUCCEEDED
        \<and> rr_context res = context \<and> rr_callback_result res = result"
proof -
  obtain now where now: "operation_time S s = (Inr now, s)" using operation_time_ok by blast
  let ?t = "transact S (\<lambda>ids db. record_recovery_succeeded H (auth_batch a) (auth_lease a) (Some (auth_attempt a))
        (Some ''recovery callback succeeded'')
        (Some (JObj [(''batch_id'', JStr (br_batch_id (rc_batch context))),
                     (''batch_phase'', JStr (phase_text (br_phase (rc_batch context)))),
                     (''callback_result_type'', JStr result)])) None (ids 0) (ids 1) now db)"
  obtain q1 s1 where q1: "?t s = (q1, s1)" by fastforce
  show ?thesis
  proof (cases q1)
    case (Inl e)
    then show ?thesis
      using assms(3) q1 now transact_Inl [of S _ s e s1] by (auto simp: finish_recovery_def)
  next
    case (Inr r)
    let ?r = "read S (\<lambda>db. Inr (get_batch (auth_batch a) db))"
    obtain u s2 where u: "?r s1 = (Inr u, s2)" by (simp add: read_apply)
    have s2: "s2 = s'" and q: "q = (case u of None \<Rightarrow> Inl (Raised RuntimeError)
        | Some u \<Rightarrow> Inr \<lparr>rr_context = context, rr_batch = u, rr_recovery_record = r, rr_callback_result = result\<rparr>)"
      using assms(3) q1 now Inr u by (auto simp: finish_recovery_def split: option.splits)
    have "?t s = (Inr r, s1)" using q1 Inr by simp
    then obtain db where db: "db = set_others S (run_tick s) (run_db s)"
      and call: "record_recovery_succeeded H (auth_batch a) (auth_lease a) (Some (auth_attempt a))
        (Some ''recovery callback succeeded'')
        (Some (JObj [(''batch_id'', JStr (br_batch_id (rc_batch context))),
                     (''batch_phase'', JStr (phase_text (br_phase (rc_batch context)))),
                     (''callback_result_type'', JStr result)])) None
        (set_ids S (run_tick s) 0 db) (set_ids S (run_tick s) 1 db) now db = Inr (run_db s1, r)"
      by (rule transact_Inr)
    have wf: "journal_wf db" using transact_wf [OF assms(1,2)] db by simp
    have wf1: "journal_wf (run_db s1)"
      using journal_call_wf [OF jc_recovery_succeeded [OF call] wf] .
    have steps: "(journal_step H loads F)\<^sup>*\<^sup>* (run_db s1) (run_db s')"
      using read_others [OF assms(1) u] s2 by simp
    have "prefix (recovery_table (run_db s1)) (recovery_table (run_db s'))"
      using history_logs [OF steps wf1] by (simp add: logs_extend_def)
    moreover have "r \<in> set (recovery_table (run_db s1)) \<and> recovery_batch_id r = auth_batch a
        \<and> recovery_phase r = RECOVERY_SUCCEEDED"
      using phase_recorded [OF journal_wf_parts(1) [OF wf] _ call [unfolded record_recovery_succeeded_def]] by simp
    ultimately show ?thesis
      using set_mono_prefix by (auto simp: q split: option.splits)
  qed
qed

end
