(* ===== verification/Planning_Properties.thy ===== *)
theory Planning_Properties
  imports Mkdir_Planning
begin

section \<open>What file recovery planning promises\<close>

text \<open>
  Properties of \<open>file_recovery_planning.py\<close>: a restore and a no-op rest on recorded
  evidence, and a batch that changed a file is never passed over in silence. The witnesses run
  the planner on the records of a file that was written once.
\<close>

definition demo_checkpoint :: "string \<Rightarrow> nat \<Rightarrow> json \<Rightarrow> checkpoint_record" where
  "demo_checkpoint type n payload =
     \<lparr>checkpoint_id = type, checkpoint_batch_id = ''b1'', checkpoint_sequence = n,
      checkpoint_operation_id = None, checkpoint_resource_key = ''file:/t/a'', checkpoint_type = type,
      checkpoint_payload = payload, checkpoint_created_at = 0\<rparr>"

definition demo_snapshot :: "string \<Rightarrow> json" where
  "demo_snapshot hash = JObj [(''path'', JStr ''/t/a''), (''exists'', JBool True),
     (''file_type'', JStr ''file''), (''content_hash'', JStr hash), (''size'', JInt 3)]"

definition demo_backup_payload :: json where
  "demo_backup_payload = JObj [(''path'', JStr ''/t//a''), (''existed'', JBool True),
     (''file_type'', JStr ''file''), (''snapshot'', demo_snapshot ''h0'')]"

definition demo_write_payload :: json where
  "demo_write_payload = JObj [(''operation'', JStr ''write_bytes''), (''path'', JStr ''/t/./a'')]"

definition demo_checkpoints :: "checkpoint_record list" where
  "demo_checkpoints = [demo_checkpoint ''backup'' 1 demo_backup_payload,
     demo_checkpoint ''after'' 2 (demo_snapshot ''h1'')]"

definition demo_context :: "checkpoint_record list \<Rightarrow> json \<Rightarrow> recovery_context" where
  "demo_context checkpoints payload =
     \<lparr>rc_batch = \<lparr>br_batch_id = ''b1'', br_idempotency_key = ''k1'', br_lease_name = ''n'',
        br_lease_fencing_token = 1, br_owner = ''o'', br_run_id = ''r'', br_operation_run_id = None,
        br_operation_phase_id = None, br_resource_key = Some ''file:/t/a'', br_claim_owner = None,
        br_claim_scope = None, br_phase = RECOVERING, br_payload = payload, br_status_message = None,
        br_status_payload = JObj [], br_created_at = 0, br_updated_at = 0, br_storage_order = 1\<rparr>,
      rc_operations = [], rc_checkpoints = checkpoints, rc_recovery_records = [],
      rc_recovery_attempt = None, rc_recovery_actions = [], rc_proof_contexts = []\<rparr>"

text \<open>
  C19. The evidence behind a proof. A restore puts back the payload of the latest backup
  checkpoint of the file, which describes one and the same file as its snapshot; it never
  allows an overwrite and expects to find a state that is justified: the recorded state after
  the mutation, a snapshot that agrees with the announced outcome, or the snapshot a failure
  took before the mutation began. A no-op is claimed only if the failure's snapshot agrees, in
  all eight compared fields, with the state recorded before the mutation or with the snapshot in
  the backup. A manual proof means that there is no usable backup, or no justified current state
  was recorded.
\<close>

theorem file_recovery_proof_sound:
  assumes "file_recovery_proof_from_records payload cps rk failure = Inr (Some p)"
  shows "\<exists>rkey path. rk = Some rkey \<and> path = value_path (jget payload ''path'')
    \<and> proof_resource_key p = rkey \<and> jget (proof_payload p) ''path'' = JStr (path_text path)
    \<and> (case proof_kind p of
         PROOF_RESTORE \<Rightarrow> \<exists>c current.
           latest_checkpoint_from_records cps ''backup'' rkey path = Some c
           \<and> is_backup_payload (checkpoint_payload c) path = Inr True
           \<and> jget (proof_payload p) ''backup'' = checkpoint_payload c
           \<and> jget (proof_payload p) ''expected_current'' = current
           \<and> jget (proof_payload p) ''allow_overwrite'' = JBool False
           \<and> current_justified cps rkey path failure current
       | PROOF_NOOP \<Rightarrow> \<exists>snapshot reference.
           failure_snapshot_payload failure = Some snapshot
           \<and> unchanged_since cps rkey path snapshot reference
       | PROOF_MANUAL \<Rightarrow>
           usable_backup cps rkey path = Inr None
           \<or> expected_current_payload cps rkey path failure = Inr None)"
  using assms
proof (cases rule: file_recovery_proof_ok)
  case (1 rkey path)
  then show ?thesis
    by (intro exI [of _ rkey] exI [of _ path])
      (auto simp: restore_proof_def noop_proof_def manual_proof_def usable_backup_Some
        dest: expected_current_justified)
qed

theorem file_recovery_proof_sound_witness:
  "\<exists>p c. file_recovery_proof_from_records demo_write_payload demo_checkpoints (Some ''file:/t/a'') JNull
      = Inr (Some p)
    \<and> proof_kind p = PROOF_RESTORE
    \<and> latest_checkpoint_from_records demo_checkpoints ''backup'' ''file:/t/a'' (path_of ''/t/a'') = Some c
    \<and> jget (proof_payload p) ''backup'' = checkpoint_payload c"
proof -
  define p where "p = restore_proof (restore_backup_action_id ''file:/t/a'') ''file:/t/a'' (path_of ''/t/a'')
    demo_backup_payload (demo_snapshot ''h1'')"
  have ok: "file_recovery_proof_from_records demo_write_payload demo_checkpoints (Some ''file:/t/a'') JNull
      = Inr (Some p)"
    unfolding p_def by code_simp
  have kind: "proof_kind p = PROOF_RESTORE" by (simp add: p_def restore_proof_def)
  have path: "value_path (jget demo_write_payload ''path'') = path_of ''/t/a''" by code_simp
  show ?thesis
    using file_recovery_proof_sound [OF ok] ok kind path by auto
qed

text \<open>
  C20. No batch is passed over. When the values that planning looks up are hashable (as those of
  every record of this package are), planning does not raise, and it leaves a batch alone
  exactly if the batch did not write or delete a file, or names no resource or path. Otherwise
  it decides for one of three outcomes, and the three functions that callers use agree on it:
  one restoring action, nothing to do, or a manual intervention.
\<close>

theorem file_recovery_decided:
  assumes "hashable (jget (br_payload (rc_batch context)) ''operation'')"
    and "\<forall>c \<in> set (rc_checkpoints context). plain_checkpoint c"
    and "plain_failure (latest_failure_payload context)"
  shows "case file_recovery_proof context of
      Inl e \<Rightarrow> False
    | Inr prf \<Rightarrow>
        (prf = None \<longleftrightarrow>
           jget (br_payload (rc_batch context)) ''operation''
             \<notin> JStr ` {''write_bytes'', ''write_text'', ''delete_file''}
           \<or> br_resource_key (rc_batch context) = None
           \<or> jget (br_payload (rc_batch context)) ''path'' = JNull)
        \<and> (file_recovery_action_plans context, file_rollback_manual_intervention_payload context,
            automatic_file_rollback_supported context)
          = (case prf of
               None \<Rightarrow> (Inr [], Inr None, Inr False)
             | Some p \<Rightarrow> (case proof_kind p of
                 PROOF_RESTORE \<Rightarrow>
                   (Inr [\<lparr>plan_action_id = proof_action_id p, plan_action_type = ''restore_backup'',
                          plan_resource_key = Some (proof_resource_key p),
                          plan_payload = proof_payload p\<rparr>], Inr None, Inr True)
               | PROOF_NOOP \<Rightarrow> (Inr [], Inr None, Inr True)
               | PROOF_MANUAL \<Rightarrow>
                   (Inr [], Inr (Some (proof_action_id p, proof_resource_key p, proof_payload p)), Inr False)))"
proof -
  obtain r where r: "file_recovery_proof context = Inr r"
    and none: "r = None \<longleftrightarrow>
         jget (br_payload (rc_batch context)) ''operation'' \<notin> JStr ` {''write_bytes'', ''write_text'', ''delete_file''}
         \<or> br_resource_key (rc_batch context) = None
         \<or> jget (br_payload (rc_batch context)) ''path'' = JNull"
    using file_recovery_proof_returns [OF assms] unfolding file_recovery_proof_def by blast
  have m: "is_mapping (proof_payload p)" if "r = Some p" for p
  proof -
    have "file_recovery_proof context = Inr (Some p)" using r that by simp
    then show ?thesis unfolding file_recovery_proof_def
      by (cases rule: file_recovery_proof_ok)
        (auto simp: restore_proof_def noop_proof_def manual_proof_def)
  qed
  show ?thesis
    unfolding r sum.case none [symmetric]
    using m by (cases r)
      (auto simp: file_recovery_action_plans_def file_rollback_manual_intervention_payload_def
        automatic_file_rollback_supported_def mapping_payload_copy_def r split: proof_kind.splits)
qed

theorem file_recovery_decided_witness:
  "file_recovery_action_plans (demo_context demo_checkpoints demo_write_payload)
     \<noteq> Inr [] \<and> automatic_file_rollback_supported (demo_context demo_checkpoints demo_write_payload) = Inr True"
proof -
  let ?c = "demo_context demo_checkpoints demo_write_payload"
  have h: "hashable (jget (br_payload (rc_batch ?c)) ''operation'')"
    "\<forall>c \<in> set (rc_checkpoints ?c). plain_checkpoint c" "plain_failure (latest_failure_payload ?c)"
    by code_simp+
  have p: "file_recovery_proof ?c = Inr (Some (restore_proof (restore_backup_action_id ''file:/t/a'') ''file:/t/a''
      (path_of ''/t/a'') demo_backup_payload (demo_snapshot ''h1'')))"
    by code_simp
  show ?thesis
    using file_recovery_decided [OF h] unfolding p by (simp add: restore_proof_def)
qed

subsection \<open>Directories\<close>

definition demo_mkdir_payload :: json where
  "demo_mkdir_payload = JObj [(''operation'', JStr ''make_directory''),
     (''recursive_mkdir'', JObj [(''requested_resource_key'', JStr ''directory:/t/a/b/c''),
       (''plan_target'', JStr ''/t/a/b/c''), (''step_path'', JStr ''/t/a/b/c''), (''step_index'', JInt 3)])]"

definition demo_dir_identity :: "string \<Rightarrow> int \<Rightarrow> json" where
  "demo_dir_identity path n = JObj [(''path'', JStr path), (''resource_key'', JStr (''directory:'' @ path)),
     (''file_type'', JStr ''directory''), (''exists'', JBool True), (''device'', JInt 1), (''inode'', JInt n)]"

definition demo_step :: "string \<Rightarrow> int \<Rightarrow> json" where
  "demo_step path n = JObj [(''step_index'', JInt n), (''step_path'', JStr path),
     (''step_resource_key'', JStr (''directory:'' @ path)),
     (''ownership_class'', JStr ''created_by_transaction''),
     (''cleanup_policy'', JStr ''owned_empty_directory_safe_ish''),
     (''backend_guarantee'', JStr ''identity_conditional_remove''),
     (''created_directory_identity'', demo_dir_identity path n),
     (''journaled_creation_proof'', JObj [(''path'', JStr path), (''resource_key'', JStr (''directory:'' @ path)),
        (''operation_type'', JStr ''make_directory''), (''checkpoint_type'', JStr ''after''),
        (''batch_id'', JStr ''b0''), (''operation_id'', JStr path), (''checkpoint_id'', JStr path)])]"

definition demo_dir_operation :: "string \<Rightarrow> operation_record" where
  "demo_dir_operation path =
     \<lparr>operation_id = path, operation_batch_id = ''b0'', operation_sequence = 1,
      operation_type = ''make_directory'', operation_resource_key = Some (''directory:'' @ path),
      operation_payload = JObj [], operation_created_at = 0\<rparr>"

definition demo_dir_checkpoint :: "string \<Rightarrow> int \<Rightarrow> checkpoint_record" where
  "demo_dir_checkpoint path n =
     \<lparr>checkpoint_id = path, checkpoint_batch_id = ''b0'', checkpoint_sequence = 2,
      checkpoint_operation_id = Some path, checkpoint_resource_key = ''directory:'' @ path,
      checkpoint_type = ''after'', checkpoint_payload = demo_dir_identity path n, checkpoint_created_at = 0\<rparr>"

definition demo_mkdir_context :: recovery_context where
  "demo_mkdir_context = (demo_context [] demo_mkdir_payload)
     \<lparr>rc_recovery_records := [\<lparr>recovery_id = ''r'', recovery_batch_id = ''b1'', recovery_sequence = 3,
        recovery_phase = RECOVERY_DESIRED, recovery_reason = None,
        recovery_payload = JObj
          [(''recursive_mkdir'', JObj [(''step_path'', JStr ''/t/a/b/c''), (''step_index'', JInt 3)]),
           (''recursive_group'', JObj
             [(''prior_created_steps'', JArr [demo_step ''/t/a'' 1, demo_step ''/t/a/b'' 2])])],
        recovery_created_at = 0\<rparr>],
      rc_proof_contexts := [(''b0'',
        \<lparr>pc_batch = (rc_batch (demo_context [] demo_mkdir_payload))\<lparr>br_batch_id := ''b0''\<rparr>,
         pc_operations = [demo_dir_operation ''/t/a'', demo_dir_operation ''/t/a/b''],
         pc_checkpoints = [demo_dir_checkpoint ''/t/a'' 1, demo_dir_checkpoint ''/t/a/b'' 2]\<rparr>)]\<rparr>"

definition demo_mkdir_plans :: "action_plan list" where
  "demo_mkdir_plans = projr (recursive_mkdir_recovery_action_plans (=) demo_mkdir_context)"

text \<open>
  C21. Only what the transaction made is removed. Every planned removal names a directory for
  which the journal holds a \<open>make_directory\<close> operation and a checkpoint taken after it,
  in the batch or in a batch of the same owner and run; the checkpoint saw the directory at
  that path, and its device and inode are the ones that the removal has to find again. The
  removal asks for an identity-conditional remove, and the step that failed is left out
  unless the batch itself recorded that its directory was absent before.
\<close>

theorem mkdir_removals_only_created:
  assumes "recursive_mkdir_recovery_action_plans same_object context = Inr plans" and "p \<in> set plans"
    and "plan_action_type p = ''remove_created_directory''"
  shows "\<exists>path rkey. jget (plan_payload p) ''path'' = JStr (path_text path) \<and> path_wf path
    \<and> jget (plan_payload p) ''step_resource_key'' = JStr rkey
    \<and> jget (plan_payload p) ''backend_guarantee'' = JStr ''identity_conditional_remove''
    \<and> created_by_transaction context path rkey (jget (plan_payload p) ''created_directory_identity'')
    \<and> (direct_before_checkpoint context path rkey \<noteq> None
       \<or> Some path \<notin> failed_recursive_mkdir_step_path ` set_option (latest_recursive_mkdir_failure_payload context))"
proof -
  consider (own) "direct_recursive_mkdir_cleanup_plan context = Inr (Some p)"
    | (step) payload ordered cleanups where "latest_recursive_mkdir_failure_payload context = Some payload"
        "plan_cleanup_steps same_object context (failed_recursive_mkdir_step_path payload) ordered = Inr cleanups"
        "p \<in> set cleanups"
    using assms(1)
  proof (cases rule: recursive_mkdir_plans_ok)
    case (1 d)
    with assms(2) show ?thesis by (intro that(1)) (simp split: option.splits)
  next
    case (2 d payload steps ordered cleanups)
    have "p \<noteq> incomplete_recursive_mkdir_cleanup_proof_plan context payload n (length cleanups)" for n
      using assms(3) by (auto simp: incomplete_recursive_mkdir_cleanup_proof_plan_def Let_def)
    then have "d = Some p \<or> p \<in> set cleanups"
      using assms(2) 2(6) by (auto split: option.splits if_splits)
    with 2(1,2,5) show ?thesis using that by blast
  qed
  then show ?thesis
  proof cases
    case own
    then show ?thesis
    proof (cases rule: direct_plan_ok)
      case (1 path rkey index diagnostic operation creation)
      then show ?thesis
        by (intro exI [of _ path] exI [of _ rkey]) (simp add: direct_cleanup_plan_def)
    qed
  next
    case step
    have "plan_payload p \<in> set (List.map_filter (eligible_cleanup same_object context
        (failed_recursive_mkdir_step_path payload)) ordered)"
      using plan_cleanup_payloads [OF step(2)] step(3) by (metis image_eqI set_map)
    then obtain s where "eligible_cleanup same_object context (failed_recursive_mkdir_step_path payload) s
        = Some (plan_payload p)"
      by (auto simp: map_filter_def)
    then have s: "planned_recursive_mkdir_cleanup_payload same_object context s = Inr (Some (plan_payload p))"
      and other: "failed_recursive_mkdir_step_path payload \<noteq> Some (value_path (jget (plan_payload p) ''path''))"
      by (auto simp: eligible_cleanup_def split: sum.splits option.splits if_splits)
    from s show ?thesis
    proof (cases rule: planned_cleanup_ok)
      case (1 path rkey index)
      then show ?thesis
        using other step(1) by (intro exI [of _ path] exI [of _ rkey]) auto
    qed
  qed
qed

lemma demo_mkdir_plans_ok:
  "recursive_mkdir_recovery_action_plans (=) demo_mkdir_context = Inr demo_mkdir_plans"
  "map cleanup_index demo_mkdir_plans = [JInt 2, JInt 1]"
  "map (\<lambda>p. jget (plan_payload p) ''path'') demo_mkdir_plans = [JStr ''/t/a/b'', JStr ''/t/a'']"
  "map plan_action_type demo_mkdir_plans = [''remove_created_directory'', ''remove_created_directory'']"
proof -
  have "\<not> isl (recursive_mkdir_recovery_action_plans (=) demo_mkdir_context)" by code_simp
  then show "recursive_mkdir_recovery_action_plans (=) demo_mkdir_context = Inr demo_mkdir_plans"
    by (simp add: demo_mkdir_plans_def)
qed code_simp+

theorem mkdir_removals_only_created_witness:
  "\<exists>path rkey. jget (plan_payload (hd demo_mkdir_plans)) ''path'' = JStr (path_text path)
     \<and> created_by_transaction demo_mkdir_context path rkey
         (jget (plan_payload (hd demo_mkdir_plans)) ''created_directory_identity'')"
proof -
  have ne: "demo_mkdir_plans \<noteq> []" using demo_mkdir_plans_ok(4) by auto
  then have p: "hd demo_mkdir_plans \<in> set demo_mkdir_plans" by simp
  have type: "plan_action_type (hd demo_mkdir_plans) = ''remove_created_directory''"
    using demo_mkdir_plans_ok(4) hd_map [OF ne, of plan_action_type] by simp
  show ?thesis using mkdir_removals_only_created [OF demo_mkdir_plans_ok(1) p type] by blast
qed

text \<open>
  C22. Removal is ordered and all or nothing. When a recursive creation failed, the planned
  removals are those of all recorded steps that are proved and are not the failed step, each
  once, from the highest step index to the lowest, so a directory is removed before the one
  that holds it; the batch's own directory comes first. When fewer are proved than the failed
  step had before it, nothing is removed: the only plan is the manual intervention.
\<close>

theorem mkdir_removals_ordered_and_complete:
  assumes "recursive_mkdir_recovery_action_plans same_object context = Inr plans"
    and "latest_recursive_mkdir_failure_payload context = Some payload"
  shows "\<exists>steps direct. jget (jget payload ''recursive_group'') ''prior_created_steps'' = JArr steps
    \<and> direct_recursive_mkdir_cleanup_plan context = Inr direct
    \<and> (let eligible = List.map_filter (eligible_cleanup same_object context
                         (failed_recursive_mkdir_step_path payload)) (filter is_mapping steps)
       in if \<exists>n. expected_prior_created_step_count payload = Some n \<and> int (length eligible) < n
          then \<exists>manual. plans = [manual] \<and> plan_action_type manual = ''manual_intervention_required''
          else \<exists>cleanups ns. plans = (case direct of None \<Rightarrow> [] | Some d \<Rightarrow> [d]) @ cleanups
            \<and> mset (map plan_payload cleanups) = mset eligible
            \<and> map cleanup_index cleanups = map JInt ns \<and> sorted_wrt (\<ge>) ns)"
  using assms(1)
proof (cases rule: recursive_mkdir_plans_ok)
  case (1 d)
  with assms(2) show ?thesis by simp
next
  case (2 d payload' steps ordered cleanups)
  let ?failed = "failed_recursive_mkdir_step_path payload"
  let ?expected = "expected_prior_created_step_count payload"
  let ?eligible = "List.map_filter (eligible_cleanup same_object context ?failed) (filter is_mapping steps)"
  have p: "payload' = payload" using assms(2) 2(2) by simp
  note cleanups = 2(5) [unfolded p]
  have payloads: "mset (map plan_payload cleanups) = mset ?eligible"
    using plan_cleanup_payloads [OF cleanups] mset_map_filter [OF ordered_steps_ok(1) [OF 2(4)]] by simp
  then have len: "length cleanups = length ?eligible" by (metis length_map size_mset)
  obtain ns where ns: "map cleanup_index cleanups = map JInt ns" "sorted_wrt (\<ge>) ns"
    using plan_cleanup_sorted [OF cleanups ordered_steps_ok(2) [OF 2(4)]] by blast
  note plans = 2(6) [unfolded p]
  have "if \<exists>n. ?expected = Some n \<and> int (length ?eligible) < n
        then \<exists>manual. plans = [manual] \<and> plan_action_type manual = ''manual_intervention_required''
        else plans = (case d of None \<Rightarrow> [] | Some d \<Rightarrow> [d]) @ cleanups"
    by (auto simp: plans len incomplete_recursive_mkdir_cleanup_proof_plan_def Let_def split: option.splits)
  then show ?thesis
    using 2(1) 2(3) [unfolded p] payloads ns unfolding Let_def by (smt (verit))
qed

theorem mkdir_removals_ordered_and_complete_witness:
  "(\<exists>payload steps. jget (jget payload ''recursive_group'') ''prior_created_steps'' = JArr steps
      \<and> length demo_mkdir_plans = length steps)
   \<and> map cleanup_index demo_mkdir_plans = [JInt 2, JInt 1]"
proof -
  let ?payload = "recovery_payload (hd (rc_recovery_records demo_mkdir_context))"
  have "latest_recursive_mkdir_failure_payload demo_mkdir_context = Some ?payload" by code_simp
  note ok = mkdir_removals_ordered_and_complete [OF demo_mkdir_plans_ok(1) this]
  have "length demo_mkdir_plans = 2" by code_simp
  moreover have "jget (jget ?payload ''recursive_group'') ''prior_created_steps''
      = JArr [demo_step ''/t/a'' 1, demo_step ''/t/a/b'' 2]"
    by code_simp
  ultimately show ?thesis using ok demo_mkdir_plans_ok(2)
    by (intro conjI exI [of _ ?payload] exI [of _ "[demo_step ''/t/a'' 1, demo_step ''/t/a/b'' 2]"]) simp_all
qed

end
