(* ===== verification/Runner_Properties.thy ===== *)
theory Runner_Properties
  imports Runner_Steps Planning_Properties Journal_Demo
begin

section \<open>What the recovery runner promises\<close>

text \<open>
  Properties of \<open>recover_batch\<close> and \<open>run_recovery_actions\<close> over every behaviour of the other
  processes, of the callback and of the handlers. \<open>yields\<close> is a partial correctness triple for
  programs started in a well-formed database; its rules follow the structure of the runner.
\<close>

subsection \<open>Results of programs\<close>

definition yields ::
  "(journal_db \<Rightarrow> bool) \<Rightarrow> ('w, 'a) program \<Rightarrow> ('a \<Rightarrow> journal_db \<Rightarrow> bool) \<Rightarrow> bool" where
  "yields P m Q \<longleftrightarrow> (\<forall>s x s'. journal_wf (run_db s) \<longrightarrow> P (run_db s) \<longrightarrow> m s = (Inr x, s') \<longrightarrow> Q x (run_db s'))"

lemma yields_bind:
  assumes "keeps (journal_run H loads F) m" and "yields P m Q" and "\<And>x. yields (Q x) (f x) R"
  shows "yields P (bind m f) R"
  unfolding yields_def
proof (intro allI impI)
  fix s s'' :: "'a run_state" and y
  assume wf: "journal_wf (run_db s)" and p: "P (run_db s)" and run: "bind m f s = (Inr y, s'')"
  obtain x s' where m: "m s = (Inr x, s')" and f: "f x s' = (Inr y, s'')" using run by (auto simp: bind_Inr)
  have "(journal_step H loads F)\<^sup>*\<^sup>* (run_db s) (run_db s')"
    using assms(1) m unfolding keeps_def journal_run_def by (metis snd_conv)
  then have "journal_wf (run_db s')" using wf by (rule history_wf)
  then show "R y (run_db s'')" using assms(2,3) wf p m f unfolding yields_def by blast
qed

lemma yields_after:
  "keeps (journal_run H loads F) m \<Longrightarrow> (\<And>x. yields (\<lambda>_. True) (f x) R) \<Longrightarrow> yields P (bind m f) R"
  by (rule yields_bind [where Q = "\<lambda>_ _. True"]) (simp_all add: yields_def)

lemma yields_ret: "(\<And>db. P db \<Longrightarrow> Q x db) \<Longrightarrow> yields P (ret x) Q"
  by (simp add: yields_def)

lemma yields_raise: "yields P (raise e) Q"
  by (simp add: yields_def)

lemma yields_if: "(b \<Longrightarrow> yields P m Q) \<Longrightarrow> (\<not> b \<Longrightarrow> yields P m' Q) \<Longrightarrow> yields P (if b then m else m') Q"
  by simp

lemma yields_attempt:
  assumes "keeps (journal_run H loads F) m" and "yields P m Q"
    and "\<And>e p. h e = Some p \<Longrightarrow> yields (\<lambda>_. True) p Q"
  shows "yields P (attempt m h) Q"
  unfolding yields_def
proof (intro allI impI)
  fix s s'' :: "'a run_state" and y
  assume wf: "journal_wf (run_db s)" and p: "P (run_db s)" and run: "attempt m h s = (Inr y, s'')"
  obtain q s' where m: "m s = (q, s')" by fastforce
  have "(journal_step H loads F)\<^sup>*\<^sup>* (run_db s) (run_db s')"
    using assms(1) m unfolding keeps_def journal_run_def by (metis snd_conv)
  then have "journal_wf (run_db s')" using wf by (rule history_wf)
  then show "Q y (run_db s'')"
    using assms(2,3) wf p m run unfolding yields_def attempt_def by (cases q) (auto split: option.splits)
qed

definition completed :: "string \<Rightarrow> action_status set \<Rightarrow> recovery_action_record \<Rightarrow> journal_db \<Rightarrow> bool" where
  "completed aid statuses r db \<longleftrightarrow>
     r \<in> set (recovery_action_table db) \<and> action_id r = aid \<and> action_status r \<in> statuses"

lemma mark_action_yields:
  assumes "lawful H loads F S" and "status \<noteq> ACTION_PLANNED" and "status \<in> statuses"
  shows "yields P (mark_action H S status a aid reason payload now) (completed aid statuses)"
  unfolding yields_def completed_def
proof (intro allI impI)
  fix s s' :: "'a run_state" and r
  assume "journal_wf (run_db s)" and "mark_action H S status a aid reason payload now s = (Inr r, s')"
  from mark_action_recorded [OF assms(1) this(1) assms(2) this(2)] assms(3)
  show "r \<in> set (recovery_action_table (run_db s')) \<and> action_id r = aid \<and> action_status r \<in> statuses"
    by simp
qed

lemma handler_failure_yields:
  assumes "lawful H loads F S" and "handler_failure H S a current source e = Some p"
  shows "yields P p (\<lambda>outcome db. case outcome of
      Inl r \<Rightarrow> completed (action_id current) {ACTION_SUCCEEDED, ACTION_SKIPPED} r db | Inr _ \<Rightarrow> True)"
proof -
  have mark: "yields P (bind (operation_time S) (\<lambda>now. bind (mark_action H S ACTION_SKIPPED a (action_id current) reason payload now)
      (\<lambda>r. ret (Inl r)))) (\<lambda>outcome db. case outcome of
        Inl r \<Rightarrow> completed (action_id current) {ACTION_SUCCEEDED, ACTION_SKIPPED} r db | Inr _ \<Rightarrow> True)" for reason payload
    by (rule yields_after [OF jr.keeps_time(1)], rule yields_bind [OF jr_mark_action [OF assms(1)]
          mark_action_yields [OF assms(1), where statuses = "{ACTION_SUCCEEDED, ACTION_SKIPPED}"]])
      (auto intro: yields_ret)
  have fail: "yields P (bind (operation_time S) (\<lambda>now. bind (mark_action H S status a (action_id current) reason payload now)
      (\<lambda>_. recovery_failed))) Q" if "status \<noteq> ACTION_PLANNED" for status reason payload Q
    unfolding recovery_failed_def
    by (rule yields_after [OF jr.keeps_time(1)], rule yields_after [OF jr_mark_action [OF assms(1) that]])
      (rule yields_raise)
  have stop: "yields P recovery_failed Q" for Q
    unfolding recovery_failed_def by (rule yields_raise)
  show ?thesis
    using assms(2) unfolding handler_failure_def
    by (cases e) (auto intro: mark fail stop split: if_splits)
qed

lemma run_handler_yields:
  assumes "lawful H loads F S" and "keeps (journal_run H loads F) (handler a c source)"
  shows "yields P (run_handler H S a c current source handler)
    (completed (action_id current) {ACTION_SUCCEEDED, ACTION_SKIPPED})"
proof -
  let ?Q = "\<lambda>outcome db. case outcome of
      Inl r \<Rightarrow> completed (action_id current) {ACTION_SUCCEEDED, ACTION_SKIPPED} r db | Inr _ \<Rightarrow> True"
  let ?body = "bind (operation_time S) (\<lambda>now.
        bind (run_with_active_attempt S a now
          (run_with_lease_heartbeat S (auth_lease a)
            (run_authorized_recovery_handler S (Some a) c current (handler a c source))))
        (\<lambda>result. ret (Inr result)))"
  have "keeps (journal_run H loads F) (run_with_lease_heartbeat S (auth_lease a)
      (run_authorized_recovery_handler S (Some a) c current (handler a c source)))"
    unfolding run_with_lease_heartbeat_def run_authorized_recovery_handler_def
    by (intro jr.keeps_rules jr_maintain jr_action_authority assms)
  then have body: "keeps (journal_run H loads F) ?body"
    unfolding run_with_active_attempt_def by (intro jr.keeps_rules jr_read [OF assms(1)]) assumption
  have att: "keeps (journal_run H loads F) (attempt ?body (handler_failure H S a current source))"
    by (rule jr.keeps_attempt [OF body]) (rule jr_handler_failure [OF assms(1)])
  have "yields P ?body ?Q"
    by (auto simp: yields_def bind_Inr)
  then have q: "yields P (attempt ?body (handler_failure H S a current source)) ?Q"
    by (rule yields_attempt [OF body]) (rule handler_failure_yields [OF assms(1)])
  show ?thesis
    unfolding run_handler_def
  proof (rule yields_bind [OF att q])
    fix outcome :: "recovery_action_record + string"
    have mark: "yields (\<lambda>_. True) (mark_action H S ACTION_SUCCEEDED a (action_id current) None payload now)
        (completed (action_id current) {ACTION_SUCCEEDED, ACTION_SKIPPED})" for payload now
      by (rule mark_action_yields [OF assms(1)]) simp_all
    show "yields (?Q outcome) (case outcome of Inl skipped \<Rightarrow> ret skipped
       | Inr result_type \<Rightarrow> bind (operation_time S) (\<lambda>now.
           bind (read S (\<lambda>db. require_current_lease db (auth_lease a) now)) (\<lambda>_.
           mark_action H S ACTION_SUCCEEDED a (action_id current) None
             (recovery_action_status_payload S source ''succeeded'' None (Some result_type) None) now)))
       (completed (action_id current) {ACTION_SUCCEEDED, ACTION_SKIPPED})"
      by (cases outcome)
        (auto intro: yields_ret yields_after [OF jr.keeps_time(1)] yields_after [OF jr_read [OF assms(1)]] mark)
  qed
qed

lemma completed_mono: "completed aid A r db \<Longrightarrow> A \<subseteq> B \<Longrightarrow> completed aid B r db"
  by (auto simp: completed_def)

lemma yields_mono: "yields P m Q \<Longrightarrow> (\<And>x db. Q x db \<Longrightarrow> Q' x db) \<Longrightarrow> yields P m Q'"
  unfolding yields_def by blast

lemma yields_weaken: "yields P m Q \<Longrightarrow> (\<And>db. P' db \<Longrightarrow> P db) \<Longrightarrow> yields P' m Q"
  unfolding yields_def by blast

lemma run_action_yields:
  assumes "lawful H loads F S"
    and "\<And>type h b c act. hd_handlers D type = Some h \<Longrightarrow> keeps (journal_run H loads F) (h b c act)"
  shows "yields (\<lambda>db. action \<in> set (recovery_action_table db)) (run_recovery_action H S D a c action)
    (completed (action_id action) terminal_action_statuses)"
proof -
  have run: "yields P (run_handler H S a c current (recovery_action_payload_source c current) h)
      (completed (action_id current) terminal_action_statuses)" if "hd_handlers D type = Some h" for P type h current
    by (rule yields_mono [OF run_handler_yields [OF assms(1) assms(2) [OF that]]])
      (auto elim!: completed_mono simp: terminal_action_statuses_def)
  have stop: "yields P (bind (operation_time S) (\<lambda>now. bind (mark_action H S ACTION_MANUAL_INTERVENTION_REQUIRED a aid
      reason payload now) (\<lambda>_. recovery_failed))) Q" for P aid reason payload Q
    unfolding recovery_failed_def
    by (rule yields_after [OF jr.keeps_time(1)], rule yields_after [OF jr_mark_action [OF assms(1)]])
      (simp_all add: yields_raise)
  have mark: "yields P (if action_status action = ACTION_PLANNED
      then mark_action H S ACTION_ATTEMPTING a (action_id action) None payload now else ret action)
      (\<lambda>r db. action_id r = action_id action)" for P payload now
    by (intro yields_if yields_ret yields_mono [OF mark_action_yields [OF assms(1), where statuses = UNIV]])
      (simp_all add: completed_def)
  have keeps: "keeps (journal_run H loads F) (if action_status action = ACTION_PLANNED
      then mark_action H S ACTION_ATTEMPTING a (action_id action) None payload now else ret action)" for payload now
    by (intro jr.keeps_rules jr_mark_action assms(1)) simp
  have rest: "yields (\<lambda>_. action_id current = action_id action)
     (let source = recovery_action_payload_source c current;
          stop = (\<lambda>reason payload. bind (operation_time S) (\<lambda>now.
            bind (mark_action H S ACTION_MANUAL_INTERVENTION_REQUIRED a (action_id current) (Some reason) payload now) (\<lambda>_.
            recovery_failed)))
      in if action_type current = ''manual_intervention_required'' then
           (let reason = manual_intervention_action_reason source
            in bind (lift (jsonable_mapping (action_payload source))) (\<lambda>m.
               stop reason (JObj (assoc_set ''manual_intervention'' m
                 (status_entries S source ''manual_intervention_required'' (Some reason) None None)))))
         else case hd_handlers D (action_type current) of
           None \<Rightarrow>
             (let reason = ''no built-in recovery handler for '' @ repr_text (action_type current)
              in stop reason (recovery_action_status_payload S source ''manual_intervention_required''
                                (Some reason) None None))
         | Some handler \<Rightarrow> run_handler H S a c current source handler)
     (completed (action_id action) terminal_action_statuses)" for current
  proof (cases "action_id current = action_id action")
    case True
    then show ?thesis
      using run [of "action_type current" _ _ current] unfolding Let_def
      by (auto intro: yields_after [OF jr.keeps_lift] stop split: option.split)
  qed (simp add: yields_def)
  show ?thesis
    unfolding run_recovery_action_def
    by (intro yields_if yields_raise yields_after [OF jr.keeps_time(1)] yields_after [OF jr_read [OF assms(1)]]
        yields_bind [OF keeps mark rest] yields_ret) (simp add: completed_def)
qed

text \<open>Records stay in the table, so what is known of them survives any program.\<close>

lemma keeps_actions:
  assumes "keeps (journal_run H loads F) m" and "journal_wf (run_db s)" and "m s = (q, s')"
  shows "set (recovery_action_table (run_db s)) \<subseteq> set (recovery_action_table (run_db s'))" "journal_wf (run_db s')"
proof -
  have steps: "(journal_step H loads F)\<^sup>*\<^sup>* (run_db s) (run_db s')"
    using assms(1,3) unfolding keeps_def journal_run_def by (metis snd_conv)
  show "journal_wf (run_db s')" by (rule history_wf [OF steps assms(2)])
  show "set (recovery_action_table (run_db s)) \<subseteq> set (recovery_action_table (run_db s'))"
    using history_logs [OF steps assms(2)] by (simp add: logs_extend_def set_mono_prefix)
qed

lemma each_yields:
  assumes "\<And>x. keeps (journal_run H loads F) (f x)"
    and "\<And>x. x \<in> set xs \<Longrightarrow> yields (\<lambda>db. x \<in> set (recovery_action_table db)) (f x) (completed (action_id x) statuses)"
  shows "yields (\<lambda>db. set xs \<subseteq> set (recovery_action_table db)) (each f xs)
    (\<lambda>ys db. list_all2 (\<lambda>x y. completed (action_id x) statuses y db) xs ys)"
  using assms(2)
proof (induction xs)
  case Nil
  show ?case unfolding each.simps by (rule yields_ret) simp
next
  case (Cons x xs)
  show ?case
    unfolding yields_def
  proof (intro allI impI)
    fix s s'' :: "'a run_state" and ys
    assume wf: "journal_wf (run_db s)" and sub: "set (x # xs) \<subseteq> set (recovery_action_table (run_db s))"
      and run: "each f (x # xs) s = (Inr ys, s'')"
    obtain y s' zs where y: "f x s = (Inr y, s')" and zs: "each f xs s' = (Inr zs, s'')" and ys: "ys = y # zs"
      using run by (auto simp: bind_Inr)
    note k = keeps_actions [OF assms(1) wf y]
    have "list_all2 (\<lambda>x y. completed (action_id x) statuses y (run_db s'')) xs zs"
      using Cons.IH Cons.prems k sub zs unfolding yields_def by (meson list.set_intros(2) set_subset_Cons subset_trans)
    moreover have "completed (action_id x) statuses y (run_db s')"
      using Cons.prems [of x] wf sub y unfolding yields_def by auto
    moreover have "keeps (journal_run H loads F) (each f xs)" by (rule jr.keeps_each) (rule assms(1))
    note keeps_actions(1) [OF this k(2) zs]
    ultimately show "list_all2 (\<lambda>x y. completed (action_id x) statuses y (run_db s'')) (x # xs) ys"
      by (auto simp: ys completed_def)
  qed
qed

subsection \<open>The latest record of each action\<close>

lemma latest_fold:
  "foldl latest_step (Map.empty, []) xs
    = ((\<lambda>i. last_of (\<lambda>a. action_id a = i) xs), rev (remdups (rev (map action_id xs))))"
proof (induction xs rule: rev_induct)
  case Nil
  then show ?case by (auto simp: last_of_def)
next
  case (snoc x xs)
  have none: "last_of (\<lambda>a. action_id a = action_id x) xs = None \<longleftrightarrow> action_id x \<notin> action_id ` set xs"
    by (force simp: last_of_None image_iff)
  have "foldl latest_step (Map.empty, []) (xs @ [x])
      = latest_step ((\<lambda>i. last_of (\<lambda>a. action_id a = i) xs), rev (remdups (rev (map action_id xs)))) x"
    by (simp only: foldl_append foldl.simps snoc.IH)
  also have "\<dots> = ((\<lambda>i. last_of (\<lambda>a. action_id a = i) (xs @ [x])), rev (remdups (rev (map action_id (xs @ [x])))))"
    by (auto simp: latest_step_def none fun_eq_iff)
  finally show ?case .
qed

text \<open>
  The loop of \<open>_latest_current_attempt_recovery_actions\<close> is the query it stands for: of the
  actions of the current attempt, in the order of their first records, the last record of each.
\<close>

theorem latest_actions_are_the_last_records:
  "latest_current_attempt_recovery_actions context =
     (case recovery_attempt_id context of
        None \<Rightarrow> []
      | Some attempt_id \<Rightarrow>
          let actions = filter (\<lambda>a. action_recovery_attempt_id a = attempt_id) (rc_recovery_actions context)
          in map (\<lambda>i. the (last_of (\<lambda>a. action_id a = i) actions))
               (rev (remdups (rev (map action_id actions)))))"
  by (simp add: latest_current_attempt_recovery_actions_def latest_fold Let_def split: option.split)

lemma latest_actions_members:
  "set (latest_current_attempt_recovery_actions c) \<subseteq> set (rc_recovery_actions c)"
  "distinct (map action_id (latest_current_attempt_recovery_actions c))"
proof -
  have last: "last_of (\<lambda>a. action_id a = i) xs = Some (the (last_of (\<lambda>a. action_id a = i) xs))"
    if "i \<in> action_id ` set xs" for i and xs :: "recovery_action_record list"
    using that last_of_None [of "\<lambda>a. action_id a = i" xs] by fastforce
  have l: "the (last_of (\<lambda>a. action_id a = i) xs) \<in> set xs \<and> action_id (the (last_of (\<lambda>a. action_id a = i) xs)) = i"
    if "i \<in> action_id ` set xs" for i and xs :: "recovery_action_record list"
    using last_of_Some [OF last [OF that]] by simp
  show "set (latest_current_attempt_recovery_actions c) \<subseteq> set (rc_recovery_actions c)"
  proof (cases "recovery_attempt_id c")
    case (Some t)
    let ?xs = "filter (\<lambda>a. action_recovery_attempt_id a = t) (rc_recovery_actions c)"
    have "x \<in> set ?xs" if "x \<in> set (latest_current_attempt_recovery_actions c)" for x
      using that l [of _ ?xs] unfolding latest_current_attempt_recovery_actions_def Some latest_fold Let_def by force
    then show ?thesis by auto
  qed (simp add: latest_current_attempt_recovery_actions_def)
  have "map action_id (map (\<lambda>i. the (last_of (\<lambda>a. action_id a = i) xs)) is) = is"
    if "set is \<subseteq> action_id ` set xs" for "is" and xs :: "recovery_action_record list"
    unfolding map_map by (rule map_idI) (use that l in auto)
  then show "distinct (map action_id (latest_current_attempt_recovery_actions c))"
    by (auto simp: latest_current_attempt_recovery_actions_def latest_fold Let_def simp del: map_map split: option.split)
qed

subsection \<open>A run on the demo database\<close>

text \<open>Nobody else is at work, the clock stands at 8 and \<open>uuid4\<close> draws an id longer than all others.\<close>

definition demo_surroundings :: surroundings where
  "demo_surroundings =
     \<lparr>set_now = Some 8, set_clock = (\<lambda>_. 8),
      set_ids = (\<lambda>n k db. CHR ''i'' # concat (map action_id (recovery_action_table db)) @ nat_text n @ nat_text k),
      set_others = (\<lambda>_ db. db), set_heartbeats = False, set_thread_error = (\<lambda>_. None),
      set_describe = (\<lambda>_. (''Error'', ''error'', None))\<rparr>"

lemma member_concat_length: "x \<in> set xs \<Longrightarrow> length (f x) \<le> length (concat (map f xs))"
  by (induction xs) auto

lemma demo_lawful: "lawful rev loads F demo_surroundings"
proof -
  have "CHR ''i'' # concat (map action_id t) @ u \<notin> action_id ` set t" for t :: "recovery_action_record list" and u
  proof
    assume "CHR ''i'' # concat (map action_id t) @ u \<in> action_id ` set t"
    then obtain r where r: "r \<in> set t" "action_id r = CHR ''i'' # concat (map action_id t) @ u" by force
    have "length (action_id r) \<le> length (concat (map action_id t))" by (rule member_concat_length [OF r(1)])
    then show False by (simp add: r(2))
  qed
  then show ?thesis by (simp add: lawful_def demo_surroundings_def)
qed

text \<open>The world counts the restores; the one handler restores and reports a snapshot.\<close>

definition demo_handling :: "nat handling" where
  "demo_handling =
     \<lparr>hd_handlers = (\<lambda>type. if type = ''restore''
        then Some (\<lambda>a c act s. (Inr ''ResourceSnapshot'', s\<lparr>run_world := Suc (run_world s)\<rparr>)) else None),
      hd_tree_plans = (\<lambda>_ _. Inr []), hd_captured_plans = (\<lambda>_ _. Inr []), hd_same_object = (=)\<rparr>"

definition demo_run_context :: recovery_context where
  "demo_run_context = projr (read_recovery_context py_str ''b1'' db_attempting)"

definition demo_run_state :: "nat run_state" where
  "demo_run_state = \<lparr>run_db = db_attempting, run_world = 0, run_tick = 0\<rparr>"

definition demo_run_result :: "(failure + recovery_action_record list) \<times> nat run_state" where
  "demo_run_result = run_recovery_actions rev demo_surroundings demo_handling demo_run_context w1 demo_run_state"

lemma demo_run_ok:
  "demo_run_result = (Inr (projr (fst demo_run_result)), snd demo_run_result)"
  "map action_status (projr (fst demo_run_result)) = [ACTION_SUCCEEDED]"
  "map action_id (projr (fst demo_run_result)) = [''a1'']"
  "run_world (snd demo_run_result) = 1"
proof -
  have "\<not> isl (fst demo_run_result)" by code_simp
  then show "demo_run_result = (Inr (projr (fst demo_run_result)), snd demo_run_result)"
    by (cases demo_run_result) (auto simp: isl_def split: sum.splits)
qed code_simp+

lemma demo_journal_wf: "journal_wf (run_db demo_run_state)"
  using demo_wfs by (simp add: demo_run_state_def)

lemma demo_handler_keeps:
  "hd_handlers demo_handling type = Some h \<Longrightarrow> keeps (journal_run H loads F) (h a c act)"
  by (auto simp: demo_handling_def keeps_def journal_run_def split: if_splits)

subsection \<open>The properties\<close>

lemma yields_frame:
  assumes "keeps (journal_run H loads F) m"
    and "\<And>x. yields (\<lambda>db. A \<subseteq> set (recovery_action_table db)) (f x) R"
  shows "yields (\<lambda>db. A \<subseteq> set (recovery_action_table db)) (bind m f) R"
  by (rule yields_bind [OF assms(1) _ assms(2)])
    (use keeps_actions(1) [OF assms(1)] in \<open>fastforce simp: yields_def\<close>)

lemma listed_yields:
  "yields P (with_listed_actions S a c) (\<lambda>p db. set (rc_recovery_actions p) \<subseteq> set (recovery_action_table db))"
  unfolding with_listed_actions_def yields_def
  by (auto simp: bind_Inr list_recovery_actions_def dest!: read_Inr)

lemma plan_actions_yields:
  assumes "lawful H loads F S"
  shows "yields (\<lambda>db. set (rc_recovery_actions c) \<subseteq> set (recovery_action_table db)) (plan_recovery_actions H S D a c)
    (\<lambda>p db. set (rc_recovery_actions p) \<subseteq> set (recovery_action_table db))"
proof -
  let ?P = "\<lambda>db. set (rc_recovery_actions c) \<subseteq> set (recovery_action_table db)"
  let ?Q = "\<lambda>p db. set (rc_recovery_actions p) \<subseteq> set (recovery_action_table db)"
  have r: "keeps (journal_run H loads F) (record_plan H S a plan)" for plan
    unfolding record_plan_def by (intro jr.keeps_rules jr_plan_action assms)
  have w: "keeps (journal_run H loads F) (with_world f)" for f :: "'a \<Rightarrow> failure + action_plan list"
    by (rule jr.keeps_unchanged) (simp add: with_world_def)
  have p: "keeps (journal_run H loads F) (all_action_plans D c)"
    unfolding all_action_plans_def by (intro jr.keeps_rules w)
  have new: "yields ?P (bind (all_action_plans D c) (\<lambda>plans.
      let new_plans = filter (\<lambda>p. plan_action_id p \<notin> A) plans
      in bind (each (record_plan H S a) new_plans) (\<lambda>_.
         if new_plans = [] then ret c else with_listed_actions S a c))) ?Q" for A
    unfolding Let_def
    by (intro yields_frame [OF p] yields_frame [OF jr.keeps_each [OF r]] yields_if yields_ret listed_yields)
  have stop: "yields P (bind m (\<lambda>_. recovery_failed)) Q" for P Q and m :: "('a, unit) program"
    by (auto simp: yields_def bind_Inr recovery_failed_def)
  show ?thesis
    unfolding plan_recovery_actions_def
    by (cases "recovery_attempt_id c")
      (auto simp: Let_def intro!: yields_ret yields_frame [OF jr.keeps_lift] new [unfolded Let_def] stop split: option.split)
qed

subsection \<open>Which actions a run takes\<close>

definition first_seen :: "'a list \<Rightarrow> 'a list" where
  "first_seen xs = rev (remdups (rev xs))"

lemma first_seen_simps [simp]: "set (first_seen xs) = set xs" "distinct (first_seen xs)"
  by (simp_all add: first_seen_def)

text \<open>The ids of the actions of an attempt, in the order of their first records.\<close>

definition attempt_actions :: "recovery_context \<Rightarrow> recovery_record \<Rightarrow> journal_db \<Rightarrow> string list" where
  "attempt_actions context started db = first_seen (map action_id
     (list_recovery_actions (br_batch_id (rc_batch context)) (Some (recovery_id started)) db))"

lemma set_listed_actions:
  "set (list_recovery_actions b (Some t) db)
    = {r \<in> set (recovery_action_table db). action_batch_id r = b \<and> action_recovery_attempt_id r = t}"
  by (auto simp: list_recovery_actions_def)

lemma latest_actions_ids:
  assumes "recovery_attempt_id c = Some t" and "\<And>r. r \<in> set (rc_recovery_actions c) \<Longrightarrow> action_recovery_attempt_id r = t"
  shows "map action_id (latest_current_attempt_recovery_actions c) = first_seen (map action_id (rc_recovery_actions c))"
proof -
  have all: "filter (\<lambda>r. action_recovery_attempt_id r = t) (rc_recovery_actions c) = rc_recovery_actions c"
    using assms(2) by (simp add: filter_id_conv)
  let ?last = "\<lambda>i. the (last_of (\<lambda>r. action_id r = i) (rc_recovery_actions c))"
  have "action_id (?last i) = i" if "i \<in> action_id ` set (rc_recovery_actions c)" for i
  proof -
    have "last_of (\<lambda>r. action_id r = i) (rc_recovery_actions c) \<noteq> None"
      using that by (auto simp: last_of_None)
    then obtain x where x: "last_of (\<lambda>r. action_id r = i) (rc_recovery_actions c) = Some x" by auto
    from last_of_Some [OF x] show ?thesis by (simp add: x)
  qed
  then have "map (\<lambda>i. action_id (?last i)) (first_seen (map action_id (rc_recovery_actions c)))
      = first_seen (map action_id (rc_recovery_actions c))"
    by (intro map_idI) simp
  then show ?thesis
    by (simp add: latest_actions_are_the_last_records assms(1) all Let_def first_seen_def comp_def)
qed

text \<open>A plan that was recorded is among the actions of the attempt from then on.\<close>

definition planned_in :: "authority \<Rightarrow> action_plan \<Rightarrow> journal_db \<Rightarrow> bool" where
  "planned_in a p db \<longleftrightarrow> plan_action_id p = [] \<or>
     plan_action_id p \<in> action_id ` set (list_recovery_actions (auth_batch a) (Some (auth_attempt a)) db)"

lemma plan_action_recorded:
  assumes "lawful H loads F S" and wf: "journal_wf (run_db s)" and run: "plan_action H S a p payload now s = (Inr r, s')"
  shows "planned_in a p (run_db s')"
proof -
  obtain db where db: "db = set_others S (run_tick s) (run_db s)"
    and call: "record_recovery_action_planned H (auth_batch a) (auth_lease a) (auth_attempt a) (plan_action_type p)
      (plan_resource_key p) (Some payload) (Some (plan_action_id p)) None
      (set_ids S (run_tick s) 0 db) (set_ids S (run_tick s) 1 db) (set_ids S (run_tick s) 2 db) now db = Inr (run_db s', r)"
    using run unfolding plan_action_def by (rule transact_Inr)
  have "journal_wf db" using history_wf [OF lawful_others [OF assms(1)] wf] db by simp
  note base = journal_wf_parts(1) [OF this]
  have "record_recovery_action H (auth_batch a) (auth_lease a) (auth_attempt a) ACTION_PLANNED (Some (plan_action_type p))
      (plan_resource_key p) None (Some payload) (Some (plan_action_id p)) None
      (set_ids S (run_tick s) 0 db) (set_ids S (run_tick s) 1 db) (set_ids S (run_tick s) 2 db) now db = Inr (run_db s', r)"
    using call unfolding record_recovery_action_planned_def res_bind_Inr by blast
  with base show ?thesis
  proof (cases rule: record_recovery_action_ok)
    case (1 row x t existing)
    have "existing = None" using 1(10) by (auto simp: prepare_recovery_action_write_def split: if_splits)
    then have "plan_action_id p = [] \<or> action_id r = plan_action_id p" using 1 by (auto simp: str_or_def)
    moreover have "r \<in> set (recovery_action_table (run_db s'))" using 1(12) actions.insert_Some(1) [OF 1(11)] by simp
    ultimately show ?thesis using 1(13,15) by (force simp: planned_in_def set_listed_actions)
  qed
qed

lemma record_plan_yields:
  assumes "lawful H loads F S"
  shows "yields P (record_plan H S a p) (\<lambda>_. planned_in a p)"
proof -
  have "yields Q (plan_action H S a p payload now) (\<lambda>_. planned_in a p)" for Q payload now
    unfolding yields_def using plan_action_recorded [OF assms] by blast
  then show ?thesis
    unfolding record_plan_def by (intro yields_after [OF jr.keeps_lift] yields_after [OF jr.keeps_time(1)])
qed

lemma planned_in_later:
  assumes "keeps (journal_run H loads F) m" and "journal_wf (run_db s)" and "m s = (q, s')" and "planned_in a p (run_db s)"
  shows "planned_in a p (run_db s')"
  using keeps_actions(1) [OF assms(1-3)] assms(4) by (auto simp: planned_in_def set_listed_actions)

lemma jr_record_plan: "lawful H loads F S \<Longrightarrow> keeps (journal_run H loads F) (record_plan H S a p)"
  unfolding record_plan_def by (intro jr.keeps_rules jr_plan_action)

lemma each_plans_yields:
  assumes "lawful H loads F S"
  shows "yields P (each (record_plan H S a) ps) (\<lambda>_ db. \<forall>p \<in> set ps. planned_in a p db)"
proof (induction ps arbitrary: P)
  case Nil
  show ?case unfolding each.simps by (rule yields_ret) simp
next
  case (Cons p ps)
  show ?case
    unfolding yields_def
  proof (intro allI impI)
    fix s s'' :: "'a run_state" and ys
    assume wf: "journal_wf (run_db s)" and run: "each (record_plan H S a) (p # ps) s = (Inr ys, s'')"
    obtain y s' zs where y: "record_plan H S a p s = (Inr y, s')" and zs: "each (record_plan H S a) ps s' = (Inr zs, s'')"
      using run by (auto simp: bind_Inr)
    note k = keeps_actions [OF jr_record_plan [OF assms] wf y]
    have "planned_in a p (run_db s')"
      using record_plan_yields [OF assms, of "\<lambda>_. True"] wf y unfolding yields_def by blast
    then have "planned_in a p (run_db s'')" by (rule planned_in_later [OF jr.keeps_each [OF jr_record_plan [OF assms]] k(2) zs])
    moreover have "\<forall>p \<in> set ps. planned_in a p (run_db s'')"
      using Cons.IH [of "\<lambda>_. True", unfolded yields_def] k(2) zs by simp
    ultimately show "\<forall>q \<in> set (p # ps). planned_in a q (run_db s'')" by simp
  qed
qed

lemma listed_actions:
  assumes "lawful H loads F S" and "with_listed_actions S a c s = (Inr p, s')"
  shows "p = c\<lparr>rc_recovery_actions := list_recovery_actions (auth_batch a) (Some (auth_attempt a)) (run_db s')\<rparr>"
    "(journal_step H loads F)\<^sup>*\<^sup>* (run_db s) (run_db s')"
  using assms(2) read_others [OF assms(1)] unfolding with_listed_actions_def
  by (auto simp: bind_Inr dest: read_Inr)

lemma runs: "keeps (journal_run H loads F) m \<Longrightarrow> m s = (q, s') \<Longrightarrow> (journal_step H loads F)\<^sup>*\<^sup>* (run_db s) (run_db s')"
  unfolding keeps_def journal_run_def by (metis snd_conv)

text \<open>The context that the planning returns lists every action that is planned at that moment.\<close>

lemma planning_complete:
  fixes s :: "'w run_state"
  assumes lawful: "lawful H loads F S" and wf: "journal_wf (run_db s)" and i: "recovery_attempt_id c = Some (auth_attempt a)"
    and c: "rc_recovery_actions c = list_recovery_actions (auth_batch a) (Some (auth_attempt a)) (run_db s)"
    and run: "plan_recovery_actions H S D a c s = (Inr p, s')"
  shows "\<exists>plans s1 db. all_action_plans D c s = (Inr plans, s1)
    \<and> (journal_step H loads F)\<^sup>*\<^sup>* (run_db s) db \<and> (journal_step H loads F)\<^sup>*\<^sup>* db (run_db s')
    \<and> p = c\<lparr>rc_recovery_actions := list_recovery_actions (auth_batch a) (Some (auth_attempt a)) db\<rparr>
    \<and> (\<forall>q \<in> set plans. planned_in a q db)"
proof -
  let ?new = "filter (\<lambda>q. plan_action_id q \<notin> set (map action_id (rc_recovery_actions c)))"
  have existing: "filter (\<lambda>r. action_recovery_attempt_id r = auth_attempt a) (rc_recovery_actions c) = rc_recovery_actions c"
    by (auto simp: c list_recovery_actions_def filter_id_conv)
  have w: "keeps (journal_run H loads F) (with_world f)" for f :: "'w \<Rightarrow> failure + action_plan list"
    by (rule jr.keeps_unchanged) (simp add: with_world_def)
  have plan: "keeps (journal_run H loads F) (all_action_plans D c)"
    unfolding all_action_plans_def by (intro jr.keeps_rules w)
  obtain plans s1 s2 u where plans: "all_action_plans D c s = (Inr plans, s1)"
    and each: "each (record_plan H S a) (?new plans) s1 = (Inr u, s2)"
    and rest: "(if ?new plans = [] then ret c else with_listed_actions S a c) s2 = (Inr p, s')"
    using run unfolding plan_recovery_actions_def i option.case existing Let_def
    by (auto simp: bind_Inr lift_def recovery_failed_def split: sum.splits option.splits prod.splits)
  note k1 = keeps_actions [OF plan wf plans]
  note k2 = keeps_actions [OF jr.keeps_each [OF jr_record_plan [OF lawful]] k1(2) each]
  have old: "planned_in a q (run_db s)" if "q \<in> set plans" "q \<notin> set (?new plans)" for q
    using that by (auto simp: planned_in_def c)
  show ?thesis
  proof (cases "?new plans = []")
    case True
    then have "p = c" "s' = s2" using rest by auto
    moreover have "planned_in a q (run_db s)" if "q \<in> set plans" for q by (rule old [OF that]) (simp only: True list.set, simp)
    ultimately show ?thesis
      using plans runs [OF plan plans] runs [OF jr.keeps_each [OF jr_record_plan [OF lawful]] each] c
      by (intro exI [of _ plans] exI [of _ s1] exI [of _ "run_db s"]) auto
  next
    case False
    then have listed: "with_listed_actions S a c s2 = (Inr p, s')" using rest by simp
    have l: "keeps (journal_run H loads F) (with_listed_actions S a c)"
      unfolding with_listed_actions_def by (intro jr.keeps_rules jr_read lawful)
    have "planned_in a q (run_db s')" if "q \<in> set plans" for q
    proof -
      have "planned_in a q (run_db s2)"
      proof (cases "q \<in> set (?new plans)")
        case True
        then show ?thesis
          using each_plans_yields [OF lawful, of "\<lambda>_. True" a "?new plans", unfolded yields_def] k1(2) each by blast
      next
        case False
        show ?thesis
          by (rule planned_in_later [OF jr.keeps_each [OF jr_record_plan [OF lawful]] k1(2) each])
            (rule planned_in_later [OF plan wf plans old [OF that False]])
      qed
      then show ?thesis by (rule planned_in_later [OF l k2(2) listed])
    qed
    then show ?thesis
      using plans runs [OF plan plans] runs [OF jr.keeps_each [OF jr_record_plan [OF lawful]] each] listed_actions [OF lawful listed]
      by (intro exI [of _ plans] exI [of _ s1] exI [of _ "run_db s'"]) auto
  qed
qed

lemma actions_completed:
  assumes "lawful H loads F S"
    and "\<forall>type h a c act. hd_handlers D type = Some h \<longrightarrow> keeps (journal_run H loads F) (h a c act)"
  shows "yields (\<lambda>db. set (rc_recovery_actions p) \<subseteq> set (recovery_action_table db))
      (each (\<lambda>action. bind (require_current S a) (\<lambda>_. run_recovery_action H S D a p action))
        (latest_current_attempt_recovery_actions p))
      (\<lambda>rs db. map action_id rs = map action_id (latest_current_attempt_recovery_actions p)
        \<and> (\<forall>r \<in> set rs. r \<in> set (recovery_action_table db) \<and> action_status r \<in> terminal_action_statuses))"
    and "keeps (journal_run H loads F) (bind (require_current S a) (\<lambda>_. run_recovery_action H S D a p action))"
proof -
  have act: "keeps (journal_run H loads F) (bind (require_current S a) (\<lambda>_. run_recovery_action H S D a p action))"
    for action
    by (intro jr.keeps_rules jr_require_current jr_run_action assms(1)) (use assms(2) in blast)
  then show "keeps (journal_run H loads F) (bind (require_current S a) (\<lambda>_. run_recovery_action H S D a p action))" .
  have one: "yields (\<lambda>db. action \<in> set (recovery_action_table db))
      (bind (require_current S a) (\<lambda>_. run_recovery_action H S D a p action))
      (completed (action_id action) terminal_action_statuses)" for action
  proof -
    have "yields (\<lambda>db. action \<in> set (recovery_action_table db)) (run_recovery_action H S D a p action)
        (completed (action_id action) terminal_action_statuses)"
      by (rule run_action_yields [OF assms(1)]) (use assms(2) in blast)
    then show ?thesis
      using yields_frame [OF jr_require_current [OF assms(1)], where A = "{action}"] by simp
  qed
  show "yields (\<lambda>db. set (rc_recovery_actions p) \<subseteq> set (recovery_action_table db))
      (each (\<lambda>action. bind (require_current S a) (\<lambda>_. run_recovery_action H S D a p action))
        (latest_current_attempt_recovery_actions p))
      (\<lambda>rs db. map action_id rs = map action_id (latest_current_attempt_recovery_actions p)
        \<and> (\<forall>r \<in> set rs. r \<in> set (recovery_action_table db) \<and> action_status r \<in> terminal_action_statuses))"
  proof (rule yields_weaken [OF yields_mono [OF each_yields [OF act one]]])
    fix rs db
    assume each_done: "list_all2 (\<lambda>x y. completed (action_id x) terminal_action_statuses y db)
      (latest_current_attempt_recovery_actions p) rs"
    from each_done have "map action_id rs = map action_id (latest_current_attempt_recovery_actions p)"
      by (auto simp: list_all2_conv_all_nth completed_def intro!: nth_equalityI)
    moreover have "r \<in> set (recovery_action_table db) \<and> action_status r \<in> terminal_action_statuses"
      if "r \<in> set rs" for r
      using that each_done by (auto simp: list_all2_conv_all_nth in_set_conv_nth completed_def)
    ultimately show "map action_id rs = map action_id (latest_current_attempt_recovery_actions p)
        \<and> (\<forall>r \<in> set rs. r \<in> set (recovery_action_table db) \<and> action_status r \<in> terminal_action_statuses)" by blast
  qed (use latest_actions_members(1) in blast)
qed

text \<open>
  C25. What a run of the actions returns. Whatever other processes and the handlers do to the
  database by calls of the stores: a run that returns gives one record for each action of the attempt,
  in the order in which the actions were first recorded, and for no other. The actions are those that
  the database lists at a moment of the run after the planning; among them are all that were recorded
  when the run began, and all that the planners ask for under an id, given the actions recorded at
  that moment (a plan with an empty id would be recorded under a fresh one; it is not covered). Each record is in the database in the end, and its status
  is terminal: none is left planned or attempting.
\<close>

theorem completed_actions_are_recorded:
  assumes "lawful H loads F S" and "journal_wf (run_db s)"
    and "\<And>type h a c act. hd_handlers D type = Some h \<Longrightarrow> keeps (journal_run H loads F) (h a c act)"
    and "run_recovery_actions H S D context lease s = (Inr rs, s')"
  shows "\<exists>started plans t t' db.
      rc_recovery_attempt context = Some started
    \<and> (journal_step H loads F)\<^sup>*\<^sup>* (run_db s) (run_db t) \<and> (journal_step H loads F)\<^sup>*\<^sup>* (run_db t) db
    \<and> (journal_step H loads F)\<^sup>*\<^sup>* db (run_db s')
    \<and> map action_id rs = attempt_actions context started db
    \<and> set (attempt_actions context started (run_db s)) \<subseteq> action_id ` set rs
    \<and> all_action_plans D (context\<lparr>rc_recovery_actions := list_recovery_actions (br_batch_id (rc_batch context))
         (Some (recovery_id started)) (run_db t)\<rparr>) t = (Inr plans, t')
    \<and> (\<forall>p \<in> set plans. plan_action_id p = [] \<or> plan_action_id p \<in> action_id ` set rs)
    \<and> (\<forall>r \<in> set rs. r \<in> set (recovery_action_table (run_db s')) \<and> action_status r \<in> terminal_action_statuses)"
proof -
  obtain started where started: "rc_recovery_attempt context = Some started"
    using assms(4) by (cases "rc_recovery_attempt context") (auto simp: run_recovery_actions_def)
  have handlers: "\<forall>type h a c act. hd_handlers D type = Some h \<longrightarrow> keeps (journal_run H loads F) (h a c act)"
    using assms(3) by blast
  let ?a = "recovery_authority (br_batch_id (rc_batch context)) lease (recovery_id started)"
  let ?list = "list_recovery_actions (br_batch_id (rc_batch context)) (Some (recovery_id started))"
  have a: "auth_batch ?a = br_batch_id (rc_batch context)" "auth_attempt ?a = recovery_id started"
    by (simp_all add: recovery_authority_def)
  obtain now s1 s2 refreshed t planned u where runs_to: "operation_time S s = (Inr now, s1)"
      "read S (\<lambda>db. require_current_lease db lease now) s1 = (Inr (), s2)"
      "with_listed_actions S ?a context s2 = (Inr refreshed, t)"
      "plan_recovery_actions H S D ?a refreshed t = (Inr planned, u)"
      "each (\<lambda>action. bind (require_current S ?a) (\<lambda>_. run_recovery_action H S D ?a planned action))
        (latest_current_attempt_recovery_actions planned) u = (Inr rs, s')"
    using assms(4) unfolding run_recovery_actions_def started option.case Let_def by (auto simp: bind_Inr)
  note listed = listed_actions [OF assms(1) runs_to(3), unfolded a]
  have to_t: "(journal_step H loads F)\<^sup>*\<^sup>* (run_db s) (run_db t)"
    using runs [OF jr.keeps_time(1) runs_to(1)] read_others [OF assms(1) runs_to(2)] listed(2) by (meson rtranclp_trans)
  have wf_t: "journal_wf (run_db t)" by (rule history_wf [OF to_t assms(2)])
  obtain plans t' db where planning: "all_action_plans D refreshed t = (Inr plans, t')"
      "(journal_step H loads F)\<^sup>*\<^sup>* (run_db t) db" "(journal_step H loads F)\<^sup>*\<^sup>* db (run_db u)"
      "planned = refreshed\<lparr>rc_recovery_actions := ?list db\<rparr>" "\<forall>q \<in> set plans. planned_in ?a q db"
    using planning_complete [OF assms(1) wf_t _ _ runs_to(4), unfolded a] listed(1) started
    by (auto simp: recovery_attempt_id_def)
  have wf_db: "journal_wf db" by (rule history_wf [OF planning(2) wf_t])
  have wf_u: "journal_wf (run_db u)" by (rule history_wf [OF planning(3) wf_db])
  have "set (rc_recovery_actions planned) \<subseteq> set (recovery_action_table (run_db u))"
    using history_logs [OF planning(3) wf_db]
    by (auto simp: planning(4) set_listed_actions logs_extend_def dest: set_mono_prefix)
  with actions_completed(1) [OF assms(1) handlers, of planned ?a] wf_u runs_to(5)
  have ids: "map action_id rs = map action_id (latest_current_attempt_recovery_actions planned)"
    and recorded: "\<forall>r \<in> set rs. r \<in> set (recovery_action_table (run_db s')) \<and> action_status r \<in> terminal_action_statuses"
    unfolding yields_def by blast+
  have "map action_id (latest_current_attempt_recovery_actions planned) = attempt_actions context started db"
    unfolding attempt_actions_def planning(4)
    by (subst latest_actions_ids [where t = "recovery_id started"])
      (simp_all add: recovery_attempt_id_def listed(1) started set_listed_actions)
  with ids have rs: "map action_id rs = attempt_actions context started db" by simp
  have "set (recovery_action_table (run_db s)) \<subseteq> set (recovery_action_table db)"
    using history_logs [OF rtranclp_trans [OF to_t planning(2)] assms(2)] by (simp add: logs_extend_def set_mono_prefix)
  moreover have ids_rs: "action_id ` set rs = set (attempt_actions context started db)"
    using arg_cong [OF rs, of set] by simp
  ultimately have first: "set (attempt_actions context started (run_db s)) \<subseteq> set (map action_id rs)"
    unfolding rs by (auto simp: attempt_actions_def set_listed_actions)
  have "plan_action_id p = [] \<or> plan_action_id p \<in> set (map action_id rs)" if "p \<in> set plans" for p
    using planning(5) that unfolding rs by (auto simp: planned_in_def a attempt_actions_def)
  moreover have "(journal_step H loads F)\<^sup>*\<^sup>* (run_db u) (run_db s')"
    by (rule runs [OF jr.keeps_each [OF actions_completed(2) [OF assms(1) handlers]] runs_to(5)])
  ultimately show ?thesis
    using started to_t planning(1-3) first rs recorded rtranclp_trans [OF planning(3)] unfolding listed(1)
    by - (rule exI [of _ started], rule exI [of _ plans], rule exI [of _ t], rule exI [of _ t'], rule exI [of _ db],
      simp add: ids_rs)
qed

theorem completed_actions_are_recorded_witness:
  "\<exists>started db. rc_recovery_attempt demo_run_context = Some started
    \<and> attempt_actions demo_run_context started db = [''a1'']
    \<and> (\<forall>r \<in> set (projr (fst demo_run_result)). r \<in> set (recovery_action_table (run_db (snd demo_run_result)))
        \<and> action_status r \<in> terminal_action_statuses)"
proof -
  obtain started db where "rc_recovery_attempt demo_run_context = Some started"
    "map action_id (projr (fst demo_run_result)) = attempt_actions demo_run_context started db"
    "\<forall>r \<in> set (projr (fst demo_run_result)). r \<in> set (recovery_action_table (run_db (snd demo_run_result)))
        \<and> action_status r \<in> terminal_action_statuses"
  proof -
    let ?rs = "projr (fst demo_run_result)" and ?s = "snd demo_run_result"
    have "\<exists>started plans t t' db.
      rc_recovery_attempt demo_run_context = Some started
    \<and> (journal_step rev (\<lambda>_. None) {})\<^sup>*\<^sup>* (run_db demo_run_state) (run_db t) \<and> (journal_step rev (\<lambda>_. None) {})\<^sup>*\<^sup>* (run_db t) db
    \<and> (journal_step rev (\<lambda>_. None) {})\<^sup>*\<^sup>* db (run_db ?s)
    \<and> map action_id ?rs = attempt_actions demo_run_context started db
    \<and> set (attempt_actions demo_run_context started (run_db demo_run_state)) \<subseteq> action_id ` set ?rs
    \<and> all_action_plans demo_handling (demo_run_context\<lparr>rc_recovery_actions := list_recovery_actions
         (br_batch_id (rc_batch demo_run_context)) (Some (recovery_id started)) (run_db t)\<rparr>) t = (Inr plans, t')
    \<and> (\<forall>p \<in> set plans. plan_action_id p = [] \<or> plan_action_id p \<in> action_id ` set ?rs)
    \<and> (\<forall>r \<in> set ?rs. r \<in> set (recovery_action_table (run_db ?s)) \<and> action_status r \<in> terminal_action_statuses)"
      by (rule completed_actions_are_recorded
          [OF demo_lawful demo_journal_wf _ demo_run_ok(1) [unfolded demo_run_result_def], folded demo_run_result_def])
        (rule demo_handler_keeps)
    then show ?thesis using that by blast
  qed
  then show ?thesis using demo_run_ok(3) by force
qed

text \<open>
  C26. No file is touched without authority. Take any invariant of the world outside the database
  that each handler keeps when it is called while the journal's latest record of its action is
  attempting and, an instant before, its lease was current and its attempt the active one of
  the batch. A run of the actions keeps the invariant: nothing but handlers changes the world,
  and no handler is called in any other situation, whatever the other processes do in between.
\<close>

theorem handlers_run_only_when_authorised:
  assumes "lawful H loads F S"
    and "\<And>type h a c act t. hd_handlers D type = Some h
      \<Longrightarrow> auth_batch a = br_batch_id (rc_batch context) \<Longrightarrow> auth_lease a = lease
      \<Longrightarrow> Some (auth_attempt a) = recovery_attempt_id context
      \<Longrightarrow> authorised H loads F a (action_id act) (run_db t) \<Longrightarrow> P (run_world t)
      \<Longrightarrow> P (run_world (snd (h a c act t)))"
    and "P (run_world s)"
  shows "P (run_world (snd (run_recovery_actions H S D context lease s)))"
proof -
  have "keeps (world_kept P) (run_recovery_actions H S D context lease)"
  proof (cases "rc_recovery_attempt context")
    case None
    then show ?thesis by (simp add: run_recovery_actions_def wk.keeps_raise)
  next
    case (Some r)
    let ?a = "recovery_authority (br_batch_id (rc_batch context)) lease (recovery_id r)"
    have act: "keeps (world_kept P) (run_recovery_action H S D ?a p action)" for p action
      by (rule wk_run_action [OF assms(1)])
        (use assms(2) Some in \<open>auto simp: recovery_authority_def recovery_attempt_id_def\<close>)
    have "keeps (world_kept P) (require_current S ?a)"
      unfolding require_current_def by (intro wk.keeps_rules wk_read)
    with act show ?thesis
      unfolding run_recovery_actions_def Let_def Some option.case with_listed_actions_def
      by (intro wk.keeps_rules wk_read wk_plans)
  qed
  with assms(3) show ?thesis by (simp add: keeps_def world_kept_def)
qed

theorem handlers_run_only_when_authorised_witness:
  "run_world (snd demo_run_result) = 1 \<and> even (run_world (snd (run_recovery_actions rev demo_surroundings
     (demo_handling\<lparr>hd_handlers := \<lambda>_. None\<rparr>) demo_run_context w1 demo_run_state)))"
proof -
  have "even (run_world demo_run_state)" by (simp add: demo_run_state_def)
  then have "even (run_world (snd (run_recovery_actions rev demo_surroundings
     (demo_handling\<lparr>hd_handlers := \<lambda>_. None\<rparr>) demo_run_context w1 demo_run_state)))"
    by (rule handlers_run_only_when_authorised [where P = even, OF demo_lawful [of "\<lambda>_. None" "{}"], rotated]) simp
  then show ?thesis using demo_run_ok(4) by blast
qed

text \<open>
  C27. How a recovery attempt ends. \<open>recover_batch\<close> changes the database only by calls of the
  stores, so every property of the histories of the journal holds of it. If it returns, the
  journal holds the record of a succeeded recovery of the batch, the one it returns; if it
  raises with a recovery record, the journal holds that record, of a failed recovery of the
  batch. This is so for every callback that itself uses the stores only, in particular for
  one that runs the recovery actions.
\<close>

theorem recovery_attempt_is_recorded:
  assumes "lawful H loads F S" and "journal_wf (run_db s)"
    and "\<And>a c. keeps (journal_run H loads F) (recover a c)"
    and "recover_batch H S recover b lease s = (q, s')"
  shows "(journal_step H loads F)\<^sup>*\<^sup>* (run_db s) (run_db s') \<and> journal_wf (run_db s')
    \<and> (case q of
         Inr result \<Rightarrow> rr_recovery_record result \<in> set (recovery_table (run_db s'))
           \<and> recovery_batch_id (rr_recovery_record result) = b
           \<and> recovery_phase (rr_recovery_record result) = RECOVERY_SUCCEEDED
       | Inl e \<Rightarrow> failure_recorded b e (run_db s'))"
proof -
  have keeps: "keeps (journal_run H loads F) (recover_batch H S recover b lease)"
    unfolding recover_batch_def split_def
    by (intro jr.keeps_bind jr_callback jr_finish assms(1)) (rule assms(3))
  then have steps: "(journal_step H loads F)\<^sup>*\<^sup>* (run_db s) (run_db s')"
    using assms(4) unfolding keeps_def journal_run_def by (metis snd_conv)
  obtain q1 s1 where q1: "run_recovery_callback H S recover b lease s = (q1, s1)" by fastforce
  have "keeps (journal_run H loads F) (run_recovery_callback H S recover b lease)"
    by (rule jr_callback [OF assms(1)]) (rule assms(3))
  then have "(journal_step H loads F)\<^sup>*\<^sup>* (run_db s) (run_db s1)"
    using q1 unfolding keeps_def journal_run_def by (metis snd_conv)
  then have wf1: "journal_wf (run_db s1)" using assms(2) by (rule history_wf)
  have "case q of
         Inr result \<Rightarrow> rr_recovery_record result \<in> set (recovery_table (run_db s'))
           \<and> recovery_batch_id (rr_recovery_record result) = b
           \<and> recovery_phase (rr_recovery_record result) = RECOVERY_SUCCEEDED
       | Inl e \<Rightarrow> failure_recorded b e (run_db s')"
  proof (cases q1)
    case (Inl e)
    have "fails_recorded b (run_recovery_callback H S recover b lease)"
      by (rule fr_callback [OF assms(1)]) (rule assms(3))
    then show ?thesis
      using assms(2,4) q1 Inl by (auto simp: recover_batch_def fails_recorded_def)
  next
    case (Inr x)
    obtain a c result where x: "x = (a, c, result)" by (cases x)
    have b: "auth_batch a = b"
      using q1 unfolding Inr x run_recovery_callback_def Let_def
      by (auto simp: bind_Inr recovery_authority_def split: if_splits)
    have "finish_recovery H S a c result s1 = (q, s')"
      using assms(4) q1 by (simp add: recover_batch_def Inr x)
    from finish_recovery_ok [OF assms(1) wf1 this] show ?thesis
      using b by (auto split: sum.splits)
  qed
  with steps history_wf [OF steps assms(2)] show ?thesis by blast
qed

text \<open>The demo recovers the desired batch with a callback that runs the actions; there are none.\<close>

definition demo_callback :: "nat callback" where
  "demo_callback a c =
     bind (run_recovery_actions rev demo_surroundings demo_handling c (auth_lease a)) (\<lambda>_. ret ''tuple'')"

definition demo_recovery :: "(failure + recovery_result) \<times> nat run_state" where
  "demo_recovery = recover_batch rev demo_surroundings demo_callback ''b1'' w1
     (demo_run_state\<lparr>run_db := db_desired\<rparr>)"

lemma demo_callback_keeps: "keeps (journal_run rev loads F) (demo_callback a c)"
  unfolding demo_callback_def
  by (intro jr.keeps_rules jr_run_actions demo_lawful) (rule demo_handler_keeps)

theorem recovery_attempt_is_recorded_witness:
  "\<exists>result. fst demo_recovery = Inr result
     \<and> rr_recovery_record result \<in> set (recovery_table (run_db (snd demo_recovery)))"
proof -
  have "\<not> isl (fst demo_recovery)" by code_simp
  then obtain result where "fst demo_recovery = Inr result" by (cases "fst demo_recovery") auto
  then have r: "demo_recovery = (Inr result, snd demo_recovery)" by (simp add: prod_eq_iff)
  have wf: "journal_wf (run_db (demo_run_state\<lparr>run_db := db_desired\<rparr>))" using demo_wfs by simp
  show ?thesis
    using recovery_attempt_is_recorded [OF demo_lawful [of "\<lambda>_. None" "{}"] wf _
        r [unfolded demo_recovery_def]] demo_callback_keeps [of "\<lambda>_. None" "{}"] r
    by (intro exI [of _ result]) (simp add: prod_eq_iff flip: demo_recovery_def)
qed

end
