(* ===== verification/Backup_Properties.thy ===== *)
theory Backup_Properties
  imports Backup_Restore Program_Logic Runner_Properties
begin

section \<open>What restoring a backup does to the files\<close>

text \<open>
  The effect of \<open>restore_backup\<close> and of its recovery handler, for file operations that keep the
  laws \<open>file_laws\<close>: readers tell the truth and change nothing, the writer replaces a file as a
  whole or leaves it, the deleter removes it or leaves it, and neither touches other entries.
\<close>

datatype file_state = Absent | Regular bytes int | Other_entry

definition describes :: "'w file_access \<Rightarrow> path \<Rightarrow> file_state \<Rightarrow> resource_snapshot \<Rightarrow> bool" where
  "describes A p st s \<longleftrightarrow> snap_path s = p \<and> (case st of
      Absent \<Rightarrow> snap_file_type s = FT_MISSING \<and> \<not> snap_exists s
    | Regular c m \<Rightarrow> snap_file_type s = FT_FILE \<and> snap_exists s
        \<and> snap_content_hash s = Some (fa_sha256 A c) \<and> snap_size s = Some (int (length c))
    | Other_entry \<Rightarrow> snap_file_type s \<notin> {FT_MISSING, FT_FILE} \<and> snap_exists s)"

definition others_kept :: "(path \<Rightarrow> file_state) \<Rightarrow> (path \<Rightarrow> file_state) \<Rightarrow> path \<Rightarrow> bool" where
  "others_kept v v' p \<longleftrightarrow> (\<forall>q. q \<noteq> p \<and> v q \<noteq> Absent \<longrightarrow> v' q = v q)"

definition snapshot_law :: "'w file_access \<Rightarrow> ('w \<Rightarrow> path \<Rightarrow> file_state) \<Rightarrow> bool" where
  "snapshot_law A view \<longleftrightarrow> (\<forall>p w r w'. fa_snapshot A p w = (r, w') \<longrightarrow>
     w' = w \<and> (\<forall>s. r = Inr s \<longrightarrow> describes A p (view w p) s))"

definition read_law :: "'w file_access \<Rightarrow> bool" where
  "read_law A \<longleftrightarrow> (\<forall>p s w. snd (fa_read A p s w) = w)"

definition permissions_law :: "'w file_access \<Rightarrow> ('w \<Rightarrow> path \<Rightarrow> file_state) \<Rightarrow> bool" where
  "permissions_law A view \<longleftrightarrow> (\<forall>p w m w'. fa_permissions A p w = (m, w') \<longrightarrow>
     w' = w \<and> (\<forall>c k. view w p = Regular c k \<longrightarrow> m \<in> {None, Some k}))"

definition write_law :: "'w file_access \<Rightarrow> ('w \<Rightarrow> path \<Rightarrow> file_state) \<Rightarrow> bool" where
  "write_law A view \<longleftrightarrow> (\<forall>p c m w r w'. fa_write A p c m w = (r, w') \<longrightarrow> others_kept (view w) (view w') p
     \<and> (view w' p = view w p \<and> r \<noteq> Inr () \<or> (\<exists>k. view w' p = Regular c k \<and> m \<in> {None, Some k})))"

definition delete_law :: "'w file_access \<Rightarrow> ('w \<Rightarrow> path \<Rightarrow> file_state) \<Rightarrow> bool" where
  "delete_law A view \<longleftrightarrow> (\<forall>p w r w'. fa_delete A p w = (r, w') \<longrightarrow> others_kept (view w) (view w') p
     \<and> (view w' p = view w p \<and> r \<noteq> Inr () \<or> view w' p = Absent))"

definition file_laws :: "'w file_access \<Rightarrow> ('w \<Rightarrow> path \<Rightarrow> file_state) \<Rightarrow> bool" where
  "file_laws A view \<longleftrightarrow> snapshot_law A view \<and> read_law A \<and> permissions_law A view
     \<and> write_law A view \<and> delete_law A view"

text \<open>The file is what the backup holds.\<close>

definition restored_state :: "'w file_access \<Rightarrow> file_backup \<Rightarrow> file_state \<Rightarrow> bool" where
  "restored_state A b st \<longleftrightarrow>
     (if fb_file_type b = FT_MISSING then st = Absent
      else \<exists>c k. st = Regular c k \<and> fb_content_hash b = Some (fa_sha256 A c)
        \<and> fb_size b = Some (int (length c)) \<and> fb_permissions b = Some k)"

lemma others_kept_refl [simp]: "others_kept v v p"
  by (simp add: others_kept_def)

subsection \<open>The calls of the code\<close>

lemma wp_snapshot:
  assumes "file_laws A view"
    and "\<And>x. describes A p (view (run_world s) p) x \<Longrightarrow> Q x s" and "\<And>e. E e s"
  shows "wp (world_call (fa_snapshot A p)) Q E s"
proof -
  obtain r w' where f: "fa_snapshot A p (run_world s) = (r, w')" by fastforce
  then have "w' = run_world s \<and> (\<forall>x. r = Inr x \<longrightarrow> describes A p (view (run_world s) p) x)"
    using assms(1) unfolding file_laws_def snapshot_law_def by blast
  then show ?thesis using assms(2,3) f by (cases r) (simp_all add: wp_def world_call_def)
qed

lemma wp_permissions:
  assumes "file_laws A view"
    and "\<And>m. (\<And>c k. view (run_world s) p = Regular c k \<Longrightarrow> m \<in> {None, Some k}) \<Longrightarrow> Q m s"
  shows "wp (read_permissions A p) Q E s"
proof -
  obtain m w' where f: "fa_permissions A p (run_world s) = (m, w')" by fastforce
  then have "w' = run_world s \<and> (\<forall>c k. view (run_world s) p = Regular c k \<longrightarrow> m \<in> {None, Some k})"
    using assms(1) unfolding file_laws_def permissions_law_def by blast
  then show ?thesis using assms(2) f by (simp add: wp_def read_permissions_def world_call_def)
qed

lemma wp_read_content:
  assumes "file_laws A view" and "\<And>x. Q x s" and "\<And>e. E e s"
  shows "wp (world_call (fa_read A p x)) Q E s"
proof -
  have "snd (fa_read A p x (run_world s)) = run_world s"
    using assms(1) unfolding file_laws_def read_law_def by blast
  then show ?thesis using assms(2,3)
    by (cases "fa_read A p x (run_world s)"; cases "fst (fa_read A p x (run_world s))")
      (auto simp: wp_def world_call_def)
qed

lemma wp_write:
  assumes "file_laws A view"
    and "\<And>s' k. run_db s' = run_db s \<Longrightarrow> others_kept (view (run_world s)) (view (run_world s')) p
      \<Longrightarrow> view (run_world s') p = Regular c k \<Longrightarrow> m \<in> {None, Some k} \<Longrightarrow> Q () s' \<and> (\<forall>e. E e s')"
    and "\<And>e s'. run_db s' = run_db s \<Longrightarrow> others_kept (view (run_world s)) (view (run_world s')) p
      \<Longrightarrow> view (run_world s') p = view (run_world s) p \<Longrightarrow> E e s'"
  shows "wp (world_call (fa_write A p c m)) Q E s"
proof -
  obtain r w' where f: "fa_write A p c m (run_world s) = (r, w')" by fastforce
  then have "others_kept (view (run_world s)) (view w') p
    \<and> (view w' p = view (run_world s) p \<and> r \<noteq> Inr () \<or> (\<exists>k. view w' p = Regular c k \<and> m \<in> {None, Some k}))"
    using assms(1) unfolding file_laws_def write_law_def by blast
  then show ?thesis using f assms(2,3) [of "s\<lparr>run_world := w'\<rparr>"]
    by (cases r) (auto simp: wp_def world_call_def)
qed

lemma wp_delete:
  assumes "file_laws A view"
    and "\<And>s'. run_db s' = run_db s \<Longrightarrow> others_kept (view (run_world s)) (view (run_world s')) p
      \<Longrightarrow> view (run_world s') p = Absent \<Longrightarrow> Q () s' \<and> (\<forall>e. E e s')"
    and "\<And>e s'. run_db s' = run_db s \<Longrightarrow> others_kept (view (run_world s)) (view (run_world s')) p
      \<Longrightarrow> view (run_world s') p = view (run_world s) p \<Longrightarrow> E e s'"
  shows "wp (world_call (fa_delete A p)) Q E s"
proof -
  obtain r w' where f: "fa_delete A p (run_world s) = (r, w')" by fastforce
  then have "others_kept (view (run_world s)) (view w') p
    \<and> (view w' p = view (run_world s) p \<and> r \<noteq> Inr () \<or> view w' p = Absent)"
    using assms(1) unfolding file_laws_def delete_law_def by blast
  then show ?thesis using f assms(2,3) [of "s\<lparr>run_world := w'\<rparr>"]
    by (cases r) (auto simp: wp_def world_call_def)
qed

lemma wp_stored:
  assumes "file_laws A view" and "\<And>c. Q c s" and "\<And>e. E e s"
  shows "wp (stored_backup_content A b) Q E s"
  unfolding stored_backup_content_def
  by (cases "fb_content_bytes b"; cases "fb_content_path b")
    (auto simp: wp_rules assms(2,3) intro!: wp_snapshot [OF assms(1)] wp_read_content [OF assms(1)])

lemma wp_load:
  assumes "file_laws A view" and "\<And>e. E e s"
    and "\<And>c. fb_content_hash b = Some (fa_sha256 A c) \<Longrightarrow> fb_size b = Some (int (length c)) \<Longrightarrow> Q c s"
  shows "wp (load_and_validate_backup_content A b) Q E s"
  unfolding load_and_validate_backup_content_def
  by (auto simp: wp_rules assms(2,3) intro!: wp_stored [OF assms(1)])

subsection \<open>The effect of a restore\<close>

definition change_allowed ::
  "'w file_access \<Rightarrow> file_backup \<Rightarrow> resource_snapshot option \<Rightarrow> bool \<Rightarrow> file_state \<Rightarrow> bool" where
  "change_allowed A b expected overwrite st \<longleftrightarrow> overwrite \<or>
     (\<exists>x current. expected = Some x \<and> snap_path x = fb_path b \<and> describes A (fb_path b) st current
        \<and> same_resource_snapshot current x)"

definition restore_effect ::
  "'w file_access \<Rightarrow> ('w \<Rightarrow> path \<Rightarrow> file_state) \<Rightarrow> file_backup \<Rightarrow> resource_snapshot option \<Rightarrow> bool
    \<Rightarrow> 'w run_state \<Rightarrow> failure + resource_snapshot \<Rightarrow> 'w run_state \<Rightarrow> bool" where
  "restore_effect A view b expected overwrite s r s' \<longleftrightarrow>
     run_db s' = run_db s
     \<and> others_kept (view (run_world s)) (view (run_world s')) (fb_path b)
     \<and> (view (run_world s') (fb_path b) \<noteq> view (run_world s) (fb_path b) \<longrightarrow>
          restored_state A b (view (run_world s') (fb_path b))
          \<and> change_allowed A b expected overwrite (view (run_world s) (fb_path b)))
     \<and> (\<forall>x. r = Inr x \<longrightarrow> restored_state A b (view (run_world s') (fb_path b))
          \<and> describes A (fb_path b) (view (run_world s') (fb_path b)) x)"

lemma no_effect [simp]: "restore_effect A view b expected overwrite s (Inl e) s"
  by (simp add: restore_effect_def)

lemma found_restored:
  "restored_state A b (view (run_world s) (fb_path b)) \<Longrightarrow> describes A (fb_path b) (view (run_world s) (fb_path b)) x
    \<Longrightarrow> restore_effect A view b expected overwrite s (Inr x) s"
  by (simp add: restore_effect_def)

lemma effect_failed:
  assumes "run_db s' = run_db s" and "others_kept (view (run_world s)) (view (run_world s')) (fb_path b)"
    and "view (run_world s') (fb_path b) \<noteq> view (run_world s) (fb_path b)
      \<Longrightarrow> restored_state A b (view (run_world s') (fb_path b))
        \<and> change_allowed A b expected overwrite (view (run_world s) (fb_path b))"
  shows "restore_effect A view b expected overwrite s (Inl e) s'"
  using assms by (simp add: restore_effect_def)

lemma effect_restored:
  assumes "run_db s' = run_db s" and "others_kept (view (run_world s)) (view (run_world s')) (fb_path b)"
    and "restored_state A b (view (run_world s') (fb_path b))"
    and "change_allowed A b expected overwrite (view (run_world s) (fb_path b))"
    and "describes A (fb_path b) (view (run_world s') (fb_path b)) x"
  shows "restore_effect A view b expected overwrite s (Inr x) s'"
  using assms by (simp add: restore_effect_def)

lemma precondition_allowed:
  "restore_precondition b current expected overwrite = Inr u \<Longrightarrow> describes A (fb_path b) st current
    \<Longrightarrow> change_allowed A b expected overwrite st"
  by (auto simp: restore_precondition_def change_allowed_def split: if_splits option.splits)

lemma describes_missing: "describes A p st x \<Longrightarrow> snap_file_type x = FT_MISSING \<longleftrightarrow> st = Absent"
  by (auto simp: describes_def split: file_state.splits)

lemma describes_file:
  "describes A p st x \<Longrightarrow> snap_file_type x = FT_FILE \<longleftrightarrow>
     (\<exists>c k. st = Regular c k \<and> snap_content_hash x = Some (fa_sha256 A c) \<and> snap_size x = Some (int (length c)))"
  by (auto simp: describes_def split: file_state.splits)

lemma missing_effect:
  assumes laws: "file_laws A view" and b: "fb_file_type b = FT_MISSING"
  shows "wp (restore_missing_backup A b expected overwrite)
    (\<lambda>x s'. restore_effect A view b expected overwrite s (Inr x) s')
    (\<lambda>e s'. restore_effect A view b expected overwrite s (Inl e) s') s"
  unfolding restore_missing_backup_def wp_rules
proof (rule wp_snapshot [OF laws], goal_cases)
  case (1 x)
  have absent: "restored_state A b st \<longleftrightarrow> st = Absent" for st using b by (simp add: restored_state_def)
  have "wp (world_call (fa_delete A (fb_path b)))
      (\<lambda>_. wp (world_call (fa_snapshot A (fb_path b)))
        (\<lambda>y s'. (snap_file_type y \<noteq> FT_MISSING \<longrightarrow>
            restore_effect A view b expected overwrite s (Inl (Raised RestoreConflictError)) s')
          \<and> (snap_file_type y = FT_MISSING \<longrightarrow> restore_effect A view b expected overwrite s (Inr y) s'))
        (\<lambda>e s'. restore_effect A view b expected overwrite s (Inl e) s'))
      (\<lambda>e s'. restore_effect A view b expected overwrite s (Inl e) s') s"
    if "restore_precondition b x expected overwrite = Inr ()"
    by (rule wp_delete [OF laws])
      (auto intro!: wp_snapshot [OF laws] effect_failed effect_restored
        intro: precondition_allowed [OF that 1] simp: absent)
  then show ?case using 1 by (auto simp: wp_rules absent describes_missing split: sum.split intro!: found_restored)
qed simp

lemma write_effect:
  assumes laws: "file_laws A view" and b: "file_backup_checked b = Inr b" "fb_file_type b = FT_FILE"
    "fb_content_address b = None"
    and allowed: "change_allowed A b expected overwrite (view (run_world s) (fb_path b))"
  shows "wp (bind (write_backup_content A None b) (\<lambda>_.
      bind (world_call (fa_snapshot A (fb_path b))) (require_restored A b)))
    (\<lambda>x s'. restore_effect A view b expected overwrite s (Inr x) s')
    (\<lambda>e s'. restore_effect A view b expected overwrite s (Inl e) s') s"
proof -
  obtain m where m: "fb_permissions b = Some m"
    using b by (auto simp: file_backup_checked_def split: if_splits)
  have "wp (bind (world_call (fa_snapshot A (fb_path b))) (require_restored A b))
      (\<lambda>x s'. restore_effect A view b expected overwrite s (Inr x) s')
      (\<lambda>e s'. restore_effect A view b expected overwrite s (Inl e) s') s'
    \<and> (\<forall>e. restore_effect A view b expected overwrite s (Inl e) s')"
    if w: "run_db s' = run_db s" "others_kept (view (run_world s)) (view (run_world s')) (fb_path b)"
      "restored_state A b (view (run_world s') (fb_path b))" for s'
    unfolding require_restored_def wp_rules
    by (auto intro!: wp_snapshot [OF laws] wp_permissions [OF laws] effect_failed w allowed
        intro: effect_restored simp: wp_rules)
  moreover have "restored_state A b (Regular c m)"
    if "fb_content_hash b = Some (fa_sha256 A c)" "fb_size b = Some (int (length c))" for c
    using that b(2) m by (simp add: restored_state_def)
  ultimately show ?thesis
    unfolding write_backup_content_def b(3) m option.case wp_rules
    by (auto intro!: wp_load [OF laws] wp_write [OF laws] effect_failed simp: allowed)
qed

lemma restore_backup_effect:
  assumes laws: "file_laws A view" and b: "file_backup_checked b = Inr b" "fb_content_address b = None"
  shows "wp (restore_backup A None b expected overwrite)
    (\<lambda>x s'. restore_effect A view b expected overwrite s (Inr x) s')
    (\<lambda>e s'. restore_effect A view b expected overwrite s (Inl e) s') s"
proof (cases "fb_file_type b = FT_MISSING")
  case True
  then show ?thesis using missing_effect [OF laws True] by (simp add: restore_backup_def)
next
  case False
  then have t: "fb_file_type b = FT_FILE" using file_backup_checked_paths [OF b(1)] by simp
  obtain m where m: "fb_permissions b = Some m"
    using b(1) t by (auto simp: file_backup_checked_def split: if_splits)
  have same: "restored_state A b (view (run_world s) (fb_path b))"
    if "describes A (fb_path b) (view (run_world s) (fb_path b)) x" "snap_file_type x = FT_FILE"
      "snap_content_hash x = fb_content_hash b" "snap_size x = fb_size b"
      "\<And>c k. view (run_world s) (fb_path b) = Regular c k \<Longrightarrow> fb_permissions b \<in> {None, Some k}" for x
    using that describes_file [OF that(1)] t m by (auto simp: restored_state_def)
  show ?thesis
    unfolding restore_backup_def if_not_P [OF False] wp_rules
  proof (rule wp_snapshot [OF laws], goal_cases)
    case (1 x)
    have p: "snap_path x = fb_path b" using 1 by (simp add: describes_def)
    note writes = write_effect [OF laws b(1) t b(2) precondition_allowed [OF _ 1], unfolded wp_rules]
    show ?case
      unfolding matches_backup_content_def
      using t b(2) 1 same [OF 1] p
      by (auto simp: wp_rules split: sum.split
        intro!: wp_permissions [OF laws] wp_load [OF laws] found_restored writes)
  qed simp
qed

subsection \<open>The properties\<close>

text \<open>Backups that the journal can hold: their content is in a file, not in memory or in a store.\<close>

definition storable :: "file_backup \<Rightarrow> bool" where
  "storable b \<longleftrightarrow> file_backup_checked b = Inr b \<and> fb_content_bytes b = None \<and> fb_content_address b = None
     \<and> path_wf (fb_path b) \<and> (\<forall>p. fb_content_path b = Some p \<longrightarrow> path_wf p)"

lemma parsed_storable:
  assumes "file_backup_from_payload payload = Inr b"
  shows "storable b"
proof -
  obtain c where c: "file_backup_checked c = Inr b"
    "\<forall>p. fb_content_path c = Some p \<longrightarrow> path_wf p"
    using assms by (auto simp: file_backup_from_payload_def Let_def res_bind_Inr
      path_from_optional_payload_value_def split: if_splits option.splits)
  then show ?thesis
    using parsed_backup_checked [OF assms] file_backup_checked_Inr [OF c(1)] by (simp add: storable_def)
qed

text \<open>
  C29. Backups survive the journal. What the mutation code records of a backup, the recovery code
  reads back as the same backup, for every backup that keeps its content in a file; the same holds
  of snapshots. Conversely, every payload that the recovery code accepts gives a backup that
  passes the checks of its class, and recording it again gives the same backup.
\<close>

theorem backup_payload_roundtrip:
  "(storable b \<and> jget payload ''backup'' = captured_backup_payload b
      \<longrightarrow> file_backup_from_payload payload = Inr b)
    \<and> (path_wf (snap_path x) \<longrightarrow> resource_snapshot_from_payload (snapshot_payload x) = Inr (Some x))
    \<and> (file_backup_from_payload payload = Inr b \<longrightarrow>
        storable b \<and> file_backup_from_payload (JObj [(''backup'', captured_backup_payload b)]) = Inr b)"
proof -
  have reread: "file_backup_from_payload payload = Inr b"
    if "storable b" "jget payload ''backup'' = captured_backup_payload b" for payload
    by (rule backup_roundtrip) (use that in \<open>simp_all add: storable_def\<close>)
  show ?thesis
    by (intro conjI impI) (use reread parsed_storable snapshot_roundtrip in auto)
qed

definition sample_snapshot :: resource_snapshot where
  "sample_snapshot = \<lparr>snap_path = path_of ''/w/f'', snap_exists = True, snap_file_type = FT_FILE,
     snap_content_hash = Some ''old'', snap_size = Some 3, snap_mtime_ns = Some 7, snap_symlink_target = None,
     snap_device = Some 1, snap_inode = Some 2, snap_ctime_ns = Some 7\<rparr>"

definition sample_backup :: file_backup where
  "sample_backup = \<lparr>fb_path = path_of ''/w/f'', fb_existed = True, fb_file_type = FT_FILE, fb_content_bytes = None,
     fb_content_path = Some (path_of ''/s/f.bak''), fb_content_hash = Some ''old'', fb_size = Some 3,
     fb_permissions = Some 420, fb_snapshot = sample_snapshot, fb_content_address = None\<rparr>"

lemma sample_storable: "storable sample_backup"
proof -
  have "file_backup_checked sample_backup = Inr sample_backup" by code_simp
  then show ?thesis by (simp add: storable_def sample_backup_def)
qed

theorem backup_payload_roundtrip_witness:
  "file_backup_from_payload (JObj [(''backup'', captured_backup_payload sample_backup)]) = Inr sample_backup
    \<and> resource_snapshot_from_payload (snapshot_payload sample_snapshot) = Inr (Some sample_snapshot)"
  using backup_payload_roundtrip [of sample_backup "JObj [(''backup'', captured_backup_payload sample_backup)]"
      sample_snapshot] sample_storable
  by (simp add: sample_snapshot_def)

lemma wp_authority_world:
  assumes "\<And>x s'. run_world s' = run_world s \<Longrightarrow> Q x s'" and "\<And>e s'. run_world s' = run_world s \<Longrightarrow> E e s'"
  shows "wp (require_recovery_action_authority S auth context action) Q E s"
  by (rule wp_keeps [OF wk_action_authority [of "\<lambda>w. w = run_world s"]])
    (use assms in \<open>simp_all add: world_kept_def\<close>)

text \<open>What the handler may do to the file of the backup, on whatever other processes do to the database.\<close>

definition restore_outcome ::
  "'w file_access \<Rightarrow> ('w \<Rightarrow> path \<Rightarrow> file_state) \<Rightarrow> json \<Rightarrow> file_backup \<Rightarrow> 'w \<Rightarrow> failure + resource_snapshot \<Rightarrow> 'w \<Rightarrow> bool" where
  "restore_outcome A view payload b w r w' \<longleftrightarrow>
     others_kept (view w) (view w') (fb_path b)
     \<and> (view w' (fb_path b) \<noteq> view w (fb_path b) \<longrightarrow> restored_state A b (view w' (fb_path b))
        \<and> (jget payload ''allow_overwrite'' = JBool True
           \<or> (\<exists>x current. resource_snapshot_from_payload (jget payload ''expected_current'') = Inr (Some x)
                \<and> describes A (fb_path b) (view w (fb_path b)) current \<and> same_resource_snapshot current x)))
     \<and> (\<forall>x. r = Inr x \<longrightarrow> restored_state A b (view w' (fb_path b)) \<and> describes A (fb_path b) (view w' (fb_path b)) x)
     \<and> (\<forall>e. r = Inl e \<longrightarrow> e \<notin> insert (Raised BackupContentMismatchError) unsafe_path_errors)"

lemma parse_errors:
  "optional_int_value v = Inl e \<Longrightarrow> e = ValueError"
  "resource_snapshot_from_payload v = Inl e \<Longrightarrow> e = ValueError"
  "bool_from_payload_value v d = Inl e \<Longrightarrow> e = ValueError"
proof -
  have o: "e = ValueError" if "optional_int_value v = Inl e" for v
    using that by (auto simp: optional_int_value_def res_bind_Inl from_option_def split: json.splits option.splits)
  then show "optional_int_value v = Inl e \<Longrightarrow> e = ValueError" .
  show "resource_snapshot_from_payload v = Inl e \<Longrightarrow> e = ValueError"
    by (auto simp: resource_snapshot_from_payload_def res_bind_Inl path_from_payload_value_def
      bool_from_payload_value_def file_type_from_payload_value_def from_option_def dest: o
      split: if_splits json.splits option.splits)
  show "bool_from_payload_value v d = Inl e \<Longrightarrow> e = ValueError"
    by (auto simp: bool_from_payload_value_def from_option_def split: json.splits option.splits)
qed

lemma overwrite_given: "bool_from_payload_value v (Some False) = Inr True \<longleftrightarrow> v = JBool True"
  by (auto simp: bool_from_payload_value_def from_option_def split: json.splits)

lemma effect_outcome:
  assumes "restore_effect A view b expected overwrite s r s'" and "run_world s = w"
    and "resource_snapshot_from_payload (jget payload ''expected_current'') = Inr expected"
    and "bool_from_payload_value (jget payload ''allow_overwrite'') (Some False) = Inr overwrite"
    and "\<And>e. r = Inl e \<Longrightarrow> e \<notin> insert (Raised BackupContentMismatchError) unsafe_path_errors"
  shows "restore_outcome A view payload b w r (run_world s')"
  using assms overwrite_given [of "jget payload ''allow_overwrite''"]
  by (auto simp: restore_effect_def restore_outcome_def change_allowed_def)

lemma restore_action_outcome:
  assumes laws: "file_laws A view" and b: "file_backup_from_payload (action_payload action) = Inr b"
  shows "wp (restore_backup_recovery_action S A a context action)
    (\<lambda>x s'. restore_outcome A view (action_payload action) b (run_world s) (Inr x) (run_world s'))
    (\<lambda>e s'. restore_outcome A view (action_payload action) b (run_world s) (Inl e) (run_world s')) s"
proof -
  let ?payload = "action_payload action"
  have idle: "restore_outcome A view ?payload b w (Inl e) w"
    if "e \<notin> insert (Raised BackupContentMismatchError) unsafe_path_errors" for e w
    using that by (simp add: restore_outcome_def)
  have v: "Raised ValueError \<notin> insert (Raised BackupContentMismatchError) unsafe_path_errors"
    "ActionManual p \<notin> insert (Raised BackupContentMismatchError) unsafe_path_errors" for p
    by (auto simp: unsafe_path_errors_def)
  show ?thesis
  proof (cases "resource_snapshot_from_payload (jget ?payload ''expected_current'')")
    case (Inl e)
    then show ?thesis
      using parse_errors(2) [OF Inl] idle [OF v(1)]
      by (simp add: restore_backup_recovery_action_def wp_rules b)
  next
    case expected: (Inr expected)
    show ?thesis
    proof (cases "bool_from_payload_value (jget ?payload ''allow_overwrite'') (Some False)")
      case (Inl e)
      then show ?thesis
        using parse_errors(3) [OF Inl] idle [OF v(1)] expected
        by (simp add: restore_backup_recovery_action_def wp_rules b)
    next
      case overwrite: (Inr overwrite)
      have st: "file_backup_checked b = Inr b" "fb_content_address b = None"
        using parsed_storable [OF b] by (simp_all add: storable_def)
      have manual: "restore_outcome A view ?payload b w (Inl e) w'
          \<Longrightarrow> restore_outcome A view ?payload b w (Inl (ActionManual p)) w'" for e p w w'
        using v(2) by (simp add: restore_outcome_def)
      have effect: "restore_outcome A view ?payload b w (Inl (ActionManual p)) (run_world s')"
        if "restore_effect A view b expected overwrite s1 (Inl e) s'" "run_world s1 = w" for e p s1 s' w
        using that overwrite_given [of "jget ?payload ''allow_overwrite''"] expected overwrite v(2)
        by (auto simp: restore_effect_def restore_outcome_def change_allowed_def)
      show ?thesis
        unfolding restore_backup_recovery_action_def
        by (auto simp: wp_rules b expected overwrite idle v idle [OF v(2)]
            intro!: wp_authority_world wp_mono [OF restore_backup_effect [OF laws st]]
            intro: effect_outcome [OF _ _ expected overwrite] effect)
    qed
  qed
qed

subsection \<open>A restore on the demo database\<close>

type_synonym sample_world = "(path \<times> file_state) list"

definition sample_view :: "sample_world \<Rightarrow> path \<Rightarrow> file_state" where
  "sample_view w p = (case map_of w p of None \<Rightarrow> Absent | Some st \<Rightarrow> st)"

definition sample_text :: "bytes \<Rightarrow> string" where
  "sample_text c = map (\<lambda>b. char_of (unat b)) c"

definition snapshot_of :: "path \<Rightarrow> file_state \<Rightarrow> resource_snapshot" where
  "snapshot_of p st =
     \<lparr>snap_path = p, snap_exists = st \<noteq> Absent,
      snap_file_type = (case st of Absent \<Rightarrow> FT_MISSING | Regular _ _ \<Rightarrow> FT_FILE | Other_entry \<Rightarrow> FT_OTHER),
      snap_content_hash = (case st of Regular c _ \<Rightarrow> Some (sample_text c) | _ \<Rightarrow> None),
      snap_size = (case st of Regular c _ \<Rightarrow> Some (int (length c)) | _ \<Rightarrow> None), snap_mtime_ns = None,
      snap_symlink_target = None, snap_device = None, snap_inode = None, snap_ctime_ns = None\<rparr>"

definition sample_access :: "sample_world file_access" where
  "sample_access = \<lparr>fa_sha256 = sample_text,
     fa_snapshot = (\<lambda>p w. (Inr (snapshot_of p (sample_view w p)), w)),
     fa_read = (\<lambda>p x w. (case sample_view w p of Regular c m \<Rightarrow> Inr (c, Some m) | _ \<Rightarrow> Inl (Raised UnsafePathError), w)),
     fa_permissions = (\<lambda>p w. (case sample_view w p of Regular c m \<Rightarrow> Some m | _ \<Rightarrow> None, w)),
     fa_write = (\<lambda>p c m w. (Inr (), (p, Regular c (case m of None \<Rightarrow> 0 | Some k \<Rightarrow> k)) # w)),
     fa_delete = (\<lambda>p w. (Inr (), (p, Absent) # w))\<rparr>"

lemma sample_laws: "file_laws sample_access sample_view"
  by (auto simp: file_laws_def snapshot_law_def read_law_def permissions_law_def write_law_def delete_law_def
    sample_access_def describes_def snapshot_of_def others_kept_def sample_view_def split: file_state.splits option.splits)

definition sample_action :: recovery_action_record where
  "sample_action = (last (rc_recovery_actions demo_run_context))\<lparr>action_payload := JObj
     [(''backup'', captured_backup_payload sample_backup),
      (''expected_current'', snapshot_payload (snapshot_of (path_of ''/w/f'') (Regular [110, 101, 119] 420))),
      (''allow_overwrite'', JBool False)]\<rparr>"

definition sample_state :: "sample_world run_state" where
  "sample_state = \<lparr>run_db = db_attempting,
     run_world = [(path_of ''/w/f'', Regular [110, 101, 119] 420), (path_of ''/s/f.bak'', Regular [111, 108, 100] 384)],
     run_tick = 0\<rparr>"

definition sample_restore :: "(failure + resource_snapshot) \<times> sample_world run_state" where
  "sample_restore = restore_backup_recovery_action demo_surroundings sample_access
     (recovery_authority ''b1'' w1 ''r1'') demo_run_context sample_action sample_state"

end
