(* ===== verification/Artifact_Properties.thy ===== *)
theory Artifact_Properties
  imports Backup_Artifacts Backup_Properties
begin

section \<open>What the removal of backup artifacts does to the files\<close>

text \<open>
  \<open>files w p\<close> is the content of the regular file with the real path \<open>p\<close>, \<open>links w p\<close> tells that
  the path \<open>p\<close> is a symbolic link. The operating system resolves a path without links to itself;
  of any other path the laws say nothing. \<open>delete_file\<close> opens the directory of the normalized
  path without following links.
\<close>

definition real_path :: "('w \<Rightarrow> path \<Rightarrow> bool) \<Rightarrow> 'w \<Rightarrow> path \<Rightarrow> bool" where
  "real_path links w p \<longleftrightarrow> canonical p \<and> (\<forall>n. \<not> links w (p\<lparr>path_parts := take n (path_parts p)\<rparr>))"

definition link_law :: "'w artifact_access \<Rightarrow> ('w \<Rightarrow> path \<Rightarrow> bool) \<Rightarrow> bool" where
  "link_law X links \<longleftrightarrow> (\<forall>p w r w'. aa_is_symlink X p w = (r, w') \<longrightarrow>
     w' = w \<and> (\<forall>b. r = Inr b \<longrightarrow> b = links w p))"

definition content_law ::
  "'w artifact_access \<Rightarrow> ('w \<Rightarrow> path \<Rightarrow> bytes option) \<Rightarrow> ('w \<Rightarrow> path \<Rightarrow> bool) \<Rightarrow> bool" where
  "content_law X files links \<longleftrightarrow>
     (\<forall>p w r w'. aa_is_regular X p w = (r, w') \<longrightarrow> w' = w
        \<and> (real_path links w p \<longrightarrow> r = Inl (Raised FileNotFoundError) \<longrightarrow> files w p = None))
     \<and> (\<forall>p w r w'. aa_read X p w = (r, w') \<longrightarrow> w' = w
        \<and> (real_path links w p \<longrightarrow> (\<forall>c. r = Inr c \<longrightarrow> files w p = Some c)
             \<and> (r = Inl (Raised FileNotFoundError) \<longrightarrow> files w p = None)))"

definition removal_law ::
  "'w artifact_access \<Rightarrow> ('w \<Rightarrow> path \<Rightarrow> bytes option) \<Rightarrow> ('w \<Rightarrow> path \<Rightarrow> bool) \<Rightarrow> bool" where
  "removal_law X files links \<longleftrightarrow>
     (\<forall>p w r w'. aa_delete_checks X p w = (r, w') \<longrightarrow> w' = w
        \<and> (r = Inl (Raised FileNotFoundError) \<longrightarrow> files w (normalized_path X p) = None))
     \<and> (\<forall>p w r w'. aa_unlink X p w = (r, w') \<longrightarrow> links w' = links w
        \<and> (\<forall>q. q \<noteq> normalized_path X p \<longrightarrow> files w' q = files w q)
        \<and> (files w' (normalized_path X p) = files w (normalized_path X p) \<and> r \<noteq> Inr ()
             \<and> (r = Inl (Raised FileNotFoundError) \<longrightarrow> files w (normalized_path X p) = None)
           \<or> files w' (normalized_path X p) = None))"

definition artifact_laws ::
  "'w artifact_access \<Rightarrow> ('w \<Rightarrow> path \<Rightarrow> bytes option) \<Rightarrow> ('w \<Rightarrow> path \<Rightarrow> bool) \<Rightarrow> bool" where
  "artifact_laws X files links \<longleftrightarrow>
     path_wf (env_cwd (aa_env X)) \<and> is_absolute (env_cwd (aa_env X))
     \<and> link_law X links \<and> content_law X files links \<and> removal_law X files links"

subsection \<open>Chains of paths\<close>

lemma path_chain_covers:
  assumes "is_relative_to p root" and "length (path_parts root) \<le> n" and "n \<le> length (path_parts p)"
  shows "p\<lparr>path_parts := take n (path_parts p)\<rparr> \<in> set (path_chain root p)"
proof -
  define chain where "chain = map (\<lambda>n. p\<lparr>path_parts := take n (path_parts p)\<rparr>) (rev [0..<Suc (length (path_parts p))])"
  let ?q = "p\<lparr>path_parts := take n (path_parts p)\<rparr>"
  let ?i = "length (path_parts p) - n"
  have nth: "chain ! i = p\<lparr>path_parts := take (length (path_parts p) - i) (path_parts p)\<rparr>"
    if "i \<le> length (path_parts p)" for i
    using that by (simp add: chain_def rev_nth nth_append del: upt_Suc)
  have length: "length chain = Suc (length (path_parts p))" by (simp add: chain_def)
  have chain: "path_chain root p = rev (takeWhile (\<lambda>q. q \<noteq> root) chain @ (if root \<in> set chain then [root] else []))"
    by (simp add: path_chain_def chain_def)
  have root: "root = p\<lparr>path_parts := take (length (path_parts root)) (path_parts p)\<rparr>"
    using assms(1) by (cases root; cases p) (auto simp: is_relative_to_def prefix_def)
  have q: "chain ! ?i = ?q" using assms(3) by (simp add: nth)
  show ?thesis
  proof (cases "n = length (path_parts root)")
    case True
    then have "?q = root" using root by simp
    moreover have "?q \<in> set chain" using q length by (metis nth_mem diff_le_self le_imp_less_Suc)
    ultimately show ?thesis unfolding chain by simp
  next
    case False
    have "chain ! j \<noteq> root" if "j < Suc ?i" for j
    proof
      assume "chain ! j = root"
      moreover have "chain ! j = p\<lparr>path_parts := take (length (path_parts p) - j) (path_parts p)\<rparr>"
        by (rule nth) (use that in simp)
      ultimately have "length (path_parts root) = length (path_parts p) - j" by (metis diff_le_self length_take
          min.absorb2 path.simps(2) path.update_convs(2) path.surjective)
      then show False using that False assms(2,3) by simp
    qed
    then have "Suc ?i \<le> length (takeWhile (\<lambda>q. q \<noteq> root) chain)"
      using length by (intro length_takeWhile_less_P_nth) auto
    then have "chain ! ?i \<in> set (takeWhile (\<lambda>q. q \<noteq> root) chain)"
      by (metis Suc_le_lessD nth_mem takeWhile_nth)
    then show ?thesis unfolding chain q by simp
  qed
qed

subsection \<open>The calls of the code\<close>

lemma wp_world:
  assumes "\<And>r w'. f (run_world s) = (r, w') \<Longrightarrow>
     (case r of Inr x \<Rightarrow> Q x (s\<lparr>run_world := w'\<rparr>) | Inl e \<Rightarrow> E e (s\<lparr>run_world := w'\<rparr>))"
  shows "wp (world_call f) Q E s"
proof (cases "f (run_world s)")
  case (Pair r w')
  from assms [OF this] show ?thesis by (cases r) (simp_all add: wp_def world_call_def Pair)
qed

lemma wp_link:
  assumes "artifact_laws X files links" and "Q (links (run_world s) p) s" and "\<And>e. E e s"
  shows "wp (world_call (aa_is_symlink X p)) Q E s"
proof (rule wp_world)
  fix r w' assume "aa_is_symlink X p (run_world s) = (r, w')"
  then have "w' = run_world s \<and> (\<forall>b. r = Inr b \<longrightarrow> b = links (run_world s) p)"
    using assms(1) unfolding artifact_laws_def link_law_def by blast
  then show "case r of Inr x \<Rightarrow> Q x (s\<lparr>run_world := w'\<rparr>) | Inl e \<Rightarrow> E e (s\<lparr>run_world := w'\<rparr>)"
    using assms(2,3) by (cases r) simp_all
qed

text \<open>A file has the content that its checkpoint recorded.\<close>

definition has_recorded_content :: "'w artifact_access \<Rightarrow> artifact_candidate \<Rightarrow> bytes option \<Rightarrow> bool" where
  "has_recorded_content X a content \<longleftrightarrow> (\<exists>c. content = Some c
     \<and> ac_expected_content_hash a = Some (aa_sha256 X c) \<and> ac_expected_size a = Some (int (length c)))"

lemma wp_hash:
  assumes laws: "artifact_laws X files links"
    and "\<And>c. (real_path links (run_world s) p \<Longrightarrow> files (run_world s) p = Some c)
      \<Longrightarrow> Q (aa_sha256 X c, int (length c)) s"
    and "\<And>e. (real_path links (run_world s) p \<Longrightarrow> e = Raised FileNotFoundError \<Longrightarrow> files (run_world s) p = None)
      \<Longrightarrow> E e s"
  shows "wp (hash_regular_file X p) Q E s"
proof -
  have regular: "w' = run_world s \<and> (real_path links (run_world s) p \<longrightarrow>
      r = Inl (Raised FileNotFoundError) \<longrightarrow> files (run_world s) p = None)"
    if "aa_is_regular X p (run_world s) = (r, w')" for r w'
    using laws that unfolding artifact_laws_def content_law_def by blast
  have content: "w' = run_world s \<and> (real_path links (run_world s) p \<longrightarrow>
      (\<forall>c. r = Inr c \<longrightarrow> files (run_world s) p = Some c)
      \<and> (r = Inl (Raised FileNotFoundError) \<longrightarrow> files (run_world s) p = None))"
    if "aa_read X p (run_world s) = (r, w')" for r w'
    using laws that unfolding artifact_laws_def content_law_def by blast
  have found: "wp (world_call (aa_read X p)) (\<lambda>c. Q (aa_sha256 X c, int (length c))) E s"
    by (rule wp_world) (auto dest!: content intro!: assms(2,3) split: sum.split)
  show ?thesis
    unfolding hash_regular_file_def wp_rules
    by (rule wp_world) (auto dest!: regular intro!: assms(3) simp: wp_rules found split: sum.split)
qed

text \<open>What a result says of the file.\<close>

definition result_true :: "cleanup_result \<Rightarrow> bytes option \<Rightarrow> bool" where
  "result_true r content \<longleftrightarrow> (cr_status r \<in> {''succeeded'', ''skipped''} \<longrightarrow> content = None)"

lemma wp_verify:
  assumes laws: "artifact_laws X files links"
    and "(real_path links (run_world s) (ac_content_path a)
        \<Longrightarrow> has_recorded_content X a (files (run_world s) (ac_content_path a))) \<Longrightarrow> Q None s"
    and "\<And>r. (real_path links (run_world s) (ac_content_path a)
        \<Longrightarrow> result_true r (files (run_world s) (ac_content_path a))) \<Longrightarrow> Q (Some r) s"
    and "\<And>e. e \<notin> os_errors \<Longrightarrow> E e s"
  shows "wp (verify_candidate S X a) Q E s"
proof -
  have manual: "result_true (manual_result a reason detail) content" for reason detail content
    by (simp add: result_true_def manual_result_def cleanup_result_of_def)
  have gone: "result_true (artifact_missing a) content \<longleftrightarrow> content = None" for content
    by (simp add: result_true_def artifact_missing_def cleanup_result_of_def)
  have missing: "Raised FileNotFoundError \<in> os_errors" by (simp add: os_errors_def)
  show ?thesis
    unfolding verify_candidate_def wp_rules
    by (rule wp_hash [OF laws])
      (auto simp: wp_rules manual gone missing has_recorded_content_def
        intro!: assms(2-4) split: option.split)
qed

subsection \<open>The effect of a removal\<close>

text \<open>The path is the one that the checkpoint must have, below the root of the artifacts, no link on the way.\<close>

definition own_artifact ::
  "'w artifact_access \<Rightarrow> ('w \<Rightarrow> path \<Rightarrow> bool) \<Rightarrow> path \<Rightarrow> artifact_candidate \<Rightarrow> 'w \<Rightarrow> path \<Rightarrow> bool" where
  "own_artifact X links root a w q \<longleftrightarrow>
     ac_debt a = None \<and> q = normalized_path X (ac_content_path a)
     \<and> (\<exists>expected. ac_expected_content_path a = Some expected \<and> q = normalized_path X expected)
     \<and> is_relative_to q (normalized_path X root)
     \<and> (\<forall>n. length (path_parts (normalized_path X root)) \<le> n \<longrightarrow> \<not> links w (q\<lparr>path_parts := take n (path_parts q)\<rparr>))"

definition cleaned ::
  "'w artifact_access \<Rightarrow> ('w \<Rightarrow> path \<Rightarrow> bytes option) \<Rightarrow> ('w \<Rightarrow> path \<Rightarrow> bool) \<Rightarrow> path
    \<Rightarrow> artifact_candidate list \<Rightarrow> 'w \<Rightarrow> 'w \<Rightarrow> bool" where
  "cleaned X files links root as w w' \<longleftrightarrow> links w' = links w
     \<and> (\<forall>q. files w' q \<noteq> files w q \<longrightarrow> files w' q = None
          \<and> (\<exists>a \<in> set as. own_artifact X links root a w q
               \<and> (real_path links w (ac_content_path a) \<longrightarrow> has_recorded_content X a (files w q))))"

lemma cleaned_refl [simp]: "cleaned X files links root as w w"
  by (simp add: cleaned_def)

lemma cleaned_mono: "cleaned X files links root as w w' \<Longrightarrow> set as \<subseteq> set bs \<Longrightarrow> cleaned X files links root bs w w'"
  unfolding cleaned_def by blast

lemma own_artifact_links: "links w' = links w \<Longrightarrow> own_artifact X links root a w' = own_artifact X links root a w"
  by (simp add: own_artifact_def fun_eq_iff)

lemma real_path_links: "links w' = links w \<Longrightarrow> real_path links w' = real_path links w"
  by (simp add: real_path_def fun_eq_iff)

lemma cleaned_trans:
  assumes first: "cleaned X files links root as w v" and second: "cleaned X files links root as v u"
  shows "cleaned X files links root as w u"
proof -
  have links: "links v = links w" "links u = links v" using first second by (simp_all add: cleaned_def)
  have "files u q = None \<and> (\<exists>a \<in> set as. own_artifact X links root a w q
      \<and> (real_path links w (ac_content_path a) \<longrightarrow> has_recorded_content X a (files w q)))"
    if change: "files u q \<noteq> files w q" for q
  proof (cases "files v q = files w q")
    case True
    with second change obtain a where "files u q = None" "a \<in> set as" "own_artifact X links root a v q"
      "real_path links v (ac_content_path a) \<longrightarrow> has_recorded_content X a (files v q)"
      unfolding cleaned_def by metis
    then show ?thesis using True own_artifact_links [OF links(1)] real_path_links [of links v w] links(1) by auto
  next
    case False
    with first have v: "files v q = None" and a: "\<exists>a \<in> set as. own_artifact X links root a w q
      \<and> (real_path links w (ac_content_path a) \<longrightarrow> has_recorded_content X a (files w q))"
      unfolding cleaned_def by blast+
    have "files u q = None" using second v unfolding cleaned_def by metis
    then show ?thesis using a by blast
  qed
  then show ?thesis unfolding cleaned_def using links by simp
qed

lemma cleaned_keeps_none: "cleaned X files links root as w w' \<Longrightarrow> files w q = None \<Longrightarrow> files w' q = None"
  unfolding cleaned_def by metis

lemma normalized_canonical:
  assumes "artifact_laws X files links" and "canonical p"
  shows "normalized_path X p = p"
  using assms(2) by (simp add: normalized_path_def path_join_def normpath_id canonical_def)

lemma real_normalized:
  "artifact_laws X files links \<Longrightarrow> real_path links w p \<Longrightarrow> normalized_path X p = p"
  by (rule normalized_canonical) (simp_all add: real_path_def)

lemma delete_effect:
  assumes laws: "artifact_laws X files links"
    and own: "own_artifact X links root a (run_world s) (normalized_path X (ac_content_path a))"
  shows "wp (delete_artifact S X None a)
    (\<lambda>r s'. run_db s' = run_db s \<and> cleaned X files links root [a] (run_world s) (run_world s')
      \<and> (real_path links (run_world s) (ac_content_path a) \<longrightarrow> result_true r (files (run_world s') (ac_content_path a))))
    (\<lambda>e s'. run_db s' = run_db s \<and> cleaned X files links root [a] (run_world s) (run_world s')) s"
proof -
  let ?p = "ac_content_path a"
  let ?n = "normalized_path X ?p"
  have checks: "w' = run_world s \<and> (r = Inl (Raised FileNotFoundError) \<longrightarrow> files (run_world s) ?n = None)"
    if "aa_delete_checks X ?p (run_world s) = (r, w')" for r w'
    using laws that unfolding artifact_laws_def removal_law_def by blast
  have unlink: "links w' = links (run_world s)
      \<and> (\<forall>q. q \<noteq> ?n \<longrightarrow> files w' q = files (run_world s) q)
      \<and> (files w' ?n = files (run_world s) ?n \<and> r \<noteq> Inr ()
           \<and> (r = Inl (Raised FileNotFoundError) \<longrightarrow> files (run_world s) ?n = None)
         \<or> files w' ?n = None)"
    if "aa_unlink X ?p (run_world s) = (r, w')" for r w'
    using laws that unfolding artifact_laws_def removal_law_def by presburger
  have gone: "result_true (artifact_missing a) content \<longleftrightarrow> content = None" for content
    by (simp add: result_true_def artifact_missing_def cleanup_result_of_def)
  have failed: "result_true (cleanup_result_of a ''failed'' reason detail) content" for reason detail content
    by (simp add: result_true_def cleanup_result_of_def)
  have succeeded: "result_true (cleanup_result_of a ''succeeded'' reason detail) content \<longleftrightarrow> content = None"
    for reason detail content by (simp add: result_true_def cleanup_result_of_def)
  have missing: "Raised FileNotFoundError \<in> os_errors" by (simp add: os_errors_def)
  have unlinked: "cleaned X files links root [a] (run_world s) w'"
    if "aa_unlink X ?p (run_world s) = (r, w')"
      "real_path links (run_world s) ?p \<Longrightarrow> has_recorded_content X a (files (run_world s) ?p)" for r w'
  proof -
    have recorded: "real_path links (run_world s) ?p \<longrightarrow> has_recorded_content X a (files (run_world s) ?n)"
      using that(2) real_normalized [OF laws] by metis
    have links: "links w' = links (run_world s)" using unlink [OF that(1)] by (rule conjunct1)
    have "files w' q = None \<and> (\<exists>b \<in> set [a]. own_artifact X links root b (run_world s) q
        \<and> (real_path links (run_world s) (ac_content_path b) \<longrightarrow> has_recorded_content X b (files (run_world s) q)))"
      if change: "files w' q \<noteq> files (run_world s) q" for q
    proof -
      have "q = ?n" "files w' q = None"
        using unlink [OF \<open>aa_unlink X ?p (run_world s) = (r, w')\<close>] change by metis+
      then show ?thesis using own recorded by simp
    qed
    then show ?thesis unfolding cleaned_def using links by blast
  qed
  have real: "?n = ?p" if "real_path links (run_world s) ?p" using real_normalized [OF laws that] .
  have remove: "wp (world_call (aa_unlink X ?p))
      (\<lambda>_ s'. run_db s' = run_db s \<and> cleaned X files links root [a] (run_world s) (run_world s')
        \<and> files (run_world s') ?n = None)
      (\<lambda>e s'. run_db s' = run_db s \<and> cleaned X files links root [a] (run_world s) (run_world s')
        \<and> (e = Raised FileNotFoundError \<longrightarrow> files (run_world s') ?n = None)) s"
    if "real_path links (run_world s) ?p \<Longrightarrow> has_recorded_content X a (files (run_world s) ?p)"
  proof (rule wp_world)
    fix r w' assume call: "aa_unlink X ?p (run_world s) = (r, w')"
    have "cleaned X files links root [a] (run_world s) w'" by (rule unlinked [OF call that])
    moreover have "r = Inr () \<or> r = Inl (Raised FileNotFoundError) \<Longrightarrow> files w' ?n = None"
      using unlink [OF call] by (metis (no_types))
    ultimately show "case r of
        Inr x \<Rightarrow> run_db (s\<lparr>run_world := w'\<rparr>) = run_db s
          \<and> cleaned X files links root [a] (run_world s) (run_world (s\<lparr>run_world := w'\<rparr>))
          \<and> files (run_world (s\<lparr>run_world := w'\<rparr>)) ?n = None
      | Inl e \<Rightarrow> run_db (s\<lparr>run_world := w'\<rparr>) = run_db s
          \<and> cleaned X files links root [a] (run_world s) (run_world (s\<lparr>run_world := w'\<rparr>))
          \<and> (e = Raised FileNotFoundError \<longrightarrow> files (run_world (s\<lparr>run_world := w'\<rparr>)) ?n = None)"
      by (cases r) simp_all
  qed
  show ?thesis
    unfolding delete_artifact_def default_delete_verified_def option.case wp_rules
    by (rule wp_world) (auto dest!: checks intro!: wp_verify [OF laws] wp_mono [OF remove]
        simp: wp_rules gone failed succeeded missing real split: sum.split)
qed

lemma wp_first_symlink:
  assumes laws: "artifact_laws X files links"
    and "\<And>d. Q (Some d) s" and "(\<And>q. q \<in> set qs \<Longrightarrow> \<not> links (run_world s) q) \<Longrightarrow> Q None s"
    and "\<And>e. E e s"
  shows "wp (first_symlink S X qs) Q E s"
  using assms(3)
proof (induction qs)
  case (Cons q qs)
  have rest: "wp (first_symlink S X qs) Q E s" if "\<not> links (run_world s) q"
    by (rule Cons.IH) (use Cons.prems that in auto)
  show ?case
    unfolding first_symlink.simps symlink_detail_def wp_rules
    by (rule wp_link [OF laws]) (auto simp: wp_rules rest assms(2,4) split: option.split)
qed (simp add: wp_rules)

lemma wp_symlink_chain:
  assumes laws: "artifact_laws X files links"
    and "\<And>d. Q (Some d) s"
    and "is_relative_to (normalized_path X p) (normalized_path X root) \<Longrightarrow>
      (\<And>n. length (path_parts (normalized_path X root)) \<le> n \<Longrightarrow>
         \<not> links (run_world s) ((normalized_path X p)\<lparr>path_parts := take n (path_parts (normalized_path X p))\<rparr>))
      \<Longrightarrow> Q None s"
    and "\<And>e. E e s"
  shows "wp (symlink_chain_violation S X p root) Q E s"
proof -
  let ?p = "normalized_path X p"
  let ?root = "normalized_path X root"
  have chain: "wp (first_symlink S X (path_chain ?root ?p)) Q E s" if inside: "is_relative_to ?p ?root"
  proof (rule wp_first_symlink [OF laws])
    show "Q (Some d) s" for d by (rule assms(2))
    show "E e s" for e by (rule assms(4))
    assume clear: "\<And>q. q \<in> set (path_chain ?root ?p) \<Longrightarrow> \<not> links (run_world s) q"
    show "Q None s"
    proof (rule assms(3) [OF inside])
      fix n assume n: "length (path_parts ?root) \<le> n"
      have root: "length (path_parts ?root) \<le> length (path_parts ?p)"
        using inside by (auto simp: is_relative_to_def prefix_length_le)
      have "?p\<lparr>path_parts := take n (path_parts ?p)\<rparr>
          = ?p\<lparr>path_parts := take (min n (length (path_parts ?p))) (path_parts ?p)\<rparr>"
        by (simp add: min_def)
      then show "\<not> links (run_world s) (?p\<lparr>path_parts := take n (path_parts ?p)\<rparr>)"
        using clear [OF path_chain_covers [OF inside, of "min n (length (path_parts ?p))"]] n root by simp
    qed
  qed
  show ?thesis
    unfolding symlink_chain_violation_def Let_def by (simp add: wp_rules chain assms(2))
qed

lemma execute_effect:
  assumes laws: "artifact_laws X files links"
  shows "wp (execute_backup_artifact_cleanup_candidate S X state_path None None a)
    (\<lambda>r s'. run_db s' = run_db s
      \<and> cleaned X files links (backup_artifacts_root state_path) [a] (run_world s) (run_world s')
      \<and> (real_path links (run_world s) (ac_content_path a) \<longrightarrow> result_true r (files (run_world s') (ac_content_path a))))
    (\<lambda>e s'. run_db s' = run_db s
      \<and> cleaned X files links (backup_artifacts_root state_path) [a] (run_world s) (run_world s')) s"
proof -
  have manual: "result_true (manual_result a reason detail) content" for reason detail content
    by (simp add: result_true_def manual_result_def cleanup_result_of_def)
  show ?thesis
  proof (cases "ac_debt a = None \<and> ac_expected_content_path a \<noteq> None
      \<and> ac_expected_content_hash a \<noteq> None \<and> ac_expected_size a \<noteq> None
      \<and> matches_artifact_path_contract X (ac_content_path a) (the (ac_expected_content_path a))")
    case False
    then show ?thesis
      by (auto simp: execute_backup_artifact_cleanup_candidate_def wp_rules manual split: option.split)
  next
    case True
    then obtain expected where expected: "ac_expected_content_path a = Some expected" by auto
    have delete: "wp (delete_artifact S X None a)
      (\<lambda>r s'. run_db s' = run_db s
        \<and> cleaned X files links (backup_artifacts_root state_path) [a] (run_world s) (run_world s')
        \<and> (real_path links (run_world s) (ac_content_path a) \<longrightarrow> result_true r (files (run_world s') (ac_content_path a))))
      (\<lambda>e s'. run_db s' = run_db s
        \<and> cleaned X files links (backup_artifacts_root state_path) [a] (run_world s) (run_world s')) s"
      if "is_relative_to (normalized_path X (ac_content_path a)) (normalized_path X (backup_artifacts_root state_path))"
        "\<And>n. length (path_parts (normalized_path X (backup_artifacts_root state_path))) \<le> n \<Longrightarrow>
         \<not> links (run_world s) ((normalized_path X (ac_content_path a))
            \<lparr>path_parts := take n (path_parts (normalized_path X (ac_content_path a)))\<rparr>)"
      by (rule delete_effect [OF laws])
        (use True expected that in \<open>auto simp: own_artifact_def matches_artifact_path_contract_def\<close>)
    show ?thesis
      unfolding execute_backup_artifact_cleanup_candidate_def
      using True expected
      by (auto simp: wp_rules manual intro!: wp_symlink_chain [OF laws] wp_verify [OF laws] wp_mono [OF delete])
  qed
qed

lemma planned_artifacts:
  "set (plan_backup_artifact_cleanup_candidates X state_path checkpoints)
     \<subseteq> artifact_of_checkpoint X state_path ` set (accountable_checkpoints checkpoints)"
proof -
  have "set (first_by_artifact_id seen as) \<subseteq> set as" for seen as
    by (induction seen as rule: first_by_artifact_id.induct) auto
  then show ?thesis unfolding plan_backup_artifact_cleanup_candidates_def by (metis list.set_map)
qed

lemma cleanup_effect:
  fixes state_path :: path and checkpoints :: "checkpoint_record list"
  assumes laws: "artifact_laws X files links"
  defines "root \<equiv> backup_artifacts_root state_path"
    and "as \<equiv> plan_backup_artifact_cleanup_candidates X state_path checkpoints"
  shows "wp (cleanup_backup_artifacts S X state_path None checkpoints)
    (\<lambda>r s'. run_db s' = run_db s \<and> cleaned X files links root as (run_world s) (run_world s')
      \<and> (\<not> isl r \<longrightarrow> (\<forall>a \<in> set as. real_path links (run_world s) (ac_content_path a)
            \<longrightarrow> files (run_world s') (ac_content_path a) = None)))
    (\<lambda>e s'. run_db s' = run_db s \<and> cleaned X files links root as (run_world s) (run_world s')) s"
proof -
  define I where "I = (\<lambda>ys (t :: 'a run_state). run_db t = run_db s \<and> cleaned X files links root as (run_world s) (run_world t)
    \<and> (\<forall>i < length ys. real_path links (run_world s) (ac_content_path (as ! i))
         \<longrightarrow> result_true (ys ! i) (files (run_world t) (ac_content_path (as ! i)))))"
  have step: "wp (execute_backup_artifact_cleanup_candidate S X state_path None None (as ! length ys))
      (\<lambda>y t'. I (ys @ [y]) t')
      (\<lambda>e s'. run_db s' = run_db s \<and> cleaned X files links root as (run_world s) (run_world s')) t"
    if inv: "I ys t" and n: "length ys < length as" for ys t
  proof -
    have before: "run_db t = run_db s" "cleaned X files links root as (run_world s) (run_world t)"
      "\<And>i. i < length ys \<Longrightarrow> real_path links (run_world s) (ac_content_path (as ! i))
         \<Longrightarrow> result_true (ys ! i) (files (run_world t) (ac_content_path (as ! i)))"
      using inv unfolding I_def by blast+
    show ?thesis
  proof (rule wp_mono [OF execute_effect [OF laws]], goal_cases)
    case (1 y t')
    then have now: "run_db t' = run_db t" "cleaned X files links root [as ! length ys] (run_world t) (run_world t')"
      "real_path links (run_world t) (ac_content_path (as ! length ys))
        \<longrightarrow> result_true y (files (run_world t') (ac_content_path (as ! length ys)))"
      unfolding root_def by blast+
    have cleaned: "cleaned X files links root as (run_world t) (run_world t')"
      by (rule cleaned_mono [OF now(2)]) (use n in simp)
    have links: "links (run_world t) = links (run_world s)" using before(2) unfolding cleaned_def by (rule conjunct1)
    have real: "real_path links (run_world t) = real_path links (run_world s)" by (rule real_path_links) (rule links)
    have "result_true ((ys @ [y]) ! i) (files (run_world t') (ac_content_path (as ! i)))"
      if "i < Suc (length ys)" "real_path links (run_world s) (ac_content_path (as ! i))" for i
    proof (cases "i = length ys")
      case True
      then show ?thesis using now(3) that(2) real by simp
    next
      case False
      then have i: "i < length ys" using that(1) by simp
      then have "result_true (ys ! i) (files (run_world t) (ac_content_path (as ! i)))"
        using before(3) that(2) by blast
      then show ?thesis
        using i cleaned_keeps_none [OF cleaned] by (simp add: result_true_def nth_append)
    qed
    then show ?case
      unfolding I_def using now(1) before(1) cleaned_trans [OF before(2) cleaned] by simp
  next
    case (2 e t')
    then have now: "run_db t' = run_db t" "cleaned X files links root [as ! length ys] (run_world t) (run_world t')"
      unfolding root_def by blast+
    have "cleaned X files links root as (run_world t) (run_world t')"
      by (rule cleaned_mono [OF now(2)]) (use n in simp)
    then show ?case using now(1) before(1) cleaned_trans [OF before(2)] by simp
  qed
  qed
  have done_all: "files (run_world t) (ac_content_path a) = None"
    if all: "length ys = length as" "I ys t" "filter (\<lambda>r. cr_status r \<notin> {''succeeded'', ''skipped''}) ys = []"
      "a \<in> set as" "real_path links (run_world s) (ac_content_path a)" for ys t a
  proof -
    obtain i where i: "i < length as" "as ! i = a" using all(4) by (auto simp: in_set_conv_nth)
    then have "cr_status (ys ! i) \<in> {''succeeded'', ''skipped''}"
      using all(1,3) unfolding filter_empty_conv by (metis nth_mem)
    moreover have "result_true (ys ! i) (files (run_world t) (ac_content_path a))"
      using all(1,2,5) i by (auto simp: I_def)
    ultimately show ?thesis unfolding result_true_def by blast
  qed
  have "wp (each (execute_backup_artifact_cleanup_candidate S X state_path None None) as)
      (\<lambda>ys t. length ys = length as \<and> I ys t)
      (\<lambda>e s'. run_db s' = run_db s \<and> cleaned X files links root as (run_world s) (run_world s')) s"
    by (rule wp_each [OF step]) (simp_all add: I_def)
  then show ?thesis
    unfolding cleanup_backup_artifacts_def as_def [symmetric] wp_rules
    by (rule wp_mono) (use done_all in \<open>auto simp: wp_rules I_def Let_def\<close>)
qed

text \<open>
  C31. The removal of backup artifacts deletes nothing but the artifacts of the batch. Every file
  that is gone after \<open>cleanup_backup_artifacts\<close> has the path that a \<open>backup\<close> checkpoint, or an intent
  without such a checkpoint, prescribes; the path is below the root of the artifacts of this state
  file, and no link leads elsewhere on the way. No file is created or changed, and the database is
  left alone. Two more facts hold of the artifacts whose recorded content path, taken as it is
  written, is absolute, canonical (without \<open>..\<close>) and free of links: such a file had the recorded
  hash and size when it was removed, and when the call returns without debts, no such artifact
  among the planned ones exists any more. For a recorded path with \<open>..\<close> or through a link nothing
  is claimed of the hash, of the size or of what is left.
\<close>

theorem artifact_cleanup_safe:
  assumes "artifact_laws X files links"
    and "cleanup_backup_artifacts S X state_path None checkpoints s = (r, s')"
  shows "run_db s' = run_db s
    \<and> cleaned X files links (backup_artifacts_root state_path)
        (map (artifact_of_checkpoint X state_path) (accountable_checkpoints checkpoints)) (run_world s) (run_world s')
    \<and> (\<forall>ps. r = Inr (Inr ps) \<longrightarrow>
        (\<forall>a \<in> set (plan_backup_artifact_cleanup_candidates X state_path checkpoints).
           real_path links (run_world s) (ac_content_path a) \<longrightarrow> files (run_world s') (ac_content_path a) = None))"
proof -
  have "set (plan_backup_artifact_cleanup_candidates X state_path checkpoints)
      \<subseteq> set (map (artifact_of_checkpoint X state_path) (accountable_checkpoints checkpoints))"
    using planned_artifacts by simp
  note wider = cleaned_mono [OF _ this]
  show ?thesis
    using wp_run [OF cleanup_effect [OF assms(1)] assms(2)]
    by (cases r) (auto intro: wider)
qed

definition sample_files :: "(path \<times> bytes option) list \<Rightarrow> path \<Rightarrow> bytes option" where
  "sample_files w p = (case map_of w p of None \<Rightarrow> None | Some c \<Rightarrow> c)"

definition sample_artifacts :: "(path \<times> bytes option) list artifact_access" where
  "sample_artifacts = \<lparr>aa_env = \<lparr>env_cwd = path_of ''/'', env_expanduser = id\<rparr>,
     aa_uuid5 = (\<lambda>name. ''id''), aa_sha256 = (\<lambda>c. map (\<lambda>b. char_of (unat b)) c),
     aa_is_regular = (\<lambda>p w. (case sample_files w p of None \<Rightarrow> Inl (Raised FileNotFoundError) | Some c \<Rightarrow> Inr True, w)),
     aa_read = (\<lambda>p w. (case sample_files w p of None \<Rightarrow> Inl (Raised FileNotFoundError) | Some c \<Rightarrow> Inr c, w)),
     aa_is_symlink = (\<lambda>p w. (Inr False, w)), aa_delete_checks = (\<lambda>p w. (Inr (), w)),
     aa_unlink = (\<lambda>p w. (Inr (),
       (normpath (path_join \<lparr>path_root = ''/'', path_parts = []\<rparr> p), None) # w))\<rparr>"

lemma sample_artifact_laws: "artifact_laws sample_artifacts sample_files (\<lambda>w p. False)"
proof -
  have cwd: "path_of ''/'' = \<lparr>path_root = ''/'', path_parts = []\<rparr>" by code_simp
  show ?thesis
    by (auto simp: artifact_laws_def link_law_def content_law_def removal_law_def sample_artifacts_def cwd
      path_wf_def is_absolute_def normalized_path_def sample_files_def split: option.splits)
qed

definition sample_checkpoint :: checkpoint_record where
  "sample_checkpoint = \<lparr>checkpoint_id = ''c1'', checkpoint_batch_id = ''b1'', checkpoint_sequence = 1,
     checkpoint_operation_id = Some ''op1'',
     checkpoint_resource_key = ''file:/w/f'', checkpoint_type = ''backup'',
     checkpoint_payload = JObj [(''path'', JStr ''/w/f''), (''content_path'', JStr ''/s/db.artifacts/file-backups/id.bak''),
       (''content_hash'', JStr ''old''), (''size'', JInt 3)],
     checkpoint_created_at = 0\<rparr>"

definition sample_artifact :: path where
  "sample_artifact = path_of ''/s/db.artifacts/file-backups/id.bak''"

definition artifact_state :: "(path \<times> bytes option) list run_state" where
  "artifact_state = \<lparr>run_db = db_attempting, run_world = [(path_of ''/w/f'', Some [110, 101, 119]),
     (sample_artifact, Some [111, 108, 100])], run_tick = 0\<rparr>"

definition sample_cleanup :: "(failure + cleanup_debt list + path list) \<times> (path \<times> bytes option) list run_state" where
  "sample_cleanup = cleanup_backup_artifacts demo_surroundings sample_artifacts (path_of ''/s/db'') None
     [sample_checkpoint] artifact_state"

theorem artifact_cleanup_safe_witness:
  "run_db (snd sample_cleanup) = db_attempting
    \<and> sample_files (run_world (snd sample_cleanup)) sample_artifact = None
    \<and> sample_files (run_world (snd sample_cleanup)) (path_of ''/w/f'') = Some [110, 101, 119]"
proof -
  have run: "(\<lambda>(r, s). r = Inr (Inr [sample_artifact])
      \<and> sample_files (run_world s) (path_of ''/w/f'') = Some [110, 101, 119]) sample_cleanup"
    by code_simp
  then obtain s where s: "sample_cleanup = (Inr (Inr [sample_artifact]), s)"
    and other: "sample_files (run_world s) (path_of ''/w/f'') = Some [110, 101, 119]"
    by (cases sample_cleanup) auto
  have planned: "map ac_content_path (plan_backup_artifact_cleanup_candidates sample_artifacts (path_of ''/s/db'')
      [sample_checkpoint]) = [sample_artifact]" by code_simp
  then obtain a where a: "a \<in> set (plan_backup_artifact_cleanup_candidates sample_artifacts (path_of ''/s/db'')
      [sample_checkpoint])" "ac_content_path a = sample_artifact" by auto
  have "real_path (\<lambda>w p. False) w sample_artifact" for w :: "(path \<times> bytes option) list"
  proof -
    have "path_root sample_artifact = ''/''" "''..'' \<notin> set (path_parts sample_artifact)" by code_simp+
    then show ?thesis
      by (simp add: real_path_def canonical_def is_absolute_def sample_artifact_def)
  qed
  then have "sample_files (run_world s) sample_artifact = None \<and> run_db s = db_attempting"
    using artifact_cleanup_safe [OF sample_artifact_laws s [unfolded sample_cleanup_def]] a
    by (metis artifact_state_def run_state.select_convs(1))
  then show ?thesis unfolding s snd_conv using other by (intro conjI) simp_all
qed

end
