(* ===== verification/Directory_Creation.thy ===== *)
theory Directory_Creation
  imports Lexical_Paths File_Backups
begin

section \<open>Planning the creation of directories\<close>

text \<open>
  \<open>recursive_mkdir.py\<close>: which directories have to be made, from the topmost one down, so that a
  target exists. The loop that climbs from the target to the first existing ancestor has no
  bound in the code; it is \<open>collect_missing_chain\<close>, whose value \<open>None\<close> would be a loop that does
  not end. \<open>path_inspector\<close> is an argument, as in the code; it sees one state of the file system.
\<close>

record path_safety =
  ps_path :: path
  ps_exists :: bool
  ps_file_type :: file_type
  ps_is_mount :: bool
  ps_is_windows_reparse_point :: bool
  ps_hardlink_count :: int
  ps_size :: "int option"

type_synonym inspector = "path \<Rightarrow> path_safety"

record mkdir_step =
  step_path :: path
  step_resource_key :: string
  step_existed_before :: bool
  step_cleanup_eligible :: bool

record mkdir_plan =
  plan_target :: path
  plan_parents :: bool
  plan_exist_ok :: bool
  plan_root_boundary :: "path option"
  plan_target_existed_before :: bool
  plan_steps :: "mkdir_step list"

definition require_safe_existing_directory :: "inspector \<Rightarrow> path \<Rightarrow> error + unit" where
  "require_safe_existing_directory inspect p =
     (let safety = inspect p
      in if ps_file_type safety = FT_SYMLINK then Inl UnsafePathError
         else if ps_is_windows_reparse_point safety then Inl UnsafePathError
         else if ps_is_mount safety then Inl UnsafePathError
         else if ps_file_type safety \<noteq> FT_DIRECTORY then Inl UnsafePathError
         else Inr ())"

definition require_existing_directory :: "inspector \<Rightarrow> path \<Rightarrow> error + unit" where
  "require_existing_directory inspect p =
     (if \<not> ps_exists (inspect p) then Inl FileNotFoundError else require_safe_existing_directory inspect p)"

definition require_path_within_boundary :: "path \<Rightarrow> path \<Rightarrow> error + unit" where
  "require_path_within_boundary p boundary = require (is_relative_to p boundary) UnsafePathError"

partial_function (option) collect_missing_chain ::
  "inspector \<Rightarrow> path option \<Rightarrow> path \<Rightarrow> path list \<Rightarrow> (error + path list) option" where
  "collect_missing_chain inspect boundary current missing_chain =
     (if ps_exists (inspect current)
      then Some (res_bind (require_safe_existing_directory inspect current) (\<lambda>_. Inr missing_chain))
      else if boundary = Some current then Some (Inl FileNotFoundError)
      else if path_parent current = current then Some (Inl FileNotFoundError)
      else collect_missing_chain inspect boundary (path_parent current) (missing_chain @ [current]))"

definition make_step :: "path_env \<Rightarrow> path \<Rightarrow> mkdir_step" where
  "make_step E p = \<lparr>step_path = p, step_resource_key = directory_resource_key E p,
     step_existed_before = False, step_cleanup_eligible = False\<rparr>"

definition checked_boundary :: "inspector \<Rightarrow> path \<Rightarrow> path option \<Rightarrow> error + unit" where
  "checked_boundary inspect target boundary = (case boundary of
      None \<Rightarrow> Inr ()
    | Some b \<Rightarrow> res_bind (require_path_within_boundary target b) (\<lambda>_. require_existing_directory inspect b))"

definition plan_directory_creation ::
  "path_env \<Rightarrow> inspector \<Rightarrow> path \<Rightarrow> bool \<Rightarrow> bool \<Rightarrow> path option \<Rightarrow> (error + mkdir_plan) option" where
  "plan_directory_creation E inspect p parents exist_ok root_boundary =
     (let target = absolute_without_resolving E p;
          boundary = map_option (absolute_without_resolving E) root_boundary;
          plan = \<lparr>plan_target = target, plan_parents = parents, plan_exist_ok = exist_ok,
                  plan_root_boundary = boundary, plan_target_existed_before = True, plan_steps = []\<rparr>
      in case checked_boundary inspect target boundary of
          Inl e \<Rightarrow> Some (Inl e)
        | Inr _ \<Rightarrow>
            if ps_exists (inspect target)
            then Some (res_bind (require_safe_existing_directory inspect target) (\<lambda>_.
                   if exist_ok then Inr plan else Inl FileExistsError))
            else (case collect_missing_chain inspect boundary target [] of
                None \<Rightarrow> None
              | Some (Inl e) \<Rightarrow> Some (Inl e)
              | Some (Inr missing_chain) \<Rightarrow>
                  if \<not> parents \<and> length missing_chain \<noteq> 1 then Some (Inl FileNotFoundError)
                  else Some (Inr (plan\<lparr>plan_target_existed_before := False,
                                       plan_steps := map (make_step E) (rev missing_chain)\<rparr>))))"

subsection \<open>Ancestors\<close>

definition ancestor :: "path \<Rightarrow> nat \<Rightarrow> path" where
  "ancestor p n = p\<lparr>path_parts := take n (path_parts p)\<rparr>"

definition depth :: "path \<Rightarrow> nat" where
  "depth p = length (path_parts p)"

definition safe_directory :: "inspector \<Rightarrow> path \<Rightarrow> bool" where
  "safe_directory inspect p \<longleftrightarrow> ps_exists (inspect p) \<and> ps_file_type (inspect p) = FT_DIRECTORY
     \<and> \<not> ps_is_windows_reparse_point (inspect p) \<and> \<not> ps_is_mount (inspect p)"

lemma ancestor_depth [simp]: "n \<le> depth p \<Longrightarrow> depth (ancestor p n) = n"
  by (simp add: ancestor_def depth_def)

lemma ancestor_self [simp]: "ancestor p (depth p) = p"
  by (simp add: ancestor_def depth_def)

lemma parent_ancestor: "n \<le> depth p \<Longrightarrow> path_parent (ancestor p n) = ancestor p (n - 1)"
  by (simp add: path_parent_def ancestor_def depth_def butlast_take)

lemma ancestor_eq: "m \<le> depth p \<Longrightarrow> n \<le> depth p \<Longrightarrow> ancestor p m = ancestor p n \<longleftrightarrow> m = n"
  using ancestor_depth by metis

lemma relative_ancestor: "is_relative_to p b \<longleftrightarrow> depth b \<le> depth p \<and> b = ancestor p (depth b)"
proof -
  have "prefix bs ps \<longleftrightarrow> length bs \<le> length ps \<and> bs = take (length bs) ps" for bs ps :: "string list"
    by (metis append_eq_conv_conj prefixE prefix_length_le take_is_prefix)
  then show ?thesis by (cases p; cases b) (auto simp: is_relative_to_def ancestor_def depth_def)
qed

lemma safe_existing: "ps_exists (inspect p) \<Longrightarrow>
    require_safe_existing_directory inspect p = (if safe_directory inspect p then Inr () else Inl UnsafePathError)"
  by (auto simp: require_safe_existing_directory_def safe_directory_def Let_def)

text \<open>The depth of the first existing ancestor at or above depth \<open>n\<close>.\<close>

fun first_existing :: "inspector \<Rightarrow> path \<Rightarrow> nat \<Rightarrow> nat option" where
  "first_existing inspect p 0 = (if ps_exists (inspect (ancestor p 0)) then Some 0 else None)"
| "first_existing inspect p (Suc n) =
     (if ps_exists (inspect (ancestor p (Suc n))) then Some (Suc n) else first_existing inspect p n)"

lemma first_existing_Some:
  "first_existing inspect p n = Some d \<longleftrightarrow>
     d \<le> n \<and> ps_exists (inspect (ancestor p d)) \<and> (\<forall>k. d < k \<and> k \<le> n \<longrightarrow> \<not> ps_exists (inspect (ancestor p k)))"
proof (induction n)
  case (Suc n)
  then show ?case by (auto simp: le_Suc_eq)
qed auto

lemma collect_ancestors:
  assumes "n \<le> depth p" and "boundary = None \<or> boundary = Some (ancestor p b) \<and> b \<le> n"
    and "boundary = None \<Longrightarrow> b = 0"
    and "boundary \<noteq> None \<Longrightarrow> ps_exists (inspect (ancestor p b))"
  shows "collect_missing_chain inspect boundary (ancestor p n) chain =
    (case first_existing inspect p n of
       None \<Rightarrow> Some (Inl FileNotFoundError)
     | Some d \<Rightarrow> Some (if safe_directory inspect (ancestor p d)
                       then Inr (chain @ map (ancestor p) (rev [Suc d..<Suc n])) else Inl UnsafePathError))"
  using assms
proof (induction n arbitrary: chain)
  case 0
  then show ?case
    by (subst collect_missing_chain.simps) (auto simp: safe_existing parent_ancestor)
next
  case (Suc n)
  show ?case
  proof (cases "ps_exists (inspect (ancestor p (Suc n)))")
    case True
    then show ?thesis by (subst collect_missing_chain.simps) (simp add: safe_existing)
  next
    case False
    have not_boundary: "boundary \<noteq> Some (ancestor p (Suc n))"
    proof
      assume b: "boundary = Some (ancestor p (Suc n))"
      then have "ancestor p b = ancestor p (Suc n)" using Suc.prems(2) by simp
      then show False using Suc.prems(4) b False by simp
    qed
    have "path_parent (ancestor p (Suc n)) = ancestor p n" "ancestor p n \<noteq> ancestor p (Suc n)"
      using Suc.prems(1) by (simp_all add: parent_ancestor ancestor_eq)
    moreover have "boundary = None \<or> boundary = Some (ancestor p b) \<and> b \<le> n"
      using Suc.prems(2) not_boundary le_Suc_eq by auto
    moreover have "[Suc d..<Suc (Suc n)] = [Suc d..<Suc n] @ [Suc n]" if "first_existing inspect p n = Some d" for d
      using that by (simp add: first_existing_Some)
    ultimately show ?thesis
      using Suc.IH [of "chain @ [ancestor p (Suc n)]"] Suc.prems False not_boundary
      by (subst collect_missing_chain.simps) (auto split: option.splits)
  qed
qed

definition boundary_ok :: "inspector \<Rightarrow> path \<Rightarrow> path option \<Rightarrow> bool" where
  "boundary_ok inspect target boundary \<longleftrightarrow>
     (\<forall>b. boundary = Some b \<longrightarrow> is_relative_to target b \<and> safe_directory inspect b)"

lemma existing_directory: "require_existing_directory inspect p = Inr () \<longleftrightarrow> safe_directory inspect p"
  using safe_existing [of inspect p] by (simp add: require_existing_directory_def safe_directory_def)

lemma checked_boundary_Inr: "checked_boundary inspect target boundary = Inr () \<longleftrightarrow> boundary_ok inspect target boundary"
  by (cases boundary)
    (simp_all add: checked_boundary_def boundary_ok_def require_path_within_boundary_def res_bind_require existing_directory)

lemma boundary_depth:
  assumes "boundary_ok inspect target boundary"
  obtains n where "n \<le> depth target" "boundary = None \<or> boundary = Some (ancestor target n)"
    "boundary = None \<Longrightarrow> n = 0" "boundary \<noteq> None \<Longrightarrow> ps_exists (inspect (ancestor target n))"
    "\<And>b. boundary = Some b \<Longrightarrow> depth b = n"
proof (cases boundary)
  case None
  then show ?thesis using that [of 0] by simp
next
  case (Some b)
  then have "is_relative_to target b" "safe_directory inspect b"
    using assms by (auto simp: boundary_ok_def)
  then have b: "depth b \<le> depth target" "b = ancestor target (depth b)" "ps_exists (inspect b)"
    using relative_ancestor by (blast, blast, simp add: safe_directory_def)
  show ?thesis
  proof (rule that [of "depth b"])
    show "boundary = None \<or> boundary = Some (ancestor target (depth b))"
      unfolding Some using b(2) by blast
    show "ps_exists (inspect (ancestor target (depth b)))" using b(2,3) by metis
  qed (use Some b(1) in simp_all)
qed

definition exact_plan ::
  "path_env \<Rightarrow> inspector \<Rightarrow> path \<Rightarrow> bool \<Rightarrow> bool \<Rightarrow> path option \<Rightarrow> mkdir_plan \<Rightarrow> bool" where
  "exact_plan E inspect target parents exist_ok boundary plan \<longleftrightarrow>
     plan_target plan = target \<and> plan_parents plan = parents \<and> plan_exist_ok plan = exist_ok
     \<and> plan_root_boundary plan = boundary
     \<and> (if plan_target_existed_before plan
        then safe_directory inspect target \<and> exist_ok \<and> plan_steps plan = []
        else \<exists>d < depth target. (\<forall>b. boundary = Some b \<longrightarrow> depth b \<le> d)
          \<and> safe_directory inspect (ancestor target d)
          \<and> (\<forall>k. d < k \<and> k \<le> depth target \<longrightarrow> \<not> ps_exists (inspect (ancestor target k)))
          \<and> (parents \<or> depth target = Suc d)
          \<and> plan_steps plan = map (\<lambda>k. make_step E (ancestor target k)) [Suc d..<Suc (depth target)])"

lemma exact_plan_existing:
  assumes "ps_exists (inspect target)"
  shows "exact_plan E inspect target parents exist_ok boundary plan \<longleftrightarrow>
    plan = \<lparr>plan_target = target, plan_parents = parents, plan_exist_ok = exist_ok,
      plan_root_boundary = boundary, plan_target_existed_before = True, plan_steps = []\<rparr>
    \<and> safe_directory inspect target \<and> exist_ok"
proof -
  have "\<not> (\<forall>k. d < k \<and> k \<le> depth target \<longrightarrow> \<not> ps_exists (inspect (ancestor target k)))"
    if "d < depth target" for d
    using assms that by (intro notI) (auto dest: spec [of _ "depth target"])
  then show ?thesis by (cases plan) (auto simp: exact_plan_def)
qed

lemma exact_plan_missing:
  assumes "\<not> ps_exists (inspect target)" and "boundary_ok inspect target boundary"
  shows "exact_plan E inspect target parents exist_ok boundary plan \<longleftrightarrow>
    (case first_existing inspect target (depth target) of
       None \<Rightarrow> False
     | Some d \<Rightarrow> safe_directory inspect (ancestor target d) \<and> (parents \<or> depth target = Suc d)
         \<and> plan = \<lparr>plan_target = target, plan_parents = parents, plan_exist_ok = exist_ok,
             plan_root_boundary = boundary, plan_target_existed_before = False,
             plan_steps = map (\<lambda>k. make_step E (ancestor target k)) [Suc d..<Suc (depth target)]\<rparr>)"
proof -
  let ?first = "first_existing inspect target (depth target)"
  have not_safe: "\<not> safe_directory inspect target" using assms(1) by (simp add: safe_directory_def)
  have first: "?first = Some d" if "d < depth target" "safe_directory inspect (ancestor target d)"
    "\<forall>k. d < k \<and> k \<le> depth target \<longrightarrow> \<not> ps_exists (inspect (ancestor target k))" for d
    using that by (simp add: first_existing_Some safe_directory_def)
  have below: "d < depth target" "\<And>b. boundary = Some b \<Longrightarrow> depth b \<le> d"
    "\<forall>k. d < k \<and> k \<le> depth target \<longrightarrow> \<not> ps_exists (inspect (ancestor target k))"
    if "?first = Some d" for d
  proof -
    have d: "d \<le> depth target" "ps_exists (inspect (ancestor target d))"
      and k: "\<forall>k. d < k \<and> k \<le> depth target \<longrightarrow> \<not> ps_exists (inspect (ancestor target k))"
      using that by (simp_all add: first_existing_Some)
    show "\<forall>k. d < k \<and> k \<le> depth target \<longrightarrow> \<not> ps_exists (inspect (ancestor target k))" by (rule k)
    show "d < depth target" using d assms(1) by (cases "d = depth target") auto
    fix b assume b: "boundary = Some b"
    obtain n where n: "n \<le> depth target" "ps_exists (inspect (ancestor target n))" "depth b = n"
      by (rule boundary_depth [OF assms(2)]) (use b in simp)
    show "depth b \<le> d" using n k by (metis not_le)
  qed
  have unique: "d' = d" if "?first = Some d" "d' < depth target" "safe_directory inspect (ancestor target d')"
    "\<forall>k. d' < k \<and> k \<le> depth target \<longrightarrow> \<not> ps_exists (inspect (ancestor target k))" for d d'
    using first [OF that(2-4)] that(1) by simp
  let ?plan = "\<lambda>d. \<lparr>plan_target = target, plan_parents = parents, plan_exist_ok = exist_ok,
    plan_root_boundary = boundary, plan_target_existed_before = False,
    plan_steps = map (\<lambda>k. make_step E (ancestor target k)) [Suc d..<Suc (depth target)]\<rparr>"
  have plan: "exact_plan E inspect target parents exist_ok boundary plan \<longleftrightarrow>
    (\<exists>d < depth target. (\<forall>b. boundary = Some b \<longrightarrow> depth b \<le> d)
      \<and> safe_directory inspect (ancestor target d)
      \<and> (\<forall>k. d < k \<and> k \<le> depth target \<longrightarrow> \<not> ps_exists (inspect (ancestor target k)))
      \<and> (parents \<or> depth target = Suc d) \<and> plan = ?plan d)"
    by (cases plan) (simp add: exact_plan_def not_safe conj_ac)
  show ?thesis
  proof (cases ?first)
    case None
    then show ?thesis unfolding plan using first by (metis option.distinct(1) option.simps(4))
  next
    case (Some d)
    show ?thesis unfolding plan Some option.case
    proof
      assume "safe_directory inspect (ancestor target d) \<and> (parents \<or> depth target = Suc d) \<and> plan = ?plan d"
      then show "\<exists>d < depth target. (\<forall>b. boundary = Some b \<longrightarrow> depth b \<le> d)
        \<and> safe_directory inspect (ancestor target d)
        \<and> (\<forall>k. d < k \<and> k \<le> depth target \<longrightarrow> \<not> ps_exists (inspect (ancestor target k)))
        \<and> (parents \<or> depth target = Suc d) \<and> plan = ?plan d"
        using below [OF Some] by (intro exI [of _ d]) simp
    qed (use unique [OF Some] in blast)
  qed
qed

lemma plan_exact:
  assumes "target = absolute_without_resolving E p"
    and "boundary = map_option (absolute_without_resolving E) root_boundary"
  shows "\<exists>r. plan_directory_creation E inspect p parents exist_ok root_boundary = Some r
    \<and> (\<forall>plan. r = Inr plan \<longleftrightarrow>
      boundary_ok inspect target boundary \<and> exact_plan E inspect target parents exist_ok boundary plan)"
proof (cases "boundary_ok inspect target boundary")
  case False
  then obtain e where "checked_boundary inspect target boundary = Inl e"
    using checked_boundary_Inr [of inspect target boundary] by (cases "checked_boundary inspect target boundary") auto
  then show ?thesis
    using False
    unfolding plan_directory_creation_def Let_def assms(1) [symmetric] assms(2) [symmetric] by simp
next
  case True
  then have c: "checked_boundary inspect target boundary = Inr ()" by (simp add: checked_boundary_Inr)
  obtain n where "n \<le> depth target" "boundary = None \<or> boundary = Some (ancestor target n)"
    "boundary = None \<Longrightarrow> n = 0" "boundary \<noteq> None \<Longrightarrow> ps_exists (inspect (ancestor target n))"
    using boundary_depth [OF True] by metis
  then have collect: "collect_missing_chain inspect boundary target [] =
    (case first_existing inspect target (depth target) of
       None \<Rightarrow> Some (Inl FileNotFoundError)
     | Some d \<Rightarrow> Some (if safe_directory inspect (ancestor target d)
                       then Inr ([] @ map (ancestor target) (rev [Suc d..<Suc (depth target)])) else Inl UnsafePathError))"
    using collect_ancestors [of "depth target" target boundary n inspect "[]"] by simp
  show ?thesis
  proof (cases "ps_exists (inspect target)")
    case e: True
    then show ?thesis
      using True
      unfolding plan_directory_creation_def Let_def assms(1) [symmetric] assms(2) [symmetric]
      by (auto simp: c safe_existing exact_plan_existing)
  next
    case e: False
    have "length [Suc d..<Suc (depth target)] = 1 \<longleftrightarrow> depth target = Suc d"
      if "first_existing inspect target (depth target) = Some d" for d
      using that by (auto simp: first_existing_Some)
    then show ?thesis
      using True e
      unfolding plan_directory_creation_def Let_def assms(1) [symmetric] assms(2) [symmetric]
      by (auto simp: c collect exact_plan_missing rev_map comp_def
          simp del: upt_Suc length_upt split: option.splits)
  qed
qed

lemma canonical_ancestor: "canonical p \<Longrightarrow> canonical (ancestor p n)"
  by (auto simp: canonical_def ancestor_def path_wf_def is_absolute_def list_all_iff dest: in_set_takeD)

lemma make_step_ancestor:
  assumes "env_wf E" and "path_wf p"
  shows "make_step E (ancestor (absolute_without_resolving E p) k) =
    \<lparr>step_path = ancestor (absolute_without_resolving E p) k,
     step_resource_key = ''directory:'' @ path_text (ancestor (absolute_without_resolving E p) k),
     step_existed_before = False, step_cleanup_eligible = False\<rparr>"
  using absolute_id [OF assms(1) canonical_ancestor [OF absolute_canonical [OF assms]]]
  by (simp add: make_step_def directory_resource_key_def)

text \<open>
  C28. Planning a directory ends and is exact. For every path, boundary and state of the file
  system the climb to the first existing ancestor ends. A plan is returned in exactly two
  situations, both within a boundary that is itself a safe directory: the target is a safe
  directory already and may be, and nothing is to be made; or the target is missing, its first
  existing ancestor, at some depth \<open>d\<close> not above the boundary, is a safe directory, and the steps
  are the ancestors at the depths \<open>d + 1\<close> up to that of the target, in this order and each
  missing. Without \<open>parents\<close> there is one step only. In every other situation it raises.
\<close>

theorem directory_plan_exact:
  fixes root_boundary :: "path option"
  assumes "env_wf E" and "path_wf p"
  defines "target \<equiv> absolute_without_resolving E p"
    and "boundary \<equiv> map_option (absolute_without_resolving E) root_boundary"
  shows "plan_directory_creation E inspect p parents exist_ok root_boundary \<noteq> None
    \<and> (plan_directory_creation E inspect p parents exist_ok root_boundary = Some (Inr plan) \<longleftrightarrow>
       (\<forall>b. boundary = Some b \<longrightarrow> is_relative_to target b \<and> safe_directory inspect b)
       \<and> plan_target plan = target \<and> plan_parents plan = parents \<and> plan_exist_ok plan = exist_ok
       \<and> plan_root_boundary plan = boundary
       \<and> (if plan_target_existed_before plan
          then safe_directory inspect target \<and> exist_ok \<and> plan_steps plan = []
          else \<exists>d < depth target. (\<forall>b. boundary = Some b \<longrightarrow> depth b \<le> d)
            \<and> safe_directory inspect (ancestor target d)
            \<and> (\<forall>k. d < k \<and> k \<le> depth target \<longrightarrow> \<not> ps_exists (inspect (ancestor target k)))
            \<and> (parents \<or> depth target = Suc d)
            \<and> plan_steps plan = map (\<lambda>k.
                \<lparr>step_path = ancestor target k, step_resource_key = ''directory:'' @ path_text (ancestor target k),
                 step_existed_before = False, step_cleanup_eligible = False\<rparr>) [Suc d..<Suc (depth target)]))"
proof -
  obtain r where r: "plan_directory_creation E inspect p parents exist_ok root_boundary = Some r"
    and iff: "r = Inr plan \<longleftrightarrow>
      boundary_ok inspect target boundary \<and> exact_plan E inspect target parents exist_ok boundary plan"
    using plan_exact target_def boundary_def by metis
  show ?thesis
    unfolding r option.inject iff boundary_ok_def exact_plan_def
    by (simp add: make_step_ancestor [OF assms(1,2)] target_def)
qed

definition sample_env :: path_env where
  "sample_env = \<lparr>env_cwd = path_of ''/w'', env_expanduser = id\<rparr>"

definition sample_inspect :: inspector where
  "sample_inspect p = \<lparr>ps_path = p, ps_exists = depth p \<le> 1,
     ps_file_type = (if depth p \<le> 1 then FT_DIRECTORY else FT_MISSING), ps_is_mount = False,
     ps_is_windows_reparse_point = False, ps_hardlink_count = 2, ps_size = None\<rparr>"

lemma sample_env_wf: "env_wf sample_env"
  by (simp add: sample_env_def env_wf_def path_of_def root_of_def path_wf_def is_part_def)

theorem directory_plan_exact_witness:
  "plan_directory_creation sample_env sample_inspect (path_of ''b/../c/d'') True False (Some (path_of ''/w''))
    = Some (Inr \<lparr>plan_target = path_of ''/w/c/d'', plan_parents = True, plan_exist_ok = False,
        plan_root_boundary = Some (path_of ''/w''), plan_target_existed_before = False,
        plan_steps = [\<lparr>step_path = path_of ''/w/c'', step_resource_key = ''directory:/w/c'',
            step_existed_before = False, step_cleanup_eligible = False\<rparr>,
          \<lparr>step_path = path_of ''/w/c/d'', step_resource_key = ''directory:/w/c/d'',
            step_existed_before = False, step_cleanup_eligible = False\<rparr>]\<rparr>)"
proof -
  have t: "absolute_without_resolving sample_env (path_of ''b/../c/d'') = path_of ''/w/c/d''"
    "absolute_without_resolving sample_env (path_of ''/w'') = path_of ''/w''" by code_simp+
  have d: "depth (path_of ''/w/c/d'') = 3" "depth (path_of ''/w'') = 1"
    "ancestor (path_of ''/w/c/d'') (Suc 0) = path_of ''/w''" "ancestor (path_of ''/w/c/d'') (Suc (Suc 0)) = path_of ''/w/c''"
    "ancestor (path_of ''/w/c/d'') (Suc (Suc (Suc 0))) = path_of ''/w/c/d''" "path_text (path_of ''/w/c'') = ''/w/c''"
    "path_text (path_of ''/w/c/d'') = ''/w/c/d''" "is_relative_to (path_of ''/w/c/d'') (path_of ''/w'')"
    "safe_directory sample_inspect (path_of ''/w'')" by code_simp+
  have m: "\<not> ps_exists (sample_inspect (ancestor (path_of ''/w/c/d'') k))" if "1 < k" "k \<le> 3" for k
    using that d(1) by (simp add: sample_inspect_def)
  show ?thesis
    by (rule directory_plan_exact [OF sample_env_wf path_wf_of, THEN conjunct2, THEN iffD2], unfold t)
      (auto simp: t d m upt_rec intro!: exI [of _ "1::nat"])
qed

end
