(* ===== verification/Mutation_Records.thy ===== *)
theory Mutation_Records
  imports Backup_Artifacts
begin

section \<open>What a journaled mutation records\<close>

text \<open>
  The parts of a journaled file system mutation that surround the mutation itself: the check of
  lease and claim in \<open>operation_journal/filesystem_mutations.py\<close>, the records of failures in
  \<open>filesystem_failure_records.py\<close> and the checkpoints in \<open>filesystem_mutation_checkpoints.py\<close>. The
  operations that the coordinator calls on files are the fields of \<open>coordinator\<close>.
\<close>

type_synonym entries = "(string \<times> json) list"

record rename_record =
  rn_source_path :: path
  rn_destination_path :: path
  rn_file_type :: file_type
  rn_device :: int
  rn_inode :: int
  rn_size :: int
  rn_mtime_ns :: int
  rn_ctime_ns :: "int option"

record directory_identity =
  di_device :: int
  di_inode :: int

record captured_directory =
  cd_original_path :: path
  cd_quarantine_path :: path
  cd_original_identity :: directory_identity
  cd_captured_identity :: directory_identity
  cd_ownership_class :: string
  cd_capture_token :: "string option"

text \<open>\<open>lstat\<close>: is it a regular file, its size, its modification time, its permission bits.\<close>

record 'w coordinator =
  co_digest :: digest
  co_loads :: "string \<Rightarrow> json option"
  co_state_path :: path
  co_snapshot :: "path \<Rightarrow> 'w \<Rightarrow> (failure + resource_snapshot) \<times> 'w"
  co_lstat :: "path \<Rightarrow> 'w \<Rightarrow> (failure + bool \<times> int \<times> int \<times> int) \<times> 'w"
  co_files :: "'w file_access"
  co_artifacts :: "'w artifact_access"
  co_encode :: "string \<Rightarrow> string \<Rightarrow> error + bytes"
  co_write_text :: "path \<Rightarrow> string \<Rightarrow> string \<Rightarrow> string option \<Rightarrow> 'w \<Rightarrow> (failure + unit) \<times> 'w"
  co_write_bytes :: "path \<Rightarrow> bytes \<Rightarrow> int option \<Rightarrow> 'w \<Rightarrow> (failure + unit) \<times> 'w"
  co_delete_file :: "path \<Rightarrow> bool \<Rightarrow> 'w \<Rightarrow> (failure + unit) \<times> 'w"
  co_make_directory :: "path \<Rightarrow> bool \<Rightarrow> bool \<Rightarrow> 'w \<Rightarrow> (failure + unit) \<times> 'w"
  co_rename_no_replace :: "path \<Rightarrow> path \<Rightarrow> 'w \<Rightarrow> (failure + rename_record) \<times> 'w"
  co_capture_directory :: "path \<Rightarrow> path \<Rightarrow> 'w \<Rightarrow> (failure + captured_directory) \<times> 'w"
  co_capture_token :: "path \<Rightarrow> int \<Rightarrow> int \<Rightarrow> bool \<Rightarrow> 'w \<Rightarrow> (failure + string option) \<times> 'w"
  co_preflight :: "(string \<Rightarrow> 'w \<Rightarrow> (failure + unit) \<times> 'w) option"
  co_automatic_file_rollback :: bool
  co_write_bytes_max_bytes :: int
  co_allow_large_writes :: bool
  co_captured_directory_cleanup :: string

text \<open>The arguments that every mutation takes.\<close>

record request =
  rq_resource_key :: string
  rq_lease :: lease_record
  rq_owner :: string
  rq_run_id :: string
  rq_idempotency_key :: string
  rq_operation_run_id :: "string option"
  rq_operation_phase_id :: "string option"
  rq_claim_scope :: "string option"

record mutation_result =
  mr_batch :: operation_batch_record
  mr_operation :: "operation_record option"
  mr_before :: "checkpoint_record option"
  mr_after :: "checkpoint_record option"
  mr_recovery :: "recovery_record option"
  mr_skipped :: bool

subsection \<open>The authority of a mutation\<close>

definition require_lease_bound_claim_details ::
  "digest \<Rightarrow> (string \<Rightarrow> json option) \<Rightarrow> claim_record \<Rightarrow> lease_record \<Rightarrow> error + unit" where
  "require_lease_bound_claim_details H loads claim lease =
     (case lease_bound_claim_details loads (claim_details claim) of
        None \<Rightarrow> Inl (ResourceClaimAuthorityError claim)
      | Some details \<Rightarrow>
          if (case jget details ''claim_id'' of JStr s \<Rightarrow> s = [] | _ \<Rightarrow> True)
          then Inl (ResourceClaimAuthorityError claim)
          else if py_int (jget details ''lease_fencing_token'') \<noteq> Some (lease_fencing_token lease)
          then Inl (ResourceClaimAuthorityError claim)
          else if jget details ''lease_name'' \<noteq> JStr (lease_name lease)
            \<or> jget details ''lease_owner'' \<noteq> JStr (lease_owner lease)
            \<or> jget details ''lease_token_digest'' \<noteq> JStr (lease_token_digest H lease)
          then Inl (ResourceClaimAuthorityError claim)
          else Inr ())"

definition claim_authority ::
  "digest \<Rightarrow> (string \<Rightarrow> json option) \<Rightarrow> string \<Rightarrow> lease_record \<Rightarrow> string \<Rightarrow> string option
    \<Rightarrow> 'a claim_db_scheme \<Rightarrow> error + unit" where
  "claim_authority H loads key lease owner scope db =
     (case get_claim key db of
        None \<Rightarrow> Inl MissingResourceClaimError
      | Some claim \<Rightarrow>
          if lease_owner lease \<noteq> owner then Inl (ResourceClaimAuthorityError claim)
          else if claim_owner claim \<noteq> owner \<or> claim_scope claim \<noteq> scope
          then Inl (ResourceClaimAuthorityError claim)
          else require_lease_bound_claim_details H loads claim lease)"

definition require_authority ::
  "surroundings \<Rightarrow> 'w coordinator \<Rightarrow> request \<Rightarrow> string \<Rightarrow> ('w, unit) program" where
  "require_authority S C rq key =
     bind (operation_time S) (\<lambda>now.
     bind (read S (\<lambda>db. require_current_lease db (rq_lease rq) now)) (\<lambda>_.
     read S (claim_authority (co_digest C) (co_loads C) key (rq_lease rq) (rq_owner rq) (rq_claim_scope rq))))"

subsection \<open>Journal calls\<close>

text \<open>Each call reads the clock first and draws its ids in its transaction.\<close>

definition journal_create_batch ::
  "surroundings \<Rightarrow> 'w coordinator \<Rightarrow> request \<Rightarrow> entries \<Rightarrow> ('w, operation_batch_record) program" where
  "journal_create_batch S C rq intent =
     bind (operation_time S) (\<lambda>now.
     transact S (\<lambda>ids db. create_batch (co_digest C) (rq_idempotency_key rq) (rq_lease rq) (rq_owner rq)
       (rq_run_id rq) (rq_operation_run_id rq) (rq_operation_phase_id rq) (Some (rq_resource_key rq))
       (Some (rq_owner rq)) (rq_claim_scope rq) (Some (JObj intent)) None (ids 0) now db))"

definition journal_start_operation ::
  "surroundings \<Rightarrow> 'w coordinator \<Rightarrow> request \<Rightarrow> string \<Rightarrow> string \<Rightarrow> entries
    \<Rightarrow> ('w, operation_batch_record \<times> operation_record) program" where
  "journal_start_operation S C rq b type intent =
     bind (operation_time S) (\<lambda>now.
     transact S (\<lambda>ids db. start_batch_operation (co_digest C) b (rq_lease rq) type (Some (rq_resource_key rq))
       (Some (JObj intent)) None None (ids 0) now db))"

definition journal_checkpoint ::
  "surroundings \<Rightarrow> 'w coordinator \<Rightarrow> request \<Rightarrow> string \<Rightarrow> string option \<Rightarrow> string \<Rightarrow> json
    \<Rightarrow> time \<Rightarrow> ('w, checkpoint_record) program" where
  "journal_checkpoint S C rq b oid type payload now =
     transact S (\<lambda>ids db. record_checkpoint (co_digest C) b (rq_lease rq) (rq_resource_key rq) type
       (Some payload) oid None None (ids 0) (ids 1) now db)"

definition checkpoint_now ::
  "surroundings \<Rightarrow> 'w coordinator \<Rightarrow> request \<Rightarrow> string \<Rightarrow> string option \<Rightarrow> string \<Rightarrow> json
    \<Rightarrow> ('w, checkpoint_record) program" where
  "checkpoint_now S C rq b oid type payload =
     bind (operation_time S) (\<lambda>now. journal_checkpoint S C rq b oid type payload now)"

definition journal_mark_succeeded ::
  "surroundings \<Rightarrow> request \<Rightarrow> string \<Rightarrow> entries \<Rightarrow> ('w, operation_batch_record) program" where
  "journal_mark_succeeded S rq b result =
     bind (operation_time S) (\<lambda>now.
     transact S (\<lambda>_ db. mark_succeeded b (rq_lease rq) (Some (JObj result)) now db))"

definition journal_mark_failed ::
  "surroundings \<Rightarrow> request \<Rightarrow> string \<Rightarrow> string \<Rightarrow> entries \<Rightarrow> ('w, operation_batch_record) program" where
  "journal_mark_failed S rq b message observed =
     bind (operation_time S) (\<lambda>now.
     transact S (\<lambda>_ db. mark_failed b (rq_lease rq) message (Some (JObj observed)) now db))"

definition journal_recovery_desired ::
  "surroundings \<Rightarrow> 'w coordinator \<Rightarrow> request \<Rightarrow> string \<Rightarrow> string \<Rightarrow> entries \<Rightarrow> ('w, recovery_record) program" where
  "journal_recovery_desired S C rq b reason details =
     bind (operation_time S) (\<lambda>now.
     transact S (\<lambda>ids db. record_recovery_desired (co_digest C) b (rq_lease rq) (Some reason)
       (Some (JObj details)) None (ids 0) (ids 1) now db))"

definition journal_lease_lost ::
  "surroundings \<Rightarrow> 'w coordinator \<Rightarrow> request \<Rightarrow> string \<Rightarrow> string \<Rightarrow> entries \<Rightarrow> ('w, recovery_record) program" where
  "journal_lease_lost S C rq b reason details =
     bind (operation_time S) (\<lambda>now.
     transact S (\<lambda>ids db. record_lease_lost_recovery_desired (co_digest C) b (rq_lease rq)
       (Some (rq_resource_key rq)) (Some reason) (Some (JObj details)) None (ids 1) now db))"

subsection \<open>Records of failures\<close>

text \<open>\<open>except Exception\<close>: everything but an interrupt.\<close>

definition failure_type :: "surroundings \<Rightarrow> failure \<Rightarrow> string" where
  "failure_type S e = fst (set_describe S e)"

definition observed :: "('w, 'a) program \<Rightarrow> ('w, failure + 'a) program" where
  "observed m = attempt (bind m (\<lambda>x. ret (Inr x))) (\<lambda>e. if e = Interrupt then None else Some (ret (Inl e)))"

definition recording :: "('w, 'a) program \<Rightarrow> (failure \<Rightarrow> ('w, 'b) program) \<Rightarrow> ('w, 'a) program" where
  "recording m handle = attempt m (\<lambda>e. if e = Interrupt then None else Some (bind (handle e) (\<lambda>_. raise e)))"

definition record_interrupted_if_taken_over ::
  "surroundings \<Rightarrow> 'w coordinator \<Rightarrow> request \<Rightarrow> operation_batch_record \<Rightarrow> string \<Rightarrow> ('w, unit) program" where
  "record_interrupted_if_taken_over S C rq batch reason =
     (let lease = rq_lease rq
      in if br_lease_name batch \<noteq> lease_name lease
            \<or> br_lease_fencing_token batch \<ge> lease_fencing_token lease then ret ()
         else if br_phase batch \<notin> {PLANNED, ATTEMPTING} then ret ()
         else bind (operation_time S) (\<lambda>now.
           bind (transact S (\<lambda>ids db. record_interrupted_recovery_desired (co_digest C) (br_batch_id batch) lease
             (Some (rq_resource_key rq)) (Some reason)
             (Some (JObj [(''resource_key'', JStr (rq_resource_key rq)),
                (''previous_lease'', JObj [(''name'', JStr (br_lease_name batch)),
                   (''fencing_token'', JInt (br_lease_fencing_token batch))]),
                (''current_lease'', JObj [(''name'', JStr (lease_name lease)),
                   (''fencing_token'', JInt (lease_fencing_token lease))])]))
             None (ids 1) now db)) (\<lambda>_. ret ())))"

text \<open>\<open>try: m; except LeaseLostError: return lost()\<close>, then the rest of the function.\<close>

definition unless_lost ::
  "('w, 'a) program \<Rightarrow> ('w, recovery_record) program \<Rightarrow> ('w, recovery_record) program \<Rightarrow> ('w, recovery_record) program" where
  "unless_lost m lost rest =
     bind (attempt (bind m (\<lambda>_. ret None))
       (\<lambda>e. if e = Raised LeaseLostError then Some (bind lost (\<lambda>r. ret (Some r))) else None)) (\<lambda>r.
     case r of Some record \<Rightarrow> ret record | None \<Rightarrow> rest)"

definition fail_and_desire_recovery ::
  "surroundings \<Rightarrow> 'w coordinator \<Rightarrow> request \<Rightarrow> string \<Rightarrow> string \<Rightarrow> entries \<Rightarrow> string \<Rightarrow> entries
    \<Rightarrow> ('w, recovery_record) program" where
  "fail_and_desire_recovery S C rq b message failure_payload reason details =
     unless_lost (journal_mark_failed S rq b message failure_payload)
       (journal_lease_lost S C rq b reason details)
       (attempt (journal_recovery_desired S C rq b reason details)
          (\<lambda>e. if e = Raised LeaseLostError then Some (journal_lease_lost S C rq b reason details) else None))"

definition failure_entries :: "surroundings \<Rightarrow> request \<Rightarrow> path \<Rightarrow> failure \<Rightarrow> entries" where
  "failure_entries S rq p e =
     [(''path'', JStr (path_text p)), (''resource_key'', JStr (rq_resource_key rq)),
      (''error_type'', JStr (failure_type S e)), (''error'', JStr (failure_text S e))]"

definition staged_failure_entries :: "surroundings \<Rightarrow> request \<Rightarrow> path \<Rightarrow> string \<Rightarrow> failure \<Rightarrow> entries" where
  "staged_failure_entries S rq p stage e =
     [(''path'', JStr (path_text p)), (''resource_key'', JStr (rq_resource_key rq)), (''stage'', JStr stage),
      (''error_type'', JStr (failure_type S e)), (''error'', JStr (failure_text S e))]"

definition snapshot_error_entry :: "surroundings \<Rightarrow> failure \<Rightarrow> string \<times> json" where
  "snapshot_error_entry S e = (''snapshot_error'',
     JObj [(''error_type'', JStr (failure_type S e)), (''error'', JStr (failure_text S e))])"

definition recovery_details :: "entries \<Rightarrow> request \<Rightarrow> resource_snapshot \<Rightarrow> entries \<Rightarrow> entries" where
  "recovery_details recovery rq before failure_payload =
     assoc_update recovery [(''resource_key'', JStr (rq_resource_key rq)), (''before'', snapshot_payload before),
       (''failure'', JObj failure_payload)]"

definition record_mutation_failure ::
  "surroundings \<Rightarrow> 'w coordinator \<Rightarrow> request \<Rightarrow> string \<Rightarrow> path \<Rightarrow> resource_snapshot \<Rightarrow> entries \<Rightarrow> string option
    \<Rightarrow> failure \<Rightarrow> ('w, recovery_record) program" where
  "record_mutation_failure S C rq b p before recovery stage e =
     bind (observed (world_call (co_snapshot C p))) (\<lambda>current.
     let failure_payload = failure_entries S rq p e
           @ (case stage of None \<Rightarrow> [] | Some s \<Rightarrow> [(''stage'', JStr s)])
           @ [case current of Inl e' \<Rightarrow> snapshot_error_entry S e' | Inr x \<Rightarrow> (''snapshot'', snapshot_payload x)];
         details = recovery_details recovery rq before failure_payload;
         fail = fail_and_desire_recovery S C rq b (failure_text S e) failure_payload ''filesystem mutation failed'' details
     in case current of
          Inl _ \<Rightarrow> fail
        | Inr x \<Rightarrow> unless_lost (checkpoint_now S C rq b None ''failure'' (snapshot_payload x))
            (journal_lease_lost S C rq b ''filesystem mutation failed'' details) fail)"

definition record_before_snapshot_failure ::
  "surroundings \<Rightarrow> 'w coordinator \<Rightarrow> request \<Rightarrow> string \<Rightarrow> path \<Rightarrow> entries \<Rightarrow> failure \<Rightarrow> ('w, recovery_record) program" where
  "record_before_snapshot_failure S C rq b p recovery e =
     (let failure_payload = staged_failure_entries S rq p ''before_snapshot'' e
      in fail_and_desire_recovery S C rq b (failure_text S e) failure_payload ''filesystem before-snapshot failed''
           (assoc_update recovery [(''resource_key'', JStr (rq_resource_key rq)), (''failure'', JObj failure_payload)]))"

definition record_post_mutation_failure ::
  "surroundings \<Rightarrow> 'w coordinator \<Rightarrow> request \<Rightarrow> string \<Rightarrow> path \<Rightarrow> resource_snapshot \<Rightarrow> resource_snapshot option
    \<Rightarrow> entries \<Rightarrow> string \<Rightarrow> failure \<Rightarrow> ('w, recovery_record) program" where
  "record_post_mutation_failure S C rq b p before after recovery stage e =
     bind (case after of Some x \<Rightarrow> ret (Inr x) | None \<Rightarrow> observed (world_call (co_snapshot C p))) (\<lambda>current.
     let failure_payload = staged_failure_entries S rq p stage e
           @ [case current of Inl e' \<Rightarrow> snapshot_error_entry S e' | Inr x \<Rightarrow> (''after'', snapshot_payload x)]
     in fail_and_desire_recovery S C rq b (''filesystem post-mutation journal failed during '' @ stage)
          failure_payload ''filesystem post-mutation journal failed''
          (recovery_details recovery rq before failure_payload))"

subsection \<open>Checkpoints\<close>

definition validated_backup_permissions ::
  "'w coordinator \<Rightarrow> path \<Rightarrow> resource_snapshot \<Rightarrow> ('w, int) program" where
  "validated_backup_permissions C p before =
     (if snap_file_type before \<noteq> FT_FILE \<or> \<not> snap_exists before then raise (Raised ValueError)
      else bind (attempt (world_call (co_lstat C p))
             (\<lambda>e. if e \<in> os_errors then Some (raise (Raised ValueError)) else None)) (\<lambda>(regular, size, mtime, mode).
        if \<not> regular then raise (Raised ValueError)
        else if Some size \<noteq> snap_size before \<or> Some mtime \<noteq> snap_mtime_ns before then raise (Raised ValueError)
        else ret mode))"

definition planned_backup_payload ::
  "'w coordinator \<Rightarrow> path \<Rightarrow> resource_snapshot \<Rightarrow> path \<Rightarrow> ('w, json) program" where
  "planned_backup_payload C p before content_path =
     (if snap_file_type before = FT_MISSING
      then bind (made_backup (missing_backup p before)) (\<lambda>b. ret (captured_backup_payload b))
      else bind (validated_backup_permissions C p before) (\<lambda>permissions.
        bind (made_backup \<lparr>fb_path = p, fb_existed = True, fb_file_type = FT_FILE, fb_content_bytes = None,
          fb_content_path = Some content_path, fb_content_hash = snap_content_hash before,
          fb_size = snap_size before, fb_permissions = Some permissions, fb_snapshot = before,
          fb_content_address = None\<rparr>) (\<lambda>b. ret (captured_backup_payload b))))"

definition capture_backup_artifact ::
  "'w coordinator \<Rightarrow> path \<Rightarrow> resource_snapshot \<Rightarrow> path \<Rightarrow> ('w, file_backup) program" where
  "capture_backup_artifact C p before content_path =
     capture_backup (co_files C) (absolute_without_resolving (aa_env (co_artifacts C))) p (Some before)
       (Some content_path) None"

definition expected_after_checkpoint_payload :: "path \<Rightarrow> entries \<Rightarrow> entries" where
  "expected_after_checkpoint_payload p recovery =
     assoc_set ''path'' (JStr (path_text p))
       (case jget (JObj recovery) ''desired'' of JObj desired \<Rightarrow> desired | _ \<Rightarrow> [])"

definition cleanup_plan_entries :: "checkpoint_record \<Rightarrow> artifact_candidate \<Rightarrow> entries" where
  "cleanup_plan_entries intent a =
     [(''checkpoint_id'', JStr (checkpoint_id intent)), (''content_path'', JStr (path_text (ac_content_path a)))]
     @ (case ac_expected_content_path a of
          None \<Rightarrow> [] | Some p \<Rightarrow> [(''expected_content_path'', JStr (path_text p))])
     @ (case ac_debt a of
          None \<Rightarrow> [] | Some d \<Rightarrow> [(''reason_code'', JStr (debt_reason_code d)), (''detail'', JStr (debt_detail d))])"

definition plan_artifact_cleanup ::
  "surroundings \<Rightarrow> 'w coordinator \<Rightarrow> request \<Rightarrow> string \<Rightarrow> checkpoint_record \<Rightarrow> time
    \<Rightarrow> ('w, artifact_cleanup_record list) program" where
  "plan_artifact_cleanup S C rq b intent now =
     each (\<lambda>a. transact S (\<lambda>ids db. record_artifact_cleanup_planned b (rq_lease rq) (ac_artifact_id a)
         ''deferred_cleanup'' (Some (ac_resource_key a)) (Some (JObj (cleanup_plan_entries intent a)))
         None (ids 0) now db))
       (plan_backup_artifact_cleanup_candidates (co_artifacts C) (co_state_path C) [intent])"

definition rollback_operations :: "string set" where
  "rollback_operations = {''write_bytes'', ''write_text'', ''delete_file''}"

text \<open>The checkpoints after \<open>before\<close>: the intent to store a backup, the backup, the expected outcome.\<close>

definition record_backup_intent ::
  "surroundings \<Rightarrow> 'w coordinator \<Rightarrow> request \<Rightarrow> string \<Rightarrow> string \<Rightarrow> json \<Rightarrow> ('w, unit) program" where
  "record_backup_intent S C rq b oid backup_payload =
     bind (operation_time S) (\<lambda>now.
     bind (journal_checkpoint S C rq b (Some oid) ''backup_artifact_intent'' backup_payload now) (\<lambda>intent.
     bind (plan_artifact_cleanup S C rq b intent now) (\<lambda>_. ret ())))"

definition store_backup ::
  "surroundings \<Rightarrow> 'w coordinator \<Rightarrow> request \<Rightarrow> string \<Rightarrow> string \<Rightarrow> path \<Rightarrow> resource_snapshot \<Rightarrow> path \<Rightarrow> json
    \<Rightarrow> ('w, checkpoint_record) program" where
  "store_backup S C rq b oid p before content_path backup_payload =
     bind (capture_backup_artifact C p before content_path) (\<lambda>captured.
     if \<not> py_eq (captured_backup_payload captured) backup_payload then raise (Raised ValueError)
     else checkpoint_now S C rq b (Some oid) ''backup'' backup_payload)"

definition record_rollback_proof ::
  "surroundings \<Rightarrow> 'w coordinator \<Rightarrow> request \<Rightarrow> string \<Rightarrow> string \<Rightarrow> path \<Rightarrow> resource_snapshot \<Rightarrow> entries
    \<Rightarrow> ('w, entries) program" where
  "record_rollback_proof S C rq b oid p before recovery =
     (let content_path = backup_content_path (co_artifacts C) (co_state_path C) b oid p;
          expected_after = JObj (expected_after_checkpoint_payload p recovery)
      in bind (planned_backup_payload C p before content_path) (\<lambda>backup_payload.
         bind (record_backup_intent S C rq b oid backup_payload) (\<lambda>_.
         bind (store_backup S C rq b oid p before content_path backup_payload) (\<lambda>_.
         bind (checkpoint_now S C rq b (Some oid) ''expected_after'' expected_after) (\<lambda>_.
         ret (assoc_update recovery [(''backup'', backup_payload), (''expected_after'', expected_after)]))))))"

definition prepare_mutation_checkpoints ::
  "surroundings \<Rightarrow> 'w coordinator \<Rightarrow> request \<Rightarrow> string \<Rightarrow> string \<Rightarrow> path \<Rightarrow> resource_snapshot \<Rightarrow> string \<Rightarrow> entries
    \<Rightarrow> ('w, checkpoint_record \<times> entries) program" where
  "prepare_mutation_checkpoints S C rq b oid p before kind recovery =
     bind (checkpoint_now S C rq b (Some oid) ''before'' (snapshot_payload before)) (\<lambda>before_checkpoint.
     if kind \<notin> rollback_operations \<or> \<not> co_automatic_file_rollback C
     then ret (before_checkpoint, recovery)
     else bind (record_rollback_proof S C rq b oid p before recovery) (\<lambda>updated.
       ret (before_checkpoint, updated)))"

definition make_directory_after_checkpoint_payload :: "resource_snapshot \<Rightarrow> json \<Rightarrow> json" where
  "make_directory_after_checkpoint_payload x payload =
     (if \<not> snap_exists x \<or> snap_file_type x \<noteq> FT_DIRECTORY then payload
      else case (snap_device x, snap_inode x, payload) of
          (Some device, Some inode, JObj kvs) \<Rightarrow>
            JObj (assoc_update kvs [(''device'', JInt device), (''inode'', JInt inode)])
        | _ \<Rightarrow> payload)"

definition record_after_mutation_checkpoint ::
  "surroundings \<Rightarrow> 'w coordinator \<Rightarrow> request \<Rightarrow> string \<Rightarrow> string \<Rightarrow> resource_snapshot \<Rightarrow> string
    \<Rightarrow> ('w, checkpoint_record) program" where
  "record_after_mutation_checkpoint S C rq b oid after kind =
     checkpoint_now S C rq b (Some oid) ''after''
       (if kind = ''make_directory''
        then make_directory_after_checkpoint_payload after (snapshot_payload after) else snapshot_payload after)"

end
