(* ===== verification/File_Mutations.thy ===== *)
theory File_Mutations
  imports Mutation_Records
begin

section \<open>Journaled file system mutations\<close>

text \<open>
  \<open>operation_journal/filesystem_mutations.py\<close>: every mutation opens a batch under the
  caller's lease and claim, records its operation before anything is changed, records what a
  recovery will need, calls the mutation, and records how it ended. \<open>run_file_mutation\<close> is the common
  course of writes, deletions and single directories.
\<close>

subsection \<open>Opening the batch\<close>

definition skipped_result :: "operation_batch_record \<Rightarrow> mutation_result" where
  "skipped_result batch = \<lparr>mr_batch = batch, mr_operation = None, mr_before = None, mr_after = None,
     mr_recovery = None, mr_skipped = True\<rparr>"

text \<open>\<open>Inl\<close>: the batch had succeeded before; \<open>Inr\<close>: it is started, with its operation.\<close>

definition start_operation ::
  "surroundings \<Rightarrow> 'w coordinator \<Rightarrow> request \<Rightarrow> operation_batch_record \<Rightarrow> string \<Rightarrow> entries
    \<Rightarrow> ('w, operation_batch_record \<times> operation_record) program" where
  "start_operation S C rq batch type intent =
     attempt (journal_start_operation S C rq (br_batch_id batch) type intent)
       (\<lambda>e. if e = Raised BatchStartConflictError then Some (
            bind (read S (\<lambda>db. Inr (get_batch (br_batch_id batch) db))) (\<lambda>found.
            bind (record_interrupted_if_taken_over S C rq (case found of None \<Rightarrow> batch | Some current \<Rightarrow> current)
              ''retry found abandoned batch with journal records'') (\<lambda>_.
            raise BatchState))) else None)"

definition open_batch ::
  "surroundings \<Rightarrow> 'w coordinator \<Rightarrow> request \<Rightarrow> string \<Rightarrow> entries
    \<Rightarrow> ('w, mutation_result + operation_batch_record \<times> operation_record) program" where
  "open_batch S C rq type intent =
     bind (journal_create_batch S C rq intent) (\<lambda>batch.
     if br_phase batch = SUCCEEDED then ret (Inl (skipped_result batch))
     else if br_phase batch \<noteq> PLANNED then
       bind (record_interrupted_if_taken_over S C rq batch
         ''retry found abandoned batch outside planned phase'') (\<lambda>_. raise BatchState)
     else bind (start_operation S C rq batch type intent) (\<lambda>started. ret (Inr started)))"

subsection \<open>The course of a mutation\<close>

text \<open>The mutation itself, under the heartbeat of the lease; a failure is recorded and renamed.\<close>

definition mutate_file ::
  "surroundings \<Rightarrow> 'w coordinator \<Rightarrow> request \<Rightarrow> string \<Rightarrow> path \<Rightarrow> resource_snapshot \<Rightarrow> entries \<Rightarrow> ('w, unit) program
    \<Rightarrow> ('w, unit) program" where
  "mutate_file S C rq b p before recovery mutate =
     attempt (run_with_lease_heartbeat S (rq_lease rq) mutate)
       (\<lambda>e. if e = Interrupt then None else Some (
          bind (record_mutation_failure S C rq b p before recovery None e) (\<lambda>_.
          raise (if e = Raised UnsupportedFilesystemBackendError then e
                 else MutationFailed b))))"

text \<open>After the mutation: the snapshot, its checkpoint, and the end of the batch.\<close>

definition finish_file_mutation ::
  "surroundings \<Rightarrow> 'w coordinator \<Rightarrow> request \<Rightarrow> string \<Rightarrow> operation_record \<Rightarrow> path \<Rightarrow> resource_snapshot \<Rightarrow> string \<Rightarrow> entries
    \<Rightarrow> checkpoint_record \<Rightarrow> ('w, mutation_result) program" where
  "finish_file_mutation S C rq b operation p before kind recovery before_checkpoint =
     bind (recording (world_call (co_snapshot C p))
       (record_post_mutation_failure S C rq b p before None recovery ''after_snapshot'')) (\<lambda>after.
     bind (recording (record_after_mutation_checkpoint S C rq b (operation_id operation) after kind)
       (record_post_mutation_failure S C rq b p before (Some after) recovery ''after_checkpoint'')) (\<lambda>after_checkpoint.
     bind (recording (journal_mark_succeeded S rq b
          [(''operation_id'', JStr (operation_id operation)), (''resource_key'', JStr (rq_resource_key rq)),
           (''after'', snapshot_payload after)])
       (record_post_mutation_failure S C rq b p before (Some after) recovery ''mark_succeeded'')) (\<lambda>succeeded.
     ret \<lparr>mr_batch = succeeded, mr_operation = Some operation, mr_before = Some before_checkpoint,
          mr_after = Some after_checkpoint, mr_recovery = None, mr_skipped = False\<rparr>)))"

definition perform_file_mutation ::
  "surroundings \<Rightarrow> 'w coordinator \<Rightarrow> request \<Rightarrow> string \<Rightarrow> operation_record \<Rightarrow> path \<Rightarrow> string \<Rightarrow> entries
    \<Rightarrow> ('w, unit) program \<Rightarrow> ('w, mutation_result) program" where
  "perform_file_mutation S C rq b operation p kind recovery mutate =
     bind (recording (world_call (co_snapshot C p)) (record_before_snapshot_failure S C rq b p recovery)) (\<lambda>before.
     bind (recording (run_with_lease_heartbeat S (rq_lease rq)
          (prepare_mutation_checkpoints S C rq b (operation_id operation) p before kind recovery))
       (record_mutation_failure S C rq b p before recovery (Some ''prepare_checkpoints''))) (\<lambda>(before_checkpoint, prepared).
     bind (recording (require_authority S C rq (rq_resource_key rq))
       (record_mutation_failure S C rq b p before prepared None)) (\<lambda>_.
     bind (mutate_file S C rq b p before prepared mutate) (\<lambda>_.
     finish_file_mutation S C rq b operation p before kind prepared before_checkpoint))))"

definition run_preflight :: "'w coordinator \<Rightarrow> string option \<Rightarrow> ('w, unit) program" where
  "run_preflight C operation = (case (operation, co_preflight C) of
      (Some name, Some check) \<Rightarrow> world_call (check name)
    | _ \<Rightarrow> ret ())"

definition run_file_mutation ::
  "surroundings \<Rightarrow> 'w coordinator \<Rightarrow> request \<Rightarrow> path \<Rightarrow> string \<Rightarrow> string option \<Rightarrow> entries \<Rightarrow> entries
    \<Rightarrow> ('w, unit) program \<Rightarrow> ('w, mutation_result) program" where
  "run_file_mutation S C rq p kind preflight intent recovery mutate =
     bind (run_preflight C preflight) (\<lambda>_.
     bind (require_authority S C rq (rq_resource_key rq)) (\<lambda>_.
     bind (open_batch S C rq kind intent) (\<lambda>opened.
     case opened of
       Inl skipped \<Rightarrow> ret skipped
     | Inr (batch, operation) \<Rightarrow>
         perform_file_mutation S C rq (br_batch_id batch) operation p kind recovery mutate)))"

subsection \<open>The public methods\<close>

definition canonical_path :: "'w coordinator \<Rightarrow> path \<Rightarrow> path" where
  "canonical_path C p = absolute_without_resolving (aa_env (co_artifacts C)) p"

definition require_file_key :: "'w coordinator \<Rightarrow> path \<Rightarrow> request \<Rightarrow> ('w, unit) program" where
  "require_file_key C p rq =
     lift (require_matching_file_resource_key (aa_env (co_artifacts C)) p (rq_resource_key rq))"

definition require_directory_key :: "'w coordinator \<Rightarrow> path \<Rightarrow> string \<Rightarrow> ('w, unit) program" where
  "require_directory_key C p key = lift (require_matching_directory_resource_key (aa_env (co_artifacts C)) p key)"

text \<open>\<open>_normalized_text\<close>: the three calls of \<open>str.replace\<close>.\<close>

fun replace_crlf :: "string \<Rightarrow> string" where
  "replace_crlf [] = []"
| "replace_crlf [c] = [c]"
| "replace_crlf (c # d # cs) =
     (if c = CHR 0x0D \<and> d = CHR 0x0A then CHR 0x0A # replace_crlf cs else c # replace_crlf (d # cs))"

definition normalized_text :: "string \<Rightarrow> string option \<Rightarrow> string" where
  "normalized_text content newline = (case newline of
      None \<Rightarrow> content
    | Some nl \<Rightarrow>
        if nl = [] then content
        else concat (map (\<lambda>c. if c = CHR 0x0A then nl else [c])
               (map (\<lambda>c. if c = CHR 0x0D then CHR 0x0A else c) (replace_crlf content))))"

definition desired_file :: "'w coordinator \<Rightarrow> bytes \<Rightarrow> entries" where
  "desired_file C content = [(''desired'', JObj [(''exists'', JBool True), (''file_type'', JStr ''file''),
     (''size'', JInt (int (length content))), (''sha256'', JStr (fa_sha256 (co_files C) content))])]"

definition write_text_file ::
  "surroundings \<Rightarrow> 'w coordinator \<Rightarrow> request \<Rightarrow> path \<Rightarrow> string \<Rightarrow> string \<Rightarrow> string option \<Rightarrow> ('w, mutation_result) program" where
  "write_text_file S C rq p content encoding newline =
     (let target = canonical_path C p in
      bind (require_file_key C target rq) (\<lambda>_.
      bind (lift (co_encode C (normalized_text content newline) encoding)) (\<lambda>desired.
      run_file_mutation S C rq target ''write_text'' (Some ''write_text'')
        [(''operation'', JStr ''write_text''), (''path'', JStr (path_text target)),
         (''resource_key'', JStr (rq_resource_key rq)), (''encoding'', JStr encoding),
         (''newline'', opt_json newline), (''desired_size'', JInt (int (length desired))),
         (''desired_sha256'', JStr (fa_sha256 (co_files C) desired))]
        (desired_file C desired)
        (world_call (co_write_text C target content encoding newline)))))"

definition write_bytes_file ::
  "surroundings \<Rightarrow> 'w coordinator \<Rightarrow> request \<Rightarrow> path \<Rightarrow> bytes \<Rightarrow> int option \<Rightarrow> int option \<Rightarrow> bool option
    \<Rightarrow> ('w, mutation_result) program" where
  "write_bytes_file S C rq p content permissions max_bytes allow_large =
     (let target = canonical_path C p;
          effective_max = (case max_bytes of None \<Rightarrow> co_write_bytes_max_bytes C | Some n \<Rightarrow> n);
          effective_allow = (case allow_large of None \<Rightarrow> co_allow_large_writes C | Some b \<Rightarrow> b)
      in bind (require_file_key C target rq) (\<lambda>_.
      if effective_max < 0 then raise (Raised ValueError)
      else if int (length content) > effective_max \<and> \<not> effective_allow then raise (Raised ValueError)
      else run_file_mutation S C rq target ''write_bytes'' (Some ''write_text'')
        [(''operation'', JStr ''write_bytes''), (''path'', JStr (path_text target)),
         (''resource_key'', JStr (rq_resource_key rq)), (''desired_size'', JInt (int (length content))),
         (''desired_sha256'', JStr (fa_sha256 (co_files C) content)), (''permissions'', int_json permissions),
         (''max_bytes'', JInt effective_max), (''large_write_allowed'', JBool effective_allow)]
        (desired_file C content)
        (world_call (co_write_bytes C target content permissions))))"

definition delete_file ::
  "surroundings \<Rightarrow> 'w coordinator \<Rightarrow> request \<Rightarrow> path \<Rightarrow> bool \<Rightarrow> ('w, mutation_result) program" where
  "delete_file S C rq p missing_ok =
     (let target = canonical_path C p in
      bind (require_file_key C target rq) (\<lambda>_.
      run_file_mutation S C rq target ''delete_file'' (Some ''delete_file'')
        [(''operation'', JStr ''delete_file''), (''path'', JStr (path_text target)),
         (''resource_key'', JStr (rq_resource_key rq)), (''missing_ok'', JBool missing_ok)]
        [(''desired'', JObj [(''exists'', JBool False), (''file_type'', JStr ''missing'')])]
        (world_call (co_delete_file C target missing_ok))))"

definition make_directory_rollback_diagnostic :: json where
  "make_directory_rollback_diagnostic = JObj
     [(''automatic_recursive_delete'', JBool False), (''manual_intervention_possible'', JBool True),
      (''remove_only_if'', JObj [(''created_by_exact_step'', JBool True), (''directory_is_empty'', JBool True),
         (''path_is_still_safe_directory'', JBool True), (''resource_key_still_matches'', JBool True)])]"

definition make_directory ::
  "surroundings \<Rightarrow> 'w coordinator \<Rightarrow> request \<Rightarrow> path \<Rightarrow> bool \<Rightarrow> bool \<Rightarrow> entries \<Rightarrow> entries
    \<Rightarrow> ('w, mutation_result) program" where
  "make_directory S C rq p parents exist_ok intent_metadata recovery_metadata =
     (let target = canonical_path C p in
      bind (require_directory_key C target (rq_resource_key rq)) (\<lambda>_.
      if parents then raise (Raised NotImplementedError)
      else let intent = assoc_update
            [(''operation'', JStr ''make_directory''), (''path'', JStr (path_text target)),
             (''resource_key'', JStr (rq_resource_key rq)), (''parents'', JBool parents),
             (''exist_ok'', JBool exist_ok), (''rollback_diagnostic'', make_directory_rollback_diagnostic)]
            intent_metadata
        in run_file_mutation S C rq target ''make_directory'' (Some ''make_directory'') intent
             (assoc_update
               [(''desired'', JObj [(''exists'', JBool True), (''file_type'', JStr ''directory'')]),
                (''rollback_diagnostic'', jget (JObj intent) ''rollback_diagnostic'')]
               recovery_metadata)
             (world_call (co_make_directory C target parents exist_ok))))"

definition record_directory_noop ::
  "surroundings \<Rightarrow> 'w coordinator \<Rightarrow> request \<Rightarrow> path \<Rightarrow> entries \<Rightarrow> entries \<Rightarrow> string \<Rightarrow> ('w, mutation_result) program" where
  "record_directory_noop S C rq p intent recovery kind =
     (let target = canonical_path C p in
      bind (require_directory_key C target (rq_resource_key rq)) (\<lambda>_.
      bind (run_file_mutation S C rq target kind None intent recovery (ret ())) (\<lambda>result.
      ret (result\<lparr>mr_skipped := True\<rparr>))))"

subsection \<open>Recording a bundle of snapshots\<close>

record bundle_entry =
  be_path :: path
  be_requested :: bool
  be_snapshot :: resource_snapshot

record path_snapshots =
  sb_requested_paths :: "path list"
  sb_entries :: "bundle_entry list"
  sb_include_children :: bool
  sb_hash_policy :: string
  sb_small_file_max_bytes :: int

definition bundle_payload :: "path_snapshots \<Rightarrow> entries" where
  "bundle_payload snaps =
     [(''requested_paths'', JArr (map (\<lambda>p. JStr (path_text p)) (sb_requested_paths snaps))),
      (''include_children'', JBool (sb_include_children snaps)),
      (''hash_policy'', JStr (sb_hash_policy snaps)),
      (''small_file_max_bytes'', JInt (sb_small_file_max_bytes snaps)),
      (''entries'', JArr (map (\<lambda>e. JObj [(''path'', JStr (path_text (be_path e))),
          (''requested'', JBool (be_requested e)), (''snapshot'', snapshot_payload (be_snapshot e))]) (sb_entries snaps)))]"

definition snapshot_bundle ::
  "surroundings \<Rightarrow> 'w coordinator \<Rightarrow> request \<Rightarrow> path_snapshots \<Rightarrow> ('w, mutation_result) program" where
  "snapshot_bundle S C rq snaps =
     bind (require_authority S C rq (rq_resource_key rq)) (\<lambda>_.
     bind (journal_create_batch S C rq ((''operation'', JStr ''snapshot_bundle'') # bundle_payload snaps)) (\<lambda>batch.
     if br_phase batch = SUCCEEDED then ret (skipped_result batch)
     else if br_phase batch \<noteq> PLANNED then raise BatchState
     else bind (journal_start_operation S C rq (br_batch_id batch) ''snapshot_bundle''
         [(''operation'', JStr ''snapshot_bundle'')]) (\<lambda>(started, operation).
       bind (checkpoint_now S C rq (br_batch_id started) (Some (operation_id operation)) ''snapshot_bundle''
         (JObj (bundle_payload snaps))) (\<lambda>checkpoint.
       bind (journal_mark_succeeded S rq (br_batch_id started)
         [(''operation_id'', JStr (operation_id operation)),
          (''entry_count'', JInt (int (length (sb_entries snaps))))]) (\<lambda>succeeded.
       ret \<lparr>mr_batch = succeeded, mr_operation = Some operation, mr_before = Some checkpoint,
            mr_after = None, mr_recovery = None, mr_skipped = False\<rparr>)))))"

end
