(* ===== verification/Mutation_Steps.thy ===== *)
theory Mutation_Steps
  imports File_Mutations Runner_Steps Program_Logic
begin

section \<open>What the course of a mutation does to the database and to the world\<close>

text \<open>
  \<open>mutation_run\<close>: the database moves by calls of the stores only, and an invariant of the world
  is kept. Everything in a mutation but the mutation itself is such a step, if the calls that
  look at files and store backups keep the invariant.
\<close>

abbreviation steps :: "'w coordinator \<Rightarrow> string set \<Rightarrow> journal_db \<Rightarrow> journal_db \<Rightarrow> bool" where
  "steps C F \<equiv> (journal_step (co_digest C) (co_loads C) F)\<^sup>*\<^sup>*"

abbreviation lawful_for :: "'w coordinator \<Rightarrow> string set \<Rightarrow> surroundings \<Rightarrow> bool" where
  "lawful_for C F S \<equiv> lawful (co_digest C) (co_loads C) F S"

definition mutation_run ::
  "'w coordinator \<Rightarrow> string set \<Rightarrow> ('w \<Rightarrow> bool) \<Rightarrow> 'w run_state \<Rightarrow> 'w run_state \<Rightarrow> bool" where
  "mutation_run C F P s s' \<longleftrightarrow> steps C F (run_db s) (run_db s')
     \<and> (P (run_world s) \<longrightarrow> P (run_world s'))"

interpretation mu: state_relation "mutation_run C F P" for C F P
  by unfold_locales (auto simp: mutation_run_def)

definition keeps_world :: "('w \<Rightarrow> bool) \<Rightarrow> ('w \<Rightarrow> 'a \<times> 'w) \<Rightarrow> bool" where
  "keeps_world P f \<longleftrightarrow> (\<forall>w. P w \<longrightarrow> P (snd (f w)))"

definition quiet_calls :: "'w coordinator \<Rightarrow> ('w \<Rightarrow> bool) \<Rightarrow> bool" where
  "quiet_calls C P \<longleftrightarrow>
     (\<forall>p. keeps_world P (co_snapshot C p)) \<and> (\<forall>p. keeps_world P (co_lstat C p))
     \<and> (\<forall>check name. co_preflight C = Some check \<longrightarrow> keeps_world P (check name))
     \<and> (\<forall>p. keeps_world P (fa_snapshot (co_files C) p))
     \<and> (\<forall>p x. keeps_world P (fa_read (co_files C) p x))
     \<and> (\<forall>p. keeps_world P (fa_permissions (co_files C) p))
     \<and> (\<forall>b oid p content mode. keeps_world P (fa_write (co_files C)
          (canonical_path C (backup_content_path (co_artifacts C) (co_state_path C) b oid p)) content mode))"

lemma mu_world_call: "keeps_world P f \<Longrightarrow> keeps (mutation_run C F P) (world_call f)"
  by (auto simp: keeps_def mutation_run_def world_call_def keeps_world_def Let_def split: prod.split)

lemma mu_transact:
  assumes "lawful_for C F S"
    and "\<And>n db db' x. body (\<lambda>k. set_ids S n k db) db = Inr (db', x) \<Longrightarrow> steps C F db db'"
  shows "keeps (mutation_run C F P) (transact S body)"
  by (rule mu.keeps_transact) (use assms lawful_others [OF assms(1)] in \<open>auto simp: mutation_run_def\<close>)

lemma mu_read [keeps_intros]: "lawful_for C F S \<Longrightarrow> keeps (mutation_run C F P) (read S q)"
  by (rule mu.keeps_read) (auto simp: mutation_run_def lawful_others)

lemma mu_maintain:
  assumes "lawful_for C F S" and "keeps (mutation_run C F P) m"
  shows "keeps (mutation_run C F P) (run_with_lease_heartbeat S lease m)"
  unfolding run_with_lease_heartbeat_def maintain_lease_def Let_def
  by (intro mu.keeps_rules assms mu_transact [OF assms(1)])
    (auto intro!: r_into_rtranclp js_workspace ws_lease step_heartbeat)

lemma mu_let: "(\<And>x. x = v \<Longrightarrow> keeps R (f x)) \<Longrightarrow> keeps R (let x = v in f x)"
  by simp

subsection \<open>Journal calls\<close>


named_theorems mu_intros \<open>parts of a mutation that are steps\<close>

lemma mu_create_batch [mu_intros]:
  "lawful_for C F S \<Longrightarrow> keeps (mutation_run C F P) (journal_create_batch S C rq intent)"
  unfolding journal_create_batch_def
  by (intro mu.keeps_rules mu_transact) (auto intro!: r_into_rtranclp js_journal jc_create_batch)

lemma mu_start_operation [mu_intros]:
  "lawful_for C F S \<Longrightarrow> keeps (mutation_run C F P) (journal_start_operation S C rq b type intent)"
  unfolding journal_start_operation_def
  by (intro mu.keeps_rules mu_transact) (auto intro!: r_into_rtranclp js_journal jc_start_batch_operation)

lemma mu_checkpoint [mu_intros]:
  "lawful_for C F S \<Longrightarrow> keeps (mutation_run C F P) (journal_checkpoint S C rq b oid type payload now)"
  unfolding journal_checkpoint_def
  by (intro mu.keeps_rules mu_transact) (auto intro!: r_into_rtranclp js_journal jc_record_checkpoint)

lemma mu_checkpoint_now [mu_intros]:
  "lawful_for C F S \<Longrightarrow> keeps (mutation_run C F P) (checkpoint_now S C rq b oid type payload)"
  unfolding checkpoint_now_def by (intro mu.keeps_rules mu_checkpoint)

lemma mu_mark_succeeded [mu_intros]:
  "lawful_for C F S \<Longrightarrow> keeps (mutation_run C F P) (journal_mark_succeeded S rq b result)"
  unfolding journal_mark_succeeded_def
  by (intro mu.keeps_rules mu_transact) (auto intro!: r_into_rtranclp js_journal jc_mark_succeeded)

lemma mu_mark_failed [mu_intros]:
  "lawful_for C F S \<Longrightarrow> keeps (mutation_run C F P) (journal_mark_failed S rq b message seen)"
  unfolding journal_mark_failed_def
  by (intro mu.keeps_rules mu_transact) (auto intro!: r_into_rtranclp js_journal jc_mark_failed)

lemma mu_recovery_desired [mu_intros]:
  "lawful_for C F S \<Longrightarrow> keeps (mutation_run C F P) (journal_recovery_desired S C rq b reason details)"
  unfolding journal_recovery_desired_def
  by (intro mu.keeps_rules mu_transact) (auto intro!: r_into_rtranclp js_journal jc_recovery_desired)

lemma mu_lease_lost [mu_intros]:
  "lawful_for C F S \<Longrightarrow> keeps (mutation_run C F P) (journal_lease_lost S C rq b reason details)"
  unfolding journal_lease_lost_def
  by (intro mu.keeps_rules mu_transact) (auto intro!: r_into_rtranclp js_journal jc_lease_lost)

lemma mu_authority [mu_intros]:
  "lawful_for C F S \<Longrightarrow> keeps (mutation_run C F P) (require_authority S C rq key)"
  unfolding require_authority_def by (intro mu.keeps_rules mu_read)

subsection \<open>Records of failures\<close>

lemma mu_observed: "keeps (mutation_run C F P) m \<Longrightarrow> keeps (mutation_run C F P) (observed m)"
  unfolding observed_def by (intro mu.keeps_rules) (auto split: if_splits intro!: mu.keeps_ret)

lemma mu_recording:
  assumes "keeps (mutation_run C F P) m" and "\<And>e. keeps (mutation_run C F P) (handle e)"
  shows "keeps (mutation_run C F P) (recording m handle)"
  unfolding recording_def by (intro mu.keeps_rules assms) (auto split: if_splits intro!: mu.keeps_rules assms)

lemma mu_unless_lost:
  assumes "keeps (mutation_run C F P) m" and "keeps (mutation_run C F P) lost" and "keeps (mutation_run C F P) rest"
  shows "keeps (mutation_run C F P) (unless_lost m lost rest)"
  unfolding unless_lost_def by (intro mu.keeps_rules assms) (auto split: if_splits intro!: mu.keeps_rules assms)

lemma mu_interrupted [mu_intros]:
  "lawful_for C F S \<Longrightarrow> keeps (mutation_run C F P) (record_interrupted_if_taken_over S C rq batch reason)"
  unfolding record_interrupted_if_taken_over_def
  by (intro mu_let mu.keeps_rules mu_transact) (auto intro!: r_into_rtranclp js_journal jc_interrupted)

lemma mu_fail_and_desire [mu_intros]:
  assumes "lawful_for C F S"
  shows "keeps (mutation_run C F P) (fail_and_desire_recovery S C rq b message failure_payload reason details)"
  unfolding fail_and_desire_recovery_def
  by (intro mu_unless_lost mu.keeps_attempt mu_intros assms) (auto split: if_splits intro!: mu_intros assms)

lemma mu_snapshot [mu_intros]: "quiet_calls C P \<Longrightarrow> keeps (mutation_run C F P) (world_call (co_snapshot C p))"
  by (rule mu_world_call) (simp add: quiet_calls_def)

lemma mu_mutation_failure [mu_intros]:
  assumes "lawful_for C F S" and "quiet_calls C P"
  shows "keeps (mutation_run C F P) (record_mutation_failure S C rq b p before recovery stage e)"
  unfolding record_mutation_failure_def
  by (intro mu.keeps_bind mu_observed mu_let mu_intros assms)
    (auto split: sum.split intro!: mu_unless_lost mu_intros assms)

lemma mu_before_failure [mu_intros]:
  "lawful_for C F S \<Longrightarrow> keeps (mutation_run C F P) (record_before_snapshot_failure S C rq b p recovery e)"
  unfolding record_before_snapshot_failure_def by (intro mu_let mu_intros)

lemma mu_post_failure [mu_intros]:
  assumes "lawful_for C F S" and "quiet_calls C P"
  shows "keeps (mutation_run C F P) (record_post_mutation_failure S C rq b p before after recovery stage e)"
  unfolding record_post_mutation_failure_def
  by (intro mu.keeps_bind mu.keeps_option mu_let mu.keeps_ret mu_observed mu_intros assms)

subsection \<open>Checkpoints\<close>

lemma mu_planned_backup [mu_intros]:
  assumes "quiet_calls C P"
  shows "keeps (mutation_run C F P) (planned_backup_payload C p before content_path)"
proof -
  have lstat: "keeps (mutation_run C F P) (world_call (co_lstat C p))"
    by (rule mu_world_call) (use assms in \<open>simp add: quiet_calls_def\<close>)
  have "keeps (mutation_run C F P) (validated_backup_permissions C p before)"
    unfolding validated_backup_permissions_def
    by (intro mu.keeps_rules lstat) (auto split: if_splits intro!: mu.keeps_rules)
  then show ?thesis
    unfolding planned_backup_payload_def made_backup_def by (intro mu.keeps_rules)
qed

lemma mu_capture_backup [mu_intros]:
  assumes "quiet_calls C P"
  shows "keeps (mutation_run C F P) (capture_backup_artifact C p before
     (backup_content_path (co_artifacts C) (co_state_path C) b oid q))"
proof -
  have calls: "keeps (mutation_run C F P) (world_call (fa_snapshot (co_files C) r))"
    "keeps (mutation_run C F P) (world_call (fa_read (co_files C) r x))"
    "keeps (mutation_run C F P) (world_call (fa_write (co_files C)
       (absolute_without_resolving (aa_env (co_artifacts C)) (backup_content_path (co_artifacts C) (co_state_path C) b oid q))
       content mode))" for r x content mode
    by (rule mu_world_call, use assms in \<open>simp add: quiet_calls_def canonical_path_def\<close>)+
  have content: "keeps (mutation_run C F P) (captured_content (co_files C) None r x)" for r x
    unfolding captured_content_def option.case split_def by (intro mu.keeps_rules calls)
  show ?thesis
    unfolding capture_backup_artifact_def capture_backup_def made_backup_def Let_def
    by (intro mu.keeps_rules calls content) (auto split: option.split intro!: mu.keeps_rules calls content)
qed

lemma mu_plan_cleanup [mu_intros]:
  assumes "lawful_for C F S"
  shows "keeps (mutation_run C F P) (plan_artifact_cleanup S C rq b intent now)"
  unfolding plan_artifact_cleanup_def
  by (intro mu.keeps_each mu_transact assms) (auto intro!: r_into_rtranclp js_journal jc_plan_cleanup)

lemma mu_backup_intent [mu_intros]:
  "lawful_for C F S \<Longrightarrow> keeps (mutation_run C F P) (record_backup_intent S C rq b oid payload)"
  unfolding record_backup_intent_def by (intro mu.keeps_rules mu_intros)

lemma mu_store_backup [mu_intros]:
  assumes "lawful_for C F S" and "quiet_calls C P"
  shows "keeps (mutation_run C F P) (store_backup S C rq b oid p before
     (backup_content_path (co_artifacts C) (co_state_path C) b oid q) payload)"
  unfolding store_backup_def by (intro mu.keeps_rules mu_intros assms)

lemma mu_rollback_proof [mu_intros]:
  assumes "lawful_for C F S" and "quiet_calls C P"
  shows "keeps (mutation_run C F P) (record_rollback_proof S C rq b oid p before recovery)"
  unfolding record_rollback_proof_def Let_def
  by (intro mu.keeps_rules mu_intros assms)

lemma mu_prepare [mu_intros]:
  assumes "lawful_for C F S" and "quiet_calls C P"
  shows "keeps (mutation_run C F P) (prepare_mutation_checkpoints S C rq b oid p before kind recovery)"
  unfolding prepare_mutation_checkpoints_def
  by (intro mu.keeps_rules mu_intros assms)

lemma mu_after [mu_intros]:
  "lawful_for C F S \<Longrightarrow> keeps (mutation_run C F P) (record_after_mutation_checkpoint S C rq b oid after kind)"
  unfolding record_after_mutation_checkpoint_def by (intro mu_intros)

lemma mu_mutate:
  assumes "lawful_for C F S" and "quiet_calls C P" and "keeps (mutation_run C F P) mutate"
  shows "keeps (mutation_run C F P) (mutate_file S C rq b p before recovery mutate)"
  unfolding mutate_file_def
  by (intro mu.keeps_attempt mu_maintain assms) (auto split: if_splits intro!: mu.keeps_rules mu_mutation_failure assms)

lemma mu_finish [mu_intros]:
  assumes "lawful_for C F S" and "quiet_calls C P"
  shows "keeps (mutation_run C F P) (finish_file_mutation S C rq b operation p before kind recovery before_checkpoint)"
  unfolding finish_file_mutation_def
  by (intro mu.keeps_rules mu_recording mu_intros assms)

lemma mu_open_batch [mu_intros]:
  assumes "lawful_for C F S"
  shows "keeps (mutation_run C F P) (open_batch S C rq type intent)"
proof -
  have "keeps (mutation_run C F P) (start_operation S C rq batch type intent)" for batch
    unfolding start_operation_def
    by (intro mu.keeps_attempt mu_intros assms) (auto split: if_splits intro!: mu.keeps_rules mu_read mu_intros assms)
  then show ?thesis
    unfolding open_batch_def by (intro mu.keeps_rules mu_intros assms)
qed

lemma mu_preflight [mu_intros]:
  assumes "quiet_calls C P"
  shows "keeps (mutation_run C F P) (run_preflight C operation)"
  unfolding run_preflight_def
  by (cases operation; cases "co_preflight C")
    (use assms in \<open>auto simp: quiet_calls_def intro!: mu.keeps_ret mu_world_call\<close>)

end
