(* ===== verification/Mutation_Properties.thy ===== *)
theory Mutation_Properties
  imports Mutation_Steps Backup_Properties
begin

section \<open>What is on record before and after a mutation\<close>

text \<open>
  The two promises of a journaled mutation: nothing is changed before the journal holds all that
  a recovery needs, and the way a call ends is what the journal says.
\<close>

subsection \<open>Facts about the records\<close>

definition on_checkpoint :: "string \<Rightarrow> string option \<Rightarrow> string \<Rightarrow> string \<Rightarrow> json \<Rightarrow> journal_db \<Rightarrow> bool" where
  "on_checkpoint b oid key type payload db \<longleftrightarrow> (\<exists>c \<in> set (checkpoint_table db).
     checkpoint_batch_id c = b \<and> checkpoint_operation_id c = oid \<and> checkpoint_resource_key c = key
     \<and> checkpoint_type c = type \<and> checkpoint_payload c = canonical_json payload)"

definition on_operation :: "string \<Rightarrow> string \<Rightarrow> string \<Rightarrow> string \<Rightarrow> entries \<Rightarrow> journal_db \<Rightarrow> bool" where
  "on_operation b oid key kind intent db \<longleftrightarrow> (\<exists>r \<in> set (operation_table db).
     operation_id r = oid \<and> operation_batch_id r = b \<and> operation_resource_key r = Some key
     \<and> operation_type r = kind \<and> operation_payload r = canonical_json (JObj intent))"

definition cleanup_planned :: "string \<Rightarrow> string \<Rightarrow> journal_db \<Rightarrow> bool" where
  "cleanup_planned b artifact db \<longleftrightarrow> (\<exists>r \<in> set (artifact_cleanup_table db).
     cleanup_batch_id r = b \<and> cleanup_artifact_id r = artifact \<and> cleanup_status r = CLEANUP_PLANNED)"

text \<open>The intent to store a backup is on record, with the plan to remove it again.\<close>

definition backup_intended :: "'w coordinator \<Rightarrow> string \<Rightarrow> json \<Rightarrow> journal_db \<Rightarrow> bool" where
  "backup_intended C b payload db \<longleftrightarrow> (\<exists>intent \<in> set (checkpoint_table db). checkpoint_batch_id intent = b
     \<and> checkpoint_type intent = ''backup_artifact_intent'' \<and> checkpoint_payload intent = canonical_json payload
     \<and> (\<forall>a \<in> set (plan_backup_artifact_cleanup_candidates (co_artifacts C) (co_state_path C) [intent]).
          cleanup_planned b (ac_artifact_id a) db))"

text \<open>The rollback of a file: its backup, the plan to remove the stored content again, the expected outcome.\<close>

definition rollback_recorded ::
  "'w coordinator \<Rightarrow> string \<Rightarrow> path \<Rightarrow> entries \<Rightarrow> string \<Rightarrow> string \<Rightarrow> resource_snapshot \<Rightarrow> journal_db \<Rightarrow> bool" where
  "rollback_recorded C key p recovery b oid before db \<longleftrightarrow> (\<exists>backup.
     file_backup_checked backup = Inr backup \<and> fb_path backup = p \<and> fb_snapshot backup = before
     \<and> (fb_existed backup \<longrightarrow>
          fb_content_path backup = Some (backup_content_path (co_artifacts C) (co_state_path C) b oid p))
     \<and> backup_intended C b (captured_backup_payload backup) db
     \<and> on_checkpoint b (Some oid) key ''backup'' (captured_backup_payload backup) db
     \<and> on_checkpoint b (Some oid) key ''expected_after'' (JObj (expected_after_checkpoint_payload p recovery)) db)"

definition prepared ::
  "'w coordinator \<Rightarrow> string \<Rightarrow> path \<Rightarrow> string \<Rightarrow> entries \<Rightarrow> string \<Rightarrow> string \<Rightarrow> resource_snapshot \<Rightarrow> journal_db \<Rightarrow> bool" where
  "prepared C key p kind recovery b oid before db \<longleftrightarrow>
     on_checkpoint b (Some oid) key ''before'' (snapshot_payload before) db
     \<and> (kind \<in> rollback_operations \<and> co_automatic_file_rollback C
          \<longrightarrow> rollback_recorded C key p recovery b oid before db)"

text \<open>A moment ago the lease was current and the resource claimed with it.\<close>

definition authority_checked :: "'w coordinator \<Rightarrow> string set \<Rightarrow> request \<Rightarrow> string \<Rightarrow> journal_db \<Rightarrow> bool" where
  "authority_checked C F rq key db \<longleftrightarrow> (\<exists>now db1 db2. steps C F db1 db2 \<and> steps C F db2 db
     \<and> lease_is_current db1 (rq_lease rq) now
     \<and> claim_authority (co_digest C) (co_loads C) key (rq_lease rq) (rq_owner rq) (rq_claim_scope rq) db2 = Inr ())"

definition written_ahead ::
  "'w coordinator \<Rightarrow> string set \<Rightarrow> request \<Rightarrow> path \<Rightarrow> string \<Rightarrow> entries \<Rightarrow> entries \<Rightarrow> journal_db \<Rightarrow> bool" where
  "written_ahead C F rq p kind intent recovery db \<longleftrightarrow> (\<exists>b oid before.
     on_operation b oid (rq_resource_key rq) kind intent db
     \<and> prepared C (rq_resource_key rq) p kind recovery b oid before db
     \<and> authority_checked C F rq (rq_resource_key rq) db)"

lemma steps_tables:
  assumes "steps C F db db'" and "journal_wf db"
  shows "set (operation_table db) \<subseteq> set (operation_table db')" "set (checkpoint_table db) \<subseteq> set (checkpoint_table db')"
    "set (recovery_table db) \<subseteq> set (recovery_table db')"
    "set (artifact_cleanup_table db) \<subseteq> set (artifact_cleanup_table db')"
  using history_logs [OF assms] by (auto simp: logs_extend_def prefix_def)

lemma kept_on_record:
  assumes "steps C F db db'" and "journal_wf db"
  shows "on_checkpoint b oid' key type payload db \<Longrightarrow> on_checkpoint b oid' key type payload db'"
    and "on_operation b oid key kind intent db \<Longrightarrow> on_operation b oid key kind intent db'"
    and "cleanup_planned b artifact db \<Longrightarrow> cleanup_planned b artifact db'"
  using steps_tables [OF assms] unfolding on_checkpoint_def on_operation_def cleanup_planned_def by blast+

lemma kept_intended:
  assumes "steps C F db db'" and "journal_wf db" and "backup_intended C b payload db"
  shows "backup_intended C b payload db'"
  using assms(3) kept_on_record(3) [OF assms(1,2)] steps_tables(2) [OF assms(1,2)] unfolding backup_intended_def by blast

lemma kept_rollback:
  assumes "steps C F db db'" and "journal_wf db" and "rollback_recorded C key p recovery b oid before db"
  shows "rollback_recorded C key p recovery b oid before db'"
  using assms(3) kept_on_record(1) [OF assms(1,2)] kept_intended [OF assms(1,2)] unfolding rollback_recorded_def by blast

lemma kept_prepared:
  assumes "steps C F db db'" and "journal_wf db" and "prepared C key p kind recovery b oid before db"
  shows "prepared C key p kind recovery b oid before db'"
  using assms(3) kept_on_record(1) [OF assms(1,2)] kept_rollback [OF assms(1,2)] unfolding prepared_def by blast

lemma kept_authority:
  "steps C F db db' \<Longrightarrow> authority_checked C F rq key db \<Longrightarrow> authority_checked C F rq key db'"
  unfolding authority_checked_def by (meson rtranclp_trans)

subsection \<open>The calls that put them on record\<close>

lemma checkpoint_recorded:
  assumes "base_wf db"
    and "record_checkpoint H b lease rk type payload oid cid None fresh fresh2 now db = Inr (db', r)"
  shows "r \<in> set (checkpoint_table db') \<and> checkpoint_batch_id r = b \<and> checkpoint_operation_id r = oid
    \<and> checkpoint_resource_key r = rk \<and> checkpoint_type r = type \<and> checkpoint_payload r = payload_to_json payload"
proof -
  obtain row t where row: "batch_row b (batch_table db) = Some row"
    and t: "sql_insert checkpoint_clash \<lparr>checkpoint_id = str_or cid fresh2,
        checkpoint_batch_id = batch_id row, checkpoint_sequence = next_sequence b db,
        checkpoint_operation_id = oid, checkpoint_resource_key = rk, checkpoint_type = type,
        checkpoint_payload = payload_to_json payload, checkpoint_created_at = now\<rparr> (checkpoint_table db) = Some t"
    and r: "checkpoint_row (str_or cid fresh2) t = Some r" and db': "db' = db\<lparr>checkpoint_table := t\<rparr>"
    using assms(2)
    by (auto simp: record_checkpoint_def Let_def res_bind_Inr from_option_Inr batch_for_write_ok)
  note r' = checkpoints.insert_Some(3) [OF t, simplified, unfolded r, simplified]
  have "r \<in> set t" using checkpoints.insert_Some(1) [OF t] r' by simp
  then show ?thesis using r' db' batch_row_in [OF row] by simp
qed

text \<open>A step of the program, with what else is known of its result.\<close>

lemma wp_step:
  assumes "keeps (mutation_run C F P) m" and "wp m Q' (\<lambda>_ _. True) s"
    and "\<And>x s'. mutation_run C F P s s' \<Longrightarrow> Q' x s' \<Longrightarrow> Q x s'"
    and "\<And>e s'. mutation_run C F P s s' \<Longrightarrow> E e s'"
  shows "wp m Q E s"
proof -
  have "wp m (\<lambda>_. mutation_run C F P s) (\<lambda>_. mutation_run C F P s) s"
    by (rule wp_keeps [OF assms(1)])
  then show ?thesis by (rule wp_mono [OF wp_conj [OF _ assms(2)]]) (use assms(3,4) in auto)
qed

lemma steps_wf: "steps C F db db' \<Longrightarrow> journal_wf db \<Longrightarrow> journal_wf db'"
  by (rule history_wf)

lemma others_wf: "lawful_for C F S \<Longrightarrow> journal_wf db \<Longrightarrow> journal_wf (set_others S n db)"
  by (rule steps_wf [OF lawful_others])

lemma wp_journal_checkpoint:
  assumes "lawful_for C F S" and "journal_wf (run_db s)"
    and "\<And>c s'. mutation_run C F P s s' \<Longrightarrow> c \<in> set (checkpoint_table (run_db s')) \<Longrightarrow> checkpoint_batch_id c = b
      \<Longrightarrow> checkpoint_operation_id c = oid \<Longrightarrow> checkpoint_resource_key c = rq_resource_key rq
      \<Longrightarrow> checkpoint_type c = type \<Longrightarrow> checkpoint_payload c = canonical_json payload \<Longrightarrow> Q c s'"
    and "\<And>e s'. mutation_run C F P s s' \<Longrightarrow> E e s'"
  shows "wp (journal_checkpoint S C rq b oid type payload now) Q E s"
proof (rule wp_step [OF mu_checkpoint [OF assms(1)] _ _ assms(4)])
  show "wp (journal_checkpoint S C rq b oid type payload now)
      (\<lambda>c s'. c \<in> set (checkpoint_table (run_db s')) \<and> checkpoint_batch_id c = b
        \<and> checkpoint_operation_id c = oid \<and> checkpoint_resource_key c = rq_resource_key rq
        \<and> checkpoint_type c = type \<and> checkpoint_payload c = canonical_json payload) (\<lambda>_ _. True) s"
    unfolding journal_checkpoint_def
  proof (rule wp_transact, goal_cases)
    case (1 db)
    have "base_wf db" using journal_wf_parts(1) [OF others_wf [OF assms(1,2)]] 1 by simp
    then show ?case by (auto split: sum.split dest: checkpoint_recorded simp: payload_to_json_def)
  qed
qed (use assms(3) in blast)

lemma wp_checkpoint_now:
  assumes "lawful_for C F S" and "journal_wf (run_db s)"
    and "\<And>c s'. mutation_run C F P s s' \<Longrightarrow> c \<in> set (checkpoint_table (run_db s')) \<Longrightarrow> checkpoint_batch_id c = b
      \<Longrightarrow> checkpoint_operation_id c = oid \<Longrightarrow> checkpoint_resource_key c = rq_resource_key rq
      \<Longrightarrow> checkpoint_type c = type \<Longrightarrow> checkpoint_payload c = canonical_json payload \<Longrightarrow> Q c s'"
    and "\<And>e s'. mutation_run C F P s s' \<Longrightarrow> E e s'"
  shows "wp (checkpoint_now S C rq b oid type payload) Q E s"
  unfolding checkpoint_now_def wp_rules
  by (rule wp_time) (rule wp_journal_checkpoint [OF assms])

lemma cleanup_recorded:
  assumes "record_artifact_cleanup_planned b lease artifact trigger rk payload cid fresh now db = Inr (db', r)"
  shows "cleanup_planned b artifact db'"
proof -
  have "record_artifact_cleanup b lease artifact CLEANUP_PLANNED (Some trigger) rk None payload cid fresh now db = Inr (db', r)"
    using assms by (auto simp: record_artifact_cleanup_planned_def res_bind_Inr)
  then show ?thesis
  proof (cases rule: record_artifact_cleanup_ok)
    case (1 row t existing)
    then show ?thesis using cleanups.insert_Some(1) [OF 1(7)] by (auto simp: cleanup_planned_def)
  qed
qed

lemma wp_plan_cleanup:
  assumes "lawful_for C F S" and "journal_wf (run_db s)"
    and "\<And>x s'. mutation_run C F P s s' \<Longrightarrow>
      (\<forall>a \<in> set (plan_backup_artifact_cleanup_candidates (co_artifacts C) (co_state_path C) [intent]).
         cleanup_planned b (ac_artifact_id a) (run_db s')) \<Longrightarrow> Q x s'"
    and "\<And>e s'. mutation_run C F P s s' \<Longrightarrow> E e s'"
  shows "wp (plan_artifact_cleanup S C rq b intent now) Q E s"
proof -
  let ?as = "plan_backup_artifact_cleanup_candidates (co_artifacts C) (co_state_path C) [intent]"
  define call where "call = (\<lambda>a. transact S (\<lambda>ids db. record_artifact_cleanup_planned b (rq_lease rq) (ac_artifact_id a)
         ''deferred_cleanup'' (Some (ac_resource_key a)) (Some (JObj (cleanup_plan_entries intent a)))
         None (ids 0) now db) :: 'a run_state \<Rightarrow> _)"
  have keeps: "keeps (mutation_run C F P) (call a)" for a
    unfolding call_def by (rule mu_transact [OF assms(1)]) (auto intro!: r_into_rtranclp js_journal jc_plan_cleanup)
  have one: "wp (call a) (\<lambda>_ t'. cleanup_planned b (ac_artifact_id a) (run_db t')) (\<lambda>_ _. True) t" for a t
    unfolding call_def
  proof (rule wp_transact, goal_cases)
    case (1 db)
    show ?case by (auto split: sum.split dest: cleanup_recorded)
  qed
  have "wp (each call ?as) (\<lambda>ys t. length ys = length ?as \<and> mutation_run C F P s t
        \<and> (\<forall>i < length ys. cleanup_planned b (ac_artifact_id (?as ! i)) (run_db t)))
      (\<lambda>_ t. mutation_run C F P s t) s"
  proof (rule wp_each)
    fix ys :: "artifact_cleanup_record list" and t
    assume inv: "mutation_run C F P s t \<and> (\<forall>i < length ys. cleanup_planned b (ac_artifact_id (?as ! i)) (run_db t))"
      and n: "length ys < length ?as"
    have wf: "journal_wf (run_db t)" using inv steps_wf assms(2) unfolding mutation_run_def by blast
    show "wp (call (?as ! length ys))
        (\<lambda>y t'. mutation_run C F P s t' \<and> (\<forall>i < length (ys @ [y]). cleanup_planned b (ac_artifact_id (?as ! i)) (run_db t')))
        (\<lambda>_ t. mutation_run C F P s t) t"
    proof (rule wp_step [OF keeps one], goal_cases)
      case (1 y t')
      have "steps C F (run_db t) (run_db t')" using 1(1) by (simp add: mutation_run_def)
      note kept = kept_on_record(3) [OF this wf]
      have "mutation_run C F P s t'" using inv 1(1) mu.trans by blast
      then show ?case using 1(2) inv kept by (auto simp: less_Suc_eq)
    next
      case (2 e t')
      then show ?case using inv mu.trans by blast
    qed
  qed (simp add: mu.refl)
  then have "wp (plan_artifact_cleanup S C rq b intent now) (\<lambda>ys t. mutation_run C F P s t
        \<and> (\<forall>a \<in> set ?as. cleanup_planned b (ac_artifact_id a) (run_db t))) (\<lambda>_ t. mutation_run C F P s t) s"
    unfolding plan_artifact_cleanup_def call_def [symmetric]
    by (rule wp_mono) (auto simp: in_set_conv_nth)
  then show ?thesis by (rule wp_mono) (use assms(3,4) in auto)
qed

text \<open>The states of a run that began in \<open>s\<close>.\<close>

lemma run_trans: "mutation_run C F P s t \<Longrightarrow> mutation_run C F P t u \<Longrightarrow> mutation_run C F P s u"
  by (rule mu.trans)

lemma run_wf: "mutation_run C F P s t \<Longrightarrow> journal_wf (run_db s) \<Longrightarrow> journal_wf (run_db t)"
  unfolding mutation_run_def using steps_wf by blast

lemma run_steps: "mutation_run C F P s t \<Longrightarrow> steps C F (run_db s) (run_db t)"
  by (simp add: mutation_run_def)

definition plans_backup :: "path \<Rightarrow> resource_snapshot \<Rightarrow> path \<Rightarrow> file_backup \<Rightarrow> bool" where
  "plans_backup p before content_path backup \<longleftrightarrow> file_backup_checked backup = Inr backup \<and> fb_path backup = p
     \<and> fb_snapshot backup = before \<and> (fb_existed backup \<longrightarrow> fb_content_path backup = Some content_path)"

lemma wp_planned_backup:
  assumes "quiet_calls C P"
    and "\<And>backup s'. mutation_run C F P s s' \<Longrightarrow> plans_backup p before content_path backup
      \<Longrightarrow> Q (captured_backup_payload backup) s'"
    and "\<And>e s'. mutation_run C F P s s' \<Longrightarrow> E e s'"
  shows "wp (planned_backup_payload C p before content_path) Q E s"
proof (rule wp_step [OF mu_planned_backup [OF assms(1)] _ _ assms(3)])
  have made: "wp (bind (made_backup b) (\<lambda>b. ret (captured_backup_payload b)))
      (\<lambda>v _. \<exists>backup. v = captured_backup_payload backup \<and> plans_backup p before content_path backup) (\<lambda>_ _. True) t"
    if "fb_path b = p" "fb_snapshot b = before" "fb_existed b \<longrightarrow> fb_content_path b = Some content_path" for b t
    unfolding made_backup_def wp_rules
    using that file_backup_checked_Inr [of b] by (auto simp: plans_backup_def split: sum.split)
  show "wp (planned_backup_payload C p before content_path)
      (\<lambda>v _. \<exists>backup. v = captured_backup_payload backup \<and> plans_backup p before content_path backup) (\<lambda>_ _. True) s"
  proof (cases "snap_file_type before = FT_MISSING")
    case True
    then show ?thesis
      unfolding planned_backup_payload_def if_P [OF True] by (intro made) (simp_all add: missing_backup_def)
  next
    case False
    then show ?thesis
      unfolding planned_backup_payload_def if_not_P [OF False] wp_bind [of "validated_backup_permissions C p before"]
      by (intro wp_any made TrueI) simp_all
  qed
qed (use assms(2) in blast)

lemma wp_backup_intent:
  assumes law: "lawful_for C F S" and wf: "journal_wf (run_db s)"
    and Q: "\<And>s'. mutation_run C F P s s' \<Longrightarrow> backup_intended C b payload (run_db s') \<Longrightarrow> Q () s'"
    and E: "\<And>e s'. mutation_run C F P s s' \<Longrightarrow> E e s'"
  shows "wp (record_backup_intent S C rq b oid payload) Q E s"
  unfolding record_backup_intent_def wp_bind wp_ret'
proof (rule wp_time, rule wp_journal_checkpoint [OF law wf])
  fix now intent t
  assume t: "mutation_run C F P s t" and intent: "intent \<in> set (checkpoint_table (run_db t))"
    "checkpoint_batch_id intent = b" "checkpoint_type intent = ''backup_artifact_intent''"
    "checkpoint_payload intent = canonical_json payload"
  show "wp (plan_artifact_cleanup S C rq b intent now) (\<lambda>_. Q ()) E t"
  proof (rule wp_plan_cleanup [OF law run_wf [OF t wf]])
    fix x u
    assume u: "mutation_run C F P t u" and planned:
      "\<forall>a \<in> set (plan_backup_artifact_cleanup_candidates (co_artifacts C) (co_state_path C) [intent]).
         cleanup_planned b (ac_artifact_id a) (run_db u)"
    have "intent \<in> set (checkpoint_table (run_db u))"
      using steps_tables(2) [OF run_steps [OF u] run_wf [OF t wf]] intent(1) by blast
    then have "backup_intended C b payload (run_db u)" unfolding backup_intended_def using intent planned by blast
    then show "Q () u" by (rule Q [OF run_trans [OF t u]])
  qed (rule E [OF run_trans [OF t]])
qed (rule E)

lemma wp_store_backup:
  assumes law: "lawful_for C F S" "quiet_calls C P" and wf: "journal_wf (run_db s)"
    and Q: "\<And>x s'. mutation_run C F P s s'
      \<Longrightarrow> on_checkpoint b (Some oid) (rq_resource_key rq) ''backup'' payload (run_db s') \<Longrightarrow> Q x s'"
    and E: "\<And>e s'. mutation_run C F P s s' \<Longrightarrow> E e s'"
  shows "wp (store_backup S C rq b oid p before
     (backup_content_path (co_artifacts C) (co_state_path C) b oid q) payload) Q E s"
  unfolding store_backup_def wp_bind
proof (rule wp_keeps [OF mu_capture_backup [OF law(2)]])
  fix captured t
  assume t: "mutation_run C F P s t"
  have "wp (checkpoint_now S C rq b (Some oid) ''backup'' payload) Q E t"
    by (rule wp_checkpoint_now [OF law(1) run_wf [OF t wf]])
      (auto intro!: Q E intro: run_trans [OF t] simp: on_checkpoint_def)
  then show "wp (if \<not> py_eq (captured_backup_payload captured) payload then raise (Raised ValueError)
      else checkpoint_now S C rq b (Some oid) ''backup'' payload) Q E t"
    by (simp add: wp_raise E [OF t])
qed (rule E)

lemma wp_rollback_proof:
  assumes law: "lawful_for C F S" "quiet_calls C P" and wf: "journal_wf (run_db s)"
    and Q: "\<And>x s'. mutation_run C F P s s'
      \<Longrightarrow> rollback_recorded C (rq_resource_key rq) p recovery b oid before (run_db s') \<Longrightarrow> Q x s'"
    and E: "\<And>e s'. mutation_run C F P s s' \<Longrightarrow> E e s'"
  shows "wp (record_rollback_proof S C rq b oid p before recovery) Q E s"
  unfolding record_rollback_proof_def Let_def wp_bind wp_ret'
proof (rule wp_planned_backup [OF law(2), where F = F], goal_cases)
  case (1 backup s1)
  let ?payload = "captured_backup_payload backup"
  let ?expected = "JObj (expected_after_checkpoint_payload p recovery)"
  note s1 = 1(1) and wf1 = run_wf [OF 1(1) wf]
  show ?case
  proof (rule wp_backup_intent [OF law(1) wf1, where P = P], goal_cases)
    case (1 s2)
    note s2 = run_trans [OF s1 1(1)] and intended = 1(2)
    have wf2: "journal_wf (run_db s2)" by (rule run_wf [OF s2 wf])
    show ?case
    proof (rule wp_store_backup [OF law wf2], goal_cases)
      case (1 x s3)
      note s3 = run_trans [OF s2 1(1)] and stored = 1(2)
      have wf3: "journal_wf (run_db s3)" by (rule run_wf [OF s3 wf])
      have intended3: "backup_intended C b ?payload (run_db s3)"
        by (rule kept_intended [OF run_steps [OF 1(1)] wf2 intended])
      show ?case
      proof (rule wp_checkpoint_now [OF law(1) wf3, where P = P], goal_cases)
        case (1 c s4)
        have "on_checkpoint b (Some oid) (rq_resource_key rq) ''expected_after'' ?expected (run_db s4)"
          using 1(2-7) unfolding on_checkpoint_def by blast
        then have "rollback_recorded C (rq_resource_key rq) p recovery b oid before (run_db s4)"
          using \<open>plans_backup p before _ backup\<close> kept_intended [OF run_steps [OF 1(1)] wf3 intended3]
            kept_on_record(1) [OF run_steps [OF 1(1)] wf3 stored]
          unfolding rollback_recorded_def plans_backup_def by blast
        then show ?case by (rule Q [OF run_trans [OF s3 1(1)]])
      qed (rule E [OF run_trans [OF s3]])
    qed (rule E [OF run_trans [OF s2]])
  qed (rule E [OF run_trans [OF s1]])
qed (rule E)

lemma wp_prepare:
  assumes law: "lawful_for C F S" "quiet_calls C P" and wf: "journal_wf (run_db s)"
    and Q: "\<And>x s'. mutation_run C F P s s'
      \<Longrightarrow> prepared C (rq_resource_key rq) p kind recovery b oid before (run_db s') \<Longrightarrow> Q x s'"
    and E: "\<And>e s'. mutation_run C F P s s' \<Longrightarrow> E e s'"
  shows "wp (prepare_mutation_checkpoints S C rq b oid p before kind recovery) Q E s"
  unfolding prepare_mutation_checkpoints_def wp_bind
proof (rule wp_checkpoint_now [OF law(1) wf, where P = P], goal_cases)
  case (1 c t)
  have wf_t: "journal_wf (run_db t)" by (rule run_wf [OF 1(1) wf])
  have before: "on_checkpoint b (Some oid) (rq_resource_key rq) ''before'' (snapshot_payload before) (run_db t)"
    using 1(2-7) unfolding on_checkpoint_def by blast
  have "wp (record_rollback_proof S C rq b oid p before recovery) (\<lambda>y. Q (c, y)) E t"
  proof (rule wp_rollback_proof [OF law wf_t], goal_cases)
    case (1 x u)
    then have "prepared C (rq_resource_key rq) p kind recovery b oid before (run_db u)"
      using kept_on_record(1) [OF run_steps [OF 1(1)] wf_t before] by (simp add: prepared_def)
    then show ?case by (rule Q [OF run_trans [OF \<open>mutation_run C F P s t\<close> 1(1)]])
  qed (rule E [OF run_trans [OF 1(1)]])
  moreover have "Q (c, recovery) t" if "kind \<notin> rollback_operations \<or> \<not> co_automatic_file_rollback C"
    by (rule Q [OF 1(1)]) (use that before in \<open>auto simp: prepared_def\<close>)
  ultimately show ?case by (simp add: wp_rules wp_ret')
qed (rule E)

lemma wp_authority:
  assumes law: "lawful_for C F S"
    and Q: "\<And>s'. mutation_run C F P s s' \<Longrightarrow> authority_checked C F rq key (run_db s') \<Longrightarrow> Q () s'"
    and E: "\<And>e s'. mutation_run C F P s s' \<Longrightarrow> E e s'"
  shows "wp (require_authority S C rq key) Q E s"
proof (rule wp_step [OF mu_authority [OF law], where P = P and Q' = "\<lambda>_ s'. authority_checked C F rq key (run_db s')"])
  show "wp (require_authority S C rq key) (\<lambda>_ s'. authority_checked C F rq key (run_db s')) (\<lambda>_ _. True) s"
    unfolding require_authority_def wp_bind
  proof (rule wp_time, rule wp_read, goal_cases)
    case (1 now db)
    show ?case
    proof (cases "require_current_lease db (rq_lease rq) now")
      case (Inr u)
      then have current: "lease_is_current db (rq_lease rq) now" by (simp add: current_lease_ok)
      show ?thesis
        unfolding Inr sum.case
      proof (rule wp_read, goal_cases)
        case (1 db2)
        have "authority_checked C F rq key db2" if "claim_authority (co_digest C) (co_loads C) key (rq_lease rq)
            (rq_owner rq) (rq_claim_scope rq) db2 = Inr ()"
          unfolding authority_checked_def
          by (intro exI [of _ now] exI [of _ db] exI [of _ db2] conjI rtranclp.rtrancl_refl that current)
            (simp add: 1 lawful_others [OF law])
        then show ?case by (simp split: sum.split)
      qed
    qed simp
  qed
qed (use Q E in auto)

lemma wp_open_batch:
  assumes law: "lawful_for C F S" and wf: "journal_wf (run_db s)"
    and skip: "\<And>r s'. mutation_run C F P s s' \<Longrightarrow> Q (Inl r) s'"
    and Q: "\<And>batch operation s'. mutation_run C F P s s'
      \<Longrightarrow> on_operation (br_batch_id batch) (operation_id operation) (rq_resource_key rq) kind intent (run_db s')
      \<Longrightarrow> operation \<in> set (operation_table (run_db s')) \<Longrightarrow> Q (Inr (batch, operation)) s'"
    and E: "\<And>e s'. mutation_run C F P s s' \<Longrightarrow> E e s'"
  shows "wp (open_batch S C rq kind intent) Q E s"
proof (rule wp_step [OF mu_open_batch [OF law], where P = P and Q' = "\<lambda>x s'. \<forall>batch operation. x = Inr (batch, operation) \<longrightarrow>
    on_operation (br_batch_id batch) (operation_id operation) (rq_resource_key rq) kind intent (run_db s')
    \<and> operation \<in> set (operation_table (run_db s'))"])
  have started: "wp (journal_start_operation S C rq b kind intent) (\<lambda>(batch, operation) s'.
      on_operation (br_batch_id batch) (operation_id operation) (rq_resource_key rq) kind intent (run_db s')
      \<and> operation \<in> set (operation_table (run_db s'))) (\<lambda>_ _. True) t" for b t
    unfolding journal_start_operation_def wp_bind
  proof (rule wp_time, rule wp_transact, goal_cases)
    case (1 now db)
    have "on_operation (br_batch_id rec) (operation_id r) (rq_resource_key rq) kind intent db'
        \<and> r \<in> set (operation_table db')"
      if "start_batch_operation (co_digest C) b (rq_lease rq) kind (Some (rq_resource_key rq)) (Some (JObj intent))
        None None fresh now db = Inr (db', rec, r)" for db' rec r fresh
      using that
    proof (cases rule: start_batch_operation_ok)
      case (1 row t v u)
      have "r \<in> set (operation_table db')"
        using operations.insert_Some(1) [OF 1(6)] by (simp add: 1(7) update_batch_tables)
      moreover have "br_batch_id rec = b" using batch_row_in [OF 1(13)] by (simp add: 1(14) batch_from_row_def)
      ultimately show ?thesis using 1(8-12) by (auto simp: on_operation_def payload_to_json_def)
    qed
    then show ?case by (auto split: sum.split)
  qed
  show "wp (open_batch S C rq kind intent) (\<lambda>x s'. \<forall>batch operation. x = Inr (batch, operation) \<longrightarrow>
    on_operation (br_batch_id batch) (operation_id operation) (rq_resource_key rq) kind intent (run_db s')
    \<and> operation \<in> set (operation_table (run_db s'))) (\<lambda>_ _. True) s"
    unfolding open_batch_def wp_bind [of "journal_create_batch S C rq intent"]
  proof (rule wp_any)
    fix batch t
    have "wp (start_operation S C rq batch kind intent) (\<lambda>(batch, operation) s'.
      on_operation (br_batch_id batch) (operation_id operation) (rq_resource_key rq) kind intent (run_db s')
      \<and> operation \<in> set (operation_table (run_db s'))) (\<lambda>_ _. True) t"
      unfolding start_operation_def wp_attempt
    proof (rule wp_mono [OF started])
      fix e u
      show "case if e = Raised BatchStartConflictError then Some (
            bind (read S (\<lambda>db. Inr (get_batch (br_batch_id batch) db))) (\<lambda>found.
            bind (record_interrupted_if_taken_over S C rq (case found of None \<Rightarrow> batch | Some current \<Rightarrow> current)
              ''retry found abandoned batch with journal records'') (\<lambda>_.
            raise BatchState))) else None of None \<Rightarrow> True | Some p \<Rightarrow> wp p (\<lambda>(batch, operation) s'.
      on_operation (br_batch_id batch) (operation_id operation) (rq_resource_key rq) kind intent (run_db s')
      \<and> operation \<in> set (operation_table (run_db s'))) (\<lambda>_ _. True) u"
        by (simp add: wp_any wp_bind wp_raise')
    qed
    then have "wp (bind (start_operation S C rq batch kind intent) (\<lambda>started. ret (Inr started)))
      (\<lambda>(x :: mutation_result + operation_batch_record \<times> operation_record) s'. \<forall>batch operation. x = Inr (batch, operation) \<longrightarrow>
      on_operation (br_batch_id batch) (operation_id operation) (rq_resource_key rq) kind intent (run_db s')
      \<and> operation \<in> set (operation_table (run_db s'))) (\<lambda>_ _. True) t"
      unfolding wp_bind wp_ret' by (rule wp_mono) auto
    then show "wp (if br_phase batch = SUCCEEDED then ret (Inl (skipped_result batch))
      else if br_phase batch \<noteq> PLANNED then
       bind (record_interrupted_if_taken_over S C rq batch
         ''retry found abandoned batch outside planned phase'') (\<lambda>_. raise BatchState)
      else bind (start_operation S C rq batch kind intent) (\<lambda>started. ret (Inr started)))
      (\<lambda>x s'. \<forall>batch operation. x = Inr (batch, operation) \<longrightarrow>
      on_operation (br_batch_id batch) (operation_id operation) (rq_resource_key rq) kind intent (run_db s')
      \<and> operation \<in> set (operation_table (run_db s'))) (\<lambda>_ _. True) t"
      by (simp add: wp_ret wp_if wp_fails)
  qed simp
qed (metis skip Q sum.exhaust surj_pair, rule E)

subsection \<open>Nothing is changed before it is on record\<close>

lemma wp_recording:
  assumes "\<And>e. keeps (mutation_run C F P) (handle e)" and "wp m Q (\<lambda>_. mutation_run C F P s) t"
  shows "wp (recording m handle) Q (\<lambda>_. mutation_run C F P s) t"
  unfolding recording_def wp_attempt
proof (rule wp_mono [OF assms(2)])
  fix e u
  assume u: "mutation_run C F P s u"
  have "wp (handle e) (\<lambda>_. mutation_run C F P s) (\<lambda>_. mutation_run C F P s) u"
    by (rule wp_keeps [OF assms(1)]) (rule run_trans [OF u], assumption)+
  then show "case if e = Interrupt then None else Some (bind (handle e) (\<lambda>_. raise e)) of
      None \<Rightarrow> mutation_run C F P s u | Some p \<Rightarrow> wp p Q (\<lambda>_. mutation_run C F P s) u"
    using u by (simp add: wp_bind wp_raise')
qed

lemma wp_quiet: "keeps (mutation_run C F P) m \<Longrightarrow> mutation_run C F P s t
    \<Longrightarrow> (\<And>x u. mutation_run C F P s u \<Longrightarrow> mutation_run C F P t u \<Longrightarrow> Q x u) \<Longrightarrow> wp m Q (\<lambda>_. mutation_run C F P s) t"
  by (erule wp_keeps) (use run_trans in blast)+

text \<open>Under the heartbeat: others and a renewal come before the body, the thread may have failed after it.\<close>

lemma wp_heartbeat:
  assumes law: "lawful_for C F S" and t: "mutation_run C F P s t"
    and body: "\<And>u. mutation_run C F P s u \<Longrightarrow> mutation_run C F P t u \<Longrightarrow> wp m Q (\<lambda>_. mutation_run C F P s) u"
    and Q: "\<And>x u. Q x u \<Longrightarrow> mutation_run C F P s u"
  shows "wp (run_with_lease_heartbeat S lease m) Q (\<lambda>_. mutation_run C F P s) t"
proof -
  have beat: "keeps (mutation_run C F P) (transact S (\<lambda>_ db. heartbeat lease ttl now db))" for ttl now
    by (rule mu_transact [OF law]) (auto intro!: r_into_rtranclp js_workspace ws_lease step_heartbeat)
  have ended: "wp (bind m (\<lambda>x. bind (raise_if_failed S) (\<lambda>_. ret x))) Q (\<lambda>_. mutation_run C F P s) u"
    if "mutation_run C F P s u" "mutation_run C F P t u" for u
    unfolding wp_bind wp_ret' by (rule wp_mono [OF body [OF that]]) (auto intro: wp_raise_if_failed Q)
  show ?thesis
    unfolding run_with_lease_heartbeat_def maintain_lease_def Let_def
    using body [OF t mu.refl]
    by (auto simp: wp_if wp_bind [of "clock_time S"] wp_clock wp_bind [of "transact S _"] wp_raise
        intro!: wp_quiet [OF beat t] ended)
qed

lemma mutate_step:
  assumes law: "lawful_for C F S" "quiet_calls C P" and mutate: "keeps (mutation_run C F (\<lambda>_. True)) mutate"
    and ahead: "\<And>u. W (run_db u) \<Longrightarrow> P (run_world u) \<Longrightarrow> P (run_world (snd (mutate u)))"
    and stable: "\<And>db db'. steps C F db db' \<Longrightarrow> journal_wf db \<Longrightarrow> W db \<Longrightarrow> W db'"
    and t: "mutation_run C F P s t" "journal_wf (run_db t)" "W (run_db t)"
  shows "wp (mutate_file S C rq b p before recovery mutate) (\<lambda>_. mutation_run C F P s) (\<lambda>_. mutation_run C F P s) t"
proof -
  have body: "wp mutate (\<lambda>_. mutation_run C F P s) (\<lambda>_. mutation_run C F P s) u"
    if u: "mutation_run C F P s u" "mutation_run C F P t u" for u
  proof (rule wp_runs)
    fix r v assume r: "mutate u = (r, v)"
    have "steps C F (run_db u) (run_db v)" using mutate r unfolding keeps_def mutation_run_def by (metis snd_conv)
    moreover have "P (run_world u) \<longrightarrow> P (run_world v)"
      using ahead [of u] stable [OF run_steps [OF u(2)] t(2,3)] r by simp
    ultimately have "mutation_run C F P u v" by (simp add: mutation_run_def)
    then show "case r of Inl e \<Rightarrow> mutation_run C F P s v | Inr x \<Rightarrow> mutation_run C F P s v"
      using run_trans [OF u(1)] by (simp split: sum.split)
  qed
  have alive: "wp (run_with_lease_heartbeat S (rq_lease rq) mutate)
      (\<lambda>_. mutation_run C F P s) (\<lambda>_. mutation_run C F P s) t"
    by (rule wp_heartbeat [OF law(1) t(1) body])
  show ?thesis
    unfolding mutate_file_def wp_attempt
  proof (rule wp_mono [OF alive])
    fix e u
    assume u: "mutation_run C F P s u"
    have "wp (record_mutation_failure S C rq b p before recovery None e) (\<lambda>_. mutation_run C F P s)
        (\<lambda>_. mutation_run C F P s) u"
      by (rule wp_quiet [OF mu_mutation_failure [OF law] u])
    then show "case if e = Interrupt then None else Some (
          bind (record_mutation_failure S C rq b p before recovery None e) (\<lambda>_.
          raise (if e = Raised UnsupportedFilesystemBackendError then e else MutationFailed b))) of
        None \<Rightarrow> mutation_run C F P s u
      | Some p \<Rightarrow> wp p (\<lambda>_. mutation_run C F P s) (\<lambda>_. mutation_run C F P s) u"
      using u by (simp add: wp_bind wp_raise')
  qed
qed

lemma kept_ahead:
  "steps C F db db' \<Longrightarrow> journal_wf db \<Longrightarrow> written_ahead C F rq p kind intent recovery db
    \<Longrightarrow> written_ahead C F rq p kind intent recovery db'"
  unfolding written_ahead_def by (meson kept_on_record(2) kept_prepared kept_authority)

lemma perform_steps:
  assumes law: "lawful_for C F S" "quiet_calls C P" and mutate: "keeps (mutation_run C F (\<lambda>_. True)) mutate"
    and ahead: "\<And>u. written_ahead C F rq p kind intent recovery (run_db u) \<Longrightarrow> P (run_world u)
      \<Longrightarrow> P (run_world (snd (mutate u)))"
    and t: "mutation_run C F P s t" "journal_wf (run_db t)"
    and started: "on_operation b (operation_id operation) (rq_resource_key rq) kind intent (run_db t)"
  shows "wp (perform_file_mutation S C rq b operation p kind recovery mutate)
    (\<lambda>_. mutation_run C F P s) (\<lambda>_. mutation_run C F P s) t"
  unfolding perform_file_mutation_def wp_bind
proof (rule wp_recording [OF mu_before_failure [OF law(1)]], rule wp_quiet [OF mu_snapshot [OF law(2)] t(1)], goal_cases)
  case (1 before t1)
  have wf1: "journal_wf (run_db t1)" by (rule run_wf [OF 1(2) t(2)])
  let ?prepare = "prepare_mutation_checkpoints S C rq b (operation_id operation) p before kind recovery"
  let ?written = "\<lambda>u. mutation_run C F P s u \<and> journal_wf (run_db u)
    \<and> on_operation b (operation_id operation) (rq_resource_key rq) kind intent (run_db u)
    \<and> prepared C (rq_resource_key rq) p kind recovery b (operation_id operation) before (run_db u)"
  have started1: "on_operation b (operation_id operation) (rq_resource_key rq) kind intent (run_db t1)"
    by (rule kept_on_record(2) [OF run_steps [OF 1(2)] t(2) started])
  have prepare: "wp ?prepare (\<lambda>_. ?written) (\<lambda>_. mutation_run C F P s) u" if u: "mutation_run C F P t1 u" for u
  proof (rule wp_prepare [OF law run_wf [OF u wf1]], goal_cases)
    case (1 x v)
    show ?case
      using run_trans [OF \<open>mutation_run C F P s t1\<close> run_trans [OF u 1(1)]] run_wf [OF run_trans [OF u 1(1)] wf1]
        kept_on_record(2) [OF run_steps [OF run_trans [OF u 1(1)]] wf1 started1] 1(2) by blast
  next
    case (2 e v)
    show ?case by (rule run_trans [OF \<open>mutation_run C F P s t1\<close> run_trans [OF u 2]])
  qed
  have authorised: "wp (require_authority S C rq (rq_resource_key rq))
      (\<lambda>_. wp (mutate_file S C rq b p before prep mutate)
        (\<lambda>_. wp (finish_file_mutation S C rq b operation p before kind prep checkpoint)
          (\<lambda>_. mutation_run C F P s) (\<lambda>_. mutation_run C F P s)) (\<lambda>_. mutation_run C F P s))
      (\<lambda>_. mutation_run C F P s) u"
    if u: "?written u" for prep checkpoint u
  proof (rule wp_authority [OF law(1), where P = P], goal_cases)
    case (1 v)
    from u have wf_u: "journal_wf (run_db u)"
      and op_u: "on_operation b (operation_id operation) (rq_resource_key rq) kind intent (run_db u)"
      and prep_u: "prepared C (rq_resource_key rq) p kind recovery b (operation_id operation) before (run_db u)"
      by blast+
    have v: "mutation_run C F P s v" "journal_wf (run_db v)"
      using u run_trans [OF _ 1(1)] run_wf [OF 1(1)] by blast+
    have w: "written_ahead C F rq p kind intent recovery (run_db v)"
      unfolding written_ahead_def
      using kept_on_record(2) [OF run_steps [OF 1(1)] wf_u op_u] kept_prepared [OF run_steps [OF 1(1)] wf_u prep_u] 1(2)
      by blast
    have "wp (mutate_file S C rq b p before prep mutate) (\<lambda>_. mutation_run C F P s) (\<lambda>_. mutation_run C F P s) v"
      by (rule mutate_step [OF law mutate, where W = "written_ahead C F rq p kind intent recovery"])
        (rule ahead kept_ahead v w; assumption)+
    then show ?case by (rule wp_mono) (erule wp_quiet [OF mu_finish [OF law]], assumption+)
  qed (use u run_trans in blast)
  show ?case
  proof (rule wp_recording [OF mu_mutation_failure [OF law]], rule wp_mono [OF wp_heartbeat [OF law(1) 1(1) prepare]],
      goal_cases)
    case (3 x v)
    then show ?case
      unfolding split_def wp_bind by (intro wp_recording [OF mu_mutation_failure [OF law]] authorised) blast
  qed blast+
qed

text \<open>
  C32. Write-ahead. An invariant of the files that every single mutation keeps, when it starts with
  all of this on record, is kept by every run of a journaled mutation, whatever fails and whatever
  others do to the database: the operation with its intent, the snapshot from before, with automatic
  rollback also the backup, the plan to remove the stored content again and the expected outcome,
  and a lease and a claim that were checked after all this was recorded.
\<close>

theorem mutation_written_ahead:
  assumes "lawful_for C F S" and "quiet_calls C P" and "journal_wf (run_db s)"
    and "keeps (mutation_run C F (\<lambda>_. True)) mutate"
    and "\<And>t. written_ahead C F rq p kind intent recovery (run_db t) \<Longrightarrow> P (run_world t)
      \<Longrightarrow> P (run_world (snd (mutate t)))"
    and "P (run_world s)"
  shows "P (run_world (snd (run_file_mutation S C rq p kind preflight intent recovery mutate s)))"
proof -
  note law = assms(1,2)
  have performed: "wp (case opened of Inl skipped \<Rightarrow> ret skipped
      | Inr (batch, operation) \<Rightarrow> perform_file_mutation S C rq (br_batch_id batch) operation p kind recovery mutate)
      (\<lambda>_. mutation_run C F P s) (\<lambda>_. mutation_run C F P s) t"
    if "mutation_run C F P s t" and "\<And>batch operation. opened = Inr (batch, operation) \<Longrightarrow>
      on_operation (br_batch_id batch) (operation_id operation) (rq_resource_key rq) kind intent (run_db t)" for opened t
    using that perform_steps [OF law assms(4,5) that(1) run_wf [OF that(1) assms(3)]]
    by (auto simp: wp_ret split: sum.split)
  have opened: "wp (open_batch S C rq kind intent)
      (\<lambda>opened. wp (case opened of Inl skipped \<Rightarrow> ret skipped
        | Inr (batch, operation) \<Rightarrow> perform_file_mutation S C rq (br_batch_id batch) operation p kind recovery mutate)
        (\<lambda>_. mutation_run C F P s) (\<lambda>_. mutation_run C F P s)) (\<lambda>_. mutation_run C F P s) t"
    if t: "mutation_run C F P s t" for t
  proof (rule wp_open_batch [OF law(1) run_wf [OF t assms(3)], where P = P], goal_cases)
    case (1 r u)
    show ?case by (rule performed [OF run_trans [OF t 1]]) simp
  next
    case (2 batch operation u)
    show ?case by (rule performed [OF run_trans [OF t 2(1)]]) (simp add: 2(2))
  next
    case (3 e u)
    show ?case by (rule run_trans [OF t 3])
  qed
  have "wp (run_file_mutation S C rq p kind preflight intent recovery mutate)
      (\<lambda>_. mutation_run C F P s) (\<lambda>_. mutation_run C F P s) s"
    unfolding run_file_mutation_def wp_bind
    by (rule wp_quiet [OF mu_preflight [OF law(2)] mu.refl], rule wp_quiet [OF mu_authority [OF law(1)]],
      assumption, rule opened)
  then show ?thesis
    using assms(6) by (auto simp: wp_def mutation_run_def split: prod.splits sum.splits)
qed

subsection \<open>A write on the demo database\<close>

text \<open>Worker w1 holds the lease and, bound to it, a claim on the file \<open>/w/f\<close>.\<close>

definition sample_key :: string where "sample_key = ''file:/w/f''"

definition sample_details :: json where
  "sample_details = lease_claim_details_payload rev w1 ''c1'' None"

definition sample_loads :: "string \<Rightarrow> json option" where
  "sample_loads body = Some sample_details"

definition sample_claim :: "journal_db \<Rightarrow> error + journal_db \<times> claim_record" where
  "sample_claim = upsert_claim sample_key w1 ''w1'' None (Some ''{}'') 7"

definition db_claimed :: journal_db where "db_claimed = out (sample_claim db_leased)"

text \<open>Its snapshots know the modification time of a regular file.\<close>

definition timed_snapshot :: "path \<Rightarrow> sample_world \<Rightarrow> (failure + resource_snapshot) \<times> sample_world" where
  "timed_snapshot p w = (Inr (let x = snapshot_of p (sample_view w p) in
     if snap_exists x then x\<lparr>snap_mtime_ns := Some 7\<rparr> else x), w)"

definition sample_coordinator :: "sample_world coordinator" where
  "sample_coordinator =
     \<lparr>co_digest = rev, co_loads = sample_loads, co_state_path = path_of ''/s/db'',
      co_snapshot = timed_snapshot,
      co_lstat = (\<lambda>p w. (case sample_view w p of Regular c m \<Rightarrow> Inr (True, int (length c), 7, m)
         | _ \<Rightarrow> Inl (Raised FileNotFoundError), w)),
      co_files = sample_access\<lparr>fa_snapshot := timed_snapshot\<rparr>,
      co_artifacts = \<lparr>aa_env = \<lparr>env_cwd = path_of ''/'', env_expanduser = id\<rparr>, aa_uuid5 = (\<lambda>name. ''id''),
        aa_sha256 = sample_text, aa_is_regular = (\<lambda>p w. (Inr True, w)), aa_read = (\<lambda>p w. (Inr [], w)),
        aa_is_symlink = (\<lambda>p w. (Inr False, w)), aa_delete_checks = (\<lambda>p w. (Inr (), w)),
        aa_unlink = (\<lambda>p w. (Inr (), (p, Absent) # w))\<rparr>,
      co_encode = (\<lambda>s e. Inr (map (\<lambda>c. of_nat (of_char c)) s)),
      co_write_text = (\<lambda>p s e nl w. (Inr (), w)),
      co_write_bytes = (\<lambda>p c m w. (Inr (), (p, Regular c 420) # w)),
      co_delete_file = (\<lambda>p m w. (Inr (), (p, Absent) # w)),
      co_make_directory = (\<lambda>p m e w. (Inr (), (p, Other_entry) # w)),
      co_rename_no_replace = (\<lambda>p q w. (Inl (OtherFailure ''no rename''), w)),
      co_capture_directory = (\<lambda>p q w. (Inl (OtherFailure ''no capture''), w)),
      co_capture_token = (\<lambda>p d i b w. (Inr None, w)),
      co_preflight = None, co_automatic_file_rollback = True, co_write_bytes_max_bytes = 100,
      co_allow_large_writes = False, co_captured_directory_cleanup = ''retain''\<rparr>"

definition sample_request :: request where
  "sample_request = \<lparr>rq_resource_key = sample_key, rq_lease = w1, rq_owner = ''w1'', rq_run_id = ''run1'',
     rq_idempotency_key = ''k1'', rq_operation_run_id = None, rq_operation_phase_id = None, rq_claim_scope = None\<rparr>"

definition sample_start :: "sample_world run_state" where
  "sample_start = \<lparr>run_db = db_claimed, run_world = [(path_of ''/w/f'', Regular [111, 108] 420)], run_tick = 0\<rparr>"

definition sample_mutate :: "(sample_world, unit) program" where
  "sample_mutate = world_call (co_write_bytes sample_coordinator (path_of ''/w/f'') [110, 101, 119, 115] None)"

definition sample_write :: "(failure + mutation_result) \<times> sample_world run_state" where
  "sample_write = run_file_mutation demo_surroundings sample_coordinator sample_request (path_of ''/w/f'')
     ''write_bytes'' None [(''operation'', JStr ''write_bytes'')]
     (desired_file sample_coordinator [110, 101, 119, 115]) sample_mutate sample_start"

lemma db_claimed_wf: "journal_wf db_claimed"
proof -
  have "\<not> isl (sample_claim db_leased)" by code_simp
  then have "sample_claim db_leased = Inr (db_claimed, res (sample_claim db_leased))"
    unfolding db_claimed_def by (rule out_res)
  then have "journal_step rev (\<lambda>_. None) {} db_leased db_claimed"
    unfolding sample_claim_def by (intro js_workspace) (rule ws_upsert)
  then show ?thesis using demo_reach(1) [of "\<lambda>_. None" "{}"] reachable_wf by (meson rtranclp.rtrancl_into_rtrancl)
qed

lemma sample_backup_place:
  "canonical_path sample_coordinator (backup_content_path (co_artifacts sample_coordinator)
     (co_state_path sample_coordinator) b oid q) = path_of ''/s/db.artifacts/file-backups/id.bak''"
proof -
  have "backup_content_path (co_artifacts sample_coordinator) (co_state_path sample_coordinator) b oid q
    = backup_content_path (co_artifacts sample_coordinator) (co_state_path sample_coordinator) [] [] (path_of [])"
    by (simp add: backup_content_path_def backup_content_artifact_name_def sample_coordinator_def)
  moreover have "canonical_path sample_coordinator (backup_content_path (co_artifacts sample_coordinator)
     (co_state_path sample_coordinator) [] [] (path_of [])) = path_of ''/s/db.artifacts/file-backups/id.bak''"
    by code_simp
  ultimately show ?thesis by simp
qed

definition even_file :: "sample_world \<Rightarrow> bool" where
  "even_file w \<longleftrightarrow> (case sample_view w (path_of ''/w/f'') of Regular c m \<Rightarrow> even (length c) | _ \<Rightarrow> True)"

lemma sample_quiet: "quiet_calls sample_coordinator even_file"
proof -
  have "path_of ''/s/db.artifacts/file-backups/id.bak'' \<noteq> path_of ''/w/f''" by code_simp
  moreover have "co_lstat sample_coordinator = (\<lambda>p w. (case sample_view w p of Regular c m \<Rightarrow> Inr (True, int (length c), 7, m)
         | _ \<Rightarrow> Inl (Raised FileNotFoundError), w))"
    "co_snapshot sample_coordinator = timed_snapshot" "co_preflight sample_coordinator = None"
    "co_files sample_coordinator = sample_access\<lparr>fa_snapshot := timed_snapshot\<rparr>"
    by (simp_all add: sample_coordinator_def)
  ultimately show ?thesis
    unfolding quiet_calls_def sample_backup_place
    by (simp add: keeps_world_def timed_snapshot_def sample_access_def even_file_def sample_view_def)
qed

theorem mutation_written_ahead_witness: "even_file (run_world (snd sample_write))"
proof -
  have law: "lawful_for sample_coordinator {} demo_surroundings"
    using demo_lawful by (simp add: sample_coordinator_def)
  have world: "world_call (co_write_bytes sample_coordinator (path_of ''/w/f'') c m) s
      = (Inr (), s\<lparr>run_world := (path_of ''/w/f'', Regular c 420) # run_world s\<rparr>)" for c m s
    by (simp add: world_call_def sample_coordinator_def)
  show "even_file (run_world (snd sample_write))"
    unfolding sample_write_def
  proof (rule mutation_written_ahead [OF law sample_quiet])
    show "journal_wf (run_db sample_start)" by (simp add: sample_start_def db_claimed_wf)
    show "keeps (mutation_run sample_coordinator {} (\<lambda>_. True)) sample_mutate"
      by (simp add: keeps_def mutation_run_def sample_mutate_def world)
    show "even_file (run_world (snd (sample_mutate t)))" for t
      by (simp add: sample_mutate_def world even_file_def sample_view_def)
    show "even_file (run_world sample_start)" by code_simp
  qed
qed

end
