(* ===== verification/Journal_Errors.thy ===== *)
theory Journal_Errors
  imports Journal_Calls
begin

section \<open>The errors of the journal calls that end a mutation\<close>

text \<open>
  \<open>fails_in E r\<close>: a result that is an error has it from \<open>E\<close>. The calls that record checkpoints,
  the end of a batch and the wish for recovery raise errors of the stores only; no error of
  the file system is among them.
\<close>

definition fails_in :: "error set \<Rightarrow> error + 'a \<Rightarrow> bool" where
  "fails_in E r \<longleftrightarrow> (\<forall>e. r = Inl e \<longrightarrow> e \<in> E)"

definition journal_errors :: "error set" where
  "journal_errors = {ValueError, RuntimeError, IntegrityError, LeaseLostError, BatchNotFoundError,
     BatchIdempotencyMismatchError, InvalidBatchPhaseTransitionError, JournalLeaseMismatchError, RecoveryAttemptMismatchError}"

named_theorems fails_intros \<open>results that fail with the given errors only\<close>

lemma fails_Inr [fails_intros]: "fails_in E (Inr x)"
  by (simp add: fails_in_def)

lemma fails_Inl: "e \<in> E \<Longrightarrow> fails_in E (Inl e)"
  by (simp add: fails_in_def)

lemma fails_bind [fails_intros]: "fails_in E r \<Longrightarrow> (\<And>x. fails_in E (f x)) \<Longrightarrow> fails_in E (res_bind r f)"
  by (cases r) (simp_all add: fails_in_def)

lemma fails_if [fails_intros]: "(b \<Longrightarrow> fails_in E r) \<Longrightarrow> (\<not> b \<Longrightarrow> fails_in E r') \<Longrightarrow> fails_in E (if b then r else r')"
  by simp

lemma fails_let [fails_intros]: "(\<And>x. fails_in E (f x)) \<Longrightarrow> fails_in E (let x = v in f x)"
  by simp

lemma fails_case [fails_intros]: "(\<And>x y. fails_in E (f x y)) \<Longrightarrow> fails_in E (case v of (x, y) \<Rightarrow> f x y)"
  by (cases v) simp

lemma fails_option [fails_intros]:
  "fails_in E r \<Longrightarrow> (\<And>x. fails_in E (f x)) \<Longrightarrow> fails_in E (case v of None \<Rightarrow> r | Some x \<Rightarrow> f x)"
  by (cases v) simp_all

lemma fails_require: "e \<in> E \<Longrightarrow> fails_in E (require b e)"
  by (simp add: fails_in_def require_def)

lemma fails_from_option: "e \<in> E \<Longrightarrow> fails_in E (from_option e v)"
  by (cases v) (simp_all add: fails_in_def)

lemma journal_fails [fails_intros]:
  "fails_in journal_errors (validate_required v)"
  "fails_in journal_errors (require_current_lease db lease now)"
  "fails_in journal_errors (Inl JournalLeaseMismatchError)"
  "fails_in journal_errors (Inl InvalidBatchPhaseTransitionError)"
  "fails_in journal_errors (Inl ValueError)"
  "fails_in journal_errors (Inl RecoveryAttemptMismatchError)"
  "fails_in journal_errors (Inl BatchIdempotencyMismatchError)"
  by (auto simp: fails_in_def journal_errors_def validate_required_def require_current_lease_def require_def
      split: if_splits)

lemma require_journal_fails [fails_intros]:
  "fails_in journal_errors (require b InvalidBatchPhaseTransitionError)"
  "fails_in journal_errors (require b JournalLeaseMismatchError)"
  "fails_in journal_errors (require b BatchIdempotencyMismatchError)"
  "fails_in journal_errors (require b ValueError)"
  by (rule fails_require, simp add: journal_errors_def)+

lemma from_option_journal_fails [fails_intros]:
  "fails_in journal_errors (from_option BatchNotFoundError row)"
  "fails_in journal_errors (from_option IntegrityError row)"
  "fails_in journal_errors (from_option RuntimeError row)"
  "fails_in journal_errors (from_option ValueError row)"
  by (rule fails_from_option, simp add: journal_errors_def)+

lemma write_fails [fails_intros]: "fails_in journal_errors (require_batch_for_write b lease now db)"
  unfolding require_batch_for_write_def by (intro fails_intros)

lemma transition_fails [fails_intros]: "fails_in journal_errors (require_valid_transition p q)"
  unfolding require_valid_transition_def by (intro fails_intros)

lemma recovery_write_fails [fails_intros]: "fails_in journal_errors (require_batch_for_recovery_write H b lease phase fresh now db)"
  unfolding require_batch_for_recovery_write_def record_recovery_takeover_handoff_def insert_recovery_def
  by (intro fails_intros)

lemma action_write_fails [fails_intros]:
  "fails_in journal_errors (require_batch_for_recovery_action_write H b lease fresh now db)"
  unfolding require_batch_for_recovery_action_write_def record_recovery_takeover_handoff_def insert_recovery_def
    require_recovering_batch_def
  by (intro fails_intros)

lemma attempt_fails [fails_intros]: "fails_in journal_errors (require_active_recovery_attempt b i db)"
  unfolding require_active_recovery_attempt_def by (intro fails_intros)

lemma phase_write_fails [fails_intros]:
  "fails_in journal_errors (write_recovery_phase b f phase reason payload rid fresh now db)"
  unfolding write_recovery_phase_def insert_recovery_def by (intro fails_intros)

lemma transition_batch_fails: "fails_in journal_errors (transition_batch b lease phase msg payload now db)"
  unfolding transition_batch_def by (intro fails_intros)

lemma record_checkpoint_fails:
  "fails_in journal_errors (record_checkpoint H b lease rk type payload oid cid attempt fresh fresh2 now db)"
  unfolding record_checkpoint_def require_appendable_phase_def require_batch_resource_key_def
    require_checkpoint_operation_def by (intro fails_intros)

lemma mark_fails:
  "fails_in journal_errors (mark_succeeded b lease result now db)"
  "fails_in journal_errors (mark_failed b lease msg seen now db)"
  unfolding mark_succeeded_def mark_failed_def by (intro fails_intros transition_batch_fails)+

lemma recovery_desired_fails:
  "fails_in journal_errors (record_recovery_desired H b lease reason payload rid fresh fresh2 now db)"
  unfolding record_recovery_desired_def record_recovery_phase_def by (intro fails_intros)

lemma lease_lost_fails:
  "fails_in journal_errors (record_lease_lost_recovery_desired H b lease rk reason payload rid fresh2 now db)"
  unfolding record_lease_lost_recovery_desired_def require_lease_lost_recovery_marker_def by (intro fails_intros)

end
