(* ===== verification/Mutation_Outcomes.thy ===== *)
theory Mutation_Outcomes
  imports Mutation_Properties Journal_Errors
begin

section \<open>How a mutation ends\<close>

text \<open>
  After a mutation has opened its batch, the journal says how it ended: a result comes with a
  succeeded batch and its checkpoints, a failure that is not one of the stores themselves comes
  with a batch whose recovery is desired.
\<close>

subsection \<open>The records of a failure\<close>

definition store_failure :: "failure \<Rightarrow> bool" where
  "store_failure e \<longleftrightarrow> e = Interrupt \<or> e \<in> Raised ` journal_errors"

definition recovery_wanted :: "string \<Rightarrow> journal_db \<Rightarrow> bool" where
  "recovery_wanted b db \<longleftrightarrow> (\<exists>r. last_recovery b db = Some r \<and> recovery_phase r = RECOVERY_DESIRED)
     \<and> (\<exists>row. batch_row b (batch_table db) = Some row \<and> batch_phase row = RECOVERY_DESIRED)"

abbreviation sound :: "'w run_state \<Rightarrow> bool" where
  "sound s \<equiv> journal_wf (run_db s)"

abbreviation any_run :: "'w coordinator \<Rightarrow> string set \<Rightarrow> 'w run_state \<Rightarrow> 'w run_state \<Rightarrow> bool" where
  "any_run C F \<equiv> mutation_run C F (\<lambda>_. True)"

lemma quiet_True: "quiet_calls C (\<lambda>_. True)"
  by (simp add: quiet_calls_def keeps_world_def)


lemma wp_sound: "keeps (any_run C F) m \<Longrightarrow> sound s \<Longrightarrow> wp m (\<lambda>_. sound) (\<lambda>_. sound) s"
  by (erule wp_keeps) (erule run_wf, assumption)+

lemma fails_store: "fails_in journal_errors r \<Longrightarrow> r = Inl e \<Longrightarrow> store_failure (Raised e)"
  by (simp add: fails_in_def store_failure_def)

lemma wp_calls:
  assumes "\<And>ids now db. fails_in journal_errors (body now ids db)"
  shows "wp (bind (operation_time S) (\<lambda>now. transact S (body now))) (\<lambda>_ _. True) (\<lambda>e _. store_failure e) s"
  unfolding wp_bind
  by (rule wp_time, rule wp_transact) (use fails_store [OF assms] in \<open>auto split: sum.split\<close>)

lemma phase_call_wanted: "phase_call lease now b row r db db' \<Longrightarrow> recovery_phase r = RECOVERY_DESIRED \<Longrightarrow> recovery_wanted b db'"
  by (auto simp: phase_call_def recovery_wanted_def)

lemma others_base: "lawful_for C F S \<Longrightarrow> sound s \<Longrightarrow> base_wf (set_others S n (run_db s))"
  using journal_wf_parts(1) [OF others_wf] by blast

lemma wp_desired:
  assumes "lawful_for C F S" and "sound s"
  shows "wp (journal_recovery_desired S C rq b reason details) (\<lambda>_ t. recovery_wanted b (run_db t)) (\<lambda>e _. store_failure e) s"
  unfolding journal_recovery_desired_def wp_bind
proof (rule wp_time, rule wp_transact, goal_cases)
  case (1 now db)
  have "recovery_wanted b db'" if "record_recovery_desired (co_digest C) b (rq_lease rq) (Some reason)
       (Some (JObj details)) None fresh fresh2 now db = Inr (db', r)" for db' r fresh fresh2
    by (rule record_recovery_phase_ok [OF others_base [OF assms] _ that [unfolded record_recovery_desired_def 1]])
      (simp, rule phase_call_wanted)
  then show ?case using fails_store [OF recovery_desired_fails] by (auto split: sum.split)
qed

lemma wp_lost:
  assumes "lawful_for C F S" and "sound s"
  shows "wp (journal_lease_lost S C rq b reason details) (\<lambda>_ t. recovery_wanted b (run_db t)) (\<lambda>e _. store_failure e) s"
  unfolding journal_lease_lost_def wp_bind
proof (rule wp_time, rule wp_transact, goal_cases)
  case (1 now db)
  have "recovery_wanted b db'" if "record_lease_lost_recovery_desired (co_digest C) b (rq_lease rq)
       (Some (rq_resource_key rq)) (Some reason) (Some (JObj details)) None fresh2 now db = Inr (db', r)" for db' r fresh2
    by (rule lease_lost_ok [OF others_base [OF assms] that [unfolded 1]]) (rule phase_call_wanted)
  then show ?case using fails_store [OF lease_lost_fails] by (auto split: sum.split)
qed

lemma wp_unless_lost:
  assumes "wp m (\<lambda>_. sound) (\<lambda>e t. store_failure e \<and> sound t) s"
    and "\<And>t. sound t \<Longrightarrow> wp lost Q E t" and "\<And>t. sound t \<Longrightarrow> wp rest Q E t"
    and "\<And>e t. store_failure e \<Longrightarrow> E e t"
  shows "wp (unless_lost m lost rest) Q E s"
  unfolding unless_lost_def wp_rules wp_ret' wp_option option.case
  by (rule wp_mono [OF assms(1)]) (use assms(2-4) in \<open>auto simp: wp_rules wp_ret'\<close>)

lemma wp_fail_and_desire:
  fixes s :: "'w run_state"
  assumes law: "lawful_for C F S" and "sound s"
  shows "wp (fail_and_desire_recovery S C rq b message failure_payload reason details)
    (\<lambda>_ t. recovery_wanted b (run_db t)) (\<lambda>e _. store_failure e) s"
  unfolding fail_and_desire_recovery_def
proof (rule wp_unless_lost)
  show "wp (journal_mark_failed S rq b message failure_payload) (\<lambda>_. sound) (\<lambda>e t. store_failure e \<and> sound t) s"
  proof -
    have "wp (journal_mark_failed S rq b message failure_payload) (\<lambda>_ _. True) (\<lambda>e _. store_failure e) s"
      unfolding journal_mark_failed_def by (rule wp_calls [OF mark_fails(2)])
    then show ?thesis
      by (rule wp_mono [OF wp_conj [OF wp_sound [OF mu_mark_failed [OF law] assms(2)]]]) auto
  qed
  show "wp (journal_lease_lost S C rq b reason details) (\<lambda>_ t. recovery_wanted b (run_db t)) (\<lambda>e _. store_failure e) t"
    if "sound t" for t by (rule wp_lost [OF law that])
  show "wp (attempt (journal_recovery_desired S C rq b reason details)
      (\<lambda>e. if e = Raised LeaseLostError then Some (journal_lease_lost S C rq b reason details) else None))
      (\<lambda>_ t. recovery_wanted b (run_db t)) (\<lambda>e _. store_failure e) t" if "sound t" for t
    unfolding wp_attempt case_if_Some
  proof (rule wp_mono [OF wp_conj [OF wp_sound [OF mu_recovery_desired [OF law] that] wp_desired [OF law that]]])
    fix e and t' :: "'w run_state"
    assume "sound t' \<and> store_failure e"
    then show "if e = Raised LeaseLostError
        then wp (journal_lease_lost S C rq b reason details) (\<lambda>_ t. recovery_wanted b (run_db t)) (\<lambda>e _. store_failure e) t'
        else store_failure e"
      using wp_lost [OF law] by simp
  qed simp
qed simp


lemma wp_observed:
  assumes "keeps (any_run C F) m" and "sound s" and "\<And>x t. sound t \<Longrightarrow> Q x t" and "\<And>t. E Interrupt t"
  shows "wp (observed m) Q E s"
  unfolding observed_def wp_attempt wp_bind wp_ret' case_if_Some
  by (rule wp_mono [OF wp_sound [OF assms(1,2)]]) (use assms(3,4) in \<open>auto simp: wp_ret split: if_splits\<close>)

lemma wp_mutation_failure:
  assumes law: "lawful_for C F S" and "sound s"
  shows "wp (record_mutation_failure S C rq b p before recovery stage e)
    (\<lambda>_ t. recovery_wanted b (run_db t)) (\<lambda>e _. store_failure e) s"
  unfolding record_mutation_failure_def wp_bind Let_def
proof (rule wp_observed [OF mu_snapshot [OF quiet_True] assms(2)], goal_cases)
  case (1 current t)
  have lost: "wp (unless_lost (checkpoint_now S C rq b None ''failure'' payload)
      (journal_lease_lost S C rq b reason details)
      (fail_and_desire_recovery S C rq b message failure_payload reason details))
      (\<lambda>_ t. recovery_wanted b (run_db t)) (\<lambda>e _. store_failure e) t" for payload reason details message failure_payload
  proof (rule wp_unless_lost)
    have "wp (checkpoint_now S C rq b None ''failure'' payload) (\<lambda>_ _. True) (\<lambda>e _. store_failure e) t"
      unfolding checkpoint_now_def journal_checkpoint_def by (rule wp_calls [OF record_checkpoint_fails])
    then show "wp (checkpoint_now S C rq b None ''failure'' payload) (\<lambda>_. sound) (\<lambda>e t. store_failure e \<and> sound t) t"
      by (rule wp_mono [OF wp_conj [OF wp_sound [OF mu_checkpoint_now [OF law] 1]]]) auto
  qed (use wp_lost [OF law] wp_fail_and_desire [OF law] in auto)
  show ?case
  proof (cases current)
    case (Inl e')
    then show ?thesis using wp_fail_and_desire [OF law 1] by simp
  next
    case (Inr x)
    then show ?thesis using lost by simp
  qed
qed (simp add: store_failure_def)

lemma wp_before_failure:
  assumes "lawful_for C F S" and "sound s"
  shows "wp (record_before_snapshot_failure S C rq b p recovery e)
    (\<lambda>_ t. recovery_wanted b (run_db t)) (\<lambda>e _. store_failure e) s"
  unfolding record_before_snapshot_failure_def Let_def by (rule wp_fail_and_desire [OF assms])

lemma wp_post_failure:
  assumes law: "lawful_for C F S" and "sound s"
  shows "wp (record_post_mutation_failure S C rq b p before after recovery stage e)
    (\<lambda>_ t. recovery_wanted b (run_db t)) (\<lambda>e _. store_failure e) s"
  unfolding record_post_mutation_failure_def wp_bind Let_def
proof (cases after)
  case None
  show "wp (case after of None \<Rightarrow> observed (world_call (co_snapshot C p)) | Some x \<Rightarrow> ret (Inr x)) (\<lambda>current. wp
      (fail_and_desire_recovery S C rq b (''filesystem post-mutation journal failed during '' @ stage)
        (staged_failure_entries S rq p stage e @ [case current of Inl e' \<Rightarrow> snapshot_error_entry S e' | Inr x \<Rightarrow> (''after'', snapshot_payload x)])
        ''filesystem post-mutation journal failed'' (recovery_details recovery rq before
        (staged_failure_entries S rq p stage e @ [case current of Inl e' \<Rightarrow> snapshot_error_entry S e' | Inr x \<Rightarrow> (''after'', snapshot_payload x)])))
      (\<lambda>_ t. recovery_wanted b (run_db t)) (\<lambda>e _. store_failure e)) (\<lambda>e _. store_failure e) s"
    unfolding None option.case
    by (rule wp_observed [OF mu_snapshot [OF quiet_True] assms(2)])
      (rule wp_fail_and_desire [OF law], assumption, simp add: store_failure_def)
qed (use wp_fail_and_desire [OF assms] in \<open>simp add: wp_ret\<close>)

text \<open>A part of the mutation whose failures are recorded.\<close>

definition ended_badly :: "string \<Rightarrow> failure \<Rightarrow> 'w run_state \<Rightarrow> bool" where
  "ended_badly b e s \<longleftrightarrow> store_failure e \<or> recovery_wanted b (run_db s)"

lemma wp_recorded:
  fixes s :: "'w run_state"
  assumes "wp m Q (\<lambda>_. sound) s"
    and "\<And>e t. sound t \<Longrightarrow> wp (handle e) (\<lambda>_ t. recovery_wanted b (run_db t)) (\<lambda>e _. store_failure e) t"
  shows "wp (recording m handle) Q (ended_badly b) s"
  unfolding recording_def wp_attempt case_if_Some wp_bind wp_raise'
proof (rule wp_mono [OF assms(1)])
  fix e and t :: "'w run_state"
  assume t: "sound t"
  have "wp (handle e) (\<lambda>_. ended_badly b e) (ended_badly b) t"
    by (rule wp_mono [OF assms(2) [OF t]]) (auto simp: ended_badly_def)
  then show "case if e = Interrupt then None else Some (bind (handle e) (\<lambda>_. raise e)) of None \<Rightarrow> ended_badly b e t
      | Some p \<Rightarrow> wp p Q (ended_badly b) t"
    by (simp add: wp_bind wp_raise') (simp add: ended_badly_def store_failure_def)
qed

text \<open>The mutation itself: renamed or not, its failure is recorded.\<close>

lemma wp_mutate:
  fixes s :: "'w run_state"
  assumes law: "lawful_for C F S" and mutate: "keeps (any_run C F) mutate" and s: "sound s"
  shows "wp (mutate_file S C rq b p before recovery mutate) (\<lambda>_. sound) (ended_badly b) s"
  unfolding mutate_file_def wp_attempt
proof (rule wp_mono [OF wp_sound [OF mu_maintain [OF law mutate] s]])
  fix e and t :: "'w run_state"
  assume t: "sound t"
  have "wp (record_mutation_failure S C rq b p before recovery None e) (\<lambda>_. ended_badly b e') (ended_badly b) t" for e'
    by (rule wp_mono [OF wp_mutation_failure [OF law t]]) (auto simp: ended_badly_def)
  then show "case if e = Interrupt then None else Some (
        bind (record_mutation_failure S C rq b p before recovery None e) (\<lambda>_.
        raise (if e = Raised UnsupportedFilesystemBackendError then e else MutationFailed b))) of
      None \<Rightarrow> ended_badly b e t | Some p \<Rightarrow> wp p (\<lambda>_. sound) (ended_badly b) t"
    by (simp add: wp_bind wp_raise') (simp add: ended_badly_def store_failure_def)
qed

subsection \<open>The records of a success\<close>

definition checkpointed :: "string \<Rightarrow> string \<Rightarrow> string \<Rightarrow> checkpoint_record \<Rightarrow> journal_db \<Rightarrow> bool" where
  "checkpointed b oid type c db \<longleftrightarrow> c \<in> set (checkpoint_table db) \<and> checkpoint_batch_id c = b
     \<and> checkpoint_operation_id c = Some oid \<and> checkpoint_type c = type"

definition succeeded_with :: "string \<Rightarrow> operation_record \<Rightarrow> mutation_result \<Rightarrow> journal_db \<Rightarrow> bool" where
  "succeeded_with b operation r db \<longleftrightarrow> get_batch b db = Some (mr_batch r) \<and> br_phase (mr_batch r) = SUCCEEDED
     \<and> mr_operation r = Some operation \<and> mr_recovery r = None \<and> \<not> mr_skipped r
     \<and> (\<exists>c. mr_before r = Some c \<and> checkpointed b (operation_id operation) ''before'' c db)
     \<and> (\<exists>c. mr_after r = Some c \<and> checkpointed b (operation_id operation) ''after'' c db)"

lemma kept_checkpointed:
  "any_run C F s t \<Longrightarrow> sound s \<Longrightarrow> checkpointed b oid type c (run_db s) \<Longrightarrow> checkpointed b oid type c (run_db t)"
  using steps_tables(2) [OF run_steps] unfolding checkpointed_def by blast

text \<open>A part of the mutation that keeps a checkpoint, and one that adds it.\<close>

lemma wp_past:
  assumes "keeps (any_run C F) m" and "sound s" and "checkpointed b oid type c (run_db s)"
  shows "wp m (\<lambda>_ t. sound t \<and> checkpointed b oid type c (run_db t)) (\<lambda>_. sound) s"
  by (rule wp_keeps [OF assms(1)]) (use assms(2,3) kept_checkpointed run_wf in blast)+

lemma wp_added:
  assumes "lawful_for C F S" and "sound s"
  shows "wp (checkpoint_now S C rq b (Some oid) type payload) (\<lambda>c t. sound t \<and> checkpointed b oid type c (run_db t))
    (\<lambda>_. sound) s"
  by (rule wp_checkpoint_now [OF assms, where P = "\<lambda>_. True"])
    (use run_wf [OF _ assms(2)] in \<open>auto simp: checkpointed_def\<close>)

lemma wp_succeeded:
  fixes C :: "'w coordinator" and s :: "'w run_state"
  assumes law: "lawful_for C F S" and s: "sound s"
    and past: "checkpointed b oid ''before'' c (run_db s)" "checkpointed b oid ''after'' c' (run_db s)"
  shows "wp (journal_mark_succeeded S rq b result) (\<lambda>batch t. get_batch b (run_db t) = Some batch \<and> br_phase batch = SUCCEEDED
      \<and> checkpointed b oid ''before'' c (run_db t) \<and> checkpointed b oid ''after'' c' (run_db t)) (\<lambda>_. sound) s"
proof -
  have batch: "wp (journal_mark_succeeded S rq b result)
      (\<lambda>batch t. get_batch b (run_db t) = Some batch \<and> br_phase batch = SUCCEEDED) (\<lambda>_ _. True) s"
    unfolding journal_mark_succeeded_def wp_bind
  proof (rule wp_time, rule wp_transact, goal_cases)
    case (1 now db)
    have "get_batch b db' = Some batch \<and> br_phase batch = SUCCEEDED"
      if r: "mark_succeeded b (rq_lease rq) (Some (JObj result)) now db = Inr (db', batch)" for db' batch
      using r unfolding mark_succeeded_def
    proof (cases rule: transition_batch_ok)
      case (1 row)
      then show ?thesis
        using batch_row_update [of "set_batch_status SUCCEEDED None (payload_to_json (Some (JObj result))) now" b b db]
          batch_row_in [OF 1(2)] by (simp add: get_batch_def batch_from_row_def)
    qed
    then show ?case by (auto split: sum.split)
  qed
  note keeps = mu_mark_succeeded [OF law, of "\<lambda>_. True" rq b result]
  show ?thesis
    by (rule wp_mono [OF wp_conj [OF batch wp_conj [OF wp_past [OF keeps s past(1)] wp_past [OF keeps s past(2)]]]]) auto
qed


subsection \<open>The end of every mutation\<close>

lemma wp_finish:
  fixes C :: "'w coordinator" and s :: "'w run_state"
  assumes law: "lawful_for C F S" and s: "sound s"
    and past: "checkpointed b (operation_id operation) ''before'' c (run_db s)"
  shows "wp (finish_file_mutation S C rq b operation p before kind recovery c)
    (\<lambda>r t. succeeded_with b operation r (run_db t)) (ended_badly b) s"
  unfolding finish_file_mutation_def wp_bind wp_ret'
proof (rule wp_recorded [OF wp_mono [OF wp_past [OF mu_snapshot [OF quiet_True] s past]]], goal_cases)
  case (1 after t)
  then have t: "sound t" and past_t: "checkpointed b (operation_id operation) ''before'' c (run_db t)" by blast+
  have added: "wp (record_after_mutation_checkpoint S C rq b (operation_id operation) after kind)
      (\<lambda>c' u. sound u \<and> checkpointed b (operation_id operation) ''before'' c (run_db u)
        \<and> checkpointed b (operation_id operation) ''after'' c' (run_db u)) (\<lambda>_. sound) t"
    unfolding record_after_mutation_checkpoint_def
    by (rule wp_mono [OF wp_conj [OF wp_past [OF mu_checkpoint_now [OF law] t past_t] wp_added [OF law t]]]) auto
  show ?case
  proof (rule wp_recorded [OF wp_mono [OF added]], goal_cases)
    case (1 c' u)
    then have u: "sound u" "checkpointed b (operation_id operation) ''before'' c (run_db u)"
      "checkpointed b (operation_id operation) ''after'' c' (run_db u)" by blast+
    show ?case
      by (rule wp_recorded [OF wp_mono [OF wp_succeeded [OF law u]] wp_post_failure [OF law]])
        (auto simp: succeeded_with_def)
  qed (assumption | rule wp_post_failure [OF law])+
qed (assumption | rule wp_post_failure [OF law])+


lemma wp_prepared:
  fixes C :: "'w coordinator" and s :: "'w run_state"
  assumes law: "lawful_for C F S" and s: "sound s"
  shows "wp (run_with_lease_heartbeat S lease (prepare_mutation_checkpoints S C rq b oid p before kind recovery))
    (\<lambda>(c, prepared) t. sound t \<and> checkpointed b oid ''before'' c (run_db t)) (\<lambda>_. sound) s"
proof -
  have body: "wp (prepare_mutation_checkpoints S C rq b oid p before kind recovery)
      (\<lambda>(c, prepared) t. any_run C F s t \<and> checkpointed b oid ''before'' c (run_db t)) (\<lambda>_. any_run C F s) t"
    if t: "any_run C F s t" for t
  proof -
    have ran: "wp (prepare_mutation_checkpoints S C rq b oid p before kind recovery) (\<lambda>_. any_run C F s) (\<lambda>_. any_run C F s) t"
      by (rule wp_quiet [OF mu_prepare [OF law quiet_True] t])
    have "wp (prepare_mutation_checkpoints S C rq b oid p before kind recovery)
        (\<lambda>(c, prepared) t. checkpointed b oid ''before'' c (run_db t)) (\<lambda>_ _. True) t"
      unfolding prepare_mutation_checkpoints_def wp_bind
    proof (rule wp_mono [OF wp_added [OF law run_wf [OF t s]]], goal_cases)
      case (1 c u)
      then have u: "sound u" and c: "checkpointed b oid ''before'' c (run_db u)" by blast+
      have "wp (record_rollback_proof S C rq b oid p before recovery)
          (\<lambda>_ v. checkpointed b oid ''before'' c (run_db v)) (\<lambda>_ _. True) u"
        by (rule wp_mono [OF wp_past [OF mu_rollback_proof [OF law quiet_True] u c]]) simp_all
      then show ?case using c by (simp add: wp_ret wp_bind wp_ret')
    qed simp
    from wp_conj [OF ran this] show ?thesis by (rule wp_mono) auto
  qed
  have "wp (run_with_lease_heartbeat S lease (prepare_mutation_checkpoints S C rq b oid p before kind recovery))
    (\<lambda>(c, prepared) t. any_run C F s t \<and> checkpointed b oid ''before'' c (run_db t)) (\<lambda>_. any_run C F s) s"
    by (rule wp_heartbeat [OF law mu.refl]) (use body in auto)
  then show ?thesis by (rule wp_mono) (use run_wf [OF _ s] in auto)
qed

text \<open>
  C33. No silent end. Once its batch is open, a mutation either returns, and then the batch has
  succeeded and the checkpoints from before and after are on record, or it fails, and then the
  batch wants recovery unless the failure is an interrupt or an error that the journal's own calls
  raise (\<open>journal_errors\<close>): no failure of the file system, the claims or the backups is silent.
\<close>

theorem mutation_outcome:
  fixes C :: "'w coordinator" and s :: "'w run_state"
  assumes "lawful_for C F S" and "keeps (mutation_run C F (\<lambda>_. True)) mutate" and "journal_wf (run_db s)"
  shows "case perform_file_mutation S C rq b operation p kind recovery mutate s of
      (Inr r, s') \<Rightarrow> succeeded_with b operation r (run_db s')
    | (Inl e, s') \<Rightarrow> store_failure e \<or> recovery_wanted b (run_db s')"
proof -
  note law = assms(1)
  have finish: "wp (mutate_file S C rq b p before prepared mutate)
      (\<lambda>_. wp (finish_file_mutation S C rq b operation p before kind prepared c)
        (\<lambda>r t. succeeded_with b operation r (run_db t)) (ended_badly b)) (ended_badly b) t"
    if t: "sound t" "checkpointed b (operation_id operation) ''before'' c (run_db t)" for before prepared c t
  proof -
    have "wp (mutate_file S C rq b p before prepared mutate)
        (\<lambda>_ t. sound t \<and> checkpointed b (operation_id operation) ''before'' c (run_db t)) (ended_badly b) t"
      using wp_conj [OF wp_mutate [OF law assms(2) t(1)] wp_past [OF mu_mutate [OF law quiet_True assms(2)] t]]
      by (rule wp_mono) auto
    then show ?thesis by (rule wp_mono) (use wp_finish [OF law] in auto)
  qed
  have "wp (perform_file_mutation S C rq b operation p kind recovery mutate)
      (\<lambda>r t. succeeded_with b operation r (run_db t)) (ended_badly b) s"
    unfolding perform_file_mutation_def wp_bind
  proof (rule wp_recorded [OF wp_mono [OF wp_sound [OF mu_snapshot [OF quiet_True] assms(3)]]], goal_cases)
    case (1 before t)
    show ?case
    proof (rule wp_recorded [OF wp_mono [OF wp_prepared [OF law 1]]], goal_cases)
      case (1 v u)
      then have u: "sound u" "checkpointed b (operation_id operation) ''before'' (fst v) (run_db u)" by auto
      show ?case
        unfolding split_def wp_bind
        by (rule wp_recorded [OF wp_mono [OF wp_past [OF mu_authority [OF law] u]] wp_mutation_failure [OF law]])
          (use finish in auto)
    qed (assumption | rule wp_mutation_failure [OF law])+
  qed (assumption | rule wp_before_failure [OF law])+
  then show ?thesis
    by (auto simp: wp_def ended_badly_def split: prod.splits sum.splits)
qed


text \<open>On the demo database the first snapshot of a started mutation fails.\<close>

definition blind_coordinator :: "sample_world coordinator" where
  "blind_coordinator = sample_coordinator\<lparr>co_snapshot := (\<lambda>p w. (Inl (OtherFailure ''io''), w))\<rparr>"

definition blind_run :: "(failure + mutation_result) \<times> sample_world run_state" where
  "blind_run = perform_file_mutation demo_surroundings blind_coordinator sample_request ''b1''
     (hd (operation_table db_started)) (path_of ''/w/f'') ''write_bytes'' [] sample_mutate
     \<lparr>run_db = db_started, run_world = [], run_tick = 0\<rparr>"

theorem mutation_outcome_witness:
  "fst blind_run = Inl (OtherFailure ''io'') \<and> recovery_wanted ''b1'' (run_db (snd blind_run))"
proof -
  have law: "lawful_for blind_coordinator {} demo_surroundings"
    using demo_lawful by (simp add: blind_coordinator_def sample_coordinator_def)
  have "keeps (mutation_run blind_coordinator {} (\<lambda>_. True)) sample_mutate"
    unfolding sample_mutate_def by (rule mu_world_call) (simp add: keeps_world_def)
  have e: "fst blind_run = Inl (OtherFailure ''io'')" by code_simp
  then obtain s' where s': "blind_run = (Inl (OtherFailure ''io''), s')" by (metis prod.collapse)
  have "case blind_run of (Inr r, s') \<Rightarrow> succeeded_with ''b1'' (hd (operation_table db_started)) r (run_db s')
      | (Inl e, s') \<Rightarrow> store_failure e \<or> recovery_wanted ''b1'' (run_db s')"
    unfolding blind_run_def by (rule mutation_outcome [OF law \<open>keeps _ _\<close>]) (simp add: demo_wfs)
  then show ?thesis unfolding s' prod.case sum.case fst_conv snd_conv by (auto simp: store_failure_def)
qed

end
