(* ===== verification/Path_Safety.thy ===== *)
theory Path_Safety
  imports Directory_Creation Backup_Artifacts
begin

section \<open>Inspecting paths\<close>

text \<open>
  \<open>filesystem_ops/paths.py\<close> on POSIX: what a path is, without following it, and the refusal of
  paths whose parents redirect elsewhere. The calls of \<open>pathlib\<close> and \<open>os\<close> are the fields of
  \<open>os_calls\<close>; each may fail, and each sees the state of the file system at its own time.
\<close>

record stat_result =
  st_kind :: file_type
  st_dev :: int
  st_ino :: int
  st_size :: int
  st_mtime_ns :: int
  st_ctime_ns :: int
  st_nlink :: int

record 'w os_calls =
  os_env :: path_env
  os_is_symlink :: "path \<Rightarrow> 'w \<Rightarrow> (failure + bool) \<times> 'w"
  os_exists :: "path \<Rightarrow> 'w \<Rightarrow> (failure + bool) \<times> 'w"
  os_is_file :: "path \<Rightarrow> 'w \<Rightarrow> (failure + bool) \<times> 'w"
  os_is_dir :: "path \<Rightarrow> 'w \<Rightarrow> (failure + bool) \<times> 'w"
  os_is_mount :: "path \<Rightarrow> 'w \<Rightarrow> (failure + bool) \<times> 'w"
  os_lstat :: "path \<Rightarrow> 'w \<Rightarrow> (failure + stat_result) \<times> 'w"
  os_stat :: "path \<Rightarrow> 'w \<Rightarrow> (failure + stat_result) \<times> 'w"
  os_rename_no_replace :: "path \<Rightarrow> path \<Rightarrow> 'w \<Rightarrow> (failure + unit) \<times> 'w"

text \<open>\<open>with contextlib.suppress(...)\<close>: the value from before, if the call raises one of these.\<close>

definition suppress :: "failure set \<Rightarrow> 'a \<Rightarrow> ('w, 'a) program \<Rightarrow> ('w, 'a) program" where
  "suppress es x m = attempt m (\<lambda>e. if e \<in> es then Some (ret x) else None)"

definition inspected_file_type :: "'w os_calls \<Rightarrow> path \<Rightarrow> ('w, file_type) program" where
  "inspected_file_type Y p = suppress os_errors FT_OTHER
     (bind (world_call (os_is_symlink Y p)) (\<lambda>link.
      if link then ret FT_SYMLINK
      else bind (world_call (os_exists Y p)) (\<lambda>present.
      if \<not> present then ret FT_MISSING
      else bind (world_call (os_is_file Y p)) (\<lambda>regular.
      if regular then ret FT_FILE
      else bind (world_call (os_is_dir Y p)) (\<lambda>directory.
      ret (if directory then FT_DIRECTORY else FT_OTHER))))))"

definition inspect_path :: "'w os_calls \<Rightarrow> path \<Rightarrow> ('w, path_safety) program" where
  "inspect_path Y p =
     bind (inspected_file_type Y p) (\<lambda>type.
     bind (suppress (insert (Raised NotImplementedError) os_errors) False (world_call (os_is_mount Y p))) (\<lambda>mount.
     bind (if type = FT_MISSING then ret (0, None)
           else suppress os_errors (0, None)
             (bind (world_call (os_lstat Y p)) (\<lambda>st. ret (st_nlink st, Some (st_size st))))) (\<lambda>(links, len).
     ret \<lparr>ps_path = p, ps_exists = type \<noteq> FT_MISSING, ps_file_type = type, ps_is_mount = mount,
          ps_is_windows_reparse_point = False, ps_hardlink_count = links, ps_size = len\<rparr>)))"

definition raise_if_redirecting :: "path_safety \<Rightarrow> ('w, unit) program" where
  "raise_if_redirecting safety =
     (if ps_file_type safety = FT_SYMLINK \<or> ps_is_windows_reparse_point safety \<or> ps_is_mount safety
      then raise (Raised UnsafePathError) else ret ())"

text \<open>The loop climbs to the root, which is its own parent.\<close>

function check_parents :: "'w os_calls \<Rightarrow> path \<Rightarrow> ('w, unit) program" where
  "check_parents Y current =
     (if path_parent current = current then ret ()
      else bind (inspect_path Y current) (\<lambda>safety.
        if ps_exists safety \<and> (ps_file_type safety = FT_SYMLINK \<or> ps_is_windows_reparse_point safety)
        then raise (Raised UnsafePathError)
        else if ps_exists safety \<and> ps_file_type safety \<noteq> FT_DIRECTORY then raise (Raised UnsafePathError)
        else check_parents Y (path_parent current)))"
  by pat_completeness auto

termination
proof (relation "measure (\<lambda>(Y, p). length (path_parts p))")
  show "((Y, path_parent p), Y, p) \<in> measure (\<lambda>(Y, p). length (path_parts p))" if "path_parent p \<noteq> p"
    for Y :: "'w os_calls" and p
    using that by (cases "path_parts p = []") (simp_all add: path_parent_def)
qed simp

declare check_parents.simps [simp del]

definition ensure_safe_parent_chain :: "'w os_calls \<Rightarrow> path \<Rightarrow> ('w, unit) program" where
  "ensure_safe_parent_chain Y p =
     check_parents Y (path_parent (path_join (env_cwd (os_env Y)) (env_expanduser (os_env Y) p)))"

text \<open>The checks before a write, a deletion and the creation of a directory.\<close>

definition ensure_safe_write_path :: "'w os_calls \<Rightarrow> path \<Rightarrow> ('w, unit) program" where
  "ensure_safe_write_path Y p =
     bind (ensure_safe_parent_chain Y p) (\<lambda>_.
     bind (inspect_path Y p) (\<lambda>safety.
     bind (raise_if_redirecting safety) (\<lambda>_.
     if ps_exists safety \<and> ps_file_type safety \<noteq> FT_FILE then raise (Raised UnsafePathError) else ret ())))"

definition ensure_safe_delete_path :: "'w os_calls \<Rightarrow> path \<Rightarrow> bool \<Rightarrow> ('w, unit) program" where
  "ensure_safe_delete_path Y p missing_ok =
     bind (ensure_safe_parent_chain Y p) (\<lambda>_.
     bind (inspect_path Y p) (\<lambda>safety.
     bind (raise_if_redirecting safety) (\<lambda>_.
     if \<not> ps_exists safety then (if missing_ok then ret () else raise (Raised FileNotFoundError))
     else if ps_file_type safety \<noteq> FT_FILE then raise (Raised UnsafePathError) else ret ())))"

definition ensure_safe_mkdir_path :: "'w os_calls \<Rightarrow> path \<Rightarrow> bool \<Rightarrow> ('w, unit) program" where
  "ensure_safe_mkdir_path Y p exist_ok =
     bind (ensure_safe_parent_chain Y p) (\<lambda>_.
     bind (inspect_path Y p) (\<lambda>safety.
     bind (raise_if_redirecting safety) (\<lambda>_.
     if \<not> ps_exists safety then ret ()
     else if ps_file_type safety = FT_DIRECTORY
     then (if exist_ok then ret () else raise (Raised FileExistsError))
     else raise (Raised UnsafePathError))))"

end
