(* ===== verification/Move_Mutations.thy ===== *)
theory Move_Mutations
  imports File_Mutations
begin

section \<open>Journaled renames and captures of directories\<close>

text \<open>
  \<open>rename_no_replace\<close> and \<open>capture_directory\<close> of \<open>operation_journal/filesystem_mutations.py\<close>: a path
  is moved to another one, under claims on both. A failure of the move may come after the move
  itself; snapshots of both paths then tell whether it looks done, and the record of the failure
  carries what is needed to undo it.
\<close>

subsection \<open>Payloads\<close>

definition rename_record_payload :: "rename_record \<Rightarrow> json" where
  "rename_record_payload r = JObj
     [(''source_path'', JStr (path_text (rn_source_path r))),
      (''destination_path'', JStr (path_text (rn_destination_path r))),
      (''file_type'', JStr (file_type_text (rn_file_type r))),
      (''device'', JInt (rn_device r)), (''inode'', JInt (rn_inode r)), (''size'', JInt (rn_size r)),
      (''mtime_ns'', JInt (rn_mtime_ns r)), (''ctime_ns'', int_json (rn_ctime_ns r))]"

definition identity_payload :: "path \<Rightarrow> string \<Rightarrow> int \<Rightarrow> int \<Rightarrow> json" where
  "identity_payload p key device inode = JObj
     [(''file_type'', JStr ''directory''), (''path'', JStr (path_text p)), (''resource_key'', JStr key),
      (''device'', JInt device), (''inode'', JInt inode)]"

definition captured_directory_payload :: "captured_directory \<Rightarrow> string \<Rightarrow> string \<Rightarrow> json" where
  "captured_directory_payload c key cleanup = JObj
     [(''path'', JStr (path_text (cd_original_path c))), (''step_resource_key'', JStr key),
      (''ownership_class'', JStr (cd_ownership_class c)), (''captured_directory_cleanup'', JStr cleanup),
      (''captured_directory'', JObj
        [(''original_path'', JStr (path_text (cd_original_path c))),
         (''quarantine_path'', JStr (path_text (cd_quarantine_path c))),
         (''original_identity'', identity_payload (cd_original_path c) key
            (di_device (cd_original_identity c)) (di_inode (cd_original_identity c))),
         (''captured_identity'', identity_payload (cd_quarantine_path c) key
            (di_device (cd_captured_identity c)) (di_inode (cd_captured_identity c))),
         (''capture_token'', opt_json (cd_capture_token c)),
         (''ownership_class'', JStr (cd_ownership_class c))])]"

definition captured_directory_cleanup_payload :: "checkpoint_record \<Rightarrow> captured_directory \<Rightarrow> entries" where
  "captured_directory_cleanup_payload checkpoint c =
     [(''checkpoint_id'', JStr (checkpoint_id checkpoint)), (''artifact_type'', JStr ''captured_directory''),
      (''quarantine_path'', JStr (path_text (cd_quarantine_path c))),
      (''original_path'', JStr (path_text (cd_original_path c))),
      (''captured_identity'', JObj [(''device'', JInt (di_device (cd_captured_identity c))),
         (''inode'', JInt (di_inode (cd_captured_identity c)))])]
     @ (let policy = jget (checkpoint_payload checkpoint) ''captured_directory_cleanup''
        in if policy \<in> {JStr ''automatic'', JStr ''retain''} then [(''captured_directory_cleanup'', policy)] else [])"

definition captured_directory_cleanup_artifact_id :: "'w coordinator \<Rightarrow> captured_directory \<Rightarrow> string" where
  "captured_directory_cleanup_artifact_id C c =
     ''captured-directory:'' @ path_text (normalized_path (co_artifacts C) (cd_quarantine_path c))"

subsection \<open>Moves that look done\<close>

definition looks_physically_moved :: "resource_snapshot option \<Rightarrow> resource_snapshot option \<Rightarrow> bool" where
  "looks_physically_moved source_after target_after = (case (source_after, target_after) of
      (Some s, Some t) \<Rightarrow> \<not> snap_exists s \<and> snap_exists t
    | _ \<Rightarrow> False)"

definition snapshot_identity_matches :: "resource_snapshot \<Rightarrow> resource_snapshot \<Rightarrow> bool" where
  "snapshot_identity_matches left right \<longleftrightarrow>
     snap_device left \<noteq> None \<and> snap_device left = snap_device right
   \<and> snap_inode left \<noteq> None \<and> snap_inode left = snap_inode right
   \<and> snap_size left \<noteq> None \<and> snap_size left = snap_size right
   \<and> snap_mtime_ns left \<noteq> None \<and> snap_mtime_ns left = snap_mtime_ns right
   \<and> (snap_file_type left = FT_FILE \<and> snap_file_type right = FT_FILE \<longrightarrow>
        snap_content_hash left \<noteq> None \<and> snap_content_hash left = snap_content_hash right)"

definition rename_payload_from_snapshots ::
  "path \<Rightarrow> path \<Rightarrow> resource_snapshot \<Rightarrow> resource_snapshot option \<Rightarrow> json option" where
  "rename_payload_from_snapshots source_path destination_path before destination_after =
     (case destination_after of
        None \<Rightarrow> None
      | Some after \<Rightarrow>
          if snap_file_type before \<noteq> FT_FILE \<or> snap_file_type after \<noteq> snap_file_type before
            \<or> \<not> snapshot_identity_matches after before then None
          else case (snap_device before, snap_inode before, snap_size before, snap_mtime_ns before, snap_ctime_ns before) of
              (Some device, Some inode, Some len, Some mtime, Some ctime) \<Rightarrow>
                Some (rename_record_payload
                  \<lparr>rn_source_path = source_path, rn_destination_path = destination_path,
                   rn_file_type = snap_file_type before, rn_device = device, rn_inode = inode, rn_size = len,
                   rn_mtime_ns = mtime, rn_ctime_ns = Some ctime\<rparr>)
            | _ \<Rightarrow> None)"

definition manual_intervention_action_payload ::
  "string \<Rightarrow> string \<Rightarrow> string \<Rightarrow> string \<Rightarrow> string \<Rightarrow> string \<Rightarrow> path \<Rightarrow> path \<Rightarrow> resource_snapshot
    \<Rightarrow> resource_snapshot option \<Rightarrow> resource_snapshot option \<Rightarrow> json" where
  "manual_intervention_action_payload operation action key reason code detail source_path target_path before
     source_after target_after =
     (let payload_of = (\<lambda>x. case x of None \<Rightarrow> JNull | Some s \<Rightarrow> snapshot_payload s)
      in JObj [(''action_id'', JStr action), (''action_type'', JStr ''manual_intervention_required''),
        (''resource_key'', JStr key),
        (''payload'', JObj
          [(''operation'', JStr operation), (''path'', JStr (path_text source_path)),
           (''target_path'', JStr (path_text target_path)), (''resource_key'', JStr key), (''reason'', JStr reason),
           (''reason_code'', JStr code), (''detail'', JStr detail), (''before'', snapshot_payload before),
           (''source_after'', payload_of source_after), (''target_after'', payload_of target_after)])])"

definition ambiguous_rename_recovery_payload ::
  "path \<Rightarrow> path \<Rightarrow> string \<Rightarrow> resource_snapshot \<Rightarrow> resource_snapshot option \<Rightarrow> resource_snapshot option \<Rightarrow> string
    \<Rightarrow> entries option" where
  "ambiguous_rename_recovery_payload source_path destination_path key before source_after destination_after detail =
     (if \<not> looks_physically_moved source_after destination_after then None
      else case rename_payload_from_snapshots source_path destination_path before destination_after of
          Some payload \<Rightarrow> Some [(''rename_record'', payload)]
        | None \<Rightarrow> Some [(''manual_intervention_action'',
            manual_intervention_action_payload ''rename_no_replace''
              (''manual-intervention:rename-no-replace:'' @ path_text destination_path @ '':'' @ path_text source_path) key
              ''rename_no_replace requires manual intervention after ambiguous post-move verification''
              ''rename_ambiguous_success_unverified'' detail source_path destination_path before
              source_after destination_after)])"

text \<open>\<open>_snapshot_directory_capture_token\<close>.\<close>

definition snapshot_directory_capture_token ::
  "'w coordinator \<Rightarrow> path \<Rightarrow> resource_snapshot \<Rightarrow> bool \<Rightarrow> ('w, string option) program" where
  "snapshot_directory_capture_token C p x create =
     (case (snap_device x, snap_inode x) of
        (Some device, Some inode) \<Rightarrow>
          if snap_file_type x \<noteq> FT_DIRECTORY then ret None
          else attempt (world_call (co_capture_token C p device inode create))
            (\<lambda>e. if e \<in> os_errors \<union> unsafe_path_errors then Some (ret None) else None)
      | _ \<Rightarrow> ret None)"

definition captured_directory_payload_from_snapshots ::
  "'w coordinator \<Rightarrow> path \<Rightarrow> path \<Rightarrow> string \<Rightarrow> resource_snapshot \<Rightarrow> string option \<Rightarrow> resource_snapshot option
    \<Rightarrow> ('w, json option) program" where
  "captured_directory_payload_from_snapshots C source_path quarantine_path key before token quarantine_after =
     (case (quarantine_after, snap_device before, snap_inode before, token) of
        (Some after, Some device, Some inode, Some t) \<Rightarrow>
          if snap_file_type before \<noteq> FT_DIRECTORY \<or> snap_file_type after \<noteq> FT_DIRECTORY
            \<or> (snap_device after, snap_inode after) \<noteq> (snap_device before, snap_inode before) then ret None
          else bind (snapshot_directory_capture_token C quarantine_path after False) (\<lambda>current.
            ret (if current \<noteq> Some t then None
              else Some (JObj
                [(''path'', JStr (path_text source_path)), (''step_resource_key'', JStr key),
                 (''ownership_class'', JStr ''captured_by_transaction''),
                 (''captured_directory'', JObj
                   [(''capture_token'', JStr t), (''original_path'', JStr (path_text source_path)),
                    (''quarantine_path'', JStr (path_text quarantine_path)),
                    (''original_identity'', identity_payload source_path key device inode),
                    (''captured_identity'', identity_payload quarantine_path key device inode),
                    (''ownership_class'', JStr ''captured_by_transaction'')])])))
      | _ \<Rightarrow> ret None)"

definition ambiguous_capture_recovery_payload ::
  "'w coordinator \<Rightarrow> path \<Rightarrow> path \<Rightarrow> string \<Rightarrow> resource_snapshot \<Rightarrow> string option \<Rightarrow> resource_snapshot option
    \<Rightarrow> resource_snapshot option \<Rightarrow> string \<Rightarrow> ('w, entries option) program" where
  "ambiguous_capture_recovery_payload C source_path quarantine_path key before token source_after quarantine_after detail =
     (if \<not> looks_physically_moved source_after quarantine_after then ret None
      else bind (captured_directory_payload_from_snapshots C source_path quarantine_path key before token quarantine_after)
        (\<lambda>found. ret (case found of
            Some payload \<Rightarrow> Some [(''captured_directory_restore'', payload)]
          | None \<Rightarrow> Some [(''manual_intervention_action'',
              manual_intervention_action_payload ''capture_directory''
                (''manual-intervention:capture-directory:'' @ path_text quarantine_path @ '':'' @ path_text source_path) key
                ''capture_directory requires manual intervention after ambiguous post-move verification''
                ''capture_directory_ambiguous_success_unverified'' detail source_path quarantine_path before
                source_after quarantine_after)])))"

subsection \<open>The course of a move\<close>

definition require_both_authorities ::
  "surroundings \<Rightarrow> 'w coordinator \<Rightarrow> request \<Rightarrow> string \<Rightarrow> ('w, unit) program" where
  "require_both_authorities S C rq destination_key =
     bind (require_authority S C rq (rq_resource_key rq)) (\<lambda>_. require_authority S C rq destination_key)"

definition guarded_move ::
  "surroundings \<Rightarrow> 'w coordinator \<Rightarrow> request \<Rightarrow> string \<Rightarrow> ('w, 'a) program \<Rightarrow> ('w, 'a) program" where
  "guarded_move S C rq destination_key move =
     bind (require_both_authorities S C rq destination_key) (\<lambda>_.
     run_with_lease_heartbeat S (rq_lease rq)
       (bind (require_both_authorities S C rq destination_key) (\<lambda>_. move)))"

definition snapshot_or_none :: "'w coordinator \<Rightarrow> path \<Rightarrow> ('w, resource_snapshot option) program" where
  "snapshot_or_none C p = bind (observed (world_call (co_snapshot C p))) (\<lambda>r.
     ret (case r of Inl _ \<Rightarrow> None | Inr x \<Rightarrow> Some x))"

text \<open>
  The handler of a failed move: the two snapshots, what they say of the move, the record of the
  failure, and the error with the batch.
\<close>

definition record_move_failure ::
  "surroundings \<Rightarrow> 'w coordinator \<Rightarrow> request \<Rightarrow> string \<Rightarrow> path \<Rightarrow> path \<Rightarrow> resource_snapshot \<Rightarrow> string
    \<Rightarrow> (resource_snapshot option \<Rightarrow> resource_snapshot option \<Rightarrow> ('w, entries option) program)
    \<Rightarrow> failure \<Rightarrow> ('w, recovery_record) program" where
  "record_move_failure S C rq b source target before stage ambiguous e =
     bind (snapshot_or_none C source) (\<lambda>source_after.
     bind (snapshot_or_none C target) (\<lambda>target_after.
     bind (ambiguous source_after target_after) (\<lambda>recovery.
     case recovery of
       None \<Rightarrow> record_mutation_failure S C rq b source before [] None e
     | Some payload \<Rightarrow> record_post_mutation_failure S C rq b source before source_after payload stage e)))"

definition attempt_move ::
  "surroundings \<Rightarrow> 'w coordinator \<Rightarrow> request \<Rightarrow> string \<Rightarrow> string \<Rightarrow> (failure \<Rightarrow> ('w, recovery_record) program)
    \<Rightarrow> ('w, 'a) program \<Rightarrow> ('w, 'a) program" where
  "attempt_move S C rq destination_key b handle move =
     attempt (guarded_move S C rq destination_key move)
       (\<lambda>e. if e = Interrupt then None else Some (bind (handle e) (\<lambda>_. raise (MutationFailed b))))"

text \<open>The checkpoint of both paths after the move, and the end of the batch.\<close>

definition record_after_move ::
  "surroundings \<Rightarrow> 'w coordinator \<Rightarrow> request \<Rightarrow> string \<Rightarrow> string \<Rightarrow> path \<Rightarrow> string \<Rightarrow> path \<Rightarrow> ('w, checkpoint_record) program" where
  "record_after_move S C rq b oid source target_name target =
     bind (world_call (co_snapshot C source)) (\<lambda>s.
     bind (world_call (co_snapshot C target)) (\<lambda>t.
     checkpoint_now S C rq b (Some oid) ''after''
       (JObj [(''source'', snapshot_payload s), (target_name, snapshot_payload t)])))"

subsection \<open>Renames\<close>

definition finish_rename ::
  "surroundings \<Rightarrow> 'w coordinator \<Rightarrow> request \<Rightarrow> string \<Rightarrow> operation_record \<Rightarrow> path \<Rightarrow> path \<Rightarrow> checkpoint_record \<Rightarrow> rename_record
    \<Rightarrow> ('w, mutation_result) program" where
  "finish_rename S C rq b operation source destination before_checkpoint r =
     bind (checkpoint_now S C rq b (Some (operation_id operation)) ''rename_record'' (rename_record_payload r)) (\<lambda>_.
     bind (record_after_move S C rq b (operation_id operation) source ''destination'' destination) (\<lambda>after_checkpoint.
     bind (journal_mark_succeeded S rq b
          [(''operation_id'', JStr (operation_id operation)), (''rename_record'', rename_record_payload r)]) (\<lambda>succeeded.
     ret \<lparr>mr_batch = succeeded, mr_operation = Some operation, mr_before = Some before_checkpoint,
          mr_after = Some after_checkpoint, mr_recovery = None, mr_skipped = False\<rparr>)))"

definition perform_rename ::
  "surroundings \<Rightarrow> 'w coordinator \<Rightarrow> request \<Rightarrow> string \<Rightarrow> string \<Rightarrow> operation_record \<Rightarrow> path \<Rightarrow> path
    \<Rightarrow> ('w, mutation_result) program" where
  "perform_rename S C rq destination_key b operation source destination =
     bind (world_call (co_snapshot C source)) (\<lambda>before.
     bind (checkpoint_now S C rq b (Some (operation_id operation)) ''before'' (snapshot_payload before)) (\<lambda>before_checkpoint.
     bind (world_call (co_snapshot C destination)) (\<lambda>destination_before.
     bind (checkpoint_now S C rq b (Some (operation_id operation)) ''destination_before''
          (snapshot_payload destination_before)) (\<lambda>_.
     bind (attempt_move S C rq destination_key b
          (\<lambda>e. record_move_failure S C rq b source destination before ''rename_ambiguous_success''
            (\<lambda>s d. ret (ambiguous_rename_recovery_payload source destination (rq_resource_key rq) before s d
               (failure_text S e))) e)
          (world_call (co_rename_no_replace C source destination))) (\<lambda>r.
     recording (finish_rename S C rq b operation source destination before_checkpoint r)
       (record_post_mutation_failure S C rq b source before None [(''rename_record'', rename_record_payload r)]
          ''rename_journal''))))))"

definition run_rename_mutation ::
  "surroundings \<Rightarrow> 'w coordinator \<Rightarrow> request \<Rightarrow> string \<Rightarrow> path \<Rightarrow> path \<Rightarrow> entries \<Rightarrow> ('w, mutation_result) program" where
  "run_rename_mutation S C rq destination_key source destination intent =
     bind (require_both_authorities S C rq destination_key) (\<lambda>_.
     bind (open_batch S C rq ''rename_no_replace'' intent) (\<lambda>opened.
     case opened of
       Inl skipped \<Rightarrow> ret skipped
     | Inr (batch, operation) \<Rightarrow>
         perform_rename S C rq destination_key (br_batch_id batch) operation source destination))"

definition require_rename_key :: "'w coordinator \<Rightarrow> path \<Rightarrow> string \<Rightarrow> ('w, unit) program" where
  "require_rename_key C p key =
     lift (if prefix ''file:'' key then require_matching_file_resource_key (aa_env (co_artifacts C)) p key
           else require_matching_directory_resource_key (aa_env (co_artifacts C)) p key)"

definition rename_no_replace ::
  "surroundings \<Rightarrow> 'w coordinator \<Rightarrow> request \<Rightarrow> path \<Rightarrow> path \<Rightarrow> string \<Rightarrow> ('w, mutation_result) program" where
  "rename_no_replace S C rq source destination destination_key =
     (let source_path = canonical_path C source; destination_path = canonical_path C destination
      in bind (require_rename_key C source_path (rq_resource_key rq)) (\<lambda>_.
         bind (require_rename_key C destination_path destination_key) (\<lambda>_.
         bind (require_both_authorities S C rq destination_key) (\<lambda>_.
         run_rename_mutation S C rq destination_key source_path destination_path
           [(''operation'', JStr ''rename_no_replace''), (''source_path'', JStr (path_text source_path)),
            (''destination_path'', JStr (path_text destination_path)),
            (''resource_key'', JStr (rq_resource_key rq)), (''destination_resource_key'', JStr destination_key)]))))"

subsection \<open>Captures of directories\<close>

definition record_captured_directory_cleanup ::
  "surroundings \<Rightarrow> 'w coordinator \<Rightarrow> request \<Rightarrow> string \<Rightarrow> checkpoint_record \<Rightarrow> captured_directory \<Rightarrow> ('w, unit) program" where
  "record_captured_directory_cleanup S C rq b checkpoint c =
     (let artifact = captured_directory_cleanup_artifact_id C c;
          payload = captured_directory_cleanup_payload checkpoint c
      in bind (operation_time S) (\<lambda>now.
         bind (transact S (\<lambda>ids db. record_artifact_cleanup_planned b (rq_lease rq) artifact ''deferred_cleanup''
           (Some (rq_resource_key rq)) (Some (JObj payload)) None (ids 0) now db)) (\<lambda>_.
         if co_captured_directory_cleanup C = ''automatic'' then ret ()
         else bind (transact S (\<lambda>ids db. mark_artifact_cleanup CLEANUP_SKIPPED b (rq_lease rq) artifact
             (Some ''captured_directory_retained'')
             (Some (JObj (assoc_set ''reason_code'' (JStr ''captured_directory_retained'') payload)))
             None (ids 0) now db)) (\<lambda>_. ret ()))))"

definition finish_capture ::
  "surroundings \<Rightarrow> 'w coordinator \<Rightarrow> request \<Rightarrow> string \<Rightarrow> operation_record \<Rightarrow> path \<Rightarrow> path \<Rightarrow> checkpoint_record
    \<Rightarrow> captured_directory \<Rightarrow> json \<Rightarrow> ('w, mutation_result) program" where
  "finish_capture S C rq b operation source quarantine before_checkpoint c payload =
     bind (checkpoint_now S C rq b (Some (operation_id operation)) ''captured_directory'' payload) (\<lambda>checkpoint.
     bind (record_captured_directory_cleanup S C rq b checkpoint c) (\<lambda>_.
     bind (record_after_move S C rq b (operation_id operation) source ''quarantine'' quarantine) (\<lambda>after_checkpoint.
     bind (journal_mark_succeeded S rq b
          [(''operation_id'', JStr (operation_id operation)), (''captured_directory'', payload)]) (\<lambda>succeeded.
     ret \<lparr>mr_batch = succeeded, mr_operation = Some operation, mr_before = Some before_checkpoint,
          mr_after = Some after_checkpoint, mr_recovery = None, mr_skipped = False\<rparr>))))"

definition perform_capture ::
  "surroundings \<Rightarrow> 'w coordinator \<Rightarrow> request \<Rightarrow> string \<Rightarrow> string \<Rightarrow> operation_record \<Rightarrow> path \<Rightarrow> path
    \<Rightarrow> ('w, mutation_result) program" where
  "perform_capture S C rq destination_key b operation source quarantine =
     bind (world_call (co_snapshot C source)) (\<lambda>before.
     bind (snapshot_directory_capture_token C source before True) (\<lambda>token.
     bind (checkpoint_now S C rq b (Some (operation_id operation)) ''before''
          (case snapshot_payload before of JObj kvs \<Rightarrow> JObj (assoc_set ''capture_token'' (opt_json token) kvs) | v \<Rightarrow> v))
       (\<lambda>before_checkpoint.
     bind (attempt_move S C rq destination_key b
          (\<lambda>e. record_move_failure S C rq b source quarantine before ''capture_directory_ambiguous_success''
            (\<lambda>s q. ambiguous_capture_recovery_payload C source quarantine (rq_resource_key rq) before token s q
               (failure_text S e)) e)
          (world_call (co_capture_directory C source quarantine))) (\<lambda>c.
     let payload = captured_directory_payload c (rq_resource_key rq) (co_captured_directory_cleanup C)
     in recording (finish_capture S C rq b operation source quarantine before_checkpoint c payload)
       (record_post_mutation_failure S C rq b source before None [(''captured_directory_restore'', payload)]
          ''capture_directory_journal'')))))"

definition run_capture_directory_mutation ::
  "surroundings \<Rightarrow> 'w coordinator \<Rightarrow> request \<Rightarrow> string \<Rightarrow> path \<Rightarrow> path \<Rightarrow> entries \<Rightarrow> ('w, mutation_result) program" where
  "run_capture_directory_mutation S C rq destination_key source quarantine intent =
     bind (require_both_authorities S C rq destination_key) (\<lambda>_.
     bind (open_batch S C rq ''capture_directory'' intent) (\<lambda>opened.
     case opened of
       Inl skipped \<Rightarrow> ret skipped
     | Inr (batch, operation) \<Rightarrow>
         perform_capture S C rq destination_key (br_batch_id batch) operation source quarantine))"

definition capture_directory ::
  "surroundings \<Rightarrow> 'w coordinator \<Rightarrow> request \<Rightarrow> path \<Rightarrow> path \<Rightarrow> string option \<Rightarrow> ('w, mutation_result) program" where
  "capture_directory S C rq source quarantine_path destination_key =
     (let source_path = canonical_path C source; quarantine = canonical_path C quarantine_path
      in bind (require_directory_key C source_path (rq_resource_key rq)) (\<lambda>_.
         case destination_key of
           None \<Rightarrow> raise (Raised ValueError)
         | Some key \<Rightarrow>
             bind (require_directory_key C quarantine key) (\<lambda>_.
             bind (require_authority S C rq key) (\<lambda>_.
             run_capture_directory_mutation S C rq key source_path quarantine
               [(''operation'', JStr ''capture_directory''), (''path'', JStr (path_text source_path)),
                (''quarantine_path'', JStr (path_text quarantine)), (''resource_key'', JStr (rq_resource_key rq)),
                (''captured_directory_cleanup'', JStr (co_captured_directory_cleanup C)),
                (''destination_resource_key'', JStr key)]))))"

end
