(* ===== verification/Renames.thy ===== *)
theory Renames
  imports Path_Safety Move_Mutations
begin

section \<open>Renames that never replace\<close>

text \<open>
  \<open>filesystem_ops/renames.py\<close>: a rename to a path where nothing is, checked before and after, and
  the rename back of what was recorded; and the recovery handler for it,
  \<open>operation_journal/rename_recovery_actions.py\<close>. The no-replace rename of the kernel is a field of
  \<open>os_calls\<close>.
\<close>

definition require_safe_existing_source :: "'w os_calls \<Rightarrow> path \<Rightarrow> ('w, stat_result \<times> file_type) program" where
  "require_safe_existing_source Y p =
     bind (ensure_safe_parent_chain Y p) (\<lambda>_.
     bind (inspect_path Y p) (\<lambda>safety.
     bind (raise_if_redirecting safety) (\<lambda>_.
     if \<not> ps_exists safety then raise (Raised FileNotFoundError)
     else bind (attempt (world_call (os_lstat Y p))
         (\<lambda>e. if e \<in> os_errors then Some (raise (Raised UnsafePathError)) else None)) (\<lambda>st.
       if st_kind st \<in> {FT_FILE, FT_DIRECTORY} then ret (st, st_kind st) else raise (Raised UnsafePathError)))))"

definition require_existing_parent :: "'w os_calls \<Rightarrow> path \<Rightarrow> ('w, stat_result) program" where
  "require_existing_parent Y p =
     bind (ensure_safe_parent_chain Y p) (\<lambda>_.
     bind (inspect_path Y p) (\<lambda>safety.
     bind (raise_if_redirecting safety) (\<lambda>_.
     if \<not> ps_exists safety then raise (Raised FileNotFoundError)
     else if ps_file_type safety \<noteq> FT_DIRECTORY then raise (Raised UnsafePathError)
     else world_call (os_stat Y p))))"

definition require_safe_absent_destination :: "'w os_calls \<Rightarrow> path \<Rightarrow> ('w, unit) program" where
  "require_safe_absent_destination Y p =
     bind (ensure_safe_parent_chain Y p) (\<lambda>_.
     bind (inspect_path Y p) (\<lambda>safety.
     bind (raise_if_redirecting safety) (\<lambda>_.
     if ps_exists safety then raise (Raised FileExistsError)
     else bind (require_existing_parent Y (path_parent p)) (\<lambda>_. ret ()))))"

definition require_same_device :: "'w os_calls \<Rightarrow> int \<Rightarrow> path \<Rightarrow> path \<Rightarrow> ('w, unit) program" where
  "require_same_device Y device source_parent destination_parent =
     bind (require_existing_parent Y source_parent) (\<lambda>s.
     bind (require_existing_parent Y destination_parent) (\<lambda>d.
     if st_dev s = device \<and> st_dev d = device then ret () else raise (Raised UnsupportedFilesystemMutationError)))"

definition same_identity :: "stat_result \<Rightarrow> stat_result \<Rightarrow> bool" where
  "same_identity left right \<longleftrightarrow> st_dev left = st_dev right \<and> st_ino left = st_ino right
     \<and> st_size left = st_size right \<and> st_mtime_ns left = st_mtime_ns right"

definition same_recorded_identity :: "stat_result \<Rightarrow> rename_record \<Rightarrow> bool" where
  "same_recorded_identity st r \<longleftrightarrow> st_dev st = rn_device r \<and> st_ino st = rn_inode r
     \<and> st_size st = rn_size r \<and> st_mtime_ns st = rn_mtime_ns r"

definition require_destination_identity :: "'w os_calls \<Rightarrow> path \<Rightarrow> stat_result \<Rightarrow> file_type \<Rightarrow> ('w, stat_result) program" where
  "require_destination_identity Y p expected type =
     bind (attempt (world_call (os_lstat Y p))
       (\<lambda>e. if e = Raised FileNotFoundError then Some (raise (Raised UnsafePathError)) else None)) (\<lambda>actual.
     if st_kind actual \<notin> {FT_FILE, FT_DIRECTORY} then raise (Raised UnsafePathError)
     else if st_kind actual \<noteq> type \<or> \<not> same_identity actual expected then raise (Raised UnsafePathError)
     else ret actual)"

definition ensure_source_path_vacated :: "'w os_calls \<Rightarrow> path \<Rightarrow> ('w, unit) program" where
  "ensure_source_path_vacated Y p =
     bind (attempt (bind (world_call (os_lstat Y p)) (\<lambda>st. ret (Some st)))
       (\<lambda>e. if e = Raised FileNotFoundError then Some (ret None) else None)) (\<lambda>current.
     case current of None \<Rightarrow> ret () | Some _ \<Rightarrow> raise (Raised UnsafePathError))"

definition record_from_stat :: "path \<Rightarrow> path \<Rightarrow> file_type \<Rightarrow> stat_result \<Rightarrow> rename_record" where
  "record_from_stat source destination type st =
     \<lparr>rn_source_path = source, rn_destination_path = destination, rn_file_type = type, rn_device = st_dev st,
      rn_inode = st_ino st, rn_size = st_size st, rn_mtime_ns = st_mtime_ns st, rn_ctime_ns = Some (st_ctime_ns st)\<rparr>"

text \<open>The part that both directions share: from the checked source to the checked destination.\<close>

definition rename_checked :: "'w os_calls \<Rightarrow> path \<Rightarrow> path \<Rightarrow> stat_result \<Rightarrow> file_type \<Rightarrow> ('w, stat_result) program" where
  "rename_checked Y source destination st type =
     bind (require_safe_absent_destination Y destination) (\<lambda>_.
     bind (require_same_device Y (st_dev st) (path_parent source) (path_parent destination)) (\<lambda>_.
     bind (world_call (os_rename_no_replace Y source destination)) (\<lambda>_.
     bind (require_destination_identity Y destination st type) (\<lambda>moved.
     bind (ensure_source_path_vacated Y source) (\<lambda>_.
     ret moved)))))"

definition rename_path :: "'w os_calls \<Rightarrow> path \<Rightarrow> path \<Rightarrow> ('w, rename_record) program" where
  "rename_path Y source destination =
     (let source_path = absolute_without_resolving (os_env Y) source;
          destination_path = absolute_without_resolving (os_env Y) destination
      in bind (require_safe_existing_source Y source_path) (\<lambda>(st, type).
         bind (rename_checked Y source_path destination_path st type) (\<lambda>_.
         ret (record_from_stat source_path destination_path type st))))"

definition restore_inverse_rename :: "'w os_calls \<Rightarrow> rename_record \<Rightarrow> ('w, rename_record) program" where
  "restore_inverse_rename Y r =
     bind (require_safe_existing_source Y (rn_destination_path r)) (\<lambda>(st, type).
     if type \<noteq> rn_file_type r \<or> \<not> same_recorded_identity st r then raise (Raised UnsafePathError)
     else bind (rename_checked Y (rn_destination_path r) (rn_source_path r) st type) (\<lambda>restored.
       ret (record_from_stat (rn_destination_path r) (rn_source_path r) type restored)))"

subsection \<open>The recovery handler\<close>

definition invalid_rename_payload :: failure where
  "invalid_rename_payload = ActionManual (JObj [(''reason_code'', JStr ''invalid_payload'')])"

text \<open>In Python a \<open>bool\<close> is an \<open>int\<close>.\<close>

definition int_instance :: "json \<Rightarrow> int option" where
  "int_instance v = (case v of JInt n \<Rightarrow> Some n | JBool b \<Rightarrow> Some (if b then 1 else 0) | _ \<Rightarrow> None)"

definition int_payload :: "json \<Rightarrow> string \<Rightarrow> failure + int" where
  "int_payload payload key = from_option invalid_rename_payload (int_instance (jget payload key))"

definition optional_int_payload :: "json \<Rightarrow> string \<Rightarrow> failure + int option" where
  "optional_int_payload payload key =
     (if jget payload key = JNull then Inr None
      else res_bind (int_payload payload key) (\<lambda>n. Inr (Some n)))"

definition rename_record_from_payload :: "json \<Rightarrow> failure + rename_record" where
  "rename_record_from_payload payload =
     res_bind
       (if optional_str (jget payload ''file_type'') = Some ''file'' then Inr FT_FILE
        else if optional_str (jget payload ''file_type'') = Some ''directory'' then Inr FT_DIRECTORY
        else Inl invalid_rename_payload) (\<lambda>type.
     res_bind (int_payload payload ''device'') (\<lambda>device.
     res_bind (int_payload payload ''inode'') (\<lambda>inode.
     res_bind (int_payload payload ''size'') (\<lambda>len.
     res_bind (int_payload payload ''mtime_ns'') (\<lambda>mtime.
     res_bind (optional_int_payload payload ''ctime_ns'') (\<lambda>ctime.
     Inr \<lparr>rn_source_path = value_path (jget payload ''source_path''),
          rn_destination_path = value_path (jget payload ''destination_path''),
          rn_file_type = type, rn_device = device, rn_inode = inode, rn_size = len,
          rn_mtime_ns = mtime, rn_ctime_ns = ctime\<rparr>))))))"

definition rename_outcome_payload :: "rename_record \<Rightarrow> string \<Rightarrow> string \<Rightarrow> json" where
  "rename_outcome_payload r code detail = JObj
     [(''source_path'', JStr (path_text (rn_source_path r))),
      (''destination_path'', JStr (path_text (rn_destination_path r))),
      (''reason_code'', JStr code), (''detail'', JStr detail)]"

definition skip_if_already_restored :: "'w os_calls \<Rightarrow> rename_record \<Rightarrow> string \<Rightarrow> ('w, unit) program" where
  "skip_if_already_restored Y r cause =
     bind (inspect_path Y (rn_source_path r)) (\<lambda>source_safety.
     bind (inspect_path Y (rn_destination_path r)) (\<lambda>destination_safety.
     if ps_exists destination_safety then ret ()
     else if \<not> ps_exists source_safety \<or> ps_file_type source_safety \<noteq> rn_file_type r then ret ()
     else bind (world_call (os_lstat Y (rn_source_path r))) (\<lambda>current.
       if \<not> same_recorded_identity current r
         \<or> (rn_ctime_ns r \<noteq> None \<and> Some (st_ctime_ns current) \<noteq> rn_ctime_ns r) then ret ()
       else raise (ActionSkipped (rename_outcome_payload r ''already_restored'' cause)))))"

definition restored_payload :: "rename_record \<Rightarrow> rename_record \<Rightarrow> json" where
  "restored_payload r restored = JObj
     [(''source_path'', JStr (path_text (rn_source_path r))),
      (''destination_path'', JStr (path_text (rn_destination_path r))), (''restored'', JBool True),
      (''restored_device'', JInt (rn_device restored)), (''restored_inode'', JInt (rn_inode restored))]"

definition refuse_inverse_rename ::
  "surroundings \<Rightarrow> 'w os_calls \<Rightarrow> rename_record \<Rightarrow> failure \<Rightarrow> ('w, rename_record) program option" where
  "refuse_inverse_rename S Y r e =
     (if e = Raised FileNotFoundError then
        Some (bind (skip_if_already_restored Y r (failure_text S e)) (\<lambda>_.
          raise (ActionManual (rename_outcome_payload r ''rename_destination_missing'' (failure_text S e)))))
      else if e = Raised FileExistsError then
        Some (bind (skip_if_already_restored Y r (failure_text S e)) (\<lambda>_.
          raise (ActionManual (rename_outcome_payload r ''restore_destination_exists'' (failure_text S e)))))
      else if e \<in> unsafe_path_errors then
        Some (raise (ActionManual (rename_outcome_payload r ''rename_identity_mismatch'' (failure_text S e))))
      else None)"

definition restore_inverse_rename_recovery_action ::
  "surroundings \<Rightarrow> 'w os_calls \<Rightarrow> authority \<Rightarrow> recovery_context \<Rightarrow> recovery_action_record \<Rightarrow> ('w, json) program" where
  "restore_inverse_rename_recovery_action S Y a context action =
     (if \<not> is_mapping (action_payload action) then raise (Raised ValueError)
      else case rename_record_from_payload (action_payload action) of
        Inl e \<Rightarrow> raise e
      | Inr r \<Rightarrow>
          bind (attempt
            (bind (require_recovery_action_authority S (Some a) context action) (\<lambda>_. restore_inverse_rename Y r))
            (refuse_inverse_rename S Y r)) (\<lambda>restored.
          ret (restored_payload r restored)))"

end
