(* ===== verification/Program_Failures.thy ===== *)
theory Program_Failures
  imports Program_Logic
begin

section \<open>What a program can raise\<close>

text \<open>\<open>raises X m\<close>: every failure of \<open>m\<close> satisfies \<open>X\<close>, in any state and among any others.\<close>

definition raises :: "(failure \<Rightarrow> bool) \<Rightarrow> ('w, 'a) program \<Rightarrow> bool" where
  "raises X m \<longleftrightarrow> (\<forall>s. wp m (\<lambda>_ _. True) (\<lambda>e _. X e) s)"

named_theorems raises_intros \<open>programs that raise only what the predicate allows\<close>

lemma raises_wp: "raises X m \<Longrightarrow> wp m Q E s \<Longrightarrow> wp m Q (\<lambda>e s'. X e \<and> E e s') s"
  unfolding raises_def by (drule spec [of _ s], drule (1) wp_conj) (erule wp_mono, auto)

lemma raises_ret [raises_intros]: "raises X (ret x)"
  by (simp add: raises_def wp_ret)

lemma raises_raise [raises_intros]: "X e \<Longrightarrow> raises X (raise e)"
  by (simp add: raises_def wp_raise)

lemma raises_bind [raises_intros]: "raises X m \<Longrightarrow> (\<And>x. raises X (f x)) \<Longrightarrow> raises X (bind m f)"
  by (auto simp: raises_def wp_bind intro: wp_mono)

lemma raises_attempt [raises_intros]:
  "raises X m \<Longrightarrow> (\<And>e p. h e = Some p \<Longrightarrow> raises X p) \<Longrightarrow> raises X (attempt m h)"
  by (auto simp: raises_def wp_attempt intro: wp_mono split: option.splits)

lemma raises_if [raises_intros]: "(b \<Longrightarrow> raises X m) \<Longrightarrow> (\<not> b \<Longrightarrow> raises X m') \<Longrightarrow> raises X (if b then m else m')"
  by simp

lemma raises_option [raises_intros]:
  "raises X m \<Longrightarrow> (\<And>x. v = Some x \<Longrightarrow> raises X (f x)) \<Longrightarrow> raises X (case v of None \<Rightarrow> m | Some x \<Rightarrow> f x)"
  by (cases v) simp_all

lemma raises_let [raises_intros]: "raises X (f v) \<Longrightarrow> raises X (let x = v in f x)"
  by simp

lemma raises_lift: "(\<And>e. X (Raised e)) \<Longrightarrow> raises X (lift r)"
  by (simp add: raises_def wp_lift split: sum.split)

lemma raises_transact: "(\<And>e. X (Raised e)) \<Longrightarrow> raises X (transact S body)"
  unfolding raises_def by (intro allI wp_transact) (simp split: sum.split)

lemma raises_read: "(\<And>e. X (Raised e)) \<Longrightarrow> raises X (read S q)"
  unfolding read_def by (rule raises_transact)

lemma raises_time [raises_intros]: "raises X (operation_time S)" "raises X (clock_time S)"
  unfolding raises_def by (auto intro: wp_time simp: wp_clock)

end
