(* ===== verification/Rename_Properties.thy ===== *)
theory Rename_Properties
  imports Renames Program_Failures Backup_Properties
begin

section \<open>What a rename does to the file system\<close>

text \<open>
  The laws of the calls: the ones that look change nothing, \<open>lstat\<close> tells the truth, and the
  no-replace rename either does nothing or moves the entry to a place where nothing was.
  \<open>view w p\<close> is what \<open>lstat\<close> finds at \<open>p\<close>.
\<close>

type_synonym fs_view = "path \<Rightarrow> stat_result option"

definition moved :: "fs_view \<Rightarrow> fs_view \<Rightarrow> path \<Rightarrow> path \<Rightarrow> bool" where
  "moved v v' source target \<longleftrightarrow> v target = None \<and> v' source = None
     \<and> (\<exists>st st'. v source = Some st \<and> v' target = Some st' \<and> st_kind st' = st_kind st \<and> same_identity st' st)
     \<and> (\<forall>p. \<not> is_relative_to p source \<and> \<not> is_relative_to p target \<and> p \<noteq> path_parent source \<and> p \<noteq> path_parent target
          \<longrightarrow> v' p = v p)"

definition looks_only :: "('w \<Rightarrow> fs_view) \<Rightarrow> ('w \<Rightarrow> 'a \<times> 'w) \<Rightarrow> bool" where
  "looks_only view f \<longleftrightarrow> (\<forall>w. view (snd (f w)) = view w)"

definition rename_laws :: "'w os_calls \<Rightarrow> ('w \<Rightarrow> fs_view) \<Rightarrow> bool" where
  "rename_laws Y view \<longleftrightarrow>
     (\<forall>p. looks_only view (os_is_symlink Y p) \<and> looks_only view (os_exists Y p) \<and> looks_only view (os_is_file Y p)
        \<and> looks_only view (os_is_dir Y p) \<and> looks_only view (os_is_mount Y p) \<and> looks_only view (os_lstat Y p)
        \<and> looks_only view (os_stat Y p))
   \<and> (\<forall>p w. fst (os_is_symlink Y p w) = Inr False \<and> (\<exists>w'. view w' = view w \<and> fst (os_exists Y p w') = Inr False)
        \<longrightarrow> view w p = None)
   \<and> (\<forall>p w st. fst (os_lstat Y p w) = Inr st \<longrightarrow> view w p = Some st)
   \<and> (\<forall>p w. fst (os_lstat Y p w) = Inl (Raised FileNotFoundError) \<longrightarrow> view w p = None)
   \<and> (\<forall>source target w. moved (view w) (view (snd (os_rename_no_replace Y source target w))) source target
        \<or> view (snd (os_rename_no_replace Y source target w)) = view w
          \<and> isl (fst (os_rename_no_replace Y source target w)))"

definition same_view :: "('w \<Rightarrow> fs_view) \<Rightarrow> 'w run_state \<Rightarrow> 'w run_state \<Rightarrow> bool" where
  "same_view view s s' \<longleftrightarrow> view (run_world s') = view (run_world s)"

interpretation fs: state_relation "same_view view" for view
  by unfold_locales (simp_all add: same_view_def)

lemma fs_call: "looks_only view f \<Longrightarrow> keeps (same_view view) (world_call f)"
  unfolding keeps_def same_view_def world_call_def looks_only_def by (simp add: split_def Let_def)

lemma fs_suppress: "keeps (same_view view) m \<Longrightarrow> keeps (same_view view) (suppress es x m)"
  unfolding suppress_def by (intro fs.keeps_attempt) (auto split: if_splits intro: fs.keeps_ret)

lemma fs_inspect:
  assumes "rename_laws Y view"
  shows "keeps (same_view view) (inspect_path Y p)"
proof -
  have calls: "looks_only view (os_is_symlink Y p)" "looks_only view (os_exists Y p)" "looks_only view (os_is_file Y p)"
    "looks_only view (os_is_dir Y p)" "looks_only view (os_is_mount Y p)" "looks_only view (os_lstat Y p)"
    using assms unfolding rename_laws_def by blast+
  show ?thesis
    unfolding inspect_path_def inspected_file_type_def split_def
    by (intro fs.keeps_bind fs_suppress fs.keeps_if fs.keeps_ret fs_call calls)
qed

lemma fs_parents:
  assumes "rename_laws Y view"
  shows "keeps (same_view view) (check_parents Y p)"
  using assms
proof (induction Y p rule: check_parents.induct)
  case (1 Y current)
  show ?case
    by (subst check_parents.simps) (intro fs.keeps_if fs.keeps_ret fs.keeps_bind fs_inspect fs.keeps_raise 1)
qed

lemma fs_parent_chain: "rename_laws Y view \<Longrightarrow> keeps (same_view view) (ensure_safe_parent_chain Y p)"
  unfolding ensure_safe_parent_chain_def by (rule fs_parents)

lemma fs_redirecting: "keeps (same_view view) (raise_if_redirecting safety)"
  unfolding raise_if_redirecting_def by (intro fs.keeps_if fs.keeps_raise fs.keeps_ret)

lemma fs_lstat: "rename_laws Y view \<Longrightarrow> keeps (same_view view) (world_call (os_lstat Y p))"
  by (rule fs_call) (auto simp: rename_laws_def)

lemma fs_existing_parent:
  assumes "rename_laws Y view"
  shows "keeps (same_view view) (require_existing_parent Y p)"
proof -
  have "looks_only view (os_stat Y p)" using assms unfolding rename_laws_def by blast
  then show ?thesis
    unfolding require_existing_parent_def
    by (intro fs.keeps_bind fs.keeps_if fs.keeps_raise fs_parent_chain [OF assms] fs_inspect [OF assms] fs_redirecting fs_call)
qed

lemma fs_absent: "rename_laws Y view \<Longrightarrow> keeps (same_view view) (require_safe_absent_destination Y p)"
  unfolding require_safe_absent_destination_def
  by (intro fs.keeps_bind fs.keeps_if fs.keeps_raise fs.keeps_ret fs_parent_chain fs_inspect fs_redirecting
      fs_existing_parent)

lemma fs_same_device: "rename_laws Y view \<Longrightarrow> keeps (same_view view) (require_same_device Y d p q)"
  unfolding require_same_device_def
  by (intro fs.keeps_bind fs.keeps_if fs.keeps_raise fs.keeps_ret fs_existing_parent)

subsection \<open>What is found at a path\<close>

lemma wp_lstat:
  assumes "rename_laws Y view"
    and "\<And>st s'. same_view view s s' \<Longrightarrow> view (run_world s) p = Some st \<Longrightarrow> Q st s'"
    and "\<And>s'. same_view view s s' \<Longrightarrow> view (run_world s) p = None \<Longrightarrow> E (Raised FileNotFoundError) s'"
    and "\<And>e s'. same_view view s s' \<Longrightarrow> e \<noteq> Raised FileNotFoundError \<Longrightarrow> E e s'"
  shows "wp (world_call (os_lstat Y p)) Q E s"
proof -
  have truth: "\<And>w st. fst (os_lstat Y p w) = Inr st \<Longrightarrow> view w p = Some st"
    "\<And>w. fst (os_lstat Y p w) = Inl (Raised FileNotFoundError) \<Longrightarrow> view w p = None"
    using assms(1) unfolding rename_laws_def by blast+
  obtain r w' where f: "os_lstat Y p (run_world s) = (r, w')" by (cases "os_lstat Y p (run_world s)")
  have "view w' = view (run_world s)"
    using fs_lstat [OF assms(1), of p] f unfolding keeps_def same_view_def
    by (auto simp: world_call_def dest: spec [of _ s])
  then show ?thesis
    using truth [of "run_world s"] assms(2-4) f
    by (cases r; cases "r = Inl (Raised FileNotFoundError)") (auto simp: wp_def world_call_def same_view_def)
qed

lemma wp_same_view:
  "keeps (same_view view) m \<Longrightarrow> (\<And>x s'. same_view view s s' \<Longrightarrow> Q x s') \<Longrightarrow> (\<And>e s'. same_view view s s' \<Longrightarrow> E e s')
    \<Longrightarrow> wp m Q E s"
  by (rule wp_keeps)

lemma wp_existing_source:
  assumes "rename_laws Y view"
    and "\<And>st s'. same_view view s s' \<Longrightarrow> view (run_world s) p = Some st \<Longrightarrow> st_kind st \<in> {FT_FILE, FT_DIRECTORY}
      \<Longrightarrow> Q (st, st_kind st) s'"
    and "\<And>e s'. same_view view s s' \<Longrightarrow> E e s'"
  shows "wp (require_safe_existing_source Y p) Q E s"
  unfolding require_safe_existing_source_def wp_bind
proof (rule wp_same_view [OF fs_parent_chain [OF assms(1)]], rule wp_same_view [OF fs_inspect [OF assms(1)]],
    rule wp_same_view [OF fs_redirecting [of view]], goal_cases)
  case (1 x s1 safety s2 y s3)
  then have s3: "same_view view s s3" using fs.trans by blast
  have failed: "E e s'" if "same_view view s3 s'" for e s'
    by (rule assms(3)) (use that s3 in \<open>simp add: same_view_def\<close>)
  have found: "wp (if st_kind st \<in> {FT_FILE, FT_DIRECTORY} then ret (st, st_kind st) else raise (Raised UnsafePathError)) Q E s'"
    if "same_view view s3 s'" "view (run_world s3) p = Some st" for st s'
  proof (cases "st_kind st \<in> {FT_FILE, FT_DIRECTORY}")
    case True
    have "Q (st, st_kind st) s'" by (rule assms(2)) (use that s3 True in \<open>simp_all add: same_view_def\<close>)
    then show ?thesis unfolding if_P [OF True] wp_ret .
  next
    case False
    then show ?thesis using failed [OF that(1)] by (simp add: wp_raise)
  qed
  have caught: "case if e \<in> os_errors then Some (raise (Raised UnsafePathError)) else None of None \<Rightarrow> E' e s'
      | Some q \<Rightarrow> wp q Q' E' s'" if "\<And>e. E' e s'" for e s' Q' E'
    using that by (simp add: wp_raise)
  have "wp (attempt (world_call (os_lstat Y p)) (\<lambda>e. if e \<in> os_errors then Some (raise (Raised UnsafePathError)) else None))
      (\<lambda>st. wp (if st_kind st \<in> {FT_FILE, FT_DIRECTORY} then ret (st, st_kind st) else raise (Raised UnsafePathError)) Q E)
      E s3"
    unfolding wp_attempt
    by (rule wp_lstat [OF assms(1)]) (rule found, assumption+, (rule caught, rule failed, assumption)+)
  then show ?case using failed [OF fs.refl] by (simp only: wp_if wp_raise wp_bind if_split) simp
qed (use assms(3) fs.trans in blast)+

lemma wp_require_destination:
  assumes "rename_laws Y view"
    and "\<And>st s'. same_view view s s' \<Longrightarrow> view (run_world s) p = Some st \<Longrightarrow> Q st s'"
    and "\<And>e s'. same_view view s s' \<Longrightarrow> E e s'"
  shows "wp (require_destination_identity Y p expected type) Q E s"
  unfolding require_destination_identity_def wp_bind wp_attempt wp_if wp_raise case_if_Some
  by (rule wp_lstat [OF assms(1)]) (use assms(2,3) in \<open>auto simp: wp_ret wp_raise\<close>)

lemma fs_vacated: "rename_laws Y view \<Longrightarrow> keeps (same_view view) (ensure_source_path_vacated Y p)"
  unfolding ensure_source_path_vacated_def
  by (intro fs.keeps_bind fs.keeps_attempt fs.keeps_option fs.keeps_ret fs.keeps_raise fs_lstat)
    (auto split: if_splits intro: fs.keeps_ret)

text \<open>
  The shared part: nothing has changed, or the source has been moved; it returns only after the
  move, with what is now at the target.
\<close>

definition move_effect :: "('w \<Rightarrow> fs_view) \<Rightarrow> path \<Rightarrow> path \<Rightarrow> 'w run_state \<Rightarrow> 'w run_state \<Rightarrow> bool" where
  "move_effect view source target s s' \<longleftrightarrow> same_view view s s'
     \<or> moved (view (run_world s)) (view (run_world s')) source target"

lemma wp_rename_checked:
  assumes laws: "rename_laws Y view"
    and Q: "\<And>st' s'. moved (view (run_world s)) (view (run_world s')) source target
      \<Longrightarrow> view (run_world s') target = Some st' \<Longrightarrow> Q st' s'"
    and E: "\<And>e s'. move_effect view source target s s' \<Longrightarrow> E e s'"
  shows "wp (rename_checked Y source target st type) Q E s"
  unfolding rename_checked_def wp_bind
proof (rule wp_same_view [OF fs_absent [OF laws]], rule wp_same_view [OF fs_same_device [OF laws]], goal_cases)
  case (1 x s1 y s2)
  then have s2: "view (run_world s2) = view (run_world s)" by (simp add: same_view_def)
  obtain r w where f: "os_rename_no_replace Y source target (run_world s2) = (r, w)"
    by (cases "os_rename_no_replace Y source target (run_world s2)")
  have effect: "moved (view (run_world s)) (view w) source target \<or> view w = view (run_world s) \<and> isl r"
    using laws f s2 unfolding rename_laws_def by (metis fst_conv snd_conv)
  have stays: "move_effect view source target s s'" if "same_view view (s2\<lparr>run_world := w\<rparr>) s'" for s'
    using effect that by (auto simp: move_effect_def same_view_def)
  have later: "wp (require_destination_identity Y target st type)
      (\<lambda>actual. wp (ensure_source_path_vacated Y source) (\<lambda>_. wp (ret actual) Q E) E) E (s2\<lparr>run_world := w\<rparr>)"
    if "\<not> isl r"
  proof (rule wp_require_destination [OF laws], goal_cases)
    case (1 st' s3)
    have m: "moved (view (run_world s)) (view w) source target" using effect that by blast
    show ?case
    proof (rule wp_same_view [OF fs_vacated [OF laws]], goal_cases)
      case (1 u s4)
      have "view (run_world s4) = view w" using 1 \<open>same_view view (s2\<lparr>run_world := w\<rparr>) s3\<close> by (simp add: same_view_def)
      then show ?case using m \<open>view (run_world (s2\<lparr>run_world := w\<rparr>)) target = Some st'\<close> by (auto simp: wp_ret intro: Q)
    next
      case (2 e s4)
      then show ?case
        using \<open>same_view view (s2\<lparr>run_world := w\<rparr>) s3\<close> by (intro E stays) (simp add: same_view_def)
    qed
  qed (rule E, rule stays)
  show ?case
    using later stays [OF fs.refl] E f by (cases r) (auto simp: wp_def [of "world_call _"] world_call_def)
next
  case (2 x s1 e s2)
  then show ?case by (intro E) (simp add: move_effect_def same_view_def)
next
  case (3 e s1)
  then show ?case by (intro E) (simp add: move_effect_def)
qed

subsection \<open>Failures that the calls do not raise\<close>

abbreviation no_skip :: "failure \<Rightarrow> bool" where
  "no_skip e \<equiv> \<forall>v. e \<noteq> ActionSkipped v"

text \<open>Only the handler itself reports an action as skipped.\<close>

definition unskipping :: "('w \<Rightarrow> (failure + 'a) \<times> 'w) \<Rightarrow> bool" where
  "unskipping f \<longleftrightarrow> (\<forall>w e. fst (f w) = Inl e \<longrightarrow> no_skip e)"

definition call_failures :: "'w os_calls \<Rightarrow> bool" where
  "call_failures Y \<longleftrightarrow> (\<forall>p. unskipping (os_is_symlink Y p) \<and> unskipping (os_exists Y p) \<and> unskipping (os_is_file Y p)
     \<and> unskipping (os_is_dir Y p) \<and> unskipping (os_is_mount Y p) \<and> unskipping (os_lstat Y p)
     \<and> unskipping (os_stat Y p) \<and> (\<forall>q. unskipping (os_rename_no_replace Y p q)))"

lemma raises_call: "unskipping f \<Longrightarrow> raises no_skip (world_call f)"
  by (auto simp: raises_def wp_def world_call_def unskipping_def split: prod.splits sum.splits) (metis fst_conv)

lemma raises_calls [raises_intros]:
  assumes "call_failures Y"
  shows "raises no_skip (world_call (os_is_symlink Y p))" "raises no_skip (world_call (os_exists Y p))"
    "raises no_skip (world_call (os_is_file Y p))" "raises no_skip (world_call (os_is_dir Y p))"
    "raises no_skip (world_call (os_is_mount Y p))" "raises no_skip (world_call (os_lstat Y p))"
    "raises no_skip (world_call (os_stat Y p))" "raises no_skip (world_call (os_rename_no_replace Y p q))"
  using assms by (auto simp: call_failures_def intro: raises_call)

lemma raises_suppress [raises_intros]: "raises X m \<Longrightarrow> raises X (suppress es x m)"
  unfolding suppress_def by (intro raises_intros) (auto split: if_splits intro: raises_intros)

lemma raises_unsafe [raises_intros]: "raises no_skip (raise (Raised e))" "raises no_skip (raise_if_redirecting safety)"
  unfolding raise_if_redirecting_def by (intro raises_intros; simp)+

lemma raises_inspect [raises_intros]: "call_failures Y \<Longrightarrow> raises no_skip (inspect_path Y p)"
  unfolding inspect_path_def inspected_file_type_def split_def by (intro raises_intros)

lemma raises_parents: "call_failures Y \<Longrightarrow> raises no_skip (check_parents Y p)"
proof (induction Y p rule: check_parents.induct)
  case (1 Y current)
  show ?case by (subst check_parents.simps) (auto intro!: raises_intros 1)
qed

lemma raises_parent_chain [raises_intros]: "call_failures Y \<Longrightarrow> raises no_skip (ensure_safe_parent_chain Y p)"
  unfolding ensure_safe_parent_chain_def by (rule raises_parents)

lemma raises_source [raises_intros]: "call_failures Y \<Longrightarrow> raises no_skip (require_safe_existing_source Y p)"
  unfolding require_safe_existing_source_def
  by (intro raises_intros) (auto split: if_splits intro: raises_intros)

lemma raises_parent [raises_intros]: "call_failures Y \<Longrightarrow> raises no_skip (require_existing_parent Y p)"
  unfolding require_existing_parent_def by (intro raises_intros)

lemma raises_checked [raises_intros]: "call_failures Y \<Longrightarrow> raises no_skip (rename_checked Y source target st type)"
  unfolding rename_checked_def require_safe_absent_destination_def require_same_device_def
    require_destination_identity_def ensure_source_path_vacated_def
  by (intro raises_intros) (auto split: if_splits intro: raises_intros)

lemma raises_inverse [raises_intros]: "call_failures Y \<Longrightarrow> raises no_skip (restore_inverse_rename Y r)"
  unfolding restore_inverse_rename_def split_def by (intro raises_intros)

lemma raises_manual [raises_intros]: "raises no_skip (raise (manual code))"
  by (rule raises_raise) (simp add: manual_def)

lemma raises_current [raises_intros]: "raises no_skip (require_current S a)"
  unfolding require_current_def by (intro raises_intros raises_read) simp_all

lemma raises_authority [raises_intros]: "raises no_skip (require_recovery_action_authority S a context action)"
proof -
  have "raises no_skip (require_action_current S x action)" for x
    unfolding require_action_current_def by (intro raises_intros raises_read) simp_all
  then show ?thesis
    unfolding require_recovery_action_authority_def Let_def by (intro raises_intros)
qed

subsection \<open>The handler\<close>

text \<open>The recorded entry is back at its place, and nothing is where it had been renamed to.\<close>

definition back_in_place :: "('w \<Rightarrow> fs_view) \<Rightarrow> rename_record \<Rightarrow> 'w run_state \<Rightarrow> bool" where
  "back_in_place view r s \<longleftrightarrow> view (run_world s) (rn_destination_path r) = None
     \<and> (\<exists>st. view (run_world s) (rn_source_path r) = Some st \<and> same_recorded_identity st r)"

lemma wp_inspect:
  assumes laws: "rename_laws Y view"
    and "\<And>safety s'. same_view view s s' \<Longrightarrow> (\<not> ps_exists safety \<Longrightarrow> view (run_world s) p = None) \<Longrightarrow> Q safety s'"
    and "\<And>e s'. same_view view s s' \<Longrightarrow> E e s'"
  shows "wp (inspect_path Y p) Q E s"
proof -
  have calls: "looks_only view (os_is_symlink Y p)" "looks_only view (os_exists Y p)"
    using laws unfolding rename_laws_def by blast+
  have absent: "view w p = None"
    if "fst (os_is_symlink Y p w) = Inr False" "fst (os_exists Y p w') = Inr False" "view w' = view w" for w w'
    using laws that unfolding rename_laws_def by blast
  have type: "wp (inspected_file_type Y p) (\<lambda>t _. t = FT_MISSING \<longrightarrow> view (run_world s) p = None) (\<lambda>_ _. True) s"
  proof -
    obtain r w where f: "os_is_symlink Y p (run_world s) = (r, w)" by (cases "os_is_symlink Y p (run_world s)")
    obtain r' w' where g: "os_exists Y p w = (r', w')" by (cases "os_exists Y p w")
    have "view w = view (run_world s)" using calls(1) f unfolding looks_only_def by (metis snd_conv)
    then have gone: "r = Inr False \<Longrightarrow> r' = Inr False \<Longrightarrow> view (run_world s) p = None"
      using absent [of "run_world s" w] f g by simp
    have rest: "wp (bind (world_call (os_is_file Y p)) (\<lambda>regular. if regular then ret FT_FILE
        else bind (world_call (os_is_dir Y p)) (\<lambda>directory. ret (if directory then FT_DIRECTORY else FT_OTHER))))
        (\<lambda>t _. t = FT_MISSING \<longrightarrow> view (run_world s) p = None)
        (\<lambda>e s'. case if e \<in> os_errors then Some (ret FT_OTHER) else None of None \<Rightarrow> True
          | Some q \<Rightarrow> wp q (\<lambda>t _. t = FT_MISSING \<longrightarrow> view (run_world s) p = None) (\<lambda>_ _. True) s') u" for u
      unfolding wp_bind by (rule wp_any) (auto simp: wp_if wp_ret wp_bind wp_ret' intro!: wp_any split: if_splits)
    show ?thesis
      unfolding inspected_file_type_def suppress_def wp_attempt wp_bind [of "world_call (os_is_symlink Y p)"]
      using f g gone rest
      by (cases r; cases r') (auto simp: wp_def [of "world_call (os_is_symlink Y p)"] world_call_def [of "os_is_symlink Y p"]
          wp_def [of "world_call (os_exists Y p)"] world_call_def [of "os_exists Y p"] wp_bind [of "world_call (os_exists Y p)"]
          wp_ret wp_if split: option.split)
  qed
  have "wp (inspect_path Y p) (\<lambda>safety _. \<not> ps_exists safety \<longrightarrow> view (run_world s) p = None) (\<lambda>_ _. True) s"
    unfolding inspect_path_def wp_bind
    by (rule wp_mono [OF type], rule wp_any, rule wp_any) (simp_all add: wp_ret split_def)
  moreover have "wp (inspect_path Y p) (\<lambda>_. same_view view s) (\<lambda>_. same_view view s) s"
    by (rule wp_keeps [OF fs_inspect [OF laws]])
  ultimately show ?thesis
    by (rule wp_mono [OF wp_conj]) (use assms(2,3) in auto)
qed

lemma wp_skip_check:
  assumes laws: "rename_laws Y view" "call_failures Y"
  shows "wp (skip_if_already_restored Y r cause) (\<lambda>_. same_view view s)
    (\<lambda>e s'. same_view view s s' \<and> (no_skip e \<or> back_in_place view r s')) s"
proof -
  have E: "same_view view s s' \<and> (no_skip e \<or> back_in_place view r s')" if "no_skip e" "same_view view s s'" for e s'
    using that by blast
  have raised: "raises no_skip (world_call (os_lstat Y p))" "raises no_skip (inspect_path Y p)" for p
    by (intro raises_intros laws)+
  let ?E = "\<lambda>e s'. same_view view s s' \<and> (no_skip e \<or> back_in_place view r s')"
  have inspect: "wp (inspect_path Y p) Q ?E t"
    if t: "same_view view s t" and Q: "\<And>safety t'. same_view view s t'
      \<Longrightarrow> (\<not> ps_exists safety \<Longrightarrow> view (run_world s) p = None) \<Longrightarrow> Q safety t'" for p Q t
  proof (rule wp_mono [OF raises_wp [OF raised(2) wp_inspect [OF laws(1)]]])
    show "Q safety t'" if "same_view view t t' \<and> (\<not> ps_exists safety \<longrightarrow> view (run_world t) p = None)" for safety t'
      using that t by (intro Q) (auto simp: same_view_def)
    show "?E e t'" if "no_skip e \<and> same_view view t t'" for e t'
      using that fs.trans [OF t] by blast
  qed auto
  have look: "wp (world_call (os_lstat Y (rn_source_path r))) (\<lambda>current. wp (if \<not> same_recorded_identity current r
        \<or> (rn_ctime_ns r \<noteq> None \<and> Some (st_ctime_ns current) \<noteq> rn_ctime_ns r) then ret ()
        else raise (ActionSkipped (rename_outcome_payload r ''already_restored'' cause))) (\<lambda>_. same_view view s) ?E) ?E t"
    if t: "same_view view s t" and gone: "view (run_world s) (rn_destination_path r) = None" for t
  proof (rule wp_mono [OF raises_wp [OF raised(1) wp_lstat [OF laws(1),
          where Q = "\<lambda>st t'. same_view view s t' \<and> view (run_world s) (rn_source_path r) = Some st"
            and E = "\<lambda>_. same_view view s"]]])
    fix current and t' :: "'a run_state"
    assume "same_view view s t' \<and> view (run_world s) (rn_source_path r) = Some current"
    then show "wp (if \<not> same_recorded_identity current r
        \<or> (rn_ctime_ns r \<noteq> None \<and> Some (st_ctime_ns current) \<noteq> rn_ctime_ns r) then ret ()
        else raise (ActionSkipped (rename_outcome_payload r ''already_restored'' cause))) (\<lambda>_. same_view view s) ?E t'"
      using gone by (auto simp: wp_ret wp_raise back_in_place_def same_view_def)
  qed (use t in \<open>auto simp: same_view_def\<close>)
  show ?thesis
    unfolding skip_if_already_restored_def wp_bind
  proof (rule inspect [OF fs.refl], rule inspect, goal_cases)
    case (2 source_safety s1 destination_safety s2)
    then show ?case using look [OF 2(3)] by (auto simp: wp_ret wp_bind)
  qed
qed

text \<open>The entry that was recorded, and no other, is moved back to where it came from.\<close>

definition undone :: "('w \<Rightarrow> fs_view) \<Rightarrow> rename_record \<Rightarrow> 'w run_state \<Rightarrow> 'w run_state \<Rightarrow> bool" where
  "undone view r s s' \<longleftrightarrow> moved (view (run_world s)) (view (run_world s')) (rn_destination_path r) (rn_source_path r)
     \<and> (\<exists>st. view (run_world s) (rn_destination_path r) = Some st \<and> st_kind st = rn_file_type r
          \<and> same_recorded_identity st r)"

definition inverse_outcome ::
  "('w \<Rightarrow> fs_view) \<Rightarrow> rename_record \<Rightarrow> 'w run_state \<Rightarrow> failure + 'a \<Rightarrow> 'w run_state \<Rightarrow> bool" where
  "inverse_outcome view r s result s' \<longleftrightarrow> (case result of
      Inr _ \<Rightarrow> undone view r s s'
    | Inl e \<Rightarrow> (same_view view s s' \<or> undone view r s s') \<and> (no_skip e \<or> back_in_place view r s'))"

lemma wp_inverse:
  assumes laws: "rename_laws Y view" and t: "same_view view s t"
  shows "wp (restore_inverse_rename Y r) (\<lambda>_. undone view r s) (\<lambda>_ s'. same_view view s s' \<or> undone view r s s') t"
  unfolding restore_inverse_rename_def wp_bind split_def
proof (rule wp_existing_source [OF laws], goal_cases)
  case (1 st u)
  then have st: "view (run_world s) (rn_destination_path r) = Some st" and u: "same_view view s u"
    using t by (simp_all add: same_view_def)
  let ?E = "\<lambda>_ s'. same_view view s s' \<or> undone view r s s'"
  show ?case
  proof (cases "st_kind st \<noteq> rn_file_type r \<or> \<not> same_recorded_identity st r")
    case True
    then show ?thesis using u by (simp add: wp_raise)
  next
    case False
    have checked: "wp (rename_checked Y (rn_destination_path r) (rn_source_path r) st (st_kind st))
        (\<lambda>x. wp (ret (record_from_stat (rn_destination_path r) (rn_source_path r) (st_kind st) x)) (\<lambda>_. undone view r s) ?E) ?E u"
      by (rule wp_rename_checked [OF laws])
        (use False st u in \<open>auto simp: wp_ret undone_def move_effect_def same_view_def\<close>)
    then show ?thesis using False by (simp add: wp_bind)
  qed
qed (use t in \<open>simp add: same_view_def\<close>)

lemma wp_refused:
  assumes laws: "rename_laws Y view" "call_failures Y" and p: "refuse_inverse_rename S Y r e = Some p"
    and t: "same_view view s t \<or> undone view r s t"
  shows "wp p (\<lambda>_. undone view r s) (\<lambda>e s'. inverse_outcome view r s (Inl e :: failure + 'a) s') t"
proof -
  have kept: "same_view view s u \<or> undone view r s u" if "same_view view t u" for u
    using that t by (auto simp: same_view_def undone_def)
  have "wp (bind (skip_if_already_restored Y r cause) (\<lambda>_. raise (ActionManual v))) (\<lambda>_. undone view r s)
      (\<lambda>e s'. inverse_outcome view r s (Inl e :: failure + 'a) s') t" for cause v
    unfolding wp_bind wp_raise'
    by (rule wp_mono [OF wp_skip_check [OF laws]]) (use kept in \<open>auto simp: inverse_outcome_def\<close>)
  then show ?thesis
    using p kept [OF fs.refl] by (auto simp: refuse_inverse_rename_def inverse_outcome_def wp_raise split: if_splits)
qed

text \<open>
  C34. Undoing a rename. Whatever the outcome of the handler, the files are as they were, or exactly the
  recorded entry, with the recorded type and identity, has been moved back to a place where nothing
  was. It returns only after that move, and it reports the rename as already undone only if the
  recorded entry is back and nothing is where it had been renamed to.
\<close>

theorem inverse_rename_safe:
  assumes "rename_laws Y view" and "call_failures Y"
    and "rename_record_from_payload (action_payload action) = Inr r"
  shows "case restore_inverse_rename_recovery_action S Y a context action s of
      (result, s') \<Rightarrow> inverse_outcome view r s result s'"
proof (cases "is_mapping (action_payload action)")
  case False
  then show ?thesis
    by (simp add: restore_inverse_rename_recovery_action_def inverse_outcome_def same_view_def)
next
  case True
  have authority: "wp (require_recovery_action_authority S (Some a) context action) (\<lambda>_. same_view view s)
      (\<lambda>e s'. same_view view s s') s"
    by (rule wp_authority_world) (simp_all add: same_view_def)
  have "wp (bind (require_recovery_action_authority S (Some a) context action) (\<lambda>_. restore_inverse_rename Y r))
      (\<lambda>_. undone view r s) (\<lambda>e s'. no_skip e \<and> (same_view view s s' \<or> undone view r s s')) s"
  proof (rule raises_wp, intro raises_intros assms(2))
    show "wp (bind (require_recovery_action_authority S (Some a) context action) (\<lambda>_. restore_inverse_rename Y r))
      (\<lambda>_. undone view r s) (\<lambda>e s'. same_view view s s' \<or> undone view r s s') s"
      unfolding wp_bind by (rule wp_mono [OF authority]) (use wp_inverse [OF assms(1)] in auto)
  qed
  then have "wp (attempt (bind (require_recovery_action_authority S (Some a) context action) (\<lambda>_. restore_inverse_rename Y r))
      (refuse_inverse_rename S Y r)) (\<lambda>_. undone view r s) (\<lambda>e s'. inverse_outcome view r s (Inl e :: failure + json) s') s"
    unfolding wp_attempt
    by (rule wp_mono) (auto split: option.split intro: wp_refused [OF assms(1,2)] simp: inverse_outcome_def)
  then have "wp (restore_inverse_rename_recovery_action S Y a context action)
      (\<lambda>v s'. inverse_outcome view r s (Inr v) s') (\<lambda>e s'. inverse_outcome view r s (Inl e) s') s"
    using True assms(3)
    by (simp add: restore_inverse_rename_recovery_action_def wp_bind wp_ret' inverse_outcome_def)
  then show ?thesis by (simp add: wp_def split_def split: sum.splits)
qed

subsection \<open>An inverse rename on the demo database\<close>

type_synonym stat_world = "(path \<times> stat_result option) list"

definition stat_view :: "stat_world \<Rightarrow> fs_view" where
  "stat_view w p = (case map_of w p of None \<Rightarrow> None | Some x \<Rightarrow> x)"

definition sample_stat :: "file_type \<Rightarrow> int \<Rightarrow> stat_result" where
  "sample_stat type ino = \<lparr>st_kind = type, st_dev = 1, st_ino = ino, st_size = 3, st_mtime_ns = 5, st_ctime_ns = 6, st_nlink = 1\<rparr>"

definition has_kind :: "file_type \<Rightarrow> path \<Rightarrow> stat_world \<Rightarrow> (failure + bool) \<times> stat_world" where
  "has_kind type p w = (Inr (case stat_view w p of None \<Rightarrow> False | Some st \<Rightarrow> st_kind st = type), w)"

definition sample_calls :: "stat_world os_calls" where
  "sample_calls = \<lparr>os_env = sample_env, os_is_symlink = has_kind FT_SYMLINK,
     os_exists = (\<lambda>p w. (Inr (stat_view w p \<noteq> None), w)), os_is_file = has_kind FT_FILE, os_is_dir = has_kind FT_DIRECTORY,
     os_is_mount = (\<lambda>p w. (Inr False, w)),
     os_lstat = (\<lambda>p w. (from_option (Raised FileNotFoundError) (stat_view w p), w)),
     os_stat = (\<lambda>p w. (from_option (Raised FileNotFoundError) (stat_view w p), w)),
     os_rename_no_replace = (\<lambda>p q w. case stat_view w p of None \<Rightarrow> (Inl (Raised FileNotFoundError), w)
       | Some st \<Rightarrow> if stat_view w q = None then (Inr (), (p, None) # (q, Some st) # w)
                    else (Inl (Raised FileExistsError), w))\<rparr>"

lemma sample_call_laws: "rename_laws sample_calls stat_view" "call_failures sample_calls"
proof -
  have refl: "is_relative_to p p" for p by (simp add: is_relative_to_def)
  show "rename_laws sample_calls stat_view"
    unfolding rename_laws_def
  proof (intro conjI allI, goal_cases)
    case (11 source target w)
    show ?case
      using refl by (auto simp: sample_calls_def moved_def stat_view_def same_identity_def split: option.splits)
  qed (auto simp: looks_only_def sample_calls_def has_kind_def from_option_def split: option.splits)
  show "call_failures sample_calls"
    by (auto simp: call_failures_def unskipping_def sample_calls_def has_kind_def from_option_def split: option.splits if_splits)
qed

definition sample_rename :: rename_record where
  "sample_rename = \<lparr>rn_source_path = path_of ''/w/f'', rn_destination_path = path_of ''/w/g'', rn_file_type = FT_FILE,
     rn_device = 1, rn_inode = 7, rn_size = 3, rn_mtime_ns = 5, rn_ctime_ns = Some 6\<rparr>"

definition rename_action :: recovery_action_record where
  "rename_action = (last (rc_recovery_actions demo_run_context))\<lparr>action_payload := rename_record_payload sample_rename\<rparr>"

definition renamed_state :: "stat_world run_state" where
  "renamed_state = \<lparr>run_db = db_attempting,
     run_world = [(path_of ''/w/g'', Some (sample_stat FT_FILE 7)), (path_of ''/w'', Some (sample_stat FT_DIRECTORY 2))],
     run_tick = 0\<rparr>"

definition sample_undo :: "(failure + json) \<times> stat_world run_state" where
  "sample_undo = restore_inverse_rename_recovery_action demo_surroundings sample_calls
     (recovery_authority ''b1'' w1 ''r1'') demo_run_context rename_action renamed_state"

theorem inverse_rename_safe_witness:
  "(\<exists>x. fst sample_undo = Inr x) \<and> undone stat_view sample_rename renamed_state (snd sample_undo)"
proof -
  have "\<not> isl (fst sample_undo)" by code_simp
  then obtain x s' where run: "sample_undo = (Inr x, s')" by (metis prod.collapse sum.collapse(2))
  have r: "rename_record_from_payload (action_payload rename_action) = Inr sample_rename" by code_simp
  have "case sample_undo of (result, s') \<Rightarrow> inverse_outcome stat_view sample_rename renamed_state result s'"
    unfolding sample_undo_def by (rule inverse_rename_safe [OF sample_call_laws r])
  then show ?thesis by (simp add: run inverse_outcome_def)
qed

end
