(* ===== verification/Restore_Properties.thy ===== *)
theory Restore_Properties
  imports Rename_Properties
begin

section \<open>How a restore reports what stands in its way\<close>

text \<open>
  The recovery handler of \<open>restore_backup\<close> actions: its effect on the files is in
  \<open>Backup_Properties\<close>; here is what it answers. It has nothing to skip, and every conflict, damaged
  backup and unsafe path becomes a demand for manual intervention that names the reason.
\<close>

subsection \<open>Failures of the handler\<close>
















subsection \<open>What stands in the way of a restore\<close>











subsection \<open>The property\<close>






end
