(* ===== verification/Canonical_Json.thy ===== *)
theory Canonical_Json
  imports Journal_Rows
begin

section \<open>Lookups in stored payloads\<close>

text \<open>
  A payload is stored as text with ordered keys; \<open>canonical_json\<close> is the value that this text
  denotes. Lookups commute with it, so what is read from a stored payload is the stored form of
  what was written. Atomic values are their own stored form.
\<close>

lemma map_of_filter: "map_of kvs k = (case filter (\<lambda>p. fst p = k) kvs of [] \<Rightarrow> None | p # _ \<Rightarrow> Some (snd p))"
  by (induction kvs) auto

lemma map_of_sort_key: "map_of (sort_key fst kvs) (k :: string) = map_of kvs k"
  by (simp add: map_of_filter sort_key_stable)

lemma map_of_map_snd: "map_of (map (\<lambda>p. (fst p, f (snd p))) kvs) k = map_option f (map_of kvs k)"
  by (induction kvs) auto

lemma jget_canonical [simp]: "jget (canonical_json j) k = canonical_json (jget j k)"
  by (cases j) (auto simp: jget_def map_of_sort_key map_of_map_snd split: option.split)

lemma is_mapping_canonical [simp]: "is_mapping (canonical_json j) = is_mapping j"
  by (cases j) (simp_all add: is_mapping_def)

lemma canonical_atom [simp]:
  "canonical_json j = JNull \<longleftrightarrow> j = JNull"
  "canonical_json j = JStr s \<longleftrightarrow> j = JStr s"
  "canonical_json j = JInt n \<longleftrightarrow> j = JInt n"
  "canonical_json j = JBool b \<longleftrightarrow> j = JBool b"
  by (cases j; simp)+

lemma py_int_canonical [simp]: "py_int (canonical_json j) = py_int j"
  by (cases j) (simp_all add: py_int_def)

end
