(* ===== verification/Captured_Directories.thy ===== *)
theory Captured_Directories
  imports Renames Canonical_Json
begin

section \<open>Captured directories: planning, restoring and removing them\<close>

text \<open>
  \<open>operation_journal/captured_directory_recovery_planning.py\<close> and
  \<open>captured_directory_recovery_actions.py\<close>, with the proof lookup of \<open>legacy_captures.py\<close>: the
  directory that a capture moved to its quarantine path is moved back when the batch is recovered,
  and removed when the batch is committed. Both work from a recorded payload that must name the
  two paths, the identity of the directory and the token that marks it. Moving back, removing and
  the check of the token are fields of \<open>capture_calls\<close>, \<open>cc_record_id\<close> is the SHA-256 digest of a
  value written with ordered keys.
\<close>

record 'w capture_calls =
  cc_os :: "'w os_calls"
  cc_record_id :: "json \<Rightarrow> string"
  cc_require_token :: "path \<Rightarrow> directory_identity \<Rightarrow> string \<Rightarrow> 'w \<Rightarrow> (failure + unit) \<times> 'w"
  cc_restore :: "captured_directory \<Rightarrow> 'w \<Rightarrow> (failure + directory_identity) \<times> 'w"
  cc_cleanup :: "captured_directory \<Rightarrow> 'w \<Rightarrow> (failure + unit) \<times> 'w"

definition identity_from_stat :: "stat_result \<Rightarrow> directory_identity" where
  "identity_from_stat st = \<lparr>di_device = st_dev st, di_inode = st_ino st\<rparr>"

subsection \<open>Records of earlier versions\<close>

text \<open>\<open>{**mapping, ...}\<close> and \<open>mapping[key]\<close>.\<close>

definition jupdate :: "json \<Rightarrow> (string \<times> json) list \<Rightarrow> json" where
  "jupdate v new = (case v of JObj kvs \<Rightarrow> JObj (assoc_update kvs new) | _ \<Rightarrow> v)"

definition jindex :: "json \<Rightarrow> string \<Rightarrow> error + json" where
  "jindex v k = (if jhas v k then Inr (jget v k) else Inl KeyError)"

definition legacy_record_json :: "json \<Rightarrow> json" where
  "legacy_record_json payload =
     (let nested = (case jget payload ''captured_directory'' of
          JObj kvs \<Rightarrow> if jget (JObj kvs) ''capture_token'' = JNull
            then JObj (filter (\<lambda>p. fst p \<noteq> ''capture_token'') kvs) else JObj kvs
        | _ \<Rightarrow> JObj [])
      in JObj [(''path'', jget payload ''path''), (''step_resource_key'', jget payload ''step_resource_key''),
               (''ownership_class'', jget payload ''ownership_class''), (''captured_directory'', nested)])"

definition capture_id :: "'w capture_calls \<Rightarrow> json \<Rightarrow> string" where
  "capture_id C payload = cc_record_id C (legacy_record_json payload)"

definition adoption_payload :: "recovery_context \<Rightarrow> string \<Rightarrow> string \<Rightarrow> json option" where
  "adoption_payload context identifier type =
     map_option checkpoint_payload
       (find (\<lambda>c. checkpoint_type c = type \<and> jget (checkpoint_payload c) ''capture_id'' = JStr identifier)
          (rev (rc_checkpoints context)))"

definition resolve_legacy_payload :: "'w capture_calls \<Rightarrow> recovery_context \<Rightarrow> json \<Rightarrow> error + json" where
  "resolve_legacy_payload C context payload =
     (let nested = jget payload ''captured_directory''
      in if \<not> is_mapping nested \<or> jget nested ''capture_token'' \<noteq> JNull then Inr payload
         else case adoption_payload context (capture_id C payload) ''captured_directory_adoption'' of
           None \<Rightarrow> Inr payload
         | Some found \<Rightarrow> res_bind (jindex found ''capture_token'') (\<lambda>token.
             Inr (jupdate payload
               [(''captured_directory'', jupdate nested [(''capture_token'', token)]),
                (''captured_directory_cleanup'', JStr ''retain'')])))"

fun adopted_plans_from ::
  "'w capture_calls \<Rightarrow> recovery_context \<Rightarrow> string list \<Rightarrow> checkpoint_record list \<Rightarrow> error + action_plan list" where
  "adopted_plans_from C context seen [] = Inr []"
| "adopted_plans_from C context seen (c # cs) =
     (if checkpoint_type c \<noteq> ''captured_directory_adoption'' then adopted_plans_from C context seen cs
      else res_bind (jindex (checkpoint_payload c) ''capture_id'') (\<lambda>v.
        let identifier = py_str v
        in if identifier \<in> set seen then adopted_plans_from C context seen cs
           else res_bind (jindex (checkpoint_payload c) ''legacy_payload'') (\<lambda>legacy.
             res_bind (resolve_legacy_payload C context legacy) (\<lambda>payload.
             res_bind (adopted_plans_from C context (identifier # seen) cs) (\<lambda>plans.
             Inr (\<lparr>plan_action_id = ''restore-adopted-capture:'' @ identifier,
                   plan_action_type = ''restore_captured_directory'',
                   plan_resource_key = br_resource_key (rc_batch context), plan_payload = payload\<rparr> # plans))))))"

definition adopted_restore_plans :: "'w capture_calls \<Rightarrow> recovery_context \<Rightarrow> error + action_plan list" where
  "adopted_restore_plans C context = adopted_plans_from C context [] (rev (rc_checkpoints context))"

subsection \<open>The recorded capture\<close>

definition identity_payload_matches :: "json \<Rightarrow> path \<Rightarrow> string \<Rightarrow> bool" where
  "identity_payload_matches v p key \<longleftrightarrow> jget v ''file_type'' = JStr ''directory''
     \<and> value_path (jget v ''path'') = p \<and> py_str (jget v ''resource_key'') = key"

definition manual_reason :: "path \<Rightarrow> string \<Rightarrow> failure" where
  "manual_reason p code = ActionManual (JObj [(''path'', JStr (path_text p)), (''reason_code'', JStr code)])"

definition directory_identity_from_payload :: "json \<Rightarrow> path \<Rightarrow> string \<Rightarrow> failure + directory_identity" where
  "directory_identity_from_payload v p key =
     (if \<not> identity_payload_matches v p key then Inl (manual_reason p ''identity_payload_mismatch'')
      else case (py_int (jget v ''device''), py_int (jget v ''inode'')) of
        (Some d, Some i) \<Rightarrow> Inr \<lparr>di_device = d, di_inode = i\<rparr>
      | _ \<Rightarrow> Inl (manual_reason p ''invalid_identity_payload''))"

definition captured_directory_record_from_payload :: "json \<Rightarrow> failure + captured_directory" where
  "captured_directory_record_from_payload payload =
     (if optional_str (jget payload ''ownership_class'') \<noteq> Some ''captured_by_transaction''
      then Inl (ActionManual (JObj [(''reason_code'', JStr ''missing_ownership_proof'')]))
      else
      let p = value_path (jget payload ''path'');
          captured = jget payload ''captured_directory'';
          original_path = value_path (jget captured ''original_path'');
          quarantine_path = value_path (jget captured ''quarantine_path'')
      in case optional_str (jget payload ''step_resource_key'') of
        None \<Rightarrow> Inl (manual_reason p ''invalid_payload'')
      | Some key \<Rightarrow>
          if \<not> is_mapping captured then Inl (manual_reason p ''invalid_payload'')
          else if original_path \<noteq> p
            \<or> optional_str (jget captured ''ownership_class'') \<noteq> Some ''captured_by_transaction''
          then Inl (manual_reason p ''payload_path_mismatch'')
          else if \<not> is_mapping (jget captured ''original_identity'') \<or> \<not> is_mapping (jget captured ''captured_identity'')
          then Inl (manual_reason p ''invalid_payload'')
          else
          res_bind (directory_identity_from_payload (jget captured ''original_identity'') original_path key) (\<lambda>original.
          res_bind (directory_identity_from_payload (jget captured ''captured_identity'') quarantine_path key) (\<lambda>moved.
          case jget captured ''capture_token'' of
            JStr token \<Rightarrow> Inr \<lparr>cd_original_path = original_path, cd_quarantine_path = quarantine_path,
               cd_original_identity = original, cd_captured_identity = moved,
               cd_ownership_class = ''captured_by_transaction'', cd_capture_token = Some token\<rparr>
          | _ \<Rightarrow> Inl (manual_reason p ''missing_directory_capture_token''))))"

subsection \<open>Planning the restore\<close>

definition restore_captured_plan :: "recovery_context \<Rightarrow> string \<Rightarrow> json \<Rightarrow> action_plan" where
  "restore_captured_plan context aid payload =
     \<lparr>plan_action_id = aid, plan_action_type = ''restore_captured_directory'',
      plan_resource_key = br_resource_key (rc_batch context), plan_payload = payload\<rparr>"

definition direct_captured_plans :: "recovery_context \<Rightarrow> action_plan list" where
  "direct_captured_plans context =
     (let plan = (\<lambda>payload. restore_captured_plan context (''restore-captured-directory:''
            @ py_str (jget payload ''step_resource_key'') @ '':'' @ py_str (jget payload ''path'')) payload)
      in case find (\<lambda>c. checkpoint_type c = ''captured_directory''
                \<and> is_mapping (jget (checkpoint_payload c) ''captured_directory'')) (rev (rc_checkpoints context)) of
           Some c \<Rightarrow> [plan (checkpoint_payload c)]
         | None \<Rightarrow>
             (case find is_mapping (map (\<lambda>r. jget (recovery_payload r) ''captured_directory_restore'')
                      (rev (rc_recovery_records context))) of
                Some payload \<Rightarrow> [plan payload]
              | None \<Rightarrow> []))"

definition planned_captured_directory_restore_payload :: "json \<Rightarrow> error + json option" where
  "planned_captured_directory_restore_payload step =
     (let step_path = value_path (jget step ''step_path'');
          key = py_str (jget step ''step_resource_key'');
          captured = jget step ''captured_directory'';
          quarantine = jget captured ''quarantine_path'';
          original_identity = jget captured ''original_identity'';
          captured_identity = jget captured ''captured_identity''
      in if optional_str (jget step ''ownership_class'') \<noteq> Some ''captured_by_transaction'' then Inr None
         else if \<not> is_mapping captured then Inr None
         else if quarantine = JNull then Inr None
         else if \<not> is_mapping original_identity \<or> \<not> is_mapping captured_identity then Inr None
         else if \<not> identity_payload_matches original_identity step_path key then Inr None
         else if \<not> identity_payload_matches captured_identity (value_path quarantine) key then Inr None
         else
         res_bind (step_index_text (jget step ''step_index'')) (\<lambda>index.
         Inr (Some (JObj
           [(''path'', JStr (path_text step_path)), (''step_resource_key'', JStr key),
            (''ownership_class'', JStr ''captured_by_transaction''),
            (''captured_directory'', JObj
              [(''original_path'', JStr (path_text step_path)),
               (''quarantine_path'', JStr (py_str quarantine)),
               (''original_identity'', original_identity), (''captured_identity'', captured_identity),
               (''capture_token'', jget captured ''capture_token''),
               (''ownership_class'', JStr ''captured_by_transaction'')]),
            (''recursive_mkdir_cleanup'', JObj [(''step_index'', JInt index)])]))))"

fun plan_captured_steps :: "recovery_context \<Rightarrow> json list \<Rightarrow> error + action_plan list" where
  "plan_captured_steps context [] = Inr []"
| "plan_captured_steps context (step # steps) =
     res_bind (planned_captured_directory_restore_payload step) (\<lambda>planned.
     case planned of
       None \<Rightarrow> plan_captured_steps context steps
     | Some payload \<Rightarrow>
         res_bind (step_index_value step) (\<lambda>index.
         res_bind (plan_captured_steps context steps) (\<lambda>plans.
         Inr (restore_captured_plan context (''recursive-mkdir-restore-captured:'' @ int_text index @ '':''
              @ py_str (jget payload ''step_resource_key'')) payload # plans))))"

definition resource_key_for_capture :: "recovery_context \<Rightarrow> json \<Rightarrow> string option" where
  "resource_key_for_capture context payload = (case jget payload ''resource_key'' of
      JStr key \<Rightarrow> if key \<noteq> [] then Some key else br_resource_key (rc_batch context)
    | _ \<Rightarrow> br_resource_key (rc_batch context))"

definition path_payload :: "json \<Rightarrow> path option" where
  "path_payload v = (if v = JNull then None else Some (value_path v))"

definition latest_directory_before_checkpoint :: "recovery_context \<Rightarrow> string \<Rightarrow> path \<Rightarrow> checkpoint_record option" where
  "latest_directory_before_checkpoint context key source =
     find (\<lambda>c. checkpoint_type c = ''before'' \<and> checkpoint_resource_key c = key
         \<and> value_path (jget (checkpoint_payload c) ''path'') = source
         \<and> jget (checkpoint_payload c) ''exists'' = JBool True
         \<and> jget (checkpoint_payload c) ''file_type'' = JStr ''directory''
         \<and> is_int (jget (checkpoint_payload c) ''device'') \<and> is_int (jget (checkpoint_payload c) ''inode''))
       (rev (rc_checkpoints context))"

definition captured_directory_restore_payload :: "path \<Rightarrow> path \<Rightarrow> string \<Rightarrow> json \<Rightarrow> json \<Rightarrow> string \<Rightarrow> json" where
  "captured_directory_restore_payload source quarantine key device inode token =
     (let identity = (\<lambda>p. JObj [(''file_type'', JStr ''directory''), (''path'', JStr (path_text p)),
             (''resource_key'', JStr key), (''device'', device), (''inode'', inode)])
      in JObj
        [(''path'', JStr (path_text source)), (''step_resource_key'', JStr key),
         (''ownership_class'', JStr ''captured_by_transaction''),
         (''captured_directory'', JObj
           [(''original_path'', JStr (path_text source)), (''quarantine_path'', JStr (path_text quarantine)),
            (''original_identity'', identity source), (''captured_identity'', identity quarantine),
            (''capture_token'', JStr token), (''ownership_class'', JStr ''captured_by_transaction'')])])"

definition ordinary_directory :: "path_safety \<Rightarrow> bool" where
  "ordinary_directory safety \<longleftrightarrow> ps_exists safety \<and> ps_file_type safety = FT_DIRECTORY
     \<and> \<not> ps_is_windows_reparse_point safety \<and> \<not> ps_is_mount safety"

text \<open>\<open>True\<close> if the token of the directory was found; \<open>OSError\<close> and \<open>UnsafePathError\<close> are \<open>False\<close>.\<close>

definition token_found :: "'w capture_calls \<Rightarrow> path \<Rightarrow> directory_identity \<Rightarrow> string \<Rightarrow> ('w, bool) program" where
  "token_found C p identity token =
     suppress (os_errors \<union> unsafe_path_errors) False
       (bind (world_call (cc_require_token C p identity token)) (\<lambda>_. ret True))"

text \<open>A capture whose record is missing: the directory itself is found at the quarantine path.\<close>

definition observed_captured_plan :: "'w capture_calls \<Rightarrow> recovery_context \<Rightarrow> ('w, action_plan option) program" where
  "observed_captured_plan C context =
     (let payload = br_payload (rc_batch context)
      in case (resource_key_for_capture context payload, path_payload (jget payload ''path''),
               path_payload (jget payload ''quarantine_path'')) of
        (Some key, Some source, Some quarantine) \<Rightarrow>
          (case latest_directory_before_checkpoint context key source of
             None \<Rightarrow> ret None
           | Some before \<Rightarrow>
               bind (inspect_path (cc_os C) source) (\<lambda>source_safety.
               if ps_exists source_safety then ret None
               else bind (inspect_path (cc_os C) quarantine) (\<lambda>safety.
               if \<not> ordinary_directory safety then ret None
               else bind (suppress os_errors None
                   (bind (world_call (os_stat (cc_os C) quarantine)) (\<lambda>st. ret (Some (identity_from_stat st))))) (\<lambda>found.
               case (found, py_int (jget (checkpoint_payload before) ''device''),
                     py_int (jget (checkpoint_payload before) ''inode''), jget (checkpoint_payload before) ''capture_token'') of
                 (Some identity, Some device, Some inode, JStr token) \<Rightarrow>
                   if identity \<noteq> \<lparr>di_device = device, di_inode = inode\<rparr> then ret None
                   else bind (token_found C quarantine identity token) (\<lambda>ok.
                     ret (if ok then Some (restore_captured_plan context
                            (''restore-captured-directory-from-before:'' @ key @ '':'' @ path_text source)
                            (captured_directory_restore_payload source quarantine key
                               (jget (checkpoint_payload before) ''device'') (jget (checkpoint_payload before) ''inode'') token))
                          else None))
               | _ \<Rightarrow> ret None))))
      | _ \<Rightarrow> ret None)"

definition latest_capture_intervention_action :: "recovery_context \<Rightarrow> action_plan option" where
  "latest_capture_intervention_action context =
     map_option (\<lambda>action.
         \<lparr>plan_action_id = py_str (jget action ''action_id''),
          plan_action_type = py_str (jget action ''action_type''),
          plan_resource_key = br_resource_key (rc_batch context),
          plan_payload = jget action ''payload''\<rparr>)
       (find (\<lambda>action. is_mapping action \<and> is_mapping (jget action ''payload'')
                 \<and> jget (jget action ''payload'') ''operation'' = JStr ''capture_directory''
                 \<and> (case jget action ''action_id'' of JStr _ \<Rightarrow> True | _ \<Rightarrow> False)
                 \<and> jget action ''action_type'' = JStr ''manual_intervention_required'')
         (map (\<lambda>r. jget (recovery_payload r) ''manual_intervention_action'') (rev (rc_recovery_records context))))"

definition is_capture_directory_batch :: "recovery_context \<Rightarrow> bool" where
  "is_capture_directory_batch context \<longleftrightarrow>
     is_mapping (br_payload (rc_batch context))
     \<and> jget (br_payload (rc_batch context)) ''operation'' = JStr ''capture_directory''"

definition missing_capture_proof_action :: "recovery_context \<Rightarrow> action_plan" where
  "missing_capture_proof_action context =
     (let batch = rc_batch context; payload = br_payload batch
      in \<lparr>plan_action_id = ''capture-directory-manual:'' @ br_batch_id batch @ '':'' @ opt_text (br_resource_key batch),
          plan_action_type = ''manual_intervention_required'',
          plan_resource_key = br_resource_key batch,
          plan_payload = JObj
            [(''operation'', JStr ''capture_directory''),
             (''batch_id'', JStr (br_batch_id batch)),
             (''resource_key'', opt_json (br_resource_key batch)),
             (''path'', JStr (py_str (jget payload ''path''))),
             (''quarantine_path'', JStr (py_str (jget payload ''quarantine_path''))),
             (''reason_code'', JStr ''missing_captured_directory_restore_proof''),
             (''detail'', JStr ''capture_directory has no durable captured-directory restore proof'')]\<rparr>)"

definition capture_fallback_plans :: "'w capture_calls \<Rightarrow> recovery_context \<Rightarrow> ('w, action_plan list) program" where
  "capture_fallback_plans C context =
     bind (lift (adopted_restore_plans C context)) (\<lambda>adopted.
     if adopted \<noteq> [] then ret adopted
     else case latest_capture_intervention_action context of
       Some action \<Rightarrow> ret [action]
     | None \<Rightarrow>
         if \<not> is_capture_directory_batch context then ret []
         else bind (observed_captured_plan C context) (\<lambda>observed.
           case observed of
             Some plan \<Rightarrow> ret [plan]
           | None \<Rightarrow> ret [missing_capture_proof_action context]))"

definition captured_directory_recovery_action_plans ::
  "'w capture_calls \<Rightarrow> recovery_context \<Rightarrow> ('w, action_plan list) program" where
  "captured_directory_recovery_action_plans C context =
     (if direct_captured_plans context \<noteq> [] then ret (direct_captured_plans context)
      else case latest_recursive_mkdir_failure_payload context of
        None \<Rightarrow> capture_fallback_plans C context
      | Some payload \<Rightarrow>
          (case jget (jget payload ''recursive_group'') ''prior_created_steps'' of
             JArr steps \<Rightarrow> bind (lift (ordered_steps steps)) (\<lambda>ordered. lift (plan_captured_steps context ordered))
           | _ \<Rightarrow> ret []))"

subsection \<open>Restoring\<close>

definition capture_outcome_payload :: "captured_directory \<Rightarrow> string \<Rightarrow> string \<Rightarrow> json" where
  "capture_outcome_payload r code detail = JObj
     [(''path'', JStr (path_text (cd_original_path r))),
      (''quarantine_path'', JStr (path_text (cd_quarantine_path r))),
      (''reason_code'', JStr code), (''detail'', JStr detail)]"

definition skip_if_directory_restored ::
  "'w capture_calls \<Rightarrow> captured_directory \<Rightarrow> json \<Rightarrow> string \<Rightarrow> ('w, unit) program" where
  "skip_if_directory_restored C r payload cause =
     bind (inspect_path (cc_os C) (cd_quarantine_path r)) (\<lambda>quarantine_safety.
     if ps_exists quarantine_safety then ret ()
     else bind (inspect_path (cc_os C) (cd_original_path r)) (\<lambda>original_safety.
     if \<not> ordinary_directory original_safety then ret ()
     else bind (suppress {Raised FileNotFoundError} None
         (bind (world_call (os_stat (cc_os C) (cd_original_path r))) (\<lambda>st. ret (Some (identity_from_stat st))))) (\<lambda>found.
     case (found, cd_capture_token r) of
       (Some identity, Some token) \<Rightarrow>
         if identity \<noteq> cd_captured_identity r then ret ()
         else bind (token_found C (cd_original_path r) identity token) (\<lambda>ok.
           if \<not> ok then ret ()
           else raise (ActionSkipped (JObj
             [(''path'', JStr (path_text (cd_original_path r))),
              (''step_resource_key'', JStr (py_str (jget payload ''step_resource_key''))),
              (''restored_device'', JInt (di_device identity)), (''restored_inode'', JInt (di_inode identity)),
              (''reason_code'', JStr ''already_restored''), (''detail'', JStr cause)])))
     | _ \<Rightarrow> ret ())))"

definition refuse_captured_restore ::
  "surroundings \<Rightarrow> 'w capture_calls \<Rightarrow> captured_directory \<Rightarrow> json \<Rightarrow> failure \<Rightarrow> ('w, directory_identity) program option" where
  "refuse_captured_restore S C r payload e =
     (if e = Raised FileNotFoundError then
        Some (bind (skip_if_directory_restored C r payload (failure_text S e)) (\<lambda>_.
          raise (ActionManual (capture_outcome_payload r ''captured_directory_missing'' (failure_text S e)))))
      else if e = Raised FileExistsError then
        Some (bind (skip_if_directory_restored C r payload (failure_text S e)) (\<lambda>_.
          raise (ActionManual (capture_outcome_payload r ''restore_destination_exists'' (failure_text S e)))))
      else if e \<in> unsafe_path_errors then
        Some (raise (ActionManual (capture_outcome_payload r ''captured_directory_tampered'' (failure_text S e))))
      else None)"

definition captured_restored_payload :: "captured_directory \<Rightarrow> json \<Rightarrow> directory_identity \<Rightarrow> json" where
  "captured_restored_payload r payload identity = JObj
     [(''path'', JStr (path_text (cd_original_path r))),
      (''step_resource_key'', JStr (py_str (jget payload ''step_resource_key''))),
      (''ownership_class'', JStr (cd_ownership_class r)), (''restored'', JBool True),
      (''restored_device'', JInt (di_device identity)), (''restored_inode'', JInt (di_inode identity))]"

definition restore_captured_directory_recovery_action ::
  "surroundings \<Rightarrow> 'w capture_calls \<Rightarrow> authority \<Rightarrow> recovery_context \<Rightarrow> recovery_action_record \<Rightarrow> ('w, json) program" where
  "restore_captured_directory_recovery_action S C a context action =
     bind (lift (mapping_payload_copy (action_payload action))) (\<lambda>own.
     bind (lift (resolve_legacy_payload C context own)) (\<lambda>payload.
     case captured_directory_record_from_payload payload of
       Inl e \<Rightarrow> raise e
     | Inr r \<Rightarrow>
         bind (attempt
           (bind (require_recovery_action_authority S (Some a) context action) (\<lambda>_. world_call (cc_restore C r)))
           (refuse_captured_restore S C r payload)) (\<lambda>identity.
         ret (captured_restored_payload r payload identity))))"

subsection \<open>Removing the captured directories of a batch\<close>

record captured_candidate =
  ca_artifact_id :: string
  ca_batch_id :: string
  ca_checkpoint_id :: string
  ca_resource_key :: string
  ca_quarantine_path :: path
  ca_record :: "captured_directory option"
  ca_captured_directory_cleanup :: "string option"
  ca_debt :: "(string \<times> string) option"

definition quarantine_path_from_payload :: "json \<Rightarrow> path" where
  "quarantine_path_from_payload payload =
     (let captured = jget payload ''captured_directory''
      in if is_mapping captured \<and> jget captured ''quarantine_path'' \<noteq> JNull
         then value_path (jget captured ''quarantine_path'') else value_path (jget payload ''path''))"

definition captured_directory_cleanup_from_payload :: "json \<Rightarrow> string option" where
  "captured_directory_cleanup_from_payload payload =
     (let policy = optional_str (jget payload ''captured_directory_cleanup'')
      in if policy \<in> {Some ''automatic'', Some ''retain''} then policy else None)"

definition failure_reason_code :: "failure \<Rightarrow> string" where
  "failure_reason_code e = str_or (case e of ActionManual v \<Rightarrow> optional_str (jget v ''reason_code'') | _ \<Rightarrow> None)
     ''malformed_captured_directory_checkpoint''"

definition captured_cleanup_candidate :: "surroundings \<Rightarrow> 'w capture_calls \<Rightarrow> checkpoint_record \<Rightarrow> captured_candidate" where
  "captured_cleanup_candidate S C c =
     (case captured_directory_record_from_payload (checkpoint_payload c) of
        Inl e \<Rightarrow>
          \<lparr>ca_artifact_id = ''checkpoint:'' @ checkpoint_id c, ca_batch_id = checkpoint_batch_id c,
           ca_checkpoint_id = checkpoint_id c, ca_resource_key = checkpoint_resource_key c,
           ca_quarantine_path = quarantine_path_from_payload (checkpoint_payload c), ca_record = None,
           ca_captured_directory_cleanup = captured_directory_cleanup_from_payload (checkpoint_payload c),
           ca_debt = Some (failure_reason_code e, failure_text S e)\<rparr>
      | Inr r \<Rightarrow>
          \<lparr>ca_artifact_id = ''captured-directory:''
             @ path_text (normpath (path_join (env_cwd (os_env (cc_os C))) (cd_quarantine_path r))),
           ca_batch_id = checkpoint_batch_id c,
           ca_checkpoint_id = checkpoint_id c, ca_resource_key = checkpoint_resource_key c,
           ca_quarantine_path = cd_quarantine_path r, ca_record = Some r,
           ca_captured_directory_cleanup = captured_directory_cleanup_from_payload (checkpoint_payload c),
           ca_debt = None\<rparr>)"

fun captured_candidates_from ::
  "surroundings \<Rightarrow> 'w capture_calls \<Rightarrow> recovery_context option \<Rightarrow> string list \<Rightarrow> checkpoint_record list
    \<Rightarrow> error + captured_candidate list" where
  "captured_candidates_from S C context seen [] = Inr []"
| "captured_candidates_from S C context seen (c # cs) =
     (if checkpoint_type c \<noteq> ''captured_directory'' then captured_candidates_from S C context seen cs
      else res_bind (case context of None \<Rightarrow> Inr c
          | Some x \<Rightarrow> res_bind (resolve_legacy_payload C x (checkpoint_payload c)) (\<lambda>payload.
              Inr (c\<lparr>checkpoint_payload := payload\<rparr>))) (\<lambda>c'.
        let candidate = captured_cleanup_candidate S C c'
        in if ca_artifact_id candidate \<in> set seen then captured_candidates_from S C context seen cs
           else res_bind (captured_candidates_from S C context (ca_artifact_id candidate # seen) cs) (\<lambda>rest.
             Inr (candidate # rest))))"

definition plan_captured_directory_cleanup_candidates ::
  "surroundings \<Rightarrow> 'w capture_calls \<Rightarrow> recovery_context option \<Rightarrow> checkpoint_record list \<Rightarrow> error + captured_candidate list" where
  "plan_captured_directory_cleanup_candidates S C context checkpoints =
     captured_candidates_from S C context [] checkpoints"

text \<open>Status, reason and detail of the result; the other fields are those of the candidate.\<close>

type_synonym cleanup_outcome = "string \<times> string option \<times> string option"

definition captured_cleanup_failure ::
  "surroundings \<Rightarrow> captured_candidate \<Rightarrow> failure \<Rightarrow> ('w, cleanup_outcome) program option" where
  "captured_cleanup_failure S a e =
     (if e = Raised FileNotFoundError then Some (ret (''skipped'', Some ''captured_directory_missing'',
        Some (''captured directory already missing at '' @ path_text (ca_quarantine_path a))))
      else if e = Raised IdentityRemoveUnavailableError then Some (ret (''manual_intervention_required'',
        Some ''identity_safe_remove_directory_unavailable'', Some (failure_text S e)))
      else if e \<in> unsafe_path_errors then Some (ret (''manual_intervention_required'',
        Some ''captured_directory_cleanup_unsafe'', Some (failure_text S e)))
      else if e \<in> os_errors then Some (ret (''failed'',
        Some ''captured_directory_cleanup_failed'', Some (failure_text S e)))
      else None)"

text \<open>\<open>before\<close> is \<open>before_delete\<close>, a program that may change more than the files.\<close>

definition execute_captured_directory_cleanup_candidate ::
  "surroundings \<Rightarrow> (captured_directory \<Rightarrow> ('w, unit) program) \<Rightarrow> ('w, unit) program option \<Rightarrow> captured_candidate
    \<Rightarrow> ('w, cleanup_outcome) program" where
  "execute_captured_directory_cleanup_candidate S delete_tree before a =
     (case (ca_debt a, ca_record a) of
        (Some (code, detail), _) \<Rightarrow> ret (''manual_intervention_required'', Some code, Some detail)
      | (None, None) \<Rightarrow> ret (''manual_intervention_required'', Some ''malformed_captured_directory_checkpoint'',
          Some ''captured-directory cleanup candidate is missing a captured directory record'')
      | (None, Some r) \<Rightarrow>
          bind (case before of None \<Rightarrow> ret () | Some mark \<Rightarrow> mark) (\<lambda>_.
          attempt (bind (delete_tree r) (\<lambda>_. ret (''succeeded'', None, None)))
            (captured_cleanup_failure S a)))"

subsection \<open>What is written can be read back\<close>

lemma identity_payload_read:
  assumes "path_wf p"
  shows "directory_identity_from_payload (canonical_json (identity_payload p key d i)) p key
    = Inr \<lparr>di_device = d, di_inode = i\<rparr>"
  using assms
  by (simp add: directory_identity_from_payload_def identity_payload_matches_def del: canonical_json.simps)
    (simp add: identity_payload_def py_str_def value_path_def py_int_def path_of_text)

lemma canonical_opt_json [simp]: "canonical_json (opt_json v) = opt_json v"
  by (simp add: opt_json_def split: option.split)

lemma py_str_JStr [simp]: "py_str (JStr x) = x"
  by (simp add: py_str_def)

text \<open>
  C37. What a capture records can be restored: the payload that is stored with the checkpoint of a
  captured directory (and read back from its JSON text with ordered keys) is accepted by the reader
  of the recovery handler and of the cleanup, and gives back the record: the two paths, both
  identities and the token.
\<close>

theorem captured_directory_roundtrip:
  assumes "path_wf (cd_original_path r)" and "path_wf (cd_quarantine_path r)"
    and "cd_ownership_class r = ''captured_by_transaction''" and "cd_capture_token r = Some token"
  shows "captured_directory_record_from_payload (canonical_json (captured_directory_payload r key cleanup)) = Inr r"
proof -
  let ?v = "canonical_json (captured_directory_payload r key cleanup)"
  have own: "jget ?v ''path'' = JStr (path_text (cd_original_path r))"
    "jget ?v ''step_resource_key'' = JStr key" "jget ?v ''ownership_class'' = JStr ''captured_by_transaction''"
    using assms(3) by (simp_all add: captured_directory_payload_def del: canonical_json.simps)
  let ?c = "jget ?v ''captured_directory''"
  have nested: "is_mapping ?c" "jget ?c ''original_path'' = JStr (path_text (cd_original_path r))"
    "jget ?c ''quarantine_path'' = JStr (path_text (cd_quarantine_path r))"
    "jget ?c ''ownership_class'' = JStr ''captured_by_transaction''" "jget ?c ''capture_token'' = JStr token"
    "jget ?c ''original_identity'' = canonical_json (identity_payload (cd_original_path r) key
       (di_device (cd_original_identity r)) (di_inode (cd_original_identity r)))"
    "jget ?c ''captured_identity'' = canonical_json (identity_payload (cd_quarantine_path r) key
       (di_device (cd_captured_identity r)) (di_inode (cd_captured_identity r)))"
    using assms(3,4)
    by (simp_all add: captured_directory_payload_def del: canonical_json.simps) (simp_all add: opt_json_def)
  have maps: "is_mapping (canonical_json (identity_payload p key d i))" for p d i
    by (simp del: canonical_json.simps add: identity_payload_def [THEN arg_cong [where f = is_mapping]])
  show ?thesis
    using assms
    by (simp add: captured_directory_record_from_payload_def own nested(1-5) maps value_path_def path_of_text optional_str_def
        Let_def nested(6,7) identity_payload_read del: canonical_json.simps jget_canonical is_mapping_canonical)
qed

definition sample_capture :: captured_directory where
  "sample_capture = \<lparr>cd_original_path = path_of ''/w/d'', cd_quarantine_path = path_of ''/q/d.1'',
     cd_original_identity = \<lparr>di_device = 1, di_inode = 7\<rparr>, cd_captured_identity = \<lparr>di_device = 1, di_inode = 7\<rparr>,
     cd_ownership_class = ''captured_by_transaction'', cd_capture_token = Some ''t0''\<rparr>"

theorem captured_directory_roundtrip_witness:
  "captured_directory_record_from_payload (canonical_json (captured_directory_payload sample_capture ''dir:/w/d'' ''automatic''))
     = Inr sample_capture"
proof -
  have "path_wf (cd_original_path sample_capture)" "path_wf (cd_quarantine_path sample_capture)" by code_simp+
  then show ?thesis by (rule captured_directory_roundtrip) (simp_all add: sample_capture_def)
qed

end
