(* ===== verification/Tree_Artifacts.thy ===== *)
theory Tree_Artifacts
  imports Backup_Artifacts Mkdir_Planning
begin

section \<open>The stored contents of tree backups, their removal, and the plans to restore a tree\<close>

text \<open>
  The part of \<open>operation_journal/tree_backup_recovery.py\<close> that plans: the restore of a tree after a
  failed operation, and the removal of the stored contents that an unfinished backup of a tree left.
  Contents are stored under their SHA-256 digest; before a content is removed its path, the
  directories above it and its digest are checked. The parameters are those of \<open>Backup_Artifacts\<close>.
\<close>

subsection \<open>Contents and where they are stored\<close>

record content_ref =
  cf_digest :: string
  cf_size :: int
  cf_path :: path

definition is_lower_hex :: "char \<Rightarrow> bool" where
  "is_lower_hex c \<longleftrightarrow> is_digit c \<or> c \<in> set ''abcdef''"

text \<open>\<open>ContentRef.__post_init__\<close>.\<close>

definition make_content_ref :: "string \<Rightarrow> int \<Rightarrow> path \<Rightarrow> error + content_ref" where
  "make_content_ref digest n p =
     (if length digest \<noteq> 64 \<or> \<not> list_all is_lower_hex digest then Inl ValueError
      else if n < 0 then Inl ValueError
      else Inr \<lparr>cf_digest = digest, cf_size = n, cf_path = p\<rparr>)"

definition strict_int :: "json \<Rightarrow> error + int" where
  "strict_int v = (case v of
      JBool _ \<Rightarrow> Inl ValueError
    | JInt n \<Rightarrow> Inr n
    | JStr s \<Rightarrow> from_option ValueError (parse_int s)
    | _ \<Rightarrow> Inl ValueError)"

definition content_ref_from_payload :: "json \<Rightarrow> error + content_ref" where
  "content_ref_from_payload payload =
     (if \<not> jhas payload ''digest'' \<or> \<not> jhas payload ''size'' then Inl KeyError
      else res_bind (strict_int (jget payload ''size'')) (\<lambda>n.
        if \<not> jhas payload ''path'' then Inl KeyError
        else make_content_ref (py_str (jget payload ''digest'')) n (value_path (jget payload ''path''))))"

definition content_ref_path :: "path \<Rightarrow> string \<Rightarrow> path" where
  "content_ref_path store digest = under (under (under store ''sha256'') (take 2 digest)) digest"

definition default_tree_backup_store_path :: "path \<Rightarrow> path" where
  "default_tree_backup_store_path state_path =
     under (under (under (path_parent state_path) (path_name state_path @ ''.artifacts'')) ''tree-backups'') ''cas''"

definition store_path_from_payload :: "json \<Rightarrow> path option" where
  "store_path_from_payload payload =
     (let nested = jget payload ''backup''
      in if jget payload ''store_path'' \<noteq> JNull then Some (value_path (jget payload ''store_path''))
         else if is_mapping nested \<and> jget nested ''store_path'' \<noteq> JNull
         then Some (value_path (jget nested ''store_path'')) else None)"

subsection \<open>Candidates for removal\<close>

record tree_candidate =
  tc_artifact_id :: string
  tc_batch_id :: string
  tc_checkpoint_id :: string
  tc_resource_key :: string
  tc_store_path :: path
  tc_content_path :: path
  tc_digest :: string
  tc_size :: int
  tc_debt :: "(string \<times> string) option"

definition tree_candidate_of :: "checkpoint_record \<Rightarrow> string \<Rightarrow> path \<Rightarrow> path \<Rightarrow> string \<Rightarrow> int \<Rightarrow> (string \<times> string) option \<Rightarrow> tree_candidate" where
  "tree_candidate_of c aid store content digest n debt =
     \<lparr>tc_artifact_id = aid, tc_batch_id = checkpoint_batch_id c, tc_checkpoint_id = checkpoint_id c,
      tc_resource_key = checkpoint_resource_key c, tc_store_path = store, tc_content_path = content,
      tc_digest = digest, tc_size = n, tc_debt = debt\<rparr>"

text \<open>\<open>describe\<close> is \<open>str\<close> of the exception that the reader of the reference raised.\<close>

definition tree_backup_artifact_candidate_from_payload ::
  "'w artifact_access \<Rightarrow> (error \<Rightarrow> string) \<Rightarrow> checkpoint_record \<Rightarrow> path \<Rightarrow> json \<Rightarrow> tree_candidate" where
  "tree_backup_artifact_candidate_from_payload X describe c store v =
     (let unnamed = ''checkpoint:'' @ checkpoint_id c @ '':'' @ nat_text (length (py_str v));
          malformed = (\<lambda>detail. tree_candidate_of c unnamed store store '''' 0
            (Some (''malformed_tree_backup_artifact_checkpoint'', detail)))
      in if \<not> is_mapping v then malformed ''tree backup content reference is not a mapping''
         else case content_ref_from_payload v of
           Inl e \<Rightarrow> malformed (describe e)
         | Inr r \<Rightarrow> tree_candidate_of c
             (path_text (normalized_path X (content_ref_path store (cf_digest r)))) store (cf_path r) (cf_digest r) (cf_size r) None)"

definition checkpoint_tree_candidates ::
  "'w artifact_access \<Rightarrow> (error \<Rightarrow> string) \<Rightarrow> checkpoint_record \<Rightarrow> tree_candidate list" where
  "checkpoint_tree_candidates X describe c =
     (let payload = checkpoint_payload c
      in case (store_path_from_payload payload, jget payload ''content_refs'') of
        (Some store, JArr refs) \<Rightarrow> map (tree_backup_artifact_candidate_from_payload X describe c store) refs
      | (store, _) \<Rightarrow>
          let debt_path = (case store of Some p \<Rightarrow> p
                | None \<Rightarrow> if jhas payload ''store_path'' then value_path (jget payload ''store_path'') else path_of ''.'')
          in [tree_candidate_of c (''checkpoint:'' @ checkpoint_id c) debt_path debt_path '''' 0
               (Some (''malformed_tree_backup_artifact_checkpoint'',
                ''tree backup partial artifact checkpoint is missing store_path or content_refs''))])"

fun first_tree_candidates :: "string list \<Rightarrow> tree_candidate list \<Rightarrow> tree_candidate list" where
  "first_tree_candidates seen [] = []"
| "first_tree_candidates seen (a # as) =
     (if tc_artifact_id a \<in> set seen then first_tree_candidates seen as
      else a # first_tree_candidates (tc_artifact_id a # seen) as)"

definition plan_tree_backup_artifact_cleanup_candidates ::
  "'w artifact_access \<Rightarrow> (error \<Rightarrow> string) \<Rightarrow> checkpoint_record list \<Rightarrow> tree_candidate list" where
  "plan_tree_backup_artifact_cleanup_candidates X describe checkpoints =
     (let completed = map checkpoint_batch_id (filter (\<lambda>c. checkpoint_type c = ''tree_backup'') checkpoints);
          partial = filter (\<lambda>c. checkpoint_type c = ''tree_backup_partial_artifacts''
                      \<and> checkpoint_batch_id c \<notin> set completed) checkpoints
      in first_tree_candidates [] (concat (map (checkpoint_tree_candidates X describe) partial)))"

subsection \<open>Removing one content\<close>

text \<open>The outcome: status, reason and detail.\<close>

definition tree_artifact_missing :: "tree_candidate \<Rightarrow> string \<times> string option \<times> string option" where
  "tree_artifact_missing a = (''skipped'', Some ''artifact_missing'',
     Some (''tree backup artifact already missing at '' @ path_text (tc_content_path a)))"

definition hash_content :: "'w artifact_access \<Rightarrow> path \<Rightarrow> ('w, string \<times> int) program" where
  "hash_content X p = bind (world_call (aa_read X p)) (\<lambda>c. ret (aa_sha256 X c, int (length c)))"

definition verify_tree_candidate ::
  "surroundings \<Rightarrow> 'w artifact_access \<Rightarrow> tree_candidate \<Rightarrow> ('w, (string \<times> string option \<times> string option) option) program" where
  "verify_tree_candidate S X a =
     attempt
       (bind (hash_content X (tc_content_path a)) (\<lambda>(digest, n).
        ret (if digest \<noteq> tc_digest a \<or> n \<noteq> tc_size a
             then Some (''manual_intervention_required'', Some ''tree_backup_artifact_content_mismatch'',
                    Some (''tree backup artifact content changed at '' @ path_text (tc_content_path a)))
             else None)))
       (\<lambda>e. if e = Raised FileNotFoundError then Some (ret (Some (tree_artifact_missing a)))
            else if e \<in> os_errors
            then Some (ret (Some (''manual_intervention_required'', Some ''tree_backup_artifact_verification_failed'',
                   Some (failure_text S e))))
            else None)"

definition tree_symlink_detail :: "surroundings \<Rightarrow> 'w artifact_access \<Rightarrow> path \<Rightarrow> ('w, string option) program" where
  "tree_symlink_detail S X q =
     attempt
       (bind (world_call (aa_is_symlink X q)) (\<lambda>link.
        ret (if link then Some (''refusing to remove tree backup artifact beneath symlinked path '' @ path_text q) else None)))
       (\<lambda>e. if e \<in> os_errors
            then Some (ret (Some (''refusing to inspect tree backup artifact path '' @ path_text q @ '': '' @ failure_text S e)))
            else None)"

fun first_tree_symlink :: "surroundings \<Rightarrow> 'w artifact_access \<Rightarrow> path list \<Rightarrow> ('w, string option) program" where
  "first_tree_symlink S X [] = ret None"
| "first_tree_symlink S X (q # qs) =
     bind (tree_symlink_detail S X q) (\<lambda>found. case found of Some d \<Rightarrow> ret (Some d) | None \<Rightarrow> first_tree_symlink S X qs)"

definition tree_symlink_violation ::
  "surroundings \<Rightarrow> 'w artifact_access \<Rightarrow> path \<Rightarrow> path \<Rightarrow> ('w, string option) program" where
  "tree_symlink_violation S X p root =
     (let np = normalized_path X p; nroot = normalized_path X root
      in if \<not> is_relative_to np nroot
         then ret (Some (''refusing to remove tree backup artifact outside '' @ path_text root))
         else first_tree_symlink S X (path_chain nroot np))"

definition delete_verified_content ::
  "surroundings \<Rightarrow> 'w artifact_access \<Rightarrow> tree_candidate \<Rightarrow> ('w, (string \<times> string option \<times> string option) option) program" where
  "delete_verified_content S X a =
     bind (world_call (aa_delete_checks X (tc_content_path a))) (\<lambda>_.
     bind (verify_tree_candidate S X a) (\<lambda>changed.
     case changed of
       Some outcome \<Rightarrow> ret (Some outcome)
     | None \<Rightarrow> bind (world_call (aa_unlink X (tc_content_path a))) (\<lambda>_. ret None)))"

definition delete_tree_content ::
  "surroundings \<Rightarrow> 'w artifact_access \<Rightarrow> (path \<Rightarrow> 'w \<Rightarrow> (failure + unit) \<times> 'w) option \<Rightarrow> tree_candidate
    \<Rightarrow> ('w, string \<times> string option \<times> string option) program" where
  "delete_tree_content S X delete_operation a =
     attempt
       (bind (case delete_operation of
            None \<Rightarrow> delete_verified_content S X a
          | Some delete \<Rightarrow> bind (world_call (delete (tc_content_path a))) (\<lambda>_. ret None)) (\<lambda>changed.
        ret (case changed of Some outcome \<Rightarrow> outcome | None \<Rightarrow> (''succeeded'', None, None))))
       (\<lambda>e. if e = Raised FileNotFoundError then Some (ret (tree_artifact_missing a))
            else if e \<in> os_errors
            then Some (ret (''failed'', Some ''artifact_cleanup_failed'', Some (failure_text S e)))
            else None)"

definition execute_tree_backup_artifact_cleanup_candidate ::
  "surroundings \<Rightarrow> 'w artifact_access \<Rightarrow> (path \<Rightarrow> 'w \<Rightarrow> (failure + unit) \<times> 'w) option
    \<Rightarrow> ('w, unit) program option \<Rightarrow> tree_candidate \<Rightarrow> ('w, string \<times> string option \<times> string option) program" where
  "execute_tree_backup_artifact_cleanup_candidate S X delete_operation before_delete a =
     (case tc_debt a of
        Some (code, detail) \<Rightarrow> ret (''manual_intervention_required'', Some code, Some detail)
      | None \<Rightarrow>
          let expected = content_ref_path (tc_store_path a) (tc_digest a);
              unsafe = (\<lambda>detail. ret (''manual_intervention_required'', Some ''unsafe_tree_backup_artifact_path'', Some detail))
          in if normalized_path X (tc_content_path a) \<noteq> normalized_path X expected
             then unsafe (''refusing to remove tree backup artifact '' @ path_text (tc_content_path a)
                    @ ''; expected '' @ path_text expected)
             else bind (tree_symlink_violation S X (tc_content_path a) (tc_store_path a)) (\<lambda>violation.
               case violation of
                 Some detail \<Rightarrow> unsafe detail
               | None \<Rightarrow> bind (verify_tree_candidate S X a) (\<lambda>verification.
                   case verification of
                     Some outcome \<Rightarrow> ret outcome
                   | None \<Rightarrow> (case before_delete of
                         None \<Rightarrow> delete_tree_content S X delete_operation a
                       | Some before \<Rightarrow> bind before (\<lambda>_. bind (verify_tree_candidate S X a) (\<lambda>again.
                           case again of
                             Some outcome \<Rightarrow> ret outcome
                           | None \<Rightarrow> delete_tree_content S X delete_operation a))))))"

subsection \<open>Plans for the restore of a tree\<close>

text \<open>Python's \<open>or\<close>: the first value that is not false, else the last.\<close>

definition truthy :: "json \<Rightarrow> bool" where
  "truthy v \<longleftrightarrow> v \<notin> {JNull, JBool False, JInt 0, JStr [], JArr [], JObj []}"

definition tree_backup_root_from_payload :: "json \<Rightarrow> path option" where
  "tree_backup_root_from_payload payload =
     (let nested = jget payload ''backup''; source = (if is_mapping nested then nested else payload);
          root = (if truthy (jget source ''root'') then jget source ''root''
            else if truthy (jget source ''root_path'') then jget source ''root_path''
            else if truthy (jget source ''path'') then jget source ''path'' else jget source ''source_path'')
      in if root = JNull then None else Some (value_path root))"

definition require_tree_backup_payload_resource_key :: "path_env \<Rightarrow> json \<Rightarrow> string \<Rightarrow> error + path" where
  "require_tree_backup_payload_resource_key E payload key =
     res_bind (from_option ValueError (tree_backup_root_from_payload payload)) (\<lambda>root.
     if tree_resource_key E root \<noteq> key then Inl ValueError else Inr root)"

definition tree_intervention_plan :: "string \<Rightarrow> string \<Rightarrow> string \<Rightarrow> string \<Rightarrow> (string \<times> json) list \<Rightarrow> action_plan" where
  "tree_intervention_plan aid key code detail payload =
     \<lparr>plan_action_id = aid, plan_action_type = ''manual_intervention_required'', plan_resource_key = Some key,
      plan_payload = JObj ((''reason_code'', JStr code) # (''detail'', JStr detail) # payload)\<rparr>"

definition missing_tree_restore_proof_plans :: "recovery_context \<Rightarrow> string \<Rightarrow> action_plan list" where
  "missing_tree_restore_proof_plans context key =
     (let payload = br_payload (rc_batch context)
      in if \<not> is_mapping payload \<or> jget payload ''operation'' \<noteq> JStr ''restore_tree_backup'' then []
         else [tree_intervention_plan
           (''restore-tree-backup-manual:'' @ br_batch_id (rc_batch context) @ '':'' @ key) key
           ''missing_tree_restore_rollback_proof'' ''restore_tree_backup has no durable per-entry rollback proof''
           [(''operation'', JStr ''restore_tree_backup''), (''batch_id'', JStr (br_batch_id (rc_batch context))),
            (''resource_key'', JStr key), (''destination_root'', JStr (py_str (jget payload ''destination_root''))),
            (''store_path'', JStr (py_str (jget payload ''store_path'')))]])"

definition tree_backup_recovery_action_plans ::
  "path_env \<Rightarrow> (error \<Rightarrow> string) \<Rightarrow> recovery_context \<Rightarrow> action_plan list" where
  "tree_backup_recovery_action_plans E describe context =
     (if is_mapping (br_payload (rc_batch context))
         \<and> jget (br_payload (rc_batch context)) ''operation'' = JStr ''backup_tree'' then []
      else case br_resource_key (rc_batch context) of
        None \<Rightarrow> []
      | Some key \<Rightarrow>
          (case find (\<lambda>c. checkpoint_type c = ''tree_backup'' \<and> checkpoint_resource_key c = key)
                  (rev (rc_checkpoints context)) of
             None \<Rightarrow> missing_tree_restore_proof_plans context key
           | Some c \<Rightarrow>
               let payload = checkpoint_payload c
               in case require_tree_backup_payload_resource_key E payload key of
                    Inl e \<Rightarrow> [tree_intervention_plan
                      (''tree-backup-root-mismatch:'' @ br_batch_id (rc_batch context) @ '':'' @ key) key
                      ''tree_backup_resource_mismatch'' (describe e)
                      [(''operation'', JStr ''restore_tree_backup''), (''batch_id'', JStr (br_batch_id (rc_batch context))),
                       (''resource_key'', JStr key), (''checkpoint_id'', JStr (checkpoint_id c)), (''backup'', payload)]]
                  | Inr root \<Rightarrow> [\<lparr>plan_action_id = ''restore-tree-backup:self:'' @ key,
                      plan_action_type = ''restore_tree_backup'', plan_resource_key = Some key,
                      plan_payload = JObj ([(''backup'', payload), (''allow_overwrite'', JBool False),
                        (''destination_root'', JStr (path_text root))]
                        @ (case store_path_from_payload payload of None \<Rightarrow> []
                           | Some p \<Rightarrow> [(''store_path'', JStr (path_text p))]))\<rparr>]))"

end
