(* ===== verification/Transaction_State.thy ===== *)
theory Transaction_State
  imports Captured_Directories Tree_Artifacts Store_Relations
begin

section \<open>Transactions on a workspace\<close>

text \<open>
  \<open>SafeTransaction\<close> of \<open>workspace_transaction.py\<close> with \<open>workspace_transaction_state.py\<close> and the
  cleanup of \<open>workspace_transaction_bookkeeping.py\<close>: a transaction holds the workspace lease and a
  claim on each of its resources from its start to its end. Its attributes are part of the world
  of the programs here, beside the files; the programs of the coordinator run on the files alone.
  The lock of the object is not modelled: a transaction is used by one thread.
\<close>

text \<open>The fields of \<open>SafeWorkspace\<close> that a transaction reads: \<open>ws_captures\<close> are the calls for captured
  directories, \<open>ws_path_inspector\<close> inspects a path, \<open>ws_delete_operation\<close> is the injected removal of a stored content, \<open>ws_dumps\<close> is \<open>json.dumps\<close> of a value with
  ordered keys, \<open>ws_set_order\<close> the order in which a set of strings is iterated.\<close>

record 'w workspace =
  ws_owner :: string
  ws_lease_name :: string
  ws_lease_ttl :: int
  ws_coordinator :: "'w coordinator"
  ws_handling :: "'w handling"
  ws_captures :: "'w capture_calls"
  ws_path_inspector :: "'w \<Rightarrow> path \<Rightarrow> path_safety"
  ws_delete_operation :: "(path \<Rightarrow> 'w \<Rightarrow> (failure + unit) \<times> 'w) option"
  ws_dumps :: "json \<Rightarrow> string"
  ws_set_order :: "string list \<Rightarrow> string list"

text \<open>The arguments of \<open>SafeTransaction\<close>, with its instance id; \<open>tx_cleanup_clock\<close> tells whether a
  clock for the cleanup is given.\<close>

record transaction_spec =
  tx_name :: string
  tx_resources :: "(string \<times> resource_handle) list"
  tx_run_id :: string
  tx_rollback :: string
  tx_now :: "time option"
  tx_cleanup_clock :: bool
  tx_instance_id :: string

text \<open>Its other attributes; \<open>ts_heartbeat\<close> tells whether the thread of the heartbeat runs.\<close>

record transaction_state =
  ts_lease :: "lease_record option"
  ts_heartbeat :: "bool option"
  ts_cleanup_error :: "failure option"
  ts_entered :: bool
  ts_closed :: bool
  ts_operation_index :: int
  ts_claims :: "string \<rightharpoonup> claim_record"
  ts_claim_release_order :: "string list"
  ts_operation_run :: "operation_run_record option"
  ts_operation_phase :: "operation_phase_record option"
  ts_touched_runs :: "string list"
  ts_touched_phases :: "string list"

definition new_transaction :: transaction_state where
  "new_transaction = \<lparr>ts_lease = None, ts_heartbeat = None, ts_cleanup_error = None, ts_entered = False,
     ts_closed = False, ts_operation_index = 0, ts_claims = Map.empty, ts_claim_release_order = [],
     ts_operation_run = None, ts_operation_phase = None, ts_touched_runs = [], ts_touched_phases = []\<rparr>"

record 'w transaction_world =
  tw_state :: transaction_state
  tw_files :: 'w

type_synonym ('w, 'a) tx_program = "('w transaction_world, 'a) program"

definition get_state :: "('w, transaction_state) tx_program" where
  "get_state s = (Inr (tw_state (run_world s)), s)"

definition modify :: "(transaction_state \<Rightarrow> transaction_state) \<Rightarrow> ('w, unit) tx_program" where
  "modify f s = (Inr (), s\<lparr>run_world := run_world s\<lparr>tw_state := f (tw_state (run_world s))\<rparr>\<rparr>)"

text \<open>A program of the coordinator, on the files alone.\<close>

definition files_state :: "'w transaction_world run_state \<Rightarrow> 'w run_state" where
  "files_state s = \<lparr>run_db = run_db s, run_world = tw_files (run_world s), run_tick = run_tick s\<rparr>"

definition files :: "('w, 'a) program \<Rightarrow> ('w, 'a) tx_program" where
  "files m s = (let (r, t) = m (files_state s)
     in (r, \<lparr>run_db = run_db t, run_world = (run_world s)\<lparr>tw_files := run_world t\<rparr>, run_tick = run_tick t\<rparr>))"

subsection \<open>The claims of a transaction\<close>

definition claim_scope_of :: "transaction_spec \<Rightarrow> string" where
  "claim_scope_of X = ''transaction-instance:'' @ tx_instance_id X"

definition remember_claim :: "claim_record \<Rightarrow> transaction_state \<Rightarrow> transaction_state" where
  "remember_claim c t =
     (let key = claim_resource_key c
      in t\<lparr>ts_claims := (ts_claims t)(key \<mapsto> c),
           ts_claim_release_order := (if key \<in> set (ts_claim_release_order t) then ts_claim_release_order t
                                      else ts_claim_release_order t @ [key])\<rparr>)"

definition forget_claim :: "string \<Rightarrow> transaction_state \<Rightarrow> transaction_state" where
  "forget_claim key t =
     t\<lparr>ts_claims := (ts_claims t)(key := None), ts_claim_release_order := remove1 key (ts_claim_release_order t)\<rparr>"

fun resource_kind_text :: "resource_kind \<Rightarrow> string" where
  "resource_kind_text FILE = ''file''"
| "resource_kind_text DIRECTORY = ''directory''"
| "resource_kind_text TREE = ''tree''"
| "resource_kind_text CUSTOM = ''custom''"

definition claim_details_text :: "'w workspace \<Rightarrow> string \<Rightarrow> string \<Rightarrow> lease_record \<Rightarrow> string \<Rightarrow> string" where
  "claim_details_text W kind run_id lease claim_id =
     ws_dumps W (canonical_json (lease_claim_details_payload (co_digest (ws_coordinator W)) lease claim_id
       (Some [(''resource_kind'', JStr kind), (''run_id'', JStr run_id)])))"

text \<open>\<open>now=self.now\<close>: the given time, or the clock.\<close>

definition given_time :: "surroundings \<Rightarrow> time option \<Rightarrow> ('w, time) program" where
  "given_time S now = (case now of Some t \<Rightarrow> ret t | None \<Rightarrow> clock_time S)"

definition claim_resource_key_for ::
  "surroundings \<Rightarrow> 'w workspace \<Rightarrow> transaction_spec \<Rightarrow> lease_record \<Rightarrow> string \<Rightarrow> string \<Rightarrow> time option
    \<Rightarrow> ('w, claim_record) tx_program" where
  "claim_resource_key_for S W X lease key kind now =
     bind (given_time S now) (\<lambda>t.
     bind (transact S (\<lambda>ids db. upsert_claim key lease (ws_owner W) (Some (claim_scope_of X))
       (Some (claim_details_text W kind (tx_run_id X) lease (ids 0))) t db)) (\<lambda>claim.
     bind (modify (remember_claim claim)) (\<lambda>_.
     ret claim)))"

subsection \<open>The heartbeat of the lease\<close>

definition start_lease_heartbeat ::
  "surroundings \<Rightarrow> 'w workspace \<Rightarrow> transaction_spec \<Rightarrow> lease_record \<Rightarrow> ('w, unit) tx_program" where
  "start_lease_heartbeat S W X lease =
     bind (modify (\<lambda>t. t\<lparr>ts_heartbeat := Some False\<rparr>)) (\<lambda>_.
     if tx_now X \<noteq> None \<or> ws_lease_ttl W \<le> 0 then ret ()
     else bind (clock_time S) (\<lambda>now.
          bind (transact S (\<lambda>_ db. heartbeat_once lease (ws_lease_ttl W) now db)) (\<lambda>_.
          modify (\<lambda>t. t\<lparr>ts_heartbeat := Some True\<rparr>))))"

definition stop_lease_heartbeat :: "surroundings \<Rightarrow> ('w, unit) tx_program" where
  "stop_lease_heartbeat S =
     bind get_state (\<lambda>t.
     bind (modify (\<lambda>t. t\<lparr>ts_heartbeat := None\<rparr>)) (\<lambda>_.
     if ts_heartbeat t = Some True then raise_if_failed S else ret ()))"

subsection \<open>The end of a transaction\<close>

definition release_claim_call ::
  "surroundings \<Rightarrow> 'w workspace \<Rightarrow> transaction_spec \<Rightarrow> lease_record \<Rightarrow> time \<Rightarrow> string \<Rightarrow> claim_record
    \<Rightarrow> ('w, bool) tx_program" where
  "release_claim_call S W X lease now key expected =
     attempt
       (transact S (\<lambda>_ db. release_claim key lease (ws_owner W) (Some (claim_scope_of X)) (Some expected) now db))
       (\<lambda>e. if e = Raised LeaseLostError then Some
          (transact S (\<lambda>_ db. release_if_owner_scope_matches (co_digest (ws_coordinator W)) (co_loads (ws_coordinator W))
             key lease (ws_owner W) (Some (claim_scope_of X)) (Some expected) now db)) else None)"

definition release_claim_at ::
  "surroundings \<Rightarrow> 'w workspace \<Rightarrow> transaction_spec \<Rightarrow> lease_record \<Rightarrow> time \<Rightarrow> bool \<Rightarrow> string \<Rightarrow> ('w, unit) tx_program" where
  "release_claim_at S W X lease now tolerate_missing key =
     bind get_state (\<lambda>t.
     case ts_claims t key of
       None \<Rightarrow> ret ()
     | Some expected \<Rightarrow>
         bind (release_claim_call S W X lease now key expected) (\<lambda>released.
         if released then modify (forget_claim key)
         else bind (if tolerate_missing then read S (\<lambda>db. Inr (get_claim key db = None)) else ret False) (\<lambda>gone.
           if gone then modify (forget_claim key) else raise (Raised ClaimReleaseError))))"

definition release_claims_at ::
  "surroundings \<Rightarrow> 'w workspace \<Rightarrow> transaction_spec \<Rightarrow> time \<Rightarrow> bool \<Rightarrow> ('w, unit) tx_program" where
  "release_claims_at S W X now tolerate_missing =
     bind get_state (\<lambda>t.
     case ts_lease t of
       None \<Rightarrow> ret ()
     | Some lease \<Rightarrow>
         bind (each (release_claim_at S W X lease now tolerate_missing) (rev (ts_claim_release_order t))) (\<lambda>_. ret ()))"

definition release_lease :: "surroundings \<Rightarrow> lease_record \<Rightarrow> time \<Rightarrow> ('w, bool) program" where
  "release_lease S lease now = transact S (\<lambda>ids db. release lease (ids 0) now db)"

text \<open>\<open>try: ... except ... as exc\<close> with the exception as a value.\<close>

definition catching :: "(failure \<Rightarrow> bool) \<Rightarrow> ('w, 'a) program \<Rightarrow> ('w, failure + 'a) program" where
  "catching P m = attempt (bind m (\<lambda>x. ret (Inr x))) (\<lambda>e. if P e then Some (ret (Inl e)) else None)"

definition workspace_error :: failure where
  "workspace_error = Raised SafeWorkspaceError"

definition claim_release_failure :: "failure \<Rightarrow> bool" where
  "claim_release_failure e \<longleftrightarrow> e \<in> Raised ` ({LeaseLostError, ClaimReleaseError} \<union> range ClaimConflictError)"

definition drop_lease :: "('w, unit) tx_program" where
  "drop_lease = modify (\<lambda>t. t\<lparr>ts_lease := None\<rparr>)"

definition cleanup_transaction ::
  "surroundings \<Rightarrow> 'w workspace \<Rightarrow> transaction_spec \<Rightarrow> ('w, failure option) tx_program" where
  "cleanup_transaction S W X =
     bind get_state (\<lambda>t.
     case ts_lease t of
       None \<Rightarrow> ret None
     | Some lease \<Rightarrow>
         bind (clock_time S) (\<lambda>now.
         bind (catching (\<lambda>e. e = Raised LeaseLostError) (stop_lease_heartbeat S)) (\<lambda>stopped.
         case stopped of
           Inl _ \<Rightarrow> bind drop_lease (\<lambda>_. ret (Some workspace_error))
         | Inr _ \<Rightarrow>
             bind (catching claim_release_failure (release_claims_at S W X now True)) (\<lambda>released.
             case released of
               Inl e \<Rightarrow>
                 bind (if e = Raised LeaseLostError then ret False else release_lease S lease now) (\<lambda>_.
                 bind drop_lease (\<lambda>_. ret (Some workspace_error)))
             | Inr _ \<Rightarrow>
                 bind (release_lease S lease now) (\<lambda>ended.
                 bind drop_lease (\<lambda>_. ret (if ended then None else Some workspace_error)))))))"

text \<open>The claims stay for the recovery; only the runtime state ends.\<close>

definition abandon_transaction_for_recovery :: "surroundings \<Rightarrow> ('w, failure option) tx_program" where
  "abandon_transaction_for_recovery S =
     bind get_state (\<lambda>t.
     case ts_lease t of
       None \<Rightarrow> ret None
     | Some _ \<Rightarrow>
         bind (catching (\<lambda>e. e = Raised LeaseLostError) (stop_lease_heartbeat S)) (\<lambda>stopped.
         bind drop_lease (\<lambda>_.
         ret (case stopped of Inl _ \<Rightarrow> Some workspace_error | Inr _ \<Rightarrow> None))))"

subsection \<open>The start of a transaction\<close>

definition claim_resources ::
  "surroundings \<Rightarrow> 'w workspace \<Rightarrow> transaction_spec \<Rightarrow> lease_record \<Rightarrow> ('w, unit) tx_program" where
  "claim_resources S W X lease =
     bind (each (\<lambda>r. claim_resource_key_for S W X lease (rh_resource_key r) (resource_kind_text (rh_kind r)) (tx_now X))
       (sorted_resources (tx_resources X))) (\<lambda>_. ret ())"

definition entry_failure :: "surroundings \<Rightarrow> 'w workspace \<Rightarrow> transaction_spec \<Rightarrow> failure \<Rightarrow> ('w, unit) tx_program" where
  "entry_failure S W X e =
     bind (cleanup_transaction S W X) (\<lambda>cleanup_error.
     bind (modify (\<lambda>t. t\<lparr>ts_cleanup_error := cleanup_error, ts_lease := None\<rparr>)) (\<lambda>_.
     raise (case e of Raised (ClaimConflictError _) \<Rightarrow> Raised SafeWorkspaceBusyError | _ \<Rightarrow> e)))"

definition enter_transaction ::
  "surroundings \<Rightarrow> 'w workspace \<Rightarrow> transaction_spec \<Rightarrow> ('w, unit) tx_program" where
  "enter_transaction S W X =
     (if tx_rollback X \<notin> {''record-only'', ''automatic''} then raise (Raised ValueError)
      else if tx_name X = [] then raise (Raised ValueError)
      else
      bind get_state (\<lambda>t.
      if ts_closed t then raise workspace_error
      else if ts_entered t then raise workspace_error
      else
      bind (given_time S (tx_now X)) (\<lambda>now.
      bind (transact S (\<lambda>ids db. acquire (ws_lease_name W) (ws_owner W) (ws_lease_ttl W) None (ids 0) now db)) (\<lambda>lease.
      if \<not> lease_acquired lease then raise (Raised SafeWorkspaceBusyError)
      else
      bind (modify (\<lambda>t. t\<lparr>ts_lease := Some lease\<rparr>)) (\<lambda>_.
      bind (start_lease_heartbeat S W X lease) (\<lambda>_.
      bind (modify (\<lambda>t. t\<lparr>ts_cleanup_error := None\<rparr>)) (\<lambda>_.
      bind (attempt (claim_resources S W X lease) (\<lambda>e. Some (entry_failure S W X e))) (\<lambda>_.
      modify (\<lambda>t. t\<lparr>ts_entered := True\<rparr>)))))))))"

end
