(* ===== verification/Transaction_Operations.thy ===== *)
theory Transaction_Operations
  imports Transaction_State Directory_Creation
begin

section \<open>The operations of a transaction\<close>

text \<open>
  The methods of \<open>SafeTransaction\<close> (\<open>workspace_transaction.py\<close>) with the checks of
  \<open>workspace_transaction_utils.py\<close>, the links to operation runs and phases of
  \<open>workspace_transaction_bookkeeping.py\<close> and the creation of a directory with its missing parents
  of \<open>workspace_recursive_mkdir.py\<close>. Each operation checks that the transaction is active and owns
  the resource and then calls the coordinator with the transaction's lease, scope and key.
\<close>

subsection \<open>The resource that is given\<close>

text \<open>
  Resources are compared by identity in the code: a member of the transaction's set is named by its
  key in the set, any other object is foreign, whatever its fields are.
\<close>

datatype given_resource =
    Member string
  | Foreign resource_handle

definition given_handle :: "transaction_spec \<Rightarrow> given_resource \<Rightarrow> resource_handle option" where
  "given_handle X r = (case r of Member name \<Rightarrow> map_of (tx_resources X) name | Foreign h \<Rightarrow> Some h)"

definition contains_resource :: "transaction_spec \<Rightarrow> given_resource \<Rightarrow> bool" where
  "contains_resource X r \<longleftrightarrow> (case r of Member name \<Rightarrow> map_of (tx_resources X) name \<noteq> None | Foreign _ \<Rightarrow> False)"

definition require_claimed_resource :: "transaction_spec \<Rightarrow> given_resource \<Rightarrow> error + resource_handle" where
  "require_claimed_resource X r =
     (case given_handle X r of
        None \<Rightarrow> Inl KeyError
      | Some h \<Rightarrow> if contains_resource X r then Inr h else Inl ResourceNotClaimedError)"

definition require_kind_resource ::
  "resource_kind \<Rightarrow> transaction_spec \<Rightarrow> given_resource \<Rightarrow> error + resource_handle" where
  "require_kind_resource kind X r =
     (case given_handle X r of
        None \<Rightarrow> Inl KeyError
      | Some h \<Rightarrow> if rh_kind h \<noteq> kind then Inl TypeError else require_claimed_resource X r)"

definition require_path :: "resource_handle \<Rightarrow> error + path" where
  "require_path h = from_option ValueError (rh_path h)"

text \<open>\<open>assert resource.path is not None\<close>.\<close>

definition asserted_path :: "resource_handle \<Rightarrow> ('w, path) tx_program" where
  "asserted_path h = (case rh_path h of None \<Rightarrow> raise (OtherFailure ''AssertionError'') | Some p \<Rightarrow> ret p)"

definition next_idempotency_key :: "transaction_spec \<Rightarrow> string \<Rightarrow> resource_handle \<Rightarrow> int \<Rightarrow> int \<times> string" where
  "next_idempotency_key X operation h index =
     (let next_index = index + 1; label = str_or (rh_label h) (rh_resource_key h)
      in (next_index, tx_name X @ '':'' @ tx_run_id X @ '':'' @ int_text next_index @ '':'' @ operation @ '':'' @ label))"

subsection \<open>Guards\<close>

definition require_entered :: "('w, unit) tx_program" where
  "require_entered =
     bind get_state (\<lambda>t. if \<not> ts_entered t \<or> ts_lease t = None then raise workspace_error else ret ())"

definition transaction_lease :: "('w, lease_record) tx_program" where
  "transaction_lease =
     bind get_state (\<lambda>t. case ts_lease t of None \<Rightarrow> raise workspace_error | Some lease \<Rightarrow> ret lease)"

definition idempotency_key_or_next ::
  "transaction_spec \<Rightarrow> string option \<Rightarrow> string \<Rightarrow> resource_handle \<Rightarrow> ('w, string) tx_program" where
  "idempotency_key_or_next X key operation h =
     (if str_or key [] \<noteq> [] then ret (str_or key [])
      else bind get_state (\<lambda>t.
        let (index, next_key) = next_idempotency_key X operation h (ts_operation_index t)
        in bind (modify (\<lambda>t. t\<lparr>ts_operation_index := index\<rparr>)) (\<lambda>_. ret next_key)))"

subsection \<open>Links to operation runs and phases\<close>

definition add_touched :: "string option \<Rightarrow> string list \<Rightarrow> string list" where
  "add_touched v ids = (case v of None \<Rightarrow> ids | Some i \<Rightarrow> if i \<in> set ids then ids else ids @ [i])"

definition remember_touched_operation_links :: "string option \<Rightarrow> string option \<Rightarrow> transaction_state \<Rightarrow> transaction_state" where
  "remember_touched_operation_links run phase t =
     t\<lparr>ts_touched_runs := add_touched run (ts_touched_runs t),
       ts_touched_phases := add_touched phase (ts_touched_phases t)\<rparr>"

definition check_run_link ::
  "'w workspace \<Rightarrow> transaction_spec \<Rightarrow> lease_record \<Rightarrow> operation_run_record option \<Rightarrow> error + unit" where
  "check_run_link W X lease run =
     res_bind (from_option ValueError run) (\<lambda>r.
     res_bind (require (run_run_id r = tx_run_id X) ValueError) (\<lambda>_.
     res_bind (require (run_owner r = ws_owner W) ValueError) (\<lambda>_.
     res_bind (require_active_operation_link_status (run_status r)) (\<lambda>_.
     res_bind (require (run_lease_name r = lease_name lease) ValueError) (\<lambda>_.
     require (run_lease_fencing_token r = lease_fencing_token lease) ValueError)))))"

definition check_phase_link :: "string \<Rightarrow> operation_phase_record option \<Rightarrow> error + unit" where
  "check_phase_link run phase =
     res_bind (from_option ValueError phase) (\<lambda>p.
     res_bind (require (phase_operation_run_id p = run) ValueError) (\<lambda>_.
     require_active_operation_link_status (phase_status p)))"

definition validate_explicit_operation_links ::
  "surroundings \<Rightarrow> 'w workspace \<Rightarrow> transaction_spec \<Rightarrow> string option \<Rightarrow> string option \<Rightarrow> ('w, unit) tx_program" where
  "validate_explicit_operation_links S W X run phase =
     (case run of
        None \<Rightarrow> if phase \<noteq> None then raise (Raised ValueError) else ret ()
      | Some i \<Rightarrow>
          bind (read S (\<lambda>db. Inr (get_operation_run i db))) (\<lambda>found.
          bind transaction_lease (\<lambda>lease.
          bind (lift (check_run_link W X lease found)) (\<lambda>_.
          case phase of
            None \<Rightarrow> ret ()
          | Some p \<Rightarrow>
              bind (read S (\<lambda>db. Inr (get_operation_phase p db))) (\<lambda>found_phase.
              lift (check_phase_link i found_phase))))))"

definition first_time :: "time option \<Rightarrow> time option \<Rightarrow> time option" where
  "first_time now fallback = (if now = None then fallback else now)"

definition ensure_implicit_operation_phase ::
  "surroundings \<Rightarrow> 'w workspace \<Rightarrow> transaction_spec \<Rightarrow> time option
    \<Rightarrow> ('w, operation_run_record \<times> operation_phase_record) tx_program" where
  "ensure_implicit_operation_phase S W X now =
     bind require_entered (\<lambda>_.
     bind transaction_lease (\<lambda>lease.
     bind get_state (\<lambda>t.
     bind (case ts_operation_run t of
         Some run \<Rightarrow> ret run
       | None \<Rightarrow>
           bind (given_time S (first_time now (tx_now X))) (\<lambda>time.
           bind (transact S (\<lambda>ids db. create_operation_run (tx_run_id X) lease (ws_owner W) ''active''
             (Some (JObj [(''name'', JStr (tx_name X)), (''rollback'', JStr (tx_rollback X)),
                (''api'', JStr ''transaction'')])) None (ids 0) time db)) (\<lambda>run.
           bind (modify (\<lambda>t. t\<lparr>ts_operation_run := Some run\<rparr>)) (\<lambda>_. ret run)))) (\<lambda>run.
     bind (case ts_operation_phase t of
         Some phase \<Rightarrow> ret phase
       | None \<Rightarrow>
           bind (given_time S (first_time now (tx_now X))) (\<lambda>time.
           bind (transact S (\<lambda>ids db. create_operation_phase (run_operation_run_id run) lease ''transaction'' ''active'' 1
             (Some (JObj [(''implicit'', JBool True), (''rollback'', JStr (tx_rollback X))])) None (ids 0) time db)) (\<lambda>phase.
           bind (modify (\<lambda>t. t\<lparr>ts_operation_phase := Some phase\<rparr>)) (\<lambda>_. ret phase)))) (\<lambda>phase.
     ret (run, phase))))))"

type_synonym links = "string option \<times> string option"

definition resolve_operation_links ::
  "surroundings \<Rightarrow> 'w workspace \<Rightarrow> transaction_spec \<Rightarrow> links \<Rightarrow> time option \<Rightarrow> bool \<Rightarrow> ('w, links) tx_program" where
  "resolve_operation_links S W X given now create_implicit =
     (let remembered = (\<lambda>l. bind (modify (remember_touched_operation_links (fst l) (snd l))) (\<lambda>_. ret l))
      in bind require_entered (\<lambda>_.
         if given \<noteq> (None, None)
         then bind (validate_explicit_operation_links S W X (fst given) (snd given)) (\<lambda>_. remembered given)
         else if create_implicit
         then bind (ensure_implicit_operation_phase S W X now) (\<lambda>(run, phase).
           remembered (Some (run_operation_run_id run), Some (phase_operation_phase_id phase)))
         else bind get_state (\<lambda>t.
           case (ts_operation_run t, ts_operation_phase t) of
             (Some run, Some phase) \<Rightarrow>
               remembered (Some (run_operation_run_id run), Some (phase_operation_phase_id phase))
           | _ \<Rightarrow> ret (None, None))))"

subsection \<open>Calls of the coordinator\<close>

text \<open>The keyword arguments that every operation takes.\<close>

record call_options =
  cl_idempotency_key :: "string option"
  cl_links :: links
  cl_now :: "time option"

definition transaction_request ::
  "'w workspace \<Rightarrow> transaction_spec \<Rightarrow> lease_record \<Rightarrow> string \<Rightarrow> string \<Rightarrow> links \<Rightarrow> request" where
  "transaction_request W X lease key idempotency_key l =
     \<lparr>rq_resource_key = key, rq_lease = lease, rq_owner = ws_owner W, rq_run_id = tx_run_id X,
      rq_idempotency_key = idempotency_key, rq_operation_run_id = fst l, rq_operation_phase_id = snd l,
      rq_claim_scope = Some (claim_scope_of X)\<rparr>"

definition with_now :: "surroundings \<Rightarrow> time option \<Rightarrow> surroundings" where
  "with_now S now = S\<lparr>set_now := now\<rparr>"

text \<open>The part that the operations share: the call gets the surroundings with its time and the request.\<close>

definition run_operation ::
  "surroundings \<Rightarrow> 'w workspace \<Rightarrow> transaction_spec \<Rightarrow> call_options \<Rightarrow> string \<Rightarrow> resource_handle
    \<Rightarrow> (surroundings \<Rightarrow> request \<Rightarrow> ('w, mutation_result) program) \<Rightarrow> ('w, mutation_result) tx_program" where
  "run_operation S W X opt name h call =
     bind (resolve_operation_links S W X (cl_links opt) None False) (\<lambda>l.
     bind transaction_lease (\<lambda>lease.
     bind (idempotency_key_or_next X (cl_idempotency_key opt) name h) (\<lambda>key.
     files (call (with_now S (first_time (cl_now opt) (tx_now X)))
       (transaction_request W X lease (rh_resource_key h) key l)))))"

definition transaction_write_text ::
  "surroundings \<Rightarrow> 'w workspace \<Rightarrow> transaction_spec \<Rightarrow> call_options \<Rightarrow> given_resource \<Rightarrow> string \<Rightarrow> string \<Rightarrow> string option
    \<Rightarrow> ('w, mutation_result) tx_program" where
  "transaction_write_text S W X opt r content encoding newline =
     bind require_entered (\<lambda>_.
     bind (lift (require_kind_resource FILE X r)) (\<lambda>h.
     bind (asserted_path h) (\<lambda>p.
     run_operation S W X opt ''write_text'' h (\<lambda>S' rq.
       write_text_file S' (ws_coordinator W) rq p content encoding newline))))"

definition transaction_write_bytes ::
  "surroundings \<Rightarrow> 'w workspace \<Rightarrow> transaction_spec \<Rightarrow> call_options \<Rightarrow> given_resource \<Rightarrow> bytes \<Rightarrow> int option
    \<Rightarrow> int option \<Rightarrow> bool option \<Rightarrow> ('w, mutation_result) tx_program" where
  "transaction_write_bytes S W X opt r content permissions max_bytes allow_large =
     bind require_entered (\<lambda>_.
     bind (lift (require_kind_resource FILE X r)) (\<lambda>h.
     bind (asserted_path h) (\<lambda>p.
     run_operation S W X opt ''write_bytes'' h (\<lambda>S' rq.
       write_bytes_file S' (ws_coordinator W) rq p content permissions max_bytes allow_large))))"

definition transaction_delete_file ::
  "surroundings \<Rightarrow> 'w workspace \<Rightarrow> transaction_spec \<Rightarrow> call_options \<Rightarrow> given_resource \<Rightarrow> bool
    \<Rightarrow> ('w, mutation_result) tx_program" where
  "transaction_delete_file S W X opt r missing_ok =
     bind require_entered (\<lambda>_.
     bind (lift (require_kind_resource FILE X r)) (\<lambda>h.
     bind (asserted_path h) (\<lambda>p.
     run_operation S W X opt ''delete_file'' h (\<lambda>S' rq.
       delete_file S' (ws_coordinator W) rq p missing_ok))))"

text \<open>The snapshots are taken from the files before the coordinator records them.\<close>

definition transaction_snapshot_bundle ::
  "surroundings \<Rightarrow> 'w workspace \<Rightarrow> transaction_spec \<Rightarrow> call_options \<Rightarrow> given_resource \<Rightarrow> path list option
    \<Rightarrow> (path list \<Rightarrow> 'w \<Rightarrow> (failure + path_snapshots) \<times> 'w) \<Rightarrow> ('w, mutation_result) tx_program" where
  "transaction_snapshot_bundle S W X opt r paths take_snapshots =
     bind require_entered (\<lambda>_.
     bind (lift (require_claimed_resource X r)) (\<lambda>h.
     bind (lift (case paths of Some ps \<Rightarrow> Inr ps | None \<Rightarrow> res_bind (require_path h) (\<lambda>p. Inr [p]))) (\<lambda>ps.
     bind (resolve_operation_links S W X (cl_links opt) None False) (\<lambda>l.
     bind (files (world_call (take_snapshots ps))) (\<lambda>bundle.
     bind transaction_lease (\<lambda>lease.
     bind (idempotency_key_or_next X (cl_idempotency_key opt) ''snapshot_bundle'' h) (\<lambda>key.
     files (snapshot_bundle (with_now S (first_time (cl_now opt) (tx_now X))) (ws_coordinator W)
       (transaction_request W X lease (rh_resource_key h) key l) bundle))))))))"

definition transaction_rename_no_replace ::
  "surroundings \<Rightarrow> 'w workspace \<Rightarrow> transaction_spec \<Rightarrow> call_options \<Rightarrow> given_resource \<Rightarrow> given_resource
    \<Rightarrow> ('w, mutation_result) tx_program" where
  "transaction_rename_no_replace S W X opt source destination =
     bind require_entered (\<lambda>_.
     bind (lift (require_claimed_resource X source)) (\<lambda>h.
     bind (lift (require_claimed_resource X destination)) (\<lambda>h'.
     bind (lift (require_path h)) (\<lambda>p.
     bind (lift (require_path h')) (\<lambda>p'.
     run_operation S W X opt ''rename_no_replace'' h (\<lambda>S' rq.
       rename_no_replace S' (ws_coordinator W) rq p p' (rh_resource_key h')))))))"

subsection \<open>Further claims\<close>

definition claim_directory_resource ::
  "surroundings \<Rightarrow> 'w workspace \<Rightarrow> transaction_spec \<Rightarrow> string \<Rightarrow> time option \<Rightarrow> ('w, claim_record) tx_program" where
  "claim_directory_resource S W X key now =
     bind require_entered (\<lambda>_.
     bind get_state (\<lambda>t.
     case ts_claims t key of
       Some claim \<Rightarrow> ret claim
     | None \<Rightarrow> bind transaction_lease (\<lambda>lease.
         claim_resource_key_for S W X lease key ''directory'' (first_time now (tx_now X)))))"

definition transaction_capture_directory ::
  "surroundings \<Rightarrow> 'w workspace \<Rightarrow> transaction_spec \<Rightarrow> call_options \<Rightarrow> given_resource \<Rightarrow> path
    \<Rightarrow> ('w, mutation_result) tx_program" where
  "transaction_capture_directory S W X opt r quarantine_path =
     bind require_entered (\<lambda>_.
     bind (lift (require_kind_resource DIRECTORY X r)) (\<lambda>h.
     bind (asserted_path h) (\<lambda>p.
     bind (resolve_operation_links S W X (cl_links opt) None False) (\<lambda>l.
     if co_captured_directory_cleanup (ws_coordinator W) \<notin> {''automatic'', ''retain''} then raise (Raised ValueError)
     else
     let quarantine_key = rh_resource_key (directory_resource (aa_env (co_artifacts (ws_coordinator W))) quarantine_path None None)
     in bind (claim_directory_resource S W X quarantine_key (cl_now opt)) (\<lambda>_.
     bind transaction_lease (\<lambda>lease.
     bind (idempotency_key_or_next X (cl_idempotency_key opt) ''capture_directory'' h) (\<lambda>key.
     files (capture_directory (with_now S (first_time (cl_now opt) (tx_now X))) (ws_coordinator W)
       (transaction_request W X lease (rh_resource_key h) key l) p quarantine_path (Some quarantine_key)))))))))"

end
