(* ===== verification/Artifact_Removal.thy ===== *)
theory Artifact_Removal
  imports Transaction_State
begin

section \<open>Removing the artifacts of finished batches\<close>

text \<open>
  The second half of \<open>workspace_rollback.py\<close>: when a batch has been committed or recovered, the
  backups, captured directories and stored contents that it left are removed one by one. Each
  removal is planned in the journal before it is tried and its result is recorded after it, under
  the lease of the transaction or one acquired for the purpose; what cannot be removed is a debt.
\<close>

subsection \<open>Candidates of the three kinds\<close>

datatype artifact =
    Backup_artifact artifact_candidate
  | Captured_artifact captured_candidate
  | Tree_artifact tree_candidate

fun artifact_id :: "artifact \<Rightarrow> string" where
  "artifact_id (Backup_artifact a) = ac_artifact_id a"
| "artifact_id (Captured_artifact a) = ca_artifact_id a"
| "artifact_id (Tree_artifact a) = tc_artifact_id a"

fun artifact_checkpoint :: "artifact \<Rightarrow> string" where
  "artifact_checkpoint (Backup_artifact a) = ac_checkpoint_id a"
| "artifact_checkpoint (Captured_artifact a) = ca_checkpoint_id a"
| "artifact_checkpoint (Tree_artifact a) = tc_checkpoint_id a"

fun artifact_resource_key :: "artifact \<Rightarrow> string" where
  "artifact_resource_key (Backup_artifact a) = ac_resource_key a"
| "artifact_resource_key (Captured_artifact a) = ca_resource_key a"
| "artifact_resource_key (Tree_artifact a) = tc_resource_key a"

text \<open>Reason and detail of the debt.\<close>

fun artifact_debt :: "artifact \<Rightarrow> (string \<times> string) option" where
  "artifact_debt (Backup_artifact a) = map_option (\<lambda>d. (debt_reason_code d, debt_detail d)) (ac_debt a)"
| "artifact_debt (Captured_artifact a) = ca_debt a"
| "artifact_debt (Tree_artifact a) = tc_debt a"

fun artifact_entries :: "artifact \<Rightarrow> entries" where
  "artifact_entries (Backup_artifact a) =
     [(''artifact_type'', JStr ''backup_file''), (''content_path'', JStr (path_text (ac_content_path a)))]
     @ (case ac_expected_content_path a of None \<Rightarrow> [] | Some p \<Rightarrow> [(''expected_content_path'', JStr (path_text p))])"
| "artifact_entries (Captured_artifact a) =
     [(''artifact_type'', JStr ''captured_directory''), (''quarantine_path'', JStr (path_text (ca_quarantine_path a)))]
     @ (case ca_captured_directory_cleanup a of None \<Rightarrow> [] | Some v \<Rightarrow> [(''captured_directory_cleanup'', JStr v)])
     @ (case ca_record a of None \<Rightarrow> [] | Some r \<Rightarrow>
          [(''original_path'', JStr (path_text (cd_original_path r))),
           (''captured_identity'', JObj [(''device'', JInt (di_device (cd_captured_identity r))),
              (''inode'', JInt (di_inode (cd_captured_identity r)))])])"
| "artifact_entries (Tree_artifact a) =
     [(''artifact_type'', JStr ''tree_backup_object''), (''content_path'', JStr (path_text (tc_content_path a))),
      (''store_path'', JStr (path_text (tc_store_path a))), (''digest'', JStr (tc_digest a)), (''size'', JInt (tc_size a))]"

definition artifact_cleanup_payload :: "artifact \<Rightarrow> entries" where
  "artifact_cleanup_payload a =
     (''checkpoint_id'', JStr (artifact_checkpoint a)) # artifact_entries a
     @ (case artifact_debt a of None \<Rightarrow> []
        | Some (code, detail) \<Rightarrow> [(''detail'', JStr detail), (''reason_code'', JStr code)])"

subsection \<open>The journal of a removal\<close>

definition journal_cleanup_planned ::
  "surroundings \<Rightarrow> string \<Rightarrow> lease_record \<Rightarrow> string \<Rightarrow> string \<Rightarrow> string \<Rightarrow> entries \<Rightarrow> ('w, unit) program" where
  "journal_cleanup_planned S b lease aid trigger key payload =
     bind (clock_time S) (\<lambda>now.
     bind (transact S (\<lambda>ids db. record_artifact_cleanup_planned b lease aid trigger (Some key)
        (Some (JObj payload)) None (ids 0) now db)) (\<lambda>_. ret ()))"

definition journal_cleanup_marked ::
  "surroundings \<Rightarrow> cleanup_status \<Rightarrow> string \<Rightarrow> lease_record \<Rightarrow> string \<Rightarrow> string option \<Rightarrow> entries \<Rightarrow> ('w, unit) program" where
  "journal_cleanup_marked S status b lease aid reason payload =
     bind (clock_time S) (\<lambda>now.
     bind (transact S (\<lambda>ids db. mark_artifact_cleanup status b lease aid reason
        (Some (JObj payload)) None (ids 0) now db)) (\<lambda>_. ret ()))"

definition artifact_cleanup_records_for_candidate ::
  "surroundings \<Rightarrow> string \<Rightarrow> artifact \<Rightarrow> ('w, artifact_cleanup_record list) program" where
  "artifact_cleanup_records_for_candidate S b a =
     bind (read S (\<lambda>db. Inr (list_artifact_cleanup_records b (Some (artifact_id a)) db))) (\<lambda>own.
     if own \<noteq> [] then ret own
     else bind (read S (\<lambda>db. Inr (list_artifact_cleanup_records b None db))) (\<lambda>all_records.
       case find (\<lambda>r. jget (cleanup_payload r) ''checkpoint_id'' = JStr (artifact_checkpoint a)) all_records of
         None \<Rightarrow> ret []
       | Some r \<Rightarrow> read S (\<lambda>db. Inr (list_artifact_cleanup_records b (Some (cleanup_artifact_id r)) db))))"

text \<open>The artifact id, whether the attempt is still to be marked, and whether there is one at all.\<close>

type_synonym prepared_attempt = "string \<times> bool \<times> bool"

definition allows_legacy_backfill :: "operation_batch_record \<Rightarrow> string \<Rightarrow> bool" where
  "allows_legacy_backfill batch trigger \<longleftrightarrow>
     (if trigger = ''commit_cleanup'' then br_phase batch = SUCCEEDED
      else trigger = ''recovery_cleanup'' \<and> br_phase batch = RECOVERY_SUCCEEDED)"

definition captured_directory_cleanup_policy ::
  "'w workspace \<Rightarrow> operation_batch_record \<Rightarrow> captured_candidate \<Rightarrow> string" where
  "captured_directory_cleanup_policy W batch a =
     (case ca_captured_directory_cleanup a of
        Some policy \<Rightarrow> policy
      | None \<Rightarrow> (case jget (br_payload batch) ''captured_directory_cleanup'' of
            JStr policy \<Rightarrow> if policy \<in> {''automatic'', ''retain''} then policy
              else co_captured_directory_cleanup (ws_coordinator W)
          | _ \<Rightarrow> co_captured_directory_cleanup (ws_coordinator W)))"

definition record_retained_captured_directory_cleanup ::
  "surroundings \<Rightarrow> operation_batch_record \<Rightarrow> lease_record \<Rightarrow> artifact \<Rightarrow> string \<Rightarrow> ('w, prepared_attempt) program" where
  "record_retained_captured_directory_cleanup S batch lease a trigger =
     (let payload = artifact_cleanup_payload a; b = br_batch_id batch
      in bind (journal_cleanup_planned S b lease (artifact_id a) trigger (artifact_resource_key a) payload) (\<lambda>_.
         bind (journal_cleanup_marked S CLEANUP_SKIPPED b lease (artifact_id a) (Some ''captured_directory_retained'')
           (assoc_set ''reason_code'' (JStr ''captured_directory_retained'') payload)) (\<lambda>_.
         ret (artifact_id a, False, False))))"

definition backfill_legacy_artifact_cleanup_plan ::
  "surroundings \<Rightarrow> operation_batch_record \<Rightarrow> lease_record \<Rightarrow> artifact \<Rightarrow> string \<Rightarrow> ('w, prepared_attempt) program" where
  "backfill_legacy_artifact_cleanup_plan S batch lease a trigger =
     (if \<not> allows_legacy_backfill batch trigger then raise (Raised SafeWorkspaceError)
      else bind (journal_cleanup_planned S (br_batch_id batch) lease (artifact_id a) trigger
          (artifact_resource_key a) (artifact_cleanup_payload a)) (\<lambda>_.
        ret (artifact_id a, True, True)))"

definition cleanup_triggers :: "string set" where
  "cleanup_triggers = {''deferred_cleanup'', ''commit_cleanup'', ''recovery_cleanup''}"

definition prepare_artifact_cleanup_attempt ::
  "surroundings \<Rightarrow> 'w workspace \<Rightarrow> operation_batch_record \<Rightarrow> lease_record \<Rightarrow> artifact \<Rightarrow> string
    \<Rightarrow> ('w, prepared_attempt) program" where
  "prepare_artifact_cleanup_attempt S W batch lease a trigger =
     bind (artifact_cleanup_records_for_candidate S (br_batch_id batch) a) (\<lambda>records.
     if records = [] then
       (case a of
          Captured_artifact c \<Rightarrow>
            if captured_directory_cleanup_policy W batch c = ''retain''
            then record_retained_captured_directory_cleanup S batch lease a trigger
            else backfill_legacy_artifact_cleanup_plan S batch lease a trigger
        | _ \<Rightarrow> backfill_legacy_artifact_cleanup_plan S batch lease a trigger)
     else
     let latest = last records; aid = cleanup_artifact_id latest;
         mismatch = cleanup_resource_key latest \<noteq> Some (artifact_resource_key a)
           \<or> cleanup_trigger latest \<notin> cleanup_triggers
     in if cleanup_status latest = CLEANUP_PLANNED then ret (aid, True, True)
        else if cleanup_status latest \<in> {CLEANUP_FAILED, CLEANUP_MANUAL_INTERVENTION_REQUIRED}
        then bind (journal_cleanup_planned S (br_batch_id batch) lease aid trigger
               (artifact_resource_key a) (artifact_cleanup_payload a)) (\<lambda>_. ret (aid, True, True))
        else if mismatch then raise (Raised SafeWorkspaceError)
        else ret (aid, False, cleanup_status latest \<notin> {CLEANUP_SUCCEEDED, CLEANUP_SKIPPED}))"

subsection \<open>One removal\<close>

fun removal_reason :: "artifact \<Rightarrow> string" where
  "removal_reason (Backup_artifact a) = ''deleting backup artifact''"
| "removal_reason (Captured_artifact a) = ''deleting captured directory artifact''"
| "removal_reason (Tree_artifact a) = ''deleting tree backup artifact''"

fun execute_artifact_cleanup ::
  "surroundings \<Rightarrow> 'w workspace \<Rightarrow> ('w, unit) program option \<Rightarrow> artifact \<Rightarrow> ('w, cleanup_outcome) program" where
  "execute_artifact_cleanup S W before (Backup_artifact a) =
     bind (execute_backup_artifact_cleanup_candidate S (co_artifacts (ws_coordinator W)) (co_state_path (ws_coordinator W))
       (ws_delete_operation W) before a) (\<lambda>r.
     ret (cr_status r, cr_reason_code r, cr_detail r))"
| "execute_artifact_cleanup S W before (Captured_artifact a) =
     execute_captured_directory_cleanup_candidate S (\<lambda>r. world_call (cc_cleanup (ws_captures W) r)) before a"
| "execute_artifact_cleanup S W before (Tree_artifact a) =
     execute_tree_backup_artifact_cleanup_candidate S (co_artifacts (ws_coordinator W)) (ws_delete_operation W) before a"

definition record_artifact_cleanup_terminal_result ::
  "surroundings \<Rightarrow> string \<Rightarrow> lease_record \<Rightarrow> string \<Rightarrow> entries \<Rightarrow> cleanup_outcome \<Rightarrow> ('w, unit) program" where
  "record_artifact_cleanup_terminal_result S b lease aid candidate_payload outcome =
     (case outcome of (status, reason, detail) \<Rightarrow>
        let p0 = assoc_set ''status'' (JStr status) candidate_payload;
            p1 = (case reason of None \<Rightarrow> p0 | Some v \<Rightarrow> assoc_set ''reason_code'' (JStr v) p0);
            payload = (case detail of None \<Rightarrow> p1 | Some v \<Rightarrow> assoc_set ''detail'' (JStr v) p1)
        in if status = ''succeeded'' then journal_cleanup_marked S CLEANUP_SUCCEEDED b lease aid None payload
           else if status = ''skipped'' then journal_cleanup_marked S CLEANUP_SKIPPED b lease aid reason payload
           else if status = ''failed'' then journal_cleanup_marked S CLEANUP_FAILED b lease aid reason payload
           else journal_cleanup_marked S CLEANUP_MANUAL_INTERVENTION_REQUIRED b lease aid reason payload)"

text \<open>\<open>True\<close>: a debt is left.\<close>

definition remove_artifact ::
  "surroundings \<Rightarrow> 'w workspace \<Rightarrow> lease_record \<Rightarrow> string \<Rightarrow> operation_batch_record \<Rightarrow> artifact \<Rightarrow> ('w, bool) program" where
  "remove_artifact S W lease trigger batch a =
     bind (prepare_artifact_cleanup_attempt S W batch lease a trigger) (\<lambda>(aid, should_mark, should_execute).
     if \<not> should_execute then ret False
     else bind (maintain_lease S lease (execute_artifact_cleanup S W
           (if should_mark then Some (journal_cleanup_marked S CLEANUP_ATTEMPTING (br_batch_id batch) lease aid
              (Some (removal_reason a)) (artifact_cleanup_payload a)) else None) a)) (\<lambda>outcome.
       bind (record_artifact_cleanup_terminal_result S (br_batch_id batch) lease aid (artifact_cleanup_payload a) outcome) (\<lambda>_.
       ret (fst outcome \<in> {''failed'', ''manual_intervention_required''}))))"

subsection \<open>All artifacts of some batches\<close>

definition is_legacy_capture :: "checkpoint_record \<Rightarrow> bool" where
  "is_legacy_capture c \<longleftrightarrow> checkpoint_type c = ''captured_directory''
     \<and> is_mapping (jget (checkpoint_payload c) ''captured_directory'')
     \<and> jget (jget (checkpoint_payload c) ''captured_directory'') ''capture_token'' = JNull"

definition remove_batch_artifacts ::
  "surroundings \<Rightarrow> 'w workspace \<Rightarrow> lease_record \<Rightarrow> string \<Rightarrow> operation_batch_record \<Rightarrow> ('w, bool list) program" where
  "remove_batch_artifacts S W lease trigger batch =
     (let C = ws_coordinator W; remove = remove_artifact S W lease trigger batch
      in bind (read S (\<lambda>db. Inr (list_checkpoints (br_batch_id batch) db))) (\<lambda>checkpoints.
         if checkpoints = [] then ret []
         else
         bind (each (\<lambda>a. remove (Backup_artifact a))
           (plan_backup_artifact_cleanup_candidates (co_artifacts C) (co_state_path C) checkpoints)) (\<lambda>backups.
         bind (if list_ex is_legacy_capture checkpoints
               then bind (read S (read_recovery_context py_str (br_batch_id batch))) (\<lambda>context. ret (Some context))
               else ret None) (\<lambda>legacy.
         bind (lift (plan_captured_directory_cleanup_candidates S (ws_captures W) legacy checkpoints)) (\<lambda>candidates.
         bind (each (\<lambda>a. remove (Captured_artifact a)) candidates) (\<lambda>directories.
         bind (each (\<lambda>a. remove (Tree_artifact a))
           (plan_tree_backup_artifact_cleanup_candidates (co_artifacts C) (\<lambda>e. failure_text S (Raised e)) checkpoints)) (\<lambda>trees.
         ret (backups @ directories @ trees))))))))"

text \<open>\<open>try: ... finally: ...\<close>.\<close>

definition finally_do :: "('w, 'a) program \<Rightarrow> ('w, unit) program \<Rightarrow> ('w, 'a) program" where
  "finally_do m fin = bind (attempt m (\<lambda>e. Some (bind fin (\<lambda>_. raise e)))) (\<lambda>x. bind fin (\<lambda>_. ret x))"

text \<open>\<open>pinned\<close>: one reading of the clock for the check, the acquisition and the release.\<close>

definition artifact_cleanup_lease ::
  "surroundings \<Rightarrow> 'w workspace \<Rightarrow> bool \<Rightarrow> lease_record option \<Rightarrow> (lease_record \<Rightarrow> ('w, 'a) program) \<Rightarrow> ('w, 'a) program" where
  "artifact_cleanup_lease S W pinned existing body =
     bind (clock_time S) (\<lambda>t0.
     let time = (if pinned then ret t0 else clock_time S)
     in bind (case existing of
            None \<Rightarrow> ret None
          | Some lease \<Rightarrow> bind time (\<lambda>now. bind (read S (\<lambda>db. Inr (lease_is_current db lease now))) (\<lambda>current.
              ret (if current then Some lease else None)))) (\<lambda>usable.
        case usable of
          Some lease \<Rightarrow> body lease
        | None \<Rightarrow>
            bind time (\<lambda>now.
            bind (transact S (\<lambda>ids db. acquire (ws_lease_name W) (ws_owner W) (ws_lease_ttl W) None (ids 0) now db)) (\<lambda>lease.
            if \<not> lease_acquired lease then raise workspace_error
            else finally_do (body lease) (bind time (\<lambda>now. bind (release_lease S lease now) (\<lambda>_. ret ())))))))"

definition cleanup_artifacts_for_batches ::
  "surroundings \<Rightarrow> 'w workspace \<Rightarrow> bool \<Rightarrow> lease_record option \<Rightarrow> string \<Rightarrow> operation_batch_record list
    \<Rightarrow> ('w, failure option) program" where
  "cleanup_artifacts_for_batches S W pinned existing trigger batches =
     bind (artifact_cleanup_lease S W pinned existing (\<lambda>lease. each (remove_batch_artifacts S W lease trigger) batches)) (\<lambda>debts.
     ret (if True \<in> set (concat debts) then Some workspace_error else None))"

end
