(* ===== verification/Transaction_Rollback.thy ===== *)
theory Transaction_Rollback
  imports Artifact_Removal
begin

section \<open>The rollback of a transaction\<close>

text \<open>
  The first half of \<open>workspace_rollback.py\<close>: which batches a failed transaction has to recover, in
  which order, which of them can be recovered without a human, and the two loops that recover
  them. The lease is the one that the transaction holds; \<open>now\<close> is the time that the end of the
  transaction took once.
\<close>

subsection \<open>Batches of a transaction\<close>

definition belongs_to_transaction_instance :: "'w workspace \<Rightarrow> transaction_spec \<Rightarrow> operation_batch_record \<Rightarrow> bool" where
  "belongs_to_transaction_instance W X batch \<longleftrightarrow> br_run_id batch = tx_run_id X \<and> br_owner batch = ws_owner W
     \<and> br_claim_owner batch = Some (ws_owner W) \<and> br_claim_scope batch = Some (claim_scope_of X)"

definition is_read_only_batch :: "operation_batch_record \<Rightarrow> bool" where
  "is_read_only_batch batch \<longleftrightarrow> is_mapping (br_payload batch)
     \<and> (jget (br_payload batch) ''operation'' = JStr ''snapshot_bundle''
        \<or> jget (br_payload batch) ''operation'' = JStr ''backup_tree'' \<and> br_phase batch = SUCCEEDED)"

definition newest_first :: "operation_batch_record list \<Rightarrow> operation_batch_record list" where
  "newest_first batches = rev (sort_key (\<lambda>b. (br_storage_order b, br_created_at b, br_batch_id b)) (rev batches))"

definition automatic_rollback_payload :: "transaction_spec \<Rightarrow> operation_batch_record \<Rightarrow> json" where
  "automatic_rollback_payload X batch = JObj [(''automatic_transaction_rollback'', JObj
     [(''claim_scope'', JStr (claim_scope_of X)), (''run_id'', JStr (tx_run_id X)),
      (''batch_id'', JStr (br_batch_id batch))])]"

definition updated_batch :: "surroundings \<Rightarrow> operation_batch_record \<Rightarrow> ('w, operation_batch_record) program" where
  "updated_batch S batch =
     bind (read S (\<lambda>db. Inr (get_batch (br_batch_id batch) db))) (\<lambda>found.
     case found of None \<Rightarrow> raise workspace_error | Some u \<Rightarrow> ret u)"

definition mark_batch_recovery_desired ::
  "surroundings \<Rightarrow> 'w workspace \<Rightarrow> transaction_spec \<Rightarrow> lease_record \<Rightarrow> time \<Rightarrow> operation_batch_record
    \<Rightarrow> ('w, operation_batch_record) program" where
  "mark_batch_recovery_desired S W X lease now batch =
     bind (transact S (\<lambda>ids db. record_recovery_desired (co_digest (ws_coordinator W)) (br_batch_id batch) lease
       (Some ''automatic transaction rollback'') (Some (automatic_rollback_payload X batch)) None (ids 0) (ids 1) now db)) (\<lambda>_.
     updated_batch S batch)"

definition mark_batch_interrupted_recovery_desired ::
  "surroundings \<Rightarrow> 'w workspace \<Rightarrow> transaction_spec \<Rightarrow> lease_record \<Rightarrow> time \<Rightarrow> operation_batch_record
    \<Rightarrow> ('w, operation_batch_record) program" where
  "mark_batch_interrupted_recovery_desired S W X lease now batch =
     bind (transact S (\<lambda>ids db. record_interrupted_recovery_desired (co_digest (ws_coordinator W)) (br_batch_id batch) lease
       (br_resource_key batch) (Some ''automatic transaction rollback found interrupted batch'')
       (Some (automatic_rollback_payload X batch)) None (ids 0) now db)) (\<lambda>_.
     updated_batch S batch)"

definition eligible_recovery_batch ::
  "surroundings \<Rightarrow> 'w workspace \<Rightarrow> transaction_spec \<Rightarrow> lease_record \<Rightarrow> time \<Rightarrow> operation_batch_record
    \<Rightarrow> ('w, operation_batch_record option) program" where
  "eligible_recovery_batch S W X lease now batch =
     (let desired = bind (mark_batch_recovery_desired S W X lease now batch) (\<lambda>u. ret (Some u))
      in if \<not> belongs_to_transaction_instance W X batch then ret None
         else if is_read_only_batch batch then ret None
         else if br_phase batch = RECOVERY_DESIRED then ret (Some batch)
         else if br_phase batch = RECOVERY_FAILED then desired
         else if br_phase batch = ATTEMPTING
         then bind (mark_batch_interrupted_recovery_desired S W X lease now batch) (\<lambda>u. ret (Some u))
         else if br_phase batch = FAILED then desired
         else if br_phase batch = SUCCEEDED then desired
         else ret None)"

definition found_batches :: "operation_batch_record option list \<Rightarrow> operation_batch_record list" where
  "found_batches xs = newest_first (map the (filter (\<lambda>x. x \<noteq> None) xs))"

definition eligible_recovery_batches ::
  "surroundings \<Rightarrow> 'w workspace \<Rightarrow> transaction_spec \<Rightarrow> lease_record \<Rightarrow> time \<Rightarrow> ('w, operation_batch_record list) program" where
  "eligible_recovery_batches S W X lease now =
     bind (read S (\<lambda>db. Inr (list_batches (Some (tx_run_id X)) None db))) (\<lambda>candidates.
     bind (each (eligible_recovery_batch S W X lease now) candidates) (\<lambda>found.
     ret (found_batches found)))"

definition pending_recovery_batch ::
  "surroundings \<Rightarrow> 'w workspace \<Rightarrow> transaction_spec \<Rightarrow> lease_record \<Rightarrow> time \<Rightarrow> operation_batch_record
    \<Rightarrow> ('w, operation_batch_record option) program" where
  "pending_recovery_batch S W X lease now batch =
     (if \<not> belongs_to_transaction_instance W X batch then ret None
      else if is_read_only_batch batch then ret None
      else if br_phase batch = RECOVERY_DESIRED then ret (Some batch)
      else if br_phase batch \<in> {FAILED, RECOVERY_FAILED}
      then bind (mark_batch_recovery_desired S W X lease now batch) (\<lambda>u. ret (Some u))
      else ret None)"

definition pending_recovery_batches ::
  "surroundings \<Rightarrow> 'w workspace \<Rightarrow> transaction_spec \<Rightarrow> lease_record \<Rightarrow> time \<Rightarrow> ('w, operation_batch_record list) program" where
  "pending_recovery_batches S W X lease now =
     bind (read S (\<lambda>db. Inr (list_batches (Some (tx_run_id X)) None db))) (\<lambda>candidates.
     bind (each (pending_recovery_batch S W X lease now) candidates) (\<lambda>found.
     ret (found_batches found)))"

subsection \<open>Proofs that a batch can be recovered automatically\<close>

definition own_checkpoint :: "operation_batch_record \<Rightarrow> checkpoint_record \<Rightarrow> bool" where
  "own_checkpoint batch c \<longleftrightarrow> Some (checkpoint_resource_key c) = br_resource_key batch"

definition missing_checkpoint :: "string \<Rightarrow> checkpoint_record \<Rightarrow> bool" where
  "missing_checkpoint type c \<longleftrightarrow> checkpoint_type c = type \<and> jget (checkpoint_payload c) ''exists'' = JBool False"

definition created_checkpoint :: "string \<Rightarrow> checkpoint_record \<Rightarrow> bool" where
  "created_checkpoint type c \<longleftrightarrow> checkpoint_type c = type \<and> jget (checkpoint_payload c) ''exists'' = JBool True
     \<and> jget (checkpoint_payload c) ''file_type'' = JStr ''directory''
     \<and> is_int (jget (checkpoint_payload c) ''device'') \<and> is_int (jget (checkpoint_payload c) ''inode'')"

definition has_direct_mkdir_success_rollback_proof :: "operation_batch_record \<Rightarrow> checkpoint_record list \<Rightarrow> bool" where
  "has_direct_mkdir_success_rollback_proof batch cs \<longleftrightarrow>
     list_ex (\<lambda>c. own_checkpoint batch c \<and> missing_checkpoint ''before'' c) cs
     \<and> list_ex (\<lambda>c. own_checkpoint batch c \<and> created_checkpoint ''after'' c) cs"

definition has_direct_mkdir_failure_created_rollback_proof :: "operation_batch_record \<Rightarrow> checkpoint_record list \<Rightarrow> bool" where
  "has_direct_mkdir_failure_created_rollback_proof batch cs \<longleftrightarrow>
     list_ex (\<lambda>c. own_checkpoint batch c \<and> missing_checkpoint ''before'' c) cs
     \<and> list_ex (\<lambda>c. own_checkpoint batch c \<and> created_checkpoint ''failure'' c) cs"

definition has_direct_failed_mkdir_noop_proof :: "operation_batch_record \<Rightarrow> checkpoint_record list \<Rightarrow> bool" where
  "has_direct_failed_mkdir_noop_proof batch cs \<longleftrightarrow>
     list_ex (\<lambda>c. own_checkpoint batch c \<and> missing_checkpoint ''before'' c) cs
     \<and> list_ex (\<lambda>c. own_checkpoint batch c \<and> missing_checkpoint ''failure'' c) cs"

definition is_rollback_capable_recursive_step :: "json \<Rightarrow> bool" where
  "is_rollback_capable_recursive_step step \<longleftrightarrow>
     jget step ''ownership_class'' = JStr ''created_by_transaction''
     \<and> jget step ''cleanup_policy'' = JStr ''owned_empty_directory_safe_ish''
     \<and> jget step ''backend_guarantee'' = JStr ''identity_conditional_remove''
     \<and> is_mapping (jget step ''created_directory_identity'') \<and> is_mapping (jget step ''journaled_creation_proof'')
     \<and> is_int (jget (jget step ''created_directory_identity'') ''device'')
     \<and> is_int (jget (jget step ''created_directory_identity'') ''inode'')"

definition rollback_capable_recursive_mkdir_step_count :: "json \<Rightarrow> int" where
  "rollback_capable_recursive_mkdir_step_count payload =
     (case jget (jget payload ''recursive_group'') ''prior_created_steps'' of
        JArr steps \<Rightarrow> int (length (filter (\<lambda>s. is_mapping s \<and> is_rollback_capable_recursive_step s) steps))
      | _ \<Rightarrow> 0)"

definition latest_recursive_mkdir_recovery_payload :: "recovery_record list \<Rightarrow> json option" where
  "latest_recursive_mkdir_recovery_payload records =
     find (\<lambda>payload. is_mapping payload \<and> is_mapping (jget payload ''recursive_group'')
             \<and> is_array (jget (jget payload ''recursive_group'') ''prior_created_steps''))
       (map recovery_payload (rev records))"

definition batch_recovery_records :: "surroundings \<Rightarrow> operation_batch_record \<Rightarrow> ('w, recovery_record list) program" where
  "batch_recovery_records S batch = read S (\<lambda>db. Inr (list_recovery_records (br_batch_id batch) db))"

definition has_recursive_mkdir_rollback_proof ::
  "surroundings \<Rightarrow> operation_batch_record \<Rightarrow> checkpoint_record list \<Rightarrow> ('w, bool) program" where
  "has_recursive_mkdir_rollback_proof S batch cs =
     (if has_direct_mkdir_success_rollback_proof batch cs then ret True
      else if has_direct_mkdir_failure_created_rollback_proof batch cs then ret True
      else if \<not> has_direct_failed_mkdir_noop_proof batch cs then ret False
      else bind (batch_recovery_records S batch) (\<lambda>records.
        ret (case latest_recursive_mkdir_recovery_payload records of
            None \<Rightarrow> expected_prior_created_step_count (br_payload batch) = Some 0
          | Some payload \<Rightarrow> (case expected_prior_created_step_count payload of
              None \<Rightarrow> False
            | Some expected \<Rightarrow> expected \<le> rollback_capable_recursive_mkdir_step_count payload))))"

definition looks_like_captured_directory_payload :: "json \<Rightarrow> bool" where
  "looks_like_captured_directory_payload payload \<longleftrightarrow>
     (let captured = jget payload ''captured_directory''
      in is_mapping captured \<and> jget captured ''original_path'' \<noteq> JNull \<and> jget captured ''quarantine_path'' \<noteq> JNull
         \<and> is_mapping (jget captured ''original_identity'') \<and> is_mapping (jget captured ''captured_identity''))"

definition looks_like_manual_intervention_action :: "json \<Rightarrow> string \<Rightarrow> bool" where
  "looks_like_manual_intervention_action v operation \<longleftrightarrow> is_mapping v
     \<and> jget v ''action_type'' = JStr ''manual_intervention_required''
     \<and> is_mapping (jget v ''payload'') \<and> jget (jget v ''payload'') ''operation'' = JStr operation"

definition record_proves :: "string \<Rightarrow> (json \<Rightarrow> bool) \<Rightarrow> string \<Rightarrow> recovery_record \<Rightarrow> bool" where
  "record_proves key looks operation r \<longleftrightarrow> is_mapping (recovery_payload r)
     \<and> (is_mapping (jget (recovery_payload r) key) \<and> looks (jget (recovery_payload r) key)
        \<or> looks_like_manual_intervention_action (jget (recovery_payload r) ''manual_intervention_action'') operation)"

definition has_rename_no_replace_rollback_proof ::
  "surroundings \<Rightarrow> operation_batch_record \<Rightarrow> checkpoint_record list \<Rightarrow> ('w, bool) program" where
  "has_rename_no_replace_rollback_proof S batch cs =
     (if list_ex (\<lambda>c. checkpoint_type c = ''rename_record'' \<and> looks_like_rename_payload (checkpoint_payload c)) cs
      then ret True
      else bind (batch_recovery_records S batch) (\<lambda>records.
        ret (list_ex (record_proves ''rename_record'' looks_like_rename_payload ''rename_no_replace'') records)))"

definition listed_context ::
  "surroundings \<Rightarrow> operation_batch_record \<Rightarrow> checkpoint_record list \<Rightarrow> ('w, recovery_context) program" where
  "listed_context S batch cs =
     bind (read S (\<lambda>db. Inr (list_operations (br_batch_id batch) db))) (\<lambda>operations.
     bind (batch_recovery_records S batch) (\<lambda>records.
     ret \<lparr>rc_batch = batch, rc_operations = operations, rc_checkpoints = cs, rc_recovery_records = records,
          rc_recovery_attempt = None, rc_recovery_actions = [], rc_proof_contexts = []\<rparr>))"

definition has_capture_directory_rollback_proof ::
  "surroundings \<Rightarrow> 'w workspace \<Rightarrow> operation_batch_record \<Rightarrow> checkpoint_record list \<Rightarrow> ('w, bool) program" where
  "has_capture_directory_rollback_proof S W batch cs =
     (if list_ex (\<lambda>c. checkpoint_type c = ''captured_directory''
           \<and> looks_like_captured_directory_payload (checkpoint_payload c)) cs
      then ret True
      else bind (batch_recovery_records S batch) (\<lambda>records.
        if list_ex (record_proves ''captured_directory_restore'' looks_like_captured_directory_payload ''capture_directory'') records
        then ret True
        else bind (listed_context S batch cs) (\<lambda>context.
          bind (captured_directory_recovery_action_plans (ws_captures W) context) (\<lambda>plans.
          ret (list_ex (\<lambda>p. plan_action_type p = ''restore_captured_directory'') plans)))))"

definition latest_batch_failure_payload :: "surroundings \<Rightarrow> operation_batch_record \<Rightarrow> ('w, json) program" where
  "latest_batch_failure_payload S batch =
     (let own = jget (br_status_payload batch) ''failure''
      in if own \<noteq> JNull then ret own
         else bind (batch_recovery_records S batch) (\<lambda>records.
           ret (case find (\<lambda>v. v \<noteq> JNull) (map (\<lambda>r. jget (recovery_payload r) ''failure'') (rev records)) of
               None \<Rightarrow> JNull | Some v \<Rightarrow> v)))"

definition supports_mkdir_rollback ::
  "surroundings \<Rightarrow> operation_batch_record \<Rightarrow> checkpoint_record list \<Rightarrow> ('w, bool) program" where
  "supports_mkdir_rollback S batch cs =
     (if is_mapping (jget (br_payload batch) ''rollback_diagnostic'') then
        if is_mapping (jget (br_payload batch) ''recursive_mkdir'') then has_recursive_mkdir_rollback_proof S batch cs
        else ret (has_direct_mkdir_success_rollback_proof batch cs \<or> has_direct_failed_mkdir_noop_proof batch cs)
      else ret (has_direct_failed_mkdir_noop_proof batch cs))"

definition supports_automatic_transaction_rollback ::
  "surroundings \<Rightarrow> 'w workspace \<Rightarrow> operation_batch_record \<Rightarrow> ('w, bool) program" where
  "supports_automatic_transaction_rollback S W batch =
     (let payload = br_payload batch; operation = jget payload ''operation''
      in if \<not> is_mapping payload then ret False
         else if operation = JStr ''make_directory'' \<and> jget payload ''noop'' = JBool True then ret True
         else bind (read S (\<lambda>db. Inr (list_checkpoints (br_batch_id batch) db))) (\<lambda>cs.
           if operation = JStr ''make_directory'' then supports_mkdir_rollback S batch cs
           else if operation = JStr ''rename_no_replace'' then has_rename_no_replace_rollback_proof S batch cs
           else if operation = JStr ''capture_directory'' then has_capture_directory_rollback_proof S W batch cs
           else bind (latest_batch_failure_payload S batch) (\<lambda>failure.
             lift (batch_has_file_rollback_backup_proof payload cs (br_resource_key batch) failure))))"

definition is_unsupported_automatic_rollback_batch ::
  "surroundings \<Rightarrow> 'w workspace \<Rightarrow> operation_batch_record \<Rightarrow> ('w, bool) program" where
  "is_unsupported_automatic_rollback_batch S W batch =
     (let operation = jget (br_payload batch) ''operation''
      in if \<not> is_mapping (br_payload batch) then ret True
         else if operation = JStr ''restore_tree_backup'' then ret True
         else if operation = JStr ''backup_tree'' then ret False
         else if operation \<in> JStr ` {''write_bytes'', ''write_text'', ''delete_file'', ''make_directory'',
                   ''rename_no_replace'', ''capture_directory''}
         then bind (supports_automatic_transaction_rollback S W batch) (\<lambda>supported. ret (\<not> supported))
         else ret True)"

subsection \<open>Recovering the batches\<close>

datatype rollback_outcome =
    Recovered
  | Not_recovered failure
  | Cleanup_debt

definition at_time :: "surroundings \<Rightarrow> time \<Rightarrow> surroundings" where
  "at_time S now = S\<lparr>set_now := Some now\<rparr>"

definition recover_transaction_batch ::
  "surroundings \<Rightarrow> 'w workspace \<Rightarrow> transaction_spec \<Rightarrow> lease_record \<Rightarrow> time \<Rightarrow> operation_batch_record
    \<Rightarrow> ('w, recovery_result) program" where
  "recover_transaction_batch S W X lease now batch =
     (let H = co_digest (ws_coordinator W)
      in recover_batch H (at_time S now)
           (\<lambda>_ context. bind (run_recovery_actions H (at_time S now) (ws_handling W) context lease) (\<lambda>_. ret ''tuple''))
           (br_batch_id batch) lease)"

text \<open>\<open>_cleanup_batch_artifacts\<close> raises the debt as an exception of its own, which is caught here.\<close>

definition rollback_batch ::
  "surroundings \<Rightarrow> 'w workspace \<Rightarrow> transaction_spec \<Rightarrow> lease_record \<Rightarrow> time \<Rightarrow> operation_batch_record
    \<Rightarrow> ('w, rollback_outcome) program" where
  "rollback_batch S W X lease now batch =
     bind (is_unsupported_automatic_rollback_batch S W batch) (\<lambda>unsupported.
     if unsupported then ret (Not_recovered workspace_error)
     else attempt
       (bind (recover_transaction_batch S W X lease now batch) (\<lambda>result.
        bind (cleanup_artifacts_for_batches S W (tx_cleanup_clock X) (Some lease) ''recovery_cleanup'' [rr_batch result]) (\<lambda>debt.
        ret (if debt = None then Recovered else Cleanup_debt))))
       (\<lambda>e. Some (ret (Not_recovered e))))"

definition not_recovered :: "rollback_outcome \<Rightarrow> bool" where
  "not_recovered r \<longleftrightarrow> (case r of Not_recovered _ \<Rightarrow> True | _ \<Rightarrow> False)"

definition run_automatic_transaction_rollback ::
  "surroundings \<Rightarrow> 'w workspace \<Rightarrow> transaction_spec \<Rightarrow> lease_record \<Rightarrow> bool \<Rightarrow> time \<Rightarrow> ('w, bool) program" where
  "run_automatic_transaction_rollback S W X lease body_error now =
     (if tx_rollback X \<noteq> ''automatic'' then ret True
      else bind (eligible_recovery_batches S W X lease now) (\<lambda>batches.
        bind (each (rollback_batch S W X lease now) batches) (\<lambda>outcomes.
        if \<not> list_ex not_recovered outcomes then
          (if Cleanup_debt \<in> set outcomes \<and> \<not> body_error then raise workspace_error else ret True)
        else if body_error then ret False
        else raise workspace_error)))"

definition run_pending_transaction_rollback ::
  "surroundings \<Rightarrow> 'w workspace \<Rightarrow> transaction_spec \<Rightarrow> lease_record \<Rightarrow> time \<Rightarrow> ('w, unit) program" where
  "run_pending_transaction_rollback S W X lease now =
     (if tx_rollback X \<noteq> ''automatic'' then ret ()
      else bind (pending_recovery_batches S W X lease now) (\<lambda>batches.
        bind (each (rollback_batch S W X lease now) batches) (\<lambda>outcomes.
        if list_ex not_recovered outcomes \<or> Cleanup_debt \<in> set outcomes then raise workspace_error
        else ret ())))"

definition cleanup_committed_transaction_artifacts ::
  "surroundings \<Rightarrow> 'w workspace \<Rightarrow> transaction_spec \<Rightarrow> lease_record option \<Rightarrow> ('w, failure option) program" where
  "cleanup_committed_transaction_artifacts S W X lease =
     bind (read S (\<lambda>db. Inr (list_batches (Some (tx_run_id X)) None db))) (\<lambda>candidates.
     let matching = filter (\<lambda>b. belongs_to_transaction_instance W X b \<and> br_phase b = SUCCEEDED) candidates
     in if matching = [] then ret None
        else cleanup_artifacts_for_batches S W (tx_cleanup_clock X) lease ''commit_cleanup'' matching)"

end
