(* ===== verification/Transaction_Exit.thy ===== *)
theory Transaction_Exit
  imports Transaction_Operations Transaction_Rollback
begin

section \<open>The end of a transaction\<close>

text \<open>
  \<open>SafeTransaction.__exit__\<close> of \<open>workspace_transaction.py\<close> and \<open>workspace_transaction_operation.py\<close>.
  After a failed body the automatic rollback runs; if it leaves a batch unrecovered, the claims
  stay for a later recovery, else they are released. After a body that succeeded the pending
  recoveries run, the artifacts of the finished batches are removed, and the statuses of the
  operation, the claims and the lease change in one transaction of the database. The notes that the
  code adds to exceptions are not modelled.
\<close>

text \<open>\<open>except BaseException\<close>.\<close>

definition any_failure :: "('w, 'a) program \<Rightarrow> ('w, failure + 'a) program" where
  "any_failure = catching (\<lambda>_. True)"

subsection \<open>Statuses of the touched runs and phases\<close>

definition touched_operation_phases ::
  "surroundings \<Rightarrow> 'w workspace \<Rightarrow> ('w, operation_phase_record list) tx_program" where
  "touched_operation_phases S W =
     bind get_state (\<lambda>t.
     let implicit = (case ts_operation_phase t of None \<Rightarrow> [] | Some p \<Rightarrow> [p]);
         ids = filter (\<lambda>i. i \<notin> phase_operation_phase_id ` set implicit) (ws_set_order W (ts_touched_phases t))
     in bind (each (\<lambda>i. read S (\<lambda>db. Inr (get_operation_phase i db))) ids) (\<lambda>found.
        ret (implicit @ map the (filter (\<lambda>r. r \<noteq> None) found))))"

definition touched_operation_runs ::
  "surroundings \<Rightarrow> 'w workspace \<Rightarrow> ('w, operation_run_record list) tx_program" where
  "touched_operation_runs S W =
     bind get_state (\<lambda>t.
     let implicit = (case ts_operation_run t of None \<Rightarrow> [] | Some r \<Rightarrow> [r]);
         ids = filter (\<lambda>i. i \<notin> run_operation_run_id ` set implicit) (ws_set_order W (ts_touched_runs t))
     in bind (each (\<lambda>i. read S (\<lambda>db. Inr (get_operation_run i db))) ids) (\<lambda>found.
        ret (implicit @ map the (filter (\<lambda>r. r \<noteq> None) found))))"

definition diagnostic_status :: "string \<Rightarrow> string" where
  "diagnostic_status status = (if status = ''failed'' then ''failed'' else ''finalization_failed'')"

definition update_operation_phase_terminal_status ::
  "surroundings \<Rightarrow> lease_record \<Rightarrow> string \<Rightarrow> time \<Rightarrow> operation_phase_record \<Rightarrow> ('w, operation_phase_record) tx_program" where
  "update_operation_phase_terminal_status S lease status now p =
     (let i = phase_operation_phase_id p;
          diagnostic = transact S (\<lambda>_ db. record_operation_phase_terminal_diagnostic i lease (diagnostic_status status) now db)
      in attempt (transact S (\<lambda>_ db. update_operation_phase_status i lease status now db))
        (\<lambda>e. Some (if e \<in> {Raised JournalLeaseMismatchError, Raised LeaseLostError} then diagnostic
           else bind (any_failure (bind diagnostic (\<lambda>r. modify (\<lambda>t. t\<lparr>ts_operation_phase := Some r\<rparr>)))) (\<lambda>_. raise e))))"

definition update_operation_run_terminal_status ::
  "surroundings \<Rightarrow> lease_record \<Rightarrow> string \<Rightarrow> time \<Rightarrow> operation_run_record \<Rightarrow> ('w, operation_run_record) tx_program" where
  "update_operation_run_terminal_status S lease status now r =
     (let i = run_operation_run_id r;
          diagnostic = transact S (\<lambda>_ db. record_operation_run_terminal_diagnostic i lease (diagnostic_status status) now db)
      in attempt (transact S (\<lambda>_ db. update_operation_run_status i lease status now db))
        (\<lambda>e. Some (if e \<in> {Raised JournalLeaseMismatchError, Raised LeaseLostError} then diagnostic
           else bind (any_failure (bind diagnostic (\<lambda>r. modify (\<lambda>t. t\<lparr>ts_operation_run := Some r\<rparr>)))) (\<lambda>_. raise e))))"

text \<open>The attribute follows the record of the implicit phase or run.\<close>

definition follow_phase :: "operation_phase_record \<Rightarrow> transaction_state \<Rightarrow> transaction_state" where
  "follow_phase u t = (if map_option phase_operation_phase_id (ts_operation_phase t) = Some (phase_operation_phase_id u)
     then t\<lparr>ts_operation_phase := Some u\<rparr> else t)"

definition follow_run :: "operation_run_record \<Rightarrow> transaction_state \<Rightarrow> transaction_state" where
  "follow_run u t = (if map_option run_operation_run_id (ts_operation_run t) = Some (run_operation_run_id u)
     then t\<lparr>ts_operation_run := Some u\<rparr> else t)"

definition mark_touched_operation_phases ::
  "surroundings \<Rightarrow> 'w workspace \<Rightarrow> lease_record \<Rightarrow> string \<Rightarrow> time \<Rightarrow> ('w, unit) tx_program" where
  "mark_touched_operation_phases S W lease status now =
     bind (touched_operation_phases S W) (\<lambda>phases.
     bind (each (\<lambda>p. bind (update_operation_phase_terminal_status S lease status now p) (\<lambda>u. modify (follow_phase u))) phases) (\<lambda>_.
     ret ()))"

definition mark_touched_operation_runs ::
  "surroundings \<Rightarrow> 'w workspace \<Rightarrow> lease_record \<Rightarrow> string \<Rightarrow> time \<Rightarrow> ('w, unit) tx_program" where
  "mark_touched_operation_runs S W lease status now =
     bind (touched_operation_runs S W) (\<lambda>runs.
     bind (each (\<lambda>r. bind (update_operation_run_terminal_status S lease status now r) (\<lambda>u. modify (follow_run u))) runs) (\<lambda>_.
     ret ()))"

text \<open>\<open>time\<close>: the finalization time of the caller, or a reading of the clock for each.\<close>

definition mark_touched_finalization_failed ::
  "surroundings \<Rightarrow> 'w workspace \<Rightarrow> lease_record \<Rightarrow> ('w, time) tx_program \<Rightarrow> ('w, unit) tx_program" where
  "mark_touched_finalization_failed S W lease time =
     bind (any_failure (bind time (mark_touched_operation_phases S W lease ''finalization_failed''))) (\<lambda>_.
     bind (any_failure (bind time (mark_touched_operation_runs S W lease ''finalization_failed''))) (\<lambda>_.
     ret ()))"

subsection \<open>The final transaction\<close>

definition update_phase_in_connection ::
  "lease_record \<Rightarrow> time \<Rightarrow> operation_phase_record \<Rightarrow> journal_db \<Rightarrow> error + journal_db \<times> operation_phase_record" where
  "update_phase_in_connection lease now p db =
     (let i = phase_operation_phase_id p
      in res_bind (require_operation_phase_for_write i lease db) (\<lambda>row.
         res_bind (require (operation_status_transition (phase_status row) ''succeeded'') ValueError) (\<lambda>_.
         write_phase_status row i ''succeeded'' now db)))"

definition update_run_in_connection ::
  "lease_record \<Rightarrow> time \<Rightarrow> operation_run_record \<Rightarrow> journal_db \<Rightarrow> error + journal_db \<times> operation_run_record" where
  "update_run_in_connection lease now r db =
     (let i = run_operation_run_id r
      in res_bind (require_operation_run_for_write i lease db) (\<lambda>row.
         res_bind (require (operation_status_transition (run_status row) ''succeeded'') ValueError) (\<lambda>_.
         write_run_status row i ''succeeded'' now db)))"

text \<open>The records updated so far survive a failure, in the attributes of the transaction.\<close>

fun update_all :: "('r \<Rightarrow> journal_db \<Rightarrow> error + journal_db \<times> 'u) \<Rightarrow> 'r list \<Rightarrow> journal_db \<Rightarrow> 'u list \<times> (error + journal_db)" where
  "update_all f [] db = ([], Inr db)"
| "update_all f (r # rs) db =
     (case f r db of
        Inl e \<Rightarrow> ([], Inl e)
      | Inr (db', u) \<Rightarrow> (let (us, rest) = update_all f rs db' in (u # us, rest)))"

fun release_claims_in_connection ::
  "'w workspace \<Rightarrow> transaction_spec \<Rightarrow> (string \<rightharpoonup> claim_record) \<Rightarrow> string list \<Rightarrow> journal_db \<Rightarrow> error + journal_db \<times> string list" where
  "release_claims_in_connection W X claims [] db = Inr (db, [])"
| "release_claims_in_connection W X claims (key # keys) db =
     (case claims key of
        None \<Rightarrow> release_claims_in_connection W X claims keys db
      | Some c \<Rightarrow>
          (let (db', released) = release_claim_in_connection key (ws_owner W) (Some (claim_scope_of X)) (Some c) db
           in if \<not> released then Inl ClaimReleaseError
              else res_bind (release_claims_in_connection W X claims keys db') (\<lambda>(db'', rest). Inr (db'', key # rest))))"

type_synonym finalized = "(operation_phase_record list \<times> operation_run_record list) \<times> (error + journal_db \<times> string list)"

definition finalize_in_connection ::
  "'w workspace \<Rightarrow> transaction_spec \<Rightarrow> lease_record \<Rightarrow> time \<Rightarrow> operation_phase_record list \<Rightarrow> operation_run_record list
    \<Rightarrow> transaction_state \<Rightarrow> string \<Rightarrow> journal_db \<Rightarrow> finalized" where
  "finalize_in_connection W X lease now phases runs t fresh db =
     (case require_current_lease db lease now of
        Inl e \<Rightarrow> (([], []), Inl e)
      | Inr _ \<Rightarrow>
     (case update_all (update_phase_in_connection lease now) phases db of
        (ps, Inl e) \<Rightarrow> ((ps, []), Inl e)
      | (ps, Inr db1) \<Rightarrow>
     (case release_claims_in_connection W X (ts_claims t) (rev (ts_claim_release_order t)) db1 of
        Inl e \<Rightarrow> ((ps, []), Inl e)
      | Inr (db2, keys) \<Rightarrow>
     (case update_all (update_run_in_connection lease now) runs db2 of
        (rs, Inl e) \<Rightarrow> ((ps, rs), Inl e)
      | (rs, Inr db3) \<Rightarrow>
          ((ps, rs), res_bind (release lease fresh now db3) (\<lambda>(db4, released).
             if released then Inr (db4, keys) else Inl SafeWorkspaceError))))))"

text \<open>One transaction whose body leaves something behind even when it fails.\<close>

definition transact_noted ::
  "surroundings \<Rightarrow> ((nat \<Rightarrow> string) \<Rightarrow> journal_db \<Rightarrow> 'n \<times> (error + journal_db \<times> 'a)) \<Rightarrow> ('w, 'n \<times> (failure + 'a)) program" where
  "transact_noted S body s =
     (let n = run_tick s;
          db = set_others S n (run_db s);
          b = body (\<lambda>k. set_ids S n k db);
          (db', r) = transaction (\<lambda>db. snd (b db)) db
      in (Inr (fst (b db), map_sum Raised id r), s\<lparr>run_db := db', run_tick := Suc n\<rparr>))"

definition forget_claims :: "string list \<Rightarrow> transaction_state \<Rightarrow> transaction_state" where
  "forget_claims keys t = fold forget_claim keys t"

definition finalize_success ::
  "surroundings \<Rightarrow> 'w workspace \<Rightarrow> transaction_spec \<Rightarrow> lease_record \<Rightarrow> time \<Rightarrow> operation_phase_record list
    \<Rightarrow> operation_run_record list \<Rightarrow> bool \<Rightarrow> ('w, unit) tx_program" where
  "finalize_success S W X lease now phases runs follow_runs =
     bind get_state (\<lambda>t.
     bind (transact_noted S (\<lambda>ids db. finalize_in_connection W X lease now phases runs t (ids 0) db)) (\<lambda>(noted, r).
     bind (modify (\<lambda>t. fold follow_phase (fst noted) t)) (\<lambda>_.
     bind (modify (\<lambda>t. if follow_runs then fold follow_run (snd noted) t else t)) (\<lambda>_.
     case r of
       Inl e \<Rightarrow> raise e
     | Inr keys \<Rightarrow> modify (\<lambda>t. (forget_claims keys t)\<lparr>ts_lease := None, ts_cleanup_error := None\<rparr>)))))"

definition finalize_operation_success ::
  "surroundings \<Rightarrow> 'w workspace \<Rightarrow> transaction_spec \<Rightarrow> operation_run_record \<Rightarrow> ('w, unit) tx_program" where
  "finalize_operation_success S W X run =
     bind transaction_lease (\<lambda>lease.
     bind (stop_lease_heartbeat S) (\<lambda>_.
     bind (clock_time S) (\<lambda>now.
     bind get_state (\<lambda>t.
     finalize_success S W X lease now (case ts_operation_phase t of None \<Rightarrow> [] | Some p \<Rightarrow> [p]) [run] False))))"

definition finalize_touched_operation_success ::
  "surroundings \<Rightarrow> 'w workspace \<Rightarrow> transaction_spec \<Rightarrow> ('w, unit) tx_program" where
  "finalize_touched_operation_success S W X =
     bind transaction_lease (\<lambda>lease.
     bind (stop_lease_heartbeat S) (\<lambda>_.
     bind (clock_time S) (\<lambda>now.
     bind (touched_operation_phases S W) (\<lambda>phases.
     bind (touched_operation_runs S W) (\<lambda>runs.
     finalize_success S W X lease now phases runs True)))))"

subsection \<open>After a failed body\<close>

text \<open>\<open>True\<close>: some batch is left unrecovered, so the claims have to stay.\<close>

definition rollback_unresolved ::
  "surroundings \<Rightarrow> 'w workspace \<Rightarrow> transaction_spec \<Rightarrow> lease_record \<Rightarrow> time \<Rightarrow> ('w, bool) tx_program" where
  "rollback_unresolved S W X lease now =
     bind (any_failure (files (run_automatic_transaction_rollback S W X lease True now))) (\<lambda>r.
     ret (case r of Inr resolved \<Rightarrow> \<not> resolved | Inl _ \<Rightarrow> True))"

definition set_cleanup_error :: "failure option \<Rightarrow> ('w, unit) tx_program" where
  "set_cleanup_error e = modify (\<lambda>t. t\<lparr>ts_cleanup_error := e\<rparr>)"

text \<open>\<open>guarded\<close>: a failure of the cleanup is caught.\<close>

definition exit_after_failure ::
  "surroundings \<Rightarrow> 'w workspace \<Rightarrow> transaction_spec \<Rightarrow> lease_record \<Rightarrow> bool \<Rightarrow> ('w, unit) tx_program" where
  "exit_after_failure S W X lease guarded =
     bind (clock_time S) (\<lambda>now.
     bind (any_failure (mark_touched_operation_phases S W lease ''failed'' now)) (\<lambda>_.
     bind (rollback_unresolved S W X lease now) (\<lambda>unresolved.
     bind get_state (\<lambda>t.
     bind (any_failure (if guarded \<or> ts_touched_runs t \<noteq> [] then mark_touched_operation_runs S W lease ''failed'' now else ret ())) (\<lambda>_.
     if unresolved then bind (abandon_transaction_for_recovery S) (\<lambda>_. ret ())
     else bind (if guarded
                then bind (any_failure (cleanup_transaction S W X)) (\<lambda>r. ret (case r of Inl _ \<Rightarrow> None | Inr e \<Rightarrow> e))
                else cleanup_transaction S W X) (\<lambda>e.
          set_cleanup_error e))))))"

subsection \<open>After a body that succeeded\<close>

definition pending_rollback :: "surroundings \<Rightarrow> 'w workspace \<Rightarrow> transaction_spec \<Rightarrow> lease_record \<Rightarrow> time \<Rightarrow> ('w, unit) tx_program" where
  "pending_rollback S W X lease now = files (run_pending_transaction_rollback S W X lease now)"

definition committed_cleanup :: "surroundings \<Rightarrow> 'w workspace \<Rightarrow> transaction_spec \<Rightarrow> ('w, failure option) tx_program" where
  "committed_cleanup S W X =
     bind get_state (\<lambda>t.
     bind (files (cleanup_committed_transaction_artifacts S W X (ts_lease t))) (\<lambda>e.
     bind (set_cleanup_error e) (\<lambda>_. ret e)))"

text \<open>The removal of the artifacts, then the final transaction.\<close>

definition commit_touched ::
  "surroundings \<Rightarrow> 'w workspace \<Rightarrow> transaction_spec \<Rightarrow> ('w, unit) tx_program \<Rightarrow> ('w, unit) tx_program" where
  "commit_touched S W X finalize =
     bind (committed_cleanup S W X) (\<lambda>e. case e of Some failure \<Rightarrow> raise failure | None \<Rightarrow> finalize)"

definition abandon_and_raise ::
  "surroundings \<Rightarrow> 'w workspace \<Rightarrow> lease_record \<Rightarrow> ('w, time) tx_program \<Rightarrow> failure \<Rightarrow> ('w, unit) tx_program" where
  "abandon_and_raise S W lease time e =
     bind (mark_touched_finalization_failed S W lease time) (\<lambda>_.
     bind (abandon_transaction_for_recovery S) (\<lambda>_. raise e))"

text \<open>\<open>guarded\<close> as above: without an implicit operation a failure of the cleanup itself is caught.\<close>

definition clean_and_raise ::
  "surroundings \<Rightarrow> 'w workspace \<Rightarrow> transaction_spec \<Rightarrow> lease_record \<Rightarrow> bool \<Rightarrow> ('w, time) tx_program \<Rightarrow> failure \<Rightarrow> ('w, unit) tx_program" where
  "clean_and_raise S W X lease guarded time e =
     bind (mark_touched_finalization_failed S W lease time) (\<lambda>_.
     bind (if guarded then any_failure (cleanup_transaction S W X)
           else bind (cleanup_transaction S W X) (\<lambda>x. ret (Inr x))) (\<lambda>r.
     bind (case r of Inr (Some x) \<Rightarrow> set_cleanup_error (Some x) | _ \<Rightarrow> ret ()) (\<lambda>_.
     raise (case r of Inr (Some x) \<Rightarrow> x | Inr None \<Rightarrow> e | Inl x \<Rightarrow> x))))"

definition exit_with_touched ::
  "surroundings \<Rightarrow> 'w workspace \<Rightarrow> transaction_spec \<Rightarrow> lease_record \<Rightarrow> bool \<Rightarrow> ('w, time) tx_program
    \<Rightarrow> ('w, unit) tx_program \<Rightarrow> ('w, unit) tx_program" where
  "exit_with_touched S W X lease guarded time finalize =
     bind (any_failure (bind time (pending_rollback S W X lease))) (\<lambda>pending.
     case pending of
       Inl e \<Rightarrow> abandon_and_raise S W lease time e
     | Inr _ \<Rightarrow>
         bind (any_failure (commit_touched S W X finalize)) (\<lambda>r.
         case r of Inr _ \<Rightarrow> ret () | Inl e \<Rightarrow> clean_and_raise S W X lease guarded time e))"

definition exit_untouched ::
  "surroundings \<Rightarrow> 'w workspace \<Rightarrow> transaction_spec \<Rightarrow> lease_record \<Rightarrow> ('w, unit) tx_program" where
  "exit_untouched S W X lease =
     bind (any_failure (bind (clock_time S) (pending_rollback S W X lease))) (\<lambda>pending.
     case pending of
       Inl e \<Rightarrow> abandon_and_raise S W lease (clock_time S) e
     | Inr _ \<Rightarrow>
         bind (committed_cleanup S W X) (\<lambda>committed.
         bind (if committed \<noteq> None then mark_touched_finalization_failed S W lease (clock_time S) else ret ()) (\<lambda>_.
         bind (any_failure (cleanup_transaction S W X)) (\<lambda>r.
         bind (set_cleanup_error (case committed of Some x \<Rightarrow> Some x | None \<Rightarrow> (case r of Inr e \<Rightarrow> e | Inl _ \<Rightarrow> None))) (\<lambda>_.
         bind (if r \<noteq> Inr None
               then bind (clock_time S) (\<lambda>now. mark_touched_finalization_failed S W lease (ret now)) else ret ()) (\<lambda>_.
         case (r, committed) of
           (Inl x, _) \<Rightarrow> raise x
         | (Inr (Some x), _) \<Rightarrow> raise x
         | (Inr None, Some x) \<Rightarrow> raise x
         | (Inr None, None) \<Rightarrow> ret ()))))))"

subsection \<open>The exit\<close>

definition exit_with_implicit_operation ::
  "surroundings \<Rightarrow> 'w workspace \<Rightarrow> transaction_spec \<Rightarrow> lease_record \<Rightarrow> operation_run_record \<Rightarrow> failure option
    \<Rightarrow> ('w, unit) tx_program" where
  "exit_with_implicit_operation S W X lease run body_error =
     (if body_error \<noteq> None then exit_after_failure S W X lease False
      else bind (clock_time S) (\<lambda>now.
        exit_with_touched S W X lease False (ret now)
          (bind (finalize_operation_success S W X run) (\<lambda>_.
           bind (read S (\<lambda>db. Inr (get_operation_run (run_operation_run_id run) db))) (\<lambda>found.
           modify (\<lambda>t. t\<lparr>ts_operation_run := found\<rparr>))))))"

text \<open>The result \<open>()\<close> is \<open>return False\<close>: the error of the body, if there is one, is raised again.\<close>

definition exit_transaction ::
  "surroundings \<Rightarrow> 'w workspace \<Rightarrow> transaction_spec \<Rightarrow> failure option \<Rightarrow> ('w, unit) tx_program" where
  "exit_transaction S W X body_error =
     bind get_state (\<lambda>t.
     if \<not> ts_entered t then ret ()
     else
     bind (modify (\<lambda>t. t\<lparr>ts_entered := False, ts_closed := True\<rparr>)) (\<lambda>_.
     bind transaction_lease (\<lambda>lease.
     case ts_operation_run t of
       Some run \<Rightarrow> exit_with_implicit_operation S W X lease run body_error
     | None \<Rightarrow>
         if body_error \<noteq> None then exit_after_failure S W X lease True
         else if ts_touched_runs t \<noteq> [] \<or> ts_touched_phases t \<noteq> []
         then exit_with_touched S W X lease True (clock_time S) (finalize_touched_operation_success S W X)
         else exit_untouched S W X lease)))"

end
