(* ===== verification/Rollback_Steps.thy ===== *)
theory Rollback_Steps
  imports Transaction_Rollback Runner_Steps
begin

section \<open>What a rollback does to the database\<close>

text \<open>
  A rollback changes the database by calls of the stores only, the acquisition and the release of a
  lease among them. As for the runner this is shown for every relation that such calls keep.
\<close>

locale db_relation = store_relation R S H for R :: "'w run_state \<Rightarrow> 'w run_state \<Rightarrow> bool" and S H +
  assumes local_change: "run_db s' = run_db s \<Longrightarrow> R s s'"
    and lease_call: "lease_step UNIV db db' \<Longrightarrow> R (s\<lparr>run_db := db\<rparr>) (s\<lparr>run_db := db'\<rparr>)"
begin

lemma db_world: "keeps R (world_call f)"
  unfolding keeps_def world_call_def by (auto intro: local_change simp: split_def Let_def)

lemma db_suppress: "keeps R m \<Longrightarrow> keeps R (suppress es x m)"
  unfolding suppress_def by (intro keeps_attempt) (auto split: if_splits intro: keeps_ret)

lemmas db_rules = keeps_rules db_world db_suppress store_read

subsection \<open>Backups\<close>

lemma db_verify: "keeps R (verify_candidate S X a)"
  unfolding verify_candidate_def hash_regular_file_def
  by (intro keeps_attempt) (auto split: if_splits intro!: db_rules)

lemma db_symlinks: "keeps R (symlink_chain_violation S X p root)"
proof -
  have "keeps R (first_symlink S X qs)" for qs
  proof (induction qs)
    case (Cons q qs)
    have "keeps R (symlink_detail S X q)"
      unfolding symlink_detail_def by (intro keeps_attempt) (auto split: if_splits intro!: db_rules)
    then show ?case unfolding first_symlink.simps by (intro db_rules Cons)
  next
    case Nil
    show ?case unfolding first_symlink.simps by (rule keeps_ret)
  qed
  then show ?thesis unfolding symlink_chain_violation_def Let_def by (intro db_rules)
qed

lemma db_delete: "keeps R (delete_artifact S X d a)"
proof -
  have "keeps R (default_delete_verified S X a)"
    unfolding default_delete_verified_def by (intro db_rules db_verify)
  then show ?thesis
    unfolding delete_artifact_def by (intro keeps_attempt) (auto split: if_splits option.split intro!: db_rules)
qed

lemma db_execute_backup:
  assumes "\<And>m. before = Some m \<Longrightarrow> keeps R m"
  shows "keeps R (execute_backup_artifact_cleanup_candidate S X p d before a)"
  unfolding execute_backup_artifact_cleanup_candidate_def
  by (intro db_rules db_symlinks db_verify db_delete assms)

subsection \<open>Captured directories and stored contents\<close>

lemma db_execute_captured:
  assumes "\<And>m. before = Some m \<Longrightarrow> keeps R m" and "\<And>r. keeps R (f r)"
  shows "keeps R (execute_captured_directory_cleanup_candidate S f before a)"
proof -
  have "keeps R p" if "captured_cleanup_failure S a e = Some p" for e and p :: "('w, cleanup_outcome) program"
    using that unfolding captured_cleanup_failure_def by (auto split: if_splits intro: keeps_ret)
  then have "keeps R (bind (case before of None \<Rightarrow> ret () | Some mark \<Rightarrow> mark) (\<lambda>_.
      attempt (bind (f r) (\<lambda>_. ret (''succeeded'', None, None))) (captured_cleanup_failure S a)))" for r
    by (intro db_rules assms)
  then show ?thesis
    unfolding execute_captured_directory_cleanup_candidate_def by (auto split: option.split prod.split intro: keeps_ret)
qed

lemma db_verify_tree: "keeps R (verify_tree_candidate S X a)"
  unfolding verify_tree_candidate_def hash_content_def
  by (intro keeps_attempt) (auto split: if_splits intro!: db_rules)

lemma db_tree_symlinks: "keeps R (tree_symlink_violation S X p root)"
proof -
  have "keeps R (first_tree_symlink S X qs)" for qs
  proof (induction qs)
    case (Cons q qs)
    have "keeps R (tree_symlink_detail S X q)"
      unfolding tree_symlink_detail_def by (intro keeps_attempt) (auto split: if_splits intro!: db_rules)
    then show ?case unfolding first_tree_symlink.simps by (intro db_rules Cons)
  next
    case Nil
    show ?case unfolding first_tree_symlink.simps by (rule keeps_ret)
  qed
  then show ?thesis unfolding tree_symlink_violation_def Let_def by (intro db_rules)
qed

lemma db_delete_tree: "keeps R (delete_tree_content S X d a)"
proof -
  have "keeps R (delete_verified_content S X a)"
    unfolding delete_verified_content_def by (intro db_rules db_verify_tree)
  then show ?thesis
    unfolding delete_tree_content_def by (intro keeps_attempt) (auto split: if_splits option.split intro!: db_rules)
qed

lemma db_execute_tree:
  assumes "\<And>m. before = Some m \<Longrightarrow> keeps R m"
  shows "keeps R (execute_tree_backup_artifact_cleanup_candidate S X d before a)"
  unfolding execute_tree_backup_artifact_cleanup_candidate_def Let_def
  by (auto split: option.split prod.split intro!: db_rules db_tree_symlinks db_verify_tree db_delete_tree assms)

subsection \<open>The journal of removals\<close>

lemma db_planned: "keeps R (journal_cleanup_planned S b lease aid trigger key payload)"
  unfolding journal_cleanup_planned_def
  by (intro keeps_rules store_transact) (auto intro: call jc_plan_cleanup)

lemma db_marked: "status \<noteq> CLEANUP_PLANNED \<Longrightarrow> keeps R (journal_cleanup_marked S status b lease aid reason payload)"
  unfolding journal_cleanup_marked_def
  by (intro keeps_rules store_transact) (auto intro: call jc_mark_cleanup)

lemma db_records: "keeps R (artifact_cleanup_records_for_candidate S b a)"
  unfolding artifact_cleanup_records_for_candidate_def by (intro db_rules)

lemma db_prepare: "keeps R (prepare_artifact_cleanup_attempt S W batch lease a trigger)"
proof -
  have retained: "keeps R (record_retained_captured_directory_cleanup S batch lease a trigger)" for a
    unfolding record_retained_captured_directory_cleanup_def Let_def
    by (intro db_rules db_planned db_marked) simp
  have backfill: "keeps R (backfill_legacy_artifact_cleanup_plan S batch lease a trigger)" for a
    unfolding backfill_legacy_artifact_cleanup_plan_def by (intro db_rules db_planned)
  show ?thesis
    unfolding prepare_artifact_cleanup_attempt_def Let_def
    by (intro db_rules db_records db_planned) (auto split: artifact.split intro: retained backfill)
qed

lemma db_execute:
  assumes "\<And>m. before = Some m \<Longrightarrow> keeps R m"
  shows "keeps R (execute_artifact_cleanup S W before a)"
  by (cases a) (auto intro!: db_rules db_execute_backup db_execute_captured db_execute_tree assms)

lemma db_terminal: "keeps R (record_artifact_cleanup_terminal_result S b lease aid payload outcome)"
  unfolding record_artifact_cleanup_terminal_result_def Let_def
  by (cases outcome) (auto intro!: keeps_if db_marked)

lemma db_remove: "keeps R (remove_artifact S W lease trigger batch a)"
  unfolding remove_artifact_def split_def
  by (intro db_rules db_prepare store_maintain db_execute db_terminal) (auto split: if_splits intro!: db_marked)

lemma db_remove_batch: "keeps R (remove_batch_artifacts S W lease trigger batch)"
  unfolding remove_batch_artifacts_def Let_def by (intro db_rules db_remove)

lemma db_release: "keeps R (release_lease S lease now)"
  unfolding release_lease_def by (intro db_rules store_transact) (auto intro: lease_call step_release)

lemma db_finally: "keeps R m \<Longrightarrow> keeps R fin \<Longrightarrow> keeps R (finally_do m fin)"
  unfolding finally_do_def by (intro keeps_bind keeps_attempt) (auto intro!: db_rules)

lemma db_cleanup: "keeps R (cleanup_artifacts_for_batches S W pinned existing trigger batches)"
proof -
  have acquired: "keeps R (transact S (\<lambda>ids db. acquire name owner ttl None (ids 0) now db))" for name owner ttl now
    by (intro store_transact) (auto intro: lease_call step_acquire)
  show ?thesis
    unfolding cleanup_artifacts_for_batches_def artifact_cleanup_lease_def Let_def
    by (intro db_rules acquired db_finally db_release db_remove_batch)
qed

subsection \<open>The rollback\<close>

lemma db_updated: "keeps R (updated_batch S batch)"
  unfolding updated_batch_def by (intro db_rules)

lemma db_desired:
  "H = co_digest (ws_coordinator W) \<Longrightarrow> keeps R (mark_batch_recovery_desired S W X lease now batch)"
  unfolding mark_batch_recovery_desired_def
  by (intro keeps_bind db_updated store_transact) (auto intro: call jc_recovery_desired)

lemma db_interrupted:
  "H = co_digest (ws_coordinator W) \<Longrightarrow> keeps R (mark_batch_interrupted_recovery_desired S W X lease now batch)"
  unfolding mark_batch_interrupted_recovery_desired_def
  by (intro keeps_bind db_updated store_transact) (auto intro: call jc_interrupted)

lemma db_eligible_batch:
  "H = co_digest (ws_coordinator W) \<Longrightarrow> keeps R (eligible_recovery_batch S W X lease now batch)"
  unfolding eligible_recovery_batch_def Let_def by (intro db_rules db_desired db_interrupted)

lemma db_eligible:
  "H = co_digest (ws_coordinator W) \<Longrightarrow> keeps R (eligible_recovery_batches S W X lease now)"
  unfolding eligible_recovery_batches_def by (intro db_rules db_eligible_batch)

lemma db_pending:
  "H = co_digest (ws_coordinator W) \<Longrightarrow> keeps R (pending_recovery_batches S W X lease now)"
  unfolding pending_recovery_batches_def pending_recovery_batch_def
  by (intro db_rules db_desired)

lemma db_inspect: "keeps R (inspect_path X p)"
  unfolding inspect_path_def inspected_file_type_def split_def by (intro db_rules)

lemma db_captured_plans: "keeps R (captured_directory_recovery_action_plans C context)"
proof -
  have "keeps R (token_found C p identity token)" for p identity token
    unfolding token_found_def by (intro db_rules)
  then have "keeps R (observed_captured_plan C context)"
    unfolding observed_captured_plan_def Let_def
    by (auto split: option.split json.split intro!: db_rules db_inspect)
  then have "keeps R (capture_fallback_plans C context)"
    unfolding capture_fallback_plans_def by (intro db_rules)
  then show ?thesis
    unfolding captured_directory_recovery_action_plans_def
    by (auto split: option.split json.split intro!: db_rules)
qed

lemma db_unsupported: "keeps R (is_unsupported_automatic_rollback_batch S W batch)"
proof -
  have records: "keeps R (batch_recovery_records S batch)"
    unfolding batch_recovery_records_def by (intro db_rules)
  have mkdir: "keeps R (supports_mkdir_rollback S batch cs)" for cs
    unfolding supports_mkdir_rollback_def has_recursive_mkdir_rollback_proof_def by (intro db_rules records)
  have renames: "keeps R (has_rename_no_replace_rollback_proof S batch cs)" for cs
    unfolding has_rename_no_replace_rollback_proof_def by (intro db_rules records)
  have captures: "keeps R (has_capture_directory_rollback_proof S W batch cs)" for cs
    unfolding has_capture_directory_rollback_proof_def listed_context_def
    by (intro db_rules records db_captured_plans)
  show ?thesis
    unfolding is_unsupported_automatic_rollback_batch_def supports_automatic_transaction_rollback_def
      latest_batch_failure_payload_def Let_def
    by (intro db_rules records mkdir renames captures)
qed

lemma db_rollback_batch:
  assumes "keeps R (recover_transaction_batch S W X lease now batch)"
  shows "keeps R (rollback_batch S W X lease now batch)"
  unfolding rollback_batch_def
  by (intro db_rules db_unsupported db_cleanup assms) (auto intro!: db_rules)

lemma db_automatic:
  assumes "H = co_digest (ws_coordinator W)" and "\<And>batch. keeps R (recover_transaction_batch S W X lease now batch)"
  shows "keeps R (run_automatic_transaction_rollback S W X lease body_error now)"
  unfolding run_automatic_transaction_rollback_def
  by (intro db_rules db_eligible db_rollback_batch assms)

lemma db_pending_rollback:
  assumes "H = co_digest (ws_coordinator W)" and "\<And>batch. keeps R (recover_transaction_batch S W X lease now batch)"
  shows "keeps R (run_pending_transaction_rollback S W X lease now)"
  unfolding run_pending_transaction_rollback_def
  by (intro db_rules db_pending db_rollback_batch assms)

lemma db_committed: "keeps R (cleanup_committed_transaction_artifacts S W X existing)"
  unfolding cleanup_committed_transaction_artifacts_def Let_def by (intro db_rules db_cleanup)

end

subsection \<open>The histories of the journal\<close>

interpretation jr_db: db_relation "lawful_run H loads UNIV S" S H for H loads S
proof unfold_locales
  fix s s' :: "'a run_state"
  show "lawful_run H loads UNIV S s s'" if "run_db s' = run_db s"
    using that by (simp add: lawful_run_def journal_run_def)
next
  fix s :: "'a run_state" and db db' :: journal_db
  show "lawful_run H loads UNIV S (s\<lparr>run_db := db\<rparr>) (s\<lparr>run_db := db'\<rparr>)" if "lease_step UNIV db db'"
    by (rule lawful_run_step) (rule js_workspace [OF ws_lease [OF that]])
qed

end
