(* ===== verification/Transaction_Claims.thy ===== *)
theory Transaction_Claims
  imports Transaction_State Canonical_Json Program_Failures
begin

section \<open>The claims of a transaction over its life\<close>

text \<open>
  What a transaction knows of its claims is what the store has under its scope: from the first
  claim to the last release the two agree, whatever other processes do to other claims and to the
  lease. So the cleanup of a transaction always finds its claims and removes them all.
\<close>

subsection \<open>Programs on the state of a transaction\<close>

abbreviation tstate :: "'w transaction_world run_state \<Rightarrow> transaction_state" where
  "tstate s \<equiv> tw_state (run_world s)"

definition with_state :: "(transaction_state \<Rightarrow> transaction_state) \<Rightarrow> 'w transaction_world run_state \<Rightarrow> 'w transaction_world run_state" where
  "with_state f s = s\<lparr>run_world := run_world s\<lparr>tw_state := f (tstate s)\<rparr>\<rparr>"

lemma with_state_simps [simp]:
  "run_db (with_state f s) = run_db s" "run_tick (with_state f s) = run_tick s" "tstate (with_state f s) = f (tstate s)"
  by (simp_all add: with_state_def)

lemma wp_get_state [wp_rules]: "wp get_state Q E s = Q (tstate s) s"
  by (simp add: wp_def get_state_def)

lemma wp_modify [wp_rules]: "wp (modify f) Q E s = Q () (with_state f s)"
  by (simp add: wp_def modify_def with_state_def)

lemma wp_given_time: "(\<And>t. Q t s) \<Longrightarrow> wp (given_time S now) Q E s"
  by (simp add: given_time_def wp_rules split: option.split)

lemma wp_catching: "wp (catching P m) Q E s =
    wp m (\<lambda>x. Q (Inr x)) (\<lambda>e s'. if P e then Q (Inl e) s' else E e s') s"
  unfolding catching_def wp_attempt wp_bind wp_ret' case_if_Some ..

text \<open>A loop: one element at a time.\<close>

lemma wp_each_rest:
  assumes "\<And>x xs s. J (x # xs) s \<Longrightarrow> wp (f x) (\<lambda>_. J xs) E s" and "J xs s"
  shows "wp (each f xs) (\<lambda>_. J []) E s"
  using assms(2)
proof (induction xs arbitrary: s)
  case Nil
  then show ?case unfolding each.simps wp_ret .
next
  case (Cons x xs)
  have "wp (each f xs) (\<lambda>_. J []) E t" if "J xs t" for t by (rule Cons.IH [OF that])
  then show ?case
    unfolding each.simps wp_bind wp_ret'
    by (intro wp_mono [OF assms(1) [OF Cons.prems]]) simp_all
qed

subsection \<open>Claims under the scope\<close>

definition scope_claims :: "transaction_spec \<Rightarrow> 'a claim_db_scheme \<Rightarrow> string \<rightharpoonup> claim_record" where
  "scope_claims X db = (\<lambda>k. case claim_view db k of
      None \<Rightarrow> None
    | Some c \<Rightarrow> if claim_scope c = Some (claim_scope_of X) then Some c else None)"

definition own_claim :: "'w workspace \<Rightarrow> transaction_spec \<Rightarrow> lease_record \<Rightarrow> string \<Rightarrow> claim_record \<Rightarrow> bool" where
  "own_claim W X lease key c \<longleftrightarrow> claim_resource_key c = key \<and> key \<noteq> []
     \<and> claim_owner c = ws_owner W \<and> ws_owner W \<noteq> [] \<and> claim_scope c = Some (claim_scope_of X)
     \<and> claim_matches_lease_authority (co_digest (ws_coordinator W)) (co_loads (ws_coordinator W)) c lease"

text \<open>Other processes may do what they like, but not under the scope, whose id nobody else has.\<close>

definition private_scope :: "surroundings \<Rightarrow> transaction_spec \<Rightarrow> bool" where
  "private_scope S X \<longleftrightarrow> (\<forall>n db. claim_wf db \<and> lease_wf db \<longrightarrow>
     claim_wf (set_others S n db) \<and> lease_wf (set_others S n db) \<and> scope_claims X (set_others S n db) = scope_claims X db)"

text \<open>\<open>uuid4\<close> draws no empty id, and \<open>json.loads\<close> reads what \<open>json.dumps\<close> wrote.\<close>

definition fair_surroundings :: "surroundings \<Rightarrow> 'w workspace \<Rightarrow> bool" where
  "fair_surroundings S W \<longleftrightarrow> (\<forall>n k db. set_ids S n k db \<noteq> [])
     \<and> (\<forall>j. co_loads (ws_coordinator W) (ws_dumps W (canonical_json j)) = Some (canonical_json j))"

definition own_claims :: "'w workspace \<Rightarrow> transaction_spec \<Rightarrow> lease_record \<Rightarrow> (string \<rightharpoonup> claim_record) \<Rightarrow> bool" where
  "own_claims W X lease m \<longleftrightarrow> (\<forall>k c. m k = Some c \<longrightarrow> own_claim W X lease k c)"

definition holding :: "'w workspace \<Rightarrow> transaction_spec \<Rightarrow> lease_record \<Rightarrow> 'w transaction_world run_state \<Rightarrow> bool" where
  "holding W X lease s \<longleftrightarrow> claim_wf (run_db s) \<and> lease_wf (run_db s) \<and> scope_claims X (run_db s) = ts_claims (tstate s)
     \<and> distinct (ts_claim_release_order (tstate s))
     \<and> set (ts_claim_release_order (tstate s)) = dom (ts_claims (tstate s))
     \<and> own_claims W X lease (ts_claims (tstate s))"

lemma claim_text_authority:
  assumes "fair_surroundings S W" and "claim_id \<noteq> []"
    and "claim_details c = Some (claim_details_text W kind run_id lease claim_id)"
  shows "claim_matches_lease_authority (co_digest (ws_coordinator W)) (co_loads (ws_coordinator W)) c lease"
proof -
  have loads: "co_loads (ws_coordinator W) (ws_dumps W (canonical_json j)) = Some (canonical_json j)" for j
    using assms(1) by (simp add: fair_surroundings_def)
  show ?thesis
    unfolding claim_matches_lease_authority_def lease_bound_claim_details_def assms(3) claim_details_text_def
      option.case loads
    using assms(2) by (simp del: canonical_json.simps add: lease_claim_details_payload_def assoc_update_def)
      (simp add: py_int_def)
qed

lemma upsert_scope:
  assumes "upsert_claim key lease (ws_owner W) (Some (claim_scope_of X)) (Some text) now db = Inr (db', c)"
    and "claim_wf db" and "\<forall>c. claim_details c = Some text
      \<longrightarrow> claim_matches_lease_authority (co_digest (ws_coordinator W)) (co_loads (ws_coordinator W)) c lease"
  shows "claim_wf db'" "scope_claims X db' = (scope_claims X db)(key \<mapsto> c)" "own_claim W X lease key c"
    "lease_table db' = lease_table db"
proof -
  note ok = upsert_ok [OF assms(1)]
  show "claim_wf db'" by (rule ok(4) [OF assms(2)])
  show "lease_table db' = lease_table db" using ok(1) by auto
  have ne: "key \<noteq> []" "ws_owner W \<noteq> []"
    using assms(1) by (auto simp: upsert_claim_def res_simps)
  have c: "claim_view db' = (claim_view db)(key \<mapsto> c) \<and> claim_resource_key c = key
    \<and> claim_owner c = ws_owner W \<and> claim_scope c = Some (claim_scope_of X) \<and> claim_details c = Some text"
    using ok(3) claim_view_key [of db key]
    by (auto simp: spec_upsert_def ne conflicts_def new_claim_def Let_def split: option.splits if_splits)
  show "scope_claims X db' = (scope_claims X db)(key \<mapsto> c)"
    using c by (auto simp: scope_claims_def fun_eq_iff)
  show "own_claim W X lease key c"
    using c ne assms(3) by (simp add: own_claim_def)
qed

lemma release_scope:
  assumes "claim_wf db" and "scope_claims X db key = Some c" and "own_claim W X lease key c"
  shows "\<exists>db'. release_claim_in_connection key (ws_owner W) (Some (claim_scope_of X)) (Some c) db = (db', True)
    \<and> claim_wf db' \<and> scope_claims X db' = (scope_claims X db)(key := None) \<and> lease_table db' = lease_table db"
proof -
  have view: "claim_view db key = Some c" using assms(2) by (auto simp: scope_claims_def split: option.splits if_splits)
  obtain db' r where r: "release_claim_in_connection key (ws_owner W) (Some (claim_scope_of X)) (Some c) db = (db', r)"
    by fastforce
  have spec: "(claim_view db', r) = spec_release_claim key (ws_owner W) (Some (claim_scope_of X)) (Some c) (claim_view db)"
    using release_connection_refines [OF assms(1), of key "ws_owner W" "Some (claim_scope_of X)" "Some c"] r by simp
  then have "claim_view db' = (claim_view db)(key := None)" "r"
    using view assms(3) by (simp_all add: spec_release_claim_def release_matches_def own_claim_def)
  moreover have "claim_wf db'"
    using release_connection_wf [OF assms(1), of key "ws_owner W" "Some (claim_scope_of X)" "Some c"] r by simp
  moreover have "lease_table db' = lease_table db"
    using release_connection_frame [of key "ws_owner W" "Some (claim_scope_of X)" "Some c" db] r by auto
  ultimately show ?thesis using r by (auto simp: scope_claims_def fun_eq_iff)
qed

text \<open>The state without the claims: what the loops over the claims leave alone.\<close>

definition bare :: "transaction_state \<Rightarrow> transaction_state" where
  "bare t = t\<lparr>ts_claims := Map.empty, ts_claim_release_order := []\<rparr>"

lemma bare_simps [simp]: "bare (forget_claim key t) = bare t" "bare (remember_claim c t) = bare t" "bare (bare t) = bare t"
  by (simp_all add: bare_def forget_claim_def remember_claim_def Let_def)

lemma bare_eqD:
  assumes "bare t = bare t'"
  shows "ts_lease t = ts_lease t'" "ts_heartbeat t = ts_heartbeat t'" "ts_entered t = ts_entered t'"
    "ts_cleanup_error t = ts_cleanup_error t'" "ts_closed t = ts_closed t'"
  using assms unfolding bare_def by (cases t; cases t'; simp)+

subsection \<open>Claiming\<close>

lemma holding_others:
  assumes "private_scope S X" and "holding W X lease s"
  shows "holding W X lease (s\<lparr>run_db := set_others S n (run_db s), run_tick := k\<rparr>)"
  using assms by (simp add: private_scope_def holding_def)

lemma holding_claimed:
  assumes "holding W X lease s" and "claim_wf db'" and "lease_wf db'" and "scope_claims X db' = (scope_claims X (run_db s))(key \<mapsto> c)"
    and "own_claim W X lease key c"
  shows "holding W X lease (with_state (remember_claim c) (s\<lparr>run_db := db', run_tick := k\<rparr>))"
  using assms by (auto simp: holding_def remember_claim_def Let_def own_claims_def own_claim_def)

lemma wp_claim:
  assumes env: "private_scope S X" "fair_surroundings S W" and h: "holding W X lease s"
  shows "wp (claim_resource_key_for S W X lease key kind now)
    (\<lambda>c s'. holding W X lease s' \<and> dom (ts_claims (tstate s')) = insert key (dom (ts_claims (tstate s)))
       \<and> bare (tstate s') = bare (tstate s) \<and> ts_claims (tstate s') key = Some c)
    (\<lambda>_ s'. holding W X lease s' \<and> tstate s' = tstate s) s"
  unfolding claim_resource_key_for_def wp_bind wp_modify wp_ret
proof (rule wp_given_time, rule wp_transact, goal_cases)
  case (1 t db)
  let ?s = "s\<lparr>run_db := db, run_tick := Suc (run_tick s)\<rparr>"
  have h': "holding W X lease ?s" unfolding 1 by (rule holding_others [OF env(1) h])
  have authority: "\<forall>c. claim_details c = Some (claim_details_text W kind (tx_run_id X) lease (set_ids S n 0 db))
      \<longrightarrow> claim_matches_lease_authority (co_digest (ws_coordinator W)) (co_loads (ws_coordinator W)) c lease" for n
  proof (intro allI impI)
    fix c :: claim_record
    assume c: "claim_details c = Some (claim_details_text W kind (tx_run_id X) lease (set_ids S n 0 db))"
    show "claim_matches_lease_authority (co_digest (ws_coordinator W)) (co_loads (ws_coordinator W)) c lease"
      by (rule claim_text_authority [OF env(2) _ c]) (use env(2) in \<open>simp add: fair_surroundings_def\<close>)
  qed
  show ?case
  proof (cases "upsert_claim key lease (ws_owner W) (Some (claim_scope_of X))
      (Some (claim_details_text W kind (tx_run_id X) lease (set_ids S (run_tick s) 0 db))) t db")
    case (Inl e)
    then show ?thesis using h' by simp
  next
    case (Inr x)
    obtain db' c where x: "x = (db', c)" by (cases x)
    have wf: "claim_wf db" "lease_wf db" using h' by (simp_all add: holding_def)
    note up = upsert_scope [OF Inr [unfolded x] wf(1) authority]
    have key: "claim_resource_key c = key" using up(3) by (simp add: own_claim_def)
    have "holding W X lease (with_state (remember_claim c) (?s\<lparr>run_db := db', run_tick := Suc (run_tick s)\<rparr>))"
      by (rule holding_claimed [OF h' up(1) _ _ up(3)]) (use up(2) wf(2) lease_same_table(2) [OF up(4)] in simp_all)
    then show ?thesis using key by (simp add: Inr x) (simp add: remember_claim_def Let_def)
  qed
qed

subsection \<open>Releasing\<close>

lemma holding_forgotten:
  assumes "holding W X lease s" and "claim_wf db'" and "lease_wf db'"
    and "scope_claims X db' = (scope_claims X (run_db s))(key := None)"
  shows "holding W X lease (with_state (forget_claim key) (s\<lparr>run_db := db', run_tick := k\<rparr>))"
  using assms by (auto simp: holding_def forget_claim_def own_claims_def)

lemma wp_release_claim_call:
  fixes s :: "'w transaction_world run_state"
  assumes env: "private_scope S X" and h: "holding W X lease s" and c: "ts_claims (tstate s) key = Some c"
  shows "wp (release_claim_call S W X lease now key c)
    (\<lambda>r s'. r \<and> holding W X lease (with_state (forget_claim key) s') \<and> tstate s' = tstate s) (\<lambda>_ _. False) s"
proof -
  have own: "own_claim W X lease key c" using h c by (simp add: holding_def own_claims_def)
  then have facts: "key \<noteq> []" "ws_owner W \<noteq> []" "claim_resource_key c = key"
    "claim_matches_lease_authority (co_digest (ws_coordinator W)) (co_loads (ws_coordinator W)) c lease"
    by (simp_all add: own_claim_def)
  have released: "\<exists>db'. release_claim_in_connection key (ws_owner W) (Some (claim_scope_of X)) (Some c) db = (db', True)
      \<and> holding W X lease (with_state (forget_claim key) (s'\<lparr>run_db := db', run_tick := k\<rparr>))"
    if s': "holding W X lease s'" "run_db s' = db" "tstate s' = tstate s" for s' :: "'w transaction_world run_state" and db k
  proof -
    have "claim_wf db" "lease_wf db" "scope_claims X db key = Some c" using s' c by (auto simp: holding_def)
    then obtain db' where db': "release_claim_in_connection key (ws_owner W) (Some (claim_scope_of X)) (Some c) db = (db', True)"
      "claim_wf db'" "scope_claims X db' = (scope_claims X db)(key := None)" "lease_table db' = lease_table db"
      using release_scope [OF _ _ own] by blast
    have "lease_wf db'" using \<open>lease_wf db\<close> lease_same_table(2) [OF db'(4)] by simp
    then show ?thesis using db' holding_forgotten [OF s'(1) db'(2)] s'(2) by simp
  qed
  show ?thesis
    unfolding release_claim_call_def wp_attempt
  proof (rule wp_transact, goal_cases)
    case (1 db)
    let ?s = "s\<lparr>run_db := db, run_tick := Suc (run_tick s)\<rparr>"
    have h': "holding W X lease ?s" unfolding 1 by (rule holding_others [OF env h])
    show ?case
    proof (cases "lease_is_current db lease now")
      case True
      obtain db' where db': "release_claim_in_connection key (ws_owner W) (Some (claim_scope_of X)) (Some c) db = (db', True)"
        "holding W X lease (with_state (forget_claim key) (?s\<lparr>run_db := db', run_tick := Suc (run_tick s)\<rparr>))"
        using released [OF h', of db "Suc (run_tick s)"] by auto
      have "release_claim key lease (ws_owner W) (Some (claim_scope_of X)) (Some c) now db = Inr (db', True)"
        using True facts db'(1) by (simp add: release_claim_ok)
      then show ?thesis using db'(2) by simp
    next
      case False
      then have lost: "release_claim key lease (ws_owner W) (Some (claim_scope_of X)) (Some c) now db = Inl LeaseLostError"
        using facts by (simp add: release_claim_def require_current_lease_def validate_required_def require_def)
      have "wp (transact S (\<lambda>_ db. release_if_owner_scope_matches (co_digest (ws_coordinator W)) (co_loads (ws_coordinator W))
          key lease (ws_owner W) (Some (claim_scope_of X)) (Some c) now db))
        (\<lambda>r s'. r \<and> holding W X lease (with_state (forget_claim key) s') \<and> tstate s' = tstate s) (\<lambda>_ _. False) ?s"
      proof (rule wp_transact, goal_cases)
        case (1 db2)
        have "holding W X lease (?s\<lparr>run_db := db2, run_tick := Suc (run_tick ?s)\<rparr>)"
          unfolding 1 by (rule holding_others [OF env h'])
        then obtain db' where db': "release_claim_in_connection key (ws_owner W) (Some (claim_scope_of X)) (Some c) db2 = (db', True)"
          "holding W X lease (with_state (forget_claim key)
             (?s\<lparr>run_db := db2, run_tick := Suc (run_tick ?s)\<rparr>\<lparr>run_db := db', run_tick := Suc (run_tick ?s)\<rparr>))"
          using released [of "?s\<lparr>run_db := db2, run_tick := Suc (run_tick ?s)\<rparr>" db2 "Suc (run_tick ?s)"] by auto
        have "release_if_owner_scope_matches (co_digest (ws_coordinator W)) (co_loads (ws_coordinator W))
            key lease (ws_owner W) (Some (claim_scope_of X)) (Some c) now db2 = Inr (db', True)"
          using facts db'(1) by (simp add: release_if_ok)
        then show ?case using db'(2) by simp
      qed
      then show ?thesis by (simp add: lost)
    qed
  qed
qed

lemma holding_bare: "holding W X lease s \<Longrightarrow> ts_claim_release_order (tstate s) = [] \<Longrightarrow>
    ts_claims (tstate s) = Map.empty \<and> tstate s = bare (tstate s) \<and> scope_claims X (run_db s) = Map.empty"
  by (cases "tstate s") (auto simp: holding_def bare_def dest!: sym [of "{}"])

lemma wp_release_claim_at:
  assumes env: "private_scope S X" and h: "holding W X lease s" and next_key: "rev (ts_claim_release_order (tstate s)) = key # keys"
  shows "wp (release_claim_at S W X lease now tol key)
    (\<lambda>_ s'. holding W X lease s' \<and> rev (ts_claim_release_order (tstate s')) = keys \<and> bare (tstate s') = bare (tstate s))
    (\<lambda>_ _. False) s"
proof -
  have order: "ts_claim_release_order (tstate s) = rev keys @ [key]" using next_key by (simp add: rev_eq_Cons_iff)
  then have "distinct (rev keys @ [key])" "key \<in> dom (ts_claims (tstate s))" using h by (auto simp: holding_def)
  then obtain c where c: "ts_claims (tstate s) key = Some c" and rest: "remove1 key (rev keys @ [key]) = rev keys"
    by (auto simp: remove1_append)
  have forgotten: "ts_claim_release_order (forget_claim key (tstate s)) = rev keys" by (simp add: forget_claim_def order rest)
  show ?thesis
    unfolding release_claim_at_def wp_bind wp_get_state c option.case
    by (rule wp_mono [OF wp_release_claim_call [OF env h c]]) (simp_all add: wp_modify forgotten)
qed

lemma wp_release_claims:
  assumes env: "private_scope S X" and h: "holding W X lease s" and "ts_lease (tstate s) = Some lease"
  shows "wp (release_claims_at S W X now tol)
    (\<lambda>_ s'. holding W X lease s' \<and> scope_claims X (run_db s') = Map.empty \<and> tstate s' = bare (tstate s)) (\<lambda>_ _. False) s"
proof -
  let ?J = "\<lambda>xs s'. holding W X lease s' \<and> rev (ts_claim_release_order (tstate s')) = xs \<and> bare (tstate s') = bare (tstate s)"
  have "wp (each (release_claim_at S W X lease now tol) (rev (ts_claim_release_order (tstate s)))) (\<lambda>_. ?J []) (\<lambda>_ _. False) s"
  proof (rule wp_each_rest [where J = ?J])
    fix x xs s'
    assume "?J (x # xs) s'"
    then show "wp (release_claim_at S W X lease now tol x) (\<lambda>_. ?J xs) (\<lambda>_ _. False) s'"
      by (intro wp_mono [OF wp_release_claim_at [OF env]]) auto
  qed (simp add: h)
  then show ?thesis
    unfolding release_claims_at_def wp_bind wp_get_state assms(3) option.case wp_ret'
    by (rule wp_mono) (auto dest: holding_bare)
qed

subsection \<open>The cleanup\<close>

text \<open>The thread of the heartbeat has not failed, or does not run.\<close>

definition heartbeat_sound :: "surroundings \<Rightarrow> transaction_state \<Rightarrow> bool" where
  "heartbeat_sound S t \<longleftrightarrow> ts_heartbeat t = Some True \<longrightarrow> set_thread_error S = (\<lambda>_. None)"

lemma wp_stop_heartbeat:
  assumes "heartbeat_sound S (tstate s)"
  shows "wp (stop_lease_heartbeat S) (\<lambda>_ s'. s' = with_state (\<lambda>t. t\<lparr>ts_heartbeat := None\<rparr>) s) (\<lambda>_ _. False) s"
  using assms by (simp add: stop_lease_heartbeat_def wp_bind wp_get_state wp_modify wp_if wp_ret' heartbeat_sound_def)
    (simp add: wp_def raise_if_failed_def)

text \<open>The thread runs, and has failed.\<close>

definition heartbeat_failed :: "surroundings \<Rightarrow> transaction_state \<Rightarrow> bool" where
  "heartbeat_failed S t \<longleftrightarrow> ts_heartbeat t = Some True \<and> set_thread_error S \<noteq> (\<lambda>_. None)"

lemma wp_stop_any:
  "wp (stop_lease_heartbeat S) (\<lambda>_ s'. s' = with_state (\<lambda>t. t\<lparr>ts_heartbeat := None\<rparr>) s)
    (\<lambda>_ s'. s' = with_state (\<lambda>t. t\<lparr>ts_heartbeat := None\<rparr>) s \<and> heartbeat_failed S (tstate s)) s"
  by (simp add: stop_lease_heartbeat_def wp_bind wp_get_state wp_modify wp_if wp_ret' heartbeat_failed_def)
    (auto simp: wp_def raise_if_failed_def split: option.split)

text \<open>What the cleanup leaves behind: nothing, or, when the thread of the heartbeat has failed, the claims.\<close>

definition untouched ::
  "surroundings \<Rightarrow> 'w transaction_world run_state \<Rightarrow> 'w transaction_world run_state \<Rightarrow> bool" where
  "untouched S s s' \<longleftrightarrow> heartbeat_failed S (tstate s) \<and> run_db s' = run_db s
     \<and> ts_claims (tstate s') = ts_claims (tstate s) \<and> ts_entered (tstate s') = ts_entered (tstate s)"

definition cleaned ::
  "surroundings \<Rightarrow> transaction_spec \<Rightarrow> lease_record \<Rightarrow> transaction_state \<Rightarrow> failure option \<Rightarrow> 'w transaction_world run_state \<Rightarrow> bool" where
  "cleaned S X lease t r s' \<longleftrightarrow> scope_claims X (run_db s') = Map.empty
     \<and> tstate s' = (bare t)\<lparr>ts_heartbeat := None, ts_lease := None\<rparr>
     \<and> (r = None \<longrightarrow> (\<forall>n db. set_ids S n 0 db \<noteq> lease_token lease) \<longrightarrow> (\<forall>now. \<not> lease_is_current (run_db s') lease now))"

lemma wp_cleanup_any:
  assumes env: "private_scope S X" and h: "holding W X lease s" and l: "ts_lease (tstate s) = Some lease"
  shows "wp (cleanup_transaction S W X) (\<lambda>e s'. cleaned S X lease (tstate s) e s' \<or> untouched S s s') (\<lambda>_. untouched S s) s"
  unfolding cleanup_transaction_def wp_bind wp_get_state l option.case wp_clock wp_catching
proof (rule wp_mono [OF wp_stop_any], goal_cases)
  case (1 u s1)
  have h1: "holding W X lease s1" and l1: "ts_lease (tstate s1) = Some lease" using h l by (simp_all add: 1 holding_def)
  show ?case
    unfolding sum.case wp_bind wp_catching
  proof (rule wp_mono [OF wp_release_claims [OF env h1 l1]], goal_cases)
    case (1 u2 s2)
    show ?case
      unfolding sum.case wp_bind release_lease_def
    proof (rule wp_transact, goal_cases)
      case (1 db)
      let ?s = "s2\<lparr>run_db := db, run_tick := Suc (run_tick s2)\<rparr>"
      have "holding W X lease ?s" unfolding 1 by (rule holding_others [OF env]) (use \<open>holding W X lease s2 \<and> _\<close> in simp)
      then have wf: "lease_wf db" and empty: "scope_claims X db = Map.empty"
        using \<open>holding W X lease s2 \<and> _\<close> by (auto simp: holding_def)
      obtain t b where rel: "release lease (set_ids S (run_tick s2) 0 db) (set_clock S (run_tick s)) db = Inr (db\<lparr>lease_table := t\<rparr>, b)"
        using release_refines [OF wf] by blast
      have "\<not> lease_is_current (db\<lparr>lease_table := t\<rparr>) lease now" if "b" "\<forall>n db. set_ids S n 0 db \<noteq> lease_token lease" for now
        by (rule revoked_not_current [OF release_ok(2) [OF wf rel] release_true(2) [OF wf rel that(1)]]) (use that(2) in metis)
      moreover have "scope_claims X (db\<lparr>lease_table := t\<rparr>) = Map.empty"
        using empty by (simp add: scope_claims_def claim_view_def)
      ultimately show ?case
        unfolding rel sum.case prod.case drop_lease_def wp_bind wp_modify wp_ret cleaned_def
        using \<open>holding W X lease s2 \<and> _\<close> by (simp add: \<open>s1 = _\<close> bare_def)
    qed
  qed simp
next
  case (2 e s1)
  then have "untouched S s s1" by (simp add: untouched_def)
  then show ?case by (simp add: wp_bind wp_ret drop_lease_def wp_modify untouched_def)
qed

lemma wp_cleanup:
  assumes "private_scope S X" and "holding W X lease s" and "ts_lease (tstate s) = Some lease"
    and sound: "heartbeat_sound S (tstate s)"
  shows "wp (cleanup_transaction S W X) (cleaned S X lease (tstate s)) (\<lambda>_ _. False) s"
  by (rule wp_mono [OF wp_cleanup_any [OF assms(1-3)]])
    (use sound in \<open>auto simp: untouched_def heartbeat_failed_def heartbeat_sound_def\<close>)


subsection \<open>The start\<close>

lemma wp_claim_resources:
  assumes env: "private_scope S X" "fair_surroundings S W" and h: "holding W X lease s"
    and none: "ts_claims (tstate s) = Map.empty"
  shows "wp (claim_resources S W X lease)
    (\<lambda>_ s'. holding W X lease s' \<and> dom (ts_claims (tstate s')) = rh_resource_key ` snd ` set (tx_resources X)
       \<and> bare (tstate s') = bare (tstate s))
    (\<lambda>_ s'. holding W X lease s' \<and> bare (tstate s') = bare (tstate s)) s"
proof -
  let ?all = "rh_resource_key ` snd ` set (tx_resources X)"
  let ?J = "\<lambda>rs s'. holding W X lease s' \<and> dom (ts_claims (tstate s')) \<union> rh_resource_key ` set (rs :: resource_handle list) = ?all
     \<and> bare (tstate s') = bare (tstate s)"
  let ?E = "\<lambda>_ s'. holding W X lease s' \<and> bare (tstate s') = bare (tstate s)"
  have "wp (each (\<lambda>r. claim_resource_key_for S W X lease (rh_resource_key r) (resource_kind_text (rh_kind r)) (tx_now X))
      (sorted_resources (tx_resources X))) (\<lambda>_. ?J []) ?E s"
  proof (rule wp_each_rest [where J = ?J])
    fix r rs s'
    assume "?J (r # rs) s'"
    then show "wp (claim_resource_key_for S W X lease (rh_resource_key r) (resource_kind_text (rh_kind r)) (tx_now X)) (\<lambda>_. ?J rs) ?E s'"
      by (intro wp_mono [OF wp_claim [OF env]]) auto
  qed (use h none in \<open>auto simp: sorted_resources_def image_image\<close>)
  then show ?thesis
    unfolding claim_resources_def wp_bind wp_ret' by (rule wp_mono) auto
qed

text \<open>The state from which a transaction starts: its scope is new, so nothing is claimed under it.\<close>

definition unopened :: "transaction_spec \<Rightarrow> 'w transaction_world run_state \<Rightarrow> bool" where
  "unopened X s \<longleftrightarrow> claim_wf (run_db s) \<and> lease_wf (run_db s) \<and> scope_claims X (run_db s) = Map.empty
     \<and> bare (tstate s) = tstate s \<and> ts_lease (tstate s) = None \<and> ts_heartbeat (tstate s) = None \<and> \<not> ts_entered (tstate s)"

text \<open>Entered: the lease is granted, and every resource is claimed under the scope, bound to the lease.\<close>

definition opened :: "'w workspace \<Rightarrow> transaction_spec \<Rightarrow> 'w transaction_world run_state \<Rightarrow> bool" where
  "opened W X s \<longleftrightarrow> (\<exists>lease. ts_lease (tstate s) = Some lease \<and> lease_acquired lease \<and> holding W X lease s)
     \<and> ts_entered (tstate s) \<and> dom (ts_claims (tstate s)) = rh_resource_key ` snd ` set (tx_resources X)"

definition not_opened :: "transaction_spec \<Rightarrow> 'w transaction_world run_state \<Rightarrow> bool" where
  "not_opened X s \<longleftrightarrow> \<not> ts_entered (tstate s) \<and> scope_claims X (run_db s) = Map.empty \<and> ts_claims (tstate s) = Map.empty"

text \<open>
  After a failed entry the transaction remembers exactly the claims that are left under its scope;
  and none is left unless the thread of the heartbeat can fail.
\<close>

definition entry_failed :: "surroundings \<Rightarrow> transaction_spec \<Rightarrow> 'w transaction_world run_state \<Rightarrow> bool" where
  "entry_failed S X s \<longleftrightarrow> \<not> ts_entered (tstate s) \<and> scope_claims X (run_db s) = ts_claims (tstate s)
     \<and> (set_thread_error S = (\<lambda>_. None) \<longrightarrow> not_opened X s)"

lemma not_opened_failed: "not_opened X s \<Longrightarrow> entry_failed S X s"
  by (simp add: not_opened_def entry_failed_def)

lemma wp_entry_failure:
  assumes env: "private_scope S X" and h: "holding W X lease s" and l: "ts_lease (tstate s) = Some lease"
    and "\<not> ts_entered (tstate s)"
  shows "wp (entry_failure S W X e) (\<lambda>_ _. False) (\<lambda>_. entry_failed S X) s"
  unfolding entry_failure_def wp_bind wp_modify wp_raise
proof (rule wp_mono [OF wp_cleanup_any [OF env h l]])
  have kept: "entry_failed S X s'" if "untouched S s s'" for s'
    using that h assms(4) by (simp add: untouched_def heartbeat_failed_def entry_failed_def holding_def)
  then show "\<And>e s'. untouched S s s' \<Longrightarrow> entry_failed S X s'" .
  fix e s'
  assume "cleaned S X lease (tstate s) e s' \<or> untouched S s s'"
  then have "entry_failed S X s'"
    using kept assms(4) by (auto simp: cleaned_def entry_failed_def not_opened_def bare_def)
  then show "entry_failed S X (with_state (\<lambda>t. t\<lparr>ts_cleanup_error := e, ts_lease := None\<rparr>) s')"
    by (simp add: entry_failed_def not_opened_def)
qed

lemma wp_start_heartbeat:
  assumes env: "private_scope S X" and h: "holding W X lease s"
  shows "wp (start_lease_heartbeat S W X lease')
    (\<lambda>_ s'. holding W X lease s' \<and> (\<exists>b. tstate s' = (tstate s)\<lparr>ts_heartbeat := Some b\<rparr>))
    (\<lambda>_ s'. holding W X lease s' \<and> tstate s' = (tstate s)\<lparr>ts_heartbeat := Some False\<rparr>) s"
proof (cases "tx_now X = None \<and> 0 < ws_lease_ttl W")
  case False
  then show ?thesis using h by (auto simp: start_lease_heartbeat_def wp_bind wp_modify wp_ret holding_def)
next
  case True
  let ?s = "with_state (\<lambda>t. t\<lparr>ts_heartbeat := Some False\<rparr>) s"
  have h1: "holding W X lease ?s" using h by (simp add: holding_def)
  have "wp (transact S (\<lambda>_ db. heartbeat_once lease' (ws_lease_ttl W) now db))
     (\<lambda>_ s'. holding W X lease s' \<and> tstate s' = tstate ?s) (\<lambda>_ s'. holding W X lease s' \<and> tstate s' = tstate ?s) ?s" for now
  proof (rule wp_transact, goal_cases)
    case (1 db)
    have h2: "holding W X lease (?s\<lparr>run_db := db, run_tick := Suc (run_tick ?s)\<rparr>)"
      unfolding 1 by (rule holding_others [OF env h1])
    show ?case
    proof (cases "heartbeat_once lease' (ws_lease_ttl W) now db")
      case (Inl e)
      then show ?thesis using h2 by simp
    next
      case (Inr x)
      then obtain db' rec where "heartbeat lease' (ws_lease_ttl W) now db = Inr (db', rec)" "x = (db', ())"
        by (auto simp: heartbeat_once_def res_bind_Inr split: option.splits)
      moreover have "lease_wf db" using h2 by (simp add: holding_def)
      ultimately obtain t where "x = (db\<lparr>lease_table := t\<rparr>, ())" "lease_wf (db\<lparr>lease_table := t\<rparr>)"
        using heartbeat_ok(1,2) [of db lease' "ws_lease_ttl W" now db' rec] by auto
      then show ?thesis using h2 Inr by (simp add: holding_def scope_claims_def claim_view_def claim_wf_def)
    qed
  qed
  then show ?thesis
    unfolding start_lease_heartbeat_def wp_bind wp_modify
    using True by (simp add: wp_bind wp_clock wp_modify) (rule wp_mono, assumption, auto simp: holding_def wp_modify)
qed

lemma wp_enter_any:
  assumes env: "private_scope S X" "fair_surroundings S W" and start: "unopened X s"
  shows "wp (enter_transaction S W X) (\<lambda>_. opened W X) (\<lambda>_. entry_failed S X) s"
proof -
  have start': "claim_wf (run_db s)" "lease_wf (run_db s)" "scope_claims X (run_db s) = Map.empty" "\<not> ts_entered (tstate s)"
    "ts_claims (tstate s) = Map.empty" "ts_claim_release_order (tstate s) = []"
    using start by (auto simp: unopened_def bare_def dest: arg_cong [where f = ts_claims] arg_cong [where f = ts_claim_release_order])
  have idle: "holding W X lease (with_state (\<lambda>t. t\<lparr>ts_lease := l\<rparr>) (s\<lparr>run_db := db, run_tick := k\<rparr>))"
    if "claim_wf db" "lease_wf db" "scope_claims X db = Map.empty" for lease l db k
    using that start' by (simp add: holding_def own_claims_def)
  have quiet: "entry_failed S X (s\<lparr>run_db := db, run_tick := k\<rparr>)" if "scope_claims X db = Map.empty" for db k
    using that start' by (simp add: entry_failed_def not_opened_def)
  have quiet0: "entry_failed S X s" using start' by (simp add: entry_failed_def not_opened_def)
  have claimed: "wp (attempt (claim_resources S W X lease) (\<lambda>e. Some (entry_failure S W X e)))
      (\<lambda>_ s'. holding W X lease s' \<and> dom (ts_claims (tstate s')) = rh_resource_key ` snd ` set (tx_resources X)
         \<and> ts_lease (tstate s') = Some lease) (\<lambda>_. entry_failed S X) s2"
    if "holding W X lease s2" "ts_claims (tstate s2) = Map.empty" "ts_lease (tstate s2) = Some lease"
      "\<not> ts_entered (tstate s2)" for lease s2
    unfolding wp_attempt
  proof (rule wp_mono [OF wp_claim_resources [OF env that(1,2)]], goal_cases)
    case (1 u s3)
    then show ?case using that bare_eqD(1) [of "tstate s3" "tstate s2"] by simp
  next
    case (2 e s3)
    then have "ts_lease (tstate s3) = Some lease" "\<not> ts_entered (tstate s3)"
      using that bare_eqD [of "tstate s3" "tstate s2"] by simp_all
    then have "wp (entry_failure S W X e) (\<lambda>_ _. False) (\<lambda>_. entry_failed S X) s3"
      using 2 by (intro wp_entry_failure [OF env(1)]) auto
    then show ?case unfolding option.case by (rule wp_mono) auto
  qed
  have granted: "wp (start_lease_heartbeat S W X lease) (\<lambda>_ s1.
        wp (modify (\<lambda>t. t\<lparr>ts_cleanup_error := None\<rparr>)) (\<lambda>_ s2.
        wp (attempt (claim_resources S W X lease) (\<lambda>e. Some (entry_failure S W X e))) (\<lambda>_ s3.
        wp (modify (\<lambda>t. t\<lparr>ts_entered := True\<rparr>)) (\<lambda>_. opened W X) (\<lambda>_. entry_failed S X) s3)
          (\<lambda>_. entry_failed S X) s2) (\<lambda>_. entry_failed S X) s1) (\<lambda>_. entry_failed S X) s0"
    if "holding W X lease s0" "ts_claims (tstate s0) = Map.empty" "ts_lease (tstate s0) = Some lease"
      "\<not> ts_entered (tstate s0)" "lease_acquired lease" for lease s0
  proof (rule wp_mono [OF wp_start_heartbeat [OF env(1) that(1)]], goal_cases)
    case (1 u s1)
    let ?s = "with_state (\<lambda>t. t\<lparr>ts_cleanup_error := None\<rparr>) s1"
    from 1 obtain b where b: "tstate s1 = (tstate s0)\<lparr>ts_heartbeat := Some b\<rparr>" by blast
    have "holding W X lease ?s" using 1 by (simp add: holding_def)
    then show ?case
      unfolding wp_modify
      by (rule wp_mono [OF claimed])
        (use that b in \<open>auto simp: opened_def holding_def intro!: exI [of _ lease]\<close>)
  next
    case (2 e s1)
    then show ?case using that by (auto simp: entry_failed_def not_opened_def holding_def)
  qed
  have acquired: "wp (transact S (\<lambda>ids db. acquire (ws_lease_name W) (ws_owner W) (ws_lease_ttl W) None (ids 0) now db))
      (\<lambda>lease s'. \<exists>db k. s' = s\<lparr>run_db := db, run_tick := k\<rparr> \<and> claim_wf db \<and> lease_wf db \<and> scope_claims X db = Map.empty)
      (\<lambda>_. entry_failed S X) s" for now
  proof (rule wp_transact, goal_cases)
    case (1 db)
    have db: "claim_wf db" "lease_wf db" "scope_claims X db = Map.empty"
      using env(1) start' by (simp_all add: 1 private_scope_def)
    show ?case
    proof (cases "acquire (ws_lease_name W) (ws_owner W) (ws_lease_ttl W) None (set_ids S (run_tick s) 0 db) now db")
      case (Inl e)
      then show ?thesis using quiet db by simp
    next
      case (Inr x)
      obtain db' lease where x: "x = (db', lease)" by (cases x)
      note ok = acquire_ok [OF db(2) Inr [unfolded x]]
      then have "claim_wf db'" "scope_claims X db' = Map.empty"
        using db by (auto simp: claim_wf_def scope_claims_def claim_view_def)
      then show ?thesis using ok(2) by (auto simp: Inr x)
    qed
  qed
  show ?thesis
    unfolding enter_transaction_def wp_if wp_bind wp_get_state wp_raise wp_modify
    using quiet0
    by (simp, intro conjI impI wp_given_time wp_mono [OF acquired])
      (auto simp: quiet idle start' intro!: granted [unfolded wp_modify])
qed

lemma wp_enter:
  assumes "private_scope S X" "fair_surroundings S W" and sound: "set_thread_error S = (\<lambda>_. None)" and "unopened X s"
  shows "wp (enter_transaction S W X) (\<lambda>_. opened W X) (\<lambda>_. not_opened X) s"
  by (rule wp_mono [OF wp_enter_any [OF assms(1,2,4)]]) (simp_all add: entry_failed_def sound)

end
