(* ===== verification/Transaction_Properties.thy ===== *)
theory Transaction_Properties
  imports Transaction_Claims Mutation_Properties "HOL-Library.Countable"
begin

section \<open>Properties of transactions\<close>

text \<open>
  What the start and the end of a transaction do to its claims and its lease, with a sample
  transaction on one file.
\<close>

subsection \<open>A sample transaction\<close>

text \<open>A coding of JSON values as text, in place of \<open>json.dumps\<close>.\<close>

instance json :: countable by countable_datatype

definition coded_dumps :: "json \<Rightarrow> string" where
  "coded_dumps j = replicate (to_nat j) CHR ''x''"

definition coded_loads :: "string \<Rightarrow> json option" where
  "coded_loads text_of = Some (from_nat (length text_of))"

lemma coded_loads_dumps: "coded_loads (coded_dumps j) = Some j"
  by (simp add: coded_loads_def coded_dumps_def)

definition sample_handling :: "sample_world handling" where
  "sample_handling = \<lparr>hd_handlers = (\<lambda>_. None), hd_tree_plans = (\<lambda>_ _. Inr []),
     hd_captured_plans = (\<lambda>_ _. Inr []), hd_same_object = (=)\<rparr>"

definition sample_captures :: "sample_world capture_calls" where
  "sample_captures = \<lparr>cc_os = \<lparr>os_env = \<lparr>env_cwd = path_of ''/'', env_expanduser = id\<rparr>, os_is_symlink = (\<lambda>p w. (Inr False, w)),
       os_exists = (\<lambda>p w. (Inr False, w)), os_is_file = (\<lambda>p w. (Inr False, w)), os_is_dir = (\<lambda>p w. (Inr False, w)),
       os_is_mount = (\<lambda>p w. (Inr False, w)), os_lstat = (\<lambda>p w. (Inl (Raised FileNotFoundError), w)),
       os_stat = (\<lambda>p w. (Inl (Raised FileNotFoundError), w)), os_rename_no_replace = (\<lambda>p q w. (Inl (Raised OSError), w))\<rparr>,
     cc_record_id = (\<lambda>_. ''id''), cc_require_token = (\<lambda>p d t w. (Inl (Raised UnsafePathError), w)),
     cc_restore = (\<lambda>r w. (Inl (Raised FileNotFoundError), w)), cc_cleanup = (\<lambda>r w. (Inl (Raised FileNotFoundError), w))\<rparr>"

definition missing_safety :: "path \<Rightarrow> path_safety" where
  "missing_safety p = \<lparr>ps_path = p, ps_exists = False, ps_file_type = FT_MISSING, ps_is_mount = False,
     ps_is_windows_reparse_point = False, ps_hardlink_count = 0, ps_size = None\<rparr>"

definition sample_workspace ::
  "(json \<Rightarrow> string) \<Rightarrow> (string \<Rightarrow> json option) \<Rightarrow> sample_world workspace" where
  "sample_workspace dumps loads =
     \<lparr>ws_owner = ''w1'', ws_lease_name = ''ws'', ws_lease_ttl = 10,
      ws_coordinator = sample_coordinator\<lparr>co_loads := loads\<rparr>, ws_handling = sample_handling,
      ws_captures = sample_captures, ws_path_inspector = (\<lambda>_. missing_safety), ws_delete_operation = None,
      ws_dumps = dumps, ws_set_order = (\<lambda>ids. ids)\<rparr>"

definition sample_transaction :: transaction_spec where
  "sample_transaction =
     \<lparr>tx_name = ''edit'', tx_resources = [(''a'', path_resource
         \<lparr>env_cwd = path_of ''/'', env_expanduser = id\<rparr> FILE (\<lambda>E p. ''file:/w/f'') (path_of ''/w/f'') None None)],
      tx_run_id = ''r1'', tx_rollback = ''automatic'', tx_now = Some 5, tx_cleanup_clock = False, tx_instance_id = ''t1''\<rparr>"

definition sample_idle :: "sample_world transaction_world run_state" where
  "sample_idle = \<lparr>run_db = empty_db, run_world = \<lparr>tw_state = new_transaction, tw_files = run_world sample_start\<rparr>, run_tick = 0\<rparr>"

lemma sample_entered:
  "(\<lambda>(r, s). r = Inr ()) (enter_transaction demo_surroundings (sample_workspace dumps loads) sample_transaction sample_idle)"
  by code_simp

lemma sample_left:
  "(\<lambda>(r, s). r = Inr None) (cleanup_transaction demo_surroundings (sample_workspace dumps loads) sample_transaction
     (snd (enter_transaction demo_surroundings (sample_workspace dumps loads) sample_transaction sample_idle)))"
  by code_simp

lemma sample_fair: "fair_surroundings demo_surroundings (sample_workspace coded_dumps coded_loads)"
  by (simp add: fair_surroundings_def demo_surroundings_def sample_workspace_def coded_loads_dumps)

lemma sample_thread_quiet: "set_thread_error demo_surroundings = (\<lambda>_. None)"
  by (simp add: demo_surroundings_def)

lemma sample_private: "private_scope demo_surroundings X"
  by (simp add: private_scope_def demo_surroundings_def)

lemma sample_unopened: "unopened sample_transaction sample_idle"
  by (simp add: unopened_def sample_idle_def new_transaction_def bare_def claim_wf_def lease_wf_empty
      unique_key_def empty_db_def scope_claims_def claim_view_def get_claim_row_def fun_eq_iff)

subsection \<open>Entering and leaving\<close>

text \<open>
  C35. Entering a transaction is all or nothing. Whatever other processes do, except to the claims
  under the transaction's own new scope: if \<open>__enter__\<close> returns, the workspace lease is granted
  and every resource, and nothing else, is claimed under the transaction's scope, each claim bound
  to that lease and known to the transaction. If it raises (the lease is held, a resource is
  claimed by somebody else, the lease is lost half-way), the transaction has not been entered, and
  the claims under its scope are exactly those that it still remembers. As long as the thread of
  the heartbeat never fails, these are none: no claim is left, neither in the store nor in its
  memory. (A failed heartbeat makes \<open>cleanup_transaction\<close> return its error at once, before it
  releases anything, so that claims made until then stay, and the transaction keeps the list.)
\<close>

theorem transaction_entry:
  assumes "private_scope S X" and "fair_surroundings S W" and "unopened X s"
    and "enter_transaction S W X s = (r, s')"
  shows "case r of Inr _ \<Rightarrow> opened W X s' | Inl _ \<Rightarrow> entry_failed S X s'"
  using wp_run [OF wp_enter_any [OF assms(1-3)] assms(4)] .

theorem transaction_entry_witness:
  "opened (sample_workspace coded_dumps coded_loads) sample_transaction
     (snd (enter_transaction demo_surroundings (sample_workspace coded_dumps coded_loads) sample_transaction sample_idle))"
proof -
  let ?run = "enter_transaction demo_surroundings (sample_workspace coded_dumps coded_loads) sample_transaction sample_idle"
  have "fst ?run = Inr ()" using sample_entered [of coded_dumps coded_loads] by (simp add: case_prod_beta)
  then show ?thesis
    using transaction_entry [OF sample_private sample_fair sample_unopened prod.collapse [symmetric]] by simp
qed

text \<open>
  C36. The cleanup removes everything, if no other process touches the claims under the
  transaction's own scope. From any state in which a transaction holds a lease and what
  it remembers of its claims is what the store has under its scope (as after \<open>__enter__\<close>), with the
  thread of its heartbeat not failed, \<open>cleanup_transaction\<close> does not raise, even when the lease has
  expired or another worker has it by now: no claim is left under the scope, the transaction
  remembers none and holds no lease. If it reports no error, the lease is not current at any time
  from then on (its token is replaced by one that differs).
\<close>

theorem transaction_cleanup:
  assumes "private_scope S X" and "holding W X lease s" and "ts_lease (tstate s) = Some lease"
    and "heartbeat_sound S (tstate s)" and "cleanup_transaction S W X s = (r, s')"
  shows "\<exists>e. r = Inr e \<and> scope_claims X (run_db s') = Map.empty
    \<and> ts_claims (tstate s') = Map.empty \<and> ts_lease (tstate s') = None
    \<and> (e = None \<longrightarrow> (\<forall>n db. set_ids S n 0 db \<noteq> lease_token lease) \<longrightarrow> (\<forall>t. \<not> lease_is_current (run_db s') lease t))"
  using wp_run [OF wp_cleanup [OF assms(1-4)] assms(5)] by (auto simp: cleaned_def bare_def split: sum.splits)

theorem transaction_cleanup_witness:
  "\<exists>s'. cleanup_transaction demo_surroundings (sample_workspace coded_dumps coded_loads) sample_transaction
      (snd (enter_transaction demo_surroundings (sample_workspace coded_dumps coded_loads) sample_transaction sample_idle))
      = (Inr None, s') \<and> scope_claims sample_transaction (run_db s') = Map.empty"
proof -
  let ?W = "sample_workspace coded_dumps coded_loads"
  let ?s = "snd (enter_transaction demo_surroundings ?W sample_transaction sample_idle)"
  have "opened ?W sample_transaction ?s"
    using wp_run [OF wp_enter [OF sample_private sample_fair sample_thread_quiet sample_unopened] prod.collapse [symmetric]]
      sample_entered [of coded_dumps coded_loads]
    by (simp add: case_prod_beta)
  then obtain lease where lease: "ts_lease (tstate ?s) = Some lease" "holding ?W sample_transaction lease ?s"
    by (auto simp: opened_def)
  have "heartbeat_sound demo_surroundings (tstate ?s)" by (simp add: heartbeat_sound_def sample_thread_quiet)
  from transaction_cleanup [OF sample_private lease(2,1) this prod.collapse [symmetric]]
  obtain e where e: "fst (cleanup_transaction demo_surroundings ?W sample_transaction ?s) = Inr e"
    "scope_claims sample_transaction (run_db (snd (cleanup_transaction demo_surroundings ?W sample_transaction ?s))) = Map.empty"
    by blast
  have "e = None" using sample_left [of coded_dumps coded_loads] e(1) by (simp add: case_prod_beta)
  then show ?thesis using e by (metis prod.collapse)
qed

end
