(* ===== verification/Rollback_Properties.thy ===== *)
theory Rollback_Properties
  imports Rollback_Steps Journal_Properties Transaction_Claims Transaction_Properties
begin

section \<open>What a rollback achieves\<close>

text \<open>
  A rollback that reports success has recovered every batch of the transaction that needed it; the
  proof carries the histories of the journal through the two loops.
\<close>

definition history :: "digest \<Rightarrow> (string \<Rightarrow> json option) \<Rightarrow> journal_db \<Rightarrow> journal_db \<Rightarrow> bool" where
  "history H loads db db' \<longleftrightarrow> journal_wf db \<and> (journal_step H loads UNIV)\<^sup>*\<^sup>* db db'"

definition recovered :: "string \<Rightarrow> journal_db \<Rightarrow> bool" where
  "recovered b db \<longleftrightarrow> map_option batch_phase (batch_row b (batch_table db)) = Some RECOVERY_SUCCEEDED"

lemma histories_trans: "history H loads db db1 \<Longrightarrow> history H loads db1 db2 \<Longrightarrow> history H loads db db2"
  unfolding history_def by (blast intro: rtranclp_trans)

lemma history_end: "history H loads db db' \<Longrightarrow> journal_wf db'"
  unfolding history_def using history_wf by blast

lemma recovered_kept:
  assumes "recovered b db" and "history H loads db db'"
  shows "recovered b db'"
proof -
  obtain row where row: "batch_row b (batch_table db) = Some row" "batch_phase row = RECOVERY_SUCCEEDED"
    using assms(1) by (auto simp: recovered_def)
  obtain row' where row': "batch_row b (batch_table db') = Some row'" "phase_edge\<^sup>*\<^sup>* (batch_phase row) (batch_phase row')"
    using history_batch [OF _ _ row(1)] assms(2) unfolding history_def by blast
  from phase_edge_kept [OF row'(2)] row(2) row'(1) show ?thesis by (simp add: recovered_def)
qed

text \<open>A program that keeps the histories, with what it returns.\<close>

lemma wp_history:
  assumes "keeps (lawful_run H loads UNIV S) m" and "lawful H loads UNIV S" and "journal_wf (run_db s)"
  shows "wp m (\<lambda>_ t. history H loads (run_db s) (run_db t)) (\<lambda>_ t. history H loads (run_db s) (run_db t)) s"
  by (rule wp_keeps [OF assms(1)]) (use assms(2,3) in \<open>simp_all add: lawful_run_def journal_run_def history_def\<close>)

lemma lawful_at_time: "lawful H loads F (at_time S now) = lawful H loads F S"
  by (simp add: lawful_def at_time_def)

lemma lawful_run_at_time: "lawful_run H loads F (at_time S now) = lawful_run H loads F S"
  by (simp add: lawful_run_def [abs_def] lawful_at_time)

subsection \<open>One recovery\<close>

lemma wp_last: "(\<And>x t. wp (f x) Q (\<lambda>_ _. True) t) \<Longrightarrow> wp (bind m f) Q (\<lambda>_ _. True) s"
  unfolding wp_bind by (rule wp_any) simp_all

lemma callback_batch:
  "wp (run_recovery_callback H S recover b lease) (\<lambda>(a, c, x) _. auth_batch a = b) (\<lambda>_ _. True) s"
  unfolding run_recovery_callback_def Let_def
  by (rule wp_last)+ (simp add: wp_rules, intro conjI impI,
    simp_all add: recovery_authority_def wp_bind [symmetric], (rule wp_last)+, simp add: wp_rules)

text \<open>The handlers of the workspace keep the histories: they use the stores only.\<close>

definition lawful_handlers :: "digest \<Rightarrow> (string \<Rightarrow> json option) \<Rightarrow> 'w handling \<Rightarrow> bool" where
  "lawful_handlers H loads D \<longleftrightarrow>
     (\<forall>type h a c act. hd_handlers D type = Some h \<longrightarrow> keeps (journal_run H loads UNIV) (h a c act))"

lemma finish_recovered:
  assumes "lawful H loads UNIV S" and "journal_wf (run_db s)"
  shows "wp (finish_recovery H S a c x) (\<lambda>_ t. recovered (auth_batch a) (run_db t)) (\<lambda>_ _. True) s"
  unfolding finish_recovery_def wp_bind wp_option
proof (rule wp_time, rule wp_transact, goal_cases)
  case (1 t db)
  have wf: "journal_wf db" using history_wf [OF lawful_others [OF assms(1)] assms(2)] 1 by simp
  show ?case
  proof (cases "record_recovery_succeeded H (auth_batch a) (auth_lease a) (Some (auth_attempt a))
        (Some ''recovery callback succeeded'')
        (Some (JObj [(''batch_id'', JStr (br_batch_id (rc_batch c))),
                     (''batch_phase'', JStr (phase_text (br_phase (rc_batch c)))),
                     (''callback_result_type'', JStr x)])) None (set_ids S (run_tick s) 0 db) (set_ids S (run_tick s) 1 db) t db")
    case (Inr r)
    obtain db' v where v: "r = (db', v)" by (cases r)
    note call = Inr [unfolded v]
    have rec: "recovered (auth_batch a) db'"
      by (rule record_recovery_phase_ok [OF journal_wf_parts(1) [OF wf] _ call [unfolded record_recovery_succeeded_def]])
        (auto simp: phase_call_def recovered_def)
    have "journal_step H loads UNIV db db'" by (rule js_journal [OF jc_recovery_succeeded [OF call]])
    then have wf': "journal_wf db'" using wf by (rule journal_step_wf)
    let ?s = "s\<lparr>run_db := db', run_tick := Suc (run_tick s)\<rparr>"
    have "wp (read S (\<lambda>db. Inr (get_batch (auth_batch a) db))) (\<lambda>u t. recovered (auth_batch a) (run_db t)) (\<lambda>_ _. True) ?s"
      by (rule wp_mono [OF wp_history [OF jr_store.store_read assms(1)]]) (use wf' rec recovered_kept in auto)
    then show ?thesis
      unfolding Inr v sum.case prod.case
      by (rule wp_mono) (auto simp: wp_rules split: option.split)
  qed simp
qed

lemma recovery_recovers:
  fixes s :: "'w run_state"
  assumes "lawful H loads UNIV S" and "journal_wf (run_db s)" and "H = co_digest (ws_coordinator W)"
    and "lawful_handlers H loads (ws_handling W)"
  shows "keeps (lawful_run H loads UNIV S) (recover_transaction_batch S W X lease now batch)" (is ?keeps)
    and "wp (recover_transaction_batch S W X lease now batch) (\<lambda>_ t. recovered (br_batch_id batch) (run_db t)) (\<lambda>_ _. True) s"
proof -
  let ?S = "at_time S now" and ?R = "lawful_run H loads UNIV S"
  let ?recover = "\<lambda>(_ :: authority) context. bind (run_recovery_actions H ?S (ws_handling W) context lease) (\<lambda>_. ret ''tuple'')"
  have law: "lawful H loads UNIV ?S" using assms(1) by (simp add: lawful_at_time)
  have act: "keeps ?R (run_recovery_actions H ?S (ws_handling W) c lease)" for c
    unfolding keeps_lawful [OF assms(1)]
    by (rule jr_run_actions [OF law]) (use assms(4) in \<open>simp add: lawful_handlers_def\<close>)
  have rec: "keeps (lawful_run H loads UNIV ?S) (?recover a c)" for a c
    unfolding lawful_run_at_time by (intro jr_store.keeps_bind jr_store.keeps_ret act)
  show ?keeps
    unfolding recover_transaction_batch_def Let_def assms(3) [symmetric]
    by (rule jr_store.store_recover_batch [of H loads UNIV ?S, unfolded lawful_run_at_time, OF rec [unfolded lawful_run_at_time]])
  have "keeps ?R (run_recovery_callback H ?S ?recover (br_batch_id batch) lease)"
    by (rule jr_store.store_callback [of H loads UNIV ?S, unfolded lawful_run_at_time, OF rec [unfolded lawful_run_at_time]])
  from wp_conj [OF wp_history [OF this assms(1,2)] callback_batch]
  show "wp (recover_transaction_batch S W X lease now batch) (\<lambda>_ t. recovered (br_batch_id batch) (run_db t)) (\<lambda>_ _. True) s"
    unfolding recover_transaction_batch_def Let_def assms(3) [symmetric] recover_batch_def wp_bind
  proof (rule wp_mono)
    fix x :: "authority \<times> recovery_context \<times> string" and t :: "'w run_state"
    assume x: "history H loads (run_db s) (run_db t) \<and> (case x of (a, c, x) \<Rightarrow> \<lambda>_. auth_batch a = br_batch_id batch) t"
    obtain a c y where "x = (a, c, y)" by (cases x)
    moreover from x have "journal_wf (run_db t)" using history_end by blast
    ultimately show "wp (case x of (a, context, result) \<Rightarrow> finish_recovery H ?S a context result)
        (\<lambda>_ t. recovered (br_batch_id batch) (run_db t)) (\<lambda>_ _. True) t"
      using x finish_recovered [OF law, where s = t and a = a and c = c and x = y] by simp
  qed simp
qed

subsection \<open>One batch of a rollback\<close>

lemma rolled_back:
  fixes s :: "'w run_state"
  assumes "lawful H loads UNIV S" and "journal_wf (run_db s)" and "H = co_digest (ws_coordinator W)"
    and "lawful_handlers H loads (ws_handling W)"
  shows "keeps (lawful_run H loads UNIV S) (rollback_batch S W X lease now batch)"
    and "wp (rollback_batch S W X lease now batch)
      (\<lambda>r t. not_recovered r \<or> recovered (br_batch_id batch) (run_db t)) (\<lambda>_ _. True) s"
proof -
  note recover = recovery_recovers [OF assms(1) _ assms(3,4)]
  have cleanup: "keeps (lawful_run H loads UNIV S) (cleanup_artifacts_for_batches S W pinned existing trigger batches)"
    for pinned existing trigger batches by (rule jr_db.db_cleanup)
  have unsupported: "keeps (lawful_run H loads UNIV S) (is_unsupported_automatic_rollback_batch S W batch)"
    by (rule jr_db.db_unsupported)
  show "keeps (lawful_run H loads UNIV S) (rollback_batch S W X lease now batch)"
    by (rule jr_db.db_rollback_batch [OF recover(1) [OF assms(2)]])
  show "wp (rollback_batch S W X lease now batch)
      (\<lambda>r t. not_recovered r \<or> recovered (br_batch_id batch) (run_db t)) (\<lambda>_ _. True) s"
    unfolding rollback_batch_def wp_bind [of "is_unsupported_automatic_rollback_batch S W batch"]
  proof (rule wp_mono [OF wp_history [OF unsupported assms(1,2)]])
    fix unsupported and t :: "'w run_state"
    assume t: "history H loads (run_db s) (run_db t)"
    have wf: "journal_wf (run_db t)" by (rule history_end [OF t])
    let ?Q = "\<lambda>r t. not_recovered r \<or> recovered (br_batch_id batch) (run_db t)"
    let ?body = "bind (recover_transaction_batch S W X lease now batch) (\<lambda>result.
        bind (cleanup_artifacts_for_batches S W (tx_cleanup_clock X) (Some lease) ''recovery_cleanup'' [rr_batch result]) (\<lambda>debt.
        ret (if debt = None then Recovered else Cleanup_debt)))"
    have one: "wp (bind (cleanup_artifacts_for_batches S W (tx_cleanup_clock X) (Some lease) ''recovery_cleanup'' [rr_batch x])
          (\<lambda>debt. ret (if debt = None then Recovered else Cleanup_debt))) ?Q (\<lambda>_ _. True) u"
      if u: "recovered (br_batch_id batch) (run_db u)" "history H loads (run_db t) (run_db u)" for x and u :: "'w run_state"
      unfolding wp_bind wp_ret'
      by (rule wp_mono [OF wp_history [OF cleanup assms(1) history_end [OF u(2)]]]) (use recovered_kept [OF u(1)] in auto)
    have body: "wp ?body ?Q (\<lambda>_ _. True) t"
      unfolding wp_bind [of "recover_transaction_batch S W X lease now batch"]
      by (rule wp_mono [OF wp_conj [OF recover(2) [OF wf] wp_history [OF recover(1) [OF wf] assms(1) wf]]]) (use one in auto)
    have attempted: "wp (attempt ?body (\<lambda>e. Some (ret (Not_recovered e)))) ?Q (\<lambda>_ _. True) t"
      unfolding wp_attempt option.case wp_ret by (rule wp_mono [OF body]) (simp_all add: not_recovered_def)
    show "wp (if unsupported then ret (Not_recovered workspace_error)
        else attempt ?body (\<lambda>e. Some (ret (Not_recovered e)))) ?Q (\<lambda>_ _. True) t"
      using attempted by (simp add: wp_ret not_recovered_def)
  qed simp
qed

subsection \<open>Loops\<close>

text \<open>What holds of each result when it is returned and stays true holds of all in the end.\<close>

lemma wp_each_history:
  fixes s :: "'w run_state"
  assumes "lawful H loads UNIV S" and "\<And>x. keeps (lawful_run H loads UNIV S) (f x)"
    and one: "\<And>x t. journal_wf (run_db t) \<Longrightarrow> wp (f x) (\<lambda>y u. P x y (run_db u)) (\<lambda>_ _. True) t"
    and stable: "\<And>x y db db'. history H loads db db' \<Longrightarrow> P x y db \<Longrightarrow> P x y db'"
    and "journal_wf (run_db s)"
  shows "wp (each f xs) (\<lambda>ys t. list_all2 (\<lambda>x y. P x y (run_db t)) xs ys \<and> history H loads (run_db s) (run_db t))
    (\<lambda>_ _. True) s"
  using assms(5)
proof (induction xs arbitrary: s)
  case Nil
  then show ?case unfolding each.simps wp_ret by (simp add: history_def)
next
  case (Cons x xs)
  show ?case
    unfolding each.simps wp_bind [of "f x"]
  proof (rule wp_mono [OF wp_conj [OF one [OF Cons.prems] wp_history [OF assms(2,1) Cons.prems]]])
    fix y and t :: "'w run_state"
    assume y: "P x y (run_db t) \<and> history H loads (run_db s) (run_db t)"
    then have wf: "journal_wf (run_db t)" using history_end by blast
    show "wp (bind (each f xs) (\<lambda>ys. ret (y # ys)))
        (\<lambda>ys t. list_all2 (\<lambda>x y. P x y (run_db t)) (x # xs) ys \<and> history H loads (run_db s) (run_db t)) (\<lambda>_ _. True) t"
      unfolding wp_bind wp_ret'
      by (rule wp_mono [OF Cons.IH [OF wf]]) (use y stable histories_trans in auto)
  qed simp
qed

subsection \<open>Which batches\<close>

definition needs_rollback :: "'w workspace \<Rightarrow> transaction_spec \<Rightarrow> operation_batch_record \<Rightarrow> bool" where
  "needs_rollback W X batch \<longleftrightarrow> belongs_to_transaction_instance W X batch \<and> \<not> is_read_only_batch batch
     \<and> br_phase batch \<in> {RECOVERY_DESIRED, RECOVERY_FAILED, ATTEMPTING, FAILED, SUCCEEDED}"

lemma wp_updated: "wp (updated_batch S batch) (\<lambda>u _. br_batch_id u = br_batch_id batch) (\<lambda>_ _. True) s"
  unfolding updated_batch_def wp_bind
proof (rule wp_read, goal_cases)
  case (1 db)
  then show ?case
    by (cases "batch_row (br_batch_id batch) (batch_table db)")
      (auto simp: wp_rules get_batch_def batch_from_row_def dest: batch_row_in)
qed

lemma wp_eligible:
  "wp (eligible_recovery_batch S W X lease now batch)
     (\<lambda>x _. needs_rollback W X batch \<longrightarrow> (\<exists>u. x = Some u \<and> br_batch_id u = br_batch_id batch)) (\<lambda>_ _. True) s"
proof -
  have marked: "wp (bind (bind m (\<lambda>_. updated_batch S batch)) (\<lambda>u. ret (Some u)))
      (\<lambda>x _. \<exists>u. x = Some u \<and> br_batch_id u = br_batch_id batch) (\<lambda>_ _. True) t" for m :: "('a, 'b) program" and t
    unfolding wp_bind wp_ret' by (rule wp_any) (auto intro: wp_mono [OF wp_updated])
  note marked = wp_mono [OF marked]
  show ?thesis
    unfolding eligible_recovery_batch_def Let_def mark_batch_recovery_desired_def mark_batch_interrupted_recovery_desired_def
    by (auto simp: wp_ret needs_rollback_def intro: marked)
qed

lemma list_all2_member: "list_all2 P xs ys \<Longrightarrow> x \<in> set xs \<Longrightarrow> \<exists>y \<in> set ys. P x y"
  by (force simp: list_all2_conv_all_nth in_set_conv_nth)

lemma found_member: "Some u \<in> set xs \<Longrightarrow> u \<in> set (found_batches xs)"
  by (force simp: found_batches_def newest_first_def)

lemma wp_eligible_batches:
  fixes s :: "'w run_state"
  assumes "lawful H loads UNIV S" and "journal_wf (run_db s)" and "H = co_digest (ws_coordinator W)"
  defines "db \<equiv> set_others S (run_tick s) (run_db s)"
  shows "wp (eligible_recovery_batches S W X lease now)
    (\<lambda>bs t. history H loads db (run_db t) \<and> (\<forall>b \<in> set (list_batches (Some (tx_run_id X)) None db). needs_rollback W X b
       \<longrightarrow> (\<exists>u \<in> set bs. br_batch_id u = br_batch_id b))) (\<lambda>_ _. True) s"
  unfolding eligible_recovery_batches_def wp_bind
proof (rule wp_read, goal_cases)
  case (1 db1)
  let ?P = "\<lambda>b x (_ :: journal_db). needs_rollback W X b \<longrightarrow> (\<exists>u. x = Some u \<and> br_batch_id u = br_batch_id b)"
  have db1: "db1 = db" using 1 by (simp add: db_def)
  have wf: "journal_wf db" unfolding db_def by (rule transact_wf [OF assms(1,2)])
  have keeps: "keeps (lawful_run H loads UNIV S) (eligible_recovery_batch S W X lease now b)" for b
    by (rule jr_db.db_eligible_batch [OF assms(3)])
  have all: "wp (each (eligible_recovery_batch S W X lease now) bs)
      (\<lambda>ys t. list_all2 (\<lambda>b y. ?P b y (run_db t)) bs ys \<and> history H loads db (run_db t)) (\<lambda>_ _. True) t"
    if "run_db t = db" for bs and t :: "'w run_state"
    unfolding that [symmetric]
    by (rule wp_each_history [where f = "eligible_recovery_batch S W X lease now" and P = ?P, OF assms(1) keeps wp_eligible])
      (use wf that in simp_all)
  show ?case
    unfolding db1 sum.case wp_ret'
  proof (rule wp_mono [OF all])
    fix ys :: "operation_batch_record option list" and t :: "'w run_state"
    assume ys: "list_all2 (\<lambda>b y. ?P b y (run_db t)) (list_batches (Some (tx_run_id X)) None db) ys \<and> history H loads db (run_db t)"
    show "history H loads db (run_db t) \<and> (\<forall>b \<in> set (list_batches (Some (tx_run_id X)) None db). needs_rollback W X b
       \<longrightarrow> (\<exists>u \<in> set (found_batches ys). br_batch_id u = br_batch_id b))"
    proof (intro conjI ballI impI)
      show "history H loads db (run_db t)" using ys by blast
      fix b
      assume b: "b \<in> set (list_batches (Some (tx_run_id X)) None db)" "needs_rollback W X b"
      obtain y where "y \<in> set ys" "?P b y db" using list_all2_member [OF _ b(1)] ys by blast
      then show "\<exists>u \<in> set (found_batches ys). br_batch_id u = br_batch_id b"
        using b(2) found_member by blast
    qed
  qed simp_all
qed

text \<open>From \<open>db\<close> on there is a state whose batches in need of a rollback are all recovered in the end.\<close>

definition all_recovered :: "'w workspace \<Rightarrow> transaction_spec \<Rightarrow> (string \<Rightarrow> json option) \<Rightarrow> journal_db \<Rightarrow> journal_db \<Rightarrow> bool" where
  "all_recovered W X loads db db' \<longleftrightarrow> history (co_digest (ws_coordinator W)) loads db db'
     \<and> (\<forall>b \<in> set (list_batches (Some (tx_run_id X)) None db). needs_rollback W X b \<longrightarrow> recovered (br_batch_id b) db')"

lemma rollback_complete:
  fixes s :: "'w run_state"
  assumes "lawful (co_digest (ws_coordinator W)) loads UNIV S" and "journal_wf (run_db s)"
    and "lawful_handlers (co_digest (ws_coordinator W)) loads (ws_handling W)" and "tx_rollback X = ''automatic''"
  shows "wp (run_automatic_transaction_rollback S W X lease body_error now)
    (\<lambda>r t. r \<longrightarrow> all_recovered W X loads (set_others S (run_tick s) (run_db s)) (run_db t)) (\<lambda>_ _. True) s"
proof -
  let ?H = "co_digest (ws_coordinator W)" and ?db = "set_others S (run_tick s) (run_db s)"
  let ?P = "\<lambda>u r db. not_recovered r \<or> recovered (br_batch_id u) db"
  note roll = rolled_back [OF assms(1) _ refl assms(3)]
  show ?thesis
    unfolding run_automatic_transaction_rollback_def wp_bind [of "eligible_recovery_batches S W X lease now"] assms(4)
      simp_thms if_False
  proof (rule wp_mono [OF wp_eligible_batches [OF assms(1,2) refl]])
    fix bs :: "operation_batch_record list" and t :: "'w run_state"
    assume bs: "history ?H loads ?db (run_db t) \<and> (\<forall>b \<in> set (list_batches (Some (tx_run_id X)) None ?db).
      needs_rollback W X b \<longrightarrow> (\<exists>u \<in> set bs. br_batch_id u = br_batch_id b))"
    then have wf: "journal_wf (run_db t)" using history_end by blast
    have each: "wp (each (rollback_batch S W X lease now) bs)
        (\<lambda>rs u. list_all2 (\<lambda>x r. ?P x r (run_db u)) bs rs \<and> history ?H loads (run_db t) (run_db u)) (\<lambda>_ _. True) t"
      by (rule wp_each_history [where P = ?P, OF assms(1) roll(1) roll(2) _ wf]) (use wf recovered_kept in auto)
    show "wp (bind (each (rollback_batch S W X lease now) bs) (\<lambda>outcomes.
        if \<not> list_ex not_recovered outcomes then
          (if Cleanup_debt \<in> set outcomes \<and> \<not> body_error then raise workspace_error else ret True)
        else if body_error then ret False else raise workspace_error))
        (\<lambda>r t. r \<longrightarrow> all_recovered W X loads ?db (run_db t)) (\<lambda>_ _. True) t"
      unfolding wp_bind
    proof (rule wp_mono [OF each])
      fix rs and u :: "'w run_state"
      assume rs: "list_all2 (\<lambda>x r. ?P x r (run_db u)) bs rs \<and> history ?H loads (run_db t) (run_db u)"
      have "all_recovered W X loads ?db (run_db u)" if ok: "\<not> list_ex not_recovered rs"
        unfolding all_recovered_def
      proof (intro conjI ballI impI)
        show "history ?H loads ?db (run_db u)" using bs rs histories_trans by blast
        fix b
        assume "b \<in> set (list_batches (Some (tx_run_id X)) None ?db)" "needs_rollback W X b"
        then obtain x where x: "x \<in> set bs" "br_batch_id x = br_batch_id b" using bs by blast
        obtain r where "r \<in> set rs" "?P x r (run_db u)" using list_all2_member [OF conjunct1 [OF rs] x(1)] by blast
        then show "recovered (br_batch_id b) (run_db u)" using ok x(2) by (simp add: list_ex_iff)
      qed
      then show "wp (if \<not> list_ex not_recovered rs then
          (if Cleanup_debt \<in> set rs \<and> \<not> body_error then raise workspace_error else ret True)
        else if body_error then ret False else raise workspace_error)
          (\<lambda>r t. r \<longrightarrow> all_recovered W X loads ?db (run_db t)) (\<lambda>_ _. True) u"
        by (simp add: wp_ret wp_raise)
    qed simp
  qed simp
qed

subsection \<open>A sample rollback\<close>

text \<open>One batch of the sample transaction, which created a directory that was there, has failed.\<close>

definition roll_create :: "journal_db \<Rightarrow> error + journal_db \<times> operation_batch_record" where
  "roll_create = create_batch rev ''k1'' w1 ''w1'' ''r1'' None None (Some ''file:a'') (Some ''w1'')
     (Some (claim_scope_of sample_transaction))
     (Some (JObj [(''operation'', JStr ''make_directory''), (''noop'', JBool True)])) (Some ''b1'') [] 1"

definition roll_created :: journal_db where "roll_created = out (roll_create db_leased)"
definition roll_started :: journal_db where "roll_started = out (demo_start roll_created)"
definition roll_failed :: journal_db where "roll_failed = out (demo_fail roll_started)"

definition roll_state :: "sample_world run_state" where
  "roll_state = \<lparr>run_db = roll_failed, run_world = run_world sample_start, run_tick = 0\<rparr>"

lemma roll_wf: "journal_wf (run_db roll_state)"
proof -
  have calls: "roll_create db_leased = Inr (roll_created, res (roll_create db_leased))"
    "demo_start roll_created = Inr (roll_started, res (demo_start roll_created))"
    "demo_fail roll_started = Inr (roll_failed, res (demo_fail roll_started))"
    unfolding roll_created_def roll_started_def roll_failed_def by (rule out_res, code_simp)+
  have "journal_step rev (\<lambda>_. None) {} db_leased roll_created"
    by (rule js_journal, rule jc_create_batch, rule calls(1) [unfolded roll_create_def])
  moreover have "journal_step rev (\<lambda>_. None) {} roll_created roll_started"
    using calls(2) unfolding demo_start_def
    by (cases "res (demo_start roll_created)") (auto simp: demo_start_def intro: js_journal jc_start_batch_operation)
  moreover have "journal_step rev (\<lambda>_. None) {} roll_started roll_failed"
    by (rule js_journal, rule jc_mark_failed, rule calls(3) [unfolded demo_fail_def])
  ultimately show ?thesis
    using journal_step_wf demo_wfs by (simp add: roll_state_def) blast
qed

lemma roll_runs:
  "(\<lambda>(r, s). r = Inr True) (run_automatic_transaction_rollback demo_surroundings (sample_workspace dumps loads)
     sample_transaction w1 True 5 roll_state)"
  by code_simp

text \<open>
  C38. A rollback that reports success has recovered everything. Let other processes do to the
  database what calls of the stores can do, and let the handlers of the recovery do no more. If the
  automatic rollback of a transaction returns \<open>True\<close>, then every batch of the transaction that the
  database held when the rollback first read it, that is not read-only and that was attempting,
  failed, succeeded or waiting for recovery, is recovered in the end: its phase is
  \<open>recovery_succeeded\<close>, whatever happened in between, and so are none of them forgotten or skipped.
\<close>

theorem rollback_recovers_every_batch:
  assumes "lawful (co_digest (ws_coordinator W)) loads UNIV S" and "journal_wf (run_db s)"
    and "lawful_handlers (co_digest (ws_coordinator W)) loads (ws_handling W)" and "tx_rollback X = ''automatic''"
    and "run_automatic_transaction_rollback S W X lease body_error now s = (Inr True, s')"
    and "batch \<in> set (list_batches (Some (tx_run_id X)) None (set_others S (run_tick s) (run_db s)))"
    and "needs_rollback W X batch"
  shows "recovered (br_batch_id batch) (run_db s')"
  using wp_run [OF rollback_complete [OF assms(1-4)] assms(5)] assms(6,7) by (simp add: all_recovered_def)

theorem rollback_recovers_every_batch_witness:
  "recovered ''b1'' (run_db (snd (run_automatic_transaction_rollback demo_surroundings (sample_workspace coded_dumps coded_loads)
     sample_transaction w1 True 5 roll_state)))"
proof -
  let ?W = "sample_workspace coded_dumps coded_loads" and ?X = sample_transaction
  let ?run = "run_automatic_transaction_rollback demo_surroundings ?W ?X w1 True 5 roll_state"
  let ?found = "filter (needs_rollback ?W ?X) (list_batches (Some ''r1'') None roll_failed)"
  have names: "map br_batch_id ?found = [''b1'']" by code_simp
  then obtain batch where batch: "?found = [batch]" "br_batch_id batch = ''b1''" by blast
  have seen: "set_others demo_surroundings (run_tick roll_state) (run_db roll_state) = roll_failed"
    by (simp add: demo_surroundings_def roll_state_def)
  have run_id: "tx_run_id ?X = ''r1''" by (simp add: sample_transaction_def)
  have member: "batch \<in> set (list_batches (Some (tx_run_id ?X)) None
      (set_others demo_surroundings (run_tick roll_state) (run_db roll_state)))" "needs_rollback ?W ?X batch"
    using batch(1) unfolding seen run_id by (auto simp: filter_eq_Cons_iff)
  have "fst ?run = Inr True"
    using roll_runs [of coded_dumps coded_loads] by (simp add: case_prod_beta)
  then have run: "?run = (Inr True, snd ?run)" by (metis prod.collapse)
  have W: "co_digest (ws_coordinator ?W) = rev" "ws_handling ?W = sample_handling"
    by (simp_all add: sample_workspace_def sample_coordinator_def)
  have "lawful_handlers rev coded_loads sample_handling" by (simp add: lawful_handlers_def sample_handling_def)
  with rollback_recovers_every_batch [where W = ?W and X = ?X and loads = coded_loads, unfolded W, OF demo_lawful roll_wf _ _ run member]
  show ?thesis using batch(2) by (simp add: sample_transaction_def)
qed

end
