(* ===== verification/Exit_Steps.thy ===== *)
theory Exit_Steps
  imports Transaction_Exit Rollback_Properties
begin

section \<open>What the end of a transaction does to the database\<close>

text \<open>
  Beside the histories of the journal the programs of a rollback keep the claims under the scope of
  the transaction: they call neither store for claims, and other processes do not know the scope.
  \<open>tx_run\<close> states both; \<open>tx_kept\<close> adds that the memory of the transaction keeps its claims.
\<close>

subsection \<open>Histories that keep the claims of the scope\<close>

definition settled :: "digest \<Rightarrow> (string \<Rightarrow> json option) \<Rightarrow> transaction_spec \<Rightarrow> journal_db \<Rightarrow> journal_db \<Rightarrow> bool" where
  "settled H loads X db db' \<longleftrightarrow> (journal_wf db \<and> claim_wf db \<longrightarrow>
     (journal_step H loads UNIV)\<^sup>*\<^sup>* db db' \<and> claim_wf db' \<and> scope_claims X db' = scope_claims X db)"

definition tx_run ::
  "digest \<Rightarrow> (string \<Rightarrow> json option) \<Rightarrow> surroundings \<Rightarrow> transaction_spec \<Rightarrow> 'w run_state \<Rightarrow> 'w run_state \<Rightarrow> bool" where
  "tx_run H loads S X s s' \<longleftrightarrow> (lawful H loads UNIV S \<and> private_scope S X \<longrightarrow> settled H loads X (run_db s) (run_db s'))"

lemma settled_refl: "settled H loads X db db"
  by (simp add: settled_def)

lemma settled_trans: "settled H loads X db db1 \<Longrightarrow> settled H loads X db1 db2 \<Longrightarrow> settled H loads X db db2"
  unfolding settled_def by (auto dest: history_wf intro: rtranclp_trans)

lemma settled_step:
  assumes "journal_wf db \<Longrightarrow> journal_step H loads UNIV db db'" and "journal_wf db \<Longrightarrow> claim_table db' = claim_table db"
  shows "settled H loads X db db'"
proof -
  have "claim_view db' = claim_view db" if "journal_wf db" using assms(2) that by (simp add: claim_view_def fun_eq_iff)
  then show ?thesis using assms by (auto simp: settled_def claim_wf_def scope_claims_def)
qed

lemma tx_run_step:
  "(lawful H loads UNIV S \<Longrightarrow> settled H loads X db db') \<Longrightarrow> tx_run H loads S X (s\<lparr>run_db := db\<rparr>) (s\<lparr>run_db := db'\<rparr>)"
  by (simp add: tx_run_def)

lemma settled_call: "journal_call H l now db db' \<Longrightarrow> settled H loads X db db'"
proof (rule settled_step)
  assume call: "journal_call H l now db db'" and wf: "journal_wf db"
  show "journal_step H loads UNIV db db'" by (rule js_journal [OF call])
  have "same_leases db db'" by (rule journal_call_leases [OF call journal_wf_parts(1) [OF wf]])
  then show "claim_table db' = claim_table db" by (simp add: same_leases_def)
qed

lemma settled_lease: "lease_step UNIV db db' \<Longrightarrow> settled H loads X db db'"
proof (rule settled_step)
  assume call: "lease_step UNIV db db'" and wf: "journal_wf db"
  show "journal_step H loads UNIV db db'" by (rule js_workspace [OF ws_lease [OF call]])
  have "lease_wf db" using wf by (simp add: journal_wf_def base_wf_def)
  then obtain t where "db' = db\<lparr>lease_table := t\<rparr>" using lease_step_frame [OF call] by blast
  then show "claim_table db' = claim_table db" by simp
qed

interpretation tr: db_relation "tx_run H loads S X" S H for H loads S X
proof unfold_locales
  fix s t u :: "'a run_state"
  show "tx_run H loads S X s s" by (simp add: tx_run_def settled_refl)
  show "tx_run H loads S X s u" if "tx_run H loads S X s t" "tx_run H loads S X t u"
    using that settled_trans by (auto simp: tx_run_def)
  show "tx_run H loads S X s (s\<lparr>run_db := set_others S (run_tick s) (run_db s), run_tick := Suc (run_tick s)\<rparr>)"
    using lawful_others by (auto simp: tx_run_def settled_def private_scope_def journal_wf_def base_wf_def)
  show "tx_run H loads S X s t" if "run_db t = run_db s" using that by (simp add: tx_run_def settled_refl)
next
  fix l b att type rk payload aid arid lease ttl now y n and db db' :: journal_db and x and s :: "'a run_state"
  show "tx_run H loads S X (s\<lparr>run_db := db\<rparr>) (s\<lparr>run_db := db'\<rparr>)" if "journal_call H l now db db'"
    by (rule tx_run_step [OF settled_call [OF that]])
  show "tx_run H loads S X (s\<lparr>run_db := db\<rparr>) (s\<lparr>run_db := db'\<rparr>)" if "lease_step UNIV db db'"
    by (rule tx_run_step [OF settled_lease [OF that]])
  show "tx_run H loads S X (s\<lparr>run_db := db\<rparr>) (s\<lparr>run_db := db'\<rparr>)" if "heartbeat lease ttl now db = Inr (db', y)"
    by (rule tx_run_step [OF settled_lease [OF step_heartbeat [OF that]]])
  show "tx_run H loads S X (s\<lparr>run_db := db\<rparr>) (s\<lparr>run_db := db'\<rparr>)"
    if "record_recovery_action_planned H b l att type rk payload aid arid
      (set_ids S n 0 db) (set_ids S n 1 db) (set_ids S n 2 db) now db = Inr (db', x)"
  proof (rule tx_run_step)
    assume "lawful H loads UNIV S"
    then have "set_ids S n 1 db \<notin> action_id ` set (recovery_action_table db)" by (simp add: lawful_def)
    with that have "journal_call H l now db db'" by (rule jc_plan_action)
    then show "settled H loads X db db'" by (rule settled_call)
  qed
qed

subsection \<open>The programs of a rollback\<close>

definition scope_handlers :: "digest \<Rightarrow> (string \<Rightarrow> json option) \<Rightarrow> surroundings \<Rightarrow> transaction_spec \<Rightarrow> 'w handling \<Rightarrow> bool" where
  "scope_handlers H loads S X D \<longleftrightarrow>
     (\<forall>type h a c act. hd_handlers D type = Some h \<longrightarrow> keeps (tx_run H loads S X) (h a c act))"

lemma tx_run_at_time: "tx_run H loads (at_time S now) X = tx_run H loads S X"
  unfolding tx_run_def [abs_def] lawful_at_time by (simp add: private_scope_def at_time_def)

lemma tr_recover:
  assumes "H = co_digest (ws_coordinator W)" and "scope_handlers H loads S X (ws_handling W)"
  shows "keeps (tx_run H loads S X) (recover_transaction_batch S W X' lease now batch)"
proof -
  let ?S = "at_time S now"
  have act: "keeps (tx_run H loads ?S X) (run_recovery_actions H ?S (ws_handling W) c lease)" for c
    by (rule tr.store_run_actions) (use assms(2) in \<open>simp add: scope_handlers_def tx_run_at_time\<close>)
  have "keeps (tx_run H loads ?S X) (bind (run_recovery_actions H ?S (ws_handling W) c lease) (\<lambda>_. ret ''tuple''))" for c
    by (intro tr.keeps_bind tr.keeps_ret act)
  then show ?thesis
    unfolding recover_transaction_batch_def Let_def assms(1) [symmetric] tx_run_at_time [symmetric, of H loads S X now]
    by (rule tr.store_recover_batch)
qed

subsection \<open>Programs of the transaction\<close>

definition core :: "transaction_state \<Rightarrow> transaction_state" where
  "core t = t\<lparr>ts_operation_run := None, ts_operation_phase := None\<rparr>"

definition tx_kept ::
  "digest \<Rightarrow> (string \<Rightarrow> json option) \<Rightarrow> surroundings \<Rightarrow> transaction_spec
    \<Rightarrow> 'w transaction_world run_state \<Rightarrow> 'w transaction_world run_state \<Rightarrow> bool" where
  "tx_kept H loads S X s s' \<longleftrightarrow> tx_run H loads S X s s' \<and> core (tstate s') = core (tstate s)"

interpretation tk: state_relation "tx_kept H loads S X" for H loads S X
  by unfold_locales (use tr.refl tr.trans in \<open>auto simp: tx_kept_def\<close>)

lemma tk_transact:
  assumes "keeps (tx_run H loads S X) (transact S body :: ('w, 'a) tx_program)"
  shows "keeps (tx_kept H loads S X) (transact S body :: ('w, 'a) tx_program)"
proof -
  have "run_world (snd (transact S body s)) = run_world s" for s :: "'w transaction_world run_state"
    by (simp add: transact_def Let_def split: prod.split)
  then show ?thesis using assms by (simp add: keeps_def tx_kept_def)
qed

lemma tk_read: "keeps (tx_kept H loads S X) (read S q)"
  unfolding read_def by (rule tk_transact) (rule tr.store_read [unfolded read_def])

lemma tk_files:
  assumes "keeps (tx_run H loads S X) m"
  shows "keeps (tx_kept H loads S X) (files m)"
  using assms
  by (simp add: keeps_def tx_kept_def files_def tx_run_def split: prod.split) (metis files_state_def run_state.select_convs(1) snd_conv)

lemma tk_modify: "(\<And>t. core (f t) = core t) \<Longrightarrow> keeps (tx_kept H loads S X) (modify f)"
  by (simp add: keeps_def tx_kept_def modify_def tx_run_def settled_refl)

lemma tk_get: "keeps (tx_kept H loads S X) get_state"
  by (rule tk.keeps_unchanged) (simp add: get_state_def)

lemma tk_any: "keeps (tx_kept H loads S X) m \<Longrightarrow> keeps (tx_kept H loads S X) (any_failure m)"
  unfolding any_failure_def catching_def by (intro tk.keeps_attempt tk.keeps_bind tk.keeps_ret) (auto intro: tk.keeps_ret)

lemmas tk_rules = tk.keeps_rules tk_read tk_get tk_any

lemma core_follow [simp]: "core (follow_phase u t) = core t" "core (follow_run v t) = core t"
  by (simp_all add: core_def follow_phase_def follow_run_def)

lemma tk_mark_phases: "keeps (tx_kept H loads S X) (mark_touched_operation_phases S W lease status now)"
proof -
  have update: "keeps (tx_kept H loads S X) (transact S (\<lambda>_ db. update_operation_phase_status i lease status now db))" for i
    by (intro tk_transact tr.store_transact) (auto intro: tr.call jc_update_phase)
  have diagnostic: "keeps (tx_kept H loads S X)
      (transact S (\<lambda>_ db. record_operation_phase_terminal_diagnostic i lease st now db))" for i st
    by (intro tk_transact tr.store_transact) (auto intro: tr.call jc_phase_diagnostic)
  have "keeps (tx_kept H loads S X) (update_operation_phase_terminal_status S lease status now p)" for p
    unfolding update_operation_phase_terminal_status_def Let_def
    by (intro tk.keeps_attempt update) (auto intro!: tk_rules diagnostic tk_modify simp: core_def)
  then show ?thesis
    unfolding mark_touched_operation_phases_def touched_operation_phases_def Let_def
    by (intro tk_rules tk_modify) simp_all
qed

lemma tk_mark_runs: "keeps (tx_kept H loads S X) (mark_touched_operation_runs S W lease status now)"
proof -
  have update: "keeps (tx_kept H loads S X) (transact S (\<lambda>_ db. update_operation_run_status i lease status now db))" for i
    by (intro tk_transact tr.store_transact) (auto intro: tr.call jc_update_run)
  have diagnostic: "keeps (tx_kept H loads S X)
      (transact S (\<lambda>_ db. record_operation_run_terminal_diagnostic i lease st now db))" for i st
    by (intro tk_transact tr.store_transact) (auto intro: tr.call jc_run_diagnostic)
  have "keeps (tx_kept H loads S X) (update_operation_run_terminal_status S lease status now p)" for p
    unfolding update_operation_run_terminal_status_def Let_def
    by (intro tk.keeps_attempt update) (auto intro!: tk_rules diagnostic tk_modify simp: core_def)
  then show ?thesis
    unfolding mark_touched_operation_runs_def touched_operation_runs_def Let_def
    by (intro tk_rules tk_modify) simp_all
qed

subsection \<open>The cleanup is a history of the stores\<close>

lemma jr_get: "keeps (lawful_run H loads UNIV S) get_state"
  by (rule jr_store.keeps_unchanged) (simp add: get_state_def)

lemma jr_modify: "keeps (lawful_run H loads UNIV S) (modify f)"
  by (simp add: keeps_def modify_def jr_db.local_change)

lemma jr_catching: "keeps (lawful_run H loads UNIV S) m \<Longrightarrow> keeps (lawful_run H loads UNIV S) (catching P m)"
  unfolding catching_def by (intro jr_store.keeps_attempt jr_store.keeps_bind jr_store.keeps_ret)
    (auto split: if_splits intro: jr_store.keeps_ret)

lemmas jr_tx = jr_get jr_modify jr_catching

lemma jr_claims:
  assumes "H = co_digest (ws_coordinator W)" and "loads = co_loads (ws_coordinator W)"
  shows "keeps (lawful_run H loads UNIV S) (cleanup_transaction S W X)"
proof -
  have call: "keeps (lawful_run H loads UNIV S) (release_claim_call S W X lease now key c)" for lease now key c
    unfolding release_claim_call_def
  proof (intro jr_store.keeps_attempt jr_store.store_transact lawful_run_step js_workspace)
    fix db db' :: journal_db and x
    show "workspace_step H loads UNIV (\<lambda>_ _ _. True) db db'"
      if "release_claim key lease (ws_owner W) (Some (claim_scope_of X)) (Some c) now db = Inr (db', x)"
      using that by (rule ws_release) simp
  next
    fix e and p :: "('a transaction_world run_state \<Rightarrow> (failure + bool) \<times> 'a transaction_world run_state)"
    assume "(if e = Raised LeaseLostError then Some
          (transact S (\<lambda>_ db. release_if_owner_scope_matches (co_digest (ws_coordinator W)) (co_loads (ws_coordinator W))
             key lease (ws_owner W) (Some (claim_scope_of X)) (Some c) now db)) else None) = Some p"
    then have p: "p = transact S (\<lambda>_ db. release_if_owner_scope_matches H loads
             key lease (ws_owner W) (Some (claim_scope_of X)) (Some c) now db)"
      by (simp add: assms split: if_splits)
    show "keeps (lawful_run H loads UNIV S) p"
      unfolding p
    proof (intro jr_store.store_transact lawful_run_step js_workspace)
      fix db db' :: journal_db and x
      show "workspace_step H loads UNIV (\<lambda>_ _ _. True) db db'"
        if "release_if_owner_scope_matches H loads key lease (ws_owner W) (Some (claim_scope_of X)) (Some c) now db = Inr (db', x)"
        using that by (rule ws_release_if) simp
    qed
  qed
  show ?thesis
    unfolding cleanup_transaction_def stop_lease_heartbeat_def release_claims_at_def release_claim_at_def drop_lease_def
    by (intro jr_db.db_rules jr_tx call jr_db.db_release)
      (auto split: sum.split intro!: jr_db.db_rules jr_tx call jr_db.db_release)
qed

lemma jr_enter:
  assumes "H = co_digest (ws_coordinator W)" and "loads = co_loads (ws_coordinator W)"
  shows "keeps (lawful_run H loads UNIV S) (enter_transaction S W X)"
proof -
  have time: "keeps (lawful_run H loads UNIV S) (given_time S now)" for now
    unfolding given_time_def by (intro jr_db.db_rules)
  have claim: "keeps (lawful_run H loads UNIV S) (claim_resource_key_for S W X lease key kind now)" for lease key kind now
    unfolding claim_resource_key_for_def
    by (intro jr_db.db_rules jr_tx time jr_store.store_transact lawful_run_step js_workspace) (auto intro: ws_upsert)
  have acquired: "keeps (lawful_run H loads UNIV S) (transact S (\<lambda>ids db. acquire name owner ttl None (ids 0) now db))"
    for name owner ttl now
    by (intro jr_store.store_transact) (auto intro: jr_db.lease_call step_acquire)
  have beat: "keeps (lawful_run H loads UNIV S) (transact S (\<lambda>_ db. heartbeat_once lease ttl now db))" for lease ttl now
    by (intro jr_store.store_transact) (auto simp: heartbeat_once_def res_bind_Inr intro: jr_store.beat split: option.splits)
  have failed: "keeps (lawful_run H loads UNIV S) (entry_failure S W X e)" for e
    unfolding entry_failure_def by (intro jr_db.db_rules jr_tx jr_claims assms)
  show ?thesis
    unfolding enter_transaction_def claim_resources_def start_lease_heartbeat_def
    by (intro jr_db.db_rules jr_tx time claim acquired beat) (auto intro: failed)
qed

end
