(* ===== verification/Exit_Properties.thy ===== *)
theory Exit_Properties
  imports Exit_Steps
begin

section \<open>What is left after a transaction\<close>

text \<open>
  After a failed body a transaction either has undone everything and let go of its claims, or it
  has kept them for a later recovery; there is nothing in between.
\<close>

lemma heartbeat_core: "core t = core t' \<Longrightarrow> heartbeat_sound S t = heartbeat_sound S t'"
  by (cases t; cases t') (simp add: core_def heartbeat_sound_def)

lemma core_eqD:
  assumes "core t = core t'"
  shows "ts_claims t = ts_claims t'" "ts_claim_release_order t = ts_claim_release_order t'" "ts_lease t = ts_lease t'"
    "ts_entered t = ts_entered t'" "ts_closed t = ts_closed t'"
  using assms by (cases t; cases t'; simp add: core_def)+

text \<open>What the steps before the cleanup keep.\<close>

definition ready ::
  "surroundings \<Rightarrow> 'w workspace \<Rightarrow> transaction_spec \<Rightarrow> lease_record \<Rightarrow> transaction_state \<Rightarrow> 'w transaction_world run_state \<Rightarrow> bool" where
  "ready S W X lease t s \<longleftrightarrow> holding W X lease s \<and> journal_wf (run_db s) \<and> core (tstate s) = core t"

lemma ready_kept:
  assumes "lawful H loads UNIV S" and "private_scope S X" and "ready S W X lease t s" and "tx_kept H loads S X s s'"
  shows "ready S W X lease t s' \<and> history H loads (run_db s) (run_db s')"
proof -
  have wf: "journal_wf (run_db s)" "claim_wf (run_db s)" using assms(3) by (simp_all add: ready_def holding_def)
  have db: "(journal_step H loads UNIV)\<^sup>*\<^sup>* (run_db s) (run_db s')" "claim_wf (run_db s')"
    "scope_claims X (run_db s') = scope_claims X (run_db s)" and t: "core (tstate s') = core (tstate s)"
    using assms(1,2,4) wf by (simp_all add: tx_kept_def tx_run_def settled_def)
  have wf': "journal_wf (run_db s')" by (rule history_wf [OF db(1) wf(1)])
  then have "lease_wf (run_db s')" by (simp add: journal_wf_def base_wf_def)
  then show ?thesis
    using assms(3) db wf wf' t core_eqD [OF t] by (simp add: ready_def holding_def history_def)
qed

lemma wp_ready:
  assumes "lawful H loads UNIV S" and "private_scope S X" and "ready S W X lease t s" and "keeps (tx_kept H loads S X) m"
  shows "wp m (\<lambda>_ s'. ready S W X lease t s' \<and> history H loads (run_db s) (run_db s'))
    (\<lambda>_ s'. ready S W X lease t s' \<and> history H loads (run_db s) (run_db s')) s"
  by (rule wp_keeps [OF assms(4)]) (rule ready_kept [OF assms(1-3)], assumption)+

lemma wp_any_failure: "wp m (\<lambda>_. Q) (\<lambda>_. Q) s \<Longrightarrow> wp (any_failure m) (\<lambda>_. Q) E s"
  unfolding any_failure_def wp_catching by simp

lemma wp_files: "wp m (\<lambda>x t. Q x (run_db t)) (\<lambda>e t. E e (run_db t)) (files_state s) \<Longrightarrow> wp (files m) (\<lambda>x t. Q x (run_db t)) (\<lambda>e t. E e (run_db t)) s"
  by (simp add: wp_def files_def split: prod.splits sum.splits)

text \<open>The state is the one that the program leaves.\<close>

lemma wp_left: "wp m Q E s \<Longrightarrow> wp m (\<lambda>x s'. Q x s' \<and> s' = snd (m s)) (\<lambda>e s'. E e s' \<and> s' = snd (m s)) s"
  by (auto simp: wp_def split: prod.splits sum.splits)

lemma all_recovered_later:
  "all_recovered W X loads db db' \<Longrightarrow> history (co_digest (ws_coordinator W)) loads db' db'' \<Longrightarrow> all_recovered W X loads db db''"
  unfolding all_recovered_def using histories_trans recovered_kept by blast

subsection \<open>The rollback within the exit\<close>

lemma wp_rollback_unresolved:
  assumes "lawful (co_digest (ws_coordinator W)) loads UNIV S" and "private_scope S X"
    and "lawful_handlers (co_digest (ws_coordinator W)) loads (ws_handling W)"
    and "scope_handlers (co_digest (ws_coordinator W)) loads S X (ws_handling W)"
    and "ready S W X lease t s"
  shows "wp (rollback_unresolved S W X lease now)
    (\<lambda>unresolved s'. ready S W X lease t s' \<and> history (co_digest (ws_coordinator W)) loads (run_db s) (run_db s')
       \<and> (unresolved \<longrightarrow> tx_rollback X = ''automatic'')
       \<and> (\<not> unresolved \<longrightarrow> tx_rollback X = ''automatic''
           \<longrightarrow> all_recovered W X loads (set_others S (run_tick s) (run_db s)) (run_db s'))) (\<lambda>_ _. False) s"
proof -
  let ?H = "co_digest (ws_coordinator W)" and ?run = "run_automatic_transaction_rollback S W X lease True now"
  let ?db = "set_others S (run_tick s) (run_db s)"
  have wf: "journal_wf (run_db s)" using assms(5) by (simp add: ready_def)
  have kept: "keeps (tx_kept ?H loads S X) (files ?run)"
    by (rule tk_files) (rule tr.db_automatic [OF refl tr_recover [OF refl assms(4)]])
  have result: "wp (files ?run) (\<lambda>r s'. (\<not> r \<longrightarrow> tx_rollback X = ''automatic'')
      \<and> (r \<longrightarrow> tx_rollback X = ''automatic'' \<longrightarrow> all_recovered W X loads ?db (run_db s')))
    (\<lambda>_ _. tx_rollback X = ''automatic'') s"
  proof (cases "tx_rollback X = ''automatic''")
    case True
    have "wp ?run (\<lambda>r t. r \<longrightarrow> all_recovered W X loads ?db (run_db t)) (\<lambda>_ _. True) (files_state s)"
      using rollback_complete [OF assms(1) _ assms(3) True, of "files_state s" lease True now] wf
      by (simp add: files_state_def)
    then have "wp (files ?run) (\<lambda>r t. r \<longrightarrow> all_recovered W X loads ?db (run_db t)) (\<lambda>_ _. True) s"
      using wp_files [where E = "\<lambda>_ _. True" and Q = "\<lambda>r db. r \<longrightarrow> all_recovered W X loads ?db db"] by blast
    then show ?thesis by (rule wp_mono) (simp_all add: True)
  qed (simp add: run_automatic_transaction_rollback_def wp_def files_def ret_def)
  show ?thesis
    unfolding rollback_unresolved_def any_failure_def wp_bind wp_ret' wp_catching
    by (rule wp_mono [OF wp_conj [OF wp_ready [OF assms(1,2,5) kept] result]]) simp_all
qed

subsection \<open>Abandoning and cleaning\<close>

lemma wp_abandon:
  assumes "ready S W X lease t s" and "ts_lease t = Some lease" and "heartbeat_sound S t"
  shows "wp (abandon_transaction_for_recovery S)
    (\<lambda>_ s'. run_db s' = run_db s \<and> tstate s' = (tstate s)\<lparr>ts_heartbeat := None, ts_lease := None\<rparr>) (\<lambda>_ _. False) s"
proof -
  have c: "core (tstate s) = core t" using assms(1) by (simp add: ready_def)
  have l: "ts_lease (tstate s) = Some lease" using core_eqD(3) [OF c] assms(2) by simp
  have sound: "heartbeat_sound S (tstate s)" using heartbeat_core [OF c] assms(3) by simp
  show ?thesis
    unfolding abandon_transaction_for_recovery_def wp_bind wp_get_state l option.case wp_catching drop_lease_def wp_modify wp_ret
    by (rule wp_mono [OF wp_stop_heartbeat [OF sound]]) simp_all
qed

text \<open>The cleanup of a transaction that still holds everything.\<close>

lemma wp_clean:
  assumes "lawful (co_digest (ws_coordinator W)) (co_loads (ws_coordinator W)) UNIV S" and "private_scope S X"
    and "ready S W X lease t s" and "ts_lease t = Some lease" and "heartbeat_sound S t"
  shows "wp (cleanup_transaction S W X)
    (\<lambda>e s'. cleaned S X lease (tstate s) e s'
       \<and> history (co_digest (ws_coordinator W)) (co_loads (ws_coordinator W)) (run_db s) (run_db s')) (\<lambda>_ _. False) s"
proof -
  have c: "core (tstate s) = core t" "holding W X lease s" "journal_wf (run_db s)" using assms(3) by (simp_all add: ready_def)
  have l: "ts_lease (tstate s) = Some lease" using core_eqD(3) [OF c(1)] assms(4) by simp
  have sound: "heartbeat_sound S (tstate s)" using heartbeat_core [OF c(1)] assms(5) by simp
  show ?thesis
    by (rule wp_mono [OF wp_conj [OF wp_cleanup [OF assms(2) c(2) l sound] wp_history [OF jr_claims [OF refl refl] assms(1) c(3)]]])
      simp_all
qed

subsection \<open>After a failed body\<close>

text \<open>
  The database in which the rollback of a failing \<open>__exit__\<close> finds the batches: after the touched
  phases were marked as failed, and whatever other processes have done until that read.
\<close>

definition rollback_look :: "surroundings \<Rightarrow> 'w workspace \<Rightarrow> lease_record \<Rightarrow> 'w transaction_world run_state \<Rightarrow> journal_db" where
  "rollback_look S W lease s =
     (let u = snd (any_failure (mark_touched_operation_phases S W lease ''failed'' (set_clock S (run_tick s))) s)
      in set_others S (run_tick u) (run_db u))"

text \<open>\<open>__exit__\<close> first closes the transaction.\<close>

definition closing :: "'w transaction_world run_state \<Rightarrow> 'w transaction_world run_state" where
  "closing s = with_state (\<lambda>t. t\<lparr>ts_entered := False, ts_closed := True\<rparr>) s"

text \<open>Every batch found is recovered in the end, and all claims are let go; or every claim is kept.\<close>

definition let_go :: "'w workspace \<Rightarrow> transaction_spec \<Rightarrow> journal_db \<Rightarrow> 'w transaction_world run_state \<Rightarrow> bool" where
  "let_go W X db s' \<longleftrightarrow> scope_claims X (run_db s') = Map.empty \<and> ts_claims (tstate s') = Map.empty
     \<and> (tx_rollback X = ''automatic'' \<longrightarrow> all_recovered W X (co_loads (ws_coordinator W)) db (run_db s'))"

definition kept_for_recovery :: "transaction_spec \<Rightarrow> (string \<rightharpoonup> claim_record) \<Rightarrow> 'w transaction_world run_state \<Rightarrow> bool" where
  "kept_for_recovery X claims s' \<longleftrightarrow> scope_claims X (run_db s') = claims \<and> ts_claims (tstate s') = claims"

definition ended :: "'w transaction_world run_state \<Rightarrow> bool" where
  "ended s' \<longleftrightarrow> ts_lease (tstate s') = None \<and> \<not> ts_entered (tstate s') \<and> ts_closed (tstate s')"

lemma wp_exit_after_failure:
  fixes s :: "'w transaction_world run_state"
  assumes "lawful (co_digest (ws_coordinator W)) (co_loads (ws_coordinator W)) UNIV S" and "private_scope S X"
    and "lawful_handlers (co_digest (ws_coordinator W)) (co_loads (ws_coordinator W)) (ws_handling W)"
    and "scope_handlers (co_digest (ws_coordinator W)) (co_loads (ws_coordinator W)) S X (ws_handling W)"
    and "ready S W X lease t s" and "ts_lease t = Some lease" and "heartbeat_sound S t"
    and "\<not> ts_entered t" and "ts_closed t"
  shows "wp (exit_after_failure S W X lease guarded)
    (\<lambda>_ s'. ended s' \<and> (let_go W X (rollback_look S W lease s) s'
      \<or> tx_rollback X = ''automatic'' \<and> kept_for_recovery X (ts_claims t) s')) (\<lambda>_ _. False) s"
proof -
  let ?H = "co_digest (ws_coordinator W)" and ?loads = "co_loads (ws_coordinator W)"
  let ?R = "\<lambda>u. ready S W X lease t u \<and> history ?H ?loads (run_db s) (run_db u)"
  let ?goal = "\<lambda>_ s'. ended s' \<and> (let_go W X (rollback_look S W lease s) s'
      \<or> tx_rollback X = ''automatic'' \<and> kept_for_recovery X (ts_claims t) s')"
  have step: "wp (any_failure m) (\<lambda>_. ?R) (\<lambda>_ _. False) u"
    if "?R u" "keeps (tx_kept ?H ?loads S X) m" for m :: "('w, 'b) tx_program" and u
    by (rule wp_any_failure, rule wp_mono [OF wp_ready [OF assms(1,2) conjunct1 [OF that(1)] that(2)]])
      (use that(1) histories_trans in auto)
  let ?look = "rollback_look S W lease s"
  have undo: "wp (rollback_unresolved S W X lease now)
      (\<lambda>b u'. ?R u' \<and> (b \<longrightarrow> tx_rollback X = ''automatic'')
        \<and> (\<not> b \<longrightarrow> tx_rollback X = ''automatic'' \<longrightarrow> all_recovered W X ?loads ?look (run_db u'))) (\<lambda>_ _. False) u"
    if "?R u" "set_others S (run_tick u) (run_db u) = ?look" for u now
    by (rule wp_mono [OF wp_rollback_unresolved [OF assms(1-4) conjunct1 [OF that(1)]]])
      (use that histories_trans in \<open>simp_all, blast\<close>)
  have facts: "ts_claims (tstate u) = ts_claims t" "ts_entered (tstate u) = ts_entered t" "ts_closed (tstate u) = ts_closed t"
    "scope_claims X (run_db u) = ts_claims t" if "ready S W X lease t u" for u
    using that core_eqD [of "tstate u" t] by (simp_all add: ready_def holding_def)
  have abandoned: "wp (bind (abandon_transaction_for_recovery S) (\<lambda>_. ret ())) ?goal (\<lambda>_ _. False) u"
    if "ready S W X lease t u" "tx_rollback X = ''automatic''" for u
    unfolding wp_bind wp_ret'
    by (rule wp_mono [OF wp_abandon [OF that(1) assms(6,7)]])
      (use facts [OF that(1)] that(2) assms(8,9) in \<open>simp_all add: ended_def kept_for_recovery_def\<close>)
  have clean: "wp (cleanup_transaction S W X) (\<lambda>_ s'. ended s' \<and> let_go W X (rollback_look S W lease s) s') (\<lambda>_ _. False) u"
    if u: "?R u" "tx_rollback X = ''automatic'' \<longrightarrow> all_recovered W X ?loads ?look (run_db u)" for u
  proof (rule wp_mono [OF wp_clean [OF assms(1,2) conjunct1 [OF u(1)] assms(6,7)]])
    fix e and s' :: "'w transaction_world run_state"
    assume c: "cleaned S X lease (tstate u) e s' \<and> history ?H ?loads (run_db u) (run_db s')"
    then have "tstate s' = (bare (tstate u))\<lparr>ts_heartbeat := None, ts_lease := None\<rparr>" "scope_claims X (run_db s') = Map.empty"
      by (simp_all add: cleaned_def)
    moreover have "tx_rollback X = ''automatic'' \<longrightarrow> all_recovered W X ?loads ?look (run_db s')"
      using u(2) c all_recovered_later by blast
    ultimately show "ended s' \<and> let_go W X (rollback_look S W lease s) s'"
      using facts [OF conjunct1 [OF u(1)]] assms(8,9) by (simp add: ended_def let_go_def bare_def)
  qed
  have finish: "wp (bind (if guarded
        then bind (any_failure (cleanup_transaction S W X)) (\<lambda>r. ret (case r of Inl _ \<Rightarrow> None | Inr e \<Rightarrow> e))
        else cleanup_transaction S W X) set_cleanup_error) ?goal (\<lambda>_ _. False) u"
    if u: "?R u" "tx_rollback X = ''automatic'' \<longrightarrow> all_recovered W X ?loads ?look (run_db u)" for u
  proof -
    have set: "ended (with_state (\<lambda>t. t\<lparr>ts_cleanup_error := e\<rparr>) s') = ended s'"
      "let_go W X db (with_state (\<lambda>t. t\<lparr>ts_cleanup_error := e\<rparr>) s') = let_go W X db s'" for e s' db
      by (simp_all add: ended_def let_go_def)
    show ?thesis
      by (cases guarded)
        (simp_all add: wp_bind wp_ret' any_failure_def wp_catching set_cleanup_error_def wp_modify set wp_mono [OF clean [OF u]])
  qed
  show ?thesis
    unfolding exit_after_failure_def wp_bind [of "clock_time S"] wp_clock
      wp_bind [of "any_failure (mark_touched_operation_phases S W lease ''failed'' _)"]
  proof (rule wp_mono [OF wp_left [OF step]])
    show "?R s" using assms(5) by (simp add: history_def ready_def)
    show "keeps (tx_kept ?H ?loads S X) (mark_touched_operation_phases S W lease ''failed'' (set_clock S (run_tick s)))"
      by (rule tk_mark_phases)
    fix x and u :: "'w transaction_world run_state"
    assume "?R u \<and> u = snd (any_failure (mark_touched_operation_phases S W lease ''failed'' (set_clock S (run_tick s))) s)"
    then have u: "?R u" and left: "snd (any_failure (mark_touched_operation_phases S W lease ''failed'' (set_clock S (run_tick s))) s) = u"
      by blast+
    have look: "set_others S (run_tick u) (run_db u) = ?look" by (simp only: rollback_look_def Let_def left)
    show "wp (bind (rollback_unresolved S W X lease (set_clock S (run_tick s))) (\<lambda>unresolved.
     bind get_state (\<lambda>t.
     bind (any_failure (if guarded \<or> ts_touched_runs t \<noteq> []
        then mark_touched_operation_runs S W lease ''failed'' (set_clock S (run_tick s)) else ret ())) (\<lambda>_.
     if unresolved then bind (abandon_transaction_for_recovery S) (\<lambda>_. ret ())
     else bind (if guarded
                then bind (any_failure (cleanup_transaction S W X)) (\<lambda>r. ret (case r of Inl _ \<Rightarrow> None | Inr e \<Rightarrow> e))
                else cleanup_transaction S W X) (\<lambda>e.
          set_cleanup_error e))))) ?goal (\<lambda>_ _. False) u"
      unfolding wp_bind [of "rollback_unresolved S W X lease _"] wp_bind [of get_state] wp_get_state
    proof (rule wp_mono [OF undo [OF u look]])
      fix b and v :: "'w transaction_world run_state"
      assume v: "?R v \<and> (b \<longrightarrow> tx_rollback X = ''automatic'') \<and> (\<not> b \<longrightarrow> tx_rollback X = ''automatic'' \<longrightarrow> all_recovered W X ?loads ?look (run_db v))"
      let ?mark = "if guarded \<or> ts_touched_runs (tstate v) \<noteq> []
        then mark_touched_operation_runs S W lease ''failed'' (set_clock S (run_tick s)) else ret ()"
      have keeps: "keeps (tx_kept ?H ?loads S X) ?mark" by (intro tk_rules tk_mark_runs)
      have marked: "wp (any_failure ?mark) (\<lambda>_ w. ?R w \<and> history ?H ?loads (run_db v) (run_db w)) (\<lambda>_ _. False) v"
        by (rule wp_any_failure, rule wp_mono [OF wp_ready [OF assms(1,2) _ keeps]]) (use v histories_trans in blast)+
      show "wp (bind (any_failure ?mark) (\<lambda>_.
     if b then bind (abandon_transaction_for_recovery S) (\<lambda>_. ret ())
     else bind (if guarded
                then bind (any_failure (cleanup_transaction S W X)) (\<lambda>r. ret (case r of Inl _ \<Rightarrow> None | Inr e \<Rightarrow> e))
                else cleanup_transaction S W X) (\<lambda>e.
          set_cleanup_error e))) ?goal (\<lambda>_ _. False) v"
        unfolding wp_bind [of "any_failure ?mark"]
      proof (rule wp_mono [OF marked])
        fix x and w :: "'w transaction_world run_state"
        assume w: "?R w \<and> history ?H ?loads (run_db v) (run_db w)"
        have "\<not> b \<Longrightarrow> tx_rollback X = ''automatic'' \<longrightarrow> all_recovered W X ?loads ?look (run_db w)"
          using v w all_recovered_later by blast
        then show "wp (if b then bind (abandon_transaction_for_recovery S) (\<lambda>_. ret ())
     else bind (if guarded
                then bind (any_failure (cleanup_transaction S W X)) (\<lambda>r. ret (case r of Inl _ \<Rightarrow> None | Inr e \<Rightarrow> e))
                else cleanup_transaction S W X) (\<lambda>e.
          set_cleanup_error e)) ?goal (\<lambda>_ _. False) w"
          using abandoned [of w] finish [of w] w v by (cases b) simp_all
      qed
    qed
  qed simp
qed

lemma sample_holding:
  obtains lease where "ts_lease (tstate (snd (enter_transaction demo_surroundings (sample_workspace coded_dumps coded_loads) sample_transaction sample_idle))) = Some lease"
    "holding (sample_workspace coded_dumps coded_loads) sample_transaction lease
      (snd (enter_transaction demo_surroundings (sample_workspace coded_dumps coded_loads) sample_transaction sample_idle))"
    "ts_entered (tstate (snd (enter_transaction demo_surroundings (sample_workspace coded_dumps coded_loads) sample_transaction sample_idle)))"
    "dom (ts_claims (tstate (snd (enter_transaction demo_surroundings (sample_workspace coded_dumps coded_loads) sample_transaction sample_idle))))
      = rh_resource_key ` snd ` set (tx_resources sample_transaction)"
proof -
  have "opened (sample_workspace coded_dumps coded_loads) sample_transaction
      (snd (enter_transaction demo_surroundings (sample_workspace coded_dumps coded_loads) sample_transaction sample_idle))"
    using wp_run [OF wp_enter [OF sample_private sample_fair sample_thread_quiet sample_unopened] prod.collapse [symmetric]]
      sample_entered [of coded_dumps coded_loads]
    by (simp add: case_prod_beta)
  then show ?thesis using that by (auto simp: opened_def)
qed

lemma sample_entered_wf:
  "journal_wf (run_db (snd (enter_transaction demo_surroundings (sample_workspace coded_dumps coded_loads) sample_transaction sample_idle)))"
proof -
  have "wp (enter_transaction demo_surroundings (sample_workspace coded_dumps coded_loads) sample_transaction)
      (\<lambda>_ t. journal_wf (run_db t)) (\<lambda>_ t. journal_wf (run_db t)) sample_idle"
    by (rule wp_mono [OF wp_history [OF jr_enter [OF refl refl]]])
      (use demo_lawful empty_db_wf history_end in \<open>auto simp: sample_idle_def sample_workspace_def sample_coordinator_def\<close>)
  from wp_run [OF this prod.collapse [symmetric]] show ?thesis by (simp split: sum.splits)
qed

lemma sample_workspace_fields:
  "co_digest (ws_coordinator (sample_workspace dumps loads)) = rev" "ws_handling (sample_workspace dumps loads) = sample_handling"
  by (simp_all add: sample_workspace_def sample_coordinator_def)

lemma sample_handlers: "lawful_handlers H loads sample_handling" "scope_handlers H loads S X sample_handling"
  by (simp_all add: lawful_handlers_def scope_handlers_def sample_handling_def)

lemma sample_exit:
  "(\<lambda>(r, s). r = Inr () \<and> ts_claims (tstate s) ''file:/w/f'' = None)
     (exit_transaction demo_surroundings (sample_workspace dumps loads) sample_transaction (Some (OtherFailure ''boom''))
       (snd (enter_transaction demo_surroundings (sample_workspace dumps loads) sample_transaction sample_idle)))"
  by code_simp

text \<open>
  C39. A failed transaction is undone or handed over, never lost. Let a transaction hold its lease and
  its claims, let its body fail, and let no renewal of its heartbeat have failed. Whatever other
  processes do by calls of the stores (to anything but the claims under its own scope), \<open>__exit__\<close>
  returns (so the error of the body, and no other, reaches the caller), the transaction is closed and
  holds no lease, and one of two things is the case. Either all its claims are released, in the store
  and in its memory, and then, with automatic rollback, every batch of the transaction that its
  rollback found attempting, failed, succeeded, waiting for recovery or not recovered by an earlier
  attempt is recovered in the end: in the last database its phase is \<open>recovery_succeeded\<close>. Or, with
  automatic rollback only, every claim is still in the store, untouched, so that nobody else can take
  the resources before they are recovered. The rollback finds the batches in the database after the touched phases were marked; a
  batch that another process is recovering at that moment is left to it. Without automatic rollback
  the claims are always released, and nothing is said of the batches.
\<close>

theorem failed_transaction_is_undone_or_kept:
  assumes "lawful (co_digest (ws_coordinator W)) (co_loads (ws_coordinator W)) UNIV S" and "private_scope S X"
    and "lawful_handlers (co_digest (ws_coordinator W)) (co_loads (ws_coordinator W)) (ws_handling W)"
    and "scope_handlers (co_digest (ws_coordinator W)) (co_loads (ws_coordinator W)) S X (ws_handling W)"
    and "journal_wf (run_db s)" and "holding W X lease s" and "ts_lease (tstate s) = Some lease" and "ts_entered (tstate s)"
    and "heartbeat_sound S (tstate s)" and "exit_transaction S W X (Some e) s = (r, s')"
  shows "r = Inr () \<and> ended s'
    \<and> (let_go W X (rollback_look S W lease (closing s)) s'
      \<or> tx_rollback X = ''automatic'' \<and> kept_for_recovery X (ts_claims (tstate s)) s')"
proof -
  let ?s = "closing s"
  have "ready S W X lease (tstate ?s) ?s" "heartbeat_sound S (tstate ?s)" "ts_lease (tstate ?s) = Some lease"
    using assms(5-9) by (simp_all add: ready_def holding_def heartbeat_sound_def closing_def)
  note exit = wp_exit_after_failure [OF assms(1-4) this(1,3,2), unfolded closing_def]
  have "wp (exit_transaction S W X (Some e)) (\<lambda>_ s'. ended s' \<and>
      (let_go W X (rollback_look S W lease ?s) s' \<or> tx_rollback X = ''automatic'' \<and> kept_for_recovery X (ts_claims (tstate s)) s')) (\<lambda>_ _. False) s"
    unfolding exit_transaction_def exit_with_implicit_operation_def transaction_lease_def wp_bind wp_get_state wp_modify closing_def
    using exit assms(7,8) by (simp add: wp_bind wp_get_state wp_modify wp_ret split: option.split)
  from wp_run [OF this assms(10)] show ?thesis by (cases r) simp_all
qed

theorem failed_transaction_is_undone_or_kept_witness:
  "let_go (sample_workspace coded_dumps coded_loads) sample_transaction
     (rollback_look demo_surroundings (sample_workspace coded_dumps coded_loads)
       (the (ts_lease (tstate (snd (enter_transaction demo_surroundings (sample_workspace coded_dumps coded_loads) sample_transaction sample_idle)))))
       (closing (snd (enter_transaction demo_surroundings (sample_workspace coded_dumps coded_loads) sample_transaction sample_idle))))
     (snd (exit_transaction demo_surroundings (sample_workspace coded_dumps coded_loads) sample_transaction (Some (OtherFailure ''boom''))
       (snd (enter_transaction demo_surroundings (sample_workspace coded_dumps coded_loads) sample_transaction sample_idle))))"
proof -
  let ?W = "sample_workspace coded_dumps coded_loads" and ?X = sample_transaction
  let ?s = "snd (enter_transaction demo_surroundings ?W ?X sample_idle)"
  obtain lease where lease: "ts_lease (tstate ?s) = Some lease" "holding ?W ?X lease ?s" "ts_entered (tstate ?s)"
    and dom: "dom (ts_claims (tstate ?s)) = rh_resource_key ` snd ` set (tx_resources ?X)"
    by (rule sample_holding)
  have sound: "heartbeat_sound demo_surroundings (tstate ?s)" by (simp add: heartbeat_sound_def sample_thread_quiet)
  have held: "the (ts_lease (tstate ?s)) = lease" by (simp add: lease(1))
  let ?r = "exit_transaction demo_surroundings ?W ?X (Some (OtherFailure ''boom'')) ?s"
  have "let_go ?W ?X (rollback_look demo_surroundings ?W (the (ts_lease (tstate ?s))) (closing ?s)) (snd ?r) \<or> kept_for_recovery ?X (ts_claims (tstate ?s)) (snd ?r)"
    using failed_transaction_is_undone_or_kept [where W = ?W and X = ?X and e = "OtherFailure ''boom''", unfolded sample_workspace_fields,
        OF demo_lawful sample_private sample_handlers sample_entered_wf lease(2,1,3) sound prod.collapse [symmetric]]
    unfolding held by blast
  moreover have "''file:/w/f'' \<in> dom (ts_claims (tstate ?s))"
    by (simp add: dom) (simp add: sample_transaction_def path_resource_def Let_def)
  moreover have "ts_claims (tstate (snd ?r)) ''file:/w/f'' = None"
    using sample_exit [of coded_dumps coded_loads] by (simp add: case_prod_beta)
  ultimately show ?thesis by (auto simp: kept_for_recovery_def)
qed

end
