(* ===== verification/Exit_Commit.thy ===== *)
theory Exit_Commit
  imports Exit_Properties
begin

section \<open>The final transaction\<close>

text \<open>
  A transaction whose body succeeded ends with one transaction of the database that changes the
  statuses of its phases and runs, removes its claims and gives the lease back, or does nothing.
\<close>

subsection \<open>Statuses\<close>

definition phase_succeeded :: "operation_phase_record \<Rightarrow> journal_db \<Rightarrow> bool" where
  "phase_succeeded p db \<longleftrightarrow> map_option phase_status
     (operation_phase_row (phase_operation_phase_id p) (operation_phase_table db)) = Some ''succeeded''"

definition run_succeeded :: "operation_run_record \<Rightarrow> journal_db \<Rightarrow> bool" where
  "run_succeeded r db \<longleftrightarrow> map_option run_status
     (operation_run_row (run_operation_run_id r) (operation_run_table db)) = Some ''succeeded''"

lemma update_phase_ok:
  assumes "update_phase_in_connection lease now p db = Inr (db', u)"
  shows "(\<exists>t. db' = db\<lparr>operation_phase_table := t\<rparr>) \<and> phase_succeeded p db' \<and> (\<forall>q. phase_succeeded q db \<longrightarrow> phase_succeeded q db')"
proof -
  let ?i = "phase_operation_phase_id p" and ?f = "\<lambda>r. r\<lparr>phase_status := ''succeeded'', phase_updated_at := now\<rparr>"
  obtain row where row: "operation_phase_row ?i (operation_phase_table db) = Some row"
    and w: "write_phase_status row ?i ''succeeded'' now db = Inr (db', u)"
    using assms by (auto simp: update_phase_in_connection_def Let_def res_bind_Inr require_operation_phase_for_write_def
        from_option_def split: option.splits if_splits)
  show ?thesis
  proof (cases "phase_status row = ''succeeded''")
    case True
    then show ?thesis using w row by (auto simp: write_phase_status_def phase_succeeded_def intro: exI [of _ "operation_phase_table db"])
  next
    case False
    then have eq: "db' = db\<lparr>operation_phase_table := fst (sql_update (\<lambda>r. phase_operation_phase_id r = ?i) ?f (operation_phase_table db))\<rparr>"
      using w by (auto simp: write_phase_status_def Let_def res_bind_Inr)
    have look: "operation_phase_row k (operation_phase_table db')
        = map_option (\<lambda>r. if phase_operation_phase_id r = ?i then ?f r else r) (operation_phase_row k (operation_phase_table db))" for k
      unfolding eq by (simp add: run_phases.get_row_update)
    have "phase_succeeded q db' \<longleftrightarrow> phase_succeeded q db \<or> phase_operation_phase_id q = ?i" for q
    proof (cases "operation_phase_row (phase_operation_phase_id q) (operation_phase_table db)")
      case None
      then have "phase_operation_phase_id q \<noteq> ?i" using row by auto
      then show ?thesis using None by (simp add: phase_succeeded_def look)
    next
      case (Some x)
      then have "phase_operation_phase_id x = phase_operation_phase_id q" by (rule run_phases.get_row_key)
      then show ?thesis using Some by (simp add: phase_succeeded_def look)
    qed
    then show ?thesis using eq by blast
  qed
qed

lemma update_run_ok:
  assumes "update_run_in_connection lease now r db = Inr (db', u)"
  shows "(\<exists>t. db' = db\<lparr>operation_run_table := t\<rparr>) \<and> run_succeeded r db' \<and> (\<forall>q. run_succeeded q db \<longrightarrow> run_succeeded q db')"
proof -
  let ?i = "run_operation_run_id r" and ?f = "\<lambda>r. r\<lparr>run_status := ''succeeded'', run_updated_at := now\<rparr>"
  obtain row where row: "operation_run_row ?i (operation_run_table db) = Some row"
    and w: "write_run_status row ?i ''succeeded'' now db = Inr (db', u)"
    using assms by (auto simp: update_run_in_connection_def Let_def res_bind_Inr require_operation_run_for_write_def
        from_option_def split: option.splits if_splits)
  show ?thesis
  proof (cases "run_status row = ''succeeded''")
    case True
    then show ?thesis using w row by (auto simp: write_run_status_def run_succeeded_def intro: exI [of _ "operation_run_table db"])
  next
    case False
    then have eq: "db' = db\<lparr>operation_run_table := fst (sql_update (\<lambda>r. run_operation_run_id r = ?i) ?f (operation_run_table db))\<rparr>"
      using w by (auto simp: write_run_status_def Let_def res_bind_Inr)
    have look: "operation_run_row k (operation_run_table db')
        = map_option (\<lambda>r. if run_operation_run_id r = ?i then ?f r else r) (operation_run_row k (operation_run_table db))" for k
      unfolding eq by (simp add: runs.get_row_update)
    have "run_succeeded q db' \<longleftrightarrow> run_succeeded q db \<or> run_operation_run_id q = ?i" for q
    proof (cases "operation_run_row (run_operation_run_id q) (operation_run_table db)")
      case None
      then have "run_operation_run_id q \<noteq> ?i" using row by auto
      then show ?thesis using None by (simp add: run_succeeded_def look)
    next
      case (Some x)
      then have "run_operation_run_id x = run_operation_run_id q" by (rule runs.get_row_key)
      then show ?thesis using Some by (simp add: run_succeeded_def look)
    qed
    then show ?thesis using eq by blast
  qed
qed

lemma update_all_ok:
  assumes "\<And>r db db' u. f r db = Inr (db', u) \<Longrightarrow> frame db db' \<and> P r db' \<and> (\<forall>q. P q db \<longrightarrow> P q db')"
    and "\<And>db. frame db db" and "\<And>db1 db2 db3. frame db1 db2 \<Longrightarrow> frame db2 db3 \<Longrightarrow> frame db1 db3"
    and "update_all f rs db = (us, Inr db')"
  shows "frame db db' \<and> (\<forall>r \<in> set rs. P r db') \<and> (\<forall>q. P q db \<longrightarrow> P q db')"
  using assms(4)
proof (induction rs arbitrary: db us)
  case Nil
  then show ?case using assms(2) by simp
next
  case (Cons r rs)
  obtain db1 u where one: "f r db = Inr (db1, u)" using Cons.prems by (auto split: sum.splits)
  obtain us' where rest: "update_all f rs db1 = (us', Inr db')" using Cons.prems one by (auto simp: Let_def split: prod.splits)
  show ?case using Cons.IH [OF rest] assms(1) [OF one] assms(3) by auto
qed

lemma phases_ok:
  assumes "update_all (update_phase_in_connection lease now) phases db = (us, Inr db')"
  shows "(\<exists>t. db' = db\<lparr>operation_phase_table := t\<rparr>) \<and> (\<forall>p \<in> set phases. phase_succeeded p db')"
proof -
  let ?frame = "\<lambda>db db' :: journal_db. \<exists>t. db' = db\<lparr>operation_phase_table := t\<rparr>"
  have "?frame db db' \<and> (\<forall>r \<in> set phases. phase_succeeded r db') \<and> (\<forall>q. phase_succeeded q db \<longrightarrow> phase_succeeded q db')"
  proof (rule update_all_ok [where frame = ?frame and P = phase_succeeded, OF _ _ _ assms])
    show "?frame db db" for db by (rule exI [of _ "operation_phase_table db"]) simp
    show "?frame db1 db3" if "?frame db1 db2" "?frame db2 db3" for db1 db2 db3 using that by auto
  qed (rule update_phase_ok)
  then show ?thesis by blast
qed

lemma runs_ok:
  assumes "update_all (update_run_in_connection lease now) runs db = (us, Inr db')"
  shows "(\<exists>t. db' = db\<lparr>operation_run_table := t\<rparr>) \<and> (\<forall>r \<in> set runs. run_succeeded r db')"
proof -
  let ?frame = "\<lambda>db db' :: journal_db. \<exists>t. db' = db\<lparr>operation_run_table := t\<rparr>"
  have "?frame db db' \<and> (\<forall>r \<in> set runs. run_succeeded r db') \<and> (\<forall>q. run_succeeded q db \<longrightarrow> run_succeeded q db')"
  proof (rule update_all_ok [where frame = ?frame and P = run_succeeded, OF _ _ _ assms])
    show "?frame db db" for db by (rule exI [of _ "operation_run_table db"]) simp
    show "?frame db1 db3" if "?frame db1 db2" "?frame db2 db3" for db1 db2 db3 using that by auto
  qed (rule update_run_ok)
  then show ?thesis by blast
qed

subsection \<open>Claims\<close>

lemma release_claims_ok:
  assumes "claim_wf db" and "scope_claims X db = (\<lambda>k. if k \<in> set keys then claims k else None)"
    and "distinct keys" and "set keys \<subseteq> dom claims" and "own_claims W X lease claims"
  shows "\<exists>t. release_claims_in_connection W X claims keys db = Inr (db\<lparr>claim_table := t\<rparr>, keys)
    \<and> scope_claims X (db\<lparr>claim_table := t\<rparr>) = Map.empty \<and> claim_wf (db\<lparr>claim_table := t\<rparr>)"
  using assms
proof (induction keys arbitrary: db)
  case Nil
  then show ?case by (intro exI [of _ "claim_table db"]) (simp add: fun_eq_iff)
next
  case (Cons key keys)
  obtain c where c: "claims key = Some c" using Cons.prems(4) by auto
  have own: "own_claim W X lease key c" using Cons.prems(5) c by (simp add: own_claims_def)
  have "scope_claims X db key = Some c" using Cons.prems(2) c by simp
  then obtain db' where rel: "release_claim_in_connection key (ws_owner W) (Some (claim_scope_of X)) (Some c) db = (db', True)"
    "claim_wf db'" "scope_claims X db' = (scope_claims X db)(key := None)"
    using release_scope [OF Cons.prems(1) _ own] by blast
  obtain t where t: "db' = db\<lparr>claim_table := t\<rparr>"
    using rel(1) by (auto simp: release_claim_in_connection_def Let_def split: prod.splits)
  have "scope_claims X db' = (\<lambda>k. if k \<in> set keys then claims k else None)"
    unfolding rel(3) Cons.prems(2) using Cons.prems(3) by (auto simp: fun_eq_iff)
  then obtain t' where "release_claims_in_connection W X claims keys db' = Inr (db'\<lparr>claim_table := t'\<rparr>, keys)"
    "scope_claims X (db'\<lparr>claim_table := t'\<rparr>) = Map.empty" "claim_wf (db'\<lparr>claim_table := t'\<rparr>)"
    using Cons.IH [OF rel(2)] Cons.prems(3-5) by auto
  then show ?case using c rel(1) t by (intro exI [of _ t']) (simp add: res_bind_def)
qed

subsection \<open>The commit\<close>

text \<open>What the memory of the transaction says of its claims is what the store has.\<close>

definition remembers :: "'w workspace \<Rightarrow> transaction_spec \<Rightarrow> lease_record \<Rightarrow> transaction_state \<Rightarrow> journal_db \<Rightarrow> bool" where
  "remembers W X lease t db \<longleftrightarrow> claim_wf db \<and> lease_wf db \<and> scope_claims X db = ts_claims t
     \<and> distinct (ts_claim_release_order t) \<and> set (ts_claim_release_order t) = dom (ts_claims t)
     \<and> own_claims W X lease (ts_claims t)"

lemma holding_remembers: "holding W X lease s \<longleftrightarrow> remembers W X lease (tstate s) (run_db s)"
  by (simp add: holding_def remembers_def)

lemma finalize_ok:
  assumes "remembers W X lease t db" and "finalize_in_connection W X lease now phases runs t fresh db = (noted, Inr (db', keys))"
  shows "lease_is_current db lease now" "set keys = dom (ts_claims t)" "scope_claims X db' = Map.empty"
    "claim_wf db'" "lease_wf db'" "\<forall>p \<in> set phases. phase_succeeded p db'" "\<forall>r \<in> set runs. run_succeeded r db'"
    "fresh \<noteq> lease_token lease \<Longrightarrow> \<not> lease_is_current db' lease time"
    "\<exists>lt ct pt rt. db' = db\<lparr>lease_table := lt, claim_table := ct, operation_run_table := rt, operation_phase_table := pt\<rparr>"
proof -
  note t = assms(1) [unfolded remembers_def]
  have cur: "require_current_lease db lease now = Inr ()"
    using assms(2) by (auto simp: finalize_in_connection_def split: sum.splits)
  then show current: "lease_is_current db lease now" by (simp add: require_current_lease_def require_def split: if_splits)
  obtain ps r1 where ps: "update_all (update_phase_in_connection lease now) phases db = (ps, r1)" by fastforce
  then obtain db1 where db1: "r1 = Inr db1" using assms(2) cur by (auto simp: finalize_in_connection_def split: sum.splits)
  note phases = phases_ok [OF ps [unfolded db1]]
  then obtain pt where pt: "db1 = db\<lparr>operation_phase_table := pt\<rparr>" by blast
  have wf1: "claim_wf db1" "scope_claims X db1 = ts_claims t"
    using t by (simp_all add: pt claim_wf_def scope_claims_def claim_view_def)
  have "ts_claims t = (\<lambda>k. if k \<in> set (rev (ts_claim_release_order t)) then ts_claims t k else None)"
    using t by (auto simp: fun_eq_iff dom_def)
  then obtain ct where ct: "release_claims_in_connection W X (ts_claims t) (rev (ts_claim_release_order t)) db1
      = Inr (db1\<lparr>claim_table := ct\<rparr>, rev (ts_claim_release_order t))"
    "scope_claims X (db1\<lparr>claim_table := ct\<rparr>) = Map.empty" "claim_wf (db1\<lparr>claim_table := ct\<rparr>)"
    using release_claims_ok [OF wf1(1), of X "rev (ts_claim_release_order t)" "ts_claims t" W lease] wf1(2) t by auto
  let ?db2 = "db1\<lparr>claim_table := ct\<rparr>"
  obtain rs r3 where rs: "update_all (update_run_in_connection lease now) runs ?db2 = (rs, r3)" by fastforce
  then obtain db3 where db3: "r3 = Inr db3"
    using assms(2) cur ps ct(1) by (auto simp: db1 finalize_in_connection_def split: sum.splits)
  note runs = runs_ok [OF rs [unfolded db3]]
  then obtain rt where rt: "db3 = ?db2\<lparr>operation_run_table := rt\<rparr>" by blast
  have wf3: "lease_wf db3" "lease_is_current db3 lease now = lease_is_current db lease now"
    using t lease_same_table [of db3 db] by (auto simp: rt pt)
  obtain lt b where rel: "release lease fresh now db3 = Inr (db3\<lparr>lease_table := lt\<rparr>, b)"
    using release_refines [OF wf3(1)] by blast
  have final: "db' = db3\<lparr>lease_table := lt\<rparr>" "keys = rev (ts_claim_release_order t)" "b"
    using assms(2) cur ps ct(1) rs rel by (auto simp: db1 db3 finalize_in_connection_def res_bind_def split: if_splits)
  show "set keys = dom (ts_claims t)" using t by (simp add: final(2))
  show "scope_claims X db' = Map.empty" "claim_wf db'"
    using ct(2,3) by (simp_all add: final(1) rt scope_claims_def claim_view_def claim_wf_def)
  show "lease_wf db'" using release_ok(2) [OF wf3(1) rel] by (simp add: final(1))
  show "\<forall>p \<in> set phases. phase_succeeded p db'" using phases by (simp add: final(1) rt phase_succeeded_def)
  show "\<forall>r \<in> set runs. run_succeeded r db'" using runs by (simp add: final(1) run_succeeded_def)
  show "fresh \<noteq> lease_token lease \<Longrightarrow> \<not> lease_is_current db' lease time"
    unfolding final(1)
    by (rule revoked_not_current [OF release_ok(2) [OF wf3(1) rel] release_true(2) [OF wf3(1) rel final(3)]]) simp
  show "\<exists>lt ct pt rt. db' = db\<lparr>lease_table := lt, claim_table := ct, operation_run_table := rt, operation_phase_table := pt\<rparr>"
    by (intro exI [of _ lt] exI [of _ ct] exI [of _ pt] exI [of _ rt]) (simp add: final(1) rt pt)
qed

subsection \<open>The transaction in the program\<close>

lemma wp_transact_noted:
  assumes "\<And>db n r. db = set_others S (run_tick s) (run_db s) \<Longrightarrow> body (\<lambda>k. set_ids S (run_tick s) k db) db = (n, r) \<Longrightarrow>
     (case r of
        Inl e \<Rightarrow> Q (n, Inl (Raised e)) (s\<lparr>run_db := db, run_tick := Suc (run_tick s)\<rparr>)
      | Inr (db', x) \<Rightarrow> Q (n, Inr x) (s\<lparr>run_db := db', run_tick := Suc (run_tick s)\<rparr>))"
  shows "wp (transact_noted S body) Q E s"
  using assms [OF refl prod.collapse [symmetric]]
  by (simp add: wp_def transact_noted_def transaction_def Let_def split: sum.splits prod.splits)

text \<open>Everything that the end of a transaction needs.\<close>

definition armed ::
  "surroundings \<Rightarrow> 'w workspace \<Rightarrow> transaction_spec \<Rightarrow> lease_record \<Rightarrow> (string \<rightharpoonup> claim_record) \<Rightarrow> 'w transaction_world run_state \<Rightarrow> bool" where
  "armed S W X lease claims s \<longleftrightarrow> ready S W X lease (tstate s) s \<and> ts_lease (tstate s) = Some lease
     \<and> heartbeat_sound S (tstate s) \<and> \<not> ts_entered (tstate s) \<and> ts_closed (tstate s) \<and> ts_claims (tstate s) = claims"

definition released :: "transaction_spec \<Rightarrow> 'w transaction_world run_state \<Rightarrow> bool" where
  "released X s \<longleftrightarrow> claim_wf (run_db s) \<and> lease_wf (run_db s) \<and> scope_claims X (run_db s) = Map.empty
     \<and> ts_claims (tstate s) = Map.empty"

lemma armed_kept:
  assumes "lawful H loads UNIV S" and "private_scope S X" and "armed S W X lease claims s" and "tx_kept H loads S X s s'"
  shows "armed S W X lease claims s'"
proof -
  have "ready S W X lease (tstate s) s'" using ready_kept [OF assms(1,2) _ assms(4)] assms(3) by (simp add: armed_def)
  then have c: "core (tstate s') = core (tstate s)" and r: "ready S W X lease (tstate s') s'" by (simp_all add: ready_def)
  show ?thesis using assms(3) r core_eqD [OF c] heartbeat_core [OF c] by (simp add: armed_def)
qed

lemma armed_with:
  assumes "armed S W X lease claims s" and "\<And>t. ts_claims (f t) = ts_claims t \<and> ts_claim_release_order (f t) = ts_claim_release_order t
      \<and> ts_lease (f t) = ts_lease t \<and> ts_entered (f t) = ts_entered t \<and> ts_closed (f t) = ts_closed t
      \<and> (ts_heartbeat (f t) = ts_heartbeat t \<or> ts_heartbeat (f t) = None)"
  shows "armed S W X lease claims (with_state f s)"
  using assms(1) assms(2) [of "tstate s"] by (auto simp: armed_def ready_def holding_def heartbeat_sound_def)

lemma wp_armed:
  assumes "lawful H loads UNIV S" and "private_scope S X" and "armed S W X lease claims s" and "keeps (tx_kept H loads S X) m"
  shows "wp m (\<lambda>_. armed S W X lease claims) (\<lambda>_. armed S W X lease claims) s"
  by (rule wp_keeps [OF assms(4)]) (rule armed_kept [OF assms(1-3)], assumption)+

lemma core_fold_follow: "core (fold follow_phase us t) = core t" "core (fold follow_run vs t) = core t"
  by (induction us arbitrary: t, simp_all) (induction vs arbitrary: t, simp_all)

lemma forgotten: "ts_claims (forget_claims keys t) = (\<lambda>k. if k \<in> set keys then None else ts_claims t k)"
  "ts_entered (forget_claims keys t) = ts_entered t" "ts_closed (forget_claims keys t) = ts_closed t"
  by (induction keys arbitrary: t) (auto simp: forget_claims_def forget_claim_def fun_eq_iff)

lemma armed_core:
  assumes "armed S W X lease claims s" and "core (f (tstate s)) = core (tstate s)"
  shows "armed S W X lease claims (with_state f s)"
  using assms(1) core_eqD [OF assms(2)] heartbeat_core [OF assms(2)] by (auto simp: armed_def ready_def holding_def)

lemma wp_finalize_success:
  fixes s :: "'w transaction_world run_state"
  assumes env: "lawful H loads UNIV S" "private_scope S X" and a: "armed S W X lease claims s"
  shows "wp (finalize_success S W X lease now phases runs follow_runs)
    (\<lambda>_ s'. ended s' \<and> released X s') (\<lambda>_. armed S W X lease claims) s"
  unfolding finalize_success_def wp_bind [of get_state] wp_get_state wp_bind [of "transact_noted S _"]
proof (rule wp_transact_noted, goal_cases)
  case (1 db n r)
  let ?s = "s\<lparr>run_db := db, run_tick := Suc (run_tick s)\<rparr>"
  have "keeps (tx_kept H loads S X) (read S (\<lambda>db. Inr ()) :: ('w, unit) tx_program)" by (rule tk_read)
  then have "tx_kept H loads S X s (snd (read S (\<lambda>db. Inr ()) s))" by (simp add: keeps_def)
  then have "tx_kept H loads S X s ?s" by (simp add: read_apply 1(1))
  then have armed: "armed S W X lease claims ?s" by (rule armed_kept [OF env a])
  let ?follow = "\<lambda>t. fold follow_phase (fst n) t" and ?follow' = "\<lambda>t. if follow_runs then fold follow_run (snd n) t else t"
  have core: "core (?follow t) = core t" "core (?follow' t) = core t" for t by (simp_all add: core_fold_follow)
  show ?case
  proof (cases r)
    case (Inl e)
    have "armed S W X lease claims (with_state ?follow' (with_state ?follow ?s))"
      by (intro armed_core armed core)
    then show ?thesis unfolding Inl sum.case prod.case wp_bind wp_modify wp_raise fst_conv snd_conv .
  next
    case (Inr x)
    obtain db' keys where x: "x = (db', keys)" by (cases x)
    let ?t = "?follow' (?follow (tstate s))"
    have t: "ts_claims ?t = ts_claims (tstate s)" "ts_entered ?t = ts_entered (tstate s)" "ts_closed ?t = ts_closed (tstate s)"
      using core_eqD [of ?t "tstate s"] core by metis+
    have "remembers W X lease (tstate s) db"
      using armed by (simp add: armed_def ready_def holding_remembers)
    note ok = finalize_ok [OF this, of now phases runs _ n db' keys]
    have commit: "set keys = dom (ts_claims (tstate s))" "scope_claims X db' = Map.empty" "claim_wf db'" "lease_wf db'"
      using ok(2-5) 1(2) by (auto simp: Inr x)
    let ?u = "with_state (\<lambda>t. (forget_claims keys t)\<lparr>ts_lease := None, ts_cleanup_error := None\<rparr>)
      (with_state ?follow' (with_state ?follow (s\<lparr>run_db := db', run_tick := Suc (run_tick s)\<rparr>)))"
    have u: "tstate ?u = (forget_claims keys ?t)\<lparr>ts_lease := None, ts_cleanup_error := None\<rparr>" "run_db ?u = db'" by simp_all
    have "ts_claims (forget_claims keys ?t) = Map.empty"
      unfolding forgotten t commit(1) by (auto simp: fun_eq_iff dom_def)
    moreover have "\<not> ts_entered (forget_claims keys ?t)" "ts_closed (forget_claims keys ?t)"
      using a unfolding forgotten t by (simp_all add: armed_def)
    ultimately have "ended ?u \<and> released X ?u"
      using commit unfolding ended_def released_def u by simp
    then show ?thesis unfolding Inr x sum.case prod.case wp_bind wp_modify fst_conv snd_conv .
  qed
qed

lemma wp_stopped:
  assumes "armed S W X lease claims s"
  shows "wp (stop_lease_heartbeat S) (\<lambda>_. armed S W X lease claims) (\<lambda>_ _. False) s"
proof -
  have sound: "heartbeat_sound S (tstate s)" using assms by (simp add: armed_def)
  show ?thesis
    by (rule wp_mono [OF wp_stop_heartbeat [OF sound]]) (use armed_with [OF assms] in simp_all)
qed

lemma wp_lease: "armed S W X lease claims s \<Longrightarrow> wp transaction_lease Q E s = Q lease s"
  by (simp add: transaction_lease_def wp_bind wp_get_state armed_def wp_ret)

lemma wp_finalize_operation:
  fixes s :: "'w transaction_world run_state"
  assumes env: "lawful H loads UNIV S" "private_scope S X" and a: "armed S W X lease claims s"
  shows "wp (finalize_operation_success S W X run) (\<lambda>_ s'. ended s' \<and> released X s') (\<lambda>_. armed S W X lease claims) s"
  unfolding finalize_operation_success_def wp_bind [of transaction_lease] wp_lease [OF a]
    wp_bind [of "stop_lease_heartbeat S"] wp_bind [of "clock_time S"] wp_clock wp_bind [of get_state] wp_get_state
  by (rule wp_mono [OF wp_stopped [OF a]]) (use wp_finalize_success [OF env] in simp_all)

lemma tk_touched: "keeps (tx_kept H loads S X) (touched_operation_phases S W)" "keeps (tx_kept H loads S X) (touched_operation_runs S W)"
  unfolding touched_operation_phases_def touched_operation_runs_def Let_def by (intro tk_rules)+

lemma wp_finalize_touched:
  fixes s :: "'w transaction_world run_state"
  assumes env: "lawful H loads UNIV S" "private_scope S X" and a: "armed S W X lease claims s"
  shows "wp (finalize_touched_operation_success S W X) (\<lambda>_ s'. ended s' \<and> released X s') (\<lambda>_. armed S W X lease claims) s"
proof -
  have final: "wp (bind (touched_operation_phases S W) (\<lambda>phases. bind (touched_operation_runs S W) (\<lambda>runs.
      finalize_success S W X lease now phases runs True))) (\<lambda>_ s'. ended s' \<and> released X s') (\<lambda>_. armed S W X lease claims) u"
    if u: "armed S W X lease claims u" for now and u :: "'w transaction_world run_state"
    unfolding wp_bind [of "touched_operation_phases S W"]
  proof (rule wp_mono [OF wp_armed [OF env u tk_touched(1)]])
    fix phases and v :: "'w transaction_world run_state"
    assume v: "armed S W X lease claims v"
    show "wp (bind (touched_operation_runs S W) (\<lambda>runs. finalize_success S W X lease now phases runs True))
        (\<lambda>_ s'. ended s' \<and> released X s') (\<lambda>_. armed S W X lease claims) v"
      unfolding wp_bind
      by (rule wp_mono [OF wp_armed [OF env v tk_touched(2)]]) (use wp_finalize_success [OF env] in simp_all)
  qed
  show ?thesis
    unfolding finalize_touched_operation_success_def wp_bind [of transaction_lease] wp_lease [OF a]
      wp_bind [of "stop_lease_heartbeat S"] wp_bind [of "clock_time S"] wp_clock
    by (rule wp_mono [OF wp_stopped [OF a]]) (use final in simp_all)
qed

subsection \<open>The end of a transaction with operations\<close>

definition left_behind :: "transaction_spec \<Rightarrow> (string \<rightharpoonup> claim_record) \<Rightarrow> 'w transaction_world run_state \<Rightarrow> bool" where
  "left_behind X claims s' \<longleftrightarrow> ended s' \<and> (scope_claims X (run_db s') = Map.empty \<and> ts_claims (tstate s') = Map.empty
     \<or> kept_for_recovery X claims s')"

lemma wp_marked:
  fixes s :: "'w transaction_world run_state"
  assumes env: "lawful H loads UNIV S" "private_scope S X" and a: "armed S W X lease claims s" and "keeps (tx_kept H loads S X) time"
  shows "wp (mark_touched_finalization_failed S W lease time) (\<lambda>_. armed S W X lease claims) (\<lambda>_ _. False) s"
proof -
  have step: "wp (any_failure m) (\<lambda>_. armed S W X lease claims) (\<lambda>_ _. False) u"
    if "keeps (tx_kept H loads S X) m" "armed S W X lease claims u" for m :: "('w, 'a) tx_program" and u
    by (rule wp_any_failure) (rule wp_armed [OF env that(2,1)])
  have keeps: "keeps (tx_kept H loads S X) (bind time (mark_touched_operation_phases S W lease status))"
    "keeps (tx_kept H loads S X) (bind time (mark_touched_operation_runs S W lease status))" for status
    by (intro tk.keeps_bind assms(4) tk_mark_phases tk_mark_runs)+
  show ?thesis
    unfolding mark_touched_finalization_failed_def wp_bind wp_ret'
    by (rule wp_mono [OF step [OF keeps(1) a]]) (use step [OF keeps(2)] in simp_all)
qed

lemma wp_abandon_raise:
  assumes env: "lawful H loads UNIV S" "private_scope S X" and a: "armed S W X lease claims s" and "keeps (tx_kept H loads S X) time"
  shows "wp (abandon_and_raise S W lease time e) (\<lambda>_ _. False) (\<lambda>_. left_behind X claims) s"
  unfolding abandon_and_raise_def wp_bind wp_raise'
proof (rule wp_mono [OF wp_marked [OF env a assms(4)]])
  fix u :: "'a transaction_world run_state"
  assume u: "armed S W X lease claims u"
  show "wp (abandon_transaction_for_recovery S) (\<lambda>_. left_behind X claims) (\<lambda>_. left_behind X claims) u"
    by (rule wp_mono [OF wp_abandon [of S W X lease "tstate u"]])
      (use u in \<open>auto simp: armed_def ready_def holding_def left_behind_def ended_def kept_for_recovery_def\<close>)
qed simp

lemma wp_cleaned:
  assumes env: "private_scope S X" and a: "armed S W X lease claims s"
  shows "wp (cleanup_transaction S W X) (\<lambda>_. left_behind X claims) (\<lambda>_ _. False) s"
  by (rule wp_mono [OF wp_cleanup [OF env, of W lease]])
    (use a in \<open>auto simp: armed_def ready_def cleaned_def left_behind_def ended_def bare_def\<close>)

lemma left_behind_error [simp]: "left_behind X claims (with_state (\<lambda>t. t\<lparr>ts_cleanup_error := e\<rparr>) s) = left_behind X claims s"
  by (simp add: left_behind_def ended_def kept_for_recovery_def)

lemma wp_clean_raise:
  assumes env: "lawful H loads UNIV S" "private_scope S X" and a: "armed S W X lease claims s" and "keeps (tx_kept H loads S X) time"
  shows "wp (clean_and_raise S W X lease guarded time e) (\<lambda>_ _. False) (\<lambda>_. left_behind X claims) s"
  unfolding clean_and_raise_def wp_bind [of "mark_touched_finalization_failed S W lease time"]
proof (rule wp_mono [OF wp_marked [OF env a assms(4)]])
  fix u :: "'a transaction_world run_state"
  assume u: "armed S W X lease claims u"
  have clean: "wp (if guarded then any_failure (cleanup_transaction S W X) else bind (cleanup_transaction S W X) (\<lambda>x. ret (Inr x)))
      (\<lambda>_. left_behind X claims) (\<lambda>_ _. False) u"
    by (cases guarded)
      (simp_all add: any_failure_def wp_catching wp_bind wp_ret' wp_mono [OF wp_cleaned [OF env(2) u]])
  show "wp (bind (if guarded then any_failure (cleanup_transaction S W X) else bind (cleanup_transaction S W X) (\<lambda>x. ret (Inr x)))
      (\<lambda>r. bind (case r of Inr (Some x) \<Rightarrow> set_cleanup_error (Some x) | _ \<Rightarrow> ret ()) (\<lambda>_.
        raise (case r of Inr (Some x) \<Rightarrow> x | Inr None \<Rightarrow> e | Inl x \<Rightarrow> x)))) (\<lambda>_ _. False) (\<lambda>_. left_behind X claims) u"
    unfolding wp_bind wp_raise'
  proof (rule wp_mono [OF clean])
    fix r and v :: "'a transaction_world run_state"
    assume "left_behind X claims v"
    then show "wp (case r of Inr (Some x) \<Rightarrow> set_cleanup_error (Some x) | _ \<Rightarrow> ret ())
        (\<lambda>_. left_behind X claims) (\<lambda>_. left_behind X claims) v"
      by (auto simp: set_cleanup_error_def wp_modify wp_ret split: sum.split option.split)
  qed simp
qed simp

text \<open>\<open>finalize\<close> releases everything or leaves everything.\<close>

definition finalizes ::
  "surroundings \<Rightarrow> 'w workspace \<Rightarrow> transaction_spec \<Rightarrow> lease_record \<Rightarrow> (string \<rightharpoonup> claim_record) \<Rightarrow> ('w, unit) tx_program \<Rightarrow> bool" where
  "finalizes S W X lease claims finalize \<longleftrightarrow> (\<forall>s. armed S W X lease claims s \<longrightarrow>
     wp finalize (\<lambda>_ s'. ended s' \<and> released X s') (\<lambda>_. armed S W X lease claims) s)"

lemma wp_exit_with_touched:
  fixes s :: "'w transaction_world run_state"
  assumes env: "lawful (co_digest (ws_coordinator W)) loads UNIV S" "private_scope S X"
    and "scope_handlers (co_digest (ws_coordinator W)) loads S X (ws_handling W)"
    and a: "armed S W X lease claims s" and time: "keeps (tx_kept (co_digest (ws_coordinator W)) loads S X) time"
    and finalize: "finalizes S W X lease claims finalize"
  shows "wp (exit_with_touched S W X lease guarded time finalize)
    (\<lambda>_ s'. ended s' \<and> released X s') (\<lambda>_. left_behind X claims) s"
proof -
  let ?R = "tx_kept (co_digest (ws_coordinator W)) loads S X" and ?armed = "armed S W X lease claims"
  have pending: "keeps ?R (bind time (pending_rollback S W X lease))"
    unfolding pending_rollback_def
    by (intro tk.keeps_bind time tk_files tr.db_pending_rollback refl tr_recover assms(3))
  have commit: "wp (commit_touched S W X finalize) (\<lambda>_ s'. ended s' \<and> released X s') (\<lambda>_. ?armed) u"
    if u: "?armed u" for u
  proof -
    have "keeps ?R (files (cleanup_committed_transaction_artifacts S W X (ts_lease (tstate u))))"
      by (intro tk_files tr.db_committed)
    note cleaned = wp_armed [OF env u this]
    have set: "?armed (with_state (\<lambda>t. t\<lparr>ts_cleanup_error := e\<rparr>) v)" if "?armed v" for e v
      by (rule armed_with [OF that]) simp
    show ?thesis
      unfolding commit_touched_def committed_cleanup_def set_cleanup_error_def wp_bind wp_get_state wp_ret' wp_modify
      by (rule wp_mono [OF cleaned])
        (use set finalize in \<open>auto simp: finalizes_def wp_raise wp_modify split: option.split\<close>)
  qed
  show ?thesis
    unfolding exit_with_touched_def any_failure_def
      wp_bind [of "catching (\<lambda>_. True) (bind time (pending_rollback S W X lease))"] wp_catching
  proof (rule wp_mono [OF wp_armed [OF env a pending]])
    fix u :: "'w transaction_world run_state" and e
    assume u: "?armed u"
    show "wp (case Inr x of Inl e \<Rightarrow> abandon_and_raise S W lease time e
       | Inr _ \<Rightarrow> bind (catching (\<lambda>_. True) (commit_touched S W X finalize)) (\<lambda>r.
           case r of Inr _ \<Rightarrow> ret () | Inl e \<Rightarrow> clean_and_raise S W X lease guarded time e))
        (\<lambda>_ s'. ended s' \<and> released X s') (\<lambda>_. left_behind X claims) u" for x :: unit
      unfolding sum.case wp_bind wp_catching
      by (rule wp_mono [OF commit [OF u]]) (auto simp: wp_ret intro: wp_mono [OF wp_clean_raise [OF env _ time]])
    show "if True then wp (case Inl e of Inl e \<Rightarrow> abandon_and_raise S W lease time e
       | Inr _ \<Rightarrow> bind (catching (\<lambda>_. True) (commit_touched S W X finalize)) (\<lambda>r.
           case r of Inr _ \<Rightarrow> ret () | Inl e \<Rightarrow> clean_and_raise S W X lease guarded time e))
        (\<lambda>_ s'. ended s' \<and> released X s') (\<lambda>_. left_behind X claims) u else left_behind X claims u"
      unfolding sum.case by (simp add: wp_mono [OF wp_abandon_raise [OF env u time]])
  qed
qed

lemma finalizes_touched:
  "lawful H loads UNIV S \<Longrightarrow> private_scope S X \<Longrightarrow> finalizes S W X lease claims (finalize_touched_operation_success S W X)"
  unfolding finalizes_def using wp_finalize_touched by blast

lemma finalizes_implicit:
  assumes env: "lawful H loads UNIV S" "private_scope S X"
  shows "finalizes S W X lease claims (bind (finalize_operation_success S W X run) (\<lambda>_.
    bind (read S (\<lambda>db. Inr (get_operation_run i db))) (\<lambda>found. modify (\<lambda>t. t\<lparr>ts_operation_run := found\<rparr>))))"
  unfolding finalizes_def wp_bind wp_modify
proof (intro allI impI, rule wp_mono [OF wp_finalize_operation [OF env]])
  fix u :: "'a transaction_world run_state"
  assume u: "ended u \<and> released X u"
  show "wp (read S (\<lambda>db. Inr (get_operation_run i db)))
      (\<lambda>x s. ended (with_state (\<lambda>t. t\<lparr>ts_operation_run := x\<rparr>) s) \<and> released X (with_state (\<lambda>t. t\<lparr>ts_operation_run := x\<rparr>) s))
      (\<lambda>_. armed S W X lease claims) u"
    by (rule wp_read) (use u env(2) in \<open>simp add: ended_def released_def private_scope_def\<close>)
qed

lemma tk_implicit: "keeps (tx_kept H loads S X) (ensure_implicit_operation_phase S W X now)"
proof -
  have run: "keeps (tx_kept H loads S X) (transact S (\<lambda>ids db. create_operation_run run_id lease owner status payload None (ids 0) t db))"
    for run_id lease owner status payload t
    by (intro tk_transact tr.store_transact) (auto intro: tr.call jc_create_run)
  have phase: "keeps (tx_kept H loads S X)
      (transact S (\<lambda>ids db. create_operation_phase run lease name status order payload None (ids 0) t db))"
    for run lease name status order payload t
    by (intro tk_transact tr.store_transact) (auto intro: tr.call jc_create_phase)
  show ?thesis
    unfolding ensure_implicit_operation_phase_def require_entered_def transaction_lease_def given_time_def
    by (intro tk_rules run phase tk_modify) (simp_all add: core_def)
qed

definition sample_working :: "(json \<Rightarrow> string) \<Rightarrow> (string \<Rightarrow> json option) \<Rightarrow> sample_world transaction_world run_state" where
  "sample_working dumps loads = snd (ensure_implicit_operation_phase demo_surroundings (sample_workspace dumps loads) sample_transaction None
     (snd (enter_transaction demo_surroundings (sample_workspace dumps loads) sample_transaction sample_idle)))"

lemma sample_commit:
  "(\<lambda>(r, s). r = Inr ()) (exit_transaction demo_surroundings (sample_workspace dumps loads) sample_transaction None
     (sample_working dumps loads))"
  "ts_operation_run (tstate (sample_working dumps loads)) \<noteq> None"
  by code_simp+

text \<open>
  C40. A transaction whose body succeeded commits or hands over. Let a transaction that used an
  operation run hold its lease and its claims, let no renewal of its heartbeat have failed, and let its
  body succeed. Whatever other processes do, except to the claims under its own scope, the
  transaction is closed and holds no lease in the end. If \<open>__exit__\<close> returns, all its claims are
  released, in the store and in its memory. If it raises (a pending recovery failed, an artifact could
  not be removed, the lease was lost, the final transaction failed), the claims are either all
  released or all still in the store for a recovery; they are never released in part.
\<close>

theorem successful_transaction_commits_or_hands_over:
  assumes "lawful (co_digest (ws_coordinator W)) loads UNIV S" and "private_scope S X"
    and "scope_handlers (co_digest (ws_coordinator W)) loads S X (ws_handling W)"
    and "journal_wf (run_db s)" and "holding W X lease s" and "ts_lease (tstate s) = Some lease" and "ts_entered (tstate s)"
    and "heartbeat_sound S (tstate s)"
    and "ts_operation_run (tstate s) \<noteq> None \<or> ts_touched_runs (tstate s) \<noteq> [] \<or> ts_touched_phases (tstate s) \<noteq> []"
    and "exit_transaction S W X None s = (r, s')"
  shows "case r of Inr _ \<Rightarrow> ended s' \<and> released X s' | Inl _ \<Rightarrow> left_behind X (ts_claims (tstate s)) s'"
proof -
  let ?f = "\<lambda>t. t\<lparr>ts_entered := False, ts_closed := True\<rparr>"
  have armed: "armed S W X lease (ts_claims (tstate s)) (with_state ?f s)"
    using assms(4-8) by (simp add: armed_def ready_def holding_def heartbeat_sound_def)
  have lease: "transaction_lease (with_state ?f s) = (Inr lease, with_state ?f s)"
    using assms(6) by (simp add: transaction_lease_def get_state_def bind_def with_state_def)
  note exit = wp_exit_with_touched [OF assms(1-3) armed]
  have "wp (case ts_operation_run (tstate s) of
       Some run \<Rightarrow> exit_with_implicit_operation S W X lease run None
     | None \<Rightarrow> if ts_touched_runs (tstate s) \<noteq> [] \<or> ts_touched_phases (tstate s) \<noteq> []
         then exit_with_touched S W X lease True (clock_time S) (finalize_touched_operation_success S W X)
         else exit_untouched S W X lease)
      (\<lambda>_ s'. ended s' \<and> released X s') (\<lambda>_. left_behind X (ts_claims (tstate s))) (with_state ?f s)"
  proof (cases "ts_operation_run (tstate s)")
    case None
    then show ?thesis
      using exit [OF tk.keeps_time(2) finalizes_touched [OF assms(1,2)]] assms(9) by simp
  next
    case (Some run)
    show ?thesis
      unfolding Some option.case exit_with_implicit_operation_def wp_bind [of "clock_time S"] wp_clock
      using exit [OF tk.keeps_ret finalizes_implicit [OF assms(1,2)]] by (simp add: wp_bind wp_clock)
  qed
  then have "wp (exit_transaction S W X None) (\<lambda>_ s'. ended s' \<and> released X s') (\<lambda>_. left_behind X (ts_claims (tstate s))) s"
    using assms(7) by (simp add: exit_transaction_def wp_bind wp_get_state wp_modify wp_def [of transaction_lease] lease)
  from wp_run [OF this assms(10)] show ?thesis .
qed

theorem successful_transaction_commits_or_hands_over_witness:
  "ended (snd (exit_transaction demo_surroundings (sample_workspace coded_dumps coded_loads) sample_transaction None
      (sample_working coded_dumps coded_loads)))
   \<and> released sample_transaction (snd (exit_transaction demo_surroundings (sample_workspace coded_dumps coded_loads)
      sample_transaction None (sample_working coded_dumps coded_loads)))"
proof -
  let ?W = "sample_workspace coded_dumps coded_loads" and ?X = sample_transaction and ?S = demo_surroundings
  let ?s = "snd (enter_transaction ?S ?W ?X sample_idle)" and ?s' = "sample_working coded_dumps coded_loads"
  obtain lease where lease: "ts_lease (tstate ?s) = Some lease" "holding ?W ?X lease ?s" "ts_entered (tstate ?s)"
    by (rule sample_holding)
  have "keeps (tx_kept rev (\<lambda>_. None) ?S ?X) (ensure_implicit_operation_phase ?S ?W ?X None)" by (rule tk_implicit)
  then have kept: "tx_kept rev (\<lambda>_. None) ?S ?X ?s ?s'" by (simp add: keeps_def sample_working_def)
  have "ready ?S ?W ?X lease (tstate ?s) ?s" using lease sample_entered_wf by (simp add: ready_def)
  from ready_kept [OF demo_lawful sample_private this kept]
  have ready: "holding ?W ?X lease ?s'" "journal_wf (run_db ?s')" "core (tstate ?s') = core (tstate ?s)" by (simp_all add: ready_def)
  have state: "ts_lease (tstate ?s') = Some lease" "ts_entered (tstate ?s')" "heartbeat_sound ?S (tstate ?s')"
    using core_eqD [OF ready(3)] lease by (simp_all add: heartbeat_sound_def sample_thread_quiet)
  have "fst (exit_transaction ?S ?W ?X None ?s') = Inr ()"
    using sample_commit(1) [of coded_dumps coded_loads] by (simp add: case_prod_beta)
  then show ?thesis
    using successful_transaction_commits_or_hands_over [where W = ?W and X = ?X, unfolded sample_workspace_fields,
        OF demo_lawful sample_private sample_handlers(2) ready(2,1) state disjI1 [OF sample_commit(2)] prod.collapse [symmetric]]
    by simp
qed

subsection \<open>The end of a transaction without operations\<close>

text \<open>
  Without operation runs the removal of the artifacts stands outside every \<open>try\<close>. Here it fails because
  another worker has taken the expired lease over: \<open>__exit__\<close> raises, but the transaction keeps its
  lease record, its heartbeat and its claims, and nobody releases them.
\<close>

definition taken_over :: "sample_world transaction_world run_state" where
  "taken_over = \<lparr>run_db = out (demo_regrant (out (mark_succeeded ''b1'' w1 None 3 roll_started))),
     run_world = \<lparr>tw_state = new_transaction\<lparr>ts_lease := Some w1, ts_heartbeat := Some False, ts_entered := True\<rparr>,
       tw_files = run_world sample_start\<rparr>, run_tick = 0\<rparr>"

theorem exit_without_operations_may_keep_its_lease:
  "(\<lambda>(r, s). r = Inl workspace_error \<and> ts_lease (tstate s) = Some w1 \<and> ts_heartbeat (tstate s) = Some False)
     (exit_transaction (demo_surroundings\<lparr>set_clock := \<lambda>_. 25\<rparr>) (sample_workspace dumps loads) sample_transaction None taken_over)"
  by code_simp

end
