(* ===== verification/Recursive_Mkdir.thy ===== *)
theory Recursive_Mkdir
  imports Transaction_Operations Mkdir_Planning
begin

section \<open>Creating a directory with its missing parents\<close>

text \<open>
  \<open>workspace_recursive_mkdir.py\<close>: each missing directory, from the top down, is claimed and made by
  a batch of its own; the batch carries the proof of the directories made before it, so that a
  failed step can be undone together with them. The inspector of the workspace sees the files as
  they are when a step begins.
\<close>

subsection \<open>Checks before a step\<close>

lemma path_parent_shorter: "path_parent p \<noteq> p \<Longrightarrow> length (path_parts (path_parent p)) < length (path_parts p)"
  by (cases "path_parts p") (auto simp: path_parent_def)

function require_runtime_safe_descent :: "inspector \<Rightarrow> path option \<Rightarrow> path \<Rightarrow> error + unit" where
  "require_runtime_safe_descent inspect boundary current =
     (if path_parent current = current then Inr ()
      else res_bind (if ps_exists (inspect current) then require_safe_existing_directory inspect current else Inr ()) (\<lambda>_.
        if boundary = Some current then Inr ()
        else require_runtime_safe_descent inspect boundary (path_parent current)))"
  by pat_completeness auto
termination
  by (relation "measure (\<lambda>(_, _, p). length (path_parts p))") (simp_all add: path_parent_shorter)

function require_runtime_safe_existing_chain :: "inspector \<Rightarrow> path option \<Rightarrow> path \<Rightarrow> error + unit" where
  "require_runtime_safe_existing_chain inspect boundary current =
     (if path_parent current = current then Inr ()
      else res_bind (require (ps_exists (inspect current)) FileNotFoundError) (\<lambda>_.
        res_bind (require_safe_existing_directory inspect current) (\<lambda>_.
        if boundary = Some current then Inr ()
        else require_runtime_safe_existing_chain inspect boundary (path_parent current))))"
  by pat_completeness auto
termination
  by (relation "measure (\<lambda>(_, _, p). length (path_parts p))") (simp_all add: path_parent_shorter)

declare require_runtime_safe_descent.simps [simp del] require_runtime_safe_existing_chain.simps [simp del]

subsection \<open>What a step records\<close>

definition remove_only_if :: json where
  "remove_only_if = JObj
     [(''created_by_exact_step'', JBool True), (''directory_is_empty'', JBool True),
      (''path_is_still_safe_directory'', JBool True), (''resource_key_still_matches'', JBool True)]"

definition recursive_rollback_diagnostic :: json where
  "recursive_rollback_diagnostic = JObj
     [(''automatic_recursive_delete'', JBool False), (''manual_intervention_possible'', JBool True),
      (''remove_only_if'', remove_only_if)]"

definition step_idempotency_key :: "digest \<Rightarrow> string \<Rightarrow> mkdir_step \<Rightarrow> nat \<Rightarrow> nat \<Rightarrow> string" where
  "step_idempotency_key H base step i n =
     base @ '':recursive:'' @ nat_text i @ ''-of-'' @ nat_text n @ '':'' @ take 16 (H (step_resource_key step))"

definition step_metadata :: "mkdir_plan \<Rightarrow> resource_handle \<Rightarrow> mkdir_step \<Rightarrow> nat \<Rightarrow> nat \<Rightarrow> json list \<Rightarrow> entries" where
  "step_metadata plan h step i n prior =
     [(''recursive_mkdir'', JObj
        [(''plan_target'', JStr (path_text (plan_target plan))),
         (''requested_resource_key'', JStr (rh_resource_key h)),
         (''step_index'', JInt (int i)), (''step_count'', JInt (int n)),
         (''step_path'', JStr (path_text (step_path step))),
         (''step_resource_key'', JStr (step_resource_key step))]),
      (''recursive_group'', JObj
        [(''plan_target'', JStr (path_text (plan_target plan))),
         (''requested_resource_key'', JStr (rh_resource_key h)),
         (''prior_created_steps'', JArr prior)]),
      (''rollback_diagnostic'', recursive_rollback_diagnostic)]"

definition created_directory_identity :: "mkdir_step \<Rightarrow> json \<Rightarrow> json option" where
  "created_directory_identity step payload =
     (if value_path (jget payload ''path'') = step_path step \<and> jget payload ''exists'' = JBool True
         \<and> py_str (jget payload ''file_type'') = ''directory''
         \<and> is_int (jget payload ''device'') \<and> is_int (jget payload ''inode'')
      then Some (JObj
        [(''path'', JStr (path_text (step_path step))), (''resource_key'', JStr (step_resource_key step)),
         (''file_type'', JStr ''directory''), (''device'', jget payload ''device''), (''inode'', jget payload ''inode'')])
      else None)"

definition created_step_recovery_metadata :: "mkdir_step \<Rightarrow> nat \<Rightarrow> mutation_result \<Rightarrow> json option" where
  "created_step_recovery_metadata step i result =
     (case (mr_operation result, mr_after result) of
        (Some operation, Some after) \<Rightarrow>
          map_option (\<lambda>identity. JObj
            [(''step_index'', JInt (int i)), (''step_path'', JStr (path_text (step_path step))),
             (''step_resource_key'', JStr (step_resource_key step)),
             (''ownership_class'', JStr ''created_by_transaction''),
             (''created_directory_identity'', identity),
             (''journaled_creation_proof'', JObj
               [(''batch_id'', JStr (br_batch_id (mr_batch result))),
                (''operation_id'', JStr (operation_id operation)),
                (''operation_type'', JStr (operation_type operation)),
                (''checkpoint_id'', JStr (checkpoint_id after)),
                (''checkpoint_type'', JStr (checkpoint_type after)),
                (''path'', JStr (path_text (step_path step))),
                (''resource_key'', JStr (step_resource_key step))]),
             (''cleanup_policy'', JStr ''owned_empty_directory_safe_ish''),
             (''backend_guarantee'', JStr ''identity_conditional_remove''),
             (''cleanup'', JObj
               [(''manual_intervention_possible'', JBool True),
                (''cleanup_policy'', JStr ''owned_empty_directory_safe_ish''),
                (''backend_guarantee'', JStr ''identity_conditional_remove''),
                (''remove_only_if'', remove_only_if)])])
            (created_directory_identity step (checkpoint_payload after))
      | _ \<Rightarrow> None)"

subsection \<open>The steps\<close>

definition inspector_now :: "'w workspace \<Rightarrow> ('w, inspector) tx_program" where
  "inspector_now W = files (with_world (\<lambda>w. Inr (ws_path_inspector W w)))"

definition make_directory_path ::
  "surroundings \<Rightarrow> 'w workspace \<Rightarrow> transaction_spec \<Rightarrow> path \<Rightarrow> string \<Rightarrow> string \<Rightarrow> links \<Rightarrow> entries \<Rightarrow> time option
    \<Rightarrow> ('w, mutation_result) tx_program" where
  "make_directory_path S W X p key idempotency_key l metadata now =
     bind require_entered (\<lambda>_.
     bind transaction_lease (\<lambda>lease.
     files (make_directory (with_now S (first_time now (tx_now X))) (ws_coordinator W)
       (transaction_request W X lease key idempotency_key l) p False False metadata metadata)))"

fun run_recursive_steps ::
  "surroundings \<Rightarrow> 'w workspace \<Rightarrow> transaction_spec \<Rightarrow> links \<Rightarrow> resource_handle \<Rightarrow> string \<Rightarrow> time option \<Rightarrow> mkdir_plan
    \<Rightarrow> nat \<Rightarrow> nat \<Rightarrow> json list \<Rightarrow> mkdir_step list \<Rightarrow> ('w, mutation_result) tx_program" where
  "run_recursive_steps S W X l h key now plan n i prior [] = raise (OtherFailure ''AssertionError'')"
| "run_recursive_steps S W X l h key now plan n i prior (step # steps) =
     bind (inspector_now W) (\<lambda>inspect.
     bind (lift (require_runtime_safe_descent inspect (plan_root_boundary plan) (step_path step))) (\<lambda>_.
     bind (claim_directory_resource S W X (step_resource_key step) now) (\<lambda>_.
     bind (make_directory_path S W X (step_path step) (step_resource_key step)
       (step_idempotency_key (co_digest (ws_coordinator W)) key step i n) l
       (step_metadata plan h step i n prior) now) (\<lambda>result.
     if steps = [] then ret result
     else run_recursive_steps S W X l h key now plan n (Suc i)
       (case created_step_recovery_metadata step i result of None \<Rightarrow> prior | Some created \<Rightarrow> prior @ [created]) steps))))"

definition record_durable_noop_result ::
  "surroundings \<Rightarrow> 'w workspace \<Rightarrow> transaction_spec \<Rightarrow> links \<Rightarrow> resource_handle \<Rightarrow> path \<Rightarrow> string \<Rightarrow> time option
    \<Rightarrow> ('w, mutation_result) tx_program" where
  "record_durable_noop_result S W X l h p key now =
     (let group = JObj [(''plan_target'', JStr (path_text p)), (''requested_resource_key'', JStr (rh_resource_key h)),
            (''step_index'', JInt 0), (''step_count'', JInt 0)]
      in bind transaction_lease (\<lambda>lease.
         bind (given_time S (first_time now (tx_now X))) (\<lambda>time.
         files (record_directory_noop (with_now S (Some time)) (ws_coordinator W)
           (transaction_request W X lease (rh_resource_key h) key l) p
           [(''operation'', JStr ''make_directory''), (''path'', JStr (path_text p)),
            (''resource_key'', JStr (rh_resource_key h)), (''parents'', JBool True), (''exist_ok'', JBool True),
            (''recursive_mkdir'', group), (''noop'', JBool True)]
           [(''desired'', JObj [(''exists'', JBool True), (''file_type'', JStr ''directory'')]),
            (''recursive_mkdir'', group), (''noop'', JBool True), (''skipped'', JBool True)]
           ''make_directory_noop''))))"

text \<open>The planner always ends (\<open>plan_exact\<close>), so its value is never \<open>None\<close>.\<close>

definition execute_transaction_recursive_mkdir ::
  "surroundings \<Rightarrow> 'w workspace \<Rightarrow> transaction_spec \<Rightarrow> links \<Rightarrow> resource_handle \<Rightarrow> path \<Rightarrow> bool \<Rightarrow> string \<Rightarrow> time option
    \<Rightarrow> ('w, mutation_result) tx_program" where
  "execute_transaction_recursive_mkdir S W X l h p exist_ok key now =
     bind (inspector_now W) (\<lambda>inspect.
     case plan_directory_creation (aa_env (co_artifacts (ws_coordinator W))) inspect p True exist_ok None of
       None \<Rightarrow> raise (OtherFailure ''no plan'')
     | Some planned \<Rightarrow>
         bind (lift planned) (\<lambda>plan.
         if plan_steps plan = []
         then bind (inspector_now W) (\<lambda>inspect'.
              bind (lift (require_runtime_safe_existing_chain inspect' (plan_root_boundary plan) (plan_target plan))) (\<lambda>_.
              record_durable_noop_result S W X l h p key now))
         else run_recursive_steps S W X l h key now plan (length (plan_steps plan)) 1 [] (plan_steps plan)))"

definition transaction_make_directory ::
  "surroundings \<Rightarrow> 'w workspace \<Rightarrow> transaction_spec \<Rightarrow> call_options \<Rightarrow> given_resource \<Rightarrow> bool \<Rightarrow> bool
    \<Rightarrow> ('w, mutation_result) tx_program" where
  "transaction_make_directory S W X opt r parents exist_ok =
     bind require_entered (\<lambda>_.
     bind (lift (require_kind_resource DIRECTORY X r)) (\<lambda>h.
     bind (asserted_path h) (\<lambda>p.
     if parents
     then bind (resolve_operation_links S W X (cl_links opt) (cl_now opt) True) (\<lambda>l.
          bind (idempotency_key_or_next X (cl_idempotency_key opt) ''make_directory'' h) (\<lambda>key.
          execute_transaction_recursive_mkdir S W X l h p exist_ok key (cl_now opt)))
     else run_operation S W X opt ''make_directory'' h (\<lambda>S' rq.
       make_directory S' (ws_coordinator W) rq p False exist_ok [] []))))"

end
