(* ===== verification/Directory_Removal.thy ===== *)
theory Directory_Removal
  imports Rename_Properties Captured_Directories Tree_Artifacts Planning_Properties
begin

section \<open>Removing the directories that a transaction created\<close>

text \<open>
  The handler of \<open>operation_journal/recursive_mkdir_recovery_actions.py\<close>: a directory is removed
  only if the journal shows that the transaction created it, if it still is the directory that was
  created, and if it is empty. The final removal is an operation of the backend that is
  conditional on the identity of the directory; a backend may have none.
\<close>

record 'w removal_calls =
  rd_os :: "'w os_calls"
  rd_has_entries :: "path \<Rightarrow> 'w \<Rightarrow> (failure + bool) \<times> 'w"
  rd_identity_remove :: "(path \<Rightarrow> directory_identity \<Rightarrow> 'w \<Rightarrow> (failure + unit) \<times> 'w) option"

subsection \<open>The checks of the recorded action\<close>

definition refused :: "path \<Rightarrow> (string \<times> json) list \<Rightarrow> failure" where
  "refused p details = ActionManual (JObj ((''path'', JStr (path_text p)) # details))"

definition reason :: "string \<Rightarrow> (string \<times> json) list" where
  "reason code = [(''reason_code'', JStr code)]"

text \<open>\<open>_directory_identity_from_payload\<close>.\<close>

definition created_identity_from_payload :: "json \<Rightarrow> directory_identity option" where
  "created_identity_from_payload v =
     (if jget v ''path'' = JNull \<or> jget v ''file_type'' \<noteq> JStr ''directory'' \<or> jget v ''resource_key'' = JNull then None
      else case (int_instance (jget v ''device''), int_instance (jget v ''inode'')) of
        (Some d, Some i) \<Rightarrow> Some \<lparr>di_device = d, di_inode = i\<rparr>
      | _ \<Rightarrow> None)"

definition removal_resource_key :: "path_env \<Rightarrow> json \<Rightarrow> path \<Rightarrow> string" where
  "removal_resource_key E payload p =
     (if truthy (jget payload ''step_resource_key'') then py_str (jget payload ''step_resource_key'')
      else directory_resource_key E p)"

text \<open>The checks before the file system is looked at.\<close>

definition check_removal :: "(json \<Rightarrow> json \<Rightarrow> bool) \<Rightarrow> path_env \<Rightarrow> recovery_context \<Rightarrow> json \<Rightarrow> path \<Rightarrow> failure + unit" where
  "check_removal same_object E context payload p =
     (let key = removal_resource_key E payload p;
          identity = jget payload ''created_directory_identity'';
          creation = jget payload ''journaled_creation_proof''
      in if optional_str (jget payload ''ownership_class'') \<noteq> Some ''created_by_transaction''
         then Inl (refused p (reason ''missing_ownership_proof''))
         else if \<not> is_mapping identity then Inl (refused p (reason ''invalid_ownership_proof''))
         else if \<not> is_mapping creation then Inl (refused p (reason ''missing_journaled_creation_proof''))
         else if optional_str (jget payload ''cleanup_policy'') \<noteq> Some ''owned_empty_directory_safe_ish''
         then Inl (refused p (reason ''missing_cleanup_policy''))
         else if optional_str (jget payload ''backend_guarantee'') \<notin> Some ` allowed_directory_remove_guarantees
         then Inl (refused p (reason ''missing_backend_guarantee''))
         else if key \<noteq> directory_resource_key E p
         then Inl (refused p [(''expected_resource_key'', JStr key)])
         else if \<not> payload_identity_matches_action identity p key
         then Inl (refused p (reason ''ownership_proof_path_mismatch''))
         else if \<not> journaled_creation_proof_matches_action same_object creation p key identity context
         then Inl (refused p (reason ''journaled_creation_proof_mismatch''))
         else Inr ())"

subsection \<open>The handler\<close>

definition identity_mismatch :: "directory_identity \<Rightarrow> directory_identity \<Rightarrow> (string \<times> json) list" where
  "identity_mismatch expected current = reason ''created_directory_identity_mismatch'' @
     [(''expected_device'', JInt (di_device expected)), (''expected_inode'', JInt (di_inode expected)),
      (''current_device'', JInt (di_device current)), (''current_inode'', JInt (di_inode current))]"

text \<open>\<open>isinstance(exc, UnsupportedFilesystemMutationError)\<close>.\<close>

definition unsupported_errors :: "failure set" where
  "unsupported_errors = Raised ` {UnsupportedFilesystemMutationError, UnsupportedFilesystemBackendError,
     IdentityRemoveUnavailableError}"

definition remove_identified ::
  "surroundings \<Rightarrow> 'w removal_calls \<Rightarrow> authority \<Rightarrow> recovery_context \<Rightarrow> recovery_action_record \<Rightarrow> path
    \<Rightarrow> directory_identity \<Rightarrow> ('w, unit) program" where
  "remove_identified S D a context action p expected =
     (case rd_identity_remove D of
        None \<Rightarrow> raise (refused p (reason ''identity_safe_remove_directory_unavailable''))
      | Some remove \<Rightarrow>
          attempt
            (bind (require_recovery_action_authority S (Some a) context action) (\<lambda>_. world_call (remove p expected)))
            (\<lambda>e. if e \<in> unsupported_errors
                 then Some (raise (refused p (reason ''identity_safe_remove_directory_unsupported''
                        @ [(''detail'', JStr (failure_text S e))])))
                 else None))"

definition removed_payload :: "json \<Rightarrow> path \<Rightarrow> string \<Rightarrow> json" where
  "removed_payload payload p key =
     (let guarantee = opt_json (optional_str (jget payload ''backend_guarantee''))
      in JObj
        [(''path'', JStr (path_text p)), (''step_resource_key'', JStr key), (''removed'', JBool True),
         (''cleanup_policy'', opt_json (optional_str (jget payload ''cleanup_policy''))),
         (''backend_guarantee'', guarantee), (''effective_backend_guarantee'', guarantee)])"

definition remove_checked_directory ::
  "surroundings \<Rightarrow> 'w removal_calls \<Rightarrow> authority \<Rightarrow> recovery_context \<Rightarrow> recovery_action_record \<Rightarrow> json \<Rightarrow> path
    \<Rightarrow> ('w, json) program" where
  "remove_checked_directory S D a context action payload p =
     (let absent = ActionSkipped (JObj [(''path'', JStr (path_text p))])
      in bind (inspect_path (rd_os D) p) (\<lambda>safety.
         if \<not> ps_exists safety then raise absent
         else if ps_file_type safety \<noteq> FT_DIRECTORY \<or> ps_is_windows_reparse_point safety \<or> ps_is_mount safety
         then raise (refused p [(''file_type'', JStr (file_type_text (ps_file_type safety)))])
         else case created_identity_from_payload (jget payload ''created_directory_identity'') of
           None \<Rightarrow> raise (refused p (reason ''invalid_ownership_proof''))
         | Some expected \<Rightarrow>
             bind (attempt (world_call (os_stat (rd_os D) p))
               (\<lambda>e. if e = Raised FileNotFoundError then Some (raise absent) else None)) (\<lambda>st.
             if identity_from_stat st \<noteq> expected
             then raise (refused p (identity_mismatch expected (identity_from_stat st)))
             else bind (world_call (rd_has_entries D p)) (\<lambda>occupied.
               if occupied then raise (refused p (reason ''directory_not_empty''))
               else bind (remove_identified S D a context action p expected) (\<lambda>_.
                 ret (removed_payload payload p (removal_resource_key (os_env (rd_os D)) payload p)))))))"

definition remove_created_directory_recovery_action ::
  "(json \<Rightarrow> json \<Rightarrow> bool) \<Rightarrow> surroundings \<Rightarrow> 'w removal_calls \<Rightarrow> authority \<Rightarrow> recovery_context \<Rightarrow> recovery_action_record
    \<Rightarrow> ('w, json) program" where
  "remove_created_directory_recovery_action same_object S D a context action =
     bind (lift (mapping_payload_copy (action_payload action))) (\<lambda>payload.
     bind (lift (jindex payload ''path'')) (\<lambda>v.
     case check_removal same_object (os_env (rd_os D)) context payload (value_path v) of
       Inl e \<Rightarrow> raise e
     | Inr _ \<Rightarrow> remove_checked_directory S D a context action payload (value_path v)))"

subsection \<open>What it removes\<close>

text \<open>
  The calls that look change nothing; the backend removes the directory that was asked for, with the
  identity that was asked for, or fails and changes nothing.
\<close>

definition removed :: "fs_view \<Rightarrow> fs_view \<Rightarrow> path \<Rightarrow> directory_identity \<Rightarrow> bool" where
  "removed v v' p i \<longleftrightarrow> (\<exists>st. v p = Some st \<and> st_kind st = FT_DIRECTORY \<and> identity_from_stat st = i) \<and> v' p = None
     \<and> (\<forall>q. q \<noteq> p \<and> q \<noteq> path_parent p \<longrightarrow> v' q = v q)"

definition removal_laws :: "'w removal_calls \<Rightarrow> ('w \<Rightarrow> fs_view) \<Rightarrow> bool" where
  "removal_laws D view \<longleftrightarrow> rename_laws (rd_os D) view \<and> call_failures (rd_os D)
     \<and> (\<forall>p. looks_only view (rd_has_entries D p) \<and> unskipping (rd_has_entries D p))
     \<and> (\<forall>p w. fst (os_stat (rd_os D) p w) = Inl (Raised FileNotFoundError)
          \<longrightarrow> (\<forall>st. view w p = Some st \<longrightarrow> st_kind st = FT_SYMLINK))
     \<and> (\<forall>remove p i w. rd_identity_remove D = Some remove \<longrightarrow> unskipping (remove p i)
          \<and> (removed (view w) (view (snd (remove p i w))) p i
             \<or> view (snd (remove p i w)) = view w \<and> isl (fst (remove p i w))))"

text \<open>The directory is one that the transaction created, by the records of the journal.\<close>

definition removed_created ::
  "('w \<Rightarrow> fs_view) \<Rightarrow> recovery_context \<Rightarrow> path \<Rightarrow> 'w run_state \<Rightarrow> 'w run_state \<Rightarrow> bool" where
  "removed_created view context p s s' \<longleftrightarrow> (\<exists>key identity i. created_by_transaction context p key identity
     \<and> created_identity_from_payload identity = Some i \<and> removed (view (run_world s)) (view (run_world s')) p i)"

definition nothing_there :: "('w \<Rightarrow> fs_view) \<Rightarrow> path \<Rightarrow> 'w run_state \<Rightarrow> bool" where
  "nothing_there view p s \<longleftrightarrow> (\<forall>st. view (run_world s) p = Some st \<longrightarrow> st_kind st = FT_SYMLINK)"

definition removal_outcome ::
  "('w \<Rightarrow> fs_view) \<Rightarrow> recovery_context \<Rightarrow> path \<Rightarrow> 'w run_state \<Rightarrow> failure + 'a \<Rightarrow> 'w run_state \<Rightarrow> bool" where
  "removal_outcome view context p s result s' \<longleftrightarrow> (case result of
      Inr _ \<Rightarrow> removed_created view context p s s'
    | Inl e \<Rightarrow> (same_view view s s' \<and> (no_skip e \<or> nothing_there view p s)) \<or> (removed_created view context p s s' \<and> no_skip e))"

lemma check_removal_created:
  assumes "check_removal same_object E context payload p = Inr ()"
  shows "created_by_transaction context p (removal_resource_key E payload p) (jget payload ''created_directory_identity'')"
  using assms by (auto simp: check_removal_def Let_def split: if_splits intro: creation_proof_created)

lemma no_skip_refused [simp]: "no_skip (refused p details)"
  by (simp add: refused_def)

lemma wp_has_entries:
  assumes "removal_laws D view" and "\<And>x s'. same_view view s s' \<Longrightarrow> Q x s'"
    and "\<And>e s'. same_view view s s' \<Longrightarrow> no_skip e \<Longrightarrow> E e s'"
  shows "wp (world_call (rd_has_entries D p)) Q E s"
proof -
  have "keeps (same_view view) (world_call (rd_has_entries D p))" "raises no_skip (world_call (rd_has_entries D p))"
    using assms(1) by (auto simp: removal_laws_def intro: fs_call raises_call)
  from raises_wp [OF this(2) wp_keeps [OF this(1), of s "\<lambda>_. same_view view s" "\<lambda>_. same_view view s"]]
  show ?thesis by (rule wp_mono) (use assms(2,3) in auto)
qed

lemma wp_stat:
  assumes "removal_laws D view" and "\<And>x s'. same_view view s s' \<Longrightarrow> Q x s'"
    and "\<And>e s'. same_view view s s' \<Longrightarrow> no_skip e \<Longrightarrow> e \<noteq> Raised FileNotFoundError \<Longrightarrow> E e s'"
    and "\<And>s'. same_view view s s' \<Longrightarrow> nothing_there view p s \<Longrightarrow> E (Raised FileNotFoundError) s'"
  shows "wp (world_call (os_stat (rd_os D) p)) Q E s"
proof -
  obtain r w where f: "os_stat (rd_os D) p (run_world s) = (r, w)" by (cases "os_stat (rd_os D) p (run_world s)")
  have "looks_only view (os_stat (rd_os D) p)" "unskipping (os_stat (rd_os D) p)"
    using assms(1) by (auto simp: removal_laws_def rename_laws_def call_failures_def)
  then have w: "view w = view (run_world s)" "\<And>e. r = Inl e \<Longrightarrow> no_skip e"
    using f unfolding looks_only_def unskipping_def by (metis snd_conv, metis fst_conv)
  have missing: "r = Inl (Raised FileNotFoundError) \<Longrightarrow> nothing_there view p s"
    using assms(1) f unfolding removal_laws_def nothing_there_def by (metis fst_conv)
  have s': "same_view view s (s\<lparr>run_world := w\<rparr>)" using w(1) by (simp add: same_view_def)
  show ?thesis
  proof (cases r)
    case (Inr st)
    then show ?thesis using f assms(2) [OF s'] by (simp add: wp_def world_call_def)
  next
    case (Inl e)
    have "E e (s\<lparr>run_world := w\<rparr>)"
      using Inl assms(3) [OF s' w(2) [OF Inl]] assms(4) [OF s'] missing by (cases "e = Raised FileNotFoundError") auto
    then show ?thesis using f Inl by (simp add: wp_def world_call_def)
  qed
qed

lemma wp_remove_identified:
  assumes laws: "removal_laws D view" and t: "same_view view s t"
  shows "wp (remove_identified S D a context action p i)
    (\<lambda>_ s'. removed (view (run_world s)) (view (run_world s')) p i)
    (\<lambda>e s'. no_skip e \<and> (same_view view s s' \<or> removed (view (run_world s)) (view (run_world s')) p i)) t"
proof (cases "rd_identity_remove D")
  case None
  then show ?thesis using t by (simp add: remove_identified_def wp_raise)
next
  case (Some remove)
  let ?E = "\<lambda>e s'. no_skip e \<and> (same_view view s s' \<or> removed (view (run_world s)) (view (run_world s')) p i)"
  have remove: "wp (world_call (remove p i)) (\<lambda>_ s'. removed (view (run_world s)) (view (run_world s')) p i) ?E u"
    if u: "same_view view s u" for u
  proof -
    obtain r w where f: "remove p i (run_world u) = (r, w)" by (cases "remove p i (run_world u)")
    have "unskipping (remove p i)" "removed (view (run_world u)) (view w) p i \<or> view w = view (run_world u) \<and> isl r"
      using laws Some f unfolding removal_laws_def by (blast, metis fst_conv snd_conv)
    moreover have "no_skip e" if "r = Inl e" for e
      using calculation(1) f that unfolding unskipping_def by (metis fst_conv)
    ultimately show ?thesis
      using f u by (cases r) (auto simp: wp_def world_call_def same_view_def)
  qed
  have authority: "wp (require_recovery_action_authority S (Some a) context action) (\<lambda>_. same_view view s)
      (\<lambda>e s'. no_skip e \<and> same_view view s s') t"
    by (rule raises_wp [OF raises_authority], rule wp_authority_world) (use t in \<open>simp_all add: same_view_def\<close>)
  have "wp (bind (require_recovery_action_authority S (Some a) context action) (\<lambda>_. world_call (remove p i)))
      (\<lambda>_ s'. removed (view (run_world s)) (view (run_world s')) p i) ?E t"
    unfolding wp_bind by (rule wp_mono [OF authority]) (use remove in auto)
  then show ?thesis
    unfolding remove_identified_def Some option.case wp_attempt
    by (rule wp_mono) (auto simp: wp_raise split: option.split)
qed

lemma wp_remove_checked:
  assumes laws: "removal_laws D view" and t: "same_view view s t"
    and created: "created_by_transaction context p key (jget payload ''created_directory_identity'')"
  shows "wp (remove_checked_directory S D a context action payload p)
    (\<lambda>_ s'. removed_created view context p s s') (\<lambda>e s'. removal_outcome view context p s (Inl e :: failure + 'b) s') t"
proof -
  let ?E = "\<lambda>e s'. removal_outcome view context p s (Inl e :: failure + 'b) s'"
  let ?absent = "ActionSkipped (JObj [(''path'', JStr (path_text p))])"
  have fs: "rename_laws (rd_os D) view" "call_failures (rd_os D)" using laws by (simp_all add: removal_laws_def)
  have E: "?E e s'" if "same_view view s s'" "no_skip e" for e s'
    using that by (simp add: removal_outcome_def)
  have skip: "?E ?absent s'" if "same_view view s s'" "nothing_there view p s" for s'
    using that by (simp add: removal_outcome_def)
  have final: "wp (remove_identified S D a context action p i) (\<lambda>_. removed_created view context p s) ?E u"
    if "same_view view s u" "created_identity_from_payload (jget payload ''created_directory_identity'') = Some i" for i u
    by (rule wp_mono [OF wp_remove_identified [OF laws that(1)]])
      (use created that(2) in \<open>auto simp: removed_created_def removal_outcome_def\<close>)
  have inspected: "wp (inspect_path (rd_os D) p) Q ?E t" if "\<And>safety u. same_view view s u
      \<Longrightarrow> (\<not> ps_exists safety \<Longrightarrow> nothing_there view p s) \<Longrightarrow> Q safety u" for Q
    by (rule wp_mono [OF raises_wp [OF raises_inspect [OF fs(2)] wp_inspect [OF fs(1), where s = t and p = p
          and Q = "\<lambda>safety u. same_view view s u \<and> (\<not> ps_exists safety \<longrightarrow> nothing_there view p s)" and E = "\<lambda>_. same_view view s"]]])
      (use t that E in \<open>auto simp: same_view_def nothing_there_def\<close>)
  have stat: "wp (attempt (world_call (os_stat (rd_os D) p)) (\<lambda>e. if e = Raised FileNotFoundError then Some (raise ?absent) else None))
      Q ?E u" if "same_view view s u" "\<And>st u'. same_view view s u' \<Longrightarrow> Q st u'" for Q u
    unfolding wp_attempt
    by (rule wp_stat [OF laws]) (use that E skip in \<open>auto simp: wp_raise same_view_def nothing_there_def\<close>)
  have entries: "wp (world_call (rd_has_entries D p)) Q ?E u"
    if "same_view view s u" "\<And>x u'. same_view view s u' \<Longrightarrow> Q x u'" for Q u
    by (rule wp_has_entries [OF laws]) (use that E in \<open>auto simp: same_view_def\<close>)
  show ?thesis
    unfolding remove_checked_directory_def Let_def wp_bind
  proof (rule inspected, goal_cases)
    case (1 safety u)
    show ?case
      using 1 E [OF 1(1)] skip [OF 1(1)]
      by (auto simp: wp_raise wp_bind wp_ret' split: option.split intro!: stat entries final E)
  qed
qed

text \<open>
  C23. Only what was created is removed. Whatever the outcome of the handler and whatever other processes
  do to the database, the files are as they were, or exactly one directory has been removed: the
  one the action names, of which the journal of the transaction shows that it created it, and which had
  the device and inode it was created with. The handler returns only after that removal, and it reports
  the action as skipped only if nothing (or a link to nothing) was there.
\<close>

theorem created_directory_removal_safe:
  assumes "removal_laws D view"
  shows "case remove_created_directory_recovery_action same_object S D a context action s of
      (result, s') \<Rightarrow> removal_outcome view context (value_path (jget (action_payload action) ''path'')) s result s'"
proof -
  let ?payload = "action_payload action" and ?m = "remove_created_directory_recovery_action same_object S D a context action"
  let ?p = "value_path (jget ?payload ''path'')"
  let ?E = "\<lambda>e s'. removal_outcome view context ?p s (Inl e :: failure + json) s'"
  have E: "?E e s" if "no_skip e" for e
    using that by (simp add: removal_outcome_def same_view_def)
  have checked: "no_skip e" if "check_removal same_object (os_env (rd_os D)) context ?payload ?p = Inl e" for e
    using that by (auto simp: check_removal_def Let_def split: if_splits)
  have "wp ?m (\<lambda>_. removed_created view context ?p s) ?E s"
    unfolding remove_created_directory_recovery_action_def wp_bind
    using E checked wp_remove_checked [OF assms fs.refl check_removal_created]
    by (auto simp: wp_lift wp_raise mapping_payload_copy_def jindex_def split: sum.split)
  then show ?thesis
    by (auto simp: wp_def removal_outcome_def split: sum.splits prod.splits)
qed

subsection \<open>A removal on the demo database\<close>

definition sample_removal :: "stat_world removal_calls" where
  "sample_removal = \<lparr>rd_os = sample_calls,
     rd_has_entries = (\<lambda>p w. (Inr (list_ex (\<lambda>(q, _). q \<noteq> p \<and> path_parent q = p \<and> stat_view w q \<noteq> None) w), w)),
     rd_identity_remove = Some (\<lambda>p i w. case stat_view w p of None \<Rightarrow> (Inl (Raised FileNotFoundError), w)
       | Some st \<Rightarrow> if st_kind st = FT_DIRECTORY \<and> identity_from_stat st = i then (Inr (), (p, None) # w)
                    else (Inl (Raised UnsafePathError), w))\<rparr>"

lemma sample_removal_laws: "removal_laws sample_removal stat_view"
  unfolding removal_laws_def
proof (intro conjI allI impI, goal_cases)
  case 1
  show ?case using sample_call_laws(1) by (simp add: sample_removal_def)
next
  case 2
  show ?case using sample_call_laws(2) by (simp add: sample_removal_def)
next
  case (7 remove p i w)
  then show ?case
    by (auto simp: sample_removal_def removed_def stat_view_def split: option.splits if_splits)
next
  case (6 remove p i w)
  then show ?case
    by (auto simp: sample_removal_def unskipping_def split: option.splits if_splits)
qed (auto simp: sample_removal_def looks_only_def unskipping_def sample_calls_def from_option_def
    split: option.splits if_splits)

definition removal_context :: recovery_context where
  "removal_context = demo_run_context\<lparr>rc_proof_contexts := map
     (\<lambda>(b, pc). (b, pc\<lparr>pc_batch := (rc_batch demo_run_context)\<lparr>br_batch_id := b\<rparr>\<rparr>)) (rc_proof_contexts demo_mkdir_context)\<rparr>"

definition removal_action :: recovery_action_record where
  "removal_action = (last (rc_recovery_actions demo_run_context))\<lparr>action_payload := plan_payload (hd demo_mkdir_plans)\<rparr>"

definition removal_state :: "stat_world run_state" where
  "removal_state = \<lparr>run_db = db_attempting, run_world = [(path_of ''/t/a/b'', Some (sample_stat FT_DIRECTORY 2))], run_tick = 0\<rparr>"

definition sample_removed :: "(failure + json) \<times> stat_world run_state" where
  "sample_removed = remove_created_directory_recovery_action (=) demo_surroundings sample_removal
     (recovery_authority ''b1'' w1 ''r1'') removal_context removal_action removal_state"

theorem created_directory_removal_safe_witness:
  "\<not> isl (fst sample_removed) \<and> removed_created stat_view removal_context (path_of ''/t/a/b'') removal_state (snd sample_removed)"
proof -
  have "\<not> isl (fst sample_removed)" by code_simp
  then obtain x s' where run: "sample_removed = (Inr x, s')" by (metis prod.collapse sum.collapse(2))
  have path: "value_path (jget (action_payload removal_action) ''path'') = path_of ''/t/a/b''" by code_simp
  have "case sample_removed of (result, s') \<Rightarrow>
      removal_outcome stat_view removal_context (path_of ''/t/a/b'') removal_state result s'"
    unfolding sample_removed_def path [symmetric] by (rule created_directory_removal_safe [OF sample_removal_laws])
  then show ?thesis by (simp add: run removal_outcome_def)
qed

end
