(* ===== verification/Recursive_Properties.thy ===== *)
theory Recursive_Properties
  imports Recursive_Mkdir Directory_Removal
begin

section \<open>What a recursive creation records can be undone\<close>

text \<open>
  The other half of \<open>mkdir_removals_only_created\<close>: a step that created its directory and recorded it is
  accepted by the planner of the recovery, and the planned removal is accepted by the handler, when
  a later batch of the same creation fails.
\<close>

subsection \<open>The payloads of the steps\<close>

text \<open>The payload of a batch that makes one directory of the plan.\<close>

definition step_payload :: "mkdir_plan \<Rightarrow> resource_handle \<Rightarrow> nat \<Rightarrow> json \<Rightarrow> bool" where
  "step_payload plan h n v \<longleftrightarrow> (\<exists>step i prior intent. jget (JObj intent) ''operation'' = JStr ''make_directory''
     \<and> v = canonical_json (JObj (assoc_update intent (step_metadata plan h step i n prior))))"

text \<open>What \<open>make_directory\<close> records of a step that succeeded.\<close>

definition step_recorded :: "mkdir_step \<Rightarrow> string \<Rightarrow> operation_record \<Rightarrow> checkpoint_record \<Rightarrow> bool" where
  "step_recorded step b operation after \<longleftrightarrow> operation_batch_id operation = b \<and> operation_type operation = ''make_directory''
     \<and> operation_resource_key operation = Some (step_resource_key step)
     \<and> jget (operation_payload operation) ''path'' = JStr (path_text (step_path step))
     \<and> jget (operation_payload operation) ''resource_key'' = JStr (step_resource_key step)
     \<and> checkpoint_batch_id after = b \<and> checkpoint_operation_id after = Some (operation_id operation)
     \<and> checkpoint_type after = ''after'' \<and> checkpoint_resource_key after = step_resource_key step
     \<and> (\<exists>type. jget (checkpoint_payload after) ''file_type'' = JStr type)"

text \<open>The records of the batch of the step, in the context of a batch of the same creation.\<close>

definition step_in_context ::
  "mkdir_plan \<Rightarrow> resource_handle \<Rightarrow> nat \<Rightarrow> recovery_context \<Rightarrow> string \<Rightarrow> operation_record \<Rightarrow> checkpoint_record \<Rightarrow> bool" where
  "step_in_context plan h n context b operation after \<longleftrightarrow> (\<exists>pc. proof_context_for_batch context b = Some pc
     \<and> br_owner (pc_batch pc) = br_owner (rc_batch context) \<and> br_run_id (pc_batch pc) = br_run_id (rc_batch context)
     \<and> br_operation_run_id (pc_batch pc) = br_operation_run_id (rc_batch context)
     \<and> br_operation_phase_id (pc_batch pc) = br_operation_phase_id (rc_batch context)
     \<and> step_payload plan h n (br_payload (pc_batch pc)) \<and> step_payload plan h n (br_payload (rc_batch context))
     \<and> find (\<lambda>x. operation_id x = operation_id operation) (pc_operations pc) = Some operation
     \<and> find (\<lambda>c. checkpoint_id c = checkpoint_id after) (pc_checkpoints pc) = Some after)"

lemma step_payload_group:
  assumes "step_payload plan h n v"
  shows "jget v ''operation'' = JStr ''make_directory''" "is_mapping (jget v ''recursive_mkdir'')"
    "jget (jget v ''recursive_mkdir'') ''requested_resource_key'' = JStr (rh_resource_key h)"
    "jget (jget v ''recursive_mkdir'') ''plan_target'' = JStr (path_text (plan_target plan))"
    "jget (jget v ''recursive_mkdir'') ''step_count'' = JInt (int n)"
  using assms
  by (auto simp: step_payload_def jget_assoc_update step_metadata_def assoc_update_def jget_assoc_set
      simp del: canonical_json.simps(1))

lemma step_lineage:
  assumes "step_payload plan h n v" and "step_payload plan h n v'"
  shows "same_recursive_batch_intent is_same v v'"
  by (simp add: same_recursive_batch_intent_def step_payload_group [OF assms(1)] step_payload_group [OF assms(2)] Let_def)

subsection \<open>The recorded step\<close>

lemma created_step_fields:
  assumes "created_step_recovery_metadata step i result = Some created"
    and "mr_operation result = Some operation" and "mr_after result = Some after"
  shows "jget created ''step_index'' = JInt (int i)" "jget created ''step_path'' = JStr (path_text (step_path step))"
    "jget created ''step_resource_key'' = JStr (step_resource_key step)"
    "jget created ''ownership_class'' = JStr ''created_by_transaction''"
    "jget created ''cleanup_policy'' = JStr ''owned_empty_directory_safe_ish''"
    "jget created ''backend_guarantee'' = JStr ''identity_conditional_remove''"
    "Some (jget created ''created_directory_identity'') = created_directory_identity step (checkpoint_payload after)"
    "jget created ''journaled_creation_proof'' = JObj
       [(''batch_id'', JStr (br_batch_id (mr_batch result))), (''operation_id'', JStr (operation_id operation)),
        (''operation_type'', JStr (operation_type operation)), (''checkpoint_id'', JStr (checkpoint_id after)),
        (''checkpoint_type'', JStr (checkpoint_type after)), (''path'', JStr (path_text (step_path step))),
        (''resource_key'', JStr (step_resource_key step))]"
  using assms by (auto simp: created_step_recovery_metadata_def)

lemma created_identity_fields:
  assumes "created_directory_identity step v = Some identity"
  shows "value_path (jget v ''path'') = step_path step" "jget v ''exists'' = JBool True"
    "py_str (jget v ''file_type'') = ''directory''"
    "is_int (jget v ''device'')" "is_int (jget v ''inode'')"
    "identity = JObj [(''path'', JStr (path_text (step_path step))), (''resource_key'', JStr (step_resource_key step)),
       (''file_type'', JStr ''directory''), (''device'', jget v ''device''), (''inode'', jget v ''inode'')]"
  using assms by (auto simp: created_directory_identity_def split: if_splits)

lemma int_canonical: "is_int v \<Longrightarrow> canonical_json v = v"
  by (cases v) (simp_all add: is_int_def py_int_def)

lemma recorded_evidence:
  assumes "created_directory_identity step (checkpoint_payload after) = Some identity"
    and "step_recorded step b operation after" and "path_wf (step_path step)"
  shows "creation_evidence b (step_path step) (step_resource_key step) ''after'' (canonical_json identity) operation after"
proof -
  note v = created_identity_fields [OF assms(1)]
  have same: "checkpoint_payload_matches_owned_directory_identity (checkpoint_payload after) (canonical_json identity)"
    using v(4,5) by (simp add: v(6) checkpoint_payload_matches_owned_directory_identity_def int_canonical int_py_eq
        del: canonical_json.simps(1))
  show ?thesis
    using assms(2,3) v(1-3) same
    by (auto simp: step_recorded_def creation_evidence_def payload_matches_action_path_and_resource_key_def
        value_path_def path_of_text py_str_def)
qed

lemma recorded_proof:
  assumes "created_step_recovery_metadata step i result = Some created"
    and "mr_operation result = Some operation" and "mr_after result = Some after"
    and "step_recorded step (br_batch_id (mr_batch result)) operation after"
    and "step_in_context plan h n context (br_batch_id (mr_batch result)) operation after" and "path_wf (step_path step)"
  shows "journaled_creation_proof_matches_action same_object (canonical_json (jget created ''journaled_creation_proof''))
    (step_path step) (step_resource_key step) (canonical_json (jget created ''created_directory_identity'')) context"
proof -
  note fields = created_step_fields [OF assms(1-3)]
  have evidence: "creation_evidence (br_batch_id (mr_batch result)) (step_path step) (step_resource_key step) ''after''
      (canonical_json (jget created ''created_directory_identity'')) operation after"
    by (rule recorded_evidence [OF fields(7) [symmetric] assms(4,6)])
  have types: "operation_type operation = ''make_directory''" "checkpoint_type after = ''after''"
    using assms(4) by (simp_all add: step_recorded_def)
  have form: "creation_proof_form (canonical_json (jget created ''journaled_creation_proof'')) (step_path step) (step_resource_key step)"
    using assms(6) types by (simp add: fields(8) creation_proof_form_def payload_identity_matches_action_def value_path_def
        path_of_text optional_str_def del: canonical_json.simps(1))
  let ?b = "br_batch_id (mr_batch result)"
  let ?v = "canonical_json (jget created ''journaled_creation_proof'')"
  obtain pc where pc: "proof_context_for_batch context ?b = Some pc"
    and same: "br_owner (pc_batch pc) = br_owner (rc_batch context)" "br_run_id (pc_batch pc) = br_run_id (rc_batch context)"
      "br_operation_run_id (pc_batch pc) = br_operation_run_id (rc_batch context)"
      "br_operation_phase_id (pc_batch pc) = br_operation_phase_id (rc_batch context)"
    and payloads: "step_payload plan h n (br_payload (rc_batch context))" "step_payload plan h n (br_payload (pc_batch pc))"
    and found: "find (\<lambda>x. operation_id x = operation_id operation) (pc_operations pc) = Some operation"
      "find (\<lambda>c. checkpoint_id c = checkpoint_id after) (pc_checkpoints pc) = Some after"
    using assms(5) unfolding step_in_context_def by blast
  have lineage: "proof_batch_matches_recursive_lineage is_same context (pc_batch pc)" for is_same
    using step_lineage [OF payloads]
    by (simp add: proof_batch_matches_recursive_lineage_def same same_optional_value_def split: option.split)
  have ids: "optional_str (jget ?v ''batch_id'') = Some ?b" "optional_str (jget ?v ''operation_id'') = Some (operation_id operation)"
    "optional_str (jget ?v ''checkpoint_id'') = Some (checkpoint_id after)" "py_str (jget ?v ''checkpoint_type'') = ''after''"
    by (simp_all add: fields(8) types optional_str_def del: canonical_json.simps(1))
  show ?thesis
    by (simp only: journaled_creation_proof_matches_action_def ids prod.case option.case pc found lineage form not_True_eq_False
        if_False evidence)
qed

subsection \<open>The planner and the handler accept it\<close>

lemma canonical_idem [simp]: "canonical_json (canonical_json v) = canonical_json v"
proof (induction v rule: canonical_json.induct)
  case (1 kvs)
  let ?f = "\<lambda>p. (fst p, canonical_json (snd p))"
  have "map ?f (sort_key fst (map ?f kvs)) = sort_key fst (map ?f kvs)"
    using 1 by (intro map_idI) auto
  then show ?case by (simp add: sort_key_id_if_sorted)
qed simp_all

lemma step_planned:
  assumes "created_step_recovery_metadata step i result = Some created"
    and "mr_operation result = Some operation" and "mr_after result = Some after"
    and "step_recorded step (br_batch_id (mr_batch result)) operation after"
    and "step_in_context plan h n context (br_batch_id (mr_batch result)) operation after" and "path_wf (step_path step)"
  obtains payload where "planned_recursive_mkdir_cleanup_payload same_object context (canonical_json created) = Inr (Some payload)"
    "jget payload ''path'' = JStr (path_text (step_path step))"
    "jget payload ''step_resource_key'' = JStr (step_resource_key step)"
    "jget payload ''ownership_class'' = JStr ''created_by_transaction''"
    "jget payload ''cleanup_policy'' = JStr ''owned_empty_directory_safe_ish''"
    "jget payload ''backend_guarantee'' = JStr ''identity_conditional_remove''"
    "jget payload ''created_directory_identity'' = canonical_json (jget created ''created_directory_identity'')"
    "jget payload ''journaled_creation_proof'' = canonical_json (jget created ''journaled_creation_proof'')"
    "jget (jget payload ''recursive_mkdir_cleanup'') ''step_index'' = JInt (int i)"
proof -
  note fields = created_step_fields [OF assms(1-3)]
  note identity = created_identity_fields [OF fields(7) [symmetric]]
  have maps: "is_mapping (jget created ''created_directory_identity'')" "is_mapping (jget created ''journaled_creation_proof'')"
    by (simp_all add: identity(6) fields(8))
  have names: "value_path (JStr (path_text (step_path step))) = step_path step"
    using assms(6) by (simp add: value_path_def path_of_text)
  have own: "payload_identity_matches_action (canonical_json (jget created ''created_directory_identity'')) (step_path step) (step_resource_key step)"
    by (simp add: payload_identity_matches_action_def identity(6) names del: canonical_json.simps(1))
  have index: "step_index_text (canonical_json (jget created ''step_index'')) = Inr (int i)"
    by (simp add: fields(1) step_index_text_def optional_str_def py_str_def parse_int_text str_or_def from_option_def)
  let ?payload = "JObj
    [(''path'', JStr (path_text (step_path step))), (''step_resource_key'', JStr (step_resource_key step)),
     (''ownership_class'', JStr ''created_by_transaction''),
     (''created_directory_identity'', canonical_json (jget created ''created_directory_identity'')),
     (''journaled_creation_proof'', canonical_json (jget created ''journaled_creation_proof'')),
     (''cleanup_policy'', JStr ''owned_empty_directory_safe_ish''),
     (''backend_guarantee'', JStr ''identity_conditional_remove''),
     (''cleanup'', if is_mapping (jget created ''cleanup'') then canonical_json (jget created ''cleanup'') else JObj []),
     (''recursive_mkdir_cleanup'', JObj [(''step_index'', JInt (int i))])]"
  have "planned_recursive_mkdir_cleanup_payload same_object context (canonical_json created) = Inr (Some ?payload)"
    using recorded_proof [OF assms, of same_object]
    by (simp add: planned_recursive_mkdir_cleanup_payload_def Let_def fields(2-6) optional_str_def names own maps index
        allowed_directory_remove_guarantees_def jsonable_mapping_def opt_json_def del: canonical_json.simps(1))
  then show ?thesis by (rule that) simp_all
qed

text \<open>
  C24. A created directory can be undone. Let a step of a recursive creation record that it created its
  directory, and let the context of a later batch of the same creation, by the same owner in the same
  run, hold the batch of that step with its operation and its checkpoint. Then the planner makes of
  the recorded step (as it is read back from its JSON text) a removal of that directory with the index
  of the step, and the handler of the removal accepts what the planner recorded.
\<close>

theorem created_steps_can_be_undone:
  assumes "created_step_recovery_metadata step i result = Some created"
    and "mr_operation result = Some operation" and "mr_after result = Some after"
    and "step_recorded step (br_batch_id (mr_batch result)) operation after"
    and "step_in_context plan h n context (br_batch_id (mr_batch result)) operation after"
    and "path_wf (step_path step)" and "step_resource_key step = directory_resource_key E (step_path step)"
  shows "\<exists>payload. planned_recursive_mkdir_cleanup_payload same_object context (canonical_json created) = Inr (Some payload)
    \<and> jget payload ''path'' = JStr (path_text (step_path step))
    \<and> jget (jget payload ''recursive_mkdir_cleanup'') ''step_index'' = JInt (int i)
    \<and> check_removal same_object E context (canonical_json payload) (step_path step) = Inr ()"
proof -
  note fields = created_step_fields [OF assms(1-3)]
  note identity = created_identity_fields [OF fields(7) [symmetric]]
  obtain payload where planned: "planned_recursive_mkdir_cleanup_payload same_object context (canonical_json created) = Inr (Some payload)"
    and payload: "jget payload ''path'' = JStr (path_text (step_path step))"
      "jget payload ''step_resource_key'' = JStr (step_resource_key step)"
      "jget payload ''ownership_class'' = JStr ''created_by_transaction''"
      "jget payload ''cleanup_policy'' = JStr ''owned_empty_directory_safe_ish''"
      "jget payload ''backend_guarantee'' = JStr ''identity_conditional_remove''"
      "jget payload ''created_directory_identity'' = canonical_json (jget created ''created_directory_identity'')"
      "jget payload ''journaled_creation_proof'' = canonical_json (jget created ''journaled_creation_proof'')"
      "jget (jget payload ''recursive_mkdir_cleanup'') ''step_index'' = JInt (int i)"
    by (rule step_planned [OF assms(1-6)])
  have maps: "is_mapping (jget created ''created_directory_identity'')" "is_mapping (jget created ''journaled_creation_proof'')"
    by (simp_all add: identity(6) fields(8))
  have own: "payload_identity_matches_action (canonical_json (jget created ''created_directory_identity'')) (step_path step) (step_resource_key step)"
    using assms(6) by (simp add: payload_identity_matches_action_def identity(6) value_path_def path_of_text
        del: canonical_json.simps(1))
  have key: "removal_resource_key E (canonical_json payload) (step_path step) = step_resource_key step"
    by (simp add: removal_resource_key_def payload(2) assms(7))
  have "check_removal same_object E context (canonical_json payload) (step_path step) = Inr ()"
    using recorded_proof [OF assms(1-6), of same_object]
    by (simp add: check_removal_def Let_def key payload own maps assms(7) [symmetric] optional_str_def
        allowed_directory_remove_guarantees_def del: canonical_json.simps(1))
  then show ?thesis using planned payload(1,8) by blast
qed

subsection \<open>A creation of two directories\<close>

definition undo_step :: mkdir_step where
  "undo_step = make_step sample_env (path_of ''/t/a'')"

definition undo_plan :: mkdir_plan where
  "undo_plan = \<lparr>plan_target = path_of ''/t/a/b'', plan_parents = True, plan_exist_ok = False, plan_root_boundary = None,
     plan_target_existed_before = False, plan_steps = [undo_step, make_step sample_env (path_of ''/t/a/b'')]\<rparr>"

definition undo_payload :: "mkdir_step \<Rightarrow> nat \<Rightarrow> json" where
  "undo_payload step i = canonical_json (JObj (assoc_update [(''operation'', JStr ''make_directory'')]
     (step_metadata undo_plan (directory_resource sample_env (path_of ''/t/a/b'') None None) step i 2 [])))"

definition undo_batch :: operation_batch_record where
  "undo_batch = (rc_batch (demo_context [] (undo_payload undo_step 1)))\<lparr>br_batch_id := ''b0''\<rparr>"

definition undo_operation :: operation_record where
  "undo_operation = (demo_dir_operation ''/t/a'')\<lparr>operation_payload :=
     JObj [(''path'', JStr ''/t/a''), (''resource_key'', JStr ''directory:/t/a'')]\<rparr>"

definition undo_result :: mutation_result where
  "undo_result = \<lparr>mr_batch = undo_batch, mr_operation = Some undo_operation, mr_before = None,
     mr_after = Some (demo_dir_checkpoint ''/t/a'' 1), mr_recovery = None, mr_skipped = False\<rparr>"

definition undo_context :: recovery_context where
  "undo_context = (demo_context [] (undo_payload (make_step sample_env (path_of ''/t/a/b'')) 2))\<lparr>rc_proof_contexts :=
     [(''b0'', \<lparr>pc_batch = undo_batch, pc_operations = [undo_operation], pc_checkpoints = [demo_dir_checkpoint ''/t/a'' 1]\<rparr>)]\<rparr>"

definition undo_created :: json where
  "undo_created = the (created_step_recovery_metadata undo_step 1 undo_result)"

theorem created_steps_can_be_undone_witness:
  "\<exists>payload. planned_recursive_mkdir_cleanup_payload (=) undo_context (canonical_json undo_created) = Inr (Some payload)
    \<and> jget payload ''path'' = JStr ''/t/a'' \<and> jget (jget payload ''recursive_mkdir_cleanup'') ''step_index'' = JInt 1
    \<and> check_removal (=) sample_env undo_context (canonical_json payload) (path_of ''/t/a'') = Inr ()"
proof -
  let ?h = "directory_resource sample_env (path_of ''/t/a/b'') None None"
  have "created_step_recovery_metadata undo_step 1 undo_result \<noteq> None" by code_simp
  then have created: "created_step_recovery_metadata undo_step 1 undo_result = Some undo_created"
    by (simp add: undo_created_def)
  have result: "mr_operation undo_result = Some undo_operation" "mr_after undo_result = Some (demo_dir_checkpoint ''/t/a'' 1)"
    "br_batch_id (mr_batch undo_result) = ''b0''"
    by (simp_all add: undo_result_def undo_batch_def)
  have key: "step_resource_key undo_step = ''directory:/t/a''" "path_text (step_path undo_step) = ''/t/a''"
    "step_resource_key undo_step = directory_resource_key sample_env (step_path undo_step)" "path_wf (step_path undo_step)"
    "step_path undo_step = path_of ''/t/a''"
    by code_simp+
  have recorded: "step_recorded undo_step ''b0'' undo_operation (demo_dir_checkpoint ''/t/a'' 1)"
    by (simp add: step_recorded_def undo_operation_def demo_dir_operation_def demo_dir_checkpoint_def demo_dir_identity_def key(1,2))
  have "step_payload undo_plan ?h 2 (undo_payload step i)" for step i
    unfolding step_payload_def undo_payload_def by (intro exI conjI, rule_tac [2] refl) simp
  then have "step_in_context undo_plan ?h 2 undo_context ''b0'' undo_operation (demo_dir_checkpoint ''/t/a'' 1)"
    by (simp add: step_in_context_def undo_context_def proof_context_for_batch_def own_proof_context_def demo_context_def undo_batch_def)
  from created_steps_can_be_undone [OF created result(1,2), unfolded result(3), OF recorded this key(4,3), where same_object = "(=)"]
  show ?thesis unfolding key(2) unfolding key(5) by simp
qed

end
