(* ===== verification/Spec2Isabelle.thy ===== *)
theory Spec2Isabelle
  imports Lease_History Start_Properties Artifact_Properties Directory_Creation Mutation_Outcomes
    Restore_Properties Exit_Commit Recursive_Properties
begin

text \<open>
  A verification library for \<open>safe_fs_ops\<close>, a Python package that lets several workers change
  files of a shared workspace. All coordination goes through one SQLite database: leases say
  who may work, claims say on what, and an operation journal records what is about to be done,
  what was done and how a failed batch of operations was recovered. Paths below are relative to
  \<open>src/src/safe_fs_ops\<close>.

  \<^bold>\<open>The database.\<close>

  \<^item> \<open>Prelude\<close>, \<open>Sql_Table\<close>, \<open>Event_Log\<close>: the shared vocabulary. A method that can raise is a
    function into \<open>error + 'a\<close>; \<open>transaction\<close> is \<open>SqliteStore.transaction\<close> of
    \<open>sqlite_store/store.py\<close>, which commits or leaves the database unchanged. A table is the
    list of its rows in storage order, and the five statement shapes of the stores are five
    functions on it, with the uniqueness constraints as a clash predicate. The locale
    \<open>keyed_table\<close> states what a table with a key promises, \<open>event_log\<close> and \<open>status_log\<close> extend
    it to the numbered logs of the journal; each is interpreted at the tables of the code.
  \<^item> \<open>Json\<close>, \<open>Python_Values\<close>, \<open>Canonical_Json\<close>: JSON values, \<open>str\<close>, \<open>int\<close> and \<open>pathlib.Path\<close> as
    far as the recorded payloads need them (ASCII text, POSIX paths), and lookups in stored payloads.
  \<^item> \<open>Models\<close>, \<open>Authority\<close>, \<open>Leases\<close>, \<open>Claims\<close>: \<open>workspace_state/models.py\<close>, \<open>orm.py\<close>, \<open>leases.py\<close>,
    \<open>claims.py\<close> and the renewal of \<open>lease_heartbeat.py\<close>. The locale \<open>fencing_authority\<close> is what
    the other stores rely on when they call \<open>require_current_lease\<close>; it is interpreted on the
    lease store alone, on leases and claims, and on the whole database (\<open>Journal_History\<close>).
  \<^item> \<open>Journal_Rows\<close> (\<open>operation_journal/journal_schema.py\<close>, \<open>journal_rows.py\<close>, \<open>models.py\<close>),
    \<open>Journal_Guards\<close> (\<open>journal_guards.py\<close>), \<open>Operation_Runs\<close> (\<open>journal_operation_runs.py\<close>,
    \<open>journal_operation_run_diagnostics.py\<close>, \<open>journal_batch_links.py\<close>), \<open>Journal_Batch\<close>
    (\<open>journal_batch.py\<close>), \<open>Journal_Recovery\<close> (\<open>journal_recovery.py\<close>), \<open>Recovery_Actions\<close>
    (\<open>journal_recovery_actions.py\<close>, \<open>journal_recovery_reads.py\<close>), \<open>Artifact_Cleanup\<close>
    (\<open>journal_artifact_cleanup.py\<close>): one definition per method of the operation journal, over
    \<open>journal_db\<close>, the record of the eight journal tables, the leases and the claims.
  \<^item> \<open>Journal_Invariant\<close>, \<open>Journal_Effects\<close>, \<open>Journal_Writes\<close>, \<open>Journal_Calls\<close>, \<open>Journal_Errors\<close>,
    \<open>Run_Status\<close>, \<open>Journal_Machine\<close>, \<open>Journal_History\<close>, \<open>Journal_Listings\<close>: the proof layers of the
    journal. The invariant of its databases; one lemma per operation that unfolds it; the abstract
    view of a call as a sequence of authorised writes; the errors a call can raise; the step
    relation over all public calls of all workers and its reachable databases. No history has a
    bound on its length, on the number of workers or on the clock readings they use.

  \<^bold>\<open>Programs over the database and the files.\<close>

  \<^item> \<open>Programs\<close>: a program passes through many transactions; \<open>surroundings\<close> fixes the clock
    readings, the ids drawn and, before every transaction, what other processes did to the
    database in the meantime. The files are a state of their own that the system calls, which are
    parameters, transform. The locale \<open>state_relation\<close> carries a relation between states through a
    program; \<open>store_relation\<close> (\<open>Store_Relations\<close>) and \<open>db_relation\<close> (\<open>Rollback_Steps\<close>) extend it to
    the calls of the stores. \<open>Program_Logic\<close> and \<open>Program_Failures\<close> give weakest preconditions for
    values and for exceptions.
  \<^item> \<open>Lexical_Paths\<close>, \<open>Path_Safety\<close> (\<open>resources.py\<close>, \<open>filesystem_ops/paths.py\<close>), \<open>Directory_Creation\<close>
    (\<open>recursive_mkdir.py\<close>), \<open>File_Backups\<close>, \<open>Backup_Restore\<close> (\<open>filesystem_ops/models.py\<close>,
    \<open>backups.py\<close>), \<open>Renames\<close> (\<open>filesystem_ops/renames.py\<close>, \<open>rename_recovery_actions.py\<close>): paths and
    resource keys, and the operations on files that recoveries use.
  \<^item> \<open>Mutation_Records\<close>, \<open>File_Mutations\<close>, \<open>Move_Mutations\<close>: the journaled mutations of
    \<open>operation_journal/filesystem_mutations.py\<close> from the check of lease and claim to the record of
    their end; \<open>Mutation_Steps\<close>, \<open>Mutation_Properties\<close>, \<open>Mutation_Outcomes\<close> prove them.
  \<^item> \<open>File_Planning\<close>, \<open>Mkdir_Planning\<close>, \<open>Captured_Directories\<close>, \<open>Tree_Artifacts\<close>: from the records
    of a batch to its recovery actions, or to the demand for manual intervention
    (\<open>file_recovery_planning.py\<close>, \<open>recursive_mkdir_recovery_planning.py\<close>,
    \<open>rename_recovery_planning.py\<close>, \<open>captured_directory_recovery_planning.py\<close>,
    \<open>captured_directory_recovery_actions.py\<close>, \<open>legacy_captures.py\<close>, \<open>tree_backup_recovery.py\<close>).
  \<^item> \<open>Directory_Removal\<close>: the handler that removes created directories
    (\<open>recursive_mkdir_recovery_actions.py\<close>).
  \<^item> \<open>Recovery_Runner\<close>, \<open>Runner_Steps\<close>: \<open>filesystem_recovery.py\<close> and \<open>recovery_runner.py\<close>, which plan,
    authorise, run and record the actions of a recovery.
  \<^item> \<open>Backup_Artifacts\<close> (\<open>file_backup_artifacts.py\<close>), \<open>Artifact_Removal\<close> (second half of
    \<open>workspace_rollback.py\<close>): what finished batches leave behind and how it is removed.

  \<^bold>\<open>Workspace transactions.\<close> The state of a transaction object joins the files as the world of a
  program.

  \<^item> \<open>Transaction_State\<close>: the start with its claims, the cleanup and the hand-over
    (\<open>workspace_transaction.py\<close>, \<open>workspace_transaction_bookkeeping.py\<close>).
  \<^item> \<open>Transaction_Operations\<close>, \<open>Recursive_Mkdir\<close>: the operations of a transaction
    (\<open>workspace_transaction_utils.py\<close>, \<open>workspace_recursive_mkdir.py\<close>).
  \<^item> \<open>Transaction_Rollback\<close>: the first half of \<open>workspace_rollback.py\<close>; which batches are recovered, in
    which order, and which cannot be recovered without a human.
  \<^item> \<open>Transaction_Exit\<close>: \<open>__exit__\<close> with \<open>workspace_transaction_operation.py\<close>, on every path.
  \<^item> \<open>Transaction_Claims\<close>, \<open>Rollback_Steps\<close>, \<open>Exit_Steps\<close>: what these programs keep: the claims that a
    transaction remembers are those that the store has under its scope.

  \<^bold>\<open>What is proved.\<close> The properties are numbered; each number stands in the text before its theorem.

  \<^item> \<open>Lease_History\<close>: mutual exclusion over the histories of lease calls. A history records what the
    processes were answered; a lease changes hands only after its release or its expiry, and who
    has a current lease has the newest grant. \<open>Leases\<close>, \<open>Claims\<close>: refinement of an abstract lease
    and claim map, fencing of superseded and released leases, ownership of claims.
  \<^item> \<open>Journal_Properties\<close>, \<open>Record_Properties\<close>, \<open>Recovery_Properties\<close>, \<open>Status_Properties\<close>,
    \<open>Start_Properties\<close>: idempotent batch creation, the phase graph, kept outcomes, fencing of
    batches, gapless sequence numbers, what a recovery can rely on, the status machines, and the
    start of a batch with its intent on record.
  \<^item> \<open>Planning_Properties\<close>: which recorded proofs a planned restore, no-op or directory removal rests on.
  \<^item> \<open>Runner_Properties\<close>: what a run of the recovery records and when it calls the handlers that
    change files, under arbitrary interference of other processes.
  \<^item> \<open>Directory_Creation\<close>, \<open>Backup_Properties\<close>, \<open>Restore_Properties\<close>, \<open>Artifact_Properties\<close>,
    \<open>Rename_Properties\<close>, \<open>Captured_Directories\<close>: the planner of directories ends and is exact;
    restores, renames back and removals of artifacts change nothing but what was recorded, and a
    restore reports each obstacle with its reason; what is recorded can be read back.
  \<^item> \<open>Directory_Removal\<close>, \<open>Recursive_Properties\<close>: only a directory with the recorded identity is
    removed, and what a recursive creation records of a step passes the checks of that handler.
  \<^item> \<open>Mutation_Properties\<close>, \<open>Mutation_Outcomes\<close>: files are changed only after the journal holds what a
    recovery needs, and the journal says how a mutation ended.
  \<^item> \<open>Transaction_Properties\<close>, \<open>Rollback_Properties\<close>, \<open>Exit_Properties\<close>, \<open>Exit_Commit\<close>: a start is all
    or nothing while the heartbeat lives; a rollback that reports success has recovered every batch; a failed transaction is
    undone or handed over; a successful one commits or hands over, and claims are never released in
    part. \<open>Exit_Commit\<close> also shows a path on which \<open>__exit__\<close> raises and keeps the claims for nobody.

  \<^bold>\<open>Parameters.\<close> SHA-256, \<open>json.loads\<close>, object identity of two loaded JSON values, the system calls on
  files, clock readings, random tokens and ids are arguments of the definitions. Ids are only
  assumed to be fresh where a statement says so, and a clash of a supposedly unique id is modelled
  as the error of the database. What is assumed of the handlers of a recovery is stated as a
  hypothesis: they change the database by calls of the stores only. Time is an integer; the
  conversion of time stamps to text is not modelled. Recursions are structural, over lists or paths
  with a measure; the one loop that the code leaves open, \<open>collect_missing_chain\<close>, is a
  \<open>partial_function\<close> and is proved to end. No fuel is used.

  \<^bold>\<open>Not modelled.\<close> Opening of database files, schema migrations and the SQL text itself; the
  heartbeat thread (its renewal step and its error are modelled, not its timing); backups and restores of whole trees; \<open>SafeOperation\<close> and
  \<open>SafePhase\<close>, which group operations under explicit runs and phases; the recovery of batches that other runs
  abandoned and the adoption of captures of earlier versions; the primitives on descriptors and
  paths and the Windows backend.
\<close>

end
